(* ===== verification/Prelude.thy ===== *)
theory Prelude
  imports Main "HOL-Library.Word" "HOL-Library.Sublist"
begin

text \<open>
  The vocabulary every component shares: fallible stateful operations (the
  \<open>async fn ... -> Result<T, E>\<close> of the source), a weakest-precondition calculus
  for them, the loops the source writes over vectors, and the string functions of
  the Rust standard library that the components call.  Strings are lists of
  8-bit characters, that is the UTF-8 bytes of a Rust \<open>String\<close>, so that
  \<open>length\<close> is \<open>str::len\<close>.
\<close>

named_theorems wp_simps \<open>weakest preconditions of the constructs of the operation monad\<close>
named_theorems wp_rules \<open>weakest preconditions of the operations of the components\<close>
named_theorems run_simps \<open>equations that run an operation on a concrete state\<close>
named_theorems returns \<open>when the constructs of the operation monad return a value\<close>
named_theorems keeps_intros \<open>which operations keep an invariant of the state\<close>

section \<open>Operations\<close>

text \<open>
  An operation reads and changes a state of type \<open>'w\<close> (everything outside the
  function: the database, the clock, the generators) and either fails or returns
  a value.  State changes made before a failure persist, as they do in the source.
\<close>

type_synonym ('w, 'e, 'a) op = "'w \<Rightarrow> ('e + 'a) \<times> 'w"

definition ok :: "'a \<Rightarrow> ('w, 'e, 'a) op" where
  "ok a w = (Inr a, w)"

definition err :: "'e \<Rightarrow> ('w, 'e, 'a) op" where
  "err e w = (Inl e, w)"

text \<open>\<open>await m f\<close> is \<open>let x = m.await?; f(x)\<close>.\<close>

definition await :: "('w, 'e, 'a) op \<Rightarrow> ('a \<Rightarrow> ('w, 'e, 'b) op) \<Rightarrow> ('w, 'e, 'b) op" where
  "await m f w = (case m w of (Inl e, w') \<Rightarrow> (Inl e, w') | (Inr a, w') \<Rightarrow> f a w')"

definition map_err :: "('e \<Rightarrow> 'f) \<Rightarrow> ('w, 'e, 'a) op \<Rightarrow> ('w, 'f, 'a) op" where
  "map_err g m w = (case m w of (Inl e, w') \<Rightarrow> (Inl (g e), w') | (Inr a, w') \<Rightarrow> (Inr a, w'))"

text \<open>\<open>lift\<close> turns a pure \<open>Result\<close> into an operation, \<open>effect\<close> an infallible effect.\<close>

definition lift :: "'e + 'a \<Rightarrow> ('w, 'e, 'a) op" where
  "lift r w = (r, w)"

definition effect :: "('w \<Rightarrow> 'a \<times> 'w) \<Rightarrow> ('w, 'e, 'a) op" where
  "effect f w = (case f w of (a, w') \<Rightarrow> (Inr a, w'))"

text \<open>\<open>ok_or e x\<close> is \<open>Option::ok_or_else\<close>; \<open>ensure b e\<close> is \<open>if !b { return Err(e) }\<close>.\<close>

definition ok_or :: "'e \<Rightarrow> 'a option \<Rightarrow> 'e + 'a" where
  "ok_or e x = (case x of None \<Rightarrow> Inl e | Some a \<Rightarrow> Inr a)"

definition ensure :: "bool \<Rightarrow> 'e \<Rightarrow> ('w, 'e, unit) op" where
  "ensure b e = (if b then ok () else err e)"

text \<open>\<open>match m.await\<close> looks at the result instead of returning the error.\<close>

definition attempt_op :: "('s, 'e, 'a) op \<Rightarrow> ('s, 'f, 'e + 'a) op" where
  "attempt_op m s = (case m s of (r, s') \<Rightarrow> (Inr r, s'))"

text \<open>A \<open>for\<close> loop that carries a value, and the loop that carries none.\<close>

fun fold_op :: "('s \<Rightarrow> 'b \<Rightarrow> ('w, 'e, 's) op) \<Rightarrow> 's \<Rightarrow> 'b list \<Rightarrow> ('w, 'e, 's) op" where
  "fold_op f s [] = ok s"
| "fold_op f s (x # xs) = await (f s x) (\<lambda>s'. fold_op f s' xs)"

definition for_each :: "('b \<Rightarrow> ('w, 'e, unit) op) \<Rightarrow> 'b list \<Rightarrow> ('w, 'e, unit) op" where
  "for_each f = fold_op (\<lambda>_ x. f x) ()"

text \<open>Pure results: \<open>and_then\<close>, \<open>map_err\<close> and \<open>collect::<Result<Vec<_>, _>>\<close>.\<close>

definition and_then :: "'e + 'a \<Rightarrow> ('a \<Rightarrow> 'e + 'b) \<Rightarrow> 'e + 'b" where
  "and_then r f = (case r of Inl e \<Rightarrow> Inl e | Inr a \<Rightarrow> f a)"

definition result_map_err :: "('e \<Rightarrow> 'f) \<Rightarrow> 'e + 'a \<Rightarrow> 'f + 'a" where
  "result_map_err g r = (case r of Inl e \<Rightarrow> Inl (g e) | Inr a \<Rightarrow> Inr a)"

fun try_collect :: "('b \<Rightarrow> 'e + 'a) \<Rightarrow> 'b list \<Rightarrow> 'e + 'a list" where
  "try_collect f [] = Inr []"
| "try_collect f (x # xs) = and_then (f x) (\<lambda>y. and_then (try_collect f xs) (\<lambda>ys. Inr (y # ys)))"

lemmas op_defs [run_simps] =
  ok_def err_def await_def map_err_def lift_def effect_def ok_or_def ensure_def
  for_each_def and_then_def result_map_err_def

section \<open>Weakest preconditions\<close>

text \<open>\<open>wp m Q X w\<close>: run from \<open>w\<close>, \<open>m\<close> returns a value that satisfies \<open>Q\<close> with the
  final state, or fails with an error that satisfies \<open>X\<close> with it.\<close>

definition wp :: "('w, 'e, 'a) op \<Rightarrow> ('a \<Rightarrow> 'w \<Rightarrow> bool) \<Rightarrow> ('e \<Rightarrow> 'w \<Rightarrow> bool) \<Rightarrow> 'w \<Rightarrow> bool" where
  "wp m Q X w = (case m w of (Inr a, w') \<Rightarrow> Q a w' | (Inl e, w') \<Rightarrow> X e w')"

lemma wp_ok [wp_simps]: "wp (ok a) Q X w = Q a w"
  by (simp add: wp_def ok_def)

lemma wp_err [wp_simps]: "wp (err e) Q X w = X e w"
  by (simp add: wp_def err_def)

lemma wp_await [wp_simps]: "wp (await m f) Q X w = wp m (\<lambda>a. wp (f a) Q X) X w"
  by (simp add: wp_def await_def split: prod.split sum.split)

lemma wp_map_err [wp_simps]: "wp (map_err g m) Q X w = wp m Q (\<lambda>e. X (g e)) w"
  by (simp add: wp_def map_err_def split: prod.split sum.split)

lemma wp_lift [wp_simps]: "wp (lift r) Q X w = (case r of Inl e \<Rightarrow> X e w | Inr a \<Rightarrow> Q a w)"
  by (simp add: wp_def lift_def split: sum.split)

lemma wp_effect: "wp (effect f) Q X w = (case f w of (a, w') \<Rightarrow> Q a w')"
  by (simp add: wp_def effect_def split: prod.split)

lemma wp_ensure [wp_simps]: "wp (ensure b e) Q X w = (if b then Q () w else X e w)"
  by (simp add: ensure_def wp_simps)

lemma wp_if [wp_simps]:
  "wp (if b then m else n) Q X w = (if b then wp m Q X w else wp n Q X w)"
  by simp

lemma wp_option [wp_simps]:
  "wp (case x of None \<Rightarrow> m | Some a \<Rightarrow> f a) Q X w
    = (case x of None \<Rightarrow> wp m Q X w | Some a \<Rightarrow> wp (f a) Q X w)"
  by (simp split: option.split)

lemma wp_prod [wp_simps]:
  "wp (case p of (a, b) \<Rightarrow> f a b) Q X w = (case p of (a, b) \<Rightarrow> wp (f a b) Q X w)"
  by (simp split: prod.split)

lemma wp_run: "wp m Q X w \<Longrightarrow> m w = (Inr a, w') \<Longrightarrow> Q a w'"
  by (simp add: wp_def)

lemma wp_run_err: "wp m Q X w \<Longrightarrow> m w = (Inl e, w') \<Longrightarrow> X e w'"
  by (simp add: wp_def)

lemma wp_either:
  "wp m (\<lambda>_. P) (\<lambda>_. P) w \<Longrightarrow> m w = (r, w') \<Longrightarrow> P w'"
  by (cases r) (auto simp: wp_def)

lemma wp_I:
  "(\<And>a w'. m w = (Inr a, w') \<Longrightarrow> Q a w') \<Longrightarrow> (\<And>e w'. m w = (Inl e, w') \<Longrightarrow> X e w')
    \<Longrightarrow> wp m Q X w"
  by (simp add: wp_def split: prod.split sum.split)

lemma wp_conseq:
  "wp m Q X w \<Longrightarrow> (\<And>a w'. Q a w' \<Longrightarrow> Q' a w') \<Longrightarrow> (\<And>e w'. X e w' \<Longrightarrow> X' e w')
    \<Longrightarrow> wp m Q' X' w"
  by (auto simp: wp_def split: prod.splits sum.splits)

lemma wp_conj:
  "wp m Q X w \<Longrightarrow> wp m Q' X' w \<Longrightarrow> wp m (\<lambda>a w. Q a w \<and> Q' a w) (\<lambda>e w. X e w \<and> X' e w) w"
  by (simp add: wp_def split: prod.splits sum.splits)

lemma wp_live: "wp m Q X w \<Longrightarrow> \<exists>a w'. m w = (Inr a, w') \<Longrightarrow> wp m Q X' w"
  by (auto simp: wp_def)

lemma wp_fst:
  "wp m (\<lambda>a _. v = Inr a) (\<lambda>e _. v = Inl e) w \<Longrightarrow> fst (m w) = v"
  by (auto simp: wp_def split: prod.splits sum.splits)

text \<open>The same rules for conditions that are functions.\<close>

lemma wp_ok_fun: "wp (ok a) Q X = Q a"
  by (rule ext) (rule wp_ok)

lemma wp_await_fun: "wp (await m f) Q X = wp m (\<lambda>a. wp (f a) Q X) X"
  by (rule ext) (rule wp_await)

lemma wp_map_err_fun: "wp (map_err g m) Q X = wp m Q (\<lambda>e. X (g e))"
  by (rule ext) (rule wp_map_err)

lemma wp_attempt_op: "wp (attempt_op m) Q X s = wp m (\<lambda>a. Q (Inr a)) (\<lambda>e. Q (Inl e)) s"
  by (simp add: wp_def attempt_op_def split: prod.split sum.split)

lemma wp_attempt_fun: "wp (attempt_op m) Q X = wp m (\<lambda>a. Q (Inr a)) (\<lambda>e. Q (Inl e))"
  by (rule ext) (rule wp_attempt_op)

lemma await_assoc: "await (await m f) g = await m (\<lambda>a. await (f a) g)"
  by (rule ext) (auto simp: await_def split: prod.split sum.split)

lemma await_ok: "await (ok a) f = f a"
  by (rule ext) (simp add: await_def ok_def)

text \<open>A loop keeps an invariant that every iteration keeps.\<close>

lemma wp_fold_op:
  assumes step: "\<And>s x w. x \<in> set xs \<Longrightarrow> I s w \<Longrightarrow> wp (f s x) I X w" and "I s w"
  shows "wp (fold_op f s xs) I X w"
  using assms
proof (induction xs arbitrary: s w)
  case Nil
  then show ?case by (simp add: wp_simps)
next
  case (Cons x xs)
  have "wp (f s x) I X w" using Cons.prems by simp
  moreover have "\<And>s w. I s w \<Longrightarrow> wp (fold_op f s xs) I X w" using Cons by simp
  ultimately show ?case by (auto simp: wp_simps elim: wp_conseq)
qed

text \<open>The same with the processed prefix visible to the invariant.\<close>

lemma wp_fold_op_prefix:
  assumes "\<And>s ys x zs w. xs = ys @ x # zs \<Longrightarrow> I ys s w \<Longrightarrow> wp (f s x) (I (ys @ [x])) X w"
    and "I [] s w"
  shows "wp (fold_op f s xs) (I xs) X w"
proof -
  have "wp (fold_op f s zs) (I xs) X w" if "xs = ys @ zs" "I ys s w" for ys zs s w
    using that
  proof (induction zs arbitrary: ys s w)
    case Nil
    then show ?case by (simp add: wp_simps)
  next
    case (Cons z zs)
    have "wp (f s z) (I (ys @ [z])) X w" using assms(1) Cons.prems by blast
    moreover have "\<And>s w. I (ys @ [z]) s w \<Longrightarrow> wp (fold_op f s zs) (I xs) X w"
      using Cons by simp
    ultimately show ?case by (auto simp: wp_simps elim: wp_conseq)
  qed
  from this [of "[]" xs] show ?thesis using assms(2) by simp
qed

lemma wp_for_each:
  assumes "\<And>x w. x \<in> set xs \<Longrightarrow> I w \<Longrightarrow> wp (f x) (\<lambda>_. I) X w" and "I w"
  shows "wp (for_each f xs) (\<lambda>_. I) X w"
  unfolding for_each_def using assms by (intro wp_fold_op) auto

lemma wp_for_each_prefix:
  assumes "\<And>ys x zs w. xs = ys @ x # zs \<Longrightarrow> I ys w \<Longrightarrow> wp (f x) (\<lambda>_. I (ys @ [x])) X w"
    and "I [] w"
  shows "wp (for_each f xs) (\<lambda>_. I xs) X w"
  unfolding for_each_def
  using assms wp_fold_op_prefix [of xs "\<lambda>ys _. I ys" "\<lambda>_. f" X "()" w] by blast

section \<open>Successful runs\<close>

text \<open>A run that returned a value passed every check and every call on its way.\<close>

lemma ok_returns [returns]: "ok a w = (Inr b, w') \<longleftrightarrow> b = a \<and> w' = w"
  by (auto simp: ok_def)

lemma err_returns [returns]: "err e w = (Inr b, w') \<longleftrightarrow> False"
  by (simp add: err_def)

lemma await_returns [returns]:
  "await m f w = (Inr b, w') \<longleftrightarrow> (\<exists>a w1. m w = (Inr a, w1) \<and> f a w1 = (Inr b, w'))"
  by (auto simp: await_def split: prod.splits sum.splits)

lemma map_err_returns [returns]: "map_err g m w = (Inr a, w') \<longleftrightarrow> m w = (Inr a, w')"
  by (auto simp: map_err_def split: prod.splits sum.splits)

lemma lift_returns [returns]: "lift r w = (Inr a, w') \<longleftrightarrow> r = Inr a \<and> w' = w"
  by (auto simp: lift_def)

lemma effect_returns [returns]: "effect f w = (Inr a, w') \<longleftrightarrow> f w = (a, w')"
  by (auto simp: effect_def split: prod.splits)

lemma attempt_returns [returns]: "attempt_op m w = (Inr r, w') \<longleftrightarrow> m w = (r, w')"
  by (auto simp: attempt_op_def split: prod.splits)

lemma guard_returns [returns]:
  "(if b then err e else m) w = (Inr a, w') \<longleftrightarrow> \<not> b \<and> m w = (Inr a, w')"
  by (simp add: err_def)

section \<open>Invariants of the state\<close>

text \<open>\<open>keeps I m\<close>: whether \<open>m\<close> succeeds or fails, it leaves \<open>I\<close> true; \<open>unchanged f m\<close>: it leaves the part
  \<open>f\<close> of the state as it was.\<close>

definition keeps :: "('w \<Rightarrow> bool) \<Rightarrow> ('w, 'e, 'a) op \<Rightarrow> bool" where
  "keeps I m = (\<forall>w r w'. m w = (r, w') \<longrightarrow> I w \<longrightarrow> I w')"

definition unchanged :: "('w \<Rightarrow> 'b) \<Rightarrow> ('w, 'e, 'a) op \<Rightarrow> bool" where
  "unchanged f m = (\<forall>w r w'. m w = (r, w') \<longrightarrow> f w' = f w)"

lemma keepsD: "keeps I m \<Longrightarrow> m w = (r, w') \<Longrightarrow> I w \<Longrightarrow> I w'"
  by (auto simp: keeps_def)

lemma unchanged_keeps: "unchanged f m \<Longrightarrow> keeps (\<lambda>w. P (f w)) m"
  by (auto simp: keeps_def unchanged_def)

lemma unchangedI:
  assumes "\<And>P. keeps (\<lambda>w. P (f w)) m" shows "unchanged f m"
proof -
  have "keeps (\<lambda>w. f w = c) m" for c by (rule assms [of "\<lambda>x. x = c"])
  then show ?thesis by (auto simp: keeps_def unchanged_def)
qed

lemma keeps_wp: "(\<And>w. I w \<Longrightarrow> wp m (\<lambda>_. I) (\<lambda>_. I) w) \<Longrightarrow> keeps I m"
  unfolding keeps_def by (blast intro: wp_either)

lemma wp_keeps: "keeps I m \<Longrightarrow> I w \<Longrightarrow> wp m (\<lambda>_. I) (\<lambda>_. I) w"
  by (auto simp: keeps_def wp_def split: prod.splits sum.splits)

lemma wp_keeps_returns:
  "keeps I m \<Longrightarrow> I w \<Longrightarrow> (\<And>a w'. m w = (Inr a, w') \<Longrightarrow> I w' \<Longrightarrow> Q a w') \<Longrightarrow> (\<And>e w'. I w' \<Longrightarrow> X e w') \<Longrightarrow> wp m Q X w"
  by (rule wp_I) (auto dest: keepsD)

lemma keeps_ok [keeps_intros]: "keeps I (ok a)"
  by (simp add: keeps_def ok_def)

lemma keeps_err [keeps_intros]: "keeps I (err e)"
  by (simp add: keeps_def err_def)

lemma keeps_lift [keeps_intros]: "keeps I (lift r)"
  by (simp add: keeps_def lift_def)

lemma keeps_await [keeps_intros]: "keeps I m \<Longrightarrow> (\<And>a. keeps I (f a)) \<Longrightarrow> keeps I (await m f)"
  by (fastforce simp: keeps_def await_def split: prod.splits sum.splits)

lemma keeps_map_err [keeps_intros]: "keeps I m \<Longrightarrow> keeps I (map_err g m)"
  by (fastforce simp: keeps_def map_err_def split: prod.splits sum.splits)

lemma keeps_attempt [keeps_intros]: "keeps I m \<Longrightarrow> keeps I (attempt_op m)"
  by (auto simp: keeps_def attempt_op_def split: prod.splits)

lemma keeps_effect: "(\<And>w a w'. f w = (a, w') \<Longrightarrow> I w \<Longrightarrow> I w') \<Longrightarrow> keeps I (effect f)"
  by (auto simp: keeps_def effect_def split: prod.splits)

lemma keeps_if [keeps_intros]: "keeps I m \<Longrightarrow> keeps I n \<Longrightarrow> keeps I (if b then m else n)"
  by simp

lemma keeps_option [keeps_intros]:
  "keeps I m \<Longrightarrow> (\<And>a. keeps I (f a)) \<Longrightarrow> keeps I (case x of None \<Rightarrow> m | Some a \<Rightarrow> f a)"
  by (simp split: option.split)

lemma keeps_sum [keeps_intros]:
  "(\<And>e. keeps I (f e)) \<Longrightarrow> (\<And>a. keeps I (g a)) \<Longrightarrow> keeps I (case x of Inl e \<Rightarrow> f e | Inr a \<Rightarrow> g a)"
  by (simp split: sum.split)

lemma keeps_prod [keeps_intros]: "(\<And>a b. keeps I (f a b)) \<Longrightarrow> keeps I (case p of (a, b) \<Rightarrow> f a b)"
  by (simp split: prod.split)

lemma keeps_Let [keeps_intros]: "keeps I (f a) \<Longrightarrow> keeps I (Let a f)"
  by simp

lemma keeps_fold_op [keeps_intros]: "(\<And>s x. keeps I (f s x)) \<Longrightarrow> keeps I (fold_op f s xs)"
  by (induction xs arbitrary: s) (auto intro!: keeps_ok keeps_await)

lemma keeps_for_each [keeps_intros]: "(\<And>x. keeps I (f x)) \<Longrightarrow> keeps I (for_each f xs)"
  unfolding for_each_def by (rule keeps_fold_op)

section \<open>Pure results\<close>

lemma ok_or_Inr [simp]: "ok_or e x = Inr a \<longleftrightarrow> x = Some a"
  by (cases x) (simp_all add: ok_or_def)

lemma ok_or_simps [simp]: "ok_or e None = Inl e" "ok_or e (Some a) = Inr a"
  by (simp_all add: ok_or_def)

lemma and_then_simps [simp]: "and_then (Inl e) f = Inl e" "and_then (Inr a) f = f a"
  by (simp_all add: and_then_def)

lemma and_then_Inr [simp]: "and_then r f = Inr b \<longleftrightarrow> (\<exists>a. r = Inr a \<and> f a = Inr b)"
  by (cases r) simp_all

lemma result_map_err_simps [simp]:
  "result_map_err g (Inl e) = Inl (g e)" "result_map_err g (Inr a) = Inr a"
  by (simp_all add: result_map_err_def)

lemma result_map_err_Inr [simp]: "result_map_err g r = Inr a \<longleftrightarrow> r = Inr a"
  by (cases r) simp_all

lemma try_collect_Inr: "try_collect f xs = Inr ys \<longleftrightarrow> map f xs = map Inr ys"
  by (induction xs arbitrary: ys) (auto simp: Cons_eq_map_conv)

lemma try_collect_total:
  "(\<And>x. x \<in> set xs \<Longrightarrow> f x = Inr (g x)) \<Longrightarrow> try_collect f xs = Inr (map g xs)"
  by (induction xs) auto

lemma try_collect_map: "try_collect f (map g xs) = try_collect (\<lambda>x. f (g x)) xs"
  by (induction xs) simp_all

lemma map_Inr_eq_iff [simp]: "map Inr xs = map Inr ys \<longleftrightarrow> xs = ys"
  by (induction xs arbitrary: ys) (auto simp: Cons_eq_map_conv)

lemma map_eq_mapD: "map f xs = map g ys \<Longrightarrow> x \<in> set xs \<Longrightarrow> \<exists>y \<in> set ys. f x = g y"
  by (metis (no_types, lifting) image_iff list.set_map)

lemma map_Inr_filter:
  assumes "map f xs = map Inr ys" and "\<And>x y. x \<in> set xs \<Longrightarrow> f x = Inr y \<Longrightarrow> P x = R y"
  shows "map f (filter P xs) = map Inr (filter R ys)"
  using assms
proof (induction xs arbitrary: ys)
  case (Cons x xs)
  then obtain y ys' where "ys = y # ys'" "f x = Inr y" "map f xs = map Inr ys'"
    by (auto simp: Cons_eq_map_conv)
  with Cons show ?case by auto
qed simp

lemma map_Inr_update:
  assumes "map f xs = map Inr ys"
    and "\<And>x y. x \<in> set xs \<Longrightarrow> f x = Inr y \<Longrightarrow> f (g x) = Inr (h y)"
  shows "map f (map g xs) = map Inr (map h ys)"
  using assms
proof (induction xs arbitrary: ys)
  case (Cons x xs)
  then obtain y ys' where "ys = y # ys'" "f x = Inr y" "map f xs = map Inr ys'"
    by (auto simp: Cons_eq_map_conv)
  with Cons show ?case by auto
qed simp

lemma map_Inr_appendD:
  assumes "map f (xs @ zs) = map Inr ys"
  shows "\<exists>ys1 ys2. ys = ys1 @ ys2 \<and> map f xs = map Inr ys1 \<and> map f zs = map Inr ys2"
  using assms by (auto simp: append_eq_map_conv)

lemma find_filter: "List.find P xs = (case filter P xs of [] \<Rightarrow> None | x # _ \<Rightarrow> Some x)"
  by (induction xs) auto

lemma find_SomeD: "List.find P xs = Some x \<Longrightarrow> x \<in> set xs \<and> P x"
  by (induction xs) (auto split: if_splits)

end
