(* ===== verification/Rust_String.thy ===== *)
theory Rust_String
  imports Prelude
begin

text \<open>
  The functions of \<open>str\<close>, of integers and of byte slices of the Rust standard
  library that the components call, over the UTF-8 bytes of a string: \<open>trim\<close>,
  \<open>split_whitespace\<close>, \<open>join\<close>, decimal printing and \<open>u64::to_be_bytes\<close>.
\<close>

type_synonym byte = "8 word"

section \<open>White space\<close>

text \<open>\<open>white cs\<close>: the bytes \<open>cs\<close> are one \<open>White_Space\<close> character, as \<open>char::is_whitespace\<close>
  decides: U+0009 to U+000D, U+0020, U+0085, U+00A0, U+1680, U+2000 to U+200A, U+2028,
  U+2029, U+202F, U+205F and U+3000.\<close>

fun white :: "nat list \<Rightarrow> bool" where
  "white [a] = (9 \<le> a \<and> a \<le> 13 \<or> a = 32)"
| "white [a, b] = (a = 0xC2 \<and> (b = 0x85 \<or> b = 0xA0))"
| "white [a, b, c] =
    (a = 0xE1 \<and> b = 0x9A \<and> c = 0x80
     \<or> a = 0xE2 \<and> b = 0x80 \<and> (0x80 \<le> c \<and> c \<le> 0x8A \<or> c = 0xA8 \<or> c = 0xA9 \<or> c = 0xAF)
     \<or> a = 0xE2 \<and> b = 0x81 \<and> c = 0x9F
     \<or> a = 0xE3 \<and> b = 0x80 \<and> c = 0x80)"
| "white _ = False"

definition is_white :: "string \<Rightarrow> bool" where
  "is_white s = white (map of_char s)"

text \<open>The number of bytes of the white-space character at the front (at the back), 0 when
  there is none.\<close>

definition white_front :: "string \<Rightarrow> nat" where
  "white_front s = (if is_white (take 1 s) then 1 else if is_white (take 2 s) then 2
    else if is_white (take 3 s) then 3 else 0)"

definition white_back :: "string \<Rightarrow> nat" where
  "white_back s = (let suffix = \<lambda>n. drop (length s - n) s in
    if is_white (suffix 1) then 1 else if is_white (suffix 2) then 2
    else if is_white (suffix 3) then 3 else 0)"

lemma white_front_pos: "0 < white_front s \<Longrightarrow> 0 < length s"
  by (auto simp: white_front_def is_white_def)

lemma white_back_pos: "0 < white_back s \<Longrightarrow> 0 < length s"
  by (auto simp: white_back_def is_white_def)

function trim_start :: "string \<Rightarrow> string" where
  "trim_start s = (if white_front s = 0 then s else trim_start (drop (white_front s) s))"
  by auto
termination
  by (relation "measure length") (use white_front_pos in fastforce)+

function trim_end :: "string \<Rightarrow> string" where
  "trim_end s = (if white_back s = 0 then s else trim_end (take (length s - white_back s) s))"
  by auto
termination
  by (relation "measure length") (use white_back_pos in fastforce)+

declare trim_start.simps [simp del] trim_end.simps [simp del]

definition trim :: "string \<Rightarrow> string" where
  "trim s = trim_end (trim_start s)"

text \<open>\<open>blank s\<close> is \<open>s.trim().is_empty()\<close>.\<close>

abbreviation blank :: "string \<Rightarrow> bool" where
  "blank s \<equiv> trim s = []"

lemma trim_Nil [simp]: "trim [] = []"
  by (simp add: trim_def trim_start.simps trim_end.simps white_front_def white_back_def is_white_def)

lemma trim_start_suffix: "suffix (trim_start s) s"
proof (induction s rule: trim_start.induct)
  case (1 s)
  show ?case
  proof (cases "white_front s = 0")
    case True
    then show ?thesis by (simp add: trim_start.simps [of s])
  next
    case False
    then have "suffix (trim_start (drop (white_front s) s)) s"
      using 1 suffix_drop suffix_order.trans by blast
    with False show ?thesis by (simp add: trim_start.simps [of s])
  qed
qed

lemma trim_end_prefix: "prefix (trim_end s) s"
proof (induction s rule: trim_end.induct)
  case (1 s)
  show ?case
  proof (cases "white_back s = 0")
    case True
    then show ?thesis by (simp add: trim_end.simps [of s])
  next
    case False
    then have "prefix (trim_end (take (length s - white_back s) s)) s"
      using 1 take_is_prefix prefix_order.trans by blast
    with False show ?thesis by (simp add: trim_end.simps [of s])
  qed
qed

text \<open>Trimming never lengthens a string.\<close>

lemma length_trim: "length (trim s) \<le> length s"
proof -
  have "length (trim_end (trim_start s)) \<le> length (trim_start s)"
    by (rule prefix_length_le [OF trim_end_prefix])
  also have "\<dots> \<le> length s" by (rule suffix_length_le [OF trim_start_suffix])
  finally show ?thesis by (simp add: trim_def)
qed

text \<open>A string that neither starts nor ends with white space is its own trim.\<close>

lemma trim_id: "white_front s = 0 \<Longrightarrow> white_back s = 0 \<Longrightarrow> trim s = s"
  by (simp add: trim_def trim_start.simps [of s] trim_end.simps [of s])

lemmas white_defs = white_front_def white_back_def is_white_def

section \<open>Splitting and joining\<close>

text \<open>\<open>split_whitespace\<close>: the maximal runs of characters that are not white space.  The
  accumulator holds the bytes of the current run, last byte first.\<close>

function split_white :: "string \<Rightarrow> string \<Rightarrow> string list" where
  "split_white acc s =
    (let flush = (\<lambda>rest. if acc = [] then rest else rev acc # rest) in
     case s of [] \<Rightarrow> flush []
     | c # cs \<Rightarrow> if white_front s = 0 then split_white (c # acc) cs
                 else flush (split_white [] (drop (white_front s) s)))"
  by auto
termination by (relation "measure (\<lambda>(_, s). length s)") (auto dest!: white_front_pos)

declare split_white.simps [simp del]

definition split_whitespace :: "string \<Rightarrow> string list" where
  "split_whitespace s = split_white [] s"

fun join :: "string \<Rightarrow> string list \<Rightarrow> string" where
  "join sep [] = []"
| "join sep [x] = x"
| "join sep (x # y # zs) = x @ sep @ join sep (y # zs)"

lemma split_white_nonempty: "x \<in> set (split_white acc s) \<Longrightarrow> x \<noteq> []"
proof (induction acc s rule: split_white.induct)
  case (1 acc s)
  show ?case
    using "1.prems" "1.IH"
    by (simp add: split_white.simps [of acc s] Let_def split: list.splits if_splits) blast+
qed

lemma split_whitespace_nonempty: "[] \<notin> set (split_whitespace s)"
  using split_white_nonempty unfolding split_whitespace_def by blast

section \<open>Decimal printing\<close>

definition digit :: "nat \<Rightarrow> char" where
  "digit d = char_of (48 + d)"

fun decimal :: "nat \<Rightarrow> string" where
  "decimal n = (if n < 10 then [digit n] else decimal (n div 10) @ [digit (n mod 10)])"

declare decimal.simps [simp del]

text \<open>The digits of a number, read back.\<close>

definition undecimal :: "string \<Rightarrow> nat" where
  "undecimal s = foldl (\<lambda>n c. 10 * n + (of_char c - 48)) 0 s"

lemma of_char_digit: "d < 10 \<Longrightarrow> of_char (digit d) = (48 + d :: nat)"
  by (simp add: digit_def)

lemma undecimal_decimal: "undecimal (decimal n) = n"
proof (induction n rule: decimal.induct)
  case (1 n)
  show ?case
  proof (cases "n < 10")
    case True
    then show ?thesis by (simp add: decimal.simps undecimal_def of_char_digit)
  next
    case False
    then have "undecimal (decimal (n div 10)) = n div 10" by (rule "1.IH")
    with False show ?thesis
      by (subst decimal.simps) (simp add: undecimal_def of_char_digit)
  qed
qed

lemma decimal_inj [simp]: "decimal m = decimal n \<longleftrightarrow> m = n"
  by (metis undecimal_decimal)

lemma decimal_digits: "c \<in> set (decimal n) \<Longrightarrow> of_char c \<in> {48 .. (57 :: nat)}"
proof (induction n rule: decimal.induct)
  case (1 n)
  have "of_char (digit (n mod 10)) \<in> {48 .. (57 :: nat)}"
    using of_char_digit [of "n mod 10"] mod_less_divisor [of 10 n] by simp
  with 1 show ?case
    by (subst (asm) decimal.simps) (auto simp: of_char_digit split: if_splits)
qed

section \<open>Length-delimited fields\<close>

text \<open>A field printed as its decimal length, a separator that is no digit, and its bytes can be
  read back from the front of a longer string.\<close>

lemma until_sep_unique:
  assumes "xs @ c # us = ys @ c # vs" and "c \<notin> set xs" and "c \<notin> set ys"
  shows "xs = ys \<and> us = vs"
  using assms
proof (induction xs arbitrary: ys)
  case Nil
  then show ?case by (cases ys) auto
next
  case (Cons x xs)
  then show ?case by (cases ys) auto
qed

lemma after_sep_unique:
  assumes "xs @ c # ys = xs' @ c # ys'" "c \<notin> set ys" "c \<notin> set ys'"
  shows "xs = xs' \<and> ys = ys'"
proof -
  from assms(1) have "rev ys @ c # rev xs = rev ys' @ c # rev xs'"
    by (metis append_Cons append_assoc append_Nil rev.simps(2) rev_append)
  then have "rev ys = rev ys' \<and> rev xs = rev xs'"
    using assms(2,3) by (intro until_sep_unique) auto
  then show ?thesis by simp
qed

lemma field_unique:
  assumes "decimal (length a) @ c # a @ us = decimal (length b) @ c # b @ vs"
    and "(of_char c :: nat) \<notin> {48 .. 57}"
  shows "a = b \<and> us = vs"
proof -
  have "c \<notin> set (decimal (length a))" "c \<notin> set (decimal (length b))"
    using decimal_digits assms(2) by blast+
  from until_sep_unique [OF assms(1) this]
  have "length a = length b" "a @ us = b @ vs" by simp_all
  then show ?thesis by simp
qed

section \<open>Big-endian bytes\<close>

definition to_be_bytes :: "64 word \<Rightarrow> byte list" where
  "to_be_bytes n = map (\<lambda>i. ucast (drop_bit (8 * i) n)) [7, 6, 5, 4, 3, 2, 1, 0]"

definition str_bytes :: "string \<Rightarrow> byte list" where
  "str_bytes s = map (\<lambda>c. of_nat (of_char c)) s"

lemma length_to_be_bytes [simp]: "length (to_be_bytes n) = 8"
  by (simp add: to_be_bytes_def)

lemma length_str_bytes [simp]: "length (str_bytes s) = length s"
  by (simp add: str_bytes_def)

lemma byte_of_char_inj: "(of_nat (of_char c) :: byte) = of_nat (of_char d) \<Longrightarrow> c = d"
proof -
  assume "(of_nat (of_char c) :: byte) = of_nat (of_char d)"
  then have "unat (of_nat (of_char c) :: byte) = unat (of_nat (of_char d) :: byte)" by simp
  then show "c = d" by (simp add: unat_of_nat)
qed

lemma str_bytes_inj [simp]: "str_bytes s = str_bytes t \<longleftrightarrow> s = t"
  unfolding str_bytes_def using byte_of_char_inj by (metis (mono_tags, lifting) inj_map_eq_map injI)

lemma to_be_bytes_inj [simp]: "to_be_bytes m = to_be_bytes n \<longleftrightarrow> m = n"
proof
  assume eq: "to_be_bytes m = to_be_bytes n"
  have "bit m k = bit n k" if "k < 64" for k
  proof -
    have "\<forall>i \<in> set [7, 6, 5, 4, 3, 2, 1, 0 :: nat].
        (ucast (drop_bit (8 * i) m) :: byte) = ucast (drop_bit (8 * i) n)"
      using eq by (simp add: to_be_bytes_def)
    moreover have "k div 8 \<in> set [7, 6, 5, 4, 3, 2, 1, 0 :: nat]" using that by auto
    ultimately have "(ucast (drop_bit (8 * (k div 8)) m) :: byte) = ucast (drop_bit (8 * (k div 8)) n)"
      by blast
    then have "bit (ucast (drop_bit (8 * (k div 8)) m) :: byte) (k mod 8)
        = bit (ucast (drop_bit (8 * (k div 8)) n) :: byte) (k mod 8)" by simp
    then show ?thesis by (simp add: bit_ucast_iff bit_drop_bit_eq)
  qed
  then show "m = n" by (intro bit_word_eqI) simp
qed simp

section \<open>Splitting\<close>

text \<open>\<open>str::split(c)\<close>: the parts between the separators, at least one.\<close>

fun split_on :: "char \<Rightarrow> string \<Rightarrow> string list" where
  "split_on d [] = [[]]"
| "split_on d (c # cs) = (if c = d then [] # split_on d cs
    else case split_on d cs of [] \<Rightarrow> [[c]] | p # ps \<Rightarrow> (c # p) # ps)"

lemma split_on_no_sep [simp]: "d \<notin> set s \<Longrightarrow> split_on d s = [s]"
  by (induction s) auto

lemma split_on_append [simp]: "d \<notin> set s \<Longrightarrow> split_on d (s @ d # t) = s # split_on d t"
  by (induction s) auto

end
