(* ===== verification/Ofdb.thy ===== *)
theory Ofdb
  imports Rust_String
begin

text \<open>
  The interface to the replicated database engine of the external crate \<open>ofdb_sql\<close>
  (re-exported by \<open>crates/db\<close>), to the clock and to the identifier generator.  The
  query syntax has the constructors the source builds; every select of the source
  leaves the other clauses (joins, distinct, grouping, ordering, limits) empty.  The
  engine itself is not part of the repository: it is a record of functions \<open>host\<close>,
  an argument of every definition that uses it, and the locale \<open>db_engine\<close> states what
  the code relies on.  \<open>mem_host\<close> is an executable engine that satisfies those laws.
\<close>

section \<open>Values, rows and queries\<close>

type_synonym uuid = "128 word"

datatype Value = Null | Bool bool | Integer int | Text string | Blob "byte list" | Uuid uuid

type_synonym row = "Value list"

datatype query_column = QueryColumn (column_table: string) (column_name: string)

datatype query_expr_value = ExprColumn query_column | ExprValue Value

datatype query_expr = Equals query_expr query_expr | And query_expr query_expr | QValue query_expr_value

datatype assignment = Assignment (assigned_column: query_column) (assigned_value: query_expr_value)

datatype query =
    Select (select_from: string) (select_projection: "query_column list") (select_predicate: "query_expr option")
  | Insert (insert_table: string) (insert_row: row)
  | Update (update_from: string) (update_assignments: "assignment list") (update_predicate: "query_expr option")
  | Delete (delete_from: string) (delete_predicate: "query_expr option")

datatype statement = Query query

record query_result =
  qr_columns :: "string list"
  qr_rows :: "row list"

text \<open>Errors of the engine carry their \<open>Display\<close> text; the row decoder's
  \<open>InvalidValue\<close> is also built by the source.\<close>

type_synonym engine_error = string

datatype value_type = NullType | BoolType | IntegerType | TextType | BlobType | UuidType

datatype from_row_error =
    InvalidValue (error_column: string) (error_expected: value_type) (error_actual: value_type)
  | MissingColumn string
  | RowError string

text \<open>\<open>chrono::DateTime<Utc>\<close>: seconds since the epoch and nanoseconds.\<close>

datatype datetime = DateTime (timestamp: int) (nanosecond: nat)

text \<open>Its order is by seconds, then by nanoseconds.\<close>

instantiation datetime :: linorder
begin

definition less_eq_datetime :: "datetime \<Rightarrow> datetime \<Rightarrow> bool" where
  "less_eq_datetime a b = (timestamp a < timestamp b \<or> timestamp a = timestamp b \<and> nanosecond a \<le> nanosecond b)"

definition less_datetime :: "datetime \<Rightarrow> datetime \<Rightarrow> bool" where
  "less_datetime a b = (timestamp a < timestamp b \<or> timestamp a = timestamp b \<and> nanosecond a < nanosecond b)"

instance
  by standard (auto simp: less_eq_datetime_def less_datetime_def intro: datetime.expand)

end

lemmas datetime_order = less_eq_datetime_def less_datetime_def

definition with_nanosecond_0 :: "datetime \<Rightarrow> datetime" where
  "with_nanosecond_0 t = DateTime (timestamp t) 0"

record 'w host =
  execute :: "statement list \<Rightarrow> ('w, engine_error, query_result list) op"
  row_conflicts :: "string \<Rightarrow> row \<Rightarrow> ('w, engine_error, string list) op"
  row_conflict_values :: "string \<Rightarrow> row \<Rightarrow> ('w, engine_error, (string \<times> Value list) list) op"
  resolve_row :: "string \<Rightarrow> row \<Rightarrow> (string \<times> Value) list \<Rightarrow> ('w, engine_error, unit) op"
  translate_and_execute :: "string \<Rightarrow> ('w, engine_error, query_result list) op"
  from_row_calls :: "query_result \<Rightarrow> (row \<times> string list) list"
  db_value :: "row \<Rightarrow> string list \<Rightarrow> string \<Rightarrow> from_row_error + Value"
  decode_int :: "Value \<Rightarrow> string \<Rightarrow> from_row_error + int"
  decode_opt_int :: "Value \<Rightarrow> string \<Rightarrow> from_row_error + int option"
  decode_text :: "Value \<Rightarrow> string \<Rightarrow> from_row_error + string"
  decode_opt_text :: "Value \<Rightarrow> string \<Rightarrow> from_row_error + string option"
  decode_opt_blob :: "Value \<Rightarrow> string \<Rightarrow> from_row_error + byte list option"
  decode_uuid :: "Value \<Rightarrow> string \<Rightarrow> from_row_error + uuid"
  decode_opt_uuid :: "Value \<Rightarrow> string \<Rightarrow> from_row_error + uuid option"
  decode_bool :: "Value \<Rightarrow> string \<Rightarrow> from_row_error + bool"
  show_from_row_error :: "from_row_error \<Rightarrow> string"
  from_timestamp :: "int \<Rightarrow> datetime option"
  utc_now :: "'w \<Rightarrow> datetime \<times> 'w"
  now_v7 :: "'w \<Rightarrow> uuid \<times> 'w"
  new_v5 :: "byte list \<Rightarrow> uuid"
  uuid_to_string :: "uuid \<Rightarrow> string"

text \<open>\<open>QueryResult::rows_as::<T>\<close> calls \<open>T::from_row\<close> on the rows of the result in order and
  stops at the first error.  Which row and column names it passes is the engine's,
  \<open>from_row_calls\<close>.\<close>

definition rows_as :: "'w host \<Rightarrow> (row \<Rightarrow> string list \<Rightarrow> from_row_error + 'a) \<Rightarrow> query_result
    \<Rightarrow> from_row_error + 'a list" where
  "rows_as H f qr = try_collect (\<lambda>(r, cs). f r cs) (from_row_calls H qr)"

text \<open>\<open>results.pop().ok_or_else(..)\<close>: the last result.\<close>

definition pop_result :: "'a list \<Rightarrow> 'a option" where
  "pop_result xs = (if xs = [] then None else Some (last xs))"

text \<open>\<open>db::decode(db::Value(row, columns, name)?, name)\<close>.\<close>

definition field :: "'w host \<Rightarrow> ('w host \<Rightarrow> Value \<Rightarrow> string \<Rightarrow> from_row_error + 'a) \<Rightarrow> row \<Rightarrow> string list
    \<Rightarrow> string \<Rightarrow> from_row_error + 'a" where
  "field H dec r cs name = and_then (db_value H r cs name) (\<lambda>v. dec H v name)"

section \<open>What a query means\<close>

text \<open>A stored row maps column names to values; a table is the list of its rows in the
  order in which the engine enumerates them.\<close>

type_synonym stored = "string \<Rightarrow> Value"
type_synonym tables = "string \<Rightarrow> stored list"
type_synonym conflicts = "string \<Rightarrow> row \<Rightarrow> (string \<times> Value list) list"

fun operand :: "stored \<Rightarrow> query_expr \<Rightarrow> Value" where
  "operand s (QValue (ExprColumn c)) = s (column_name c)"
| "operand s (QValue (ExprValue v)) = v"
| "operand s _ = Null"

text \<open>Equality with \<open>NULL\<close> never holds.\<close>

fun holds :: "query_expr \<Rightarrow> stored \<Rightarrow> bool" where
  "holds (Equals a b) s = (operand s a = operand s b \<and> operand s a \<noteq> Null)"
| "holds (And a b) s = (holds a s \<and> holds b s)"
| "holds (QValue (ExprValue (Bool b))) s = b"
| "holds (QValue _) s = False"

definition selects :: "query_expr option \<Rightarrow> stored \<Rightarrow> bool" where
  "selects p s = (case p of None \<Rightarrow> True | Some e \<Rightarrow> holds e s)"

definition assign1 :: "assignment \<Rightarrow> stored \<Rightarrow> stored" where
  "assign1 a s = s(column_name (assigned_column a) := operand s (QValue (assigned_value a)))"

definition assign :: "assignment list \<Rightarrow> stored \<Rightarrow> stored" where
  "assign as s = fold assign1 as s"

definition set_columns :: "(string \<times> Value) list \<Rightarrow> stored \<Rightarrow> stored" where
  "set_columns cvs s = fold (\<lambda>(c, v) s. s(c := v)) cvs s"

definition update_rows :: "(stored \<Rightarrow> bool) \<Rightarrow> (stored \<Rightarrow> stored) \<Rightarrow> stored list \<Rightarrow> stored list" where
  "update_rows P f ss = map (\<lambda>s. if P s then f s else s) ss"

text \<open>The effect of the writes that touch existing rows only.\<close>

fun modify :: "statement \<Rightarrow> tables \<Rightarrow> tables" where
  "modify (Query (Update t as p)) T = T(t := update_rows (selects p) (assign as) (T t))"
| "modify (Query (Delete t p)) T = T(t := filter (\<lambda>s. \<not> selects p s) (T t))"
| "modify _ T = T"

fun modifies :: "statement \<Rightarrow> bool" where
  "modifies (Query (Update t as p)) = True"
| "modifies (Query (Delete t p)) = True"
| "modifies _ = False"

text \<open>The columns of a row as the table's schema orders them.\<close>

definition stored_as :: "string list \<Rightarrow> row \<Rightarrow> stored \<Rightarrow> bool" where
  "stored_as cs r s = (map s cs = r)"

definition keyed :: "string list \<Rightarrow> row \<Rightarrow> stored \<Rightarrow> bool" where
  "keyed cs k s = (case cs of [] \<Rightarrow> False | c # _ \<Rightarrow> k = [s c])"

section \<open>The laws of the engine\<close>

text \<open>
  \<open>T w\<close> are the tables and \<open>C w\<close> the unresolved conflicts of a row (column and candidate
  values) in state \<open>w\<close>; \<open>cols t\<close> are the columns of table \<open>t\<close>, the primary key first;
  \<open>clock w\<close> is a time that has passed, which the clock does not run behind.  An
  operation of the code runs without another writer in between; a failed \<open>execute\<close> leaves
  the database as it was.
\<close>

locale db_engine =
  fixes H :: "'w host" and T :: "'w \<Rightarrow> tables" and C :: "'w \<Rightarrow> conflicts"
    and cols :: "string \<Rightarrow> string list" and clock :: "'w \<Rightarrow> int"
  assumes select_keeps:
      "execute H [Query (Select t ps p)] w = (res, w') \<Longrightarrow> T w' = T w \<and> C w' = C w"
    and select_rows:
      "execute H [Query (Select t ps p)] w = (Inr rs, w') \<Longrightarrow> \<forall>c \<in> set ps. column_table c = t \<Longrightarrow>
        \<exists>qr. rs = [qr] \<and> qr_rows qr = map (\<lambda>s. map s (map column_name ps)) (filter (selects p) (T w t))
          \<and> from_row_calls H qr = map (\<lambda>r. (r, map column_name ps)) (qr_rows qr)"
    and modify_ok:
      "execute H qs w = (Inr rs, w') \<Longrightarrow> \<forall>q \<in> set qs. modifies q \<Longrightarrow> T w' = fold modify qs (T w)"
    and insert_ok:
      "execute H [Query (Insert t r)] w = (Inr rs, w') \<Longrightarrow>
        \<exists>s xs ys. stored_as (cols t) r s \<and> T w t = xs @ ys \<and> T w' = (T w)(t := xs @ s # ys)"
    and insert_fresh:
      "execute H [Query (Insert t (v # r))] w = (Inr rs, w') \<Longrightarrow> s \<in> set (T w t) \<Longrightarrow> \<not> keyed (cols t) [v] s"
    and execute_fails: "execute H qs w = (Inl e, w') \<Longrightarrow> T w' = T w \<and> C w' = C w"
    and execute_clear: "execute H qs w = (Inr rs, w') \<Longrightarrow> C w t k = [] \<Longrightarrow> C w' t k = []"
    and conflicts_keep: "row_conflicts H t k w = (found, w') \<Longrightarrow> T w' = T w \<and> C w' = C w"
    and conflicts_ok: "row_conflicts H t k w = (Inr cs, w') \<Longrightarrow> cs = map fst (C w t k)"
    and conflict_values_keep: "row_conflict_values H t k w = (candidates, w') \<Longrightarrow> T w' = T w \<and> C w' = C w"
    and conflict_values_ok: "row_conflict_values H t k w = (Inr cvs, w') \<Longrightarrow> cvs = C w t k"
    and resolve_ok:
      "resolve_row H t k vs w = (Inr u, w') \<Longrightarrow>
        T w' = (T w)(t := update_rows (keyed (cols t) k) (set_columns vs) (T w t))
        \<and> C w' = (C w)(t := (C w t)(k := filter (\<lambda>(c, _). c \<notin> fst ` set vs) (C w t k)))"
    and resolve_fails: "resolve_row H t k vs w = (Inl e, w') \<Longrightarrow> T w' = T w \<and> C w' = C w"
    and now_keeps: "utc_now H w = (now, w') \<Longrightarrow> T w' = T w \<and> C w' = C w"
    and v7_keeps: "now_v7 H w = (i, w') \<Longrightarrow> T w' = T w \<and> C w' = C w"
    and execute_clock: "execute H qs w = (res, w') \<Longrightarrow> clock w \<le> clock w'"
    and conflicts_clock: "row_conflicts H t k w = (found, w') \<Longrightarrow> clock w \<le> clock w'"
    and conflict_values_clock: "row_conflict_values H t k w = (candidates, w') \<Longrightarrow> clock w \<le> clock w'"
    and resolve_clock: "resolve_row H t k vs w = (done, w') \<Longrightarrow> clock w \<le> clock w'"
    and v7_clock: "now_v7 H w = (i, w') \<Longrightarrow> clock w \<le> clock w'"
    and now_clock: "utc_now H w = (now, w') \<Longrightarrow> clock w \<le> timestamp now \<and> clock w \<le> clock w'"
    and db_value_ok: "c \<in> set cs \<Longrightarrow> db_value H (map s cs) cs c = Inr (s c)"
    and decode_int_ok: "decode_int H (Integer n) c = Inr n"
    and decode_opt_int_ok:
      "decode_opt_int H Null c = Inr None" "decode_opt_int H (Integer n) c = Inr (Some n)"
    and decode_text_ok: "decode_text H (Text x) c = Inr x"
    and decode_opt_text_ok:
      "decode_opt_text H Null c = Inr None" "decode_opt_text H (Text x) c = Inr (Some x)"
    and decode_opt_blob_ok:
      "decode_opt_blob H Null c = Inr None" "decode_opt_blob H (Blob bs) c = Inr (Some bs)"
    and decode_uuid_ok: "decode_uuid H v c = Inr i \<longleftrightarrow> v = Uuid i"
    and decode_opt_uuid_ok:
      "decode_opt_uuid H Null c = Inr None" "decode_opt_uuid H (Uuid i) c = Inr (Some i)"
    and decode_bool_ok: "decode_bool H (Bool b) c = Inr b"
    and from_timestamp_ok: "from_timestamp H n = Some d \<Longrightarrow> timestamp d = n"
begin

lemmas decode_ok = decode_int_ok decode_opt_int_ok decode_text_ok decode_opt_text_ok
  decode_opt_blob_ok decode_uuid_ok decode_opt_uuid_ok decode_bool_ok

text \<open>The database is unchanged and the clock has not run back.\<close>

definition same :: "'w \<Rightarrow> 'w \<Rightarrow> bool" where
  "same w w' = (T w' = T w \<and> C w' = C w \<and> clock w \<le> clock w')"

lemma same_refl [simp]: "same w w"
  by (simp add: same_def)

lemma same_trans: "same w w' \<Longrightarrow> same w' w'' \<Longrightarrow> same w w''"
  by (simp add: same_def)

lemma sameD: "same w w' \<Longrightarrow> T w' = T w" "same w w' \<Longrightarrow> C w' = C w" "same w w' \<Longrightarrow> clock w \<le> clock w'"
  by (simp_all add: same_def)

lemma same_fails: "execute H qs w = (Inl e, w') \<Longrightarrow> same w w'"
  using execute_fails [of qs w e w'] execute_clock [of qs w "Inl e" w'] by (simp add: same_def)

lemma field_ok [simp]: "c \<in> set cs \<Longrightarrow> field H dec (map s cs) cs c = dec H (s c) c"
  by (simp add: field_def db_value_ok)

lemma wp_select:
  assumes "\<forall>c \<in> set ps. column_table c = t"
    and "\<And>qr w'. same w w' \<Longrightarrow>
      qr_rows qr = map (\<lambda>s. map s (map column_name ps)) (filter (selects p) (T w t)) \<Longrightarrow>
      from_row_calls H qr = map (\<lambda>r. (r, map column_name ps)) (qr_rows qr) \<Longrightarrow> Q [qr] w'"
    and "\<And>e w'. same w w' \<Longrightarrow> X e w'"
  shows "wp (execute H [Query (Select t ps p)]) Q X w"
proof (rule wp_I)
  fix rs w' assume run: "execute H [Query (Select t ps p)] w = (Inr rs, w')"
  from select_rows [OF run assms(1)] obtain qr where "rs = [qr]"
    "qr_rows qr = map (\<lambda>s. map s (map column_name ps)) (filter (selects p) (T w t))"
    "from_row_calls H qr = map (\<lambda>r. (r, map column_name ps)) (qr_rows qr)" by blast
  with select_keeps [OF run] execute_clock [OF run] show "Q rs w'" by (simp add: assms(2) same_def)
next
  fix e w' assume "execute H [Query (Select t ps p)] w = (Inl e, w')"
  then show "X e w'" by (intro assms(3) same_fails)
qed

lemma wp_modify:
  assumes "\<forall>q \<in> set qs. modifies q"
    and "\<And>rs w'. T w' = fold modify qs (T w) \<Longrightarrow>
      (\<And>t k. C w t k = [] \<Longrightarrow> C w' t k = []) \<Longrightarrow> clock w \<le> clock w' \<Longrightarrow> Q rs w'"
    and "\<And>e w'. same w w' \<Longrightarrow> X e w'"
  shows "wp (execute H qs) Q X w"
  by (rule wp_I)
    (simp_all add: assms modify_ok [OF _ assms(1)] execute_clear execute_clock same_fails)

lemma wp_insert:
  assumes "\<And>rs s xs ys w'. stored_as (cols t) (v # r) s \<Longrightarrow> T w t = xs @ ys \<Longrightarrow>
      T w' = (T w)(t := xs @ s # ys) \<Longrightarrow> \<forall>s \<in> set (T w t). \<not> keyed (cols t) [v] s \<Longrightarrow>
      (\<And>t k. C w t k = [] \<Longrightarrow> C w' t k = []) \<Longrightarrow> clock w \<le> clock w' \<Longrightarrow> Q rs w'"
    and "\<And>e w'. same w w' \<Longrightarrow> X e w'"
  shows "wp (execute H [Query (Insert t (v # r))]) Q X w"
proof (rule wp_I)
  fix rs w' assume run: "execute H [Query (Insert t (v # r))] w = (Inr rs, w')"
  from insert_ok [OF run] obtain s xs ys where "stored_as (cols t) (v # r) s" "T w t = xs @ ys"
    "T w' = (T w)(t := xs @ s # ys)" by blast
  moreover have "\<forall>s \<in> set (T w t). \<not> keyed (cols t) [v] s" using insert_fresh [OF run] by blast
  ultimately show "Q rs w'" by (rule assms(1)) (use execute_clear [OF run] execute_clock [OF run] in simp_all)
qed (simp add: assms(2) same_fails)

lemma wp_row_conflicts:
  assumes "\<And>w'. same w w' \<Longrightarrow> Q (map fst (C w t k)) w'" and "\<And>e w'. same w w' \<Longrightarrow> X e w'"
  shows "wp (row_conflicts H t k) Q X w"
proof (rule wp_I)
  fix cs w' assume run: "row_conflicts H t k w = (Inr cs, w')"
  show "Q cs w'"
    unfolding conflicts_ok [OF run] by (rule assms(1)) (simp add: same_def conflicts_keep [OF run] conflicts_clock [OF run])
next
  fix e w' assume run: "row_conflicts H t k w = (Inl e, w')"
  show "X e w'" by (rule assms(2)) (simp add: same_def conflicts_keep [OF run] conflicts_clock [OF run])
qed

lemma wp_row_conflict_values:
  assumes "\<And>w'. same w w' \<Longrightarrow> Q (C w t k) w'" and "\<And>e w'. same w w' \<Longrightarrow> X e w'"
  shows "wp (row_conflict_values H t k) Q X w"
proof (rule wp_I)
  fix cvs w' assume run: "row_conflict_values H t k w = (Inr cvs, w')"
  show "Q cvs w'"
    unfolding conflict_values_ok [OF run]
    by (rule assms(1)) (simp add: same_def conflict_values_keep [OF run] conflict_values_clock [OF run])
next
  fix e w' assume run: "row_conflict_values H t k w = (Inl e, w')"
  show "X e w'" by (rule assms(2)) (simp add: same_def conflict_values_keep [OF run] conflict_values_clock [OF run])
qed

lemma wp_resolve_row:
  assumes "\<And>w'. T w' = (T w)(t := update_rows (keyed (cols t) k) (set_columns vs) (T w t)) \<Longrightarrow>
      C w' = (C w)(t := (C w t)(k := filter (\<lambda>(c, _). c \<notin> fst ` set vs) (C w t k))) \<Longrightarrow>
      clock w \<le> clock w' \<Longrightarrow> Q () w'"
    and "\<And>e w'. same w w' \<Longrightarrow> X e w'"
  shows "wp (resolve_row H t k vs) Q X w"
proof (rule wp_I)
  fix u w' assume run: "resolve_row H t k vs w = (Inr u, w')"
  show "Q u w'" using assms(1) resolve_ok [OF run] resolve_clock [OF run] by simp
next
  fix e w' assume run: "resolve_row H t k vs w = (Inl e, w')"
  show "X e w'" by (rule assms(2)) (simp add: same_def resolve_fails [OF run] resolve_clock [OF run])
qed

lemma wp_utc_now:
  assumes "\<And>t w'. same w w' \<Longrightarrow> clock w \<le> timestamp t \<Longrightarrow> Q t w'"
  shows "wp (effect (utc_now H)) Q X w"
  using assms by (simp add: wp_effect same_def now_keeps now_clock split: prod.split)

lemma wp_now_v7:
  assumes "\<And>i w'. same w w' \<Longrightarrow> Q i w'"
  shows "wp (effect (now_v7 H)) Q X w"
  using assms by (simp add: wp_effect same_def v7_keeps v7_clock split: prod.split)

lemmas [wp_rules] = wp_row_conflicts wp_row_conflict_values wp_utc_now wp_now_v7

text \<open>A select followed by the decoding of its rows.\<close>

lemma rows_as_select:
  assumes "qr_rows qr = map (\<lambda>s. map s cs) ss" "from_row_calls H qr = map (\<lambda>r. (r, cs)) (qr_rows qr)"
  shows "rows_as H f qr = try_collect (\<lambda>s. f (map s cs) cs) ss"
  using assms by (simp add: rows_as_def try_collect_map)

end

section \<open>Tables as typed rows\<close>

text \<open>\<open>view f cs ss rows\<close>: the decoder \<open>f\<close> of the source reads the stored rows \<open>ss\<close> as \<open>rows\<close>.\<close>

definition view :: "(row \<Rightarrow> string list \<Rightarrow> from_row_error + 'a) \<Rightarrow> string list \<Rightarrow> stored list \<Rightarrow> 'a list \<Rightarrow> bool" where
  "view f cs ss rows = (map (\<lambda>s. f (map s cs) cs) ss = map Inr rows)"

lemma view_unique: "view f cs ss rows \<Longrightarrow> view f cs ss rows' \<Longrightarrow> rows' = rows"
  by (simp add: view_def)

lemma view_mem: "view f cs ss rows \<Longrightarrow> r \<in> set rows \<Longrightarrow> \<exists>s \<in> set ss. f (map s cs) cs = Inr r"
  unfolding view_def using map_eq_mapD [of Inr rows "\<lambda>s. f (map s cs) cs" ss r] by fastforce

lemma view_append: "view f cs (xs @ ys) rows \<Longrightarrow>
    \<exists>rows1 rows2. rows = rows1 @ rows2 \<and> view f cs xs rows1 \<and> view f cs ys rows2"
  unfolding view_def by (rule map_Inr_appendD)

section \<open>An engine that is available\<close>

text \<open>An engine that is available: reads, writes to existing rows and conflict resolution
  succeed, and the clock shows a time that \<open>chrono\<close> can represent.\<close>

locale db_engine_live = db_engine +
  assumes execute_live: "\<forall>q \<in> set qs. modifies q \<or> (\<exists>t ps p. q = Query (Select t ps p)) \<Longrightarrow>
      \<exists>rs w'. execute H qs w = (Inr rs, w')"
    and row_conflicts_live: "\<exists>cs w'. row_conflicts H t k w = (Inr cs, w')"
    and row_conflict_values_live: "\<exists>cvs w'. row_conflict_values H t k w = (Inr cvs, w')"
    and resolve_row_live: "\<exists>w'. resolve_row H t k vs w = (Inr (), w')"
    and clock_live: "from_timestamp H (timestamp (fst (utc_now H w))) \<noteq> None"
begin

lemma wp_select_live:
  assumes "\<forall>c \<in> set ps. column_table c = t"
    and "\<And>qr w'. same w w' \<Longrightarrow>
      qr_rows qr = map (\<lambda>s. map s (map column_name ps)) (filter (selects p) (T w t)) \<Longrightarrow>
      from_row_calls H qr = map (\<lambda>r. (r, map column_name ps)) (qr_rows qr) \<Longrightarrow> Q [qr] w'"
  shows "wp (execute H [Query (Select t ps p)]) Q X w"
proof (rule wp_live)
  show "wp (execute H [Query (Select t ps p)]) Q (\<lambda>_ _. True) w" by (rule wp_select) (use assms in auto)
qed (rule execute_live, simp)

lemma wp_row_conflicts_live:
  assumes "\<And>w'. same w w' \<Longrightarrow> Q (map fst (C w t k)) w'"
  shows "wp (row_conflicts H t k) Q X w"
proof (rule wp_live)
  show "wp (row_conflicts H t k) Q (\<lambda>_ _. True) w" by (rule wp_row_conflicts) (use assms in auto)
qed (rule row_conflicts_live)

end

section \<open>An executable engine\<close>

record mem =
  mem_tables :: tables
  mem_conflicts :: conflicts
  mem_clock :: int
  mem_next :: uuid

definition stored_row :: "string list \<Rightarrow> row \<Rightarrow> stored" where
  "stored_row cs r = (\<lambda>c. case map_of (zip cs r) c of None \<Rightarrow> Null | Some v \<Rightarrow> v)"

fun mem_statement :: "(string \<Rightarrow> string list) \<Rightarrow> statement \<Rightarrow> (mem, engine_error, query_result) op" where
  "mem_statement cols (Query (Select t ps p)) w =
    (Inr \<lparr>qr_columns = map column_name ps,
          qr_rows = map (\<lambda>s. map s (map column_name ps)) (filter (selects p) (mem_tables w t))\<rparr>, w)"
| "mem_statement cols (Query (Insert t r)) w =
    (if length r \<noteq> length (cols t) then (Inl ''row does not match schema'', w)
     else if r \<noteq> [] \<and> (\<exists>s \<in> set (mem_tables w t). keyed (cols t) [hd r] s)
     then (Inl ''duplicate primary key'', w)
     else (Inr \<lparr>qr_columns = [], qr_rows = []\<rparr>,
       w\<lparr>mem_tables := (mem_tables w)(t := mem_tables w t @ [stored_row (cols t) r])\<rparr>))"
| "mem_statement cols q w =
    (Inr \<lparr>qr_columns = [], qr_rows = []\<rparr>, w\<lparr>mem_tables := modify q (mem_tables w)\<rparr>)"

fun mem_statements :: "(string \<Rightarrow> string list) \<Rightarrow> statement list \<Rightarrow> (mem, engine_error, query_result list) op" where
  "mem_statements cols [] = ok []"
| "mem_statements cols (q # qs) =
    await (mem_statement cols q) (\<lambda>r. await (mem_statements cols qs) (\<lambda>rs. ok (r # rs)))"

definition mem_execute :: "(string \<Rightarrow> string list) \<Rightarrow> statement list \<Rightarrow> (mem, engine_error, query_result list) op" where
  "mem_execute cols qs w = (case mem_statements cols qs w of
      (Inl e, _) \<Rightarrow> (Inl e, w) | (Inr rs, w') \<Rightarrow> (Inr rs, w'))"

definition mem_resolve :: "(string \<Rightarrow> string list) \<Rightarrow> string \<Rightarrow> row \<Rightarrow> (string \<times> Value) list \<Rightarrow> (mem, engine_error, unit) op" where
  "mem_resolve cols t k vs w = (Inr (), w\<lparr>
      mem_tables := (mem_tables w)(t := update_rows (keyed (cols t) k) (set_columns vs) (mem_tables w t)),
      mem_conflicts := (mem_conflicts w)(t := (mem_conflicts w t)(k :=
        filter (\<lambda>(c, _). c \<notin> fst ` set vs) (mem_conflicts w t k)))\<rparr>)"

definition mem_value :: "row \<Rightarrow> string list \<Rightarrow> string \<Rightarrow> from_row_error + Value" where
  "mem_value r cs c = ok_or (MissingColumn c) (map_of (zip cs r) c)"

text \<open>\<open>chrono\<close> represents the years -262143 to 262142.\<close>

definition mem_from_timestamp :: "int \<Rightarrow> datetime option" where
  "mem_from_timestamp n =
    (if -8334601228800 \<le> n \<and> n \<le> 8210266876799 then Some (DateTime n 0) else None)"

definition mem_time :: "mem \<Rightarrow> int" where
  "mem_time w = (if mem_from_timestamp (mem_clock w) = None then 0 else mem_clock w)"

definition mem_host :: "(string \<Rightarrow> string list) \<Rightarrow> mem host" where
  "mem_host cols = \<lparr>
    execute = mem_execute cols,
    row_conflicts = (\<lambda>t k w. (Inr (map fst (mem_conflicts w t k)), w)),
    row_conflict_values = (\<lambda>t k w. (Inr (mem_conflicts w t k), w)),
    resolve_row = mem_resolve cols,
    translate_and_execute = (\<lambda>_ w. (Inr [], w)),
    from_row_calls = (\<lambda>qr. map (\<lambda>r. (r, qr_columns qr)) (qr_rows qr)),
    db_value = mem_value,
    decode_int = (\<lambda>v c. case v of Integer n \<Rightarrow> Inr n | _ \<Rightarrow> Inl (RowError c)),
    decode_opt_int = (\<lambda>v c. case v of Null \<Rightarrow> Inr None | Integer n \<Rightarrow> Inr (Some n) | _ \<Rightarrow> Inl (RowError c)),
    decode_text = (\<lambda>v c. case v of Text x \<Rightarrow> Inr x | _ \<Rightarrow> Inl (RowError c)),
    decode_opt_text = (\<lambda>v c. case v of Null \<Rightarrow> Inr None | Text x \<Rightarrow> Inr (Some x) | _ \<Rightarrow> Inl (RowError c)),
    decode_opt_blob = (\<lambda>v c. case v of Null \<Rightarrow> Inr None | Blob b \<Rightarrow> Inr (Some b) | _ \<Rightarrow> Inl (RowError c)),
    decode_uuid = (\<lambda>v c. case v of Uuid i \<Rightarrow> Inr i | _ \<Rightarrow> Inl (RowError c)),
    decode_opt_uuid = (\<lambda>v c. case v of Null \<Rightarrow> Inr None | Uuid i \<Rightarrow> Inr (Some i) | _ \<Rightarrow> Inl (RowError c)),
    decode_bool = (\<lambda>v c. case v of Bool b \<Rightarrow> Inr b | _ \<Rightarrow> Inl (RowError c)),
    show_from_row_error = (\<lambda>_. ''invalid row''),
    from_timestamp = mem_from_timestamp,
    utc_now = (\<lambda>w. (DateTime (mem_time w) 0, w)),
    now_v7 = (\<lambda>w. (mem_next w, w\<lparr>mem_next := mem_next w + 1\<rparr>)),
    new_v5 = (\<lambda>bs. of_nat (length bs)),
    uuid_to_string = (\<lambda>i. decimal (unat i))\<rparr>"

lemmas [run_simps] = mem_execute_def mem_resolve_def mem_value_def mem_from_timestamp_def mem_time_def
  stored_row_def selects_def assign_def assign1_def set_columns_def update_rows_def keyed_def
  rows_as_def pop_result_def field_def with_nanosecond_0_def

lemma mem_host_simps [simp]:
  "execute (mem_host cols) = mem_execute cols"
  "row_conflicts (mem_host cols) = (\<lambda>t k w. (Inr (map fst (mem_conflicts w t k)), w))"
  "row_conflict_values (mem_host cols) = (\<lambda>t k w. (Inr (mem_conflicts w t k), w))"
  "resolve_row (mem_host cols) = mem_resolve cols"
  "translate_and_execute (mem_host cols) = (\<lambda>_ w. (Inr [], w))"
  "from_row_calls (mem_host cols) = (\<lambda>qr. map (\<lambda>r. (r, qr_columns qr)) (qr_rows qr))"
  "db_value (mem_host cols) = mem_value"
  "from_timestamp (mem_host cols) = mem_from_timestamp"
  "utc_now (mem_host cols) = (\<lambda>w. (DateTime (mem_time w) 0, w))"
  "now_v7 (mem_host cols) = (\<lambda>w. (mem_next w, w\<lparr>mem_next := mem_next w + 1\<rparr>))"
  "new_v5 (mem_host cols) = (\<lambda>bs. of_nat (length bs))"
  "uuid_to_string (mem_host cols) = (\<lambda>i. decimal (unat i))"
  "show_from_row_error (mem_host cols) = (\<lambda>_. ''invalid row'')"
  by (simp_all add: mem_host_def)

lemma mem_decode_simps [simp]:
  "decode_int (mem_host cols) v c = (case v of Integer n \<Rightarrow> Inr n | _ \<Rightarrow> Inl (RowError c))"
  "decode_opt_int (mem_host cols) v c =
    (case v of Null \<Rightarrow> Inr None | Integer n \<Rightarrow> Inr (Some n) | _ \<Rightarrow> Inl (RowError c))"
  "decode_text (mem_host cols) v c = (case v of Text x \<Rightarrow> Inr x | _ \<Rightarrow> Inl (RowError c))"
  "decode_opt_text (mem_host cols) v c =
    (case v of Null \<Rightarrow> Inr None | Text x \<Rightarrow> Inr (Some x) | _ \<Rightarrow> Inl (RowError c))"
  "decode_opt_blob (mem_host cols) v c =
    (case v of Null \<Rightarrow> Inr None | Blob b \<Rightarrow> Inr (Some b) | _ \<Rightarrow> Inl (RowError c))"
  "decode_uuid (mem_host cols) v c = (case v of Uuid i \<Rightarrow> Inr i | _ \<Rightarrow> Inl (RowError c))"
  "decode_opt_uuid (mem_host cols) v c =
    (case v of Null \<Rightarrow> Inr None | Uuid i \<Rightarrow> Inr (Some i) | _ \<Rightarrow> Inl (RowError c))"
  "decode_bool (mem_host cols) v c = (case v of Bool b \<Rightarrow> Inr b | _ \<Rightarrow> Inl (RowError c))"
  by (simp_all add: mem_host_def)

subsection \<open>It satisfies the laws\<close>

lemma mem_statement_conflicts: "mem_statement cols q w = (r, w') \<Longrightarrow> mem_conflicts w' = mem_conflicts w"
  by (cases "(cols, q, w)" rule: mem_statement.cases) (auto split: if_splits)

lemma mem_statements_conflicts:
  "mem_statements cols qs w = (r, w') \<Longrightarrow> mem_conflicts w' = mem_conflicts w"
proof (induction qs arbitrary: r w w')
  case (Cons q qs)
  then show ?case
    by (auto simp: await_def ok_def split: prod.splits sum.splits dest!: mem_statement_conflicts)
qed (simp add: ok_def)

lemma mem_statement_clock: "mem_statement cols q w = (r, w') \<Longrightarrow> mem_time w' = mem_time w"
  by (cases "(cols, q, w)" rule: mem_statement.cases) (auto simp: mem_time_def split: if_splits)

lemma mem_statements_clock: "mem_statements cols qs w = (r, w') \<Longrightarrow> mem_time w' = mem_time w"
proof (induction qs arbitrary: r w w')
  case (Cons q qs)
  then show ?case
    by (auto simp: await_def ok_def split: prod.splits sum.splits dest!: mem_statement_clock)
qed (simp add: ok_def)

lemma mem_execute_clock: "mem_execute cols qs w = (r, w') \<Longrightarrow> mem_time w' = mem_time w"
  by (auto simp: mem_execute_def split: prod.splits sum.splits dest: mem_statements_clock)

lemma mem_execute_conflicts: "mem_execute cols qs w = (r, w') \<Longrightarrow> mem_conflicts w' = mem_conflicts w"
  by (auto simp: mem_execute_def split: prod.splits sum.splits dest: mem_statements_conflicts)

lemma mem_execute_fails: "mem_execute cols qs w = (Inl e, w') \<Longrightarrow> w' = w"
  by (auto simp: mem_execute_def split: prod.splits sum.splits)

lemma mem_statement_modify:
  "modifies q \<Longrightarrow> mem_statement cols q w =
    (Inr \<lparr>qr_columns = [], qr_rows = []\<rparr>, w\<lparr>mem_tables := modify q (mem_tables w)\<rparr>)"
  by (cases "(cols, q, w)" rule: mem_statement.cases) auto

lemma mem_statements_modify:
  "\<forall>q \<in> set qs. modifies q \<Longrightarrow> \<exists>rs. mem_statements cols qs w =
    (Inr rs, w\<lparr>mem_tables := fold modify qs (mem_tables w)\<rparr>)"
proof (induction qs arbitrary: w)
  case (Cons q qs)
  then obtain rs where "mem_statements cols qs (w\<lparr>mem_tables := modify q (mem_tables w)\<rparr>) =
      (Inr rs, w\<lparr>mem_tables := fold modify (q # qs) (mem_tables w)\<rparr>)"
    using Cons.IH [of "w\<lparr>mem_tables := modify q (mem_tables w)\<rparr>"] by auto
  with Cons.prems show ?case by (simp add: await_def ok_def mem_statement_modify)
qed (simp add: ok_def)

lemma mem_statements_live:
  "\<forall>q \<in> set qs. modifies q \<or> (\<exists>t ps p. q = Query (Select t ps p)) \<Longrightarrow>
    \<exists>rs w'. mem_statements cols qs w = (Inr rs, w')"
proof (induction qs arbitrary: w)
  case (Cons q qs)
  from Cons.prems obtain r w1 where q: "mem_statement cols q w = (Inr r, w1)"
    by (auto simp: mem_statement_modify)
  obtain rs w2 where "mem_statements cols qs w1 = (Inr rs, w2)"
    using Cons.IH [of w1] Cons.prems by auto
  with q show ?case by (simp add: await_def ok_def)
qed (simp add: ok_def)

lemma stored_as_stored_row:
  assumes "distinct cs" "length r = length cs" shows "stored_as cs r (stored_row cs r)"
  unfolding stored_as_def stored_row_def
proof (rule nth_equalityI)
  fix i assume "i < length (map (\<lambda>c. case map_of (zip cs r) c of None \<Rightarrow> Null | Some v \<Rightarrow> v) cs)"
  then have "i < length cs" by simp
  moreover from this assms have "map_of (zip cs r) (cs ! i) = Some (r ! i)"
    by (simp add: map_of_zip_nth)
  ultimately show "map (\<lambda>c. case map_of (zip cs r) c of None \<Rightarrow> Null | Some v \<Rightarrow> v) cs ! i = r ! i"
    by simp
qed (simp add: assms)

lemma mem_value_ok: "c \<in> set cs \<Longrightarrow> mem_value (map s cs) cs c = Inr (s c)"
  by (simp add: mem_value_def map_of_zip_map)

lemma mem_execute_insert:
  assumes "distinct (cols t)" and "mem_execute cols [Query (Insert t r)] w = (Inr rs, w')"
  shows "\<exists>s xs ys. stored_as (cols t) r s \<and> mem_tables w t = xs @ ys
    \<and> mem_tables w' = (mem_tables w)(t := xs @ s # ys)"
proof -
  from assms(2) have "length r = length (cols t)"
    "mem_tables w' = (mem_tables w)(t := mem_tables w t @ [stored_row (cols t) r])"
    by (auto simp: mem_execute_def await_def ok_def split: if_splits prod.splits)
  with stored_as_stored_row [OF assms(1)] show ?thesis by (metis append_Nil2)
qed

theorem mem_host_engine:
  assumes "\<And>t. distinct (cols t)"
  shows "db_engine_live (mem_host cols) mem_tables mem_conflicts cols mem_time"
proof (unfold_locales, goal_cases)
  case (3 qs w rs w')
  then show ?case using mem_statements_modify [of qs cols w] by (auto simp: mem_execute_def)
next
  case (4 t r w rs w')
  then show ?case using mem_execute_insert [OF assms] by simp
next
  case (5 t v r w rs w' s)
  then show ?case by (auto simp: mem_execute_def await_def ok_def split: if_splits)
next
  case (6 qs w e w')
  then show ?case by (auto dest: mem_execute_fails)
next
  case (7 qs w rs w' t k)
  then show ?case by (auto dest: mem_execute_conflicts)
next
  case (36 qs w)
  then show ?case
    using mem_statements_live [of qs cols w] by (auto simp: mem_execute_def)
next
  case (16 qs w res w')
  then show ?case by (auto dest: mem_execute_clock)
qed (auto simp: mem_execute_def mem_resolve_def await_def ok_def mem_value_ok mem_from_timestamp_def
    mem_time_def split: Value.splits if_splits)

end
