(* ===== verification/Schema.thy ===== *)
theory Schema
  imports Ofdb
begin

text \<open>
  The columns of the tables that the migrations create, in schema order with the
  primary key first: \<open>crates/management-service/src/replica/schema.rs\<close> and
  \<open>crates/idp-model/replica_migrations\<close>.  An insert lists the values of a row in this
  order, so that the encoders of the repositories are checked against it.  The executable
  engine over this schema satisfies the laws of the engine.
\<close>

definition role_columns :: "string list" where
  "role_columns = [''id'', ''application_id'', ''name'', ''description'', ''revoked_at'', ''created_at'', ''updated_at'']"

definition schema_columns :: "string \<Rightarrow> string list" where
  "schema_columns t =
    (if t = ''devices'' then [''id'', ''owner_subject'', ''name'', ''public_key'', ''address'',
        ''enrollment_code_hash'', ''enrollment_expires_at'', ''pairing_accepting_public_key'', ''state'',
        ''approved_at'', ''revoked_at'', ''created_at'', ''updated_at'']
     else if t = ''roles'' \<or> t = ''permissions'' then role_columns
     else if t = ''role_permissions'' then
       [''id'', ''role_id'', ''permission_id'', ''revoked_at'', ''created_at'', ''updated_at'']
     else if t = ''application_user_roles'' then
       [''id'', ''user_id'', ''application_id'', ''role_id'', ''revoked_at'', ''created_at'', ''updated_at'']
     else if t = ''device_selection_policies'' then
       [''device_id'', ''owner_subject'', ''application_id'', ''selected_kind'', ''selected_id'', ''admin_allowed'']
     else if t = ''device_resource_selections'' then
       [''id'', ''device_id'', ''owner_subject'', ''application_id'', ''selected_kind'', ''selected_id'', ''selected'']
     else if t = ''oauth2_authorization_codes'' then
       [''id'', ''code_hash'', ''client_id'', ''user_id'', ''key_id'', ''redirect_uri'', ''scopes'', ''resource'',
        ''authorization_details'', ''code_challenge'', ''code_challenge_method'', ''nonce'', ''expires_at'',
        ''consumed_at'', ''created_at'', ''updated_at'']
     else if t = ''oauth2_user_consents'' then
       [''id'', ''user_id'', ''client_id'', ''redirect_uri'', ''scope'', ''authorization_details'',
        ''revoked_at'', ''created_at'', ''updated_at'']
     else if t = ''users'' then
       [''id'', ''handle'', ''name'', ''given_name'', ''family_name'', ''middle_name'', ''nickname'',
        ''profile'', ''picture'', ''website'', ''sex'', ''birthdate'', ''zoneinfo'', ''locale'', ''created_at'',
        ''updated_at'']
     else if t = ''user_emails'' then
       [''id'', ''user_id'', ''email'', ''verified'', ''primary_email'', ''created_at'', ''updated_at'']
     else if t = ''user_phone_numbers'' then
       [''id'', ''user_id'', ''phone_number'', ''verified'', ''primary_phone'', ''created_at'', ''updated_at'']
     else if t = ''credentials'' then
       [''id'', ''user_id'', ''kind'', ''secret_hash'', ''active'', ''revoked_at'', ''created_at'',
        ''updated_at'']
     else if t = ''keys'' then
       [''id'', ''parent_id'', ''entity_type'', ''entity_id'', ''derivation_path'', ''derivation_index'',
        ''hardened'', ''name'', ''revoked_at'', ''expires_at'', ''created_at'', ''updated_at'']
     else if t = ''applications'' then
       [''id'', ''name'', ''uri'', ''description'', ''created_at'', ''updated_at'']
     else if t = ''clients'' then
       [''id'', ''application_id'', ''client_id'', ''client_secret_hash'', ''client_id_issued_at'',
        ''client_secret_expires_at'', ''client_name'', ''client_uri'', ''redirect_uris'', ''client_type'',
        ''profile'', ''token_endpoint_auth_method'', ''allowed_grant_types'', ''response_types'',
        ''allowed_scopes'', ''allowed_audiences'', ''logo_uri'', ''contacts'', ''terms_of_service_uri'',
        ''policy_uri'', ''software_statement'', ''software_id'', ''software_version'', ''revoked_at'',
        ''created_at'', ''updated_at'']
     else [])"

lemma distinct_schema_columns: "distinct (schema_columns t)"
  by (simp add: schema_columns_def role_columns_def)

lemmas [run_simps] = schema_columns_def role_columns_def

interpretation memdb: db_engine_live "mem_host schema_columns" mem_tables mem_conflicts schema_columns mem_time
  by (rule mem_host_engine) (rule distinct_schema_columns)

end
