(* ===== verification/Contract.thy ===== *)
theory Contract
  imports Schema
begin

text \<open>
  The data the components exchange: the enumerations, records and error types of
  \<open>crates/idp-model\<close> (\<open>contract\<close> and \<open>model\<close>), of \<open>crates/model\<close> and of
  \<open>crates/management-service/src/error.rs\<close>.
\<close>

section \<open>Errors\<close>

datatype ErrorCode = NotFound | UnauthorizedClient | AccessDenied | NotAuthorized | ServerError
  | TemporarilyUnavailable | InvalidGrant | InvalidClient | InvalidRequest | InvalidScope
  | InvalidResponseType | UnsupportedResponseType | UnsupportedGrantType | NotImplemented

record ErrorResponse =
  error :: ErrorCode
  error_description :: "string option"
  error_uri :: "string option"

definition ErrorResponse_new :: "ErrorCode \<Rightarrow> ErrorResponse" where
  "ErrorResponse_new code = \<lparr>error = code, error_description = None, error_uri = None\<rparr>"

definition with_description :: "string \<Rightarrow> ErrorResponse \<Rightarrow> ErrorResponse" where
  "with_description d e = e\<lparr>error_description := Some d\<rparr>"

text \<open>\<open>IntoResponse for ErrorResponse\<close>: the HTTP status of an error.\<close>

fun status_code :: "ErrorCode \<Rightarrow> nat" where
  "status_code NotFound = 404"
| "status_code NotAuthorized = 401"
| "status_code InvalidRequest = 400"
| "status_code InvalidClient = 400"
| "status_code InvalidGrant = 400"
| "status_code UnauthorizedClient = 403"
| "status_code UnsupportedGrantType = 400"
| "status_code InvalidScope = 400"
| "status_code ServerError = 500"
| "status_code TemporarilyUnavailable = 503"
| "status_code AccessDenied = 403"
| "status_code InvalidResponseType = 400"
| "status_code UnsupportedResponseType = 400"
| "status_code NotImplemented = 501"

datatype ManagementError = DeserializeError string | InvalidInput string | Other string

fun ManagementError_to_string :: "ManagementError \<Rightarrow> string" where
  "ManagementError_to_string (DeserializeError e) = ''deserialize error: '' @ e"
| "ManagementError_to_string (InvalidInput e) = ''invalid input: '' @ e"
| "ManagementError_to_string (Other e) = e"

definition ErrorResponse_from :: "ManagementError \<Rightarrow> ErrorResponse" where
  "ErrorResponse_from e = with_description (ManagementError_to_string e) (ErrorResponse_new ServerError)"

section \<open>Devices\<close>

datatype DeviceState = Pending | Approved | Revoked

fun DeviceState_as_i64 :: "DeviceState \<Rightarrow> int" where
  "DeviceState_as_i64 Pending = 0"
| "DeviceState_as_i64 Approved = 1"
| "DeviceState_as_i64 Revoked = 2"

record Device =
  dev_id :: uuid
  dev_owner_subject :: string
  dev_name :: string
  dev_public_key :: string
  dev_address :: string
  dev_state :: DeviceState
  dev_created_at :: datetime
  dev_updated_at :: datetime
  dev_revoked_at :: "datetime option"

record DeviceInfo =
  info_id :: uuid
  info_name :: string
  info_public_key :: string
  info_address :: string
  info_state :: DeviceState
  info_created_at :: int
  info_updated_at :: int
  info_revoked_at :: "int option"

definition DeviceInfo_from :: "Device \<Rightarrow> DeviceInfo" where
  "DeviceInfo_from d = \<lparr>info_id = dev_id d, info_name = dev_name d, info_public_key = dev_public_key d,
    info_address = dev_address d, info_state = dev_state d, info_created_at = timestamp (dev_created_at d),
    info_updated_at = timestamp (dev_updated_at d), info_revoked_at = map_option timestamp (dev_revoked_at d)\<rparr>"

record TrustedDevice =
  td_public_key :: string
  td_address :: string

record DeviceEnrollmentRequest =
  req_name :: string
  req_public_key :: string
  req_address :: string

record DeviceEnrollment =
  enr_id :: uuid
  enr_state :: DeviceState
  enr_approval_code :: "string option"

record DevicePairingRequest =
  pair_name :: string
  pair_public_key :: string
  pair_address :: string
  pair_accepting_public_key :: string

text \<open>\<open>device_pairing_approval_payload\<close> and \<open>device_self_revocation_payload\<close>: the texts a
  device signs.  The text of a UUID is the external crate's, \<open>show_id\<close>.\<close>

definition device_pairing_approval_payload ::
    "(uuid \<Rightarrow> string) \<Rightarrow> uuid \<Rightarrow> string \<Rightarrow> string \<Rightarrow> string \<Rightarrow> string" where
  "device_pairing_approval_payload show_id device_id name public_key address =
    ''idp-device-pairing-approval-v1'' @ [CHR 0x0A] @ show_id device_id @ [CHR 0x0A]
    @ decimal (length name) @ [CHR 0x0A] @ name @ [CHR 0x0A]
    @ decimal (length public_key) @ [CHR 0x0A] @ public_key @ [CHR 0x0A]
    @ decimal (length address) @ [CHR 0x0A] @ address"

definition device_self_revocation_payload :: "string \<Rightarrow> string" where
  "device_self_revocation_payload public_key =
    ''idp-device-self-revocation-v1'' @ [CHR 0x0A] @ decimal (length public_key) @ [CHR 0x0A] @ public_key"

lemmas contract_defs [run_simps] =
  ErrorResponse_new_def with_description_def ErrorResponse_from_def DeviceInfo_from_def

lemma DeviceState_as_i64_inj [simp]: "DeviceState_as_i64 a = DeviceState_as_i64 b \<longleftrightarrow> a = b"
  by (cases a; cases b) simp_all

declare DeviceState_as_i64.simps [simp del, run_simps]

end
