(* ===== verification/Replica.thy ===== *)
theory Replica
  imports Contract
begin

text \<open>
  Security-relevant rows of the replica (\<open>crates/idp-model/src/replica.rs\<close>): a row with
  an unresolved conflict is unusable for authentication, authorization, token issuance and
  tunnel access, and only an administrator's resolution makes it usable again.
\<close>

section \<open>Definitions\<close>

datatype SecurityTable = ApplicationTable | ClientTable | CredentialTable | DeviceTable | KeyTable
  | OAuthAuthorizationCodeTable | OAuthRefreshTokenTable | OAuthUserConsentTable | PermissionTable
  | RoleTable | RolePermissionTable | UserRoleTable

fun SecurityTable_name :: "SecurityTable \<Rightarrow> string" where
  "SecurityTable_name ApplicationTable = ''applications''"
| "SecurityTable_name ClientTable = ''clients''"
| "SecurityTable_name CredentialTable = ''credentials''"
| "SecurityTable_name DeviceTable = ''devices''"
| "SecurityTable_name KeyTable = ''keys''"
| "SecurityTable_name OAuthAuthorizationCodeTable = ''oauth2_authorization_codes''"
| "SecurityTable_name OAuthRefreshTokenTable = ''oauth2_refresh_tokens''"
| "SecurityTable_name OAuthUserConsentTable = ''oauth2_user_consents''"
| "SecurityTable_name PermissionTable = ''permissions''"
| "SecurityTable_name RoleTable = ''roles''"
| "SecurityTable_name RolePermissionTable = ''role_permissions''"
| "SecurityTable_name UserRoleTable = ''application_user_roles''"

definition is_token_state :: "SecurityTable \<Rightarrow> bool" where
  "is_token_state t = (t = OAuthAuthorizationCodeTable \<or> t = OAuthRefreshTokenTable)"

record SecurityRow =
  sr_table :: SecurityTable
  sr_id :: uuid

definition SecurityRow_new :: "SecurityTable \<Rightarrow> uuid \<Rightarrow> SecurityRow" where
  "SecurityRow_new t i = \<lparr>sr_table = t, sr_id = i\<rparr>"

definition SecurityRow_key :: "SecurityRow \<Rightarrow> row" where
  "SecurityRow_key r = [Uuid (sr_id r)]"

record ResolutionAudit =
  audit_id :: uuid
  audit_administrator_id :: uuid
  audit_table :: SecurityTable
  audit_row_id :: uuid
  audit_columns :: "string list"
  audit_created_at :: int

fun clear :: "'w host \<Rightarrow> SecurityRow list \<Rightarrow> ('w, engine_error, bool) op" where
  "clear H [] = ok True"
| "clear H (row # rows) =
    await (row_conflicts H (SecurityTable_name (sr_table row)) (SecurityRow_key row)) (\<lambda>conflicts.
    if conflicts \<noteq> [] then ok False else clear H rows)"

definition allows_authentication :: "'w host \<Rightarrow> uuid list \<Rightarrow> uuid list \<Rightarrow> ('w, engine_error, bool) op" where
  "allows_authentication H credentials keys =
    clear H (map (SecurityRow_new CredentialTable) credentials @ map (SecurityRow_new KeyTable) keys)"

definition allows_authorization :: "'w host \<Rightarrow> SecurityRow list \<Rightarrow> ('w, engine_error, bool) op" where
  "allows_authorization H rows = clear H rows"

definition allows_token_issuance :: "'w host \<Rightarrow> SecurityRow list \<Rightarrow> ('w, engine_error, bool) op" where
  "allows_token_issuance H rows = clear H rows"

definition allows_tunnel_access :: "'w host \<Rightarrow> uuid list \<Rightarrow> ('w, engine_error, bool) op" where
  "allows_tunnel_access H devices = clear H (map (SecurityRow_new DeviceTable) devices)"

text \<open>Decimal text of an \<open>i64\<close>.\<close>

definition show_int :: "int \<Rightarrow> string" where
  "show_int n = (if n < 0 then CHR ''-'' # decimal (nat (- n)) else decimal (nat n))"

definition resolution_insert :: "'w host \<Rightarrow> ResolutionAudit \<Rightarrow> string" where
  "resolution_insert H audit =
    ''INSERT INTO idp_conflict_resolutions (id, administrator_id, table_name, row_id, columns, created_at) VALUES (CAST(''
    @ [CHR 0x27] @ uuid_to_string H (audit_id audit) @ [CHR 0x27] @ '' AS UUID), CAST('' @ [CHR 0x27]
    @ uuid_to_string H (audit_administrator_id audit) @ [CHR 0x27] @ '' AS UUID), '' @ [CHR 0x27]
    @ SecurityTable_name (audit_table audit) @ [CHR 0x27] @ '', CAST('' @ [CHR 0x27]
    @ uuid_to_string H (audit_row_id audit) @ [CHR 0x27] @ '' AS UUID), '' @ [CHR 0x27]
    @ join '','' (audit_columns audit) @ [CHR 0x27] @ '', '' @ show_int (audit_created_at audit) @ '')''"

definition resolve :: "'w host \<Rightarrow> uuid \<Rightarrow> SecurityRow \<Rightarrow> (string \<times> Value) list \<Rightarrow> int
    \<Rightarrow> ('w, engine_error, ResolutionAudit option) op" where
  "resolve H administrator_id row values created_at =
    await (row_conflicts H (SecurityTable_name (sr_table row)) (SecurityRow_key row)) (\<lambda>conflicts.
    if conflicts = []
       \<or> (is_token_state (sr_table row) \<and> list_ex (\<lambda>column. column = ''consumed_at'') conflicts
          \<and> \<not> list_ex (\<lambda>(column, v). column = ''consumed_at'' \<and> v \<noteq> Null) values)
    then ok None
    else await (effect (now_v7 H)) (\<lambda>id.
      let audit = \<lparr>audit_id = id, audit_administrator_id = administrator_id, audit_table = sr_table row,
            audit_row_id = sr_id row, audit_columns = conflicts, audit_created_at = created_at\<rparr> in
      await (resolve_row H (SecurityTable_name (sr_table row)) (SecurityRow_key row) values) (\<lambda>_.
      await (translate_and_execute H (resolution_insert H audit)) (\<lambda>_. ok (Some audit)))))"

lemmas replica_defs [run_simps] =
  SecurityRow_new_def SecurityRow_key_def allows_authentication_def allows_authorization_def
  allows_token_issuance_def allows_tunnel_access_def is_token_state_def

section \<open>Clear rows\<close>

definition conflict_free :: "conflicts \<Rightarrow> SecurityRow \<Rightarrow> bool" where
  "conflict_free C row = (C (SecurityTable_name (sr_table row)) (SecurityRow_key row) = [])"

lemma conflict_free_device: "conflict_free C (SecurityRow_new DeviceTable i) = (C ''devices'' [Uuid i] = [])"
  by (simp add: conflict_free_def SecurityRow_new_def SecurityRow_key_def)

context db_engine
begin

lemma wp_clear:
  assumes "\<And>w'. same w w' \<Longrightarrow> Q (list_all (conflict_free (C w)) rows) w'"
    and "\<And>e w'. same w w' \<Longrightarrow> X e w'"
  shows "wp (clear H rows) Q X w"
  using assms
proof (induction rows arbitrary: w)
  case Nil
  then show ?case by (simp add: wp_simps)
next
  case (Cons row rows)
  show ?case
    unfolding clear.simps wp_simps
  proof (rule wp_row_conflicts)
    fix w1 assume 1: "same w w1"
    have "wp (clear H rows) Q X w1" if "conflict_free (C w) row"
      by (rule Cons.IH) (use that Cons.prems same_trans [OF 1] in \<open>auto simp: sameD(2) [OF 1]\<close>)
    moreover have "Q False w1" if "\<not> conflict_free (C w) row"
      using that Cons.prems(1) [OF 1] by simp
    ultimately show "if map fst (C w (SecurityTable_name (sr_table row)) (SecurityRow_key row)) \<noteq> []
        then Q False w1 else wp (clear H rows) Q X w1"
      by (simp add: conflict_free_def)
  qed (rule Cons.prems(2))
qed

lemma wp_tunnel [wp_rules]:
  assumes "\<And>w'. same w w' \<Longrightarrow> Q (\<forall>i \<in> set devices. C w ''devices'' [Uuid i] = []) w'"
    and "\<And>e w'. same w w' \<Longrightarrow> X e w'"
  shows "wp (allows_tunnel_access H devices) Q X w"
  unfolding allows_tunnel_access_def
  by (rule wp_clear) (use assms in \<open>simp_all add: list_all_iff conflict_free_device\<close>)

end

context db_engine_live
begin

lemma wp_clear_live:
  assumes "\<And>w'. same w w' \<Longrightarrow> Q (list_all (conflict_free (C w)) rows) w'"
  shows "wp (clear H rows) Q X w"
  using assms
proof (induction rows arbitrary: w)
  case Nil
  then show ?case by (simp add: wp_simps)
next
  case (Cons row rows)
  show ?case
    unfolding clear.simps wp_simps
  proof (rule wp_row_conflicts_live, goal_cases)
    case (1 w1)
    have "wp (clear H rows) Q X w1" if "conflict_free (C w) row"
      by (rule Cons.IH) (use that Cons.prems same_trans [OF 1] in \<open>auto simp: sameD(2) [OF 1]\<close>)
    moreover have "Q False w1" if "\<not> conflict_free (C w) row"
      using that Cons.prems [OF 1] by simp
    ultimately show ?case by (simp add: conflict_free_def)
  qed
qed

end

section \<open>Resolutions\<close>

text \<open>A resolution is refused when nothing is in conflict, and when the conflict is about the
  consumption of a token and the administrator does not decide that it was consumed.\<close>

definition resolution_refused :: "conflicts \<Rightarrow> SecurityRow \<Rightarrow> (string \<times> Value) list \<Rightarrow> bool" where
  "resolution_refused C row values =
    (let conflicts = map fst (C (SecurityTable_name (sr_table row)) (SecurityRow_key row)) in
     conflicts = [] \<or> (is_token_state (sr_table row) \<and> ''consumed_at'' \<in> set conflicts
      \<and> (\<forall>(c, v) \<in> set values. c = ''consumed_at'' \<longrightarrow> v = Null)))"

lemma set_columns_other: "c \<notin> fst ` set cvs \<Longrightarrow> set_columns cvs s c = s c"
  unfolding set_columns_def by (induction cvs arbitrary: s) auto

lemma set_columns_distinct:
  "distinct (map fst cvs) \<Longrightarrow> (c, v) \<in> set cvs \<Longrightarrow> set_columns cvs s c = v"
proof (induction cvs arbitrary: s)
  case (Cons cv cvs)
  have step: "set_columns (cv # cvs) s = set_columns cvs (s(fst cv := snd cv))"
    by (simp add: set_columns_def split: prod.split)
  show ?case
  proof (cases "(c, v) = cv")
    case True
    with Cons.prems(1) show ?thesis by (auto simp: step set_columns_other)
  next
    case False
    with Cons show ?thesis by (simp add: step)
  qed
qed simp

lemma resolved_columns: "c \<in> S \<Longrightarrow> c \<notin> fst ` set (filter (\<lambda>(c, _). c \<notin> S) xs)"
  by auto

text \<open>The statement that records a resolution changes the audit table only.\<close>

locale db_engine_audit = db_engine +
  assumes audit_insert:
    "translate_and_execute H (resolution_insert H audit) w = (res, w') \<Longrightarrow>
      C w' = C w \<and> (\<forall>t. t \<noteq> ''idp_conflict_resolutions'' \<longrightarrow> T w' t = T w t)"
begin

lemma wp_audit:
  assumes "\<And>x w'. C w' = C w \<Longrightarrow> (\<And>t. t \<noteq> ''idp_conflict_resolutions'' \<Longrightarrow> T w' t = T w t) \<Longrightarrow> Q x w'"
    and "\<And>e w'. X e w'"
  shows "wp (translate_and_execute H (resolution_insert H audit)) Q X w"
  by (rule wp_I) (use assms audit_insert [of audit w] in auto)

lemma wp_resolve:
  fixes row :: SecurityRow
  defines "t \<equiv> SecurityTable_name (sr_table row)" and "k \<equiv> SecurityRow_key row"
  assumes refused: "\<And>w'. same w w' \<Longrightarrow> resolution_refused (C w) row values \<Longrightarrow> Q None w'"
    and resolved: "\<And>audit w'. \<not> resolution_refused (C w) row values \<Longrightarrow>
      audit_columns audit = map fst (C w t k) \<Longrightarrow> audit_administrator_id audit = administrator_id \<Longrightarrow>
      audit_table audit = sr_table row \<Longrightarrow> audit_row_id audit = sr_id row \<Longrightarrow>
      audit_created_at audit = created_at \<Longrightarrow>
      T w' t = update_rows (keyed (cols t) k) (set_columns values) (T w t) \<Longrightarrow>
      C w' t k = filter (\<lambda>(c, _). c \<notin> fst ` set values) (C w t k) \<Longrightarrow> Q (Some audit) w'"
  shows "wp (resolve H administrator_id row values created_at) Q (\<lambda>_ _. True) w"
proof -
  have t: "t \<noteq> ''idp_conflict_resolutions''" by (cases "sr_table row") (simp_all add: t_def)
  have guard: "(map fst (C w t k) = [] \<or> is_token_state (sr_table row)
      \<and> list_ex (\<lambda>column. column = ''consumed_at'') (map fst (C w t k))
      \<and> \<not> list_ex (\<lambda>(column, v). column = ''consumed_at'' \<and> v \<noteq> Null) values)
      = resolution_refused (C w) row values"
    by (auto simp: resolution_refused_def t_def k_def list_ex_iff Let_def)
  show ?thesis
    unfolding resolve_def wp_simps Let_def t_def [symmetric] k_def [symmetric]
  proof (rule wp_row_conflicts, goal_cases)
    case (1 w1)
    have "wp (resolve_row H t k values) (\<lambda>a. wp (translate_and_execute H (resolution_insert H audit))
        (\<lambda>a. Q (Some audit)) (\<lambda>_ _. True)) (\<lambda>_ _. True) w2"
      if w2: "same w1 w2" and nr: "\<not> resolution_refused (C w) row values"
        and audit: "audit_columns audit = map fst (C w t k)" "audit_administrator_id audit = administrator_id"
          "audit_table audit = sr_table row" "audit_row_id audit = sr_id row"
          "audit_created_at audit = created_at" for audit w2
      by (rule wp_resolve_row, rule wp_audit, rule resolved [OF nr audit])
        (use t in \<open>simp_all add: sameD [OF w2] sameD [OF 1]\<close>)
    then show ?case
      unfolding guard using refused [OF 1] by (auto intro!: wp_now_v7)
  qed simp
qed

end

interpretation memdb: db_engine_audit "mem_host schema_columns" mem_tables mem_conflicts schema_columns mem_time
  by unfold_locales simp


definition conflicted_code :: mem where
  "conflicted_code = \<lparr>
    mem_tables = (\<lambda>t. if t = ''oauth2_authorization_codes'' then [(\<lambda>c. Null)(''id'' := Uuid 7)] else []),
    mem_conflicts = (\<lambda>t k. if t = ''oauth2_authorization_codes'' \<and> k = [Uuid 7]
      then [(''consumed_at'', [Null, Integer 5])] else []),
    mem_clock = 100, mem_next = 1\<rparr>"


end
