(* ===== verification/Devices.thy ===== *)
theory Devices
  imports Replica
begin

text \<open>
  The device registry (\<open>crates/management-service/src/replica/device_repo.rs\<close>): rows of the
  table \<open>devices\<close>, their encoding, and the operations of \<open>DbDeviceRepo\<close>.  The first device
  of an empty registry is approved at once; every later one waits for a code or for the
  signature of an approved device.
\<close>

section \<open>Rows\<close>

record device_row =
  dr_id :: uuid
  dr_owner_subject :: string
  dr_name :: string
  dr_public_key :: string
  dr_address :: string
  dr_enrollment_code_hash :: "byte list option"
  dr_enrollment_expires_at :: "int option"
  dr_pairing_accepting_public_key :: "string option"
  dr_state :: DeviceState
  dr_approved_at :: "int option"
  dr_revoked_at :: "int option"
  dr_created_at :: int
  dr_updated_at :: int

definition device_columns :: "string list" where
  "device_columns = [''id'', ''owner_subject'', ''name'', ''public_key'', ''address'',
    ''enrollment_code_hash'', ''enrollment_expires_at'', ''pairing_accepting_public_key'', ''state'',
    ''approved_at'', ''revoked_at'', ''created_at'', ''updated_at'']"

definition device_state_of :: "int \<Rightarrow> from_row_error + DeviceState" where
  "device_state_of n = (if n = 0 then Inr Pending else if n = 1 then Inr Approved else if n = 2 then Inr Revoked
    else Inl (InvalidValue ''state'' IntegerType IntegerType))"

definition device_from_row :: "'w host \<Rightarrow> row \<Rightarrow> string list \<Rightarrow> from_row_error + device_row" where
  "device_from_row H r cs =
    and_then (field H decode_int r cs ''state'') (\<lambda>n.
    and_then (device_state_of n) (\<lambda>state.
    and_then (field H decode_uuid r cs ''id'') (\<lambda>id.
    and_then (field H decode_text r cs ''owner_subject'') (\<lambda>owner_subject.
    and_then (field H decode_text r cs ''name'') (\<lambda>name.
    and_then (field H decode_text r cs ''public_key'') (\<lambda>public_key.
    and_then (field H decode_text r cs ''address'') (\<lambda>address.
    and_then (field H decode_opt_blob r cs ''enrollment_code_hash'') (\<lambda>enrollment_code_hash.
    and_then (field H decode_opt_int r cs ''enrollment_expires_at'') (\<lambda>enrollment_expires_at.
    and_then (field H decode_opt_text r cs ''pairing_accepting_public_key'') (\<lambda>pairing_accepting_public_key.
    and_then (field H decode_opt_int r cs ''approved_at'') (\<lambda>approved_at.
    and_then (field H decode_opt_int r cs ''revoked_at'') (\<lambda>revoked_at.
    and_then (field H decode_int r cs ''created_at'') (\<lambda>created_at.
    and_then (field H decode_int r cs ''updated_at'') (\<lambda>updated_at.
    Inr \<lparr>dr_id = id, dr_owner_subject = owner_subject, dr_name = name, dr_public_key = public_key,
      dr_address = address, dr_enrollment_code_hash = enrollment_code_hash,
      dr_enrollment_expires_at = enrollment_expires_at,
      dr_pairing_accepting_public_key = pairing_accepting_public_key, dr_state = state,
      dr_approved_at = approved_at, dr_revoked_at = revoked_at, dr_created_at = created_at,
      dr_updated_at = updated_at\<rparr>))))))))))))))"

definition or_null :: "('a \<Rightarrow> Value) \<Rightarrow> 'a option \<Rightarrow> Value" where
  "or_null f x = (case x of None \<Rightarrow> Null | Some a \<Rightarrow> f a)"

definition device_to_row :: "device_row \<Rightarrow> row" where
  "device_to_row r = [Uuid (dr_id r), Text (dr_owner_subject r), Text (dr_name r), Text (dr_public_key r),
    Text (dr_address r), or_null Blob (dr_enrollment_code_hash r), or_null Integer (dr_enrollment_expires_at r),
    or_null Text (dr_pairing_accepting_public_key r), Integer (DeviceState_as_i64 (dr_state r)),
    or_null Integer (dr_approved_at r), or_null Integer (dr_revoked_at r), Integer (dr_created_at r),
    Integer (dr_updated_at r)]"

definition db_error :: "engine_error \<Rightarrow> ManagementError" where
  "db_error e = InvalidInput e"

definition row_error :: "'w host \<Rightarrow> from_row_error \<Rightarrow> ManagementError" where
  "row_error H e = InvalidInput (show_from_row_error H e)"

definition device_now :: "'w host \<Rightarrow> ('w, ManagementError, datetime) op" where
  "device_now H = await (effect (utc_now H)) (\<lambda>t. ok (with_nanosecond_0 t))"

definition device_timestamp :: "'w host \<Rightarrow> int \<Rightarrow> ManagementError + datetime" where
  "device_timestamp H n = ok_or (InvalidInput ''invalid device timestamp'') (from_timestamp H n)"

definition device_try_from :: "'w host \<Rightarrow> device_row \<Rightarrow> ManagementError + Device" where
  "device_try_from H r =
    and_then (device_timestamp H (dr_created_at r)) (\<lambda>created_at.
    and_then (device_timestamp H (dr_updated_at r)) (\<lambda>updated_at.
    and_then (case dr_revoked_at r of None \<Rightarrow> Inr None
        | Some n \<Rightarrow> and_then (device_timestamp H n) (\<lambda>t. Inr (Some t))) (\<lambda>revoked_at.
    Inr \<lparr>dev_id = dr_id r, dev_owner_subject = dr_owner_subject r, dev_name = dr_name r,
      dev_public_key = dr_public_key r, dev_address = dr_address r, dev_state = dr_state r,
      dev_created_at = created_at, dev_updated_at = updated_at, dev_revoked_at = revoked_at\<rparr>)))"

definition device_column :: "string \<Rightarrow> query_column" where
  "device_column name = QueryColumn ''devices'' name"

definition device_equals :: "string \<Rightarrow> Value \<Rightarrow> query_expr" where
  "device_equals name v = Equals (QValue (ExprColumn (device_column name))) (QValue (ExprValue v))"

definition device_assignment :: "string \<Rightarrow> Value \<Rightarrow> assignment" where
  "device_assignment name v = Assignment (device_column name) (ExprValue v)"

definition device_select :: query where
  "device_select = Select ''devices'' (map device_column device_columns) None"

section \<open>Operations\<close>

definition device_records :: "'w host \<Rightarrow> ('w, ManagementError, device_row list) op" where
  "device_records H =
    await (map_err db_error (execute H [Query device_select])) (\<lambda>results.
    await (lift (ok_or (InvalidInput ''missing device query result'') (pop_result results))) (\<lambda>result.
    await (lift (result_map_err (row_error H) (rows_as H (device_from_row H) result))) (\<lambda>rows.
    if list_ex (\<lambda>row. blank (dr_owner_subject row)) rows
    then err (InvalidInput ''device record has no owner'') else ok rows)))"

definition device_record :: "'w host \<Rightarrow> uuid \<Rightarrow> ('w, ManagementError, device_row option) op" where
  "device_record H device_id =
    await (device_records H) (\<lambda>rows. ok (List.find (\<lambda>row. dr_id row = device_id) rows))"

definition device_ensure_clear :: "'w host \<Rightarrow> uuid \<Rightarrow> ('w, ManagementError, unit) op" where
  "device_ensure_clear H device_id =
    await (map_err db_error (allows_tunnel_access H [device_id])) (\<lambda>allowed.
    if allowed then ok () else err (InvalidInput ''conflicted device''))"

definition device_update :: "'w host \<Rightarrow> uuid \<Rightarrow> assignment list \<Rightarrow> ('w, ManagementError, unit) op" where
  "device_update H device_id assignments =
    await (map_err db_error (execute H [Query (Update ''devices'' assignments
      (Some (device_equals ''id'' (Uuid device_id))))])) (\<lambda>_. ok ())"

definition device_create :: "'w host \<Rightarrow> string \<Rightarrow> string \<Rightarrow> string \<Rightarrow> string \<Rightarrow> byte list \<Rightarrow> int
    \<Rightarrow> ('w, ManagementError, Device) op" where
  "device_create H owner_subject name public_key address enrollment_code_hash enrollment_expires_at =
    (if blank owner_subject then err (InvalidInput ''device owner is required'') else
    await (device_now H) (\<lambda>now.
    await (device_records H) (\<lambda>rows.
    let state = (if rows = [] then Approved else Pending) in
    await (effect (now_v7 H)) (\<lambda>id.
    let row = \<lparr>dr_id = id, dr_owner_subject = owner_subject, dr_name = name, dr_public_key = public_key,
      dr_address = address,
      dr_enrollment_code_hash = (if state = Pending then Some enrollment_code_hash else None),
      dr_enrollment_expires_at = (if state = Pending then Some enrollment_expires_at else None),
      dr_pairing_accepting_public_key = None, dr_state = state, dr_approved_at = None,
      dr_revoked_at = None, dr_created_at = timestamp now, dr_updated_at = timestamp now\<rparr> in
    await (map_err db_error (execute H [Query (Insert ''devices'' (device_to_row row))])) (\<lambda>_.
    lift (device_try_from H row))))))"

definition device_create_pairing :: "'w host \<Rightarrow> string \<Rightarrow> string \<Rightarrow> string \<Rightarrow> string
    \<Rightarrow> ('w, ManagementError, Device) op" where
  "device_create_pairing H name public_key address accepting_public_key =
    await (device_records H) (\<lambda>rows.
    await (lift (ok_or (InvalidInput ''approving device has no owner'')
      (map_option dr_owner_subject (List.find (\<lambda>device. dr_public_key device = accepting_public_key
        \<and> \<not> blank (dr_owner_subject device) \<and> dr_state device = Approved) rows)))) (\<lambda>owner_subject.
    await (device_now H) (\<lambda>now.
    await (effect (now_v7 H)) (\<lambda>id.
    let row = \<lparr>dr_id = id, dr_owner_subject = owner_subject, dr_name = name, dr_public_key = public_key,
      dr_address = address, dr_enrollment_code_hash = None, dr_enrollment_expires_at = None,
      dr_pairing_accepting_public_key = Some accepting_public_key, dr_state = Pending,
      dr_approved_at = None, dr_revoked_at = None, dr_created_at = timestamp now,
      dr_updated_at = timestamp now\<rparr> in
    await (map_err db_error (execute H [Query (Insert ''devices'' (device_to_row row))])) (\<lambda>_.
    lift (device_try_from H row))))))"

definition device_pending_pairing :: "'w host \<Rightarrow> uuid \<Rightarrow> ('w, ManagementError, (Device \<times> string) option) op" where
  "device_pending_pairing H device_id =
    await (device_record H device_id) (\<lambda>found. case found of None \<Rightarrow> ok None | Some row \<Rightarrow>
    await (device_ensure_clear H device_id) (\<lambda>_.
    if dr_state row \<noteq> Pending then ok None else
    case dr_pairing_accepting_public_key row of None \<Rightarrow> ok None | Some key \<Rightarrow>
    await (lift (device_try_from H row)) (\<lambda>device. ok (Some (device, key)))))"

definition device_approve_pairing :: "'w host \<Rightarrow> uuid \<Rightarrow> ('w, ManagementError, Device option) op" where
  "device_approve_pairing H device_id =
    await (device_record H device_id) (\<lambda>found. case found of None \<Rightarrow> ok None | Some row \<Rightarrow>
    await (device_ensure_clear H device_id) (\<lambda>_.
    if dr_state row \<noteq> Pending \<or> dr_pairing_accepting_public_key row = None then ok None else
    await (device_now H) (\<lambda>updated_at.
    await (device_update H device_id [
      device_assignment ''state'' (Integer (DeviceState_as_i64 Approved)),
      device_assignment ''pairing_accepting_public_key'' Null,
      device_assignment ''updated_at'' (Integer (timestamp updated_at))]) (\<lambda>_.
    await (lift (device_try_from H (row\<lparr>dr_state := Approved, dr_pairing_accepting_public_key := None,
      dr_updated_at := timestamp updated_at\<rparr>))) (\<lambda>device. ok (Some device))))))"

definition device_has_any :: "'w host \<Rightarrow> ('w, ManagementError, bool) op" where
  "device_has_any H = await (device_records H) (\<lambda>rows. ok (rows \<noteq> []))"

definition device_list :: "'w host \<Rightarrow> ('w, ManagementError, Device list) op" where
  "device_list H =
    await (device_records H) (\<lambda>rows.
    await (for_each (\<lambda>row. device_ensure_clear H (dr_id row)) rows) (\<lambda>_.
    lift (try_collect (device_try_from H) rows)))"

definition device_find_approved_by_public_key :: "'w host \<Rightarrow> string \<Rightarrow> ('w, ManagementError, Device option) op" where
  "device_find_approved_by_public_key H public_key =
    await (device_records H) (\<lambda>rows.
    case filter (\<lambda>row. dr_public_key row = public_key) rows of [] \<Rightarrow> ok None
    | row # rest \<Rightarrow>
      if rest \<noteq> [] \<or> dr_state row \<noteq> Approved then ok None else
      await (device_ensure_clear H (dr_id row)) (\<lambda>_.
      await (lift (device_try_from H row)) (\<lambda>device. ok (Some device))))"

definition device_list_owned :: "'w host \<Rightarrow> string \<Rightarrow> ('w, ManagementError, Device list) op" where
  "device_list_owned H owner_subject =
    await (device_records H) (\<lambda>rows.
    fold_op (\<lambda>devices row.
      await (device_ensure_clear H (dr_id row)) (\<lambda>_.
      await (lift (device_try_from H row)) (\<lambda>device. ok (devices @ [device]))))
      [] (filter (\<lambda>row. dr_owner_subject row = owner_subject) rows))"

definition device_list_approved :: "'w host \<Rightarrow> string \<Rightarrow> ('w, ManagementError, TrustedDevice list) op" where
  "device_list_approved H owner_subject =
    await (device_records H) (\<lambda>rows.
    fold_op (\<lambda>devices row.
      await (device_ensure_clear H (dr_id row)) (\<lambda>_.
      ok (devices @ [\<lparr>td_public_key = dr_public_key row, td_address = dr_address row\<rparr>])))
      [] (filter (\<lambda>row. dr_state row = Approved \<and> dr_owner_subject row = owner_subject) rows))"

definition device_are_approved :: "'w host \<Rightarrow> string \<Rightarrow> string \<Rightarrow> ('w, ManagementError, bool) op" where
  "device_are_approved H local_public_key remote_public_key =
    await (device_records H) (\<lambda>rows.
    await (fold_op (\<lambda>(local, remote) row.
      await (device_ensure_clear H (dr_id row)) (\<lambda>_.
      ok (local \<or> dr_public_key row = local_public_key, remote \<or> dr_public_key row = remote_public_key)))
      (False, False) (filter (\<lambda>row. dr_state row = Approved) rows)) (\<lambda>(local, remote).
    ok (local \<and> remote)))"

definition device_approve :: "'w host \<Rightarrow> uuid \<Rightarrow> byte list \<Rightarrow> ('w, ManagementError, Device option) op" where
  "device_approve H device_id enrollment_code_hash =
    await (device_record H device_id) (\<lambda>found. case found of None \<Rightarrow> ok None | Some row \<Rightarrow>
    await (device_ensure_clear H device_id) (\<lambda>_.
    if dr_state row \<noteq> Pending \<or> dr_enrollment_code_hash row \<noteq> Some enrollment_code_hash then ok None else
    case dr_enrollment_expires_at row of None \<Rightarrow> ok None | Some expires_at \<Rightarrow>
    await (device_now H) (\<lambda>now.
    if expires_at \<le> timestamp now then ok None else
    await (device_now H) (\<lambda>updated_at.
    await (device_update H device_id [
      device_assignment ''state'' (Integer (DeviceState_as_i64 Approved)),
      device_assignment ''enrollment_code_hash'' Null,
      device_assignment ''enrollment_expires_at'' Null,
      device_assignment ''updated_at'' (Integer (timestamp updated_at))]) (\<lambda>_.
    await (lift (device_try_from H (row\<lparr>dr_state := Approved, dr_enrollment_code_hash := None,
      dr_enrollment_expires_at := None, dr_updated_at := timestamp updated_at\<rparr>))) (\<lambda>device.
    ok (Some device)))))))"

definition device_rename :: "'w host \<Rightarrow> string \<Rightarrow> uuid \<Rightarrow> string \<Rightarrow> ('w, ManagementError, Device option) op" where
  "device_rename H owner_subject device_id name =
    await (device_record H device_id) (\<lambda>found. case found of None \<Rightarrow> ok None | Some row \<Rightarrow>
    await (device_ensure_clear H device_id) (\<lambda>_.
    if dr_owner_subject row \<noteq> owner_subject \<or> dr_state row = Revoked then ok None else
    await (device_now H) (\<lambda>updated_at.
    await (device_update H device_id [
      device_assignment ''name'' (Text name),
      device_assignment ''updated_at'' (Integer (timestamp updated_at))]) (\<lambda>_.
    await (lift (device_try_from H (row\<lparr>dr_name := name, dr_updated_at := timestamp updated_at\<rparr>))) (\<lambda>device.
    ok (Some device))))))"

definition device_revoke :: "'w host \<Rightarrow> string \<Rightarrow> uuid \<Rightarrow> string \<Rightarrow> ('w, ManagementError, bool) op" where
  "device_revoke H owner_subject device_id protected_public_key =
    await (device_record H device_id) (\<lambda>found. case found of None \<Rightarrow> ok False | Some row \<Rightarrow>
    await (device_ensure_clear H device_id) (\<lambda>_.
    if dr_owner_subject row \<noteq> owner_subject \<or> dr_public_key row = protected_public_key
       \<or> dr_state row = Revoked then ok False else
    await (device_records H) (\<lambda>rows.
    await (for_each (\<lambda>other. device_ensure_clear H (dr_id other))
      (filter (\<lambda>other. dr_state other = Approved) rows)) (\<lambda>_.
    if dr_state row = Approved \<and> length (filter (\<lambda>other. dr_state other = Approved) rows) \<le> 1 then ok False else
    await (device_now H) (\<lambda>updated_at.
    await (device_update H device_id [
      device_assignment ''state'' (Integer (DeviceState_as_i64 Revoked)),
      device_assignment ''revoked_at'' (Integer (timestamp updated_at)),
      device_assignment ''updated_at'' (Integer (timestamp updated_at))]) (\<lambda>_.
    ok True))))))"

definition device_revoke_self :: "'w host \<Rightarrow> string \<Rightarrow> ('w, ManagementError, bool) op" where
  "device_revoke_self H public_key =
    await (device_records H) (\<lambda>rows.
    fold_op (\<lambda>found row.
      await (device_ensure_clear H (dr_id row)) (\<lambda>_.
      if dr_state row = Revoked then ok True else
      await (device_now H) (\<lambda>updated_at.
      await (device_update H (dr_id row) [
        device_assignment ''state'' (Integer (DeviceState_as_i64 Revoked)),
        device_assignment ''revoked_at'' (Integer (timestamp updated_at)),
        device_assignment ''updated_at'' (Integer (timestamp updated_at))]) (\<lambda>_.
      ok True))))
      False (filter (\<lambda>row. dr_public_key row = public_key) rows))"

lemmas device_defs [run_simps] =
  device_columns_def device_state_of_def device_from_row_def device_to_row_def or_null_def db_error_def
  row_error_def device_now_def device_timestamp_def device_try_from_def device_column_def
  device_equals_def device_assignment_def device_select_def device_records_def device_record_def
  device_ensure_clear_def device_update_def

end
