(* ===== verification/Device_Registry.thy ===== *)
theory Device_Registry
  imports Devices
begin

text \<open>
  The device registry is correct: the operations of \<open>DbDeviceRepo\<close> refine an abstract
  registry (\<open>device_answers\<close>) in which devices are only added, keep their identity and move
  from pending to approved to revoked.  The rows are seen through the decoder of the
  source (\<open>device_view\<close>), so the assignments of the operations and the row encoder are
  checked against it.
\<close>

section \<open>The table as typed rows\<close>

text \<open>A stored row as the decoder of the source reads it, and the registry as the list of
  decoded rows.\<close>

definition device_view :: "'w host \<Rightarrow> stored \<Rightarrow> from_row_error + device_row" where
  "device_view H s = device_from_row H (map s device_columns) device_columns"

definition device_table :: "'w host \<Rightarrow> tables \<Rightarrow> device_row list \<Rightarrow> bool" where
  "device_table H T rows = (map (device_view H) (T ''devices'') = map Inr rows)"

definition on_device :: "uuid \<Rightarrow> (device_row \<Rightarrow> device_row) \<Rightarrow> device_row list \<Rightarrow> device_row list" where
  "on_device i f rows = map (\<lambda>r. if dr_id r = i then f r else r) rows"

lemma device_table_unique: "device_table H T rows \<Longrightarrow> device_table H T rows' \<Longrightarrow> rows' = rows"
  by (simp add: device_table_def)

lemma device_schema: "schema_columns ''devices'' = device_columns"
  by (simp add: schema_columns_def device_columns_def)

lemma device_state_of_i64 [simp]: "device_state_of (DeviceState_as_i64 x) = Inr x"
  by (cases x) (simp_all add: device_state_of_def DeviceState_as_i64.simps)

lemma or_null_simps [simp]: "or_null f None = Null" "or_null f (Some a) = f a"
  by (simp_all add: or_null_def)

lemma device_try_from_Inr:
  "device_try_from H r = Inr d \<Longrightarrow> dev_id d = dr_id r \<and> dev_owner_subject d = dr_owner_subject r
    \<and> dev_name d = dr_name r \<and> dev_public_key d = dr_public_key r \<and> dev_address d = dr_address r
    \<and> dev_state d = dr_state r"
  by (auto simp: device_try_from_def)

text \<open>The assignments of the operations, as updates of a typed row.\<close>

definition set_approved_by_code :: "int \<Rightarrow> device_row \<Rightarrow> device_row" where
  "set_approved_by_code n r = r\<lparr>dr_state := Approved, dr_enrollment_code_hash := None,
    dr_enrollment_expires_at := None, dr_updated_at := n\<rparr>"

definition set_approved_by_pairing :: "int \<Rightarrow> device_row \<Rightarrow> device_row" where
  "set_approved_by_pairing n r = r\<lparr>dr_state := Approved, dr_pairing_accepting_public_key := None,
    dr_updated_at := n\<rparr>"

definition set_name :: "string \<Rightarrow> int \<Rightarrow> device_row \<Rightarrow> device_row" where
  "set_name name n r = r\<lparr>dr_name := name, dr_updated_at := n\<rparr>"

definition set_revoked :: "int \<Rightarrow> device_row \<Rightarrow> device_row" where
  "set_revoked n r = r\<lparr>dr_state := Revoked, dr_revoked_at := Some n, dr_updated_at := n\<rparr>"

lemmas set_defs = set_approved_by_code_def set_approved_by_pairing_def set_name_def set_revoked_def

context db_engine
begin

lemma device_view_unfold:
  "device_view H s =
    and_then (decode_int H (s ''state'') ''state'') (\<lambda>n.
    and_then (device_state_of n) (\<lambda>state.
    and_then (decode_uuid H (s ''id'') ''id'') (\<lambda>id.
    and_then (decode_text H (s ''owner_subject'') ''owner_subject'') (\<lambda>owner_subject.
    and_then (decode_text H (s ''name'') ''name'') (\<lambda>name.
    and_then (decode_text H (s ''public_key'') ''public_key'') (\<lambda>public_key.
    and_then (decode_text H (s ''address'') ''address'') (\<lambda>address.
    and_then (decode_opt_blob H (s ''enrollment_code_hash'') ''enrollment_code_hash'') (\<lambda>enrollment_code_hash.
    and_then (decode_opt_int H (s ''enrollment_expires_at'') ''enrollment_expires_at'') (\<lambda>enrollment_expires_at.
    and_then (decode_opt_text H (s ''pairing_accepting_public_key'') ''pairing_accepting_public_key'')
      (\<lambda>pairing_accepting_public_key.
    and_then (decode_opt_int H (s ''approved_at'') ''approved_at'') (\<lambda>approved_at.
    and_then (decode_opt_int H (s ''revoked_at'') ''revoked_at'') (\<lambda>revoked_at.
    and_then (decode_int H (s ''created_at'') ''created_at'') (\<lambda>created_at.
    and_then (decode_int H (s ''updated_at'') ''updated_at'') (\<lambda>updated_at.
    Inr (device_row.make id owner_subject name public_key address enrollment_code_hash
      enrollment_expires_at pairing_accepting_public_key state approved_at revoked_at created_at
      updated_at)))))))))))))))"
proof -
  have "set device_columns = {''id'', ''owner_subject'', ''name'', ''public_key'', ''address'',
    ''enrollment_code_hash'', ''enrollment_expires_at'', ''pairing_accepting_public_key'', ''state'',
    ''approved_at'', ''revoked_at'', ''created_at'', ''updated_at''}"
    by (simp add: device_columns_def)
  then show ?thesis
    by (simp add: device_view_def device_from_row_def field_ok device_row.make_def)
qed

lemmas view_simps = device_view_unfold assign_def assign1_def device_assignment_def device_column_def
  decode_ok device_row.make_def set_defs

lemma device_view_to_row:
  assumes "stored_as device_columns (device_to_row r) s"
  shows "device_view H s = Inr r"
proof -
  have opt: "decode_opt_int H (or_null Integer x) c = Inr x" "decode_opt_text H (or_null Text y) c = Inr y"
    "decode_opt_blob H (or_null Blob z) c = Inr z" for x y z c
    by (simp_all add: or_null_def decode_ok split: option.split)
  show ?thesis
    using assms
    by (simp add: stored_as_def device_to_row_def device_columns_def device_view_unfold decode_ok opt
        device_row.make_def)
qed

lemma device_view_id: "device_view H s = Inr r \<Longrightarrow> s ''id'' = Uuid (dr_id r)"
  by (auto simp: view_simps)

lemma view_approved_by_code: "device_view H s = Inr r \<Longrightarrow> device_view H (assign [
    device_assignment ''state'' (Integer (DeviceState_as_i64 Approved)),
    device_assignment ''enrollment_code_hash'' Null,
    device_assignment ''enrollment_expires_at'' Null,
    device_assignment ''updated_at'' (Integer n)] s) = Inr (set_approved_by_code n r)"
  by (auto simp: view_simps)

lemma view_approved_by_pairing: "device_view H s = Inr r \<Longrightarrow> device_view H (assign [
    device_assignment ''state'' (Integer (DeviceState_as_i64 Approved)),
    device_assignment ''pairing_accepting_public_key'' Null,
    device_assignment ''updated_at'' (Integer n)] s) = Inr (set_approved_by_pairing n r)"
  by (auto simp: view_simps)

lemma view_name: "device_view H s = Inr r \<Longrightarrow> device_view H (assign [
    device_assignment ''name'' (Text name), device_assignment ''updated_at'' (Integer n)] s)
    = Inr (set_name name n r)"
  by (auto simp: view_simps)

lemma view_revoked: "device_view H s = Inr r \<Longrightarrow> device_view H (assign [
    device_assignment ''state'' (Integer (DeviceState_as_i64 Revoked)),
    device_assignment ''revoked_at'' (Integer n), device_assignment ''updated_at'' (Integer n)] s)
    = Inr (set_revoked n r)"
  by (auto simp: view_simps)

section \<open>Specifications of the operations\<close>

lemma wp_device_records [wp_rules]:
  assumes "\<And>rows w'. same w w' \<Longrightarrow> device_table H (T w) rows \<Longrightarrow>
      \<forall>r \<in> set rows. \<not> blank (dr_owner_subject r) \<Longrightarrow> Q rows w'"
    and "\<And>e w'. same w w' \<Longrightarrow> X e w'"
  shows "wp (device_records H) Q X w"
  unfolding device_records_def device_select_def wp_simps
proof (rule wp_select, goal_cases)
  case (2 qr w')
  have "rows_as H (device_from_row H) qr = try_collect (device_view H) (T w ''devices'')"
    unfolding device_view_def
    by (rule rows_as_select) (use 2(2,3) in \<open>simp_all add: selects_def device_column_def comp_def\<close>)
  then show ?case
    using assms 2(1)
    by (auto simp: pop_result_def device_table_def try_collect_Inr list_ex_iff split: sum.split)
qed (simp_all add: device_column_def assms(2))

lemma wp_device_record [wp_rules]:
  assumes "\<And>rows found w'. same w w' \<Longrightarrow> device_table H (T w) rows \<Longrightarrow>
      \<forall>r \<in> set rows. \<not> blank (dr_owner_subject r) \<Longrightarrow>
      found = List.find (\<lambda>row. dr_id row = device_id) rows \<Longrightarrow> Q found w'"
    and "\<And>e w'. same w w' \<Longrightarrow> X e w'"
  shows "wp (device_record H device_id) Q X w"
  unfolding device_record_def wp_simps by (rule wp_device_records) (simp_all add: assms)

lemma wp_device_ensure_clear [wp_rules]:
  assumes "\<And>w'. same w w' \<Longrightarrow> C w ''devices'' [Uuid device_id] = [] \<Longrightarrow> Q () w'"
    and "\<And>e w'. same w w' \<Longrightarrow> X e w'"
  shows "wp (device_ensure_clear H device_id) Q X w"
  unfolding device_ensure_clear_def wp_simps by (rule wp_tunnel) (simp_all add: assms)

lemma wp_device_now [wp_rules]:
  assumes "\<And>t w'. same w w' \<Longrightarrow> clock w \<le> timestamp t \<Longrightarrow> Q t w'"
  shows "wp (device_now H) Q X w"
  unfolding device_now_def wp_simps
  by (rule wp_utc_now) (simp add: assms with_nanosecond_0_def)

lemma wp_device_update:
  assumes "device_table H (T w) rows"
    and "\<And>s r. device_view H s = Inr r \<Longrightarrow> device_view H (assign as s) = Inr (f r)"
    and "\<And>w'. device_table H (T w') (on_device device_id f rows) \<Longrightarrow>
      (\<And>t. t \<noteq> ''devices'' \<Longrightarrow> T w' t = T w t) \<Longrightarrow> (\<And>t k. C w t k = [] \<Longrightarrow> C w' t k = []) \<Longrightarrow>
      clock w \<le> clock w' \<Longrightarrow> Q () w'"
    and "\<And>e w'. same w w' \<Longrightarrow> X e w'"
  shows "wp (device_update H device_id as) Q X w"
  unfolding device_update_def wp_simps
proof (rule wp_modify, goal_cases)
  case (2 rs w')
  have step: "device_view H (if selects (Some (device_equals ''id'' (Uuid device_id))) s then assign as s else s)
      = Inr (if dr_id r = device_id then f r else r)" if "device_view H s = Inr r" for s r
    using assms(2) [OF that] that device_view_id [OF that]
    by (simp add: selects_def device_equals_def device_column_def)
  have "device_table H (T w') (on_device device_id f rows)"
  proof -
    have "T w' ''devices'' = map (\<lambda>s. if selects (Some (device_equals ''id'' (Uuid device_id))) s
        then assign as s else s) (T w ''devices'')" by (simp add: 2(1) update_rows_def)
    then show ?thesis
      unfolding device_table_def on_device_def
      by (simp only:) (rule map_Inr_update [OF assms(1) [unfolded device_table_def]], rule step)
  qed
  then show ?case by (rule assms(3)) (simp_all add: 2)
qed (simp_all add: assms(4))

end

section \<open>The abstract registry\<close>

text \<open>The operations that change the registry, and what each may do to it when it starts at
  time \<open>t\<close>.\<close>

datatype device_op =
    Create string string string string "byte list" int
  | CreatePairing string string string string
  | ApprovePairing uuid
  | Approve uuid "byte list"
  | Rename string uuid string
  | Revoke string uuid string
  | RevokeSelf string

text \<open>What an operation that succeeds does.\<close>

inductive device_effect :: "int \<Rightarrow> device_row list \<Rightarrow> device_op \<Rightarrow> device_row list \<Rightarrow> bool" where
  create_first:
    "t \<le> n \<Longrightarrow> \<not> blank owner \<Longrightarrow> r = \<lparr>dr_id = i, dr_owner_subject = owner, dr_name = name, dr_public_key = key,
      dr_address = address, dr_enrollment_code_hash = None, dr_enrollment_expires_at = None,
      dr_pairing_accepting_public_key = None, dr_state = Approved, dr_approved_at = None,
      dr_revoked_at = None, dr_created_at = n, dr_updated_at = n\<rparr> \<Longrightarrow>
    device_effect t [] (Create owner name key address hash expires) [r]"
| create:
    "t \<le> n \<Longrightarrow> \<not> blank owner \<Longrightarrow> xs @ ys \<noteq> [] \<Longrightarrow> i \<notin> dr_id ` set (xs @ ys) \<Longrightarrow>
    r = \<lparr>dr_id = i, dr_owner_subject = owner, dr_name = name, dr_public_key = key,
      dr_address = address, dr_enrollment_code_hash = Some hash, dr_enrollment_expires_at = Some expires,
      dr_pairing_accepting_public_key = None, dr_state = Pending, dr_approved_at = None,
      dr_revoked_at = None, dr_created_at = n, dr_updated_at = n\<rparr> \<Longrightarrow>
    device_effect t (xs @ ys) (Create owner name key address hash expires) (xs @ r # ys)"
| create_pairing:
    "t \<le> n \<Longrightarrow> a \<in> set (xs @ ys) \<Longrightarrow> dr_public_key a = accepting \<Longrightarrow> dr_state a = Approved \<Longrightarrow>
    i \<notin> dr_id ` set (xs @ ys) \<Longrightarrow>
    r = \<lparr>dr_id = i, dr_owner_subject = dr_owner_subject a, dr_name = name, dr_public_key = key,
      dr_address = address, dr_enrollment_code_hash = None, dr_enrollment_expires_at = None,
      dr_pairing_accepting_public_key = Some accepting, dr_state = Pending, dr_approved_at = None,
      dr_revoked_at = None, dr_created_at = n, dr_updated_at = n\<rparr> \<Longrightarrow>
    device_effect t (xs @ ys) (CreatePairing name key address accepting) (xs @ r # ys)"
| approve_pairing:
    "t \<le> n \<Longrightarrow> r \<in> set rows \<Longrightarrow> dr_id r = i \<Longrightarrow> dr_state r = Pending \<Longrightarrow> dr_pairing_accepting_public_key r \<noteq> None \<Longrightarrow>
    device_effect t rows (ApprovePairing i) (on_device i (set_approved_by_pairing n) rows)"
| approve:
    "t \<le> n \<Longrightarrow> r \<in> set rows \<Longrightarrow> dr_id r = i \<Longrightarrow> dr_state r = Pending \<Longrightarrow> dr_enrollment_code_hash r = Some hash \<Longrightarrow>
    dr_enrollment_expires_at r = Some expires \<Longrightarrow> t < expires \<Longrightarrow>
    device_effect t rows (Approve i hash) (on_device i (set_approved_by_code n) rows)"
| rename:
    "t \<le> n \<Longrightarrow> r \<in> set rows \<Longrightarrow> dr_id r = i \<Longrightarrow> dr_owner_subject r = owner \<Longrightarrow> dr_state r \<noteq> Revoked \<Longrightarrow>
    device_effect t rows (Rename owner i name) (on_device i (set_name name n) rows)"
| revoke:
    "t \<le> n \<Longrightarrow> r \<in> set rows \<Longrightarrow> dr_id r = i \<Longrightarrow> dr_owner_subject r = owner \<Longrightarrow> dr_public_key r \<noteq> protected \<Longrightarrow>
    dr_state r \<noteq> Revoked \<Longrightarrow>
    dr_state r = Approved \<Longrightarrow> length (filter (\<lambda>r. dr_state r = Approved) rows) > 1 \<Longrightarrow>
    device_effect t rows (Revoke owner i protected) (on_device i (set_revoked n) rows)"
| revoke_pending:
    "t \<le> n \<Longrightarrow> r \<in> set rows \<Longrightarrow> dr_id r = i \<Longrightarrow> dr_owner_subject r = owner \<Longrightarrow> dr_public_key r \<noteq> protected \<Longrightarrow>
    dr_state r = Pending \<Longrightarrow>
    device_effect t rows (Revoke owner i protected) (on_device i (set_revoked n) rows)"
| revoke_self:
    "\<exists>r \<in> set rows. dr_public_key r = key \<Longrightarrow>
    \<forall>r \<in> set rows. if dr_public_key r = key \<and> dr_state r \<noteq> Revoked then \<exists>n. t \<le> n \<and> f r = set_revoked n r else f r = r \<Longrightarrow>
    device_effect t rows (RevokeSelf key) (map f rows)"

text \<open>What an operation may have done when it fails: nothing, or all that it does, or for a self-revocation that has
  gone through some of the rows, a part.\<close>

inductive device_step :: "int \<Rightarrow> device_row list \<Rightarrow> device_op \<Rightarrow> device_row list \<Rightarrow> bool" where
  refuse: "device_step t rows op rows"
| effect: "device_effect t rows op rows' \<Longrightarrow> device_step t rows op rows'"
| revoked_some:
    "\<forall>r \<in> set rows. f r = r \<or> (dr_public_key r = key \<and> dr_state r \<noteq> Revoked
      \<and> (\<exists>n. t \<le> n \<and> f r = set_revoked n r)) \<Longrightarrow>
    device_step t rows (RevokeSelf key) (map f rows)"

text \<open>Why an operation may refuse: the device is unknown, or a condition on it does not hold.\<close>

definition clock_shows :: "'w host \<Rightarrow> int \<Rightarrow> bool" where
  "clock_shows H n = (\<exists>w t w'. utc_now H w = (t, w') \<and> timestamp t = n)"

fun refusable :: "'w host \<Rightarrow> device_row list \<Rightarrow> device_op \<Rightarrow> bool" where
  "refusable H rows (Create _ _ _ _ _ _) = False"
| "refusable H rows (CreatePairing _ _ _ _) = False"
| "refusable H rows (ApprovePairing i) = (\<forall>r. List.find (\<lambda>r. dr_id r = i) rows = Some r \<longrightarrow>
    dr_state r \<noteq> Pending \<or> dr_pairing_accepting_public_key r = None)"
| "refusable H rows (Approve i hash) = (\<forall>r. List.find (\<lambda>r. dr_id r = i) rows = Some r \<longrightarrow>
    dr_state r \<noteq> Pending \<or> dr_enrollment_code_hash r \<noteq> Some hash
    \<or> (\<forall>expires. dr_enrollment_expires_at r = Some expires \<longrightarrow> (\<exists>n. clock_shows H n \<and> expires \<le> n)))"
| "refusable H rows (Rename owner i name) = (\<forall>r. List.find (\<lambda>r. dr_id r = i) rows = Some r \<longrightarrow>
    dr_owner_subject r \<noteq> owner \<or> dr_state r = Revoked)"
| "refusable H rows (Revoke owner i protected) = (\<forall>r. List.find (\<lambda>r. dr_id r = i) rows = Some r \<longrightarrow>
    dr_owner_subject r \<noteq> owner \<or> dr_public_key r = protected \<or> dr_state r = Revoked
    \<or> (dr_state r = Approved \<and> length (filter (\<lambda>r. dr_state r = Approved) rows) \<le> 1))"
| "refusable H rows (RevokeSelf key) = (\<forall>r \<in> set rows. dr_public_key r \<noteq> key)"

text \<open>What an operation answers: it failed, it refused, or it did its work, perhaps with a device to show for it.\<close>

datatype device_answer = Failed | Refused | Done "Device option"

definition device_answers :: "'w host \<Rightarrow> int \<Rightarrow> device_row list \<Rightarrow> device_op \<Rightarrow> device_answer \<Rightarrow> device_row list \<Rightarrow> bool" where
  "device_answers H t rows op answer rows' = (case answer of
      Failed \<Rightarrow> device_step t rows op rows'
    | Refused \<Rightarrow> rows' = rows \<and> refusable H rows op
    | Done shown \<Rightarrow> device_effect t rows op rows'
        \<and> (\<forall>d. shown = Some d \<longrightarrow> (\<exists>r \<in> set rows'. device_try_from H r = Inr d)))"

fun answer_device :: "'e + Device \<Rightarrow> device_answer" where
  "answer_device (Inl _) = Failed"
| "answer_device (Inr d) = Done (Some d)"

fun answer_found :: "'e + Device option \<Rightarrow> device_answer" where
  "answer_found (Inl _) = Failed"
| "answer_found (Inr None) = Refused"
| "answer_found (Inr (Some d)) = Done (Some d)"

fun answer_flag :: "'e + bool \<Rightarrow> device_answer" where
  "answer_flag (Inl _) = Failed"
| "answer_flag (Inr b) = (if b then Done None else Refused)"

fun device_call :: "'w host \<Rightarrow> device_op \<Rightarrow> 'w \<Rightarrow> device_answer \<times> 'w" where
  "device_call H (Create owner name key address hash expires) w
    = apfst answer_device (device_create H owner name key address hash expires w)"
| "device_call H (CreatePairing name key address accepting) w
    = apfst answer_device (device_create_pairing H name key address accepting w)"
| "device_call H (ApprovePairing i) w = apfst answer_found (device_approve_pairing H i w)"
| "device_call H (Approve i hash) w = apfst answer_found (device_approve H i hash w)"
| "device_call H (Rename owner i name) w = apfst answer_found (device_rename H owner i name w)"
| "device_call H (Revoke owner i protected) w = apfst answer_flag (device_revoke H owner i protected w)"
| "device_call H (RevokeSelf key) w = apfst answer_flag (device_revoke_self H key w)"

fun run_device_op :: "'w host \<Rightarrow> device_op \<Rightarrow> 'w \<Rightarrow> 'w" where
  "run_device_op H (Create owner name key address hash expires) w = snd (device_create H owner name key address hash expires w)"
| "run_device_op H (CreatePairing name key address accepting) w = snd (device_create_pairing H name key address accepting w)"
| "run_device_op H (ApprovePairing i) w = snd (device_approve_pairing H i w)"
| "run_device_op H (Approve i hash) w = snd (device_approve H i hash w)"
| "run_device_op H (Rename owner i name) w = snd (device_rename H owner i name w)"
| "run_device_op H (Revoke owner i protected) w = snd (device_revoke H owner i protected w)"
| "run_device_op H (RevokeSelf key) w = snd (device_revoke_self H key w)"

lemma run_device_call: "run_device_op H op w = snd (device_call H op w)"
  by (cases op) simp_all

text \<open>The outcome of an operation started on \<open>rows\<close> at time \<open>t\<close>.\<close>

definition device_outcome :: "'w host \<Rightarrow> ('w \<Rightarrow> tables) \<Rightarrow> int \<Rightarrow> device_row list \<Rightarrow> device_op \<Rightarrow> device_answer \<Rightarrow> 'w \<Rightarrow> bool" where
  "device_outcome H T t rows op answer w' = (\<exists>rows'. device_table H (T w') rows' \<and> device_answers H t rows op answer rows')"

text \<open>Self-revocation goes through the rows with the key one by one; the rows not reached yet are
  as they were.\<close>

definition self_revoked :: "int \<Rightarrow> string \<Rightarrow> device_row list \<Rightarrow> device_row list \<Rightarrow> (device_row \<Rightarrow> device_row) \<Rightarrow> bool" where
  "self_revoked t key rows ys f = (\<forall>r \<in> set rows. if r \<in> set ys \<and> dr_public_key r = key \<and> dr_state r \<noteq> Revoked
    then \<exists>n. t \<le> n \<and> f r = set_revoked n r else f r = r)"

lemma self_revoked_step:
  assumes "self_revoked t key rows ys f" and "distinct (map dr_id rows)" and "x \<in> set rows"
    and "x \<notin> set ys" and "dr_public_key x = key" and "dr_state x \<noteq> Revoked" and "t \<le> n"
  shows "self_revoked t key rows (ys @ [x]) (f(x := set_revoked n x))
    \<and> on_device (dr_id x) (set_revoked n) (map f rows) = map (f(x := set_revoked n x)) rows"
proof
  show "self_revoked t key rows (ys @ [x]) (f(x := set_revoked n x))"
    using assms by (auto simp: self_revoked_def)
  have same_id: "dr_id (f r) = dr_id r" if "r \<in> set rows" for r
    using assms(1) that by (auto simp: self_revoked_def set_revoked_def split: if_splits)
  have "f x = x" using assms(1,3,4) by (auto simp: self_revoked_def)
  moreover have "dr_id r = dr_id x \<longleftrightarrow> r = x" if "r \<in> set rows" for r
    using assms(2,3) that by (auto simp: distinct_map dest: inj_onD)
  ultimately show "on_device (dr_id x) (set_revoked n) (map f rows) = map (f(x := set_revoked n x)) rows"
    using same_id by (auto simp: on_device_def)
qed

context db_engine
begin

lemma outcome_failed: "device_table H (T w) rows \<Longrightarrow> T w' = T w \<Longrightarrow> device_outcome H T t rows op Failed w'"
  unfolding device_outcome_def device_answers_def using refuse by fastforce

lemma outcome_refused: "device_table H (T w) rows \<Longrightarrow> T w' = T w \<Longrightarrow> refusable H rows op \<Longrightarrow> device_outcome H T t rows op Refused w'"
  unfolding device_outcome_def device_answers_def by auto

lemma outcome_done: "device_table H (T w') rows' \<Longrightarrow> device_effect t rows op rows' \<Longrightarrow>
    (\<And>d. shown = Some d \<Longrightarrow> \<exists>r \<in> set rows'. device_try_from H r = Inr d) \<Longrightarrow> device_outcome H T t rows op (Done shown) w'"
  unfolding device_outcome_def device_answers_def by auto

lemma outcome_done_failed: "device_table H (T w') rows' \<Longrightarrow> device_effect t rows op rows' \<Longrightarrow> device_outcome H T t rows op Failed w'"
  unfolding device_outcome_def device_answers_def using effect by fastforce

text \<open>Converting the updated row at the end of an operation.\<close>

lemma outcome_try_from:
  assumes "device_table H (T w') rows'" "device_effect t rows op rows'" "r \<in> set rows'"
  shows "wp (await (lift (device_try_from H r)) (\<lambda>d. ok (Some d))) (\<lambda>r. device_outcome H T t rows op (answer_found (Inr r :: unit + _)))
    (\<lambda>_. device_outcome H T t rows op Failed) w'"
  using assms by (auto simp: wp_simps split: sum.split intro: outcome_done outcome_done_failed)

lemma on_device_mem: "r \<in> set rows \<Longrightarrow> dr_id r = i \<Longrightarrow> f r \<in> set (on_device i f rows)"
  by (auto simp: on_device_def)

text \<open>The prologue of the operations on one device: look it up and refuse it when it is in
  conflict.\<close>

lemma wp_on_found:
  assumes table: "device_table H (T w) rows"
    and none: "\<And>w'. T w' = T w \<Longrightarrow> List.find (\<lambda>r. dr_id r = i) rows = None \<Longrightarrow> wp m Q X w'"
    and some: "\<And>r w'. r \<in> set rows \<Longrightarrow> dr_id r = i \<Longrightarrow> List.find (\<lambda>r. dr_id r = i) rows = Some r \<Longrightarrow> T w' = T w \<Longrightarrow>
      C w' = C w \<Longrightarrow> clock w \<le> clock w' \<Longrightarrow> C w ''devices'' [Uuid i] = [] \<Longrightarrow> wp (f r) Q X w'"
    and fails: "\<And>e w'. T w' = T w \<Longrightarrow> X e w'"
  shows "wp (await (device_record H i) (\<lambda>found. case found of None \<Rightarrow> m
    | Some row \<Rightarrow> await (device_ensure_clear H i) (\<lambda>_. f row))) Q X w"
  unfolding wp_await
proof (rule wp_device_record, goal_cases)
  case (1 rows' found w1)
  then have rows: "rows' = rows" and w1: "T w1 = T w" "C w1 = C w" "clock w \<le> clock w1"
    using device_table_unique [OF table] by (simp_all add: same_def)
  show ?case
  proof (cases found)
    case None
    then show ?thesis using 1(4) rows by (simp add: none w1)
  next
    case (Some r)
    with 1(4) rows have "r \<in> set rows" "dr_id r = i" "List.find (\<lambda>r. dr_id r = i) rows = Some r"
      using find_SomeD [of _ rows r] by auto
    then have "wp (device_ensure_clear H i) (\<lambda>_. wp (f r) Q X) X w1"
      by (intro wp_device_ensure_clear) (use some [of r] w1 fails in \<open>auto simp: same_def\<close>)
    then show ?thesis by (simp add: Some wp_simps)
  qed
qed (simp add: fails same_def)

lemma wp_on_record:
  assumes table: "device_table H (T w) rows"
    and none: "\<And>w'. T w' = T w \<Longrightarrow> wp m Q X w'"
    and some: "\<And>r w'. r \<in> set rows \<Longrightarrow> dr_id r = i \<Longrightarrow> T w' = T w \<Longrightarrow> C w' = C w \<Longrightarrow>
      clock w \<le> clock w' \<Longrightarrow> C w ''devices'' [Uuid i] = [] \<Longrightarrow> wp (f r) Q X w'"
    and fails: "\<And>e w'. T w' = T w \<Longrightarrow> X e w'"
  shows "wp (await (device_record H i) (\<lambda>found. case found of None \<Rightarrow> m
    | Some row \<Rightarrow> await (device_ensure_clear H i) (\<lambda>_. f row))) Q X w"
  by (rule wp_on_found [OF table]) (use none some fails in auto)

text \<open>The epilogue: read the clock, write, and convert the row.\<close>

lemma wp_now_update:
  assumes "device_table H (T w) rows"
    and "\<And>n s r. device_view H s = Inr r \<Longrightarrow> device_view H (assign (as n) s) = Inr (f n r)"
    and "\<And>t w'. clock w \<le> timestamp t \<Longrightarrow> device_table H (T w') (on_device i (f (timestamp t)) rows) \<Longrightarrow> wp (g t) Q X w'"
    and "\<And>e w'. T w' = T w \<Longrightarrow> X e w'"
  shows "wp (await (device_now H) (\<lambda>t. await (device_update H i (as (timestamp t))) (\<lambda>_. g t))) Q X w"
  unfolding wp_simps
proof (rule wp_device_now, goal_cases)
  case (1 t w1)
  then have w1: "T w1 = T w" "clock w \<le> timestamp t" by (simp_all add: same_def)
  show ?case
    by (rule wp_device_update [where rows = rows and f = "f (timestamp t)"])
      (use assms w1 in \<open>auto simp: same_def\<close>)
qed

lemmas wp_now_update_code = wp_now_update [OF _ view_approved_by_code]
lemmas wp_now_update_pairing = wp_now_update [OF _ view_approved_by_pairing]
lemmas wp_now_update_name = wp_now_update [OF _ view_name]
lemmas wp_now_update_revoked = wp_now_update [OF _ view_revoked]

lemma wp_device_now_shown:
  assumes "\<And>t w'. same w w' \<Longrightarrow> clock w \<le> timestamp t \<Longrightarrow> clock_shows H (timestamp t) \<Longrightarrow> Q t w'"
  shows "wp (device_now H) Q X w"
proof -
  obtain t w1 where t: "utc_now H w = (t, w1)" by (cases "utc_now H w")
  then have "clock_shows H (timestamp t)" by (auto simp: clock_shows_def)
  with t assms [of w1] now_keeps [OF t] now_clock [OF t] show ?thesis
    by (auto simp: device_now_def wp_simps wp_effect with_nanosecond_0_def same_def)
qed

lemma refines_approve:
  assumes table: "device_table H (T w) rows"
  shows "wp (device_approve H i hash) (\<lambda>r. device_outcome H T (clock w) rows (Approve i hash) (answer_found (Inr r :: unit + _)))
    (\<lambda>_. device_outcome H T (clock w) rows (Approve i hash) Failed) w"
  unfolding device_approve_def
proof (rule wp_on_found [OF table], goal_cases)
  case (2 r w1)
  note failed = outcome_failed [OF table] and refused = outcome_refused [OF table]
  consider (refused) "dr_state r \<noteq> Pending \<or> dr_enrollment_code_hash r \<noteq> Some hash"
    | (no_expiry) "dr_enrollment_expires_at r = None"
    | (code) expires where "dr_state r = Pending" "dr_enrollment_code_hash r = Some hash"
        "dr_enrollment_expires_at r = Some expires" by fastforce
  then show ?case
  proof cases
    case code
    then have guard: "\<not> (dr_state r \<noteq> Pending \<or> dr_enrollment_code_hash r \<noteq> Some hash)" by simp
    show ?thesis
      unfolding if_not_P [OF guard] code(3) option.case
    proof (subst wp_await, rule wp_device_now_shown, goal_cases)
      case (1 now w2)
      then have w2: "T w2 = T w" "clock w \<le> clock w2" "clock w \<le> timestamp now"
        using 2 by (simp_all add: same_def)
      show ?case
      proof (cases "expires \<le> timestamp now")
        case False
        show ?thesis
          unfolding if_not_P [OF False]
        proof (rule wp_now_update_code [where rows = rows], use w2 table in simp, assumption, goal_cases)
          case (1 t w')
          have row: "r\<lparr>dr_state := Approved, dr_enrollment_code_hash := None, dr_enrollment_expires_at := None,
              dr_updated_at := timestamp t\<rparr> = set_approved_by_code (timestamp t) r" by (simp add: set_approved_by_code_def)
          show ?case
            unfolding row
            by (rule outcome_try_from [OF 1(2) approve [of _ _ r] on_device_mem])
              (use 1 w2 False code \<open>r \<in> set rows\<close> \<open>dr_id r = i\<close> in auto)
        qed (use w2 failed in auto)
      next
        case True
        have "refusable H rows (Approve i hash)"
          using \<open>List.find (\<lambda>r. dr_id r = i) rows = Some r\<close> True 1(3) code by auto
        then show ?thesis using True refused w2 by (simp add: wp_simps)
      qed
    qed
  next
    case refused
    then show ?thesis using 2 outcome_refused [OF table] by (auto simp: wp_simps)
  next
    case no_expiry
    then show ?thesis using 2 outcome_refused [OF table] by (auto simp: wp_simps)
  qed
qed (simp_all add: wp_simps outcome_refused [OF table] outcome_failed [OF table])

lemma refines_approve_pairing:
  assumes table: "device_table H (T w) rows"
  shows "wp (device_approve_pairing H i) (\<lambda>r. device_outcome H T (clock w) rows (ApprovePairing i) (answer_found (Inr r :: unit + _)))
    (\<lambda>_. device_outcome H T (clock w) rows (ApprovePairing i) Failed) w"
  unfolding device_approve_pairing_def
proof (rule wp_on_found [OF table], goal_cases)
  case (2 r w1)
  show ?case
  proof (cases "dr_state r \<noteq> Pending \<or> dr_pairing_accepting_public_key r = None")
    case False
    show ?thesis
      unfolding if_not_P [OF False]
    proof (rule wp_now_update_pairing [where rows = rows], use 2 table in simp, assumption, goal_cases)
      case (1 t w')
      have row: "r\<lparr>dr_state := Approved, dr_pairing_accepting_public_key := None, dr_updated_at := timestamp t\<rparr>
          = set_approved_by_pairing (timestamp t) r" by (simp add: set_approved_by_pairing_def)
      show ?case
        unfolding row
        by (rule outcome_try_from [OF 1(2) approve_pairing [of _ _ r] on_device_mem])
          (use 1 False \<open>r \<in> set rows\<close> \<open>dr_id r = i\<close> \<open>clock w \<le> clock w1\<close> in auto)
    qed (use 2 outcome_failed [OF table] in auto)
  qed (use 2 outcome_refused [OF table] in \<open>auto simp: wp_simps\<close>)
qed (simp_all add: wp_simps outcome_refused [OF table] outcome_failed [OF table])

lemma refines_rename:
  assumes table: "device_table H (T w) rows"
  shows "wp (device_rename H owner i name) (\<lambda>r. device_outcome H T (clock w) rows (Rename owner i name) (answer_found (Inr r :: unit + _)))
    (\<lambda>_. device_outcome H T (clock w) rows (Rename owner i name) Failed) w"
  unfolding device_rename_def
proof (rule wp_on_found [OF table], goal_cases)
  case (2 r w1)
  show ?case
  proof (cases "dr_owner_subject r \<noteq> owner \<or> dr_state r = Revoked")
    case False
    show ?thesis
      unfolding if_not_P [OF False]
    proof (rule wp_now_update_name [where rows = rows], use 2 table in simp, assumption, goal_cases)
      case (1 t w')
      have row: "r\<lparr>dr_name := name, dr_updated_at := timestamp t\<rparr> = set_name name (timestamp t) r" by (simp add: set_name_def)
      show ?case
        unfolding row
        by (rule outcome_try_from [OF 1(2) rename [of _ _ r] on_device_mem])
          (use 1 False \<open>r \<in> set rows\<close> \<open>dr_id r = i\<close> \<open>clock w \<le> clock w1\<close> in auto)
    qed (use 2 outcome_failed [OF table] in auto)
  qed (use 2 outcome_refused [OF table] in \<open>auto simp: wp_simps\<close>)
qed (simp_all add: wp_simps outcome_refused [OF table] outcome_failed [OF table])

lemma wp_all_clear:
  assumes "\<And>w'. same w w' \<Longrightarrow> (\<forall>r \<in> set rs. C w ''devices'' [Uuid (dr_id r)] = []) \<Longrightarrow> Q () w'"
    and "\<And>e w'. same w w' \<Longrightarrow> X e w'"
  shows "wp (for_each (\<lambda>r. device_ensure_clear H (dr_id r)) rs) Q X w"
proof -
  have "wp (for_each (\<lambda>r. device_ensure_clear H (dr_id r)) rs)
      (\<lambda>_ w'. same w w' \<and> (\<forall>r \<in> set rs. C w ''devices'' [Uuid (dr_id r)] = [])) (\<lambda>_ w'. same w w') w"
    by (rule wp_for_each_prefix) (auto simp: same_def intro!: wp_device_ensure_clear)
  then show ?thesis by (rule wp_conseq) (use assms in auto)
qed

lemma refines_revoke:
  assumes table: "device_table H (T w) rows"
  shows "wp (device_revoke H owner i protected)
    (\<lambda>b. device_outcome H T (clock w) rows (Revoke owner i protected) (answer_flag (Inr b :: unit + _)))
    (\<lambda>_. device_outcome H T (clock w) rows (Revoke owner i protected) Failed) w"
  unfolding device_revoke_def
proof (rule wp_on_found [OF table], goal_cases)
  case (2 r w1)
  note failed = outcome_failed [OF table] and refused = outcome_refused [OF table]
  let ?n = "length (filter (\<lambda>r. dr_state r = Approved) rows)"
  show ?case
  proof (cases "dr_owner_subject r \<noteq> owner \<or> dr_public_key r = protected \<or> dr_state r = Revoked")
    case False
    have step: "device_effect (clock w) rows (Revoke owner i protected) (on_device i (set_revoked n) rows)"
      if "\<not> (dr_state r = Approved \<and> ?n \<le> 1)" "clock w \<le> n" for n
    proof (cases "dr_state r = Approved")
      case True
      with that False 2 show ?thesis by (intro revoke [of _ _ r]) auto
    next
      case not_approved: False
      with that False 2 show ?thesis
        by (intro revoke_pending [of _ _ r]) (use DeviceState.exhaust in auto)
    qed
    show ?thesis
      unfolding if_not_P [OF False] wp_await [of "device_records H"] wp_await [of "for_each _ _"]
    proof (rule wp_device_records, rule wp_all_clear, goal_cases)
      case (1 rows' w2 w3)
      then have rows: "rows' = rows" and w3: "T w3 = T w" "clock w \<le> clock w3"
        using device_table_unique [OF table] 2 by (auto simp: same_def)
      show ?case
      proof (cases "dr_state r = Approved \<and> ?n \<le> 1")
        case False
        show ?thesis
          unfolding rows if_not_P [OF False]
          by (rule wp_now_update_revoked [where rows = rows])
            (use w3 table failed step [OF False] in \<open>auto simp: wp_simps intro!: outcome_done\<close>)
      next
        case True
        have "refusable H rows (Revoke owner i protected)"
          using \<open>List.find (\<lambda>r. dr_id r = i) rows = Some r\<close> True by auto
        then show ?thesis using True refused w3 by (simp add: wp_simps rows)
      qed
    qed (simp_all add: same_def failed 2)
  qed (use 2 refused in \<open>auto simp: wp_simps\<close>)
qed (simp_all add: wp_simps outcome_refused [OF table] outcome_failed [OF table])

lemma wp_device_insert:
  assumes "device_table H (T w) rows" and "cols ''devices'' = device_columns"
    and "\<And>xs ys w'. rows = xs @ ys \<Longrightarrow> device_table H (T w') (xs @ r # ys) \<Longrightarrow> dr_id r \<notin> dr_id ` set rows \<Longrightarrow>
      (\<And>t. t \<noteq> ''devices'' \<Longrightarrow> T w' t = T w t) \<Longrightarrow> (\<And>t k. C w t k = [] \<Longrightarrow> C w' t k = []) \<Longrightarrow> Q w'"
    and "\<And>e w'. same w w' \<Longrightarrow> X e w'"
  shows "wp (execute H [Query (Insert ''devices'' (device_to_row r))]) (\<lambda>_. Q) X w"
proof -
  have to_row: "device_to_row r = Uuid (dr_id r) # tl (device_to_row r)" by (simp add: device_to_row_def)
  show ?thesis
  proof (subst to_row, rule wp_insert, goal_cases)
    case (1 rs s xs ys w')
    have r: "device_view H s = Inr r"
      using 1(1) to_row assms(2) by (intro device_view_to_row) simp
    obtain xs' ys' where rows: "rows = xs' @ ys'" "map (device_view H) xs = map Inr xs'"
      "map (device_view H) ys = map Inr ys'"
      using map_Inr_appendD [of "device_view H" xs ys rows] assms(1) 1(2) by (auto simp: device_table_def)
    have fresh: "dr_id r \<notin> dr_id ` set rows"
    proof
      assume "dr_id r \<in> dr_id ` set rows"
      then obtain x where x: "x \<in> set rows" "dr_id x = dr_id r" by auto
      have "map Inr rows = map (device_view H) (T w ''devices'')"
        using assms(1) by (simp add: device_table_def)
      from map_eq_mapD [OF this x(1)] obtain s' where "s' \<in> set (T w ''devices'')" "device_view H s' = Inr x"
        by auto
      with device_view_id [of s' x] 1(4) x(2) assms(2) show False
        by (auto simp: keyed_def device_columns_def)
    qed
    show ?case
      by (rule assms(3) [OF rows(1) _ fresh]) (use 1 rows r in \<open>auto simp: device_table_def\<close>)
  qed (rule assms(4))
qed

lemma refines_create:
  assumes table: "device_table H (T w) rows" and cols: "cols ''devices'' = device_columns"
  shows "wp (device_create H owner name key address hash expires)
    (\<lambda>d. device_outcome H T (clock w) rows (Create owner name key address hash expires) (Done (Some d)))
    (\<lambda>_. device_outcome H T (clock w) rows (Create owner name key address hash expires) Failed) w"
proof (cases "blank owner")
  case False
  let ?r = "\<lambda>now i. \<lparr>dr_id = i, dr_owner_subject = owner, dr_name = name, dr_public_key = key, dr_address = address,
      dr_enrollment_code_hash = (if (if rows = [] then Approved else Pending) = Pending then Some hash else None),
      dr_enrollment_expires_at = (if (if rows = [] then Approved else Pending) = Pending then Some expires else None),
      dr_pairing_accepting_public_key = None, dr_state = (if rows = [] then Approved else Pending), dr_approved_at = None,
      dr_revoked_at = None, dr_created_at = timestamp now, dr_updated_at = timestamp now\<rparr>"
  note stay = outcome_failed [OF table]
  show ?thesis
    unfolding device_create_def if_not_P [OF False] wp_simps Let_def
  proof (rule wp_device_now, rule wp_device_records, goal_cases)
    case (1 now w1 rows' w2)
    then have rows: "rows' = rows" and w2: "T w2 = T w" "clock w \<le> timestamp now"
      using device_table_unique [OF table] by (auto simp: same_def)
    show ?case
      unfolding rows
    proof (rule wp_now_v7, goal_cases)
      case (1 i w3)
      then have w3: "T w3 = T w" using w2 by (simp add: same_def)
      show ?case
      proof (rule wp_device_insert [where rows = rows], goal_cases)
        case (3 xs ys w')
        have "device_effect (clock w) rows (Create owner name key address hash expires) (xs @ ?r now i # ys)"
        proof (cases "rows = []")
          case True
          with 3 have "xs = []" "ys = []" by simp_all
          with True show ?thesis by (auto intro: create_first [OF w2(2) \<open>\<not> blank owner\<close>])
        next
          case nonempty: False
          then show ?thesis
            unfolding 3(1) using 3 by (intro create [OF w2(2) \<open>\<not> blank owner\<close>]) auto
        qed
        then show ?case
          by (auto split: sum.split intro: outcome_done [OF 3(2)] outcome_done_failed [OF 3(2)])
      qed (use w3 table cols in \<open>auto simp: same_def intro: stay\<close>)
    qed
  qed (auto simp: same_def intro: stay)
qed (simp add: device_create_def wp_simps outcome_failed [OF table])

lemma refines_create_pairing:
  assumes table: "device_table H (T w) rows" and cols: "cols ''devices'' = device_columns"
  shows "wp (device_create_pairing H name key address accepting)
    (\<lambda>d. device_outcome H T (clock w) rows (CreatePairing name key address accepting) (Done (Some d)))
    (\<lambda>_. device_outcome H T (clock w) rows (CreatePairing name key address accepting) Failed) w"
proof -
  note stay = outcome_failed [OF table]
  let ?r = "\<lambda>now i a. \<lparr>dr_id = i, dr_owner_subject = dr_owner_subject a, dr_name = name, dr_public_key = key,
      dr_address = address, dr_enrollment_code_hash = None, dr_enrollment_expires_at = None,
      dr_pairing_accepting_public_key = Some accepting, dr_state = Pending, dr_approved_at = None, dr_revoked_at = None,
      dr_created_at = timestamp now, dr_updated_at = timestamp now\<rparr>"
  let ?ok = "\<lambda>d. dr_public_key d = accepting \<and> \<not> blank (dr_owner_subject d) \<and> dr_state d = Approved"
  show ?thesis
    unfolding device_create_pairing_def wp_simps Let_def
  proof (rule wp_device_records, goal_cases)
    case (1 rows' w1)
    then have rows: "rows' = rows" and w1: "T w1 = T w" "clock w \<le> clock w1"
      using device_table_unique [OF table] by (auto simp: same_def)
    show ?case
    proof (cases "List.find ?ok rows")
      case None
      then show ?thesis by (simp add: rows stay w1)
    next
      case (Some a)
      then have a: "a \<in> set rows" "?ok a" using find_SomeD [OF Some] by auto
      show ?thesis
        unfolding rows Some option.map ok_or_simps sum.case
      proof (rule wp_device_now, rule wp_now_v7, goal_cases)
        case (1 now w2 i w3)
        then have w3: "T w3 = T w" "clock w \<le> timestamp now" using w1 by (auto simp: same_def)
        show ?case
        proof (rule wp_device_insert [where rows = rows], goal_cases)
          case (3 xs ys w')
          have "device_effect (clock w) rows (CreatePairing name key address accepting) (xs @ ?r now i a # ys)"
            unfolding 3(1) by (rule create_pairing [OF w3(2), of a]) (use 3 a in auto)
          then show ?case
            by (auto split: sum.split intro: outcome_done [OF 3(2)] outcome_done_failed [OF 3(2)])
        qed (use w3 table cols in \<open>auto simp: same_def intro: stay\<close>)
      qed
    qed
  qed (auto simp: same_def intro: stay)
qed

lemma self_revoked_some: "self_revoked t key rows ys f \<Longrightarrow> device_step t rows (RevokeSelf key) (map f rows)"
  by (rule revoked_some) (auto simp: self_revoked_def split: if_splits)

lemma self_revoked_all:
  assumes "self_revoked t key rows (filter (\<lambda>r. dr_public_key r = key) rows) f" "\<exists>r \<in> set rows. dr_public_key r = key"
  shows "device_effect t rows (RevokeSelf key) (map f rows)"
  using assms by (intro revoke_self) (auto simp: self_revoked_def split: if_splits)

lemma refines_revoke_self:
  assumes table: "device_table H (T w) rows" and dist: "distinct (map dr_id rows)"
  shows "wp (device_revoke_self H key) (\<lambda>b. device_outcome H T (clock w) rows (RevokeSelf key) (answer_flag (Inr b :: unit + _)))
    (\<lambda>_. device_outcome H T (clock w) rows (RevokeSelf key) Failed) w"
proof -
  let ?mine = "filter (\<lambda>r. dr_public_key r = key) rows"
  define I where "I ys (found :: bool) w' = (found = (ys \<noteq> []) \<and> clock w \<le> clock w'
      \<and> (\<exists>f. device_table H (T w') (map f rows) \<and> self_revoked (clock w) key rows ys f))" for ys found w'
  have failed: "device_outcome H T (clock w) rows (RevokeSelf key) Failed w'" if "I ys found w'" for ys found w'
    using that self_revoked_some unfolding I_def device_outcome_def device_answers_def by auto
  have finish: "device_outcome H T (clock w) rows (RevokeSelf key) (answer_flag (Inr found :: unit + _)) w'" if "I ?mine found w'" for found w'
  proof -
    from that obtain f where f: "device_table H (T w') (map f rows)" "self_revoked (clock w) key rows ?mine f"
      and found: "found = (?mine \<noteq> [])" by (auto simp: I_def)
    show ?thesis
    proof (cases "?mine = []")
      case True
      then have none: "\<forall>r \<in> set rows. dr_public_key r \<noteq> key" by (auto simp: filter_empty_conv)
      then have "map f rows = rows" using f(2) by (intro map_idI) (auto simp: self_revoked_def)
      with f(1) found True none show ?thesis by (simp add: device_outcome_def device_answers_def)
    next
      case False
      then have "\<exists>r \<in> set rows. dr_public_key r = key" by (auto simp: filter_empty_conv)
      from outcome_done [OF f(1) self_revoked_all [OF f(2) this], of None] found False show ?thesis by simp
    qed
  qed
  have init: "I [] False w'" if "same w w'" for w'
    using that table by (auto simp: I_def same_def self_revoked_def intro!: exI [of _ "\<lambda>r. r"])
  have keep: "I ys found w''" if "I ys found w'" "same w' w''" for ys found w' w''
    using that by (auto simp: I_def same_def)
  have skip: "I (ys @ [x]) True w'" if "I ys found w'" "dr_state x = Revoked" for ys x found w'
    using that by (fastforce simp: I_def self_revoked_def)
  show ?thesis
    unfolding device_revoke_self_def wp_await [of "device_records H"]
  proof (rule wp_device_records, goal_cases)
    case (1 rows' w1)
    then have rows: "rows' = rows" using device_table_unique [OF table] by auto
    have "wp (fold_op (\<lambda>found row. await (device_ensure_clear H (dr_id row)) (\<lambda>_.
        if dr_state row = Revoked then ok True else
        await (device_now H) (\<lambda>updated_at. await (device_update H (dr_id row) [
          device_assignment ''state'' (Integer (DeviceState_as_i64 Revoked)),
          device_assignment ''revoked_at'' (Integer (timestamp updated_at)),
          device_assignment ''updated_at'' (Integer (timestamp updated_at))]) (\<lambda>_. ok True))))
        False ?mine) (I ?mine) (\<lambda>_. device_outcome H T (clock w) rows (RevokeSelf key) Failed) w1"
    proof (rule wp_fold_op_prefix, goal_cases)
      case (1 found ys x zs w')
      have "distinct ?mine" using dist by (simp add: distinct_map)
      with 1(1) have "x \<notin> set ys" by auto
      have "x \<in> set ?mine" unfolding 1(1) by simp
      then have x: "x \<in> set rows" "dr_public_key x = key" by simp_all
      show ?case
        unfolding wp_await [of "device_ensure_clear H _"]
      proof (rule wp_device_ensure_clear, goal_cases)
        case (1 w2)
        note I2 = keep [OF \<open>I ys found w'\<close> 1(1)]
        show ?case
        proof (cases "dr_state x = Revoked")
          case False
          obtain f where f: "device_table H (T w2) (map f rows)" "self_revoked (clock w) key rows ys f"
            "clock w \<le> clock w2"
            using I2 by (auto simp: I_def)
          have "I (ys @ [x]) True w'" if "clock w2 \<le> n" "clock w \<le> clock w'"
            "device_table H (T w') (on_device (dr_id x) (set_revoked n) (map f rows))" for n w'
            using self_revoked_step [OF f(2) dist x(1) \<open>x \<notin> set ys\<close> x(2) False, of n] that f(3)
            unfolding I_def by (auto intro!: exI [of _ "f(x := set_revoked n x)"])
          moreover have "device_outcome H T (clock w) rows (RevokeSelf key) Failed w3"
            if "T w3 = T w2" "C w3 = C w2" "clock w2 \<le> clock w3" for w3
            using failed [OF keep [OF I2, of w3]] that by (simp add: same_def)
          ultimately show ?thesis
            unfolding if_not_P [OF False] wp_simps
            by (intro wp_device_now wp_device_update [OF _ view_revoked, where rows = "map f rows"])
              (use f in \<open>auto simp: same_def\<close>)
        qed (use skip [OF I2] in \<open>simp add: wp_simps\<close>)
      qed (use failed keep [OF \<open>I ys found w'\<close>] in blast)
    qed (use init 1 in blast)
    then show ?case unfolding rows by (rule wp_conseq) (use finish in blast)+
  qed (use failed init in blast)
qed

theorem device_op_outcome:
  assumes "device_table H (T w) rows" and "distinct (map dr_id rows)" and "cols ''devices'' = device_columns"
    and "device_call H op w = (answer, w')"
  shows "device_outcome H T (clock w) rows op answer w'"
proof -
  have one: "device_outcome H T (clock w) rows op' answer w'"
    if "wp m (\<lambda>d. device_outcome H T (clock w) rows op' (Done (Some d))) (\<lambda>_. device_outcome H T (clock w) rows op' Failed) w"
      "apfst answer_device (m w) = (answer, w')" for m :: "('w, ManagementError, Device) op" and op'
    using that by (cases "m w"; cases "fst (m w)") (auto simp: wp_def)
  have found: "device_outcome H T (clock w) rows op' answer w'"
    if "wp m (\<lambda>r. device_outcome H T (clock w) rows op' (answer_found (Inr r :: unit + _))) (\<lambda>_. device_outcome H T (clock w) rows op' Failed) w"
      "apfst answer_found (m w) = (answer, w')" for m :: "('w, ManagementError, Device option) op" and op'
    using that by (cases "m w"; cases "fst (m w)" rule: answer_found.cases) (auto simp: wp_def)
  have flag: "device_outcome H T (clock w) rows op' answer w'"
    if "wp m (\<lambda>b. device_outcome H T (clock w) rows op' (answer_flag (Inr b :: unit + _))) (\<lambda>_. device_outcome H T (clock w) rows op' Failed) w"
      "apfst answer_flag (m w) = (answer, w')" for m :: "('w, ManagementError, bool) op" and op'
    using that by (cases "m w"; cases "fst (m w)") (auto simp: wp_def split: if_splits)
  show ?thesis
    using assms(4)
    by (cases op)
      (auto intro: one [OF refines_create [OF assms(1,3)]] one [OF refines_create_pairing [OF assms(1,3)]]
        found [OF refines_approve_pairing [OF assms(1)]] found [OF refines_approve [OF assms(1)]]
        found [OF refines_rename [OF assms(1)]] flag [OF refines_revoke [OF assms(1)]]
        flag [OF refines_revoke_self [OF assms(1,2)]])
qed

end

section \<open>Invariants of the abstract registry\<close>

text \<open>A row keeps its identity and its state only moves forward: pending, approved, revoked.\<close>

definition evolves :: "device_row \<Rightarrow> device_row \<Rightarrow> bool" where
  "evolves r r' = (dr_id r' = dr_id r \<and> dr_owner_subject r' = dr_owner_subject r
    \<and> dr_public_key r' = dr_public_key r \<and> dr_address r' = dr_address r \<and> dr_created_at r' = dr_created_at r
    \<and> DeviceState_as_i64 (dr_state r) \<le> DeviceState_as_i64 (dr_state r'))"

lemma evolves_refl [simp]: "evolves r r"
  by (simp add: evolves_def)

lemma evolves_trans: "evolves a b \<Longrightarrow> evolves b c \<Longrightarrow> evolves a c"
  by (auto simp: evolves_def)

lemma evolves_set:
  "evolves r (set_name name n r)" "evolves r (set_revoked n r)"
  "dr_state r = Pending \<Longrightarrow> evolves r (set_approved_by_code n r)"
  "dr_state r = Pending \<Longrightarrow> evolves r (set_approved_by_pairing n r)"
  by (cases "dr_state r"; simp add: evolves_def set_defs DeviceState_as_i64.simps)+

lemma same_id_row:
  "distinct (map dr_id rows) \<Longrightarrow> r \<in> set rows \<Longrightarrow> r' \<in> set rows \<Longrightarrow> dr_id r = dr_id r' \<Longrightarrow> r' = r"
  by (auto simp: distinct_map dest: inj_onD)

lemma dr_id_set [simp]:
  "dr_id (set_name name n r) = dr_id r" "dr_id (set_revoked n r) = dr_id r"
  "dr_id (set_approved_by_code n r) = dr_id r" "dr_id (set_approved_by_pairing n r) = dr_id r"
  by (simp_all add: set_defs)

lemma map_id_on_device:
  "(\<And>r. dr_id (f r) = dr_id r) \<Longrightarrow> map dr_id (on_device i f rows) = map dr_id rows"
  by (simp add: on_device_def)

lemma device_effect_distinct:
  "device_effect t rows op rows' \<Longrightarrow> distinct (map dr_id rows) \<Longrightarrow> distinct (map dr_id rows')"
proof (induction rule: device_effect.induct)
  case (revoke_self rows key t f)
  have "map dr_id (map f rows) = map dr_id rows"
    using revoke_self.hyps by (auto simp: set_revoked_def split: if_splits)
  with revoke_self show ?case by (metis list.map_comp)
qed (auto simp: map_id_on_device)

lemma device_step_distinct:
  "device_step t rows op rows' \<Longrightarrow> distinct (map dr_id rows) \<Longrightarrow> distinct (map dr_id rows')"
proof (induction rule: device_step.induct)
  case (revoked_some rows f key t)
  have "map dr_id (map f rows) = map dr_id rows"
    using revoked_some.hyps by (auto simp: set_revoked_def)
  with revoked_some show ?case by (metis list.map_comp)
qed (auto dest: device_effect_distinct)

lemma on_device_evolves:
  assumes "distinct (map dr_id rows)" "r \<in> set rows" "dr_id r = i" "evolves r (f r)" "x \<in> set rows"
  shows "\<exists>x' \<in> set (on_device i f rows). evolves x x'"
proof (cases "dr_id x = i")
  case True
  then have "x = r" using same_id_row [OF assms(1,2,5)] assms(3) by simp
  with assms(4,5) True show ?thesis by (intro bexI [of _ "f r"]) (auto simp: on_device_def)
qed (use assms(5) in \<open>auto simp: on_device_def intro!: bexI [of _ x]\<close>)

lemma device_effect_evolves:
  assumes "device_effect t rows op rows'" and "distinct (map dr_id rows)" and "x \<in> set rows"
  shows "\<exists>x' \<in> set rows'. evolves x x'"
  using assms
proof (induction rule: device_effect.induct)
  case (revoke_self rows key t f)
  then have "evolves x (f x)" by (auto simp: evolves_set split: if_splits)
  with revoke_self.prems show ?case by auto
next
  case create
  then show ?case by (auto intro!: bexI [of _ x])
next
  case create_pairing
  then show ?case by (auto intro!: bexI [of _ x])
qed (auto intro: on_device_evolves evolves_set)

lemma device_step_evolves:
  assumes "device_step t rows op rows'" and "distinct (map dr_id rows)" and "x \<in> set rows"
  shows "\<exists>x' \<in> set rows'. evolves x x'"
  using assms
proof (induction rule: device_step.induct)
  case (revoked_some rows f key t)
  then have "evolves x (f x)" by (auto simp: evolves_set)
  with revoked_some.prems show ?case by auto
next
  case refuse
  then show ?case using evolves_refl by blast
qed (auto dest: device_effect_evolves)

text \<open>How a device comes to be approved.\<close>

lemma device_effect_approved:
  assumes "device_effect t rows op rows'" and "distinct (map dr_id rows)"
    and "r' \<in> set rows'" and "dr_state r' = Approved" and "\<forall>r \<in> set rows. dr_id r = dr_id r' \<longrightarrow> dr_state r \<noteq> Approved"
  shows "rows = [] \<and> (\<exists>owner name key address hash expires. op = Create owner name key address hash expires)
    \<or> (\<exists>r \<in> set rows. dr_id r = dr_id r' \<and> dr_state r = Pending \<and>
        ((\<exists>hash expires. op = Approve (dr_id r) hash \<and> dr_enrollment_code_hash r = Some hash
           \<and> dr_enrollment_expires_at r = Some expires \<and> t < expires)
         \<or> (op = ApprovePairing (dr_id r) \<and> dr_pairing_accepting_public_key r \<noteq> None)))"
  using assms
proof (induction rule: device_effect.induct)
  case (revoke_self rows key t f)
  then obtain r where "r \<in> set rows" "r' = f r" by auto
  with revoke_self show ?case by (auto simp: set_revoked_def split: if_splits)
qed (auto simp: on_device_def set_defs split: if_splits)

lemma device_step_approved:
  assumes "device_step t rows op rows'" and "distinct (map dr_id rows)"
    and "r' \<in> set rows'" and "dr_state r' = Approved" and "\<forall>r \<in> set rows. dr_id r = dr_id r' \<longrightarrow> dr_state r \<noteq> Approved"
  shows "rows = [] \<and> (\<exists>owner name key address hash expires. op = Create owner name key address hash expires)
    \<or> (\<exists>r \<in> set rows. dr_id r = dr_id r' \<and> dr_state r = Pending \<and>
        ((\<exists>hash expires. op = Approve (dr_id r) hash \<and> dr_enrollment_code_hash r = Some hash
           \<and> dr_enrollment_expires_at r = Some expires \<and> t < expires)
         \<or> (op = ApprovePairing (dr_id r) \<and> dr_pairing_accepting_public_key r \<noteq> None)))"
  using assms
proof (induction rule: device_step.induct)
  case (effect t rows op rows')
  then show ?case using device_effect_approved by blast
next
  case (revoked_some rows f key t)
  then obtain r where "r \<in> set rows" "r' = f r" by auto
  with revoked_some show ?case by (auto simp: set_revoked_def)
qed auto

inductive_cases device_step_RevokeE: "device_step t rows (Revoke owner i protected) rows'"
inductive_cases device_effect_RevokeE: "device_effect t rows (Revoke owner i protected) rows'"

lemma on_device_other: "x \<in> set rows \<Longrightarrow> dr_id x \<noteq> i \<Longrightarrow> x \<in> set (on_device i f rows)"
  by (auto simp: on_device_def intro: rev_image_eqI)

lemma another_member: "distinct xs \<Longrightarrow> 1 < length xs \<Longrightarrow> \<exists>x \<in> set xs. x \<noteq> r"
  by (cases xs; cases "tl xs") auto

lemma device_step_RevokeD:
  assumes "device_step t rows (Revoke owner i protected) rows'"
  shows "rows' = rows \<or> (\<exists>n a. a \<in> set rows \<and> dr_id a = i \<and> dr_owner_subject a = owner
    \<and> dr_public_key a \<noteq> protected \<and> dr_state a \<noteq> Revoked
    \<and> (dr_state a = Approved \<longrightarrow> 1 < length (filter (\<lambda>r. dr_state r = Approved) rows))
    \<and> rows' = on_device i (set_revoked n) rows)"
  using assms by (elim device_step_RevokeE device_effect_RevokeE) (blast | force)+

lemma device_step_revoke:
  assumes "device_step t rows (Revoke owner i protected) rows'" and dist: "distinct (map dr_id rows)"
  shows "(\<exists>r \<in> set rows. dr_state r = Approved) \<Longrightarrow> (\<exists>r \<in> set rows'. dr_state r = Approved)"
    and "r \<in> set rows \<Longrightarrow> dr_public_key r = protected \<or> dr_owner_subject r \<noteq> owner \<or> dr_id r \<noteq> i \<Longrightarrow> r \<in> set rows'"
proof -
  let ?approved = "filter (\<lambda>r. dr_state r = Approved) rows"
  have kept: "x \<in> set (on_device i f rows)" if "a \<in> set rows" "dr_id a = i" "x \<in> set rows" "x \<noteq> a" for a x f
    using same_id_row [OF dist that(1,3)] that by (intro on_device_other) auto
  have "distinct ?approved" using dist by (simp add: distinct_map)
  note other = another_member [OF this]
  show "\<exists>r \<in> set rows'. dr_state r = Approved" if "\<exists>r \<in> set rows. dr_state r = Approved"
    using device_step_RevokeD [OF assms(1)]
  proof (elim disjE exE conjE)
    fix n a assume a: "a \<in> set rows" "dr_id a = i" "dr_state a = Approved \<longrightarrow> 1 < length ?approved"
      and rows': "rows' = on_device i (set_revoked n) rows"
    have "\<exists>x \<in> set rows. dr_state x = Approved \<and> x \<noteq> a"
      using that other [of a] a(3) by (cases "dr_state a = Approved") auto
    with kept [OF a(1,2)] show ?thesis unfolding rows' by blast
  qed (use that in simp)
  show "r \<in> set rows'" if "r \<in> set rows" "dr_public_key r = protected \<or> dr_owner_subject r \<noteq> owner \<or> dr_id r \<noteq> i"
    using device_step_RevokeD [OF assms(1)] that kept by blast
qed

section \<open>Queries\<close>

context db_engine
begin

lemma find_approved_spec:
  assumes table: "device_table H (T w) rows"
  shows "wp (device_find_approved_by_public_key H key)
    (\<lambda>res w'. (\<forall>d. res = Some d \<longrightarrow> (\<exists>r. filter (\<lambda>r. dr_public_key r = key) rows = [r] \<and> dr_state r = Approved
      \<and> C w ''devices'' [Uuid (dr_id r)] = [] \<and> device_try_from H r = Inr d)) \<and> T w' = T w) (\<lambda>_ _. True) w"
  unfolding device_find_approved_by_public_key_def wp_simps
proof (rule wp_device_records, goal_cases)
  case (1 rows' w1)
  then have rows: "rows' = rows" using device_table_unique [OF table] by auto
  show ?case
  proof (cases "filter (\<lambda>r. dr_public_key r = key) rows")
    case Nil
    with 1 show ?thesis by (simp add: rows wp_simps same_def)
  next
    case (Cons r rs)
    with 1 show ?thesis
      by (auto simp: rows wp_simps same_def split: sum.split intro!: wp_device_ensure_clear)
  qed
qed simp

end

text \<open>On an available engine a query has a definite answer.\<close>

context db_engine_live
begin

lemma wp_device_records_live:
  assumes table: "device_table H (T w) rows" and owned: "\<forall>r \<in> set rows. \<not> blank (dr_owner_subject r)"
    and "\<And>w'. same w w' \<Longrightarrow> Q rows w'"
  shows "wp (device_records H) Q X w"
  unfolding device_records_def device_select_def wp_simps
proof (rule wp_select_live, goal_cases)
  case (2 qr w')
  have "rows_as H (device_from_row H) qr = try_collect (device_view H) (T w ''devices'')"
    unfolding device_view_def
    by (rule rows_as_select) (use 2(2,3) in \<open>simp_all add: selects_def device_column_def comp_def\<close>)
  moreover have "try_collect (device_view H) (T w ''devices'') = Inr rows"
    using table by (simp add: device_table_def try_collect_Inr)
  ultimately show ?case using assms(3) [OF 2(1)] owned by (auto simp: pop_result_def list_ex_iff)
qed (simp add: device_column_def)

lemma wp_ensure_clear_live:
  assumes "\<And>w'. same w w' \<Longrightarrow> C w ''devices'' [Uuid i] = [] \<Longrightarrow> Q () w'"
    and "\<And>w'. same w w' \<Longrightarrow> C w ''devices'' [Uuid i] \<noteq> [] \<Longrightarrow> X (InvalidInput ''conflicted device'') w'"
  shows "wp (device_ensure_clear H i) Q X w"
  unfolding device_ensure_clear_def allows_tunnel_access_def wp_simps
  by (rule wp_clear_live) (use assms in \<open>auto simp: conflict_free_device\<close>)

definition all_clear :: "'a \<Rightarrow> device_row list \<Rightarrow> bool" where
  "all_clear w rs = (\<forall>r \<in> set rs. C w ''devices'' [Uuid (dr_id r)] = [])"

lemma wp_are_approved_loop:
  assumes "\<And>w'. same w w' \<Longrightarrow> all_clear w rs \<Longrightarrow>
      Q (l \<or> (\<exists>r \<in> set rs. dr_public_key r = a), m \<or> (\<exists>r \<in> set rs. dr_public_key r = b)) w'"
    and "\<And>w'. same w w' \<Longrightarrow> \<not> all_clear w rs \<Longrightarrow> X (InvalidInput ''conflicted device'') w'"
  shows "wp (fold_op (\<lambda>(local, remote) row.
      await (device_ensure_clear H (dr_id row)) (\<lambda>_.
      ok (local \<or> dr_public_key row = a, remote \<or> dr_public_key row = b))) (l, m) rs) Q X w"
  using assms
proof (induction rs arbitrary: l m w)
  case Nil
  then show ?case by (simp add: wp_simps all_clear_def)
next
  case (Cons r rs)
  show ?case
    unfolding fold_op.simps wp_simps prod.case
  proof (rule wp_ensure_clear_live, goal_cases)
    case (1 w1)
    show ?case
    proof (rule Cons.IH, goal_cases)
      case (1 w2)
      then show ?case
        using Cons.prems(1) [of w2] \<open>same w w1\<close> \<open>C w ''devices'' [Uuid (dr_id r)] = []\<close>
        by (auto simp: same_def all_clear_def disj_commute disj_left_commute eq_commute)
    next
      case (2 w2)
      then show ?case
        using Cons.prems(2) [of w2] \<open>same w w1\<close> by (auto simp: same_def all_clear_def)
    qed
  next
    case (2 w1)
    then show ?case using Cons.prems(2) by (auto simp: all_clear_def)
  qed
qed

lemma are_approved_live:
  assumes table: "device_table H (T w) rows" and owned: "\<forall>r \<in> set rows. \<not> blank (dr_owner_subject r)"
  shows "fst (device_are_approved H a b w) =
    (if \<forall>r \<in> set rows. dr_state r = Approved \<longrightarrow> C w ''devices'' [Uuid (dr_id r)] = []
     then Inr ((\<exists>r \<in> set rows. dr_state r = Approved \<and> dr_public_key r = a)
               \<and> (\<exists>r \<in> set rows. dr_state r = Approved \<and> dr_public_key r = b))
     else Inl (InvalidInput ''conflicted device''))"
  unfolding device_are_approved_def
proof (rule wp_fst, unfold wp_simps, rule wp_device_records_live [OF table owned], goal_cases)
  case (1 w1)
  then show ?case
    by (intro wp_are_approved_loop) (auto simp: same_def all_clear_def wp_simps)
qed

end

section \<open>Examples\<close>

definition laptop :: device_row where
  "laptop = \<lparr>dr_id = 1, dr_owner_subject = ''alice'', dr_name = ''laptop'', dr_public_key = ''k1'',
    dr_address = ''a1'', dr_enrollment_code_hash = None, dr_enrollment_expires_at = None,
    dr_pairing_accepting_public_key = None, dr_state = Approved, dr_approved_at = None, dr_revoked_at = None,
    dr_created_at = 10, dr_updated_at = 10\<rparr>"

definition phone :: device_row where
  "phone = \<lparr>dr_id = 2, dr_owner_subject = ''alice'', dr_name = ''phone'', dr_public_key = ''k2'',
    dr_address = ''a2'', dr_enrollment_code_hash = Some [7], dr_enrollment_expires_at = Some 200,
    dr_pairing_accepting_public_key = None, dr_state = Pending, dr_approved_at = None, dr_revoked_at = None,
    dr_created_at = 20, dr_updated_at = 20\<rparr>"

definition two_devices :: mem where
  "two_devices = \<lparr>
    mem_tables = (\<lambda>t. if t = ''devices'' then [stored_row device_columns (device_to_row laptop),
      stored_row device_columns (device_to_row phone)] else []),
    mem_conflicts = (\<lambda>_ _. []), mem_clock = 100, mem_next = 3\<rparr>"

lemma stored_device: "device_view (mem_host schema_columns) (stored_row device_columns (device_to_row r)) = Inr r"
  by (rule memdb.device_view_to_row, rule stored_as_stored_row)
    (simp_all add: device_columns_def device_to_row_def)

lemma two_devices_table: "device_table (mem_host schema_columns) (mem_tables two_devices) [laptop, phone]"
  by (simp add: device_table_def two_devices_def stored_device)

lemma two_devices_distinct: "distinct (map dr_id [laptop, phone])"
  by (simp add: laptop_def phone_def)

lemma approve_phone:
  "device_table (mem_host schema_columns)
    (mem_tables (run_device_op (mem_host schema_columns) (Approve 2 [7]) two_devices))
    [laptop, set_approved_by_code 100 phone]"
  by (simp add: device_approve_def run_simps two_devices_def laptop_def phone_def device_table_def
      device_view_def set_defs trim_id white_defs)

lemma approve_phone_answer: "\<exists>d. fst (device_call (mem_host schema_columns) (Approve 2 [7]) two_devices) = Done (Some d)"
  by (simp add: device_approve_def run_simps two_devices_def laptop_def phone_def device_table_def
      device_view_def set_defs trim_id white_defs)

lemma revoke_phone:
  "fst (device_revoke (mem_host schema_columns) ''alice'' 2 ''k1'' two_devices) = Inr True"
  by (simp add: device_revoke_def run_simps two_devices_def laptop_def phone_def device_table_def
      device_view_def set_defs trim_id white_defs)

section \<open>Properties\<close>

lemma device_outcome_at_schema:
  assumes "db_engine H T C schema_columns clock" "device_table H (T w) rows" "distinct (map dr_id rows)"
  shows "\<exists>rows'. device_table H (T (run_device_op H op w)) rows' \<and> device_step (clock w) rows op rows'"
proof -
  obtain answer w' where call: "device_call H op w = (answer, w')" by (cases "device_call H op w")
  have "device_step (clock w) rows op rows'" if "device_answers H (clock w) rows op answer rows'" for rows'
    using that refuse effect by (cases answer) (auto simp: device_answers_def)
  with db_engine.device_op_outcome [OF assms device_schema call] call show ?thesis
    by (auto simp: device_outcome_def run_device_call)
qed

text \<open>C11: every operation of the registry refines the abstract registry, answer by answer.  When it answers that it did its
  work, the table holds exactly the effect of the operation on the rows, and a device it returns is one of the rows; when it
  refuses, nothing has changed and a condition of the operation did not hold; when it fails, it has done nothing, its
  whole effect, or a part of a self-revocation.\<close>

theorem device_op_refines:
  assumes "db_engine H T C schema_columns clock" and "device_table H (T w) rows" and "distinct (map dr_id rows)"
    and "device_call H op w = (answer, w')"
  shows "\<exists>rows'. device_table H (T w') rows' \<and> device_answers H (clock w) rows op answer rows'"
  using db_engine.device_op_outcome [OF assms(1-3) device_schema assms(4)] by (simp add: device_outcome_def)

lemma device_op_refines_witness:
  "\<exists>d rows'. device_call (mem_host schema_columns) (Approve 2 [7]) two_devices
      = (Done (Some d), run_device_op (mem_host schema_columns) (Approve 2 [7]) two_devices)
    \<and> device_effect (mem_time two_devices) [laptop, phone] (Approve 2 [7]) rows' \<and> rows' \<noteq> [laptop, phone]
    \<and> device_table (mem_host schema_columns) (mem_tables (run_device_op (mem_host schema_columns) (Approve 2 [7]) two_devices)) rows'"
proof -
  obtain d where "fst (device_call (mem_host schema_columns) (Approve 2 [7]) two_devices) = Done (Some d)"
    using approve_phone_answer by blast
  then have call: "device_call (mem_host schema_columns) (Approve 2 [7]) two_devices
      = (Done (Some d), run_device_op (mem_host schema_columns) (Approve 2 [7]) two_devices)"
    by (metis prod.collapse run_device_call)
  from device_op_refines [OF memdb.db_engine_axioms two_devices_table two_devices_distinct call] obtain rows' where
    "device_table (mem_host schema_columns) (mem_tables (run_device_op (mem_host schema_columns) (Approve 2 [7]) two_devices)) rows'"
    "device_effect (mem_time two_devices) [laptop, phone] (Approve 2 [7]) rows'"
    by (auto simp: device_answers_def)
  moreover from device_table_unique [OF approve_phone this(1)] have "rows' \<noteq> [laptop, phone]"
    by (auto simp: set_defs phone_def)
  ultimately show ?thesis using call by blast
qed

text \<open>C12: over any sequence of operations the identifiers stay distinct, no device disappears, its owner,
  key and address never change, and its state only moves from pending to approved to revoked; a revoked
  device stays revoked.\<close>

theorem device_history:
  assumes "db_engine H T C schema_columns clock" and "device_table H (T w) rows" and "distinct (map dr_id rows)"
  shows "\<exists>rows'. device_table H (T (fold (run_device_op H) ops w)) rows' \<and> distinct (map dr_id rows')
    \<and> (\<forall>r \<in> set rows. \<exists>r' \<in> set rows'. evolves r r')"
  using assms(2,3)
proof (induction ops arbitrary: w rows)
  case Nil
  then show ?case using evolves_refl by fastforce
next
  case (Cons op ops)
  obtain rows1 where 1: "device_table H (T (run_device_op H op w)) rows1" "device_step (clock w) rows op rows1"
    using device_outcome_at_schema [OF assms(1) Cons.prems] by blast
  obtain rows2 where 2: "device_table H (T (fold (run_device_op H) (op # ops) w)) rows2"
    "distinct (map dr_id rows2)" "\<forall>r \<in> set rows1. \<exists>r' \<in> set rows2. evolves r r'"
    using Cons.IH [OF 1(1) device_step_distinct [OF 1(2) Cons.prems(2)]] by auto
  have "\<exists>r' \<in> set rows2. evolves r r'" if "r \<in> set rows" for r
    using device_step_evolves [OF 1(2) Cons.prems(2) that] 2(3) evolves_trans by blast
  with 2 show ?case by blast
qed

lemma device_history_witness:
  "\<exists>rows'. device_table (mem_host schema_columns) (mem_tables (fold (run_device_op (mem_host schema_columns))
      [Approve 2 [7], Revoke ''alice'' 2 ''k1'', Approve 2 [7]] two_devices)) rows'
    \<and> distinct (map dr_id rows') \<and> (\<exists>r' \<in> set rows'. evolves phone r')"
  using device_history [OF memdb.db_engine_axioms two_devices_table two_devices_distinct] by fastforce

text \<open>C15: a device becomes approved only as the first device of an empty registry, by the enrolment code
  that was stored for it and has not expired, or by a pairing that was requested for it.\<close>

theorem device_approval_sound:
  assumes "db_engine H T C schema_columns clock" and "device_table H (T w) rows" and "distinct (map dr_id rows)"
    and "device_table H (T (run_device_op H op w)) rows'" and "r' \<in> set rows'" and "dr_state r' = Approved"
    and "\<forall>r \<in> set rows. dr_id r = dr_id r' \<longrightarrow> dr_state r \<noteq> Approved"
  shows "rows = [] \<and> (\<exists>owner name key address hash expires. op = Create owner name key address hash expires)
    \<or> (\<exists>r \<in> set rows. dr_id r = dr_id r' \<and> dr_state r = Pending \<and>
        ((\<exists>hash expires. op = Approve (dr_id r) hash \<and> dr_enrollment_code_hash r = Some hash
           \<and> dr_enrollment_expires_at r = Some expires \<and> clock w < expires)
         \<or> (op = ApprovePairing (dr_id r) \<and> dr_pairing_accepting_public_key r \<noteq> None)))"
proof -
  obtain rows1 where "device_table H (T (run_device_op H op w)) rows1" "device_step (clock w) rows op rows1"
    using device_outcome_at_schema [OF assms(1-3)] by blast
  with assms(4) have "device_step (clock w) rows op rows'" using device_table_unique by blast
  from device_step_approved [OF this assms(3,5,6,7)] show ?thesis .
qed

lemma device_approval_sound_witness:
  "\<exists>expires. Some expires = dr_enrollment_expires_at phone \<and> mem_time two_devices < expires"
  using device_approval_sound [OF memdb.db_engine_axioms two_devices_table two_devices_distinct approve_phone,
      of "set_approved_by_code 100 phone"]
  by (auto simp: set_defs laptop_def phone_def)

text \<open>C16: revoking a device never leaves a registry without an approved device, and never touches a device
  of another owner or the device whose key is protected.\<close>

theorem device_revoke_safe:
  assumes "db_engine H T C schema_columns clock" and "device_table H (T w) rows" and "distinct (map dr_id rows)"
    and "device_revoke H owner i protected w = (res, w')"
  shows "\<exists>rows'. device_table H (T w') rows'
    \<and> ((\<exists>r \<in> set rows. dr_state r = Approved) \<longrightarrow> (\<exists>r \<in> set rows'. dr_state r = Approved))
    \<and> (\<forall>r \<in> set rows. dr_public_key r = protected \<or> dr_owner_subject r \<noteq> owner \<or> dr_id r \<noteq> i \<longrightarrow> r \<in> set rows')"
proof -
  obtain rows' where "device_table H (T w') rows'" "device_step (clock w) rows (Revoke owner i protected) rows'"
    using device_outcome_at_schema [OF assms(1-3), of "Revoke owner i protected"] assms(4) by auto
  with device_step_revoke [OF this(2) assms(3)] show ?thesis by blast
qed

lemma device_revoke_safe_witness:
  "\<exists>rows'. device_table (mem_host schema_columns)
      (mem_tables (snd (device_revoke (mem_host schema_columns) ''alice'' 2 ''k1'' two_devices))) rows'
    \<and> (\<exists>r \<in> set rows'. dr_state r = Approved)"
  using device_revoke_safe [OF memdb.db_engine_axioms two_devices_table two_devices_distinct
      prod.collapse [symmetric], of "''alice''" 2 "''k1''"]
  by (auto simp: laptop_def)

text \<open>Two devices are reported as approved exactly when both keys belong to approved devices, and only
  when no approved device of the registry is in conflict; otherwise the query fails.\<close>

lemma device_are_approved_iff:
  assumes "db_engine_live H T C schema_columns clock" and "device_table H (T w) rows"
    and "\<forall>r \<in> set rows. \<not> blank (dr_owner_subject r)"
  shows "fst (device_are_approved H a b w) =
    (if \<forall>r \<in> set rows. dr_state r = Approved \<longrightarrow> C w ''devices'' [Uuid (dr_id r)] = []
     then Inr ((\<exists>r \<in> set rows. dr_state r = Approved \<and> dr_public_key r = a)
               \<and> (\<exists>r \<in> set rows. dr_state r = Approved \<and> dr_public_key r = b))
     else Inl (InvalidInput ''conflicted device''))"
  using assms by (rule db_engine_live.are_approved_live)


text \<open>A lookup by key returns a device only when it is the only one with that key, approved and not in
  conflict, and changes nothing.\<close>

lemma device_find_approved_sound:
  assumes "db_engine H T C schema_columns clock" and "device_table H (T w) rows"
    and "device_find_approved_by_public_key H key w = (Inr (Some d), w')"
  shows "(\<exists>r. filter (\<lambda>r. dr_public_key r = key) rows = [r] \<and> dr_state r = Approved
      \<and> C w ''devices'' [Uuid (dr_id r)] = [] \<and> device_try_from H r = Inr d) \<and> T w' = T w"
  using wp_run [OF db_engine.find_approved_spec [OF assms(1,2)] assms(3)] by simp


text \<open>A row written by the registry is read back as it was.\<close>

lemma device_row_roundtrip:
  assumes "db_engine H T C cols clock"
  shows "device_from_row H (device_to_row r) device_columns = Inr r"
proof -
  let ?s = "stored_row device_columns (device_to_row r)"
  have stored: "stored_as device_columns (device_to_row r) ?s"
    by (rule stored_as_stored_row) (simp_all add: device_columns_def device_to_row_def)
  from db_engine.device_view_to_row [OF assms this] show ?thesis
    using stored by (simp add: device_view_def stored_as_def)
qed

end
