(* ===== verification/Enrollment.thy ===== *)
theory Enrollment
  imports Device_Registry
begin

text \<open>
  The device enrolment service (\<open>crates/management-service/src/device_enrollment.rs\<close>) over a
  device repository.  The repository is the trait \<open>DeviceRepo\<close>, a record of operations;
  \<open>DbDeviceRepo\<close> is its instance over the engine.  The keys, signatures and the base64 code
  come from external crates and are a record of functions.
\<close>

section \<open>Definitions\<close>

record 'w DeviceRepo =
  repo_create :: "string \<Rightarrow> string \<Rightarrow> string \<Rightarrow> string \<Rightarrow> byte list \<Rightarrow> int \<Rightarrow> ('w, ManagementError, Device) op"
  repo_create_pairing :: "string \<Rightarrow> string \<Rightarrow> string \<Rightarrow> string \<Rightarrow> ('w, ManagementError, Device) op"
  repo_pending_pairing :: "uuid \<Rightarrow> ('w, ManagementError, (Device \<times> string) option) op"
  repo_approve_pairing :: "uuid \<Rightarrow> ('w, ManagementError, Device option) op"
  repo_has_any :: "('w, ManagementError, bool) op"
  repo_list :: "('w, ManagementError, Device list) op"
  repo_find_approved_by_public_key :: "string \<Rightarrow> ('w, ManagementError, Device option) op"
  repo_list_owned :: "string \<Rightarrow> ('w, ManagementError, Device list) op"
  repo_list_approved :: "string \<Rightarrow> ('w, ManagementError, TrustedDevice list) op"
  repo_are_approved :: "string \<Rightarrow> string \<Rightarrow> ('w, ManagementError, bool) op"
  repo_approve :: "uuid \<Rightarrow> byte list \<Rightarrow> ('w, ManagementError, Device option) op"
  repo_rename :: "string \<Rightarrow> uuid \<Rightarrow> string \<Rightarrow> ('w, ManagementError, Device option) op"
  repo_revoke :: "string \<Rightarrow> uuid \<Rightarrow> string \<Rightarrow> ('w, ManagementError, bool) op"
  repo_revoke_self :: "string \<Rightarrow> ('w, ManagementError, bool) op"

definition DbDeviceRepo :: "'w host \<Rightarrow> 'w DeviceRepo" where
  "DbDeviceRepo H = \<lparr>repo_create = device_create H, repo_create_pairing = device_create_pairing H,
    repo_pending_pairing = device_pending_pairing H, repo_approve_pairing = device_approve_pairing H,
    repo_has_any = device_has_any H, repo_list = device_list H,
    repo_find_approved_by_public_key = device_find_approved_by_public_key H,
    repo_list_owned = device_list_owned H, repo_list_approved = device_list_approved H,
    repo_are_approved = device_are_approved H, repo_approve = device_approve H,
    repo_rename = device_rename H, repo_revoke = device_revoke H, repo_revoke_self = device_revoke_self H\<rparr>"

text \<open>Endpoint identities (\<open>iroh::EndpointId\<close>), their signatures and base64url.\<close>

record endpoints =
  parse_endpoint :: "string \<Rightarrow> byte list option"
  show_endpoint :: "byte list \<Rightarrow> string"
  base64url_decode :: "string \<Rightarrow> byte list option"
  parse_signature :: "byte list \<Rightarrow> byte list option"
  endpoint_verify :: "byte list \<Rightarrow> byte list \<Rightarrow> byte list \<Rightarrow> bool"
  show_uuid :: "uuid \<Rightarrow> string"

definition fail_with :: "ErrorCode \<Rightarrow> ErrorResponse + 'a" where
  "fail_with code = Inl (ErrorResponse_new code)"

text \<open>\<open>b.then_some(()).ok_or_else(|| ErrorResponse::new(code))\<close>.\<close>

definition check :: "bool \<Rightarrow> ErrorCode \<Rightarrow> ErrorResponse + unit" where
  "check b code = (if b then Inr () else fail_with code)"

definition valid_value :: "string \<Rightarrow> bool" where
  "valid_value v = (\<not> blank v \<and> length v \<le> 512)"

definition validate_name :: "string \<Rightarrow> ErrorResponse + unit" where
  "validate_name name = check (valid_value name) InvalidRequest"

definition validate_public_key :: "endpoints \<Rightarrow> string \<Rightarrow> ErrorResponse + unit" where
  "validate_public_key K public_key =
    (if \<not> valid_value public_key then fail_with InvalidRequest else
     case parse_endpoint K public_key of None \<Rightarrow> fail_with InvalidRequest
     | Some endpoint_id \<Rightarrow> check (show_endpoint K endpoint_id = public_key) InvalidRequest)"

definition validate_enrollment :: "endpoints \<Rightarrow> DeviceEnrollmentRequest \<Rightarrow> ErrorResponse + unit" where
  "validate_enrollment K request =
    and_then (validate_name (req_name request)) (\<lambda>_.
    and_then (validate_public_key K (req_public_key request)) (\<lambda>_.
    check (valid_value (req_address request)) InvalidRequest))"

definition verify_signature :: "endpoints \<Rightarrow> string \<Rightarrow> string \<Rightarrow> string \<Rightarrow> ErrorResponse + unit" where
  "verify_signature K public_key payload signature =
    (case parse_endpoint K public_key of None \<Rightarrow> fail_with AccessDenied | Some key \<Rightarrow>
     case base64url_decode K signature of None \<Rightarrow> fail_with AccessDenied | Some bytes \<Rightarrow>
     case parse_signature K bytes of None \<Rightarrow> fail_with AccessDenied | Some sig \<Rightarrow>
     check (endpoint_verify K key (str_bytes payload) sig) AccessDenied)"

definition enroll :: "'w DeviceRepo \<Rightarrow> endpoints \<Rightarrow> string \<Rightarrow> DeviceEnrollmentRequest
    \<Rightarrow> ('w, ErrorResponse, DeviceEnrollment) op" where
  "enroll R K owner_subject request =
    (if blank owner_subject then lift (fail_with AccessDenied) else
    await (lift (validate_enrollment K request)) (\<lambda>_.
    await (map_err ErrorResponse_from (repo_has_any R)) (\<lambda>any.
    if any then lift (fail_with AccessDenied) else
    await (map_err ErrorResponse_from (repo_create R owner_subject (req_name request)
      (req_public_key request) (req_address request) [] 0)) (\<lambda>device.
    ok \<lparr>enr_id = dev_id device, enr_state = dev_state device, enr_approval_code = None\<rparr>))))"

definition request_pairing :: "'w DeviceRepo \<Rightarrow> endpoints \<Rightarrow> DevicePairingRequest
    \<Rightarrow> ('w, ErrorResponse, DeviceEnrollment) op" where
  "request_pairing R K request =
    await (lift (validate_enrollment K \<lparr>req_name = pair_name request, req_public_key = pair_public_key request,
      req_address = pair_address request\<rparr>)) (\<lambda>_.
    await (lift (validate_public_key K (pair_accepting_public_key request))) (\<lambda>_.
    await (map_err ErrorResponse_from (repo_create_pairing R (pair_name request) (pair_public_key request)
      (pair_address request) (pair_accepting_public_key request))) (\<lambda>device.
    ok \<lparr>enr_id = dev_id device, enr_state = dev_state device, enr_approval_code = None\<rparr>)))"

definition approve_pairing :: "'w DeviceRepo \<Rightarrow> endpoints \<Rightarrow> uuid \<Rightarrow> string \<Rightarrow> ('w, ErrorResponse, DeviceInfo) op" where
  "approve_pairing R K device_id signature =
    await (map_err ErrorResponse_from (repo_pending_pairing R device_id)) (\<lambda>pending.
    await (lift (ok_or (ErrorResponse_new AccessDenied) pending)) (\<lambda>(device, accepting_public_key).
    await (lift (verify_signature K accepting_public_key
      (device_pairing_approval_payload (show_uuid K) (dev_id device) (dev_name device) (dev_public_key device)
        (dev_address device)) signature)) (\<lambda>_.
    await (map_err ErrorResponse_from (repo_approve_pairing R device_id)) (\<lambda>approved.
    lift (ok_or (ErrorResponse_new AccessDenied) (map_option DeviceInfo_from approved))))))"

definition pairing_approval_payload :: "'w DeviceRepo \<Rightarrow> endpoints \<Rightarrow> uuid \<Rightarrow> ('w, ErrorResponse, string) op" where
  "pairing_approval_payload R K device_id =
    await (map_err ErrorResponse_from (repo_pending_pairing R device_id)) (\<lambda>pending.
    await (lift (ok_or (ErrorResponse_new AccessDenied) pending)) (\<lambda>(device, _).
    ok (device_pairing_approval_payload (show_uuid K) (dev_id device) (dev_name device) (dev_public_key device)
      (dev_address device))))"

definition list_devices :: "'w DeviceRepo \<Rightarrow> string \<Rightarrow> ('w, ErrorResponse, DeviceInfo list) op" where
  "list_devices R owner_subject =
    await (map_err ErrorResponse_from (repo_list_owned R owner_subject)) (\<lambda>devices.
    ok (map DeviceInfo_from devices))"

definition rename_device :: "'w DeviceRepo \<Rightarrow> string \<Rightarrow> uuid \<Rightarrow> string \<Rightarrow> ('w, ErrorResponse, DeviceInfo) op" where
  "rename_device R owner_subject device_id name =
    await (lift (validate_name name)) (\<lambda>_.
    await (map_err ErrorResponse_from (repo_rename R owner_subject device_id name)) (\<lambda>renamed.
    lift (ok_or (ErrorResponse_new NotFound) (map_option DeviceInfo_from renamed))))"

definition revoke_device :: "'w DeviceRepo \<Rightarrow> string \<Rightarrow> uuid \<Rightarrow> string \<Rightarrow> ('w, ErrorResponse, unit) op" where
  "revoke_device R owner_subject device_id protected_public_key =
    await (map_err ErrorResponse_from (repo_revoke R owner_subject device_id protected_public_key)) (\<lambda>revoked.
    lift (check revoked NotFound))"

definition revoke_own_device :: "'w DeviceRepo \<Rightarrow> string \<Rightarrow> ('w, ErrorResponse, unit) op" where
  "revoke_own_device R public_key =
    await (map_err ErrorResponse_from (repo_revoke_self R public_key)) (\<lambda>revoked.
    lift (check revoked NotFound))"

lemmas enrollment_defs [run_simps] =
  DbDeviceRepo_def fail_with_def check_def valid_value_def validate_name_def validate_public_key_def
  validate_enrollment_def verify_signature_def

lemma DbDeviceRepo_simps [simp]:
  "repo_create (DbDeviceRepo H) = device_create H"
  "repo_create_pairing (DbDeviceRepo H) = device_create_pairing H"
  "repo_pending_pairing (DbDeviceRepo H) = device_pending_pairing H"
  "repo_approve_pairing (DbDeviceRepo H) = device_approve_pairing H"
  "repo_has_any (DbDeviceRepo H) = device_has_any H"
  "repo_list_owned (DbDeviceRepo H) = device_list_owned H"
  "repo_rename (DbDeviceRepo H) = device_rename H"
  "repo_revoke (DbDeviceRepo H) = device_revoke H"
  "repo_revoke_self (DbDeviceRepo H) = device_revoke_self H"
  by (simp_all add: DbDeviceRepo_def)

section \<open>Validation\<close>

lemma validate_public_key_Inr:
  "validate_public_key K key = Inr u \<longleftrightarrow> valid_value key \<and> (\<exists>e. parse_endpoint K key = Some e \<and> show_endpoint K e = key)"
  by (auto simp: validate_public_key_def check_def fail_with_def split: option.split)

lemma validate_enrollment_Inr:
  "validate_enrollment K req = Inr u \<longleftrightarrow> valid_value (req_name req) \<and> valid_value (req_address req)
    \<and> valid_value (req_public_key req)
    \<and> (\<exists>e. parse_endpoint K (req_public_key req) = Some e \<and> show_endpoint K e = req_public_key req)"
  by (auto simp: validate_enrollment_def validate_public_key_Inr validate_name_def check_def fail_with_def)

section \<open>What the service relies on\<close>

text \<open>The device a repository returns for a row.\<close>

definition shows_row :: "device_row \<Rightarrow> Device \<Rightarrow> bool" where
  "shows_row r d = (dev_id d = dr_id r \<and> dev_owner_subject d = dr_owner_subject r \<and> dev_name d = dr_name r
    \<and> dev_public_key d = dr_public_key r \<and> dev_address d = dr_address r \<and> dev_state d = dr_state r)"

text \<open>\<open>view w rows\<close>: in state \<open>w\<close> the registry holds \<open>rows\<close>.\<close>

locale device_registry =
  fixes R :: "'w DeviceRepo" and view :: "'w \<Rightarrow> device_row list \<Rightarrow> bool"
  assumes has_any_law:
      "view w rows \<Longrightarrow> repo_has_any R w = (Inr b, w') \<Longrightarrow> b = (rows \<noteq> []) \<and> view w' rows"
    and create_law:
      "view w rows \<Longrightarrow> repo_create R owner name key address hash expires w = (Inr d, w') \<Longrightarrow>
        \<exists>xs ys r. rows = xs @ ys \<and> view w' (xs @ r # ys) \<and> shows_row r d \<and> dr_owner_subject r = owner
          \<and> dr_name r = name \<and> dr_public_key r = key \<and> dr_address r = address
          \<and> dr_state r = (if rows = [] then Approved else Pending)"
    and create_pairing_law:
      "view w rows \<Longrightarrow> repo_create_pairing R name key address accepting w = (Inr d, w') \<Longrightarrow>
        \<exists>xs ys r a. rows = xs @ ys \<and> view w' (xs @ r # ys) \<and> shows_row r d \<and> a \<in> set rows
          \<and> dr_public_key a = accepting \<and> dr_state a = Approved \<and> dr_owner_subject r = dr_owner_subject a
          \<and> dr_name r = name \<and> dr_public_key r = key \<and> dr_address r = address \<and> dr_state r = Pending
          \<and> dr_pairing_accepting_public_key r = Some accepting"
    and pending_law:
      "view w rows \<Longrightarrow> repo_pending_pairing R i w = (Inr (Some (d, accepting)), w') \<Longrightarrow>
        view w' rows \<and> (\<exists>r \<in> set rows. dr_id r = i \<and> shows_row r d \<and> dr_state r = Pending
          \<and> dr_pairing_accepting_public_key r = Some accepting)"
    and approve_pairing_law:
      "view w rows \<Longrightarrow> repo_approve_pairing R i w = (Inr (Some d), w') \<Longrightarrow>
        \<exists>n. view w' (on_device i (set_approved_by_pairing n) rows)"
begin

lemma wp_has_any:
  assumes "view w rows" and "\<And>w'. view w' rows \<Longrightarrow> Q (rows \<noteq> []) w'"
  shows "wp (repo_has_any R) Q (\<lambda>_ _. True) w"
  by (rule wp_I) (use assms has_any_law in blast)+

lemma wp_create:
  assumes "view w rows"
    and "\<And>d xs ys r w'. rows = xs @ ys \<Longrightarrow> view w' (xs @ r # ys) \<Longrightarrow> shows_row r d \<Longrightarrow> dr_owner_subject r = owner \<Longrightarrow>
      dr_name r = name \<Longrightarrow> dr_public_key r = key \<Longrightarrow> dr_address r = address \<Longrightarrow>
      dr_state r = (if rows = [] then Approved else Pending) \<Longrightarrow> Q d w'"
  shows "wp (repo_create R owner name key address hash expires) Q (\<lambda>_ _. True) w"
proof (rule wp_I)
  fix d w' assume "repo_create R owner name key address hash expires w = (Inr d, w')"
  from create_law [OF assms(1) this] show "Q d w'" by (elim exE conjE) (rule assms(2))
qed simp

lemma wp_create_pairing:
  assumes "view w rows"
    and "\<And>d xs ys r a w'. rows = xs @ ys \<Longrightarrow> view w' (xs @ r # ys) \<Longrightarrow> shows_row r d \<Longrightarrow> a \<in> set rows \<Longrightarrow>
      dr_public_key a = accepting \<Longrightarrow> dr_state a = Approved \<Longrightarrow> dr_owner_subject r = dr_owner_subject a \<Longrightarrow>
      dr_name r = name \<Longrightarrow> dr_public_key r = key \<Longrightarrow> dr_address r = address \<Longrightarrow> dr_state r = Pending \<Longrightarrow>
      dr_pairing_accepting_public_key r = Some accepting \<Longrightarrow> Q d w'"
  shows "wp (repo_create_pairing R name key address accepting) Q (\<lambda>_ _. True) w"
proof (rule wp_I)
  fix d w' assume "repo_create_pairing R name key address accepting w = (Inr d, w')"
  from create_pairing_law [OF assms(1) this] show "Q d w'" by (elim exE conjE) (rule assms(2))
qed simp

lemma enroll_spec:
  assumes "view w rows"
  shows "wp (enroll R K owner req) (\<lambda>e w'. rows = [] \<and> \<not> blank owner \<and> validate_enrollment K req = Inr ()
    \<and> (\<exists>r. view w' [r] \<and> dr_id r = enr_id e \<and> dr_owner_subject r = owner \<and> dr_name r = req_name req
      \<and> dr_public_key r = req_public_key req \<and> dr_address r = req_address req
      \<and> dr_state r = Approved \<and> enr_state e = Approved)) (\<lambda>_ _. True) w"
proof (cases "blank owner \<or> validate_enrollment K req \<noteq> Inr ()")
  case True
  then show ?thesis
    by (cases "validate_enrollment K req") (auto simp: enroll_def fail_with_def wp_simps)
next
  case False
  then have guards: "\<not> blank owner" "validate_enrollment K req = Inr ()" by simp_all
  show ?thesis
    unfolding enroll_def if_not_P [OF guards(1)] guards(2) wp_simps sum.case
  proof (rule wp_has_any [OF assms], goal_cases)
    case (1 w1)
    show ?case
    proof (cases "rows = []")
      case True
      have "wp (repo_create R owner (req_name req) (req_public_key req) (req_address req) [] 0)
          (\<lambda>d w'. \<exists>r. view w' [r] \<and> shows_row r d \<and> dr_owner_subject r = owner \<and> dr_name r = req_name req
            \<and> dr_public_key r = req_public_key req \<and> dr_address r = req_address req \<and> dr_state r = Approved)
          (\<lambda>_ _. True) w1"
        by (rule wp_create [OF 1]) (use True in auto)
      then show ?thesis
        by (simp add: True) (erule wp_conseq, auto simp: guards shows_row_def)
    qed (simp add: fail_with_def)
  qed
qed

lemma approve_pairing_spec:
  assumes "view w rows"
  shows "wp (approve_pairing R K i signature) (\<lambda>info w'. \<exists>r \<in> set rows. \<exists>accepting n.
    dr_id r = i \<and> dr_state r = Pending \<and> dr_pairing_accepting_public_key r = Some accepting
    \<and> verify_signature K accepting (device_pairing_approval_payload (show_uuid K) i (dr_name r)
        (dr_public_key r) (dr_address r)) signature = Inr ()
    \<and> view w' (on_device i (set_approved_by_pairing n) rows)) (\<lambda>_ _. True) w"
  unfolding approve_pairing_def wp_simps
proof (rule wp_I, goal_cases)
  case (1 pending w1)
  show ?case
  proof (cases pending)
    case (Some p)
    obtain d accepting where p: "p = (d, accepting)" by (cases p)
    from pending_law [OF assms, of i d accepting w1] 1 Some p obtain r where r: "view w1 rows"
      "r \<in> set rows" "dr_id r = i" "shows_row r d" "dr_state r = Pending"
      "dr_pairing_accepting_public_key r = Some accepting" by auto
    show ?thesis
    proof (cases "verify_signature K accepting (device_pairing_approval_payload (show_uuid K) i (dr_name r)
        (dr_public_key r) (dr_address r)) signature")
      case (Inr u)
      have "wp (repo_approve_pairing R i) (\<lambda>res w'. \<forall>d. res = Some d \<longrightarrow>
          (\<exists>n. view w' (on_device i (set_approved_by_pairing n) rows))) (\<lambda>_ _. True) w1"
        by (rule wp_I) (use approve_pairing_law [OF r(1)] in auto)
      moreover have "case ok_or (ErrorResponse_new AccessDenied) (map_option DeviceInfo_from res) of
          Inl e \<Rightarrow> True | Inr info \<Rightarrow> \<exists>r \<in> set rows. \<exists>accepting n.
            dr_id r = i \<and> dr_state r = Pending \<and> dr_pairing_accepting_public_key r = Some accepting
            \<and> verify_signature K accepting (device_pairing_approval_payload (show_uuid K) i (dr_name r)
                (dr_public_key r) (dr_address r)) signature = Inr ()
            \<and> view w' (on_device i (set_approved_by_pairing n) rows)"
        if "\<forall>d. res = Some d \<longrightarrow> (\<exists>n. view w' (on_device i (set_approved_by_pairing n) rows))" for res w'
        using that r Inr by (cases res) auto
      ultimately show ?thesis
        using r Inr unfolding Some p by (auto simp: shows_row_def elim!: wp_conseq)
    qed (use r in \<open>auto simp: Some p shows_row_def\<close>)
  qed simp
qed simp

lemma request_pairing_spec:
  assumes "view w rows"
  shows "wp (request_pairing R K req) (\<lambda>e w'. \<exists>xs ys r. rows = xs @ ys \<and> view w' (xs @ r # ys)
    \<and> dr_id r = enr_id e \<and> dr_state r = Pending \<and> enr_state e = Pending
    \<and> dr_pairing_accepting_public_key r = Some (pair_accepting_public_key req)
    \<and> valid_value (dr_name r) \<and> valid_value (dr_address r) \<and> valid_value (dr_public_key r)
    \<and> (\<exists>k. parse_endpoint K (dr_public_key r) = Some k \<and> show_endpoint K k = dr_public_key r)
    \<and> (\<exists>a \<in> set rows. dr_public_key a = pair_accepting_public_key req \<and> dr_state a = Approved
        \<and> dr_owner_subject r = dr_owner_subject a)) (\<lambda>_ _. True) w"
proof -
  let ?req = "\<lparr>req_name = pair_name req, req_public_key = pair_public_key req, req_address = pair_address req\<rparr>"
  show ?thesis
  proof (cases "validate_enrollment K ?req = Inr () \<and> validate_public_key K (pair_accepting_public_key req) = Inr ()")
    case True
    then have valid: "validate_enrollment K ?req = Inr ()"
      "validate_public_key K (pair_accepting_public_key req) = Inr ()" by simp_all
    show ?thesis
      unfolding request_pairing_def valid wp_simps sum.case
      by (rule wp_create_pairing [OF assms])
        (use valid(1) [unfolded validate_enrollment_Inr] in \<open>fastforce simp: shows_row_def\<close>)
  next
    case False
    then show ?thesis
      by (cases "validate_enrollment K ?req"; cases "validate_public_key K (pair_accepting_public_key req)")
        (auto simp: request_pairing_def wp_simps)
  qed
qed

end

section \<open>The database repository provides it\<close>

locale device_db = db_engine H T C schema_columns clock
  for H :: "'w host" and T :: "'w \<Rightarrow> tables" and C :: "'w \<Rightarrow> conflicts" and clock :: "'w \<Rightarrow> int"
begin

lemma shows_try_from: "device_try_from H r = Inr d \<Longrightarrow> shows_row r d"
  by (drule device_try_from_Inr) (simp add: shows_row_def)

lemma shows_inserted:
  assumes "rows = xs @ ys" "device_table H (T w') (xs @ r # ys)" and "P r"
  shows "case device_try_from H r of Inl e \<Rightarrow> True
    | Inr d \<Rightarrow> \<exists>xs ys r. rows = xs @ ys \<and> device_table H (T w') (xs @ r # ys) \<and> shows_row r d \<and> P r"
  using assms shows_try_from [of r] by (auto split: sum.split)

lemma wp_device_has_any:
  assumes "device_table H (T w) rows"
  shows "wp (device_has_any H) (\<lambda>b w'. b = (rows \<noteq> []) \<and> device_table H (T w') rows) (\<lambda>_ _. True) w"
  unfolding device_has_any_def wp_simps
  by (rule wp_device_records) (use assms device_table_unique [OF assms] in \<open>auto simp: same_def\<close>)

lemma wp_device_create:
  assumes table: "device_table H (T w) rows"
  shows "wp (device_create H owner name key address hash expires) (\<lambda>d w'.
    \<exists>xs ys r. rows = xs @ ys \<and> device_table H (T w') (xs @ r # ys) \<and> shows_row r d \<and> dr_owner_subject r = owner
      \<and> dr_name r = name \<and> dr_public_key r = key \<and> dr_address r = address
      \<and> dr_state r = (if rows = [] then Approved else Pending)) (\<lambda>_ _. True) w"
proof (cases "blank owner")
  case False
  show ?thesis
    unfolding device_create_def if_not_P [OF False] wp_simps Let_def
  proof (rule wp_device_now, rule wp_device_records, rule wp_now_v7, goal_cases)
    case (1 now w1 rows' w2 i w3)
    then have rows: "rows' = rows" and w3: "T w3 = T w"
      using device_table_unique [OF table] by (auto simp: same_def)
    show ?case
      unfolding rows
    proof (rule wp_device_insert [where rows = rows], goal_cases)
      case (3 xs ys w')
      show ?case
        by (rule shows_inserted [OF 3(1,2)]) simp_all
    qed (use w3 table in \<open>simp_all add: device_schema\<close>)
  qed simp_all
qed (simp add: device_create_def wp_simps)

lemma wp_device_create_pairing:
  assumes table: "device_table H (T w) rows"
  shows "wp (device_create_pairing H name key address accepting) (\<lambda>d w'.
    \<exists>xs ys r. rows = xs @ ys \<and> device_table H (T w') (xs @ r # ys) \<and> shows_row r d \<and> (\<exists>a. a \<in> set rows
      \<and> dr_public_key a = accepting \<and> dr_state a = Approved \<and> dr_owner_subject r = dr_owner_subject a
      \<and> dr_name r = name \<and> dr_public_key r = key \<and> dr_address r = address \<and> dr_state r = Pending
      \<and> dr_pairing_accepting_public_key r = Some accepting)) (\<lambda>_ _. True) w"
proof -
  let ?ok = "\<lambda>d. dr_public_key d = accepting \<and> \<not> blank (dr_owner_subject d) \<and> dr_state d = Approved"
  show ?thesis
    unfolding device_create_pairing_def wp_simps Let_def
  proof (rule wp_device_records, goal_cases)
    case (1 rows' w1)
    then have rows: "rows' = rows" and w1: "T w1 = T w"
      using device_table_unique [OF table] by (auto simp: same_def)
    show ?case
    proof (cases "List.find ?ok rows")
      case (Some a)
      then have a: "a \<in> set rows" "?ok a" using find_SomeD [OF Some] by auto
      show ?thesis
        unfolding rows Some option.map ok_or_simps sum.case
      proof (rule wp_device_now, rule wp_now_v7, goal_cases)
        case (1 now w2 i w3)
        then have w3: "T w3 = T w" using w1 by (auto simp: same_def)
        show ?case
        proof (rule wp_device_insert [where rows = rows], goal_cases)
          case (3 xs ys w')
          show ?case by (rule shows_inserted [OF 3(1,2)]) (use a in auto)
        qed (use w3 table in \<open>simp_all add: device_schema\<close>)
      qed
    qed (simp add: rows)
  qed simp
qed

lemma wp_device_pending_pairing:
  assumes table: "device_table H (T w) rows"
  shows "wp (device_pending_pairing H i) (\<lambda>res w'. \<forall>d accepting. res = Some (d, accepting) \<longrightarrow>
    device_table H (T w') rows \<and> (\<exists>r \<in> set rows. dr_id r = i \<and> shows_row r d \<and> dr_state r = Pending
      \<and> dr_pairing_accepting_public_key r = Some accepting)) (\<lambda>_ _. True) w"
  unfolding device_pending_pairing_def
proof (rule wp_on_record [OF table], goal_cases)
  case (2 r w1)
  then show ?case
    using table by (auto simp: wp_simps split: option.split sum.split dest: shows_try_from)
qed (simp_all add: wp_simps)

lemma wp_device_approve_pairing:
  assumes table: "device_table H (T w) rows"
  shows "wp (device_approve_pairing H i) (\<lambda>res w'. \<forall>d. res = Some d \<longrightarrow>
    (\<exists>n. device_table H (T w') (on_device i (set_approved_by_pairing n) rows))) (\<lambda>_ _. True) w"
  unfolding device_approve_pairing_def
proof (rule wp_on_record [OF table], goal_cases)
  case (2 r w1)
  then have w1: "device_table H (T w1) rows" using table by simp
  show ?case
    unfolding wp_simps
    by (simp, intro impI wp_device_now wp_device_update [OF _ view_approved_by_pairing, where rows = rows])
      (use w1 in \<open>auto simp: same_def split: sum.split\<close>)
qed (simp_all add: wp_simps)

end

sublocale device_db \<subseteq> registry: device_registry "DbDeviceRepo H" "\<lambda>w. device_table H (T w)"
proof (unfold_locales, goal_cases)
  case (1 w rows b w')
  then show ?case using wp_run [OF wp_device_has_any] by simp
next
  case (2 w rows owner name key address hash expires d w')
  then show ?case using wp_run [OF wp_device_create] by simp
next
  case (3 w rows name key address accepting d w')
  then show ?case using wp_run [OF wp_device_create_pairing] by fastforce
next
  case (4 w rows i d accepting w')
  then show ?case using wp_run [OF wp_device_pending_pairing] by simp
next
  case (5 w rows i d w')
  then show ?case using wp_run [OF wp_device_approve_pairing] by simp
qed

context device_db
begin

lemma db_registry: "device_registry (DbDeviceRepo H) (\<lambda>w. device_table H (T w))"
  by (rule registry.device_registry_axioms)

end

interpretation memdb: device_db "mem_host schema_columns" mem_tables mem_conflicts mem_time
  by unfold_locales

section \<open>Properties\<close>

text \<open>C27: enrolment without a pairing works exactly once.  When it succeeds the registry was empty and
  now holds one approved device with the owner, name, key and address of the request, all of them checked:
  neither blank nor longer than 512 bytes, and the key in its canonical text.\<close>

theorem enroll_first_device:
  assumes "device_db H T C clock" and "device_table H (T w) rows"
    and "enroll (DbDeviceRepo H) K owner req w = (Inr e, w')"
  shows "rows = [] \<and> \<not> blank owner \<and> enr_state e = Approved \<and> (\<exists>r. device_table H (T w') [r]
    \<and> dr_id r = enr_id e \<and> dr_owner_subject r = owner \<and> dr_name r = req_name req
    \<and> dr_public_key r = req_public_key req \<and> dr_address r = req_address req \<and> dr_state r = Approved
    \<and> valid_value (dr_name r) \<and> valid_value (dr_public_key r) \<and> valid_value (dr_address r)
    \<and> (\<exists>k. parse_endpoint K (dr_public_key r) = Some k \<and> show_endpoint K k = dr_public_key r))"
  using wp_run [OF device_registry.enroll_spec [OF device_db.db_registry [OF assms(1)] assms(2)] assms(3)]
  by (auto simp: validate_enrollment_Inr)

definition plain_endpoints :: endpoints where
  "plain_endpoints = \<lparr>parse_endpoint = (\<lambda>s. Some (str_bytes s)),
    show_endpoint = (\<lambda>bs. map (\<lambda>b. char_of (unat b)) bs), base64url_decode = (\<lambda>s. Some (str_bytes s)),
    parse_signature = Some, endpoint_verify = (\<lambda>k p sig. sig = k), show_uuid = (\<lambda>i. decimal (unat i))\<rparr>"

lemma plain_show: "map (\<lambda>b. char_of (unat b)) (str_bytes s) = s"
  by (induction s) (simp_all add: str_bytes_def unat_of_nat)

definition no_devices :: mem where
  "no_devices = \<lparr>mem_tables = (\<lambda>_. []), mem_conflicts = (\<lambda>_ _. []), mem_clock = 100, mem_next = 1\<rparr>"

definition tablet_request :: DeviceEnrollmentRequest where
  "tablet_request = \<lparr>req_name = ''tablet'', req_public_key = ''k3'', req_address = ''a3''\<rparr>"

lemma enroll_first_device_witness:
  "\<exists>e w' r. enroll (DbDeviceRepo (mem_host schema_columns)) plain_endpoints ''alice'' tablet_request no_devices
      = (Inr e, w') \<and> device_table (mem_host schema_columns) (mem_tables w') [r] \<and> dr_owner_subject r = ''alice''"
proof -
  obtain e w' where run: "enroll (DbDeviceRepo (mem_host schema_columns)) plain_endpoints ''alice''
      tablet_request no_devices = (Inr e, w')"
    by (simp add: enroll_def device_has_any_def device_create_def run_simps no_devices_def tablet_request_def
        plain_endpoints_def trim_id white_defs plain_show)
  have "device_table (mem_host schema_columns) (mem_tables no_devices) []"
    by (simp add: device_table_def no_devices_def)
  from enroll_first_device [OF memdb.device_db_axioms this run] run show ?thesis by blast
qed


definition paired_phone :: device_row where
  "paired_phone = phone\<lparr>dr_enrollment_code_hash := None, dr_enrollment_expires_at := None,
    dr_pairing_accepting_public_key := Some ''k1''\<rparr>"

definition pairing_pending :: mem where
  "pairing_pending = two_devices\<lparr>mem_tables := (\<lambda>t. if t = ''devices'' then
    [stored_row device_columns (device_to_row laptop),
     stored_row device_columns (device_to_row paired_phone)] else [])\<rparr>"

lemma pairing_pending_table:
  "device_table (mem_host schema_columns) (mem_tables pairing_pending) [laptop, paired_phone]"
  by (simp add: device_table_def pairing_pending_def stored_device)


text \<open>A requested pairing is stored as a pending device of the owner of an approved device that holds
  the accepting key, with checked name, key and address.\<close>

lemma request_pairing_pending:
  assumes "device_db H T C clock" and "device_table H (T w) rows"
    and "request_pairing (DbDeviceRepo H) K req w = (Inr e, w')"
  shows "\<exists>xs ys r. rows = xs @ ys \<and> device_table H (T w') (xs @ r # ys) \<and> dr_id r = enr_id e
    \<and> dr_state r = Pending \<and> dr_pairing_accepting_public_key r = Some (pair_accepting_public_key req)
    \<and> valid_value (dr_name r) \<and> valid_value (dr_address r) \<and> valid_value (dr_public_key r)
    \<and> (\<exists>k. parse_endpoint K (dr_public_key r) = Some k \<and> show_endpoint K k = dr_public_key r)
    \<and> (\<exists>a \<in> set rows. dr_public_key a = pair_accepting_public_key req \<and> dr_state a = Approved
        \<and> dr_owner_subject r = dr_owner_subject a)"
  using wp_run [OF device_registry.request_pairing_spec [OF device_db.db_registry [OF assms(1)] assms(2)] assms(3)]
  by blast

definition tablet_pairing :: DevicePairingRequest where
  "tablet_pairing = \<lparr>pair_name = ''tablet'', pair_public_key = ''k3'', pair_address = ''a3'',
    pair_accepting_public_key = ''k1''\<rparr>"


text \<open>C26: the text a device signs to approve a pairing determines the device: no two different
  combinations of identifier, name, key and address have the same payload, whatever line breaks and digits
  the fields contain.\<close>

theorem pairing_payload_injective:
  assumes "inj show_id" and "\<And>i. CHR 0x0A \<notin> set (show_id i)"
    and "device_pairing_approval_payload show_id i name key address
      = device_pairing_approval_payload show_id i' name' key' address'"
  shows "i = i' \<and> name = name' \<and> key = key' \<and> address = address'"
proof -
  let ?rest = "\<lambda>n k a. decimal (length n) @ CHR 0x0A # n @ CHR 0x0A # decimal (length k) @ CHR 0x0A # k
      @ CHR 0x0A # decimal (length a) @ CHR 0x0A # a @ []"
  have "show_id i @ CHR 0x0A # ?rest name key address = show_id i' @ CHR 0x0A # ?rest name' key' address'"
    using assms(3) by (simp add: device_pairing_approval_payload_def)
  from until_sep_unique [OF this assms(2) assms(2)]
  have i: "show_id i = show_id i'" and rest: "?rest name key address = ?rest name' key' address'" by simp_all
  have nl: "(of_char (CHR 0x0A) :: nat) \<notin> {48 .. 57}" by simp
  from field_unique [OF rest nl] have name: "name = name'" and
    "CHR 0x0A # decimal (length key) @ CHR 0x0A # key @ CHR 0x0A # decimal (length address) @ CHR 0x0A # address @ []
      = CHR 0x0A # decimal (length key') @ CHR 0x0A # key' @ CHR 0x0A # decimal (length address') @ CHR 0x0A # address' @ []"
    by simp_all
  then have "decimal (length key) @ CHR 0x0A # key @ CHR 0x0A # decimal (length address) @ CHR 0x0A # address @ []
      = decimal (length key') @ CHR 0x0A # key' @ CHR 0x0A # decimal (length address') @ CHR 0x0A # address' @ []"
    by simp
  from field_unique [OF this nl] have key: "key = key'" and
    "decimal (length address) @ CHR 0x0A # address @ [] = decimal (length address') @ CHR 0x0A # address' @ []"
    by simp_all
  from field_unique [OF this(2) nl] have "address = address'" by simp
  with i name key assms(1) show ?thesis by (simp add: inj_eq)
qed

lemma pairing_payload_injective_witness:
  "device_pairing_approval_payload (\<lambda>i. decimal (unat i)) 1 ''a'' ''b'' ''c''
    \<noteq> device_pairing_approval_payload (\<lambda>i. decimal (unat i)) 1 ''a'' ''bc'' []"
proof
  have inj: "inj (\<lambda>i :: uuid. decimal (unat i))" by (rule injI) (simp add: word_unat_eq_iff)
  have nl: "CHR 0x0A \<notin> set (decimal (unat i))" for i :: uuid
    using decimal_digits [of "CHR 0x0A" "unat i"] by auto
  assume "device_pairing_approval_payload (\<lambda>i. decimal (unat i)) 1 ''a'' ''b'' ''c''
    = device_pairing_approval_payload (\<lambda>i. decimal (unat i)) 1 ''a'' ''bc'' []"
  from pairing_payload_injective [OF inj nl this] show False by simp
qed

end
