(* ===== verification/Selection.thy ===== *)
theory Selection
  imports Device_Registry
begin

text \<open>
  Selection policies (\<open>crates/management-service/src/replica/selection_policy.rs\<close>): which
  resource a device selected for synchronisation, whether an administrator allows it, and
  whether two peers may synchronise a resource.  Conflicting replicas of a policy converge
  towards the restrictive value.
\<close>

section \<open>Rows\<close>

record SelectionPolicy =
  sp_device_id :: uuid
  sp_owner_subject :: string
  sp_application_id :: "uuid option"
  sp_selected_kind :: "string option"
  sp_selected_id :: "uuid option"
  sp_admin_allowed :: bool

record SelectedResource =
  sel_device_id :: uuid
  sel_owner_subject :: string
  sel_application_id :: uuid
  sel_kind :: string
  sel_resource_id :: uuid

record ResourceSelection =
  rs_id :: uuid
  rs_device_id :: uuid
  rs_owner_subject :: string
  rs_application_id :: uuid
  rs_selected_kind :: string
  rs_selected_id :: uuid
  rs_selected :: bool

abbreviation POLICY_TABLE :: string where
  "POLICY_TABLE \<equiv> ''device_selection_policies''"

abbreviation RESOURCE_TABLE :: string where
  "RESOURCE_TABLE \<equiv> ''device_resource_selections''"

definition policy_columns :: "string list" where
  "policy_columns =
    [''device_id'', ''owner_subject'', ''application_id'', ''selected_kind'', ''selected_id'', ''admin_allowed'']"

definition resource_columns :: "string list" where
  "resource_columns =
    [''id'', ''device_id'', ''owner_subject'', ''application_id'', ''selected_kind'', ''selected_id'', ''selected'']"

definition resource_from_row :: "'w host \<Rightarrow> row \<Rightarrow> string list \<Rightarrow> from_row_error + ResourceSelection" where
  "resource_from_row H r cs =
    and_then (field H decode_uuid r cs ''id'') (\<lambda>id.
    and_then (field H decode_uuid r cs ''device_id'') (\<lambda>device_id.
    and_then (field H decode_text r cs ''owner_subject'') (\<lambda>owner_subject.
    and_then (field H decode_uuid r cs ''application_id'') (\<lambda>application_id.
    and_then (field H decode_text r cs ''selected_kind'') (\<lambda>selected_kind.
    and_then (field H decode_uuid r cs ''selected_id'') (\<lambda>selected_id.
    and_then (field H decode_bool r cs ''selected'') (\<lambda>selected.
    Inr \<lparr>rs_id = id, rs_device_id = device_id, rs_owner_subject = owner_subject,
      rs_application_id = application_id, rs_selected_kind = selected_kind, rs_selected_id = selected_id,
      rs_selected = selected\<rparr>)))))))"

definition policy_from_row :: "'w host \<Rightarrow> row \<Rightarrow> string list \<Rightarrow> from_row_error + SelectionPolicy" where
  "policy_from_row H r cs =
    and_then (field H decode_uuid r cs ''device_id'') (\<lambda>device_id.
    and_then (field H decode_text r cs ''owner_subject'') (\<lambda>owner_subject.
    and_then (field H decode_opt_uuid r cs ''application_id'') (\<lambda>application_id.
    and_then (field H decode_opt_text r cs ''selected_kind'') (\<lambda>selected_kind.
    and_then (field H decode_opt_uuid r cs ''selected_id'') (\<lambda>selected_id.
    and_then (field H decode_bool r cs ''admin_allowed'') (\<lambda>admin_allowed.
    Inr \<lparr>sp_device_id = device_id, sp_owner_subject = owner_subject, sp_application_id = application_id,
      sp_selected_kind = selected_kind, sp_selected_id = selected_id, sp_admin_allowed = admin_allowed\<rparr>))))))"

section \<open>Helpers\<close>

definition invalid :: "string \<Rightarrow> ManagementError" where
  "invalid message = InvalidInput message"

definition selection_db_error :: "engine_error \<Rightarrow> ManagementError" where
  "selection_db_error e = invalid e"

definition selection_key :: "uuid \<Rightarrow> row" where
  "selection_key i = [Uuid i]"

definition uuid_bytes :: "uuid \<Rightarrow> byte list" where
  "uuid_bytes u = map (\<lambda>i. ucast (drop_bit (8 * i) u)) [15, 14, 13, 12, 11, 10, 9, 8, 7, 6, 5, 4, 3, 2, 1, 0]"

text \<open>The bytes that name a selection, and its identifier: the UUID (version 5, URL name space) of
  these bytes.\<close>

definition resource_identity :: "uuid \<Rightarrow> string \<Rightarrow> uuid \<Rightarrow> string \<Rightarrow> uuid \<Rightarrow> byte list" where
  "resource_identity device_id owner_subject application_id kind resource_id =
    uuid_bytes device_id @ to_be_bytes (of_nat (length owner_subject)) @ str_bytes owner_subject
    @ uuid_bytes application_id @ to_be_bytes (of_nat (length kind)) @ str_bytes kind @ uuid_bytes resource_id"

definition resource_selection_id :: "'w host \<Rightarrow> uuid \<Rightarrow> string \<Rightarrow> uuid \<Rightarrow> string \<Rightarrow> uuid \<Rightarrow> uuid" where
  "resource_selection_id H device_id owner_subject application_id kind resource_id =
    new_v5 H (resource_identity device_id owner_subject application_id kind resource_id)"

definition resource_column :: "string \<Rightarrow> query_column" where
  "resource_column name = QueryColumn RESOURCE_TABLE name"

definition resource_equals :: "string \<Rightarrow> Value \<Rightarrow> query_expr" where
  "resource_equals name v = Equals (QValue (ExprColumn (resource_column name))) (QValue (ExprValue v))"

definition assignment_for :: "string \<Rightarrow> string \<Rightarrow> Value \<Rightarrow> assignment" where
  "assignment_for table name v = Assignment (QueryColumn table name) (ExprValue v)"

definition policy_column :: "string \<Rightarrow> query_column" where
  "policy_column name = QueryColumn POLICY_TABLE name"

definition policy_equals :: "string \<Rightarrow> Value \<Rightarrow> query_expr" where
  "policy_equals name v = Equals (QValue (ExprColumn (policy_column name))) (QValue (ExprValue v))"

definition policy_assignment :: "string \<Rightarrow> Value \<Rightarrow> assignment" where
  "policy_assignment name v = Assignment (policy_column name) (ExprValue v)"

section \<open>Reading policies\<close>

definition selection_clear :: "'w host \<Rightarrow> uuid \<Rightarrow> ('w, ManagementError, unit) op" where
  "selection_clear H device_id =
    await (map_err selection_db_error (row_conflicts H POLICY_TABLE (selection_key device_id))) (\<lambda>conflicts.
    if conflicts = [] then ok () else err (invalid ''conflicted selection policy''))"

fun convergent_resolutions :: "(string \<times> Value list) list \<Rightarrow> ManagementError + (string \<times> Value) list" where
  "convergent_resolutions [] = Inr []"
| "convergent_resolutions ((column, candidates) # rest) =
    (if (column = ''application_id'' \<or> column = ''selected_kind'' \<or> column = ''selected_id'')
        \<and> Null \<in> set candidates
     then and_then (convergent_resolutions rest) (\<lambda>rs. Inr ((column, Null) # rs))
     else if column = ''admin_allowed'' \<and> Bool False \<in> set candidates
     then and_then (convergent_resolutions rest) (\<lambda>rs. Inr ((column, Bool False) # rs))
     else Inl (invalid ''conflicted selection policy''))"

definition resolve_convergent_conflicts :: "'w host \<Rightarrow> uuid \<Rightarrow> ('w, ManagementError, unit) op" where
  "resolve_convergent_conflicts H device_id =
    await (map_err selection_db_error (row_conflict_values H POLICY_TABLE (selection_key device_id))) (\<lambda>conflicts.
    await (lift (convergent_resolutions conflicts)) (\<lambda>resolutions.
    if resolutions \<noteq> []
    then await (map_err selection_db_error (resolve_row H POLICY_TABLE (selection_key device_id) resolutions))
      (\<lambda>_. ok ())
    else ok ()))"

definition raw_record :: "'w host \<Rightarrow> uuid \<Rightarrow> ('w, ManagementError, SelectionPolicy option) op" where
  "raw_record H device_id =
    await (map_err selection_db_error (execute H [Query (Select POLICY_TABLE (map policy_column policy_columns)
      (Some (policy_equals ''device_id'' (Uuid device_id))))])) (\<lambda>results.
    await (lift (ok_or (invalid ''missing selection policy query result'') (pop_result results))) (\<lambda>result.
    await (lift (result_map_err (\<lambda>e. invalid (show_from_row_error H e))
      (rows_as H (policy_from_row H) result))) (\<lambda>rows.
    ok (case rows of [] \<Rightarrow> None | r # _ \<Rightarrow> Some r))))"

definition policy_record :: "'w host \<Rightarrow> uuid \<Rightarrow> ('w, ManagementError, SelectionPolicy option) op" where
  "policy_record H device_id =
    await (resolve_convergent_conflicts H device_id) (\<lambda>_.
    await (selection_clear H device_id) (\<lambda>_.
    await (raw_record H device_id) (\<lambda>policy.
    await (selection_clear H device_id) (\<lambda>_.
    ok policy))))"

text \<open>The three optional parts of a selection are all there or all missing.\<close>

definition complete_selection :: "SelectionPolicy \<Rightarrow> bool" where
  "complete_selection p = ((sp_application_id p \<noteq> None) = (sp_selected_kind p \<noteq> None)
    \<and> (sp_selected_kind p \<noteq> None) = (sp_selected_id p \<noteq> None))"

definition policy_get :: "'w host \<Rightarrow> uuid \<Rightarrow> string \<Rightarrow> uuid \<Rightarrow> ('w, ManagementError, SelectionPolicy option) op" where
  "policy_get H device_id owner_subject application_id =
    await (policy_record H device_id) (\<lambda>policy.
    case policy of None \<Rightarrow> ok None
    | Some p \<Rightarrow>
      if sp_owner_subject p \<noteq> owner_subject then err (invalid ''selection policy owner mismatch'')
      else if \<not> complete_selection p then err (invalid ''incomplete selection policy'')
      else ok (Some p))"

section \<open>Resource selections\<close>

definition resource_select :: "query_expr \<Rightarrow> query" where
  "resource_select predicate = Select RESOURCE_TABLE (map resource_column resource_columns) (Some predicate)"

fun deselecting_resolutions :: "(string \<times> Value list) list \<Rightarrow> ManagementError + (string \<times> Value) list" where
  "deselecting_resolutions [] = Inr []"
| "deselecting_resolutions ((column, candidates) # rest) =
    (if column \<noteq> ''selected'' \<or> Bool False \<notin> set candidates
     then Inl (invalid ''conflicted resource selection'')
     else and_then (deselecting_resolutions rest) (\<lambda>rs. Inr ((column, Bool False) # rs)))"

definition resource_selected :: "'w host \<Rightarrow> uuid \<Rightarrow> string \<Rightarrow> uuid \<Rightarrow> string \<Rightarrow> uuid
    \<Rightarrow> ('w, ManagementError, bool) op" where
  "resource_selected H device_id owner_subject application_id kind resource_id =
    (let sid = resource_selection_id H device_id owner_subject application_id kind resource_id in
    await (map_err selection_db_error (row_conflict_values H RESOURCE_TABLE (selection_key sid))) (\<lambda>conflicts.
    await (if conflicts \<noteq> []
      then await (lift (deselecting_resolutions conflicts)) (\<lambda>resolutions.
        map_err selection_db_error (resolve_row H RESOURCE_TABLE (selection_key sid) resolutions))
      else ok ()) (\<lambda>_.
    await (map_err selection_db_error (execute H [Query (resource_select (resource_equals ''id'' (Uuid sid)))]))
      (\<lambda>results.
    await (lift (ok_or (invalid ''missing resource selection query result'') (pop_result results))) (\<lambda>result.
    await (lift (result_map_err (\<lambda>e. invalid (show_from_row_error H e))
      (rows_as H (resource_from_row H) result))) (\<lambda>rows.
    ok (list_ex (\<lambda>s. rs_id s = sid \<and> rs_device_id s = device_id \<and> rs_owner_subject s = owner_subject
      \<and> rs_application_id s = application_id \<and> rs_selected_kind s = kind \<and> rs_selected_id s = resource_id
      \<and> rs_selected s) rows)))))))"

definition resource_selection_exists :: "'w host \<Rightarrow> uuid \<Rightarrow> ('w, ManagementError, bool) op" where
  "resource_selection_exists H sid =
    await (map_err selection_db_error (execute H [Query (resource_select (resource_equals ''id'' (Uuid sid)))]))
      (\<lambda>results.
    await (lift (ok_or (invalid ''missing resource selection query result'') (pop_result results))) (\<lambda>result.
    ok (qr_rows result \<noteq> [])))"

definition set_resource_selected :: "'w host \<Rightarrow> SelectionPolicy \<Rightarrow> ('w, ManagementError, unit) op" where
  "set_resource_selected H policy =
    (case (sp_application_id policy, sp_selected_kind policy, sp_selected_id policy) of
      (Some application_id, Some kind, Some resource_id) \<Rightarrow>
        await (resource_selected H (sp_device_id policy) (sp_owner_subject policy) application_id kind resource_id)
          (\<lambda>selected.
        if selected then ok () else
        let sid = resource_selection_id H (sp_device_id policy) (sp_owner_subject policy) application_id kind
          resource_id in
        await (map_err selection_db_error (row_conflicts H RESOURCE_TABLE (selection_key sid))) (\<lambda>conflicts.
        await (if conflicts \<noteq> [] then ok True else resource_selection_exists H sid) (\<lambda>exists.
        let query = (if exists
          then Update RESOURCE_TABLE [assignment_for RESOURCE_TABLE ''selected'' (Bool True)]
            (Some (resource_equals ''id'' (Uuid sid)))
          else Insert RESOURCE_TABLE [Uuid sid, Uuid (sp_device_id policy), Text (sp_owner_subject policy),
            Uuid application_id, Text kind, Uuid resource_id, Bool True]) in
        await (map_err selection_db_error (execute H [Query query])) (\<lambda>_. ok ()))))
    | _ \<Rightarrow> ok ())"

definition selected_resources_for_device :: "'w host \<Rightarrow> uuid \<Rightarrow> ('w, ManagementError, SelectedResource list) op" where
  "selected_resources_for_device H device_id =
    await (map_err selection_db_error
      (execute H [Query (resource_select (resource_equals ''device_id'' (Uuid device_id)))])) (\<lambda>results.
    await (lift (ok_or (invalid ''missing resource selection query result'') (pop_result results))) (\<lambda>result.
    await (lift (result_map_err (\<lambda>e. invalid (show_from_row_error H e))
      (rows_as H (resource_from_row H) result))) (\<lambda>rows.
    fold_op (\<lambda>selected s.
      if rs_device_id s = device_id \<and> rs_selected s
      then await (resource_selected H device_id (rs_owner_subject s) (rs_application_id s) (rs_selected_kind s)
          (rs_selected_id s)) (\<lambda>is_selected.
        ok (if is_selected then selected @ [\<lparr>sel_device_id = device_id, sel_owner_subject = rs_owner_subject s,
          sel_application_id = rs_application_id s, sel_kind = rs_selected_kind s,
          sel_resource_id = rs_selected_id s\<rparr>] else selected))
      else ok selected) [] rows)))"

section \<open>Admission of peers\<close>

fun peers_selected :: "'w host \<Rightarrow> Device list \<Rightarrow> string \<Rightarrow> uuid \<Rightarrow> string \<Rightarrow> uuid \<Rightarrow> string list
    \<Rightarrow> ('w, ManagementError, bool) op" where
  "peers_selected H records owner_subject application_id kind resource_id [] = ok True"
| "peers_selected H records owner_subject application_id kind resource_id (public_key # keys) =
    (case filter (\<lambda>device. dev_public_key device = public_key) records of [] \<Rightarrow> ok False
    | device # others \<Rightarrow>
      if others \<noteq> [] \<or> dev_state device \<noteq> Approved \<or> dev_owner_subject device \<noteq> owner_subject then ok False else
      await (policy_get H (dev_id device) owner_subject application_id) (\<lambda>policy.
      case policy of None \<Rightarrow> ok False
      | Some p \<Rightarrow>
        if \<not> sp_admin_allowed p then ok False else
        await (resource_selected H (dev_id device) owner_subject application_id kind resource_id) (\<lambda>selected.
        if \<not> selected then ok False
        else peers_selected H records owner_subject application_id kind resource_id keys)))"

definition peers_selected_for_sync :: "'w host \<Rightarrow> string \<Rightarrow> string \<Rightarrow> string \<Rightarrow> uuid \<Rightarrow> string \<Rightarrow> uuid
    \<Rightarrow> ('w, ManagementError, bool) op" where
  "peers_selected_for_sync H local_public_key remote_public_key owner_subject application_id kind resource_id =
    (if local_public_key = remote_public_key \<or> blank owner_subject \<or> \<not> (kind = ''database'' \<or> kind = ''filesystem'')
     then ok False else
    await (device_list H) (\<lambda>records.
    peers_selected H records owner_subject application_id kind resource_id [local_public_key, remote_public_key]))"

section \<open>Changing policies\<close>

definition policy_update :: "uuid \<Rightarrow> assignment list \<Rightarrow> query" where
  "policy_update device_id assignments =
    Update POLICY_TABLE assignments (Some (policy_equals ''device_id'' (Uuid device_id)))"

definition set_prevalidated :: "'w host \<Rightarrow> SelectionPolicy \<Rightarrow> ('w, ManagementError, unit) op" where
  "set_prevalidated H policy =
    (if blank (sp_owner_subject policy) \<or> \<not> complete_selection policy \<or> sp_selected_kind policy = Some []
     then err (invalid ''invalid selection policy'') else
    await (policy_record H (sp_device_id policy)) (\<lambda>old.
    await (case old of None \<Rightarrow> ok ()
      | Some o' \<Rightarrow>
        if sp_owner_subject o' \<noteq> sp_owner_subject policy then err (invalid ''selection policy owner mismatch'')
        else if \<not> complete_selection o' then err (invalid ''incomplete selection policy'')
        else if sp_selected_id policy \<noteq> None \<and> \<not> sp_admin_allowed o'
        then err (invalid ''administrator has restricted selection'')
        else ok ()) (\<lambda>_.
    let unchanged = (case old of None \<Rightarrow> False | Some o' \<Rightarrow> sp_application_id o' = sp_application_id policy
          \<and> sp_selected_kind o' = sp_selected_kind policy \<and> sp_selected_id o' = sp_selected_id policy);
        query = (if unchanged then None
          else if old \<noteq> None then Some (policy_update (sp_device_id policy) [
            policy_assignment ''application_id'' (or_null Uuid (sp_application_id policy)),
            policy_assignment ''selected_kind'' (or_null Text (sp_selected_kind policy)),
            policy_assignment ''selected_id'' (or_null Uuid (sp_selected_id policy))])
          else Some (Insert POLICY_TABLE [Uuid (sp_device_id policy), Text (sp_owner_subject policy),
            or_null Uuid (sp_application_id policy), or_null Text (sp_selected_kind policy),
            or_null Uuid (sp_selected_id policy), Bool (sp_admin_allowed policy)])) in
    await (case query of None \<Rightarrow> ok ()
      | Some q \<Rightarrow> await (map_err selection_db_error (execute H [Query q])) (\<lambda>_. ok ())) (\<lambda>_.
    await (selection_clear H (sp_device_id policy)) (\<lambda>_.
    if sp_selected_id policy = None
    then await (map_err selection_db_error (execute H [Query (Update RESOURCE_TABLE
        [assignment_for RESOURCE_TABLE ''selected'' (Bool False)]
        (Some (resource_equals ''device_id'' (Uuid (sp_device_id policy)))))])) (\<lambda>_. ok ())
    else set_resource_selected H policy)))))"

definition set_admin_allowed_prevalidated :: "'w host \<Rightarrow> uuid \<Rightarrow> string \<Rightarrow> bool \<Rightarrow> ('w, ManagementError, bool) op" where
  "set_admin_allowed_prevalidated H device_id owner_subject admin_allowed =
    (if blank owner_subject then ok False else
    await (policy_record H device_id) (\<lambda>found.
    case found of None \<Rightarrow>
      await (set_prevalidated H \<lparr>sp_device_id = device_id, sp_owner_subject = owner_subject,
        sp_application_id = None, sp_selected_kind = None, sp_selected_id = None,
        sp_admin_allowed = admin_allowed\<rparr>) (\<lambda>_. ok True)
    | Some policy \<Rightarrow>
      if sp_owner_subject policy \<noteq> owner_subject then ok False
      else if sp_admin_allowed policy = admin_allowed then ok True
      else
      await (map_err selection_db_error (execute H [Query (policy_update device_id
        [policy_assignment ''admin_allowed'' (Bool admin_allowed)])])) (\<lambda>_.
      await (selection_clear H device_id) (\<lambda>_. ok True))))"

definition deselect_resource_owned :: "'w host \<Rightarrow> uuid \<Rightarrow> string \<Rightarrow> uuid \<Rightarrow> string \<Rightarrow> uuid
    \<Rightarrow> ('w, ManagementError, bool) op" where
  "deselect_resource_owned H device_id owner_subject application_id kind resource_id =
    await (policy_record H device_id) (\<lambda>found.
    case found of None \<Rightarrow> ok False
    | Some policy \<Rightarrow>
      if owner_subject = [] \<or> sp_owner_subject policy \<noteq> owner_subject then ok False else
      await (resource_selected H device_id owner_subject application_id kind resource_id) (\<lambda>selected.
      if \<not> selected then ok False else
      let sid = resource_selection_id H device_id owner_subject application_id kind resource_id in
      await (map_err selection_db_error (execute H [Query (Update RESOURCE_TABLE
        [assignment_for RESOURCE_TABLE ''selected'' (Bool False)]
        (Some (resource_equals ''id'' (Uuid sid))))])) (\<lambda>_. ok True)))"

definition deselect_owned :: "'w host \<Rightarrow> uuid \<Rightarrow> string \<Rightarrow> ('w, ManagementError, bool) op" where
  "deselect_owned H device_id owner_subject =
    await (map_err selection_db_error (row_conflict_values H POLICY_TABLE (selection_key device_id))) (\<lambda>conflicts.
    if list_ex (\<lambda>(column, _). \<not> (column = ''application_id'' \<or> column = ''selected_kind'' \<or> column = ''selected_id''))
      conflicts
    then err (invalid ''conflicted selection policy ownership or admin restriction'') else
    await (raw_record H device_id) (\<lambda>found.
    case found of None \<Rightarrow> ok False
    | Some policy \<Rightarrow>
      if owner_subject = [] \<or> sp_owner_subject policy \<noteq> owner_subject then ok False else
      await (if conflicts \<noteq> []
        then await (map_err selection_db_error (resolve_row H POLICY_TABLE (selection_key device_id)
            (map (\<lambda>(column, _). (column, Null)) conflicts))) (\<lambda>_. selection_clear H device_id)
        else ok ()) (\<lambda>_.
      await (policy_record H device_id) (\<lambda>again.
      await (lift (ok_or (invalid ''selection policy not found'') again)) (\<lambda>policy.
      if sp_application_id policy = None \<and> sp_selected_kind policy = None \<and> sp_selected_id policy = None
      then ok True else
      await (map_err selection_db_error (execute H [
        Query (Update RESOURCE_TABLE [assignment_for RESOURCE_TABLE ''selected'' (Bool False)]
          (Some (resource_equals ''device_id'' (Uuid device_id)))),
        Query (policy_update device_id (map (\<lambda>column. policy_assignment column Null)
          [''application_id'', ''selected_kind'', ''selected_id'']))])) (\<lambda>_.
      await (selection_clear H device_id) (\<lambda>_. ok True)))))))"

lemmas selection_defs [run_simps] =
  policy_columns_def resource_columns_def resource_from_row_def policy_from_row_def invalid_def
  selection_db_error_def selection_key_def resource_selection_id_def resource_column_def
  resource_equals_def assignment_for_def policy_column_def policy_equals_def policy_assignment_def
  selection_clear_def resolve_convergent_conflicts_def raw_record_def policy_record_def
  complete_selection_def resource_select_def policy_update_def

end
