(* ===== verification/Selection_Policy.thy ===== *)
theory Selection_Policy
  imports Selection
begin

text \<open>
  Selection policies are safe: reading them can only restrict what is selected
  (\<open>restricts\<close>), peers are admitted only when the registry, the administrator and the
  owner's selection all allow it, and an administrator's restriction cannot be overridden
  by a selection.
\<close>

section \<open>Restriction\<close>

text \<open>A policy row becomes more restrictive: parts of the selection are dropped, the administrator's
  permission is withdrawn.  A selection row becomes more restrictive: it is deselected.\<close>

definition policy_restricts :: "stored \<Rightarrow> stored \<Rightarrow> bool" where
  "policy_restricts s s' = (\<forall>c. s' c = s c
    \<or> c \<in> {''application_id'', ''selected_kind'', ''selected_id''} \<and> s' c = Null
    \<or> c = ''admin_allowed'' \<and> s' c = Bool False)"

definition resource_restricts :: "stored \<Rightarrow> stored \<Rightarrow> bool" where
  "resource_restricts s s' = (\<forall>c. s' c = s c \<or> c = ''selected'' \<and> s' c = Bool False)"

definition restricts :: "tables \<Rightarrow> tables \<Rightarrow> bool" where
  "restricts T T' = ((\<forall>t. t \<noteq> POLICY_TABLE \<longrightarrow> t \<noteq> RESOURCE_TABLE \<longrightarrow> T' t = T t)
    \<and> list_all2 policy_restricts (T POLICY_TABLE) (T' POLICY_TABLE)
    \<and> list_all2 resource_restricts (T RESOURCE_TABLE) (T' RESOURCE_TABLE))"

lemma policy_restricts_refl: "policy_restricts s s"
  by (simp add: policy_restricts_def)

lemma resource_restricts_refl: "resource_restricts s s"
  by (simp add: resource_restricts_def)

lemma policy_restricts_trans:
  assumes "policy_restricts a b" "policy_restricts b c"
  shows "policy_restricts a c"
  unfolding policy_restricts_def
proof
  fix x
  show "c x = a x \<or> x \<in> {''application_id'', ''selected_kind'', ''selected_id''} \<and> c x = Null
      \<or> x = ''admin_allowed'' \<and> c x = Bool False"
    using assms [unfolded policy_restricts_def, THEN spec, of x] by (elim disjE conjE) simp_all
qed

lemma resource_restricts_trans:
  assumes "resource_restricts a b" "resource_restricts b c"
  shows "resource_restricts a c"
  unfolding resource_restricts_def
proof
  fix x
  show "c x = a x \<or> x = ''selected'' \<and> c x = Bool False"
    using assms [unfolded resource_restricts_def, THEN spec, of x] by (elim disjE conjE) simp_all
qed

lemma restricts_refl [simp]: "restricts T T"
  by (simp add: restricts_def list_all2_refl policy_restricts_refl resource_restricts_refl)

lemma restricts_trans: "restricts T T' \<Longrightarrow> restricts T' T'' \<Longrightarrow> restricts T T''"
  unfolding restricts_def
  by (auto intro: list_all2_trans [of policy_restricts policy_restricts policy_restricts]
      list_all2_trans [of resource_restricts resource_restricts resource_restricts]
      policy_restricts_trans resource_restricts_trans)

lemma list_all2_set2: "list_all2 P xs ys \<Longrightarrow> y \<in> set ys \<Longrightarrow> \<exists>x \<in> set xs. P x y"
  by (induction rule: list_all2_induct) auto

lemma restricts_policy:
  "restricts T T' \<Longrightarrow> s' \<in> set (T' POLICY_TABLE) \<Longrightarrow> \<exists>s \<in> set (T POLICY_TABLE). policy_restricts s s'"
  unfolding restricts_def by (blast dest: list_all2_set2)

lemma restricts_resource:
  "restricts T T' \<Longrightarrow> s' \<in> set (T' RESOURCE_TABLE) \<Longrightarrow> \<exists>s \<in> set (T RESOURCE_TABLE). resource_restricts s s'"
  unfolding restricts_def by (blast dest: list_all2_set2)

lemma set_columns_cases: "set_columns cvs s c = s c \<or> (c, set_columns cvs s c) \<in> set cvs"
proof (induction cvs arbitrary: s)
  case (Cons cv cvs)
  have step: "set_columns (cv # cvs) s = set_columns cvs (s(fst cv := snd cv))"
    by (simp add: set_columns_def split: prod.split)
  obtain s' where s': "s' = s(fst cv := snd cv)" by simp
  have "s' c = (if c = fst cv then snd cv else s c)" by (simp add: s')
  with Cons.IH [of s'] show ?case unfolding step s' [symmetric] by (cases cv) (auto split: if_splits)
qed (simp add: set_columns_def)

lemma convergent_resolutions_restrict:
  "convergent_resolutions conflicts = Inr rs \<Longrightarrow> (c, v) \<in> set rs \<Longrightarrow>
    c \<in> {''application_id'', ''selected_kind'', ''selected_id''} \<and> v = Null \<or> c = ''admin_allowed'' \<and> v = Bool False"
  by (induction conflicts arbitrary: rs rule: convergent_resolutions.induct) (auto split: if_splits)

lemma deselecting_resolutions_restrict:
  "deselecting_resolutions conflicts = Inr rs \<Longrightarrow> (c, v) \<in> set rs \<Longrightarrow> c = ''selected'' \<and> v = Bool False"
  by (induction conflicts arbitrary: rs rule: deselecting_resolutions.induct) (auto split: if_splits)

lemma restricts_convergent:
  assumes "convergent_resolutions conflicts = Inr rs"
  shows "restricts T (T(POLICY_TABLE := update_rows P (set_columns rs) (T POLICY_TABLE)))"
proof -
  have "policy_restricts s (set_columns rs s)" for s
    unfolding policy_restricts_def
    using set_columns_cases [of rs s] convergent_resolutions_restrict [OF assms] by blast
  then show ?thesis
    by (simp add: restricts_def update_rows_def list.rel_map list_all2_refl policy_restricts_refl
        resource_restricts_refl)
qed

lemma restricts_deselecting:
  assumes "deselecting_resolutions conflicts = Inr rs"
  shows "restricts T (T(RESOURCE_TABLE := update_rows P (set_columns rs) (T RESOURCE_TABLE)))"
proof -
  have "resource_restricts s (set_columns rs s)" for s
    unfolding resource_restricts_def
    using set_columns_cases [of rs s] deselecting_resolutions_restrict [OF assms] by blast
  then show ?thesis
    by (simp add: restricts_def update_rows_def list.rel_map list_all2_refl policy_restricts_refl
        resource_restricts_refl)
qed

section \<open>Reading policies and selections\<close>

definition policy_view :: "'w host \<Rightarrow> stored \<Rightarrow> from_row_error + SelectionPolicy" where
  "policy_view H s = policy_from_row H (map s policy_columns) policy_columns"

definition resource_view :: "'w host \<Rightarrow> stored \<Rightarrow> from_row_error + ResourceSelection" where
  "resource_view H s = resource_from_row H (map s resource_columns) resource_columns"

text \<open>What a policy row must say for a device to take part, and what a selection row must say.\<close>

definition policy_admits :: "'w host \<Rightarrow> uuid \<Rightarrow> string \<Rightarrow> stored \<Rightarrow> bool" where
  "policy_admits H i owner s = (s ''device_id'' = Uuid i
    \<and> decode_text H (s ''owner_subject'') ''owner_subject'' = Inr owner
    \<and> decode_bool H (s ''admin_allowed'') ''admin_allowed'' = Inr True)"

definition selection_row :: "'w host \<Rightarrow> uuid \<Rightarrow> string \<Rightarrow> uuid \<Rightarrow> string \<Rightarrow> uuid \<Rightarrow> stored \<Rightarrow> bool" where
  "selection_row H i owner app kind rid s =
    (resource_view H s = Inr \<lparr>rs_id = resource_selection_id H i owner app kind rid, rs_device_id = i,
      rs_owner_subject = owner, rs_application_id = app, rs_selected_kind = kind, rs_selected_id = rid,
      rs_selected = True\<rparr>)"

text \<open>What both ends of a synchronisation must satisfy: one approved device of the owner with that key, a policy
  that lets it take part, and the resource selected on it.\<close>

definition peer_admitted :: "'w host \<Rightarrow> tables \<Rightarrow> conflicts \<Rightarrow> device_row list \<Rightarrow> string \<Rightarrow> uuid \<Rightarrow> string \<Rightarrow> uuid
    \<Rightarrow> string \<Rightarrow> bool" where
  "peer_admitted H T C rows owner app kind rid key = (\<exists>r. filter (\<lambda>r. dr_public_key r = key) rows = [r]
    \<and> dr_state r = Approved \<and> dr_owner_subject r = owner \<and> C ''devices'' [Uuid (dr_id r)] = []
    \<and> (\<exists>s \<in> set (T POLICY_TABLE). policy_admits H (dr_id r) owner s)
    \<and> (\<exists>s \<in> set (T RESOURCE_TABLE). selection_row H (dr_id r) owner app kind rid s))"

context db_engine
begin

lemma policy_view_unfold:
  "policy_view H s =
    and_then (decode_uuid H (s ''device_id'') ''device_id'') (\<lambda>device_id.
    and_then (decode_text H (s ''owner_subject'') ''owner_subject'') (\<lambda>owner_subject.
    and_then (decode_opt_uuid H (s ''application_id'') ''application_id'') (\<lambda>application_id.
    and_then (decode_opt_text H (s ''selected_kind'') ''selected_kind'') (\<lambda>selected_kind.
    and_then (decode_opt_uuid H (s ''selected_id'') ''selected_id'') (\<lambda>selected_id.
    and_then (decode_bool H (s ''admin_allowed'') ''admin_allowed'') (\<lambda>admin_allowed.
    Inr (SelectionPolicy.make device_id owner_subject application_id selected_kind selected_id admin_allowed)))))))"
proof -
  have "set policy_columns = {''device_id'', ''owner_subject'', ''application_id'', ''selected_kind'',
      ''selected_id'', ''admin_allowed''}"
    by (simp add: policy_columns_def)
  then show ?thesis by (simp add: policy_view_def policy_from_row_def SelectionPolicy.make_def)
qed

lemma resource_view_unfold:
  "resource_view H s =
    and_then (decode_uuid H (s ''id'') ''id'') (\<lambda>id.
    and_then (decode_uuid H (s ''device_id'') ''device_id'') (\<lambda>device_id.
    and_then (decode_text H (s ''owner_subject'') ''owner_subject'') (\<lambda>owner_subject.
    and_then (decode_uuid H (s ''application_id'') ''application_id'') (\<lambda>application_id.
    and_then (decode_text H (s ''selected_kind'') ''selected_kind'') (\<lambda>selected_kind.
    and_then (decode_uuid H (s ''selected_id'') ''selected_id'') (\<lambda>selected_id.
    and_then (decode_bool H (s ''selected'') ''selected'') (\<lambda>selected.
    Inr (ResourceSelection.make id device_id owner_subject application_id selected_kind selected_id selected))))))))"
proof -
  have "set resource_columns = {''id'', ''device_id'', ''owner_subject'', ''application_id'',
      ''selected_kind'', ''selected_id'', ''selected''}"
    by (simp add: resource_columns_def)
  then show ?thesis by (simp add: resource_view_def resource_from_row_def ResourceSelection.make_def)
qed

lemma wp_selection_clear:
  assumes "\<And>w'. same w w' \<Longrightarrow> C w POLICY_TABLE [Uuid i] = [] \<Longrightarrow> Q () w'" and "\<And>e w'. same w w' \<Longrightarrow> X e w'"
  shows "wp (selection_clear H i) Q X w"
  unfolding selection_clear_def selection_key_def wp_simps
  by (rule wp_row_conflicts) (use assms in auto)

lemma wp_resolve_convergent:
  assumes "\<And>w'. restricts (T w) (T w') \<Longrightarrow> Q () w'" and "\<And>e w'. restricts (T w) (T w') \<Longrightarrow> X e w'"
  shows "wp (resolve_convergent_conflicts H i) Q X w"
  unfolding resolve_convergent_conflicts_def wp_simps
proof (rule wp_row_conflict_values, goal_cases)
  case (1 w1)
  then have w1: "T w1 = T w" by (simp add: same_def)
  show ?case
  proof (cases "convergent_resolutions (C w POLICY_TABLE (selection_key i))")
    case (Inl e)
    then show ?thesis by (simp add: assms(2) w1)
  next
    case (Inr rs)
    have "wp (resolve_row H POLICY_TABLE (selection_key i) rs) (\<lambda>a. Q ()) (\<lambda>e. X (selection_db_error e)) w1"
      by (rule wp_resolve_row)
        (use assms w1 restricts_convergent [OF Inr] in \<open>auto simp: same_def\<close>)
    then show ?thesis by (simp add: Inr assms(1) w1)
  qed
qed (simp add: assms(2) same_def)

lemma wp_raw_record:
  assumes "\<And>res w'. same w w' \<Longrightarrow>
      (\<And>p. res = Some p \<Longrightarrow> \<exists>s \<in> set (T w POLICY_TABLE). s ''device_id'' = Uuid i \<and> policy_view H s = Inr p) \<Longrightarrow>
      (res = None \<Longrightarrow> \<forall>s \<in> set (T w POLICY_TABLE). s ''device_id'' \<noteq> Uuid i) \<Longrightarrow> Q res w'"
    and "\<And>e w'. same w w' \<Longrightarrow> X e w'"
  shows "wp (raw_record H i) Q X w"
  unfolding raw_record_def wp_simps
proof (rule wp_select, goal_cases)
  case (2 qr w')
  let ?mine = "filter (selects (Some (policy_equals ''device_id'' (Uuid i)))) (T w POLICY_TABLE)"
  have mine: "selects (Some (policy_equals ''device_id'' (Uuid i))) s \<longleftrightarrow> s ''device_id'' = Uuid i" for s
    by (auto simp: selects_def policy_equals_def policy_column_def)
  have rows: "rows_as H (policy_from_row H) qr = try_collect (policy_view H) ?mine"
    unfolding policy_view_def
    by (rule rows_as_select) (use 2(2,3) in \<open>simp_all add: policy_column_def comp_def\<close>)
  show ?case
  proof (cases "try_collect (policy_view H) ?mine")
    case (Inl e)
    then show ?thesis by (simp add: rows pop_result_def assms(2) 2(1))
  next
    case (Inr ps)
    then have ps: "map (policy_view H) ?mine = map Inr ps" by (simp add: try_collect_Inr)
    have "Q (case ps of [] \<Rightarrow> None | p # _ \<Rightarrow> Some p) w'"
    proof (rule assms(1) [OF 2(1)])
      fix p assume "(case ps of [] \<Rightarrow> None | p # _ \<Rightarrow> Some p) = Some p"
      then obtain ps' where "ps = p # ps'" by (cases ps) auto
      with ps obtain s where "s \<in> set ?mine" "policy_view H s = Inr p" by (cases ?mine) auto
      then show "\<exists>s \<in> set (T w POLICY_TABLE). s ''device_id'' = Uuid i \<and> policy_view H s = Inr p"
        by (auto simp: mine)
    next
      assume "(case ps of [] \<Rightarrow> None | p # _ \<Rightarrow> Some p) = None"
      then have "ps = []" by (cases ps) auto
      with ps show "\<forall>s \<in> set (T w POLICY_TABLE). s ''device_id'' \<noteq> Uuid i" by (simp add: filter_empty_conv mine)
    qed
    then show ?thesis by (simp add: rows Inr pop_result_def)
  qed
qed (simp_all add: policy_column_def assms(2))

lemma wp_policy_record:
  assumes "\<And>res w'. restricts (T w) (T w') \<Longrightarrow> C w' POLICY_TABLE [Uuid i] = [] \<Longrightarrow>
      (\<And>p. res = Some p \<Longrightarrow> \<exists>s \<in> set (T w' POLICY_TABLE). s ''device_id'' = Uuid i \<and> policy_view H s = Inr p) \<Longrightarrow>
      (res = None \<Longrightarrow> \<forall>s \<in> set (T w' POLICY_TABLE). s ''device_id'' \<noteq> Uuid i) \<Longrightarrow> Q res w'"
    and "\<And>e w'. restricts (T w) (T w') \<Longrightarrow> X e w'"
  shows "wp (policy_record H i) Q X w"
  unfolding policy_record_def wp_simps
  apply (rule wp_resolve_convergent)
   apply (rule wp_selection_clear)
    apply (rule wp_raw_record)
     apply (rule wp_selection_clear)
      apply (rule assms(1))
  by (simp_all add: same_def assms(2))

lemma view_admits:
  assumes "policy_view H s = Inr p" "s ''device_id'' = Uuid i" "sp_owner_subject p = owner" "sp_admin_allowed p"
  shows "policy_admits H i owner s"
  using assms by (auto simp: policy_view_unfold policy_admits_def SelectionPolicy.make_def)

text \<open>What holds of a restricted row held of the original.\<close>

lemma admits_restricts:
  assumes "policy_restricts s s'" "policy_admits H i owner s'"
  shows "policy_admits H i owner s"
proof -
  have "s' ''device_id'' = s ''device_id''" "s' ''owner_subject'' = s ''owner_subject''"
    "s' ''admin_allowed'' = s ''admin_allowed'' \<or> s' ''admin_allowed'' = Bool False"
    using assms(1) [unfolded policy_restricts_def, THEN spec, of "''device_id''"]
      assms(1) [unfolded policy_restricts_def, THEN spec, of "''owner_subject''"]
      assms(1) [unfolded policy_restricts_def, THEN spec, of "''admin_allowed''"] by auto
  with assms(2) show ?thesis by (auto simp: policy_admits_def decode_bool_ok)
qed

lemma selected_restricts:
  assumes "resource_restricts s s'" "selection_row H i owner app kind rid s'"
  shows "selection_row H i owner app kind rid s"
proof -
  have same: "s' c = s c" if "c \<noteq> ''selected''" for c
    using assms(1) [unfolded resource_restricts_def, THEN spec, of c] that by simp
  have "s' ''selected'' = s ''selected'' \<or> s' ''selected'' = Bool False"
    using assms(1) [unfolded resource_restricts_def, THEN spec, of "''selected''"] by simp
  with assms(2) same show ?thesis
    by (auto simp: selection_row_def resource_view_unfold ResourceSelection.make_def decode_bool_ok)
qed

lemma wp_policy_get:
  assumes "\<And>res w'. restricts (T w) (T w') \<Longrightarrow>
      (\<And>p. res = Some p \<Longrightarrow> sp_admin_allowed p \<Longrightarrow> \<exists>s \<in> set (T w' POLICY_TABLE). policy_admits H i owner s) \<Longrightarrow> Q res w'"
    and "\<And>e w'. restricts (T w) (T w') \<Longrightarrow> X e w'"
  shows "wp (policy_get H i owner app) Q X w"
  unfolding policy_get_def wp_simps
proof (rule wp_policy_record, goal_cases)
  case (1 res w')
  show ?case
  proof (cases res)
    case None
    show ?thesis unfolding None by (simp add: wp_simps) (rule assms(1) [OF 1(1)], simp)
  next
    case (Some p)
    then obtain s where "s \<in> set (T w' POLICY_TABLE)" "s ''device_id'' = Uuid i" "policy_view H s = Inr p"
      using 1(3) by blast
    then have "\<exists>s \<in> set (T w' POLICY_TABLE). policy_admits H i owner s" if "sp_owner_subject p = owner" "sp_admin_allowed p"
      using view_admits that by blast
    moreover have "Q (Some p) w'" if "sp_owner_subject p = owner"
      by (rule assms(1) [OF 1(1)]) (use calculation that in simp)
    ultimately show ?thesis using Some assms(2) [OF 1(1)] by (simp add: wp_simps)
  qed
qed (rule assms(2))

lemma wp_resource_read:
  assumes "\<And>rs w'. same w w' \<Longrightarrow> map (resource_view H) (filter (selects (Some e)) (T w RESOURCE_TABLE)) = map Inr rs
      \<Longrightarrow> wp (f rs) Q X w'"
    and "\<And>e w'. same w w' \<Longrightarrow> X e w'"
  shows "wp (await (map_err selection_db_error (execute H [Query (resource_select e)])) (\<lambda>results.
    await (lift (ok_or (invalid msg) (pop_result results))) (\<lambda>result.
    await (lift (result_map_err (\<lambda>e. invalid (show_from_row_error H e))
      (rows_as H (resource_from_row H) result))) f))) Q X w"
  unfolding wp_simps resource_select_def
proof (rule wp_select, goal_cases)
  case (2 qr w')
  let ?mine = "filter (selects (Some e)) (T w RESOURCE_TABLE)"
  have rows: "rows_as H (resource_from_row H) qr = try_collect (resource_view H) ?mine"
    unfolding resource_view_def
    by (rule rows_as_select) (use 2(2,3) in \<open>simp_all add: resource_column_def comp_def\<close>)
  show ?case
  proof (cases "try_collect (resource_view H) ?mine")
    case (Inl e)
    then show ?thesis by (simp add: rows pop_result_def assms(2) 2(1))
  next
    case (Inr ps)
    then have "map (resource_view H) ?mine = map Inr ps" by (simp add: try_collect_Inr)
    with assms(1) [OF 2(1)] show ?thesis by (simp add: rows Inr pop_result_def)
  qed
qed (simp_all add: resource_column_def assms(2))

lemma wp_resource_selected:
  assumes "\<And>res w'. restricts (T w) (T w') \<Longrightarrow>
      (res \<Longrightarrow> \<exists>s \<in> set (T w' RESOURCE_TABLE). selection_row H i owner app kind rid s) \<Longrightarrow>
      T w' POLICY_TABLE = T w POLICY_TABLE \<Longrightarrow> Q res w'"
    and "\<And>e w'. restricts (T w) (T w') \<Longrightarrow> T w' POLICY_TABLE = T w POLICY_TABLE \<Longrightarrow> X e w'"
  shows "wp (resource_selected H i owner app kind rid) Q X w"
proof -
  let ?sid = "resource_selection_id H i owner app kind rid"
  have resolved: "wp (if conflicts \<noteq> [] then await (lift (deselecting_resolutions conflicts)) (\<lambda>resolutions.
        map_err selection_db_error (resolve_row H RESOURCE_TABLE (selection_key ?sid) resolutions)) else ok ())
      (\<lambda>_ w'. restricts (T w) (T w') \<and> T w' POLICY_TABLE = T w POLICY_TABLE)
      (\<lambda>_ w'. restricts (T w) (T w') \<and> T w' POLICY_TABLE = T w POLICY_TABLE) w1" if w1: "T w1 = T w" for conflicts w1
  proof (cases "deselecting_resolutions conflicts")
    case (Inl e)
    then show ?thesis by (simp add: wp_simps w1)
  next
    case (Inr vs)
    note r = restricts_deselecting [OF Inr, of "T w"]
    show ?thesis
      unfolding wp_simps Inr sum.case by (auto intro!: wp_resolve_row simp: w1 r same_def)
  qed
  show ?thesis
    unfolding resource_selected_def Let_def wp_await [of "map_err _ (row_conflict_values _ _ _)"] wp_map_err
  proof (rule wp_row_conflict_values, goal_cases)
    case (1 w1)
    then have w1: "T w1 = T w" by (simp add: same_def)
    show ?case
      unfolding wp_await [of "If _ _ _"]
    proof (rule wp_conseq [OF resolved [OF w1]], goal_cases)
      case (1 _ w2)
      show ?case
      proof (rule wp_resource_read, goal_cases)
        case (1 rs w3)
        have w3: "T w3 = T w2" using 1(1) by (simp add: same_def)
        show ?case
          unfolding wp_ok
        proof (rule assms(1), goal_cases)
          case 2
          then obtain r where r: "r \<in> set rs" "rs_id r = ?sid \<and> rs_device_id r = i \<and> rs_owner_subject r = owner
              \<and> rs_application_id r = app \<and> rs_selected_kind r = kind \<and> rs_selected_id r = rid \<and> rs_selected r"
            by (auto simp: list_ex_iff)
          from map_eq_mapD [OF 1(2) [symmetric] r(1)] obtain s where
            "s \<in> set (T w2 RESOURCE_TABLE)" "resource_view H s = Inr r" by auto
          with r(2) show ?case unfolding w3 selection_row_def by (intro bexI [of _ s]) auto
        qed (use \<open>restricts (T w) (T w2) \<and> T w2 POLICY_TABLE = T w POLICY_TABLE\<close> w3 in simp_all)
      qed (use 1 in \<open>simp add: assms(2) same_def\<close>)
    qed (simp add: assms(2))
  qed (simp add: assms(2) same_def)
qed

lemma admitted_before:
  assumes "restricts (T w) (T w')"
  shows "\<exists>s \<in> set (T w' POLICY_TABLE). policy_admits H i owner s \<Longrightarrow>
      \<exists>s \<in> set (T w POLICY_TABLE). policy_admits H i owner s"
    and "\<exists>s \<in> set (T w' RESOURCE_TABLE). selection_row H i owner app kind rid s \<Longrightarrow>
      \<exists>s \<in> set (T w RESOURCE_TABLE). selection_row H i owner app kind rid s"
  using restricts_policy [OF assms] restricts_resource [OF assms] admits_restricts selected_restricts by blast+

lemma wp_device_list:
  assumes "\<And>rows ds w'. same w w' \<Longrightarrow> device_table H (T w) rows \<Longrightarrow>
      \<forall>r \<in> set rows. C w ''devices'' [Uuid (dr_id r)] = [] \<Longrightarrow> map (device_try_from H) rows = map Inr ds \<Longrightarrow> Q ds w'"
    and "\<And>e w'. same w w' \<Longrightarrow> X e w'"
  shows "wp (device_list H) Q X w"
  unfolding device_list_def wp_await
proof (rule wp_device_records, goal_cases)
  case (1 rows w1)
  have "wp (for_each (\<lambda>row. device_ensure_clear H (dr_id row)) rows)
      (\<lambda>_ w'. same w w' \<and> (\<forall>r \<in> set rows. C w ''devices'' [Uuid (dr_id r)] = [])) (\<lambda>_ w'. same w w') w1"
  proof (rule wp_for_each_prefix, goal_cases)
    case (1 ys x zs w2)
    then show ?case by (intro wp_device_ensure_clear) (auto simp: same_def)
  qed (use 1 in simp)
  then show ?case
  proof (rule wp_conseq, goal_cases)
    case (1 _ w2)
    then show ?case using assms \<open>device_table H (T w) rows\<close>
      by (auto simp: wp_simps try_collect_Inr [symmetric] split: sum.split)
  qed (rule assms(2))
qed (rule assms(2))

lemma wp_peers_selected:
  assumes devices: "map (device_try_from H) rows = map Inr ds"
    and clear: "\<forall>r \<in> set rows. C w0 ''devices'' [Uuid (dr_id r)] = []" and "restricts (T w0) (T w)"
  shows "wp (peers_selected H ds owner app kind rid keys)
    (\<lambda>res w'. restricts (T w0) (T w') \<and> (res \<longrightarrow> (\<forall>key \<in> set keys.
      peer_admitted H (T w0) (C w0) rows owner app kind rid key)))
    (\<lambda>_ w'. restricts (T w0) (T w')) w"
  using assms(3)
proof (induction keys arbitrary: w)
  case (Cons key keys)
  have mine: "map (device_try_from H) (filter (\<lambda>r. dr_public_key r = key) rows)
      = map Inr (filter (\<lambda>d. dev_public_key d = key) ds)"
    by (rule map_Inr_filter [OF devices]) (auto dest: device_try_from_Inr)
  show ?case
  proof (cases "filter (\<lambda>d. dev_public_key d = key) ds")
    case Nil
    then show ?thesis using Cons.prems by (simp add: wp_simps)
  next
    case (Cons d others)
    show ?thesis
    proof (cases "others \<noteq> [] \<or> dev_state d \<noteq> Approved \<or> dev_owner_subject d \<noteq> owner")
      case True
      then show ?thesis using Cons Cons.prems by (simp add: wp_simps)
    next
      case False
      from mine Cons False obtain r where r: "filter (\<lambda>r. dr_public_key r = key) rows = [r]" "device_try_from H r = Inr d"
        by (cases "filter (\<lambda>r. dr_public_key r = key) rows") auto
      have "r \<in> set (filter (\<lambda>r. dr_public_key r = key) rows)" unfolding r(1) by simp
      then have "r \<in> set rows" by simp
      with clear False r device_try_from_Inr [OF r(2)]
      have admitted: "peer_admitted H (T w0) (C w0) rows owner app kind rid key"
        if "\<exists>s \<in> set (T w0 POLICY_TABLE). policy_admits H (dev_id d) owner s"
          "\<exists>s \<in> set (T w0 RESOURCE_TABLE). selection_row H (dev_id d) owner app kind rid s"
        using that by (auto simp: peer_admitted_def)
      show ?thesis
        unfolding peers_selected.simps Cons list.case if_not_P [OF False] wp_await
      proof (rule wp_policy_get, goal_cases)
        case (1 res w1)
        have w1: "restricts (T w0) (T w1)" using Cons.prems 1(1) by (rule restricts_trans)
        show ?case
        proof (cases "\<exists>p. res = Some p \<and> sp_admin_allowed p")
          case True
          then obtain p where p: "res = Some p" "sp_admin_allowed p" by blast
          note policy = admitted_before(1) [OF w1 1(2) [OF p]]
          have allowed: "\<not> \<not> sp_admin_allowed p" using p(2) by simp
          show ?thesis
            unfolding p(1) option.case if_not_P [OF allowed] wp_await
          proof (rule wp_resource_selected, goal_cases)
            case (1 sel w2)
            have w2: "restricts (T w0) (T w2)" using w1 1(1) by (rule restricts_trans)
            show ?case
            proof (cases sel)
              case True
              note admitted [OF policy admitted_before(2) [OF w2 1(2) [OF True]]]
              then show ?thesis
                using wp_conseq [OF Cons.IH [OF w2]] True by (auto simp: wp_simps)
            qed (use w2 in \<open>simp add: wp_simps\<close>)
          qed (use w1 restricts_trans in blast)
        qed (use w1 in \<open>auto simp: wp_simps split: option.split\<close>)
      qed (use Cons.prems restricts_trans in blast)
    qed
  qed
qed (simp add: wp_simps)

lemma wp_peers_selected_for_sync:
  "wp (peers_selected_for_sync H local remote owner app kind rid)
    (\<lambda>res w'. restricts (T w) (T w') \<and> (res \<longrightarrow> local \<noteq> remote \<and> \<not> blank owner \<and> kind \<in> {''database'', ''filesystem''}
      \<and> (\<exists>rows. device_table H (T w) rows \<and> (\<forall>key \<in> {local, remote}.
          peer_admitted H (T w) (C w) rows owner app kind rid key))))
    (\<lambda>_ w'. restricts (T w) (T w')) w"
proof (cases "local = remote \<or> blank owner \<or> \<not> (kind = ''database'' \<or> kind = ''filesystem'')")
  case True
  then show ?thesis by (simp add: peers_selected_for_sync_def wp_simps)
next
  case False
  show ?thesis
    unfolding peers_selected_for_sync_def if_not_P [OF False] wp_await
  proof (rule wp_device_list, goal_cases)
    case (1 rows ds w1)
    then have "restricts (T w) (T w1)" by (simp add: same_def)
    from wp_peers_selected [OF 1(4,3) this] show ?case
    proof (rule wp_conseq, goal_cases)
      case 1
      then show ?case using False \<open>device_table H (T w) rows\<close> by auto
    qed
  qed (simp add: same_def)
qed

end

section \<open>Identifiers of selections\<close>

lemma length_uuid_bytes [simp]: "length (uuid_bytes u) = 16"
  by (simp add: uuid_bytes_def)

lemma byte_index: "j < 16 \<Longrightarrow> j \<in> set [15, 14, 13, 12, 11, 10, 9, 8, 7, 6, 5, 4, 3, 2, 1, 0 :: nat]"
  by (auto simp: numeral_eq_Suc less_Suc_eq)

lemma uuid_bytes_inj [simp]: "uuid_bytes u = uuid_bytes v \<longleftrightarrow> u = v"
proof
  assume eq: "uuid_bytes u = uuid_bytes v"
  have "bit u k = bit v k" if "k < 128" for k
  proof -
    have "\<forall>i \<in> set [15, 14, 13, 12, 11, 10, 9, 8, 7, 6, 5, 4, 3, 2, 1, 0 :: nat].
        (ucast (drop_bit (8 * i) u) :: byte) = ucast (drop_bit (8 * i) v)"
      using eq by (simp add: uuid_bytes_def)
    moreover have "k div 8 \<in> set [15, 14, 13, 12, 11, 10, 9, 8, 7, 6, 5, 4, 3, 2, 1, 0 :: nat]"
      by (rule byte_index) (use that in simp)
    ultimately have "(ucast (drop_bit (8 * (k div 8)) u) :: byte) = ucast (drop_bit (8 * (k div 8)) v)"
      by blast
    then have "bit (ucast (drop_bit (8 * (k div 8)) u) :: byte) (k mod 8)
        = bit (ucast (drop_bit (8 * (k div 8)) v) :: byte) (k mod 8)" by simp
    then show ?thesis by (simp add: bit_ucast_iff bit_drop_bit_eq)
  qed
  then show "u = v" by (intro bit_word_eqI) simp
qed simp

lemma sized_field_unique:
  assumes "to_be_bytes (of_nat (length a)) @ str_bytes a @ us = to_be_bytes (of_nat (length b)) @ str_bytes b @ vs"
    and "length a < 2 ^ 64" and "length b < 2 ^ 64"
  shows "a = b \<and> us = vs"
proof -
  have "(of_nat (length a) :: 64 word) = of_nat (length b)"
    using assms(1) by (simp add: append_eq_append_conv)
  then have "unat (of_nat (length a) :: 64 word) = unat (of_nat (length b) :: 64 word)" by simp
  then have "length a = length b" using assms(2,3) by (simp add: unat_of_nat)
  with assms(1) show ?thesis by (simp add: append_eq_append_conv)
qed

section \<open>Examples\<close>

definition stored_policy :: "uuid \<Rightarrow> bool \<Rightarrow> stored" where
  "stored_policy i allowed = stored_row policy_columns [Uuid i, Text ''alice'', Uuid 50, Text ''database'', Uuid 60, Bool allowed]"

definition stored_selection :: "uuid \<Rightarrow> bool \<Rightarrow> stored" where
  "stored_selection i selected = stored_row resource_columns [Uuid 77, Uuid i, Text ''alice'', Uuid 50, Text ''database'',
    Uuid 60, Bool selected]"

definition two_peers :: mem where
  "two_peers = \<lparr>
    mem_tables = (\<lambda>t. if t = ''devices'' then [stored_row device_columns (device_to_row laptop),
        stored_row device_columns (device_to_row (phone\<lparr>dr_state := Approved\<rparr>))]
      else if t = POLICY_TABLE then [stored_policy 1 True, stored_policy 2 True]
      else if t = RESOURCE_TABLE then [stored_selection 1 True, stored_selection 2 True] else []),
    mem_conflicts = (\<lambda>_ _. []), mem_clock = 100, mem_next = 3\<rparr>"

lemmas two_peers_simps = two_peers_def stored_policy_def stored_selection_def stored_row_def laptop_def phone_def
  policy_columns_def resource_columns_def device_columns_def device_to_row_def

lemmas selection_run_simps = peers_selected_for_sync_def policy_get_def policy_record_def resource_selected_def
  device_list_def raw_record_def selection_clear_def resolve_convergent_conflicts_def complete_selection_def
  resource_selection_id_def resource_identity_def

section \<open>Properties\<close>

text \<open>C28: two peers are admitted to synchronise a resource only if they are different, the resource is a database
  or a file system, and each of them is the only device with its key, approved, free of conflicts, owned by the
  subject, not restricted by the administrator, and has the resource selected, all of it in the database as it was
  before the question.  On every outcome the question changes the database only towards restriction: conflicting
  permissions become denials and conflicting selections become deselections.\<close>

theorem peers_selected_for_sync_sound:
  assumes "db_engine H T C schema_columns clock"
    and "peers_selected_for_sync H local remote owner app kind rid w = (res, w')"
  shows "restricts (T w) (T w') \<and> (res = Inr True \<longrightarrow> local \<noteq> remote \<and> \<not> blank owner
    \<and> kind \<in> {''database'', ''filesystem''} \<and> (\<exists>rows. device_table H (T w) rows
      \<and> (\<forall>key \<in> {local, remote}. peer_admitted H (T w) (C w) rows owner app kind rid key)))"
proof (cases res)
  case (Inl e)
  with wp_run_err [OF db_engine.wp_peers_selected_for_sync [OF assms(1)]] assms(2) show ?thesis by simp
next
  case (Inr b)
  with wp_run [OF db_engine.wp_peers_selected_for_sync [OF assms(1)]] assms(2) show ?thesis by auto
qed

lemma peers_selected_for_sync_sound_witness:
  "\<exists>w'. peers_selected_for_sync (mem_host schema_columns) ''k1'' ''k2'' ''alice'' 50 ''database'' 60 two_peers = (Inr True, w')
    \<and> restricts (mem_tables two_peers) (mem_tables w')"
proof -
  have "fst (peers_selected_for_sync (mem_host schema_columns) ''k1'' ''k2'' ''alice'' 50 ''database'' 60 two_peers) = Inr True"
    by (simp add: selection_run_simps run_simps two_peers_simps trim_id white_defs)
  then obtain w' where run: "peers_selected_for_sync (mem_host schema_columns) ''k1'' ''k2'' ''alice'' 50 ''database'' 60 two_peers
      = (Inr True, w')" by (metis prod.collapse)
  from peers_selected_for_sync_sound [OF memdb.db_engine_axioms run] run show ?thesis by blast
qed

text \<open>The bytes that name a selection determine the device, the owner, the application, the kind and the
  resource, so that two selections share an identifier only if the hash collides.\<close>

lemma resource_identity_injective:
  assumes "resource_identity device_id owner app kind rid = resource_identity device_id' owner' app' kind' rid'"
    and "length owner < 2 ^ 64" "length owner' < 2 ^ 64" "length kind < 2 ^ 64" "length kind' < 2 ^ 64"
  shows "device_id = device_id' \<and> owner = owner' \<and> app = app' \<and> kind = kind' \<and> rid = rid'"
proof -
  let ?rest = "\<lambda>app kind rid. uuid_bytes app @ to_be_bytes (of_nat (length kind)) @ str_bytes kind @ uuid_bytes rid"
  have d: "device_id = device_id'" and "to_be_bytes (of_nat (length owner)) @ str_bytes owner @ ?rest app kind rid
      = to_be_bytes (of_nat (length owner')) @ str_bytes owner' @ ?rest app' kind' rid'"
    using assms(1) by (simp_all add: resource_identity_def append_eq_append_conv)
  from sized_field_unique [OF this(2) assms(2,3)] have o: "owner = owner'"
    and rest: "?rest app kind rid = ?rest app' kind' rid'" by simp_all
  then have a: "app = app'" and k: "to_be_bytes (of_nat (length kind)) @ str_bytes kind @ uuid_bytes rid
      = to_be_bytes (of_nat (length kind')) @ str_bytes kind' @ uuid_bytes rid'"
    by (simp_all add: append_eq_append_conv)
  from sized_field_unique [OF k assms(4,5)] d o a show ?thesis by simp
qed

end
