(* ===== verification/Selection_Updates.thy ===== *)
theory Selection_Updates
  imports Selection_Policy
begin

text \<open>
  Updates of selection policies and selections: a selection never widens what the
  administrator of the device has restricted, a denial takes effect, and a deselection
  reaches every selected resource of the device, except where the columns of the selection
  were in conflict.
\<close>

section \<open>What an update keeps\<close>

definition policy_kept :: "stored \<Rightarrow> stored \<Rightarrow> bool" where
  "policy_kept s s' = (s' ''device_id'' = s ''device_id'' \<and> s' ''owner_subject'' = s ''owner_subject''
    \<and> (s' ''admin_allowed'' = s ''admin_allowed'' \<or> s' ''admin_allowed'' = Bool False))"

definition has_policy :: "uuid \<Rightarrow> stored list \<Rightarrow> bool" where
  "has_policy i ss = (\<exists>s \<in> set ss. s ''device_id'' = Uuid i)"

text \<open>Every policy is kept, and at most the first policy of the device is added.\<close>

definition policy_written :: "SelectionPolicy \<Rightarrow> stored list \<Rightarrow> stored list \<Rightarrow> bool" where
  "policy_written p ss ss' = (list_all2 policy_kept ss ss'
    \<or> \<not> has_policy (sp_device_id p) ss \<and> (\<exists>s xs ys. list_all2 policy_kept ss (xs @ ys) \<and> ss' = xs @ s # ys
      \<and> s ''device_id'' = Uuid (sp_device_id p) \<and> s ''owner_subject'' = Text (sp_owner_subject p)
      \<and> s ''admin_allowed'' = Bool (sp_admin_allowed p)))"

definition deselected :: "uuid \<Rightarrow> stored list \<Rightarrow> bool" where
  "deselected i ss = (\<forall>s \<in> set ss. s ''device_id'' = Uuid i \<longrightarrow> s ''selected'' = Bool False)"

lemma policy_kept_refl: "policy_kept s s"
  by (simp add: policy_kept_def)

lemma policy_kept_trans: "policy_kept s s' \<Longrightarrow> policy_kept s' s'' \<Longrightarrow> policy_kept s s''"
  by (auto simp: policy_kept_def)

lemma policy_restricts_kept:
  assumes "policy_restricts s s'"
  shows "policy_kept s s'"
  using assms [unfolded policy_restricts_def, THEN spec, of "''device_id''"]
    assms [unfolded policy_restricts_def, THEN spec, of "''owner_subject''"]
    assms [unfolded policy_restricts_def, THEN spec, of "''admin_allowed''"] by (auto simp: policy_kept_def)

lemma restricts_kept: "restricts T T' \<Longrightarrow> list_all2 policy_kept (T POLICY_TABLE) (T' POLICY_TABLE)"
  by (auto simp: restricts_def intro: list_all2_mono policy_restricts_kept)

lemma kept_trans: "list_all2 policy_kept ss ss' \<Longrightarrow> list_all2 policy_kept ss' ss'' \<Longrightarrow> list_all2 policy_kept ss ss''"
  by (rule list_all2_trans [OF policy_kept_trans])

lemma kept_has_policy: "list_all2 policy_kept ss ss' \<Longrightarrow> has_policy i ss' = has_policy i ss"
  unfolding has_policy_def by (induction rule: list_all2_induct) (auto simp: policy_kept_def)

lemma kept_update:
  "(\<And>s. policy_kept s (f s)) \<Longrightarrow> list_all2 policy_kept ss (update_rows P f ss)"
  by (simp add: update_rows_def list.rel_map list_all2_refl policy_kept_refl)

lemma kept_unselect: "policy_kept s (assign [policy_assignment ''application_id'' a,
    policy_assignment ''selected_kind'' b, policy_assignment ''selected_id'' c] s)"
  by (simp add: policy_kept_def assign_def assign1_def policy_assignment_def policy_column_def)

lemma written_kept: "list_all2 policy_kept ss ss' \<Longrightarrow> policy_written p ss ss'"
  by (simp add: policy_written_def)

lemma deselected_update:
  "deselected i (update_rows (selects (Some (resource_equals ''device_id'' (Uuid i))))
    (assign [assignment_for RESOURCE_TABLE ''selected'' (Bool False)]) ss)"
  by (auto simp: deselected_def update_rows_def selects_def resource_equals_def resource_column_def assign_def
      assign1_def assignment_for_def)

lemma kept_keys: "list_all2 policy_kept ss ss' \<Longrightarrow> map (\<lambda>s. s ''device_id'') ss' = map (\<lambda>s. s ''device_id'') ss"
  by (induction rule: list_all2_induct) (auto simp: policy_kept_def)

lemma deselected_unrelated: "deselected i ss \<Longrightarrow> s \<in> set ss \<Longrightarrow> s ''device_id'' = Uuid i \<Longrightarrow> s ''selected'' = Bool False"
  by (simp add: deselected_def)

context db_engine
begin

lemma kept_admits: "policy_kept s s' \<Longrightarrow> policy_admits H i owner s' \<Longrightarrow> policy_admits H i owner s"
  by (auto simp: policy_kept_def policy_admits_def decode_bool_ok)

lemma all_kept_admits:
  assumes "list_all2 policy_kept ss ss'" "\<exists>s \<in> set ss'. policy_admits H i owner s"
  shows "\<exists>s \<in> set ss. policy_admits H i owner s"
proof -
  from assms(2) obtain s' where s': "s' \<in> set ss'" "policy_admits H i owner s'" by blast
  from list_all2_set2 [OF assms(1) s'(1)] show ?thesis using kept_admits s'(2) by blast
qed

lemma written_admits:
  assumes "policy_written p ss ss'" "has_policy (sp_device_id p) ss" "\<exists>s \<in> set ss'. policy_admits H i owner s"
  shows "\<exists>s \<in> set ss. policy_admits H i owner s"
  using assms all_kept_admits unfolding policy_written_def by blast

lemma wp_set_resource_selected:
  assumes "\<And>w'. T w' POLICY_TABLE = T w POLICY_TABLE \<Longrightarrow> Q () w'"
    and "\<And>e w'. T w' POLICY_TABLE = T w POLICY_TABLE \<Longrightarrow> X e w'"
  shows "wp (set_resource_selected H p) Q X w"
proof (cases "\<exists>app kind rid. sp_application_id p = Some app \<and> sp_selected_kind p = Some kind \<and> sp_selected_id p = Some rid")
  case False
  then show ?thesis
    by (auto simp: set_resource_selected_def wp_simps assms(1) split: option.split)
next
  case True
  then obtain app kind rid where p: "sp_application_id p = Some app" "sp_selected_kind p = Some kind"
    "sp_selected_id p = Some rid" by blast
  let ?sid = "resource_selection_id H (sp_device_id p) (sp_owner_subject p) app kind rid"
  have stores: "wp (execute H [Query q]) (\<lambda>_. Q ()) (\<lambda>e. X (selection_db_error e)) w1"
    if "T w1 POLICY_TABLE = T w POLICY_TABLE" and "q = (if b then Update RESOURCE_TABLE asg e
      else Insert RESOURCE_TABLE (v # vs))" for w1 q b asg e v vs
  proof (cases b)
    case True
    with that show ?thesis by (simp, intro wp_modify) (simp_all add: assms same_def)
  next
    case False
    with that show ?thesis by (simp, intro wp_insert) (simp_all add: assms same_def)
  qed
  show ?thesis
    unfolding set_resource_selected_def p prod.case option.case wp_await [of "resource_selected H _ _ _ _ _"]
  proof (rule wp_resource_selected, goal_cases)
    case (1 selected w1)
    show ?case
    proof (cases selected)
      case True
      then show ?thesis using 1(3) by (simp add: wp_simps assms(1))
    next
      case False
      then show ?thesis unfolding Let_def if_not_P [OF False] wp_await wp_map_err
      proof (intro wp_row_conflicts, goal_cases)
        case (1 w2)
        have w2: "T w2 POLICY_TABLE = T w POLICY_TABLE" using 1 \<open>T w1 POLICY_TABLE = _\<close> by (simp add: same_def)
        show ?case
        proof (cases "map fst (C w1 RESOURCE_TABLE (selection_key ?sid)) \<noteq> []")
          case True
          show ?thesis unfolding if_P [OF True] wp_ok by (rule stores [OF w2 refl])
        next
          case False
          show ?thesis
            unfolding if_not_P [OF False] resource_selection_exists_def resource_select_def wp_await wp_map_err
          proof (rule wp_select, goal_cases)
            case (2 qr w3)
            have w3: "T w3 POLICY_TABLE = T w POLICY_TABLE" using 2 w2 by (simp add: same_def)
            show ?case
              unfolding wp_ok by (simp add: pop_result_def wp_lift wp_ok)
                (simp add: stores [OF w3, where b = True, OF refl, simplified] stores [OF w3, where b = False, OF refl, simplified])
          qed (simp_all add: resource_column_def same_def w2 assms(2))
        qed
      qed (simp add: same_def 1(3) assms(2))
    qed
  qed (rule assms(2))
qed

lemma wp_finish_selection:
  assumes "\<And>w'. T w' POLICY_TABLE = T w POLICY_TABLE \<Longrightarrow>
      (sp_selected_id p = None \<Longrightarrow> deselected (sp_device_id p) (T w' RESOURCE_TABLE)) \<Longrightarrow> Q () w'"
    and "\<And>e w'. T w' POLICY_TABLE = T w POLICY_TABLE \<Longrightarrow> X e w'"
  shows "wp (await (selection_clear H (sp_device_id p)) (\<lambda>_.
    if sp_selected_id p = None
    then await (map_err selection_db_error (execute H [Query (Update RESOURCE_TABLE
        [assignment_for RESOURCE_TABLE ''selected'' (Bool False)]
        (Some (resource_equals ''device_id'' (Uuid (sp_device_id p)))))])) (\<lambda>_. ok ())
    else set_resource_selected H p)) Q X w"
  unfolding wp_await [of "selection_clear H _"]
proof (rule wp_selection_clear, goal_cases)
  case (1 w1)
  then have w1: "T w1 = T w" by (simp add: same_def)
  show ?case
  proof (cases "sp_selected_id p = None")
    case True
    show ?thesis
      unfolding if_P [OF True] wp_await wp_map_err wp_ok
      by (rule wp_modify) (simp_all add: assms w1 same_def deselected_update)
  next
    case False
    show ?thesis
      unfolding if_not_P [OF False] by (rule wp_set_resource_selected) (use assms w1 False in simp_all)
  qed
qed (simp add: assms(2) same_def)

lemma written_policy_record:
  assumes "restricts (T w) (T w1)" "T w2 POLICY_TABLE = T w1 POLICY_TABLE"
  shows "policy_written p (T w POLICY_TABLE) (T w2 POLICY_TABLE)"
  using assms by (simp add: written_kept restricts_kept)

lemma wp_update_selection:
  assumes "restricts (T w) (T w1)"
    and "\<And>w2. policy_written p (T w POLICY_TABLE) (T w2 POLICY_TABLE) \<Longrightarrow> Q () w2"
    and "\<And>e w2. policy_written p (T w POLICY_TABLE) (T w2 POLICY_TABLE) \<Longrightarrow> X e w2"
  shows "wp (await (map_err selection_db_error (execute H [Query (policy_update (sp_device_id p) [
            policy_assignment ''application_id'' a, policy_assignment ''selected_kind'' b,
            policy_assignment ''selected_id'' c])])) (\<lambda>_. ok ())) Q X w1"
  unfolding wp_await wp_map_err wp_ok policy_update_def
proof (rule wp_modify, goal_cases)
  case (2 rs w2)
  then have "T w2 POLICY_TABLE = update_rows (selects (Some (policy_equals ''device_id'' (Uuid (sp_device_id p)))))
      (assign [policy_assignment ''application_id'' a, policy_assignment ''selected_kind'' b,
        policy_assignment ''selected_id'' c]) (T w1 POLICY_TABLE)" by simp
  with kept_trans [OF restricts_kept [OF assms(1)] kept_update [OF kept_unselect]]
  show ?case by (intro assms(2) written_kept) simp
next
  case (3 e w2)
  then show ?case by (intro assms(3) written_policy_record [OF assms(1)]) (simp add: same_def)
qed simp

lemma wp_insert_policy:
  assumes "restricts (T w) (T w1)" "\<not> has_policy (sp_device_id p) (T w1 POLICY_TABLE)" "cols POLICY_TABLE = policy_columns"
    and "\<And>w2. policy_written p (T w POLICY_TABLE) (T w2 POLICY_TABLE) \<Longrightarrow> Q () w2"
    and "\<And>e w2. policy_written p (T w POLICY_TABLE) (T w2 POLICY_TABLE) \<Longrightarrow> X e w2"
  shows "wp (await (map_err selection_db_error (execute H [Query (Insert POLICY_TABLE
      [Uuid (sp_device_id p), Text (sp_owner_subject p), a, b, c, Bool (sp_admin_allowed p)])])) (\<lambda>_. ok ())) Q X w1"
  unfolding wp_await wp_map_err wp_ok
proof (rule wp_insert, goal_cases)
  case (1 rs s xs ys w2)
  note kept = restricts_kept [OF assms(1)]
  have "\<not> has_policy (sp_device_id p) (T w POLICY_TABLE)" using kept_has_policy [OF kept] assms(2) by simp
  moreover have "s ''device_id'' = Uuid (sp_device_id p) \<and> s ''owner_subject'' = Text (sp_owner_subject p)
      \<and> s ''admin_allowed'' = Bool (sp_admin_allowed p)"
    using 1(1) by (simp add: assms(3) stored_as_def policy_columns_def)
  moreover have "list_all2 policy_kept (T w POLICY_TABLE) (xs @ ys)" using kept 1(2) by simp
  moreover have "T w2 POLICY_TABLE = xs @ s # ys" using 1(3) by simp
  ultimately have "policy_written p (T w POLICY_TABLE) (T w2 POLICY_TABLE)"
    unfolding policy_written_def by blast
  then show ?case by (rule assms(4))
next
  case (2 e w2)
  then show ?case by (intro assms(5) written_policy_record [OF assms(1)]) (simp add: same_def)
qed

lemma wp_set_prevalidated:
  assumes schema: "cols POLICY_TABLE = policy_columns"
    and "\<And>w'. policy_written p (T w POLICY_TABLE) (T w' POLICY_TABLE) \<Longrightarrow>
      (has_policy (sp_device_id p) (T w POLICY_TABLE) \<Longrightarrow> sp_selected_id p \<noteq> None \<Longrightarrow>
        \<exists>s \<in> set (T w POLICY_TABLE). policy_admits H (sp_device_id p) (sp_owner_subject p) s) \<Longrightarrow>
      (sp_selected_id p = None \<Longrightarrow> deselected (sp_device_id p) (T w' RESOURCE_TABLE)) \<Longrightarrow> Q () w'"
    and err: "\<And>e w'. policy_written p (T w POLICY_TABLE) (T w' POLICY_TABLE) \<Longrightarrow> X e w'"
  shows "wp (set_prevalidated H p) Q X w"
proof (cases "blank (sp_owner_subject p) \<or> \<not> complete_selection p \<or> sp_selected_kind p = Some []")
  case True
  then show ?thesis
    by (simp add: set_prevalidated_def wp_simps err written_kept list_all2_refl policy_kept_refl)
next
  case False
  show ?thesis
    unfolding set_prevalidated_def if_not_P [OF False] wp_await [of "policy_record H _"]
  proof (rule wp_policy_record, goal_cases)
    case (1 old w1)
    note w1 = written_policy_record [OF 1(1)]
    show ?case
    proof (cases old)
      case None
      then have fresh: "\<not> has_policy (sp_device_id p) (T w1 POLICY_TABLE)" using 1(4) by (auto simp: has_policy_def)
      then have none: "\<not> has_policy (sp_device_id p) (T w POLICY_TABLE)"
        using kept_has_policy [OF restricts_kept [OF 1(1)]] by simp
      show ?thesis
        unfolding None option.case Let_def if_False wp_await [of "ok _"] wp_ok simp_thms if_False option.simps
          wp_await [of "await (map_err _ _) _"]
      proof (rule wp_insert_policy [OF 1(1) fresh schema], goal_cases)
        case (1 w2)
        show ?case by (rule wp_finish_selection) (use 1 none in \<open>auto intro: assms(2) err\<close>)
      qed (rule err)
    next
      case (Some q)
      show ?thesis
      proof (cases "sp_owner_subject q \<noteq> sp_owner_subject p \<or> \<not> complete_selection q
          \<or> sp_selected_id p \<noteq> None \<and> \<not> sp_admin_allowed q")
        case True
        then show ?thesis using Some by (auto simp: wp_simps intro!: err w1)
      next
        case ok: False
        obtain s where s: "s \<in> set (T w1 POLICY_TABLE)" "s ''device_id'' = Uuid (sp_device_id p)" "policy_view H s = Inr q"
          using 1(3) Some by blast
        have admits: "\<exists>s \<in> set (T w POLICY_TABLE). policy_admits H (sp_device_id p) (sp_owner_subject p) s"
          if "sp_selected_id p \<noteq> None"
          by (rule admitted_before(1) [OF 1(1)]) (use view_admits [OF s(3,2)] s(1) ok that in blast)
        have finish: "wp (await (selection_clear H (sp_device_id p)) (\<lambda>_.
            if sp_selected_id p = None
            then await (map_err selection_db_error (execute H [Query (Update RESOURCE_TABLE
                [assignment_for RESOURCE_TABLE ''selected'' (Bool False)]
                (Some (resource_equals ''device_id'' (Uuid (sp_device_id p)))))])) (\<lambda>_. ok ())
            else set_resource_selected H p)) Q X w2"
          if "policy_written p (T w POLICY_TABLE) (T w2 POLICY_TABLE)" for w2
          by (rule wp_finish_selection) (use that admits in \<open>auto intro: assms(2) err\<close>)
        let ?same = "sp_application_id q = sp_application_id p \<and> sp_selected_kind q = sp_selected_kind p
            \<and> sp_selected_id q = sp_selected_id p"
        have guard: "wp (case old of None \<Rightarrow> ok () | Some o' \<Rightarrow>
            if sp_owner_subject o' \<noteq> sp_owner_subject p then err (invalid ''selection policy owner mismatch'')
            else if \<not> complete_selection o' then err (invalid ''incomplete selection policy'')
            else if sp_selected_id p \<noteq> None \<and> \<not> sp_admin_allowed o'
            then err (invalid ''administrator has restricted selection'') else ok ()) Q' X w1 = Q' () w1" for Q'
          using Some ok by (auto simp: wp_simps)
        have present: "Some q \<noteq> None" by simp
        show ?thesis
        proof (cases ?same)
          case True
          show ?thesis
            unfolding wp_await [of "case_option _ _ _"] guard
            unfolding Let_def Some option.case if_P [OF True] wp_await [of "ok _"] wp_ok
            by (rule finish, rule w1) (rule refl)
        next
          case False
          show ?thesis
            unfolding wp_await [of "case_option _ _ _"] guard
            unfolding Let_def Some option.case if_not_P [OF False] if_P [OF present] wp_await [of "await (map_err _ _) _"]
            by (rule wp_update_selection [OF 1(1)]) (simp_all only: finish err)
        qed
      qed
    qed
  qed (use written_policy_record in \<open>auto intro: err\<close>)
qed

lemma admits_has_policy: "\<exists>s \<in> set ss. policy_admits H i owner s \<Longrightarrow> has_policy i ss"
  by (auto simp: policy_admits_def has_policy_def)

lemma written_denies:
  assumes "policy_written p ss ss'" "\<not> has_policy (sp_device_id p) ss" "\<not> sp_admin_allowed p"
  shows "\<not> (\<exists>s \<in> set ss'. policy_admits H (sp_device_id p) owner s)"
proof
  assume admits: "\<exists>s \<in> set ss'. policy_admits H (sp_device_id p) owner s"
  show False
  proof (cases "list_all2 policy_kept ss ss'")
    case True
    from admits_has_policy [OF admits] kept_has_policy [OF True] assms(2) show False by simp
  next
    case False
    with assms(1) obtain s xs ys where new: "list_all2 policy_kept ss (xs @ ys)" "ss' = xs @ s # ys"
      "s ''admin_allowed'' = Bool (sp_admin_allowed p)" unfolding policy_written_def by blast
    have "\<not> policy_admits H (sp_device_id p) owner s" using new(3) assms(3) by (simp add: policy_admits_def decode_bool_ok)
    moreover have "\<not> has_policy (sp_device_id p) (xs @ ys)" using kept_has_policy [OF new(1)] assms(2) by simp
    ultimately show False using admits new(2) by (auto simp: policy_admits_def has_policy_def)
  qed
qed

lemma view_denies:
  assumes "policy_view H s = Inr p" "\<not> sp_admin_allowed p"
  shows "\<not> policy_admits H i owner s"
  using assms by (auto simp: policy_view_unfold policy_admits_def SelectionPolicy.make_def)

lemma update_denies:
  "\<not> (\<exists>s \<in> set (update_rows (selects (Some (policy_equals ''device_id'' (Uuid i))))
    (assign [policy_assignment ''admin_allowed'' (Bool False)]) ss). policy_admits H i owner s)"
  by (auto simp: update_rows_def selects_def policy_equals_def policy_column_def assign_def assign1_def
      policy_assignment_def policy_admits_def decode_bool_ok)

lemma wp_deny:
  assumes schema: "cols POLICY_TABLE = policy_columns" and keys: "distinct (map (\<lambda>s. s ''device_id'') (T w POLICY_TABLE))"
  shows "wp (set_admin_allowed_prevalidated H i owner False)
    (\<lambda>res w'. res \<longrightarrow> (\<forall>subject. \<not> (\<exists>s \<in> set (T w' POLICY_TABLE). policy_admits H i subject s))) (\<lambda>_ _. True) w"
proof (cases "blank owner")
  case True
  then show ?thesis by (simp add: set_admin_allowed_prevalidated_def wp_simps)
next
  case False
  show ?thesis
    unfolding set_admin_allowed_prevalidated_def if_not_P [OF False] wp_await [of "policy_record H _"]
  proof (rule wp_policy_record, goal_cases)
    case (1 found w1)
    show ?case
    proof (cases found)
      case None
      then have fresh: "\<not> has_policy i (T w1 POLICY_TABLE)" using 1(4) by (auto simp: has_policy_def)
      show ?thesis
        unfolding None option.case wp_await
        by (rule wp_set_prevalidated [OF schema]) (use fresh written_denies in \<open>force simp: wp_simps\<close>)+
    next
      case (Some p)
      obtain s where s: "s \<in> set (T w1 POLICY_TABLE)" "s ''device_id'' = Uuid i" "policy_view H s = Inr p"
        using 1(3) Some by blast
      show ?thesis
      proof (cases "sp_owner_subject p = owner \<and> sp_admin_allowed p")
        case True
        then show ?thesis
          unfolding Some option.case policy_update_def
        proof (simp add: wp_simps, intro wp_modify, goal_cases)
          case (2 rs w2)
          show ?case
            unfolding wp_await by (rule wp_selection_clear)
              (use 2 update_denies [of i "T w1 POLICY_TABLE"] in \<open>simp_all add: same_def wp_ok\<close>)
        qed simp_all
      next
        case False
        have "distinct (map (\<lambda>s. s ''device_id'') (T w1 POLICY_TABLE))"
          using keys kept_keys [OF restricts_kept [OF 1(1)]] by simp
        then have "s' = s" if "s' \<in> set (T w1 POLICY_TABLE)" "policy_admits H i subject s'" for s' subject
          using that s(1,2) by (auto simp: policy_admits_def distinct_map inj_on_def)
        then have "\<not> (\<exists>s \<in> set (T w1 POLICY_TABLE). policy_admits H i subject s)" if "\<not> sp_admin_allowed p" for subject
          using view_denies [OF s(3)] that by blast
        then show ?thesis using False Some by (auto simp: wp_simps)
      qed
    qed
  qed simp
qed

lemma wp_policy_record_clear:
  assumes clear: "C w POLICY_TABLE (selection_key i) = []"
    and "\<And>res w'. same w w' \<Longrightarrow>
      (\<And>p. res = Some p \<Longrightarrow> \<exists>s \<in> set (T w POLICY_TABLE). s ''device_id'' = Uuid i \<and> policy_view H s = Inr p) \<Longrightarrow> Q res w'"
    and "\<And>e w'. X e w'"
  shows "wp (policy_record H i) Q X w"
  unfolding policy_record_def resolve_convergent_conflicts_def wp_simps
proof (rule wp_row_conflict_values, goal_cases)
  case (1 w1)
  have "wp (selection_clear H i) (\<lambda>_. wp (raw_record H i) (\<lambda>res. wp (selection_clear H i) (\<lambda>_. Q res) X) X) X w1"
    apply (rule wp_selection_clear)
     apply (rule wp_raw_record)
      apply (rule wp_selection_clear)
       apply (rule assms(2))
    using 1 by (simp_all add: same_def assms(3))
  then show ?case by (simp add: clear)
qed (rule assms(3))

lemma wp_deselect:
  assumes clear: "C w POLICY_TABLE (selection_key i) = []"
    and chosen: "\<forall>s \<in> set (T w POLICY_TABLE). s ''device_id'' = Uuid i \<longrightarrow> (\<exists>r. s ''selected_id'' = Uuid r)"
  shows "wp (deselect_owned H i owner) (\<lambda>res w'. res \<longrightarrow> deselected i (T w' RESOURCE_TABLE)) (\<lambda>_ _. True) w"
  unfolding deselect_owned_def wp_await [of "map_err _ (row_conflict_values _ _ _)"] wp_map_err
proof (rule wp_row_conflict_values, goal_cases)
  case (1 w1)
  then have w1: "T w1 = T w" "C w1 = C w" by (simp_all add: same_def)
  have nil: "\<not> list_ex P []" for P :: "string \<times> Value list \<Rightarrow> bool" by simp
  show ?case
    unfolding clear if_not_P [OF nil] wp_await [of "raw_record H _"]
  proof (rule wp_raw_record, goal_cases)
    case (1 found w2)
    then have w2: "T w2 = T w" "C w2 = C w" using w1 by (simp_all add: same_def)
    show ?case
    proof (cases "\<exists>p. found = Some p \<and> owner \<noteq> [] \<and> sp_owner_subject p = owner")
      case False
      then show ?thesis by (auto simp: wp_simps split: option.split)
    next
      case True
      then obtain p where p: "found = Some p" "\<not> (owner = [] \<or> sp_owner_subject p \<noteq> owner)" by blast
      show ?thesis
        unfolding p(1) option.case if_not_P [OF p(2)] simp_thms if_False wp_await [of "ok _"] wp_ok
          wp_await [of "policy_record H _"]
      proof (rule wp_policy_record_clear, goal_cases)
        case (2 again w3)
        show ?case
        proof (cases again)
          case None
          then show ?thesis by (simp add: wp_simps)
        next
          case (Some q)
          with 2(2) w2 obtain s where "s \<in> set (T w POLICY_TABLE)" "s ''device_id'' = Uuid i" and view: "policy_view H s = Inr q"
            by auto
          with chosen obtain r where "s ''selected_id'' = Uuid r" by blast
          with view have "sp_selected_id q \<noteq> None"
            by (auto simp: policy_view_unfold SelectionPolicy.make_def decode_opt_uuid_ok)
          then have q: "\<not> (sp_application_id q = None \<and> sp_selected_kind q = None \<and> sp_selected_id q = None)" by simp
          show ?thesis
            unfolding Some ok_or_simps wp_await wp_lift sum.case if_not_P [OF q] wp_map_err policy_update_def
            apply (rule wp_modify)
              apply simp
             apply (rule wp_selection_clear)
              apply (simp_all add: same_def wp_simps deselected_update)
            done
        qed
      qed (use clear w2 in simp_all)
    qed
  qed simp
qed simp

end

section \<open>Properties\<close>

lemma schema_policy: "schema_columns POLICY_TABLE = policy_columns"
  by (simp add: schema_columns_def policy_columns_def)

definition chosen_policy :: "uuid \<Rightarrow> SelectionPolicy" where
  "chosen_policy i = \<lparr>sp_device_id = i, sp_owner_subject = ''alice'', sp_application_id = Some 50,
    sp_selected_kind = Some ''database'', sp_selected_id = Some 60, sp_admin_allowed = True\<rparr>"

definition denied_peer :: mem where
  "denied_peer = two_peers\<lparr>mem_tables := (mem_tables two_peers)(POLICY_TABLE := [stored_policy 1 True, stored_policy 2 False])\<rparr>"

lemmas update_run_simps = selection_run_simps set_prevalidated_def set_admin_allowed_prevalidated_def
  set_resource_selected_def deselect_owned_def policy_update_def resource_selection_exists_def



text \<open>C30: when an administrator's denial returns true, no policy of the device admits any subject, so that the device
  is not admitted to synchronise.\<close>

theorem set_admin_denial_effective:
  assumes "db_engine H T C schema_columns clock" and "distinct (map (\<lambda>s. s ''device_id'') (T w POLICY_TABLE))"
    and "set_admin_allowed_prevalidated H i owner False w = (Inr True, w')"
  shows "\<not> (\<exists>s \<in> set (T w' POLICY_TABLE). policy_admits H i subject s)"
proof -
  have "wp (set_admin_allowed_prevalidated H i owner False)
      (\<lambda>res w'. res \<longrightarrow> (\<forall>subject. \<not> (\<exists>s \<in> set (T w' POLICY_TABLE). policy_admits H i subject s))) (\<lambda>_ _. True) w"
    by (rule db_engine.wp_deny [OF assms(1), OF schema_policy assms(2)])
  from wp_run [OF this assms(3)] show ?thesis by blast
qed

lemma set_admin_denial_effective_witness:
  "\<exists>w'. set_admin_allowed_prevalidated (mem_host schema_columns) 2 ''alice'' False two_peers = (Inr True, w')
    \<and> \<not> (\<exists>s \<in> set (mem_tables w' POLICY_TABLE). policy_admits (mem_host schema_columns) 2 ''alice'' s)"
proof -
  have "fst (set_admin_allowed_prevalidated (mem_host schema_columns) 2 ''alice'' False two_peers) = Inr True"
    by (simp add: update_run_simps run_simps two_peers_simps trim_id white_defs)
  then obtain w' where run: "set_admin_allowed_prevalidated (mem_host schema_columns) 2 ''alice'' False two_peers = (Inr True, w')"
    by (metis prod.collapse)
  have "distinct (map (\<lambda>s. s ''device_id'') (mem_tables two_peers POLICY_TABLE))" by (simp add: two_peers_simps)
  from set_admin_denial_effective [OF memdb.db_engine_axioms this run] run show ?thesis by blast
qed

text \<open>C37: when the owner's deselection returns true on a device whose policy has no conflict and a selected resource,
  every resource of the device is deselected.\<close>

theorem deselect_owned_deselects:
  assumes "db_engine H T C schema_columns clock" and "C w POLICY_TABLE [Uuid i] = []"
    and "\<forall>s \<in> set (T w POLICY_TABLE). s ''device_id'' = Uuid i \<longrightarrow> (\<exists>r. s ''selected_id'' = Uuid r)"
    and "deselect_owned H i owner w = (Inr True, w')"
  shows "deselected i (T w' RESOURCE_TABLE)"
proof -
  from assms(2) have clear: "C w POLICY_TABLE (selection_key i) = []" by (simp add: selection_key_def)
  have "wp (deselect_owned H i owner) (\<lambda>res w'. res \<longrightarrow> deselected i (T w' RESOURCE_TABLE)) (\<lambda>_ _. True) w"
    by (rule db_engine.wp_deselect [OF assms(1), OF clear assms(3)])
  from wp_run [OF this assms(4)] show ?thesis by simp
qed

lemma deselect_owned_deselects_witness:
  "\<exists>w'. deselect_owned (mem_host schema_columns) 2 ''alice'' two_peers = (Inr True, w')
    \<and> deselected 2 (mem_tables w' RESOURCE_TABLE)"
proof -
  have "fst (deselect_owned (mem_host schema_columns) 2 ''alice'' two_peers) = Inr True"
    by (simp add: update_run_simps run_simps two_peers_simps trim_id white_defs)
  then obtain w' where run: "deselect_owned (mem_host schema_columns) 2 ''alice'' two_peers = (Inr True, w')"
    by (metis prod.collapse)
  have "mem_conflicts two_peers POLICY_TABLE [Uuid 2] = []" by (simp add: two_peers_def)
  moreover have "\<forall>s \<in> set (mem_tables two_peers POLICY_TABLE). s ''device_id'' = Uuid 2 \<longrightarrow> (\<exists>r. s ''selected_id'' = Uuid r)"
    by (simp add: two_peers_simps)
  ultimately show ?thesis using deselect_owned_deselects [OF memdb.db_engine_axioms _ _ run] run by blast
qed

text \<open>A policy of the phone whose whole selection is in conflict.\<close>

definition conflicted_selection :: mem where
  "conflicted_selection = two_peers\<lparr>mem_conflicts := (\<lambda>t k. if t = POLICY_TABLE \<and> k = [Uuid 2]
    then [(''application_id'', [Uuid 50, Uuid 51]), (''selected_kind'', [Text ''database'', Text ''filesystem'']),
      (''selected_id'', [Uuid 60, Uuid 61])] else [])\<rparr>"


end
