(* ===== verification/Oauth2_Contract.thy ===== *)
theory Oauth2_Contract
  imports Contract
begin

text \<open>
  The data of the identity provider: the enumerations, requests, responses and stored
  entities of \<open>crates/idp-model\<close> and \<open>crates/model\<close> that the OAuth2 service uses, and the
  errors of its repositories (\<open>crates/idp-service/src/repo/error.rs\<close>,
  \<open>crates/key/src/error.rs\<close>).  A field has the name of the source with a prefix that names
  its structure.
\<close>

section \<open>Errors\<close>

datatype KeyError = Bip32 string | RandomError string | Bip39 string | InvalidDerivation string | KeyOther string

fun KeyError_to_string :: "KeyError \<Rightarrow> string" where
  "KeyError_to_string (Bip32 e) = ''bip32: '' @ e"
| "KeyError_to_string (RandomError e) = ''getrandom: '' @ e"
| "KeyError_to_string (Bip39 e) = ''bip39: '' @ e"
| "KeyError_to_string (InvalidDerivation e) = ''invalid derivation path: '' @ e"
| "KeyError_to_string (KeyOther e) = e"

datatype RepoError = RepoDeserializeError string | RepoKey KeyError | RepoInvalidInput string
  | NoAccessToKey string | RepoOther string

fun RepoError_to_string :: "RepoError \<Rightarrow> string" where
  "RepoError_to_string (RepoDeserializeError e) = ''deserialize error: '' @ e"
| "RepoError_to_string (RepoKey e) = ''key error: '' @ KeyError_to_string e"
| "RepoError_to_string (RepoInvalidInput e) = ''invalid input: '' @ e"
| "RepoError_to_string (NoAccessToKey p) = ''no access to key: '' @ p"
| "RepoError_to_string (RepoOther e) = e"

definition ErrorResponse_from_repo :: "RepoError \<Rightarrow> ErrorResponse" where
  "ErrorResponse_from_repo e = with_description (RepoError_to_string e) (ErrorResponse_new ServerError)"

definition ErrorResponse_from_key :: "KeyError \<Rightarrow> ErrorResponse" where
  "ErrorResponse_from_key e = with_description (KeyError_to_string e) (ErrorResponse_new ServerError)"

definition described :: "ErrorCode \<Rightarrow> string \<Rightarrow> ErrorResponse" where
  "described code d = with_description d (ErrorResponse_new code)"

lemmas [run_simps] = ErrorResponse_from_repo_def ErrorResponse_from_key_def described_def

section \<open>Enumerations\<close>

datatype ClientType = Confidential | Public
datatype ClientProfile = Web | UserAgentBased | Native
datatype EntityType = EntityUser | EntityClient
datatype PrincipalType = PrincipalUser | PrincipalClient
datatype TokenType = Bearer | DPoP
datatype TokenUse = UseId | UseAccess | UseRefresh
datatype GrantType = GrantPassword | GrantAuthorizationCode | GrantClientCredentials | GrantRefreshToken
  | GrantTokenExchange
datatype ResponseType = Code
datatype ResponseMode = ModeQuery | FormPost
datatype CodeChallengeMethod = S256
datatype TokenEndpointAuthMethod = ClientSecretBasic | ClientSecretPost | PrivateKeyJwt | ClientSecretJwt | AuthNone
datatype SubjectTokenType = Jwt | SubjectAccessToken | SubjectRefreshToken | SubjectIdToken | SAML1 | SAML2
datatype KeyUse = Signature | Encryption
datatype JwsAlgorithm = RS256 | RS384 | RS512 | ES256 | ES384 | ES512 | PS256 | PS384 | PS512 | EdDSA
datatype Sex = Male | Female

fun EntityType_to_string :: "EntityType \<Rightarrow> string" where
  "EntityType_to_string EntityUser = ''user''"
| "EntityType_to_string EntityClient = ''client''"

fun Sex_to_string :: "Sex \<Rightarrow> string" where
  "Sex_to_string Male = ''male''"
| "Sex_to_string Female = ''female''"

datatype StorageAuthorizationAction = Read | Write

record StorageAuthorizationDetail =
  detail_actions :: "StorageAuthorizationAction list"

datatype AuthorizationDetail = Storage StorageAuthorizationDetail

section \<open>Stored entities\<close>

record Application =
  app_id :: uuid
  app_name :: string
  app_uri :: string
  app_description :: "string option"
  app_created_at :: datetime
  app_updated_at :: datetime

record Client =
  cl_id :: uuid
  cl_application_id :: uuid
  cl_client_id :: string
  cl_client_secret :: string
  cl_client_id_issued_at :: "datetime option"
  cl_client_secret_expires_at :: "datetime option"
  cl_client_name :: string
  cl_client_uri :: string
  cl_redirect_uris :: "string list"
  cl_client_type :: ClientType
  cl_profile :: ClientProfile
  cl_token_endpoint_auth_method :: TokenEndpointAuthMethod
  cl_allowed_grant_types :: "GrantType list"
  cl_response_types :: "ResponseType list"
  cl_allowed_scopes :: "string list"
  cl_allowed_audiences :: "string list"
  cl_logo_uri :: "string option"
  cl_contacts :: "string list"
  cl_terms_of_service_uri :: "string option"
  cl_policy_uri :: "string option"
  cl_software_statement :: "string option"
  cl_software_id :: "string option"
  cl_software_version :: "string option"
  cl_created_at :: datetime
  cl_updated_at :: datetime

record Key =
  ky_id :: uuid
  ky_parent_id :: "uuid option"
  ky_entity_type :: EntityType
  ky_entity_id :: uuid
  ky_derivation_path :: string
  ky_derivation_index :: "32 word"
  ky_name :: string
  ky_hardened :: bool
  ky_revoked_at :: "datetime option"
  ky_expires_at :: "datetime option"
  ky_created_at :: datetime
  ky_updated_at :: datetime

record User =
  usr_id :: uuid
  usr_name :: string
  usr_given_name :: "string option"
  usr_family_name :: "string option"
  usr_middle_name :: "string option"
  usr_nickname :: "string option"
  usr_profile :: "string option"
  usr_picture :: "string option"
  usr_website :: "string option"
  usr_sex :: "Sex option"
  usr_birthdate :: "datetime option"
  usr_zoneinfo :: "string option"
  usr_locale :: "string option"
  usr_created_at :: datetime
  usr_updated_at :: datetime

record UserEmail =
  em_id :: uuid
  em_user_id :: uuid
  em_email :: string
  em_verified :: bool
  em_primary :: bool
  em_created_at :: datetime
  em_updated_at :: datetime

record UserPhoneNumber =
  ph_id :: uuid
  ph_user_id :: uuid
  ph_phone_number :: string
  ph_verified :: bool
  ph_primary :: bool
  ph_created_at :: datetime
  ph_updated_at :: datetime

record UserPassword =
  pw_id :: uuid
  pw_user_id :: uuid
  pw_active :: bool
  pw_password_hash :: string
  pw_created_at :: datetime
  pw_updated_at :: datetime

record OAuth2AuthorizationCode =
  ac_id :: uuid
  ac_code :: string
  ac_client_id :: string
  ac_key_id :: uuid
  ac_redirect_uri :: string
  ac_scopes :: "string list"
  ac_resource :: "string option"
  ac_code_challenge :: "string option"
  ac_code_challenge_method :: "CodeChallengeMethod option"
  ac_nonce :: "string option"
  ac_expires_at :: datetime
  ac_consumed_at :: "datetime option"
  ac_created_at :: datetime
  ac_updated_at :: datetime

record OAuth2UserConsent =
  co_id :: uuid
  co_user_id :: uuid
  co_client_id :: string
  co_redirect_uri :: string
  co_scope :: string
  co_created_at :: datetime
  co_updated_at :: datetime

section \<open>Requests and responses\<close>

record ApplicationRegistration =
  reg_name :: "string option"
  reg_uri :: string
  reg_description :: "string option"

record ClientRegistration =
  cr_application :: ApplicationRegistration
  cr_client_id :: "string option"
  cr_client_secret :: "string option"
  cr_client_id_issued_at :: "int option"
  cr_client_secret_expires_at :: "int option"
  cr_client_name :: string
  cr_client_uri :: "string option"
  cr_logo_uri :: "string option"
  cr_contacts :: "string list"
  cr_terms_of_service_uri :: "string option"
  cr_policy_uri :: "string option"
  cr_client_type :: ClientType
  cr_profile :: ClientProfile
  cr_redirect_uris :: "string list"
  cr_allowed_grant_types :: "GrantType list"
  cr_response_types :: "ResponseType list"
  cr_allowed_scopes :: "string list"
  cr_allowed_audiences :: "string list"
  cr_token_endpoint_auth_method :: TokenEndpointAuthMethod
  cr_software_statement :: "string option"
  cr_software_id :: "string option"
  cr_software_version :: "string option"

definition ClientRegistration_from :: "Client \<Rightarrow> ClientRegistration" where
  "ClientRegistration_from c = \<lparr>
    cr_application = \<lparr>reg_name = Some (cl_client_name c), reg_uri = cl_client_uri c, reg_description = None\<rparr>,
    cr_client_id = Some (cl_client_id c), cr_client_secret = Some (cl_client_secret c),
    cr_client_id_issued_at = map_option timestamp (cl_client_id_issued_at c),
    cr_client_secret_expires_at = map_option timestamp (cl_client_secret_expires_at c),
    cr_client_name = cl_client_name c, cr_client_uri = Some (cl_client_uri c), cr_logo_uri = cl_logo_uri c,
    cr_contacts = cl_contacts c, cr_terms_of_service_uri = cl_terms_of_service_uri c,
    cr_policy_uri = cl_policy_uri c, cr_client_type = cl_client_type c, cr_profile = cl_profile c,
    cr_redirect_uris = cl_redirect_uris c, cr_allowed_grant_types = cl_allowed_grant_types c,
    cr_response_types = cl_response_types c, cr_allowed_scopes = cl_allowed_scopes c,
    cr_allowed_audiences = cl_allowed_audiences c,
    cr_token_endpoint_auth_method = cl_token_endpoint_auth_method c,
    cr_software_statement = cl_software_statement c, cr_software_id = cl_software_id c,
    cr_software_version = cl_software_version c\<rparr>"

record AuthorizationRequest =
  ar_response_type :: ResponseType
  ar_client_id :: string
  ar_redirect_uri :: "string option"
  ar_scope :: "string option"
  ar_state :: "string option"
  ar_resource :: "string option"
  ar_code_challenge :: "string option"
  ar_code_challenge_method :: "CodeChallengeMethod option"
  ar_nonce :: "string option"
  ar_prompt :: "string option"
  ar_response_mode :: "ResponseMode option"
  ar_login_hint :: "string option"
  ar_id_token_hint :: "string option"
  ar_ui_locales :: "string option"

datatype AuthorizationCodeResponse =
    Success (success_code: string) (success_state: "string option") (success_issuer: "string option")
  | CodeError ErrorResponse string

record ApproveForUserRequest =
  ap_client_id :: string
  ap_redirect_uri :: string
  ap_scope :: string

record IsAllowedForUserRequest =
  ia_client_id :: string
  ia_redirect_uri :: string
  ia_scope :: string

record IsAllowedForUserResponse =
  is_allowed :: bool

record OAuth2ClientAuth =
  auth_client_id :: string
  auth_client_secret :: "string option"
  auth_method :: TokenEndpointAuthMethod

record PasswordGrantRequest =
  pg_client_id :: string
  pg_username :: string
  pg_password :: string
  pg_scope :: "string option"
  pg_resource :: "string option"

record AuthorizationCodeGrantRequest =
  cg_client_id :: "string option"
  cg_code :: string
  cg_code_verifier :: string
  cg_redirect_uri :: "string option"

record ClientCredentialsGrantRequest =
  cc_client_id :: string
  cc_client_secret :: string
  cc_scope :: "string option"
  cc_audience :: "string option"
  cc_resource :: "string option"

record RefreshTokenGrantRequest =
  rg_refresh_token :: string
  rg_scope :: "string option"

record TokenExchangeGrantRequest =
  te_subject_token :: string
  te_subject_token_type :: SubjectTokenType
  te_actor_token :: "string option"
  te_actor_token_type :: "string option"
  te_resource :: "string option"
  te_audience :: "string option"
  te_authorization_details :: "AuthorizationDetail list option"
  te_scope :: "string option"
  te_requested_token_type :: "string option"

datatype TokenRequest = Password PasswordGrantRequest | AuthorizationCode AuthorizationCodeGrantRequest
  | ClientCredentials ClientCredentialsGrantRequest | RefreshToken RefreshTokenGrantRequest
  | TokenExchange TokenExchangeGrantRequest

record TokenResponse =
  tr_id_token :: "string option"
  tr_access_token :: string
  tr_token_type :: TokenType
  tr_expires_in :: "64 word option"
  tr_refresh_token :: "string option"
  tr_refresh_token_expires_in :: "64 word option"
  tr_scope :: "string option"
  tr_issuer :: "string option"

record RevocationRequest =
  rv_token :: string
  rv_token_type_hint :: "string option"

record DeviceAuthorizationRequest =
  da_client_id :: "string option"
  da_scope :: "string option"

record DeviceAuthorization =
  dz_code :: "string option"
  dz_expires_in :: "int option"
  dz_interval :: "int option"
  dz_user_code :: "string option"
  dz_verification_uri :: "string option"
  dz_verification_uri_complete :: "string option"

record StandardClaims =
  claim_type :: TokenType
  claim_use :: TokenUse
  claim_exp :: int
  claim_iat :: int
  claim_nbf :: int
  claim_iss :: string
  claim_aud :: string
  claim_client_id :: string
  claim_sub :: string
  claim_principal_type :: PrincipalType
  claim_resource :: "string option"
  claim_authorization_details :: "AuthorizationDetail list option"
  claim_scope :: "string list"

record UserInfo =
  ui_sub :: string
  ui_permissions :: "string list"
  ui_name :: "string option"
  ui_given_name :: "string option"
  ui_family_name :: "string option"
  ui_middle_name :: "string option"
  ui_nickname :: "string option"
  ui_preferred_username :: "string option"
  ui_profile :: "string option"
  ui_picture :: "string option"
  ui_website :: "string option"
  ui_email :: "string option"
  ui_email_verified :: "bool option"
  ui_phone_number :: "string option"
  ui_phone_number_verified :: "bool option"
  ui_gender :: "string option"
  ui_birthdate :: "string option"
  ui_zoneinfo :: "string option"
  ui_locale :: "string option"
  ui_updated_at :: datetime

record IdTokenClaims =
  id_standard_claims :: StandardClaims
  id_user_info :: "UserInfo option"

text \<open>\<open>UpdateUserInfoRequest\<close> of the OAuth2 service.\<close>

record UpdateUserInfoRequest =
  up_name :: "string option"
  up_given_name :: "string option"
  up_family_name :: "string option"
  up_middle_name :: "string option"
  up_nickname :: "string option"
  up_profile :: "string option"
  up_picture :: "string option"
  up_website :: "string option"
  up_sex :: "string option"
  up_birthdate :: "string option"
  up_zoneinfo :: "string option"
  up_locale :: "string option"
  up_email :: "string option"
  up_email_verified :: "bool option"
  up_phone_number :: "string option"
  up_phone_number_verified :: "bool option"

section \<open>JSON web keys\<close>

datatype JwkPrivateParameters =
    PrivateRsa string string string string string
  | PrivateEc (ec_crv: string) (ec_x: string) (ec_y: string) (ec_d: string)
  | PrivateOpk string string string
  | PrivateOct string

datatype JwkPublicParameters =
    PublicRsa string string
  | PublicEc (pub_crv: string) (pub_x: string) (pub_y: string)
  | PublicOpk string string

record JwkPrivate =
  jp_use :: KeyUse
  jp_kid :: string
  jp_alg :: JwsAlgorithm
  jp_params :: JwkPrivateParameters

record JwkPublic =
  jk_use :: KeyUse
  jk_kid :: string
  jk_alg :: JwsAlgorithm
  jk_params :: JwkPublicParameters

text \<open>The conversion of an octet key panics (\<open>unreachable!\<close>): \<open>None\<close>.\<close>

fun JwkPublicParameters_from :: "JwkPrivateParameters \<Rightarrow> JwkPublicParameters option" where
  "JwkPublicParameters_from (PrivateRsa n e d p q) = Some (PublicRsa n e)"
| "JwkPublicParameters_from (PrivateEc crv x y d) = Some (PublicEc crv x y)"
| "JwkPublicParameters_from (PrivateOpk crv x d) = Some (PublicOpk crv x)"
| "JwkPublicParameters_from (PrivateOct k) = None"

definition JwkPublic_from :: "JwkPrivate \<Rightarrow> JwkPublic option" where
  "JwkPublic_from j = map_option (\<lambda>params. \<lparr>jk_use = Encryption, jk_kid = jp_kid j, jk_alg = jp_alg j,
    jk_params = params\<rparr>) (JwkPublicParameters_from (jp_params j))"

end
