(* ===== verification/Jwt.thy ===== *)
theory Jwt
  imports Oauth2_Contract
begin

text \<open>
  JSON web tokens: \<open>crates/idp-service/src/oauth2/jwt.rs\<close>.  The base64 codecs, the JSON codec,
  the hash and the elliptic-curve signatures are external crates: the record \<open>crypto\<close> holds the
  functions the code calls.
  Keys and signatures are represented by the bytes they are made from; an error of these
  crates is its text.
\<close>

section \<open>External codecs and signatures\<close>

record JwtHeader =
  hdr_alg :: string
  hdr_typ :: string
  hdr_kid :: string
  hdr_jwk :: "JwkPublic option"

record crypto =
  b64url_encode :: "byte list \<Rightarrow> string"
  b64url_decode :: "string \<Rightarrow> string + byte list"
  b64_encode :: "byte list \<Rightarrow> string"
  b64_decode :: "string \<Rightarrow> string + byte list"
  sha256 :: "byte list \<Rightarrow> byte list"
  header_to_json :: "JwtHeader \<Rightarrow> string + byte list"
  header_from_json :: "byte list \<Rightarrow> string + JwtHeader"
  claims_to_json :: "StandardClaims \<Rightarrow> string + byte list"
  claims_from_json :: "byte list \<Rightarrow> string + StandardClaims"
  id_claims_to_json :: "IdTokenClaims \<Rightarrow> string + byte list"
  signing_key_from_slice :: "byte list \<Rightarrow> string + byte list"
  sign_bytes :: "byte list \<Rightarrow> byte list \<Rightarrow> byte list"
  signature_from_slice :: "byte list \<Rightarrow> string + byte list"
  verifying_key_from_sec1 :: "byte list \<Rightarrow> string + byte list"
  verify_bytes :: "byte list \<Rightarrow> byte list \<Rightarrow> byte list \<Rightarrow> string + unit"

section \<open>Keys\<close>

definition signing_key_from_jwk :: "crypto \<Rightarrow> JwkPrivate \<Rightarrow> ErrorResponse + byte list" where
  "signing_key_from_jwk E jwk =
    (case jp_params jwk of
      PrivateEc crv x y d \<Rightarrow>
        and_then (result_map_err (\<lambda>e. described InvalidClient (''invalid client private key encoding: '' @ e))
          (b64_decode E d)) (\<lambda>private_key_bytes.
        result_map_err (\<lambda>e. described InvalidClient (''invalid client private key: '' @ e))
          (signing_key_from_slice E private_key_bytes))
    | _ \<Rightarrow> Inl (described InvalidClient ''client signing key must be an EC key''))"

definition verifing_key_from_jwt :: "crypto \<Rightarrow> JwkPublic \<Rightarrow> ErrorResponse + byte list" where
  "verifing_key_from_jwt E jwk =
    (case jk_params jwk of
      PublicEc crv x y \<Rightarrow>
        and_then (result_map_err (\<lambda>e. described InvalidClient (''invalid client public key encoding: '' @ e))
          (b64_decode E x)) (\<lambda>x_bytes.
        and_then (result_map_err (\<lambda>e. described InvalidClient (''invalid client public key encoding: '' @ e))
          (b64_decode E y)) (\<lambda>y_bytes.
        result_map_err (\<lambda>e. described InvalidClient (''invalid client public key: '' @ e))
          (verifying_key_from_sec1 E ([4] @ x_bytes @ y_bytes))))
    | _ \<Rightarrow> Inl (described InvalidClient ''client verifying key must be an EC key''))"

section \<open>Encoding and decoding\<close>

definition JWT_HEADER_ALG :: string where
  "JWT_HEADER_ALG = ''ES256K''"

definition JWT_HEADER_TYP :: string where
  "JWT_HEADER_TYP = ''JWT''"

abbreviation split_dots :: "string \<Rightarrow> string list" where
  "split_dots \<equiv> split_on CHR ''.''"

definition encode_jwt :: "crypto \<Rightarrow> ('a \<Rightarrow> string + byte list) \<Rightarrow> JwkPrivate \<Rightarrow> 'a \<Rightarrow> ErrorResponse + string" where
  "encode_jwt E to_json jwk claims =
    (let header = \<lparr>hdr_alg = JWT_HEADER_ALG, hdr_typ = JWT_HEADER_TYP, hdr_kid = jp_kid jwk, hdr_jwk = None\<rparr> in
    and_then (result_map_err (described ServerError) (header_to_json E header)) (\<lambda>header_bytes.
    and_then (result_map_err (described ServerError) (to_json claims)) (\<lambda>claims_bytes.
    let signing_input = b64url_encode E header_bytes @ ''.'' @ b64url_encode E claims_bytes in
    and_then (signing_key_from_jwk E jwk) (\<lambda>signing_key.
    let signature = sign_bytes E signing_key (str_bytes signing_input) in
    Inr (signing_input @ ''.'' @ b64url_encode E signature)))))"

definition invalid_format :: ErrorResponse where
  "invalid_format = described InvalidRequest ''invalid JWT format''"

definition decode_part :: "crypto \<Rightarrow> string \<Rightarrow> string \<Rightarrow> ErrorResponse + byte list" where
  "decode_part E what part = result_map_err (\<lambda>e. described InvalidRequest
    (''invalid JWT '' @ what @ '' encoding: '' @ e)) (b64url_decode E part)"

definition parse_part :: "('b \<Rightarrow> string + 'a) \<Rightarrow> string \<Rightarrow> 'b \<Rightarrow> ErrorResponse + 'a" where
  "parse_part from_json what bytes = result_map_err (\<lambda>e. described InvalidRequest
    (''invalid JWT '' @ what @ '': '' @ e)) (from_json bytes)"

definition decode_jwt :: "crypto \<Rightarrow> (byte list \<Rightarrow> string + 'a) \<Rightarrow> string \<Rightarrow> ErrorResponse + JwtHeader \<times> 'a" where
  "decode_jwt E from_json token =
    (case split_dots token of
      header_encoded # claims_encoded # _ \<Rightarrow>
        and_then (decode_part E ''header'' header_encoded) (\<lambda>header_bytes.
        and_then (decode_part E ''claims'' claims_encoded) (\<lambda>claims_bytes.
        and_then (parse_part (header_from_json E) ''header'' header_bytes) (\<lambda>header.
        and_then (parse_part from_json ''claims'' claims_bytes) (\<lambda>claims.
        Inr (header, claims)))))
    | _ \<Rightarrow> Inl invalid_format)"

definition verify_jwt :: "crypto \<Rightarrow> (byte list \<Rightarrow> string + 'a) \<Rightarrow> JwkPublic \<Rightarrow> string
    \<Rightarrow> ErrorResponse + JwtHeader \<times> 'a" where
  "verify_jwt E from_json jwk token =
    (case split_dots token of
      header_encoded # claims_encoded # signature_encoded # _ \<Rightarrow>
        and_then (decode_part E ''header'' header_encoded) (\<lambda>header_bytes.
        and_then (decode_part E ''claims'' claims_encoded) (\<lambda>claims_bytes.
        and_then (decode_part E ''signature'' signature_encoded) (\<lambda>signature_bytes.
        and_then (parse_part (header_from_json E) ''header'' header_bytes) (\<lambda>header.
        and_then (parse_part from_json ''claims'' claims_bytes) (\<lambda>claims.
        and_then (parse_part (signature_from_slice E) ''signature'' signature_bytes) (\<lambda>signature.
        and_then (verifing_key_from_jwt E jwk) (\<lambda>verifying_key.
        and_then (parse_part (verify_bytes E verifying_key (str_bytes (header_encoded @ ''.'' @ claims_encoded)))
          ''signature'' signature) (\<lambda>_.
        Inr (header, claims)))))))))
    | _ \<Rightarrow> Inl invalid_format)"

lemmas [run_simps] = signing_key_from_jwk_def verifing_key_from_jwt_def JWT_HEADER_ALG_def JWT_HEADER_TYP_def
  encode_jwt_def decode_part_def parse_part_def decode_jwt_def verify_jwt_def invalid_format_def

end
