(* ===== verification/Keys.thy ===== *)
theory Keys
  imports Jwt
begin

text \<open>
  Key derivation and private key storage: \<open>crates/key/src\<close> (\<open>master_key.rs\<close>,
  \<open>derived_key.rs\<close>), the methods of \<open>Key\<close> in \<open>crates/idp-model/src/model/key.rs\<close>, and
  \<open>crates/idp-service/src/repo\<close> (\<open>key_repo.rs\<close>, \<open>private_key_repo.rs\<close>,
  \<open>private_key_keyring_repo.rs\<close>, \<open>key_service.rs\<close>).  Extended keys and their derivation
  (crate \<open>bip32\<close>), mnemonics (\<open>bip39\<close>), randomness and the operating system's key ring are
  external: the records \<open>bip32\<close> and \<open>keyring\<close> hold the functions the code calls.
\<close>

section \<open>External functions\<close>

type_synonym xprv = "byte list"
type_synonym xpub = "byte list"
type_synonym child_number = "32 word"
type_synonym derivation_path = "child_number list"

record bip32 =
  xprv_new :: "byte list \<Rightarrow> string + xprv"
  xprv_from_str :: "string \<Rightarrow> string + xprv"
  xprv_to_string :: "xprv \<Rightarrow> string"
  derive_child :: "xprv \<Rightarrow> child_number \<Rightarrow> string + xprv"
  private_bytes :: "xprv \<Rightarrow> byte list"
  public_point :: "xprv \<Rightarrow> byte list option \<times> byte list option"
  public_key :: "xprv \<Rightarrow> xpub"
  derive_public_child :: "xpub \<Rightarrow> child_number \<Rightarrow> string + xpub"
  public_bytes :: "xpub \<Rightarrow> byte list"
  child_new :: "32 word \<Rightarrow> bool \<Rightarrow> string + child_number"
  is_hardened :: "child_number \<Rightarrow> bool"
  path_from_str :: "string \<Rightarrow> string + derivation_path"
  path_to_string :: "derivation_path \<Rightarrow> string"
  mnemonic_from_entropy :: "byte list \<Rightarrow> string + string"
  mnemonic_to_seed :: "string \<Rightarrow> string \<Rightarrow> byte list"

datatype keyring_error = NoEntry | KeyringError string

type_synonym keyring_entry = "string \<times> string \<times> (string \<times> string) list"

record 'w keyring =
  entry_with_modifiers :: "string \<Rightarrow> string \<Rightarrow> (string \<times> string) list \<Rightarrow> string + keyring_entry"
  get_secret :: "keyring_entry \<Rightarrow> ('w, keyring_error, byte list) op"
  set_secret :: "keyring_entry \<Rightarrow> byte list \<Rightarrow> ('w, keyring_error, unit) op"
  delete_credential :: "keyring_entry \<Rightarrow> ('w, keyring_error, unit) op"
  show_keyring_error :: "keyring_error \<Rightarrow> string"
  show_utf8_error :: "byte list \<Rightarrow> string"
  fill_random :: "nat \<Rightarrow> ('w, string, byte list) op"

section \<open>Derived keys\<close>

record DerivedKey =
  dk_key :: xprv
  dk_path :: derivation_path

definition DerivedKey_new :: "xprv \<Rightarrow> derivation_path \<Rightarrow> DerivedKey" where
  "DerivedKey_new key path = \<lparr>dk_key = key, dk_path = path\<rparr>"

definition DerivedKey_from_xprv :: "bip32 \<Rightarrow> string \<Rightarrow> derivation_path \<Rightarrow> KeyError + DerivedKey" where
  "DerivedKey_from_xprv B xprv path =
    and_then (result_map_err Bip32 (xprv_from_str B xprv)) (\<lambda>key. Inr \<lparr>dk_key = key, dk_path = path\<rparr>)"

definition to_xprv_string :: "bip32 \<Rightarrow> DerivedKey \<Rightarrow> string" where
  "to_xprv_string B k = xprv_to_string B (dk_key k)"

definition to_xy :: "bip32 \<Rightarrow> DerivedKey \<Rightarrow> KeyError + byte list \<times> byte list" where
  "to_xy B k =
    and_then (ok_or (KeyOther ''invalid encoded point x value'') (fst (public_point B (dk_key k)))) (\<lambda>x.
    and_then (ok_or (KeyOther ''invalid encoded point y value'') (snd (public_point B (dk_key k)))) (\<lambda>y.
    Inr (x, y)))"

definition to_xyd :: "bip32 \<Rightarrow> DerivedKey \<Rightarrow> KeyError + byte list \<times> byte list \<times> byte list" where
  "to_xyd B k = and_then (to_xy B k) (\<lambda>(x, y). Inr (x, y, private_bytes B (dk_key k)))"

definition derive_from_child_number :: "bip32 \<Rightarrow> DerivedKey \<Rightarrow> child_number \<Rightarrow> KeyError + DerivedKey" where
  "derive_from_child_number B k child =
    and_then (result_map_err Bip32 (derive_child B (dk_key k) child)) (\<lambda>key.
    Inr \<lparr>dk_key = key, dk_path = dk_path k @ [child]\<rparr>)"

definition derive_from_index_and_hardened :: "bip32 \<Rightarrow> DerivedKey \<Rightarrow> 32 word \<Rightarrow> bool \<Rightarrow> KeyError + DerivedKey" where
  "derive_from_index_and_hardened B k index hardened =
    and_then (result_map_err Bip32 (child_new B index hardened)) (derive_from_child_number B k)"

text \<open>The loop \<open>for child_number in path { key = key.derive_child(child_number)?; }\<close>.\<close>

fun derive_along :: "bip32 \<Rightarrow> xprv \<Rightarrow> derivation_path \<Rightarrow> KeyError + xprv" where
  "derive_along B key [] = Inr key"
| "derive_along B key (child # path) =
    and_then (result_map_err Bip32 (derive_child B key child)) (\<lambda>key'. derive_along B key' path)"

definition starts_with :: "'a list \<Rightarrow> 'a list \<Rightarrow> bool" where
  "starts_with xs ps = (take (length ps) xs = ps)"

definition derive_from_derivation_path :: "bip32 \<Rightarrow> DerivedKey \<Rightarrow> derivation_path \<Rightarrow> KeyError + DerivedKey" where
  "derive_from_derivation_path B k path =
    (if length path < length (dk_path k)
     then Inl (InvalidDerivation ''child derivation path is shorter than parent derivation path'')
     else if \<not> starts_with path (dk_path k)
     then Inl (InvalidDerivation ''child derivation path does not start with parent derivation path'')
     else and_then (derive_along B (dk_key k) (drop (length (dk_path k)) path)) (\<lambda>key.
       Inr \<lparr>dk_key = key, dk_path = path\<rparr>))"

definition derive_path :: "bip32 \<Rightarrow> DerivedKey \<Rightarrow> string \<Rightarrow> KeyError + DerivedKey" where
  "derive_path B k path = and_then (result_map_err Bip32 (path_from_str B path)) (derive_from_derivation_path B k)"

definition verify_derived_key :: "bip32 \<Rightarrow> DerivedKey \<Rightarrow> DerivedKey \<Rightarrow> KeyError + bool" where
  "verify_derived_key B k child =
    (if length (dk_path child) < length (dk_path k) then Inr False
     else if \<not> starts_with (dk_path child) (dk_path k) then Inr False
     else and_then (derive_along B (dk_key k) (drop (length (dk_path k)) (dk_path child))) (\<lambda>key.
       Inr (private_bytes B key = private_bytes B (dk_key child))))"

text \<open>The loop over the public key; \<open>None\<close> is \<open>return Ok(false)\<close>.\<close>

fun derive_public_along :: "bip32 \<Rightarrow> xpub \<Rightarrow> derivation_path \<Rightarrow> xpub option" where
  "derive_public_along B xpub [] = Some xpub"
| "derive_public_along B xpub (child # path) =
    (if is_hardened B child then None
     else case derive_public_child B xpub child of Inl e \<Rightarrow> None
     | Inr xpub' \<Rightarrow> derive_public_along B xpub' path)"

definition verify_ecdsa_key :: "bip32 \<Rightarrow> DerivedKey \<Rightarrow> string \<Rightarrow> byte list \<Rightarrow> KeyError + bool" where
  "verify_ecdsa_key B k path child =
    and_then (result_map_err Bip32 (path_from_str B path)) (\<lambda>child_path.
    if length child_path \<le> length (dk_path k) then Inr False
    else if \<not> starts_with child_path (dk_path k) then Inr False
    else Inr (case derive_public_along B (public_key B (dk_key k)) (drop (length (dk_path k)) child_path) of
      None \<Rightarrow> False | Some xpub \<Rightarrow> public_bytes B xpub = child))"

section \<open>Master keys\<close>

text \<open>A master key is its extended private key.\<close>

definition from_mnemonic_with_passphrase :: "bip32 \<Rightarrow> string \<Rightarrow> string \<Rightarrow> KeyError + xprv" where
  "from_mnemonic_with_passphrase B mnemonic passphrase =
    result_map_err Bip32 (xprv_new B (mnemonic_to_seed B mnemonic passphrase))"

definition from_entropy_with_passphrase :: "bip32 \<Rightarrow> byte list \<Rightarrow> string \<Rightarrow> KeyError + xprv" where
  "from_entropy_with_passphrase B entropy passphrase =
    and_then (result_map_err Bip39 (mnemonic_from_entropy B entropy)) (\<lambda>mnemonic.
    from_mnemonic_with_passphrase B mnemonic passphrase)"

definition MasterKey_entropy :: "'w keyring \<Rightarrow> ('w, KeyError, byte list) op" where
  "MasterKey_entropy G = map_err RandomError (fill_random G 32)"

definition MasterKey_derive_from_child_number :: "bip32 \<Rightarrow> xprv \<Rightarrow> child_number \<Rightarrow> KeyError + DerivedKey" where
  "MasterKey_derive_from_child_number B key child =
    and_then (result_map_err Bip32 (derive_child B key child)) (\<lambda>key'. Inr (DerivedKey_new key' [child]))"

definition MasterKey_derive :: "bip32 \<Rightarrow> xprv \<Rightarrow> string \<Rightarrow> KeyError + DerivedKey" where
  "MasterKey_derive B key path =
    and_then (result_map_err Bip32 (path_from_str B path)) (\<lambda>derivation_path.
    and_then (derive_along B key derivation_path) (\<lambda>key'. Inr (DerivedKey_new key' derivation_path)))"

definition MasterKey_verify_derived_key :: "bip32 \<Rightarrow> xprv \<Rightarrow> DerivedKey \<Rightarrow> KeyError + bool" where
  "MasterKey_verify_derived_key B key child =
    and_then (derive_along B key (dk_path child)) (\<lambda>key'.
    Inr (private_bytes B key' = private_bytes B (dk_key child)))"

definition MasterKey_verify_ecdsa_key :: "bip32 \<Rightarrow> xprv \<Rightarrow> string \<Rightarrow> byte list \<Rightarrow> KeyError + bool" where
  "MasterKey_verify_ecdsa_key B key path child =
    and_then (result_map_err Bip32 (path_from_str B path)) (\<lambda>derivation_path.
    Inr (case derive_public_along B (public_key B key) derivation_path of
      None \<Rightarrow> False | Some xpub \<Rightarrow> public_bytes B xpub = child))"

definition DerivedKey_from_master :: "xprv \<Rightarrow> DerivedKey" where
  "DerivedKey_from_master key = DerivedKey_new key []"

section \<open>Keys of entities\<close>

definition to_jwk_private :: "crypto \<Rightarrow> bip32 \<Rightarrow> (uuid \<Rightarrow> string) \<Rightarrow> Key \<Rightarrow> DerivedKey \<Rightarrow> KeyError + JwkPrivate" where
  "to_jwk_private E B show_id key derived =
    and_then (to_xyd B derived) (\<lambda>(x, y, d).
    Inr \<lparr>jp_use = Signature, jp_kid = show_id (ky_id key), jp_alg = EdDSA,
      jp_params = PrivateEc ''secp256k1'' (b64_encode E x) (b64_encode E y) (b64_encode E d)\<rparr>)"

definition to_jwk_public :: "crypto \<Rightarrow> bip32 \<Rightarrow> (uuid \<Rightarrow> string) \<Rightarrow> Key \<Rightarrow> DerivedKey \<Rightarrow> KeyError + JwkPublic" where
  "to_jwk_public E B show_id key derived =
    and_then (to_xy B derived) (\<lambda>(x, y).
    Inr \<lparr>jk_use = Signature, jk_kid = show_id (ky_id key), jk_alg = EdDSA,
      jk_params = PublicEc ''secp256k1'' (b64_encode E x) (b64_encode E y)\<rparr>)"

definition Key_derivation_path :: "bip32 \<Rightarrow> Key \<Rightarrow> KeyError + derivation_path" where
  "Key_derivation_path B key = result_map_err Bip32 (path_from_str B (ky_derivation_path key))"

definition build_derivation_path :: "string option \<Rightarrow> 32 word \<Rightarrow> bool \<Rightarrow> string" where
  "build_derivation_path parent_path derivation_index hardened =
    (case parent_path of Some p \<Rightarrow> p | None \<Rightarrow> ''m'')
    @ (if hardened then ''/'' @ decimal (unat derivation_index) @ [CHR 0x27]
       else ''/'' @ decimal (unat derivation_index))"

section \<open>Private key repositories\<close>

record 'w PrivateKeyRepo =
  pk_load :: "string \<Rightarrow> derivation_path \<Rightarrow> ('w, RepoError, DerivedKey option) op"
  pk_store :: "string \<Rightarrow> DerivedKey \<Rightarrow> ('w, RepoError, unit) op"
  pk_delete :: "string \<Rightarrow> derivation_path \<Rightarrow> ('w, RepoError, unit) op"

definition ensure_master_key_with_passphrase :: "'w PrivateKeyRepo \<Rightarrow> bip32 \<Rightarrow> 'w keyring \<Rightarrow> string \<Rightarrow> string
    \<Rightarrow> ('w, RepoError, DerivedKey) op" where
  "ensure_master_key_with_passphrase P B G namespace passphrase =
    await (pk_load P namespace []) (\<lambda>found.
    case found of Some derived_key \<Rightarrow> ok derived_key
    | None \<Rightarrow>
      await (map_err RepoKey (MasterKey_entropy G)) (\<lambda>entropy.
      await (lift (result_map_err RepoKey (from_entropy_with_passphrase B entropy passphrase))) (\<lambda>master_key.
      let derived_key = DerivedKey_from_master master_key in
      await (pk_store P namespace derived_key) (\<lambda>_. ok derived_key))))"

definition ensure_master_key :: "'w PrivateKeyRepo \<Rightarrow> bip32 \<Rightarrow> 'w keyring \<Rightarrow> string \<Rightarrow> ('w, RepoError, DerivedKey) op" where
  "ensure_master_key P B G namespace = ensure_master_key_with_passphrase P B G namespace []"

text \<open>\<open>DerivationPath::parent\<close> is \<open>None\<close> for the root.\<close>

function ensure_derivation_path :: "'w PrivateKeyRepo \<Rightarrow> bip32 \<Rightarrow> string \<Rightarrow> derivation_path
    \<Rightarrow> ('w, RepoError, DerivedKey) op" where
  "ensure_derivation_path P B namespace path =
    await (pk_load P namespace path) (\<lambda>found.
    case found of Some derived_key \<Rightarrow> ok derived_key
    | None \<Rightarrow>
      if path = [] then err (RepoInvalidInput ''Cannot ensure parent for root derivation path'') else
      await (ensure_derivation_path P B namespace (butlast path)) (\<lambda>parent_key.
      await (lift (result_map_err RepoKey (derive_from_derivation_path B parent_key path))) (\<lambda>derived_key.
      await (pk_store P namespace derived_key) (\<lambda>_. ok derived_key))))"
  by auto
termination by (relation "measure (\<lambda>(_, _, _, path). length path)") auto

declare ensure_derivation_path.simps [simp del]

section \<open>The key ring repository\<close>

text \<open>\<open>String::from_utf8\<close>: the table of well-formed byte sequences of the Unicode standard.\<close>

fun valid_utf8 :: "byte list \<Rightarrow> bool" where
  "valid_utf8 [] = True"
| "valid_utf8 (a # bs) =
    (let n = unat a; cont = (\<lambda>b. 0x80 \<le> unat b \<and> unat b \<le> (0xBF :: nat));
         within = (\<lambda>b lo hi. lo \<le> unat b \<and> unat b \<le> hi) in
     if n < 0x80 then valid_utf8 bs
     else case bs of [] \<Rightarrow> False | b # cs \<Rightarrow>
       if 0xC2 \<le> n \<and> n \<le> 0xDF then cont b \<and> valid_utf8 cs
       else case cs of [] \<Rightarrow> False | c # ds \<Rightarrow>
         if n = 0xE0 then within b 0xA0 0xBF \<and> cont c \<and> valid_utf8 ds
         else if n = 0xED then within b 0x80 0x9F \<and> cont c \<and> valid_utf8 ds
         else if 0xE1 \<le> n \<and> n \<le> 0xEF then cont b \<and> cont c \<and> valid_utf8 ds
         else case ds of [] \<Rightarrow> False | d # es \<Rightarrow>
           if n = 0xF0 then within b 0x90 0xBF \<and> cont c \<and> cont d \<and> valid_utf8 es
           else if n = 0xF4 then within b 0x80 0x8F \<and> cont c \<and> cont d \<and> valid_utf8 es
           else if 0xF1 \<le> n \<and> n \<le> 0xF3 then cont b \<and> cont c \<and> cont d \<and> valid_utf8 es
           else False)"

definition bytes_str :: "byte list \<Rightarrow> string" where
  "bytes_str bs = map (\<lambda>b. char_of (unat b)) bs"

definition from_utf8 :: "'w keyring \<Rightarrow> byte list \<Rightarrow> string + string" where
  "from_utf8 G bs = (if valid_utf8 bs then Inr (bytes_str bs) else Inl (show_utf8_error G bs))"

definition create_key_entry :: "'w keyring \<Rightarrow> string \<Rightarrow> string \<Rightarrow> string + keyring_entry" where
  "create_key_entry G service user = entry_with_modifiers G service user [(''target'', ''IdP'')]"

definition derived_key_entry_name :: "string \<Rightarrow> string \<Rightarrow> string" where
  "derived_key_entry_name namespace path = namespace @ '':'' @ path"

definition keyring_load :: "bip32 \<Rightarrow> 'w keyring \<Rightarrow> string \<Rightarrow> string \<Rightarrow> derivation_path
    \<Rightarrow> ('w, RepoError, DerivedKey option) op" where
  "keyring_load B G service namespace path =
    await (lift (result_map_err RepoOther
      (create_key_entry G service (derived_key_entry_name namespace (path_to_string B path))))) (\<lambda>entry w.
    case get_secret G entry w of
      (Inr secret_bytes, w') \<Rightarrow>
        await (lift (result_map_err RepoInvalidInput (from_utf8 G secret_bytes))) (\<lambda>xprv.
        await (lift (result_map_err RepoKey (DerivedKey_from_xprv B xprv path))) (\<lambda>key. ok (Some key))) w'
    | (Inl NoEntry, w') \<Rightarrow> ok None w'
    | (Inl e, w') \<Rightarrow> err (RepoOther (show_keyring_error G e)) w')"

definition keyring_store :: "bip32 \<Rightarrow> 'w keyring \<Rightarrow> string \<Rightarrow> string \<Rightarrow> DerivedKey \<Rightarrow> ('w, RepoError, unit) op" where
  "keyring_store B G service namespace derived_key =
    await (lift (result_map_err RepoOther
      (create_key_entry G service (derived_key_entry_name namespace (path_to_string B (dk_path derived_key))))))
      (\<lambda>entry.
    await (map_err (\<lambda>e. RepoOther (show_keyring_error G e))
      (set_secret G entry (str_bytes (to_xprv_string B derived_key)))) (\<lambda>_. ok ()))"

definition keyring_delete :: "bip32 \<Rightarrow> 'w keyring \<Rightarrow> string \<Rightarrow> string \<Rightarrow> derivation_path \<Rightarrow> ('w, RepoError, unit) op" where
  "keyring_delete B G service namespace path =
    await (lift (result_map_err RepoOther
      (create_key_entry G service (derived_key_entry_name namespace (path_to_string B path))))) (\<lambda>entry.
    await (map_err (\<lambda>e. RepoOther (show_keyring_error G e)) (delete_credential G entry)) (\<lambda>_. ok ()))"

definition PrivateKeyKeyringRepo :: "bip32 \<Rightarrow> 'w keyring \<Rightarrow> string \<Rightarrow> 'w PrivateKeyRepo" where
  "PrivateKeyKeyringRepo B G service = \<lparr>pk_load = keyring_load B G service, pk_store = keyring_store B G service,
    pk_delete = keyring_delete B G service\<rparr>"

section \<open>The key service\<close>

record 'w KeyRepo =
  kr_list_active :: "('w, RepoError, Key list) op"
  kr_list_by_entity :: "EntityType \<Rightarrow> uuid \<Rightarrow> ('w, RepoError, Key list) op"
  kr_find_by_id :: "uuid \<Rightarrow> ('w, RepoError, Key option) op"
  kr_find_by_entity :: "EntityType \<Rightarrow> uuid \<Rightarrow> ('w, RepoError, Key option) op"
  kr_find_active_entity_root_key :: "EntityType \<Rightarrow> uuid \<Rightarrow> ('w, RepoError, Key option) op"
  kr_delete_by_entity :: "EntityType \<Rightarrow> uuid \<Rightarrow> ('w, RepoError, unit) op"
  kr_create_key :: "uuid option \<Rightarrow> EntityType \<Rightarrow> uuid \<Rightarrow> bool \<Rightarrow> string \<Rightarrow> datetime option \<Rightarrow> ('w, RepoError, Key) op"

record 'w KeyService =
  ks_key_repo :: "'w KeyRepo"
  ks_private_key_repo :: "'w PrivateKeyRepo"
  ks_namespace :: string

definition scoped_namespace :: "(uuid \<Rightarrow> string) \<Rightarrow> 'w KeyService \<Rightarrow> EntityType \<Rightarrow> uuid \<Rightarrow> string" where
  "scoped_namespace show_id S entity_type entity_id =
    ks_namespace S @ '':'' @ EntityType_to_string entity_type @ '':'' @ show_id entity_id"

definition create_key :: "bip32 \<Rightarrow> (uuid \<Rightarrow> string) \<Rightarrow> 'w KeyService \<Rightarrow> uuid option \<Rightarrow> EntityType \<Rightarrow> uuid \<Rightarrow> bool
    \<Rightarrow> string \<Rightarrow> datetime option \<Rightarrow> ('w, RepoError, Key \<times> DerivedKey) op" where
  "create_key B show_id S parent_id entity_type entity_id hardened name expires_at =
    await (kr_create_key (ks_key_repo S) parent_id entity_type entity_id hardened name expires_at) (\<lambda>key.
    await (lift (result_map_err RepoKey (Key_derivation_path B key))) (\<lambda>path.
    await (ensure_derivation_path (ks_private_key_repo S) B (scoped_namespace show_id S entity_type entity_id) path)
      (\<lambda>private_key. ok (key, private_key))))"

definition rotate_active_entity_root_key :: "bip32 \<Rightarrow> (uuid \<Rightarrow> string) \<Rightarrow> 'w KeyService \<Rightarrow> EntityType \<Rightarrow> uuid
    \<Rightarrow> string \<Rightarrow> datetime option \<Rightarrow> ('w, RepoError, Key \<times> DerivedKey) op" where
  "rotate_active_entity_root_key B show_id S entity_type entity_id name expires_at =
    create_key B show_id S None entity_type entity_id True name expires_at"

definition ensure_entity_master_key :: "bip32 \<Rightarrow> 'w keyring \<Rightarrow> (uuid \<Rightarrow> string) \<Rightarrow> 'w KeyService \<Rightarrow> EntityType \<Rightarrow> uuid
    \<Rightarrow> string \<Rightarrow> ('w, RepoError, DerivedKey) op" where
  "ensure_entity_master_key B G show_id S entity_type entity_id passphrase =
    ensure_master_key_with_passphrase (ks_private_key_repo S) B G (scoped_namespace show_id S entity_type entity_id)
      passphrase"

text \<open>A private key is deleted when it is there.\<close>

definition delete_if_present :: "'w PrivateKeyRepo \<Rightarrow> string \<Rightarrow> derivation_path \<Rightarrow> ('w, RepoError, unit) op" where
  "delete_if_present P namespace path =
    await (pk_load P namespace path) (\<lambda>found. if found \<noteq> None then pk_delete P namespace path else ok ())"

definition delete_entity_key_material :: "bip32 \<Rightarrow> (uuid \<Rightarrow> string) \<Rightarrow> 'w KeyService \<Rightarrow> EntityType \<Rightarrow> uuid
    \<Rightarrow> ('w, RepoError, unit) op" where
  "delete_entity_key_material B show_id S entity_type entity_id =
    (let namespace = scoped_namespace show_id S entity_type entity_id in
    await (kr_list_by_entity (ks_key_repo S) entity_type entity_id) (\<lambda>keys.
    await (for_each (\<lambda>key.
      await (lift (result_map_err RepoKey (Key_derivation_path B key))) (\<lambda>path.
      delete_if_present (ks_private_key_repo S) namespace path)) keys) (\<lambda>_.
    await (delete_if_present (ks_private_key_repo S) namespace []) (\<lambda>_.
    kr_delete_by_entity (ks_key_repo S) entity_type entity_id))))"

end
