(* ===== verification/Oauth2_Helpers.thy ===== *)
theory Oauth2_Helpers
  imports Keys "HOL-Library.Char_ord" "HOL-Library.List_Lexorder"
begin

text \<open>
  The pure helpers of the OAuth2 service in \<open>crates/idp-service/src/oauth2\<close>: scopes
  (\<open>scope.rs\<close>), proof keys (\<open>pkce.rs\<close>), the checks of authorization requests
  (\<open>authorization.rs\<close>) and of the code grant (\<open>token.rs\<close>), the configuration and its
  published form (\<open>config.rs\<close>) and principals (\<open>principal.rs\<close>).
\<close>

section \<open>Scopes\<close>

definition parse_scopes :: "string \<Rightarrow> string list" where
  "parse_scopes scope = filter (\<lambda>s. s \<noteq> []) (split_whitespace scope)"

definition scopes_to_string :: "string list \<Rightarrow> string" where
  "scopes_to_string scopes = join '' '' scopes"

definition validate_scopes :: "string list \<Rightarrow> string list \<Rightarrow> ErrorResponse + unit" where
  "validate_scopes requested granted =
    (if requested = [] then Inr ()
     else if granted = [] then Inl (described InvalidScope ''client is not authorized for the requested scopes'')
     else let unauthorized = filter (\<lambda>s. s \<notin> set granted) requested in
       if unauthorized = [] then Inr ()
       else Inl (described InvalidScope (''unsupported scopes: '' @ join '' '' unauthorized)))"

definition intersect_scopes :: "string list \<Rightarrow> string list \<Rightarrow> string list" where
  "intersect_scopes requested granted =
    (if requested = [] then granted else filter (\<lambda>s. s \<in> set granted) requested)"

definition normalize_scopes :: "string list \<Rightarrow> string" where
  "normalize_scopes scopes = join '' '' (remdups_adj (sort scopes))"

text \<open>\<open>scope.as_deref().map(parse_scopes).unwrap_or_default()\<close>.\<close>

definition requested_scopes :: "string option \<Rightarrow> string list" where
  "requested_scopes scope = (case scope of None \<Rightarrow> [] | Some s \<Rightarrow> parse_scopes s)"

section \<open>Proof keys\<close>

fun verify_code_challenge :: "crypto \<Rightarrow> string \<Rightarrow> string \<Rightarrow> CodeChallengeMethod \<Rightarrow> ErrorResponse + unit" where
  "verify_code_challenge E code_verifier code_challenge S256 =
    (if b64url_encode E (sha256 E (str_bytes code_verifier)) = code_challenge then Inr ()
     else Inl (ErrorResponse_new InvalidGrant))"

section \<open>Authorization requests\<close>

definition validate_dynamic_client_grants :: "GrantType list \<Rightarrow> ErrorResponse + unit" where
  "validate_dynamic_client_grants grant_types =
    (if GrantClientCredentials \<in> set grant_types
     then Inl (described UnauthorizedClient ''client credentials clients require trusted owner provisioning'')
     else Inr ())"

definition validate_response_type :: "AuthorizationRequest \<Rightarrow> Client \<Rightarrow> ErrorResponse + unit" where
  "validate_response_type request client =
    (if ar_response_type request \<noteq> Code then Inl (ErrorResponse_new UnsupportedResponseType)
     else if cl_response_types client = [] \<or> ar_response_type request \<in> set (cl_response_types client) then Inr ()
     else Inl (ErrorResponse_new InvalidResponseType))"

definition resolve_redirect_uri :: "AuthorizationRequest \<Rightarrow> Client \<Rightarrow> ErrorResponse + string" where
  "resolve_redirect_uri request client =
    (case (ar_redirect_uri request, cl_redirect_uris client) of
      (Some redirect_uri, redirect_uris) \<Rightarrow>
        if redirect_uri \<in> set redirect_uris then Inr redirect_uri
        else Inl (described InvalidRequest ''redirect_uri is not registered for this client'')
    | (None, [redirect_uri]) \<Rightarrow> Inr redirect_uri
    | (None, _) \<Rightarrow> Inl (described InvalidRequest
        ''redirect_uri is required when multiple redirect URIs are registered''))"

definition validate_pkce :: "AuthorizationRequest \<Rightarrow> Client \<Rightarrow> bool \<Rightarrow> ErrorResponse + unit" where
  "validate_pkce request client require_pkce =
    (let pkce_required = (require_pkce \<or> cl_client_type client = Public) in
     case (ar_code_challenge request, ar_code_challenge_method request) of
      (Some _, Some method) \<Rightarrow>
        if method = S256 then Inr ()
        else Inl (described InvalidRequest ''only S256 code challenge method is supported'')
    | (Some _, None) \<Rightarrow>
        Inl (described InvalidRequest ''code_challenge_method is required when code_challenge is present'')
    | (None, Some _) \<Rightarrow>
        Inl (described InvalidRequest ''code_challenge is required when code_challenge_method is present'')
    | (None, None) \<Rightarrow>
        if pkce_required then Inl (described InvalidRequest ''PKCE is required for this authorization request'')
        else Inr ())"

definition validate_response_mode :: "AuthorizationRequest \<Rightarrow> ErrorResponse + unit" where
  "validate_response_mode request =
    (case ar_response_mode request of None \<Rightarrow> Inr () | Some ModeQuery \<Rightarrow> Inr () | Some FormPost \<Rightarrow> Inr ())"

definition validate_authorization_request :: "AuthorizationRequest \<Rightarrow> Client \<Rightarrow> bool \<Rightarrow> ErrorResponse + unit" where
  "validate_authorization_request request client require_pkce =
    (if ar_client_id request \<noteq> cl_client_id client then Inl (ErrorResponse_new InvalidClient) else
    and_then (validate_response_type request client) (\<lambda>_.
    and_then (resolve_redirect_uri request client) (\<lambda>_.
    and_then (validate_pkce request client require_pkce) (\<lambda>_.
    and_then (validate_response_mode request) (\<lambda>_.
    case ar_scope request of None \<Rightarrow> Inr ()
    | Some scope \<Rightarrow> validate_scopes (parse_scopes scope) (cl_allowed_scopes client))))))"

definition validate_authorization_details :: "AuthorizationDetail list \<Rightarrow> ErrorResponse + unit" where
  "validate_authorization_details details =
    (case details of
      [Storage detail] \<Rightarrow>
        if detail_actions detail = []
          \<or> list_ex (\<lambda>i. detail_actions detail ! i \<in> set (take i (detail_actions detail)))
              [0 ..< length (detail_actions detail)]
        then Inl (described InvalidRequest ''storage actions must be non-empty and unique'')
        else Inr ()
    | _ \<Rightarrow> Inl (described InvalidRequest ''exactly one storage authorization detail is required''))"

section \<open>The authorization code grant\<close>

definition validate_authorization_code_grant :: "AuthorizationCodeGrantRequest \<Rightarrow> string \<Rightarrow> string option
    \<Rightarrow> ErrorResponse + unit" where
  "validate_authorization_code_grant request expected_client_id expected_redirect_uri =
    (if cg_code request = [] then Inl (described InvalidRequest ''code is required'')
     else if cg_code_verifier request = [] then Inl (described InvalidRequest ''code_verifier is required'')
     else if (case cg_client_id request of None \<Rightarrow> False | Some client_id \<Rightarrow> client_id \<noteq> expected_client_id)
     then Inl (ErrorResponse_new InvalidClient)
     else if (case cg_redirect_uri request of None \<Rightarrow> False
        | Some redirect_uri \<Rightarrow> (case expected_redirect_uri of None \<Rightarrow> False | Some expected \<Rightarrow> expected \<noteq> redirect_uri))
     then Inl (described InvalidGrant ''redirect_uri does not match the authorization request'')
     else Inr ())"

section \<open>Configuration\<close>

record OAuth2Config =
  cfg_issuer :: string
  cfg_require_pkce :: bool
  cfg_token_ttl_secs :: "64 word"
  cfg_refresh_token_ttl_secs :: "64 word"
  cfg_authorization_code_ttl_secs :: "64 word"
  cfg_device_code_ttl_secs :: int
  cfg_device_poll_interval_secs :: int

definition default_config :: OAuth2Config where
  "default_config = \<lparr>cfg_issuer = ''https://api.localhost:1355/idp'', cfg_require_pkce = True,
    cfg_token_ttl_secs = 3600, cfg_refresh_token_ttl_secs = 2592000, cfg_authorization_code_ttl_secs = 600,
    cfg_device_code_ttl_secs = 600, cfg_device_poll_interval_secs = 5\<rparr>"

text \<open>\<open>trim_end_matches('/')\<close>.\<close>

definition trim_end_slashes :: "string \<Rightarrow> string" where
  "trim_end_slashes s = rev (dropWhile (\<lambda>c. c = CHR ''/'') (rev s))"

record AuthorizationServerMetadata =
  md_issuer :: string
  md_authorization_endpoint :: "string option"
  md_token_endpoint :: "string option"
  md_jwks_uri :: "string option"
  md_registration_endpoint :: "string option"
  md_userinfo_endpoint :: "string option"
  md_scopes_supported :: "string list"
  md_response_types_supported :: "ResponseType list"
  md_response_modes_supported :: "ResponseMode list"
  md_grant_types_supported :: "GrantType list"
  md_token_endpoint_auth_methods_supported :: "TokenEndpointAuthMethod list"
  md_token_endpoint_auth_signing_alg_values_supported :: "string list"
  md_service_documentation :: "string option"
  md_ui_locales_supported :: "string list"
  md_op_policy_uri :: "string option"
  md_op_tos_uri :: "string option"
  md_revocation_endpoint :: "string option"
  md_revocation_endpoint_auth_methods_supported :: "TokenEndpointAuthMethod list"
  md_revocation_endpoint_auth_signing_alg_values_supported :: "string list"
  md_introspection_endpoint :: "string option"
  md_introspection_endpoint_auth_methods_supported :: "TokenEndpointAuthMethod list"
  md_introspection_endpoint_auth_signing_alg_values_supported :: "string list"
  md_code_challenge_methods_supported :: "CodeChallengeMethod list"
  md_signed_metadata :: "string option"
  md_pushed_authorization_request_endpoint :: "string option"
  md_dpop_signing_alg_values_supported :: "string list"
  md_require_pkce :: bool

definition to_metadata :: "OAuth2Config \<Rightarrow> AuthorizationServerMetadata" where
  "to_metadata config =
    (let issuer = trim_end_slashes (cfg_issuer config) in \<lparr>
      md_issuer = issuer,
      md_authorization_endpoint = Some (issuer @ ''/oauth2/auth''),
      md_token_endpoint = Some (issuer @ ''/oauth2/token''),
      md_jwks_uri = Some (issuer @ ''/.well-known/jwks.json''),
      md_registration_endpoint = Some (issuer @ ''/oauth2/register''),
      md_userinfo_endpoint = Some (issuer @ ''/userinfo''),
      md_scopes_supported = [''openid'', ''profile'', ''email'', ''address'', ''phone'', ''offline_access'', ''storage''],
      md_response_types_supported = [Code],
      md_response_modes_supported = [ModeQuery, FormPost],
      md_grant_types_supported = [GrantAuthorizationCode, GrantClientCredentials, GrantRefreshToken, GrantTokenExchange],
      md_token_endpoint_auth_methods_supported = [ClientSecretBasic, ClientSecretPost, AuthNone],
      md_token_endpoint_auth_signing_alg_values_supported = [],
      md_service_documentation = None,
      md_ui_locales_supported = [],
      md_op_policy_uri = None,
      md_op_tos_uri = None,
      md_revocation_endpoint = Some (issuer @ ''/oauth2/revoke''),
      md_revocation_endpoint_auth_methods_supported = [ClientSecretBasic, ClientSecretPost, AuthNone],
      md_revocation_endpoint_auth_signing_alg_values_supported = [],
      md_introspection_endpoint = None,
      md_introspection_endpoint_auth_methods_supported = [],
      md_introspection_endpoint_auth_signing_alg_values_supported = [],
      md_code_challenge_methods_supported = [S256],
      md_signed_metadata = None,
      md_pushed_authorization_request_endpoint = None,
      md_dpop_signing_alg_values_supported = [],
      md_require_pkce = cfg_require_pkce config\<rparr>)"

section \<open>Principals\<close>

datatype Principal = UserPrincipal User Key | ClientPrincipal Client Key

fun get_entity_id :: "Principal \<Rightarrow> uuid" where
  "get_entity_id (UserPrincipal user key) = usr_id user"
| "get_entity_id (ClientPrincipal client key) = cl_id client"

fun get_entity_type :: "Principal \<Rightarrow> EntityType" where
  "get_entity_type (UserPrincipal user key) = EntityUser"
| "get_entity_type (ClientPrincipal client key) = EntityClient"

fun get_key :: "Principal \<Rightarrow> Key" where
  "get_key (UserPrincipal user key) = key"
| "get_key (ClientPrincipal client key) = key"

section \<open>Time\<close>

text \<open>The addition of \<open>Duration::seconds(ttl as i64)\<close>.\<close>

definition plus_seconds :: "datetime \<Rightarrow> 64 word \<Rightarrow> datetime" where
  "plus_seconds t ttl = DateTime (timestamp t + sint ttl) (nanosecond t)"

lemmas [run_simps] = parse_scopes_def validate_scopes_def intersect_scopes_def requested_scopes_def
  validate_dynamic_client_grants_def validate_response_type_def resolve_redirect_uri_def validate_pkce_def
  validate_response_mode_def validate_authorization_request_def validate_authorization_details_def
  validate_authorization_code_grant_def datetime_order plus_seconds_def

end
