(* ===== verification/Oauth2_Service.thy ===== *)
theory Oauth2_Service
  imports Oauth2_Helpers
begin

text \<open>
  The OAuth2 service, \<open>crates/idp-service/src/oauth2/service.rs\<close>: authorization and
  consent, the five grants of the token endpoint, published keys, the issue of tokens, and
  the administration of clients, applications and users.  The service is generic in its
  repositories, as in the source (the traits of \<open>crates/idp-service/src/repo\<close>): each trait
  is a record of operations.  \<open>idp_env\<close> collects the external functions: the host (clock,
  identifiers), the codecs, key derivation, randomness, the password hash and dates.
\<close>

section \<open>The repositories and the environment\<close>

record 'w ApplicationRepo =
  ap_find_by_id :: "uuid \<Rightarrow> ('w, RepoError, Application option) op"
  ap_find_by_uri :: "string \<Rightarrow> ('w, RepoError, Application option) op"
  ap_list_applications :: "32 word \<Rightarrow> 32 word \<Rightarrow> ('w, RepoError, Application list) op"
  ap_create_application :: "string \<Rightarrow> string \<Rightarrow> string option \<Rightarrow> ('w, RepoError, Application) op"
  ap_update_application :: "Application \<Rightarrow> ('w, RepoError, Application) op"
  ap_delete_application_by_id :: "uuid \<Rightarrow> ('w, RepoError, unit) op"

record 'w ClientRepo =
  cl_find_client_by_id :: "uuid \<Rightarrow> ('w, RepoError, Client option) op"
  cl_find_client_by_client_id :: "string \<Rightarrow> ('w, RepoError, Client option) op"
  cl_list_clients :: "32 word \<Rightarrow> 32 word \<Rightarrow> ('w, RepoError, Client list) op"
  cl_create_client :: "ClientRegistration \<Rightarrow> ('w, RepoError, Client) op"
  cl_update_client :: "Client \<Rightarrow> ('w, RepoError, Client) op"
  cl_delete_client_by_client_id :: "string \<Rightarrow> ('w, RepoError, unit) op"

record 'w OAuth2AuthorizationCodeRepo =
  ac_create_authorization_code :: "string \<Rightarrow> uuid \<Rightarrow> string \<Rightarrow> string list \<Rightarrow> string option \<Rightarrow> string option
    \<Rightarrow> CodeChallengeMethod option \<Rightarrow> string option \<Rightarrow> datetime \<Rightarrow> ('w, RepoError, OAuth2AuthorizationCode) op"
  ac_find_authorization_code_by_code :: "string \<Rightarrow> ('w, RepoError, OAuth2AuthorizationCode option) op"
  ac_consume_authorization_code :: "uuid \<Rightarrow> datetime \<Rightarrow> ('w, RepoError, unit) op"

record 'w UserRepo =
  us_find_user_by_id :: "uuid \<Rightarrow> ('w, RepoError, User option) op"
  us_list_users :: "32 word \<Rightarrow> 32 word \<Rightarrow> ('w, RepoError, User list) op"
  us_find_user_by_username_or_email :: "string \<Rightarrow> ('w, RepoError, User option) op"
  us_find_user_emails_by_user_id :: "uuid \<Rightarrow> ('w, RepoError, UserEmail list) op"
  us_find_user_phone_numbers_by_user_id :: "uuid \<Rightarrow> ('w, RepoError, UserPhoneNumber list) op"
  us_find_user_password_by_user_id :: "uuid \<Rightarrow> ('w, RepoError, UserPassword option) op"
  us_create_user_with_password :: "string \<Rightarrow> string \<Rightarrow> ('w, RepoError, User) op"
  us_update_user :: "User \<Rightarrow> ('w, RepoError, User) op"
  us_upsert_primary_user_email :: "uuid \<Rightarrow> string \<Rightarrow> bool \<Rightarrow> ('w, RepoError, unit) op"
  us_upsert_primary_user_phone_number :: "uuid \<Rightarrow> string \<Rightarrow> bool \<Rightarrow> ('w, RepoError, unit) op"
  us_replace_user_password :: "uuid \<Rightarrow> string \<Rightarrow> ('w, RepoError, unit) op"
  us_delete_user_by_id :: "uuid \<Rightarrow> ('w, RepoError, unit) op"

record 'w OAuth2UserConsentRepo =
  uc_upsert_user_consent :: "uuid \<Rightarrow> string \<Rightarrow> string \<Rightarrow> string \<Rightarrow> ('w, RepoError, OAuth2UserConsent) op"
  uc_find_user_consent :: "uuid \<Rightarrow> string \<Rightarrow> string \<Rightarrow> string \<Rightarrow> ('w, RepoError, OAuth2UserConsent option) op"
  uc_list_user_consents :: "uuid \<Rightarrow> 32 word \<Rightarrow> 32 word \<Rightarrow> ('w, RepoError, OAuth2UserConsent list) op"
  uc_find_user_consent_by_id :: "uuid \<Rightarrow> ('w, RepoError, OAuth2UserConsent option) op"
  uc_delete_user_consent_by_id :: "uuid \<Rightarrow> ('w, RepoError, unit) op"

record 'w OAuth2Service =
  application_repo :: "'w ApplicationRepo"
  client_repo :: "'w ClientRepo"
  authorization_code_repo :: "'w OAuth2AuthorizationCodeRepo"
  user_repo :: "'w UserRepo"
  oauth2_user_consent_repo :: "'w OAuth2UserConsentRepo"
  key_service :: "'w KeyService"
  oauth_config :: OAuth2Config

record 'w idp_env =
  env_host :: "'w host"
  env_crypto :: crypto
  env_bip32 :: bip32
  env_random :: "nat \<Rightarrow> 'w \<Rightarrow> byte list \<times> 'w"
  env_verify_encoded :: "string \<Rightarrow> byte list \<Rightarrow> string + bool"
  env_parse_uuid :: "string \<Rightarrow> uuid option"
  env_parse_rfc3339 :: "string \<Rightarrow> datetime option"
  env_to_rfc3339 :: "datetime \<Rightarrow> string"

abbreviation repo :: "('w, RepoError, 'a) op \<Rightarrow> ('w, ErrorResponse, 'a) op" where
  "repo \<equiv> map_err ErrorResponse_from_repo"

text \<open>\<open>match m.await\<close>: a failure is a value.\<close>

definition attempt :: "('w, 'e, 'a) op \<Rightarrow> ('w, 'f, 'e + 'a) op" where
  "attempt m w = (case m w of (r, w') \<Rightarrow> (Inr r, w'))"

definition now :: "'w idp_env \<Rightarrow> ('w, 'e, datetime) op" where
  "now V = effect (utc_now (env_host V))"

definition show_id :: "'w idp_env \<Rightarrow> uuid \<Rightarrow> string" where
  "show_id V = uuid_to_string (env_host V)"

definition generate_random_string :: "'w idp_env \<Rightarrow> nat \<Rightarrow> ('w, 'e, string) op" where
  "generate_random_string V n =
    await (effect (env_random V n)) (\<lambda>bytes. ok (b64url_encode (env_crypto V) bytes))"

definition verify_password :: "'w idp_env \<Rightarrow> string \<Rightarrow> string \<Rightarrow> string + bool" where
  "verify_password V input encrypted = env_verify_encoded V encrypted (str_bytes input)"

definition client_not_found :: ErrorResponse where
  "client_not_found = described InvalidClient ''client not found''"

definition find_client :: "'w OAuth2Service \<Rightarrow> string \<Rightarrow> ErrorResponse \<Rightarrow> ('w, ErrorResponse, Client) op" where
  "find_client S client_id e =
    await (repo (cl_find_client_by_client_id (client_repo S) client_id)) (\<lambda>found. lift (ok_or e found))"

section \<open>Clients and applications\<close>

definition register_client :: "'w idp_env \<Rightarrow> 'w OAuth2Service \<Rightarrow> ClientRegistration
    \<Rightarrow> ('w, ErrorResponse, ClientRegistration) op" where
  "register_client V S request =
    await (lift (validate_dynamic_client_grants (cr_allowed_grant_types request))) (\<lambda>_.
    await (case cr_client_id request of Some i \<Rightarrow> ok i | None \<Rightarrow> generate_random_string V 32) (\<lambda>client_id.
    await (case cr_client_secret request of Some s \<Rightarrow> ok s | None \<Rightarrow> generate_random_string V 32) (\<lambda>client_secret.
    await (repo (cl_create_client (client_repo S)
      (request\<lparr>cr_client_id := Some client_id, cr_client_secret := Some client_secret\<rparr>))) (\<lambda>client.
    ok (ClientRegistration_from client)))))"

definition get_client :: "'w OAuth2Service \<Rightarrow> string \<Rightarrow> ('w, ErrorResponse, ClientRegistration) op" where
  "get_client S client_id =
    await (find_client S client_id client_not_found) (\<lambda>client. ok (ClientRegistration_from client))"

definition list_applications :: "'w OAuth2Service \<Rightarrow> 32 word \<Rightarrow> 32 word \<Rightarrow> ('w, ErrorResponse, Application list) op" where
  "list_applications S offset limit = repo (ap_list_applications (application_repo S) offset (min limit 100))"

definition get_application :: "'w OAuth2Service \<Rightarrow> uuid \<Rightarrow> ('w, ErrorResponse, Application) op" where
  "get_application S i =
    await (repo (ap_find_by_id (application_repo S) i)) (\<lambda>found. lift (ok_or (ErrorResponse_new NotFound) found))"

definition create_application :: "'w OAuth2Service \<Rightarrow> string \<Rightarrow> string \<Rightarrow> string option
    \<Rightarrow> ('w, ErrorResponse, Application) op" where
  "create_application S name uri description = repo (ap_create_application (application_repo S) name uri description)"

definition update_application :: "'w OAuth2Service \<Rightarrow> Application \<Rightarrow> ('w, ErrorResponse, Application) op" where
  "update_application S application = repo (ap_update_application (application_repo S) application)"

definition delete_application :: "'w OAuth2Service \<Rightarrow> uuid \<Rightarrow> ('w, ErrorResponse, unit) op" where
  "delete_application S i = repo (ap_delete_application_by_id (application_repo S) i)"

definition application_id_for_client :: "'w OAuth2Service \<Rightarrow> string \<Rightarrow> ('w, ErrorResponse, uuid) op" where
  "application_id_for_client S client_id =
    await (repo (cl_find_client_by_client_id (client_repo S) client_id)) (\<lambda>found.
    lift (ok_or (ErrorResponse_new InvalidClient) (map_option cl_application_id found)))"

definition list_clients :: "'w OAuth2Service \<Rightarrow> 32 word \<Rightarrow> 32 word \<Rightarrow> ('w, ErrorResponse, ClientRegistration list) op" where
  "list_clients S offset limit =
    await (repo (cl_list_clients (client_repo S) offset limit)) (\<lambda>clients. ok (map ClientRegistration_from clients))"

definition updated_client :: "'w idp_env \<Rightarrow> Client \<Rightarrow> ClientRegistration \<Rightarrow> datetime \<Rightarrow> Client" where
  "updated_client V existing request n = \<lparr>
    cl_id = cl_id existing,
    cl_application_id = cl_application_id existing,
    cl_client_id = cl_client_id existing,
    cl_client_secret = (case cr_client_secret request of Some s \<Rightarrow> s | None \<Rightarrow> cl_client_secret existing),
    cl_client_id_issued_at = cl_client_id_issued_at existing,
    cl_client_secret_expires_at =
      (case Option.bind (cr_client_secret_expires_at request) (from_timestamp (env_host V)) of
        Some t \<Rightarrow> Some t | None \<Rightarrow> cl_client_secret_expires_at existing),
    cl_client_name = cr_client_name request,
    cl_client_uri = (case cr_client_uri request of Some u \<Rightarrow> u | None \<Rightarrow> cl_client_uri existing),
    cl_redirect_uris = cr_redirect_uris request,
    cl_client_type = cr_client_type request,
    cl_profile = cr_profile request,
    cl_token_endpoint_auth_method = cr_token_endpoint_auth_method request,
    cl_allowed_grant_types = cr_allowed_grant_types request,
    cl_response_types = cr_response_types request,
    cl_allowed_scopes = cr_allowed_scopes request,
    cl_allowed_audiences = cr_allowed_audiences request,
    cl_logo_uri = cr_logo_uri request,
    cl_contacts = cr_contacts request,
    cl_terms_of_service_uri = cr_terms_of_service_uri request,
    cl_policy_uri = cr_policy_uri request,
    cl_software_statement = cr_software_statement request,
    cl_software_id = cr_software_id request,
    cl_software_version = cr_software_version request,
    cl_created_at = cl_created_at existing,
    cl_updated_at = n\<rparr>"

definition update_client :: "'w idp_env \<Rightarrow> 'w OAuth2Service \<Rightarrow> string \<Rightarrow> ClientRegistration
    \<Rightarrow> ('w, ErrorResponse, ClientRegistration) op" where
  "update_client V S client_id request =
    await (lift (validate_dynamic_client_grants (cr_allowed_grant_types request))) (\<lambda>_.
    await (find_client S client_id client_not_found) (\<lambda>existing.
    await (now V) (\<lambda>n.
    await (repo (cl_update_client (client_repo S) (updated_client V existing request n))) (\<lambda>client.
    ok (ClientRegistration_from client)))))"

definition delete_client :: "'w OAuth2Service \<Rightarrow> string \<Rightarrow> ('w, ErrorResponse, unit) op" where
  "delete_client S client_id = repo (cl_delete_client_by_client_id (client_repo S) client_id)"

section \<open>Authorization and consent\<close>

definition authorize :: "'w idp_env \<Rightarrow> 'w OAuth2Service \<Rightarrow> AuthorizationRequest \<Rightarrow> Principal
    \<Rightarrow> ('w, ErrorResponse, AuthorizationCodeResponse) op" where
  "authorize V S request subject =
    await (find_client S (ar_client_id request) client_not_found) (\<lambda>client.
    await (lift (validate_authorization_request request client (cfg_require_pkce (oauth_config S)))) (\<lambda>_.
    await (lift (resolve_redirect_uri request client)) (\<lambda>redirect_uri.
    let scopes = intersect_scopes (requested_scopes (ar_scope request)) (cl_allowed_scopes client);
        normalized_scope = normalize_scopes scopes in
    if get_entity_type subject \<noteq> EntityUser
    then err (described AccessDenied ''only users can authorize clients'') else
    await (repo (uc_find_user_consent (oauth2_user_consent_repo S) (get_entity_id subject) (cl_client_id client)
      redirect_uri normalized_scope)) (\<lambda>consent.
    if consent = None then err (described AccessDenied ''client approval required'') else
    await (now V) (\<lambda>n.
    await (repo (ac_create_authorization_code (authorization_code_repo S) (cl_client_id client)
      (ky_id (get_key subject)) redirect_uri scopes (ar_resource request) (ar_code_challenge request)
      (ar_code_challenge_method request) (ar_nonce request)
      (plus_seconds n (cfg_authorization_code_ttl_secs (oauth_config S))))) (\<lambda>authorization_code.
    ok (Success (ac_code authorization_code) (ar_state request) (Some (cfg_issuer (oauth_config S))))))))))"

definition approve_for_user :: "'w OAuth2Service \<Rightarrow> ApproveForUserRequest \<Rightarrow> Principal
    \<Rightarrow> ('w, ErrorResponse, IsAllowedForUserResponse) op" where
  "approve_for_user S request subject =
    (if get_entity_type subject \<noteq> EntityUser
     then err (described AccessDenied ''only users can approve clients'') else
    await (find_client S (ap_client_id request) client_not_found) (\<lambda>client.
    if ap_redirect_uri request \<notin> set (cl_redirect_uris client)
    then err (described InvalidRequest ''redirect_uri is not allowed for this client'') else
    let requested = parse_scopes (ap_scope request) in
    await (lift (validate_scopes requested (cl_allowed_scopes client))) (\<lambda>_.
    let normalized_scope = normalize_scopes (intersect_scopes requested (cl_allowed_scopes client)) in
    await (repo (uc_upsert_user_consent (oauth2_user_consent_repo S) (get_entity_id subject) (cl_client_id client)
      (ap_redirect_uri request) normalized_scope)) (\<lambda>_.
    ok \<lparr>is_allowed = True\<rparr>))))"

definition is_allowed_for_user :: "'w OAuth2Service \<Rightarrow> IsAllowedForUserRequest \<Rightarrow> Principal
    \<Rightarrow> ('w, ErrorResponse, IsAllowedForUserResponse) op" where
  "is_allowed_for_user S request subject =
    (if get_entity_type subject \<noteq> EntityUser
     then err (described AccessDenied ''only users can check client approval'') else
    await (find_client S (ia_client_id request) client_not_found) (\<lambda>client.
    if ia_redirect_uri request \<notin> set (cl_redirect_uris client) then ok \<lparr>is_allowed = False\<rparr> else
    let requested = parse_scopes (ia_scope request) in
    await (lift (validate_scopes requested (cl_allowed_scopes client))) (\<lambda>_.
    let normalized_scope = normalize_scopes (intersect_scopes requested (cl_allowed_scopes client)) in
    await (repo (uc_find_user_consent (oauth2_user_consent_repo S) (get_entity_id subject) (cl_client_id client)
      (ia_redirect_uri request) normalized_scope)) (\<lambda>consent.
    ok \<lparr>is_allowed = (consent \<noteq> None)\<rparr>))))"

section \<open>Checks of the token endpoint\<close>

definition validate_grant_type :: "Client \<Rightarrow> GrantType \<Rightarrow> ErrorResponse + unit" where
  "validate_grant_type client grant_type =
    (if cl_allowed_grant_types client = [] \<or> grant_type \<in> set (cl_allowed_grant_types client) then Inr ()
     else Inl (described UnauthorizedClient ''client is not authorized for this grant type''))"

definition authenticate_client_for_token_endpoint :: "Client \<Rightarrow> OAuth2ClientAuth option \<Rightarrow> ErrorResponse + unit" where
  "authenticate_client_for_token_endpoint client client_auth =
    (case cl_client_type client of
      Confidential \<Rightarrow>
        and_then (ok_or (described InvalidClient ''client authentication is required'') client_auth) (\<lambda>auth.
        if auth_client_id auth \<noteq> cl_client_id client
        then Inl (described InvalidClient ''client_id does not match token subject'')
        else if auth_method auth \<noteq> cl_token_endpoint_auth_method client
          \<or> \<not> (auth_method auth = ClientSecretBasic \<or> auth_method auth = ClientSecretPost)
        then Inl (described InvalidClient ''unsupported client authentication method'')
        else if auth_client_secret auth \<noteq> Some (cl_client_secret client)
        then Inl (described InvalidClient ''invalid client credentials'')
        else Inr ())
    | Public \<Rightarrow>
        if (case client_auth of None \<Rightarrow> False | Some auth \<Rightarrow> auth_client_id auth \<noteq> cl_client_id client)
        then Inl (described InvalidClient ''client_id does not match token subject'')
        else Inr ())"

section \<open>Keys and principals\<close>

definition ensure_key_is_active_entity_root :: "'w OAuth2Service \<Rightarrow> Key \<Rightarrow> ('w, ErrorResponse, unit) op" where
  "ensure_key_is_active_entity_root S key =
    await (repo (kr_find_active_entity_root_key (ks_key_repo (key_service S)) (ky_entity_type key) (ky_entity_id key)))
      (\<lambda>found.
    await (lift (ok_or (described InvalidGrant ''active entity root key not found'') found)) (\<lambda>active_root.
    if ky_id active_root \<noteq> ky_id key then err (described InvalidGrant ''key is not the active entity root'')
    else ok ()))"

definition find_principal :: "'w OAuth2Service \<Rightarrow> uuid \<Rightarrow> ('w, ErrorResponse, Principal option) op" where
  "find_principal S kid =
    await (repo (kr_find_by_id (ks_key_repo (key_service S)) kid)) (\<lambda>found.
    case found of None \<Rightarrow> ok None
    | Some key \<Rightarrow>
      await (attempt (ensure_key_is_active_entity_root S key)) (\<lambda>active.
      case active of Inl _ \<Rightarrow> ok None
      | Inr _ \<Rightarrow>
        (case ky_entity_type key of
          EntityUser \<Rightarrow>
            await (repo (us_find_user_by_id (user_repo S) (ky_entity_id key))) (\<lambda>user.
            ok (map_option (\<lambda>u. UserPrincipal u key) user))
        | EntityClient \<Rightarrow>
            await (repo (cl_find_client_by_id (client_repo S) (ky_entity_id key))) (\<lambda>client.
            ok (map_option (\<lambda>c. ClientPrincipal c key) client)))))"

definition load_private_key :: "'w idp_env \<Rightarrow> 'w OAuth2Service \<Rightarrow> Key \<Rightarrow> ('w, ErrorResponse, DerivedKey option) op" where
  "load_private_key V S key =
    await (lift (result_map_err ErrorResponse_from_key (Key_derivation_path (env_bip32 V) key))) (\<lambda>path.
    repo (pk_load (ks_private_key_repo (key_service S))
      (scoped_namespace (show_id V) (key_service S) (ky_entity_type key) (ky_entity_id key)) path))"

definition no_private_key :: ErrorResponse where
  "no_private_key = described ServerError ''signing key not found in private key repository''"

definition load_signing_jwk :: "'w idp_env \<Rightarrow> 'w OAuth2Service \<Rightarrow> Key \<Rightarrow> ('w, ErrorResponse, JwkPrivate) op" where
  "load_signing_jwk V S key =
    await (load_private_key V S key) (\<lambda>found.
    case found of Some private_key \<Rightarrow>
      lift (result_map_err ErrorResponse_from_key (to_jwk_private (env_crypto V) (env_bip32 V) (show_id V) key private_key))
    | None \<Rightarrow> err no_private_key)"

definition find_public_jwk :: "'w idp_env \<Rightarrow> 'w OAuth2Service \<Rightarrow> uuid \<Rightarrow> ('w, ErrorResponse, JwkPublic) op" where
  "find_public_jwk V S kid =
    await (repo (kr_find_by_id (ks_key_repo (key_service S)) kid)) (\<lambda>found.
    await (lift (ok_or (described NotFound ''key not found'') found)) (\<lambda>key.
    await (ensure_key_is_active_entity_root S key) (\<lambda>_.
    await (load_private_key V S key) (\<lambda>private.
    await (lift (ok_or no_private_key private)) (\<lambda>private_key.
    lift (result_map_err ErrorResponse_from_key
      (to_jwk_public (env_crypto V) (env_bip32 V) (show_id V) key private_key)))))))"

definition list_jwks :: "'w idp_env \<Rightarrow> 'w OAuth2Service \<Rightarrow> ('w, ErrorResponse, JwkPublic list) op" where
  "list_jwks V S =
    await (repo (kr_list_active (ks_key_repo (key_service S)))) (\<lambda>keys.
    fold_op (\<lambda>jwks key.
      await (attempt (load_signing_jwk V S key)) (\<lambda>loaded.
      case loaded of Inl _ \<Rightarrow> ok jwks
      | Inr jwk \<Rightarrow> ok (jwks @ (case JwkPublic_from jwk of None \<Rightarrow> [] | Some j \<Rightarrow> [j])))) [] keys)"

definition list_client_keys :: "'w OAuth2Service \<Rightarrow> string \<Rightarrow> ('w, ErrorResponse, Key list) op" where
  "list_client_keys S client_id =
    await (find_client S client_id client_not_found) (\<lambda>client.
    await (repo (kr_find_active_entity_root_key (ks_key_repo (key_service S)) EntityClient (cl_id client))) (\<lambda>key.
    ok (case key of Some k \<Rightarrow> [k] | None \<Rightarrow> [])))"

definition metadata :: "'w OAuth2Service \<Rightarrow> AuthorizationServerMetadata" where
  "metadata S = to_metadata (oauth_config S)"

end
