(* ===== verification/Oauth2_Grants.thy ===== *)
theory Oauth2_Grants
  imports Oauth2_Service
begin

text \<open>
  The token endpoint of the OAuth2 service, \<open>crates/idp-service/src/oauth2/service.rs\<close>: the
  issue of tokens and the five grants.
\<close>

section \<open>The issue of tokens\<close>

definition UserInfo_from :: "'w idp_env \<Rightarrow> User \<Rightarrow> UserInfo" where
  "UserInfo_from V u = \<lparr>
    ui_sub = show_id V (usr_id u),
    ui_permissions = [],
    ui_name = Some (usr_name u),
    ui_given_name = usr_given_name u,
    ui_family_name = usr_family_name u,
    ui_middle_name = usr_middle_name u,
    ui_nickname = usr_nickname u,
    ui_preferred_username = usr_nickname u,
    ui_profile = usr_profile u,
    ui_picture = usr_picture u,
    ui_website = usr_website u,
    ui_email = None,
    ui_email_verified = None,
    ui_phone_number = None,
    ui_phone_number_verified = None,
    ui_gender = map_option Sex_to_string (usr_sex u),
    ui_birthdate = map_option (env_to_rfc3339 V) (usr_birthdate u),
    ui_zoneinfo = usr_zoneinfo u,
    ui_locale = usr_locale u,
    ui_updated_at = (case from_timestamp (env_host V) (timestamp (usr_updated_at u)) of
      Some t \<Rightarrow> t | None \<Rightarrow> DateTime 0 0)\<rparr>"

fun entity_user :: "Principal \<Rightarrow> User option" where
  "entity_user (UserPrincipal user key) = Some user"
| "entity_user (ClientPrincipal client key) = None"

fun principal_type :: "Principal \<Rightarrow> PrincipalType" where
  "principal_type (UserPrincipal user key) = PrincipalUser"
| "principal_type (ClientPrincipal client key) = PrincipalClient"

definition access_claims :: "'w idp_env \<Rightarrow> 'w OAuth2Service \<Rightarrow> Client \<Rightarrow> Principal \<Rightarrow> string list \<Rightarrow> string option
    \<Rightarrow> AuthorizationDetail list option \<Rightarrow> string option \<Rightarrow> datetime \<Rightarrow> StandardClaims" where
  "access_claims V S client subject scopes resource details audience n = \<lparr>
    claim_type = Bearer, claim_use = UseAccess,
    claim_exp = timestamp (plus_seconds n (cfg_token_ttl_secs (oauth_config S))),
    claim_iat = timestamp n, claim_nbf = timestamp n,
    claim_iss = cfg_issuer (oauth_config S),
    claim_aud = (case audience of Some a \<Rightarrow> a | None \<Rightarrow> cl_client_id client),
    claim_client_id = cl_client_id client,
    claim_sub = show_id V (get_entity_id subject),
    claim_principal_type = principal_type subject,
    claim_resource = resource, claim_authorization_details = details, claim_scope = scopes\<rparr>"

definition issue_tokens_for_client :: "'w idp_env \<Rightarrow> 'w OAuth2Service \<Rightarrow> Client \<Rightarrow> Principal \<Rightarrow> string list
    \<Rightarrow> string option \<Rightarrow> AuthorizationDetail list option \<Rightarrow> string option \<Rightarrow> ('w, ErrorResponse, TokenResponse) op" where
  "issue_tokens_for_client V S client subject scopes resource details audience =
    (if get_entity_type subject \<noteq> EntityUser
     then err (described AccessDenied ''this grant cannot issue user tokens to a client principal'') else
    await (now V) (\<lambda>n.
    await (load_signing_jwk V S (get_key subject)) (\<lambda>signing_jwk.
    let E = env_crypto V;
        claims = access_claims V S client subject scopes resource details audience n in
    await (lift (encode_jwt E (claims_to_json E) signing_jwk claims)) (\<lambda>access_token.
    await (lift (encode_jwt E (id_claims_to_json E) signing_jwk
      \<lparr>id_standard_claims = claims\<lparr>claim_use := UseId\<rparr>,
       id_user_info = map_option (UserInfo_from V) (entity_user subject)\<rparr>)) (\<lambda>id_token.
    await (lift (encode_jwt E (claims_to_json E) signing_jwk
      (claims\<lparr>claim_use := UseRefresh,
        claim_exp := timestamp (plus_seconds n (cfg_refresh_token_ttl_secs (oauth_config S)))\<rparr>))) (\<lambda>refresh_token.
    ok \<lparr>tr_id_token = Some id_token, tr_access_token = access_token, tr_token_type = Bearer,
      tr_expires_in = Some (cfg_token_ttl_secs (oauth_config S)), tr_refresh_token = Some refresh_token,
      tr_refresh_token_expires_in = Some (cfg_refresh_token_ttl_secs (oauth_config S)),
      tr_scope = (if scopes = [] then None else Some (join '' '' scopes)),
      tr_issuer = Some (cfg_issuer (oauth_config S))\<rparr>))))))"

definition issue_client_credentials_access_token :: "'w idp_env \<Rightarrow> 'w OAuth2Service \<Rightarrow> Client \<Rightarrow> Principal
    \<Rightarrow> string list \<Rightarrow> string \<Rightarrow> string option \<Rightarrow> ('w, ErrorResponse, TokenResponse) op" where
  "issue_client_credentials_access_token V S client subject scopes audience resource =
    (if get_entity_type subject \<noteq> EntityClient \<or> get_entity_id subject \<noteq> cl_id client
     then err (described InvalidClient ''client signing principal does not match the client'') else
    await (now V) (\<lambda>n.
    await (load_signing_jwk V S (get_key subject)) (\<lambda>signing_jwk.
    let E = env_crypto V;
        claims = \<lparr>claim_type = Bearer, claim_use = UseAccess,
          claim_exp = timestamp (plus_seconds n (cfg_token_ttl_secs (oauth_config S))),
          claim_iat = timestamp n, claim_nbf = timestamp n, claim_iss = cfg_issuer (oauth_config S),
          claim_aud = audience, claim_client_id = cl_client_id client, claim_sub = show_id V (cl_id client),
          claim_principal_type = PrincipalClient, claim_resource = resource,
          claim_authorization_details = None, claim_scope = scopes\<rparr> in
    await (lift (encode_jwt E (claims_to_json E) signing_jwk claims)) (\<lambda>access_token.
    ok \<lparr>tr_id_token = None, tr_access_token = access_token, tr_token_type = Bearer,
      tr_expires_in = Some (cfg_token_ttl_secs (oauth_config S)), tr_refresh_token = None,
      tr_refresh_token_expires_in = None, tr_scope = Some (join '' '' scopes),
      tr_issuer = Some (cfg_issuer (oauth_config S))\<rparr>))))"

section \<open>The grants\<close>

definition require :: "ErrorCode \<Rightarrow> string \<Rightarrow> 'a option \<Rightarrow> ('w, ErrorResponse, 'a) op" where
  "require code d found = lift (ok_or (described code d) found)"

definition password :: "'w idp_env \<Rightarrow> 'w OAuth2Service \<Rightarrow> PasswordGrantRequest \<Rightarrow> OAuth2ClientAuth option
    \<Rightarrow> ('w, ErrorResponse, TokenResponse) op" where
  "password V S request client_auth =
    await (find_client S (pg_client_id request)
      (described InvalidClient (''client '' @ pg_client_id request @ '' not found''))) (\<lambda>client.
    await (lift (validate_grant_type client GrantPassword)) (\<lambda>_.
    await (lift (authenticate_client_for_token_endpoint client client_auth)) (\<lambda>_.
    await (repo (us_find_user_by_username_or_email (user_repo S) (pg_username request))) (\<lambda>found.
    await (require InvalidGrant (''user '' @ pg_username request @ '' not found'') found) (\<lambda>user.
    await (repo (us_find_user_password_by_user_id (user_repo S) (usr_id user))) (\<lambda>stored.
    await (require InvalidGrant ''user password not found'' stored) (\<lambda>user_password.
    await (lift (result_map_err (described ServerError)
      (verify_password V (pg_password request) (pw_password_hash user_password)))) (\<lambda>verified.
    if \<not> verified then err (described InvalidGrant ''invalid username or password'') else
    await (repo (kr_find_by_entity (ks_key_repo (key_service S)) EntityUser (usr_id user))) (\<lambda>user_key.
    await (require InvalidGrant ''user key not found'' user_key) (\<lambda>key.
    await (find_principal S (ky_id key)) (\<lambda>principal.
    await (require InvalidGrant ''principal not found for user'' principal) (\<lambda>subject.
    let scopes = intersect_scopes (requested_scopes (pg_scope request)) (cl_allowed_scopes client) in
    issue_tokens_for_client V S client subject scopes (pg_resource request) None None))))))))))))"

definition authorization_code :: "'w idp_env \<Rightarrow> 'w OAuth2Service \<Rightarrow> AuthorizationCodeGrantRequest
    \<Rightarrow> OAuth2ClientAuth option \<Rightarrow> ('w, ErrorResponse, TokenResponse) op" where
  "authorization_code V S request client_auth =
    await (now V) (\<lambda>n.
    await (repo (ac_find_authorization_code_by_code (authorization_code_repo S) (cg_code request))) (\<lambda>found.
    await (require InvalidGrant ''authorization code not found'' found) (\<lambda>code.
    if ac_consumed_at code \<noteq> None then err (described InvalidGrant ''authorization code already consumed'')
    else if ac_expires_at code < n then err (described InvalidGrant ''authorization code expired'')
    else
    await (find_principal S (ac_key_id code)) (\<lambda>principal.
    await (require InvalidGrant ''principal not found for authorization code'' principal) (\<lambda>subject.
    await (find_client S (ac_client_id code) client_not_found) (\<lambda>client.
    await (lift (validate_grant_type client GrantAuthorizationCode)) (\<lambda>_.
    await (lift (authenticate_client_for_token_endpoint client client_auth)) (\<lambda>_.
    await (lift (validate_authorization_code_grant request (ac_client_id code) (Some (ac_redirect_uri code)))) (\<lambda>_.
    await (case ac_code_challenge code of None \<Rightarrow> ok ()
      | Some code_challenge \<Rightarrow>
        await (require InvalidGrant ''code_challenge_method is required when code_challenge is present''
          (ac_code_challenge_method code)) (\<lambda>method.
        lift (verify_code_challenge (env_crypto V) (cg_code_verifier request) code_challenge method))) (\<lambda>_.
    await (repo (ac_consume_authorization_code (authorization_code_repo S) (ac_id code) n)) (\<lambda>_.
    issue_tokens_for_client V S client subject (ac_scopes code) (ac_resource code) None None)))))))))))"

definition client_credentials :: "'w idp_env \<Rightarrow> 'w OAuth2Service \<Rightarrow> ClientCredentialsGrantRequest
    \<Rightarrow> OAuth2ClientAuth option \<Rightarrow> ('w, ErrorResponse, TokenResponse) op" where
  "client_credentials V S request client_auth =
    await (require InvalidClient ''client authentication is required'' client_auth) (\<lambda>auth.
    await (find_client S (auth_client_id auth) client_not_found) (\<lambda>client.
    await (lift (validate_grant_type client GrantClientCredentials)) (\<lambda>_.
    if cl_client_type client \<noteq> Confidential
    then err (described UnauthorizedClient ''client credentials requires a confidential client'') else
    await (case cl_client_secret_expires_at client of None \<Rightarrow> ok ()
      | Some expires_at \<Rightarrow>
        if timestamp expires_at > 0 then
          await (now V) (\<lambda>n. if \<not> n < expires_at
            then err (described InvalidClient ''client credentials have expired'') else ok ())
        else ok ()) (\<lambda>_.
    await (lift (authenticate_client_for_token_endpoint client (Some auth))) (\<lambda>_.
    if cc_client_id request \<noteq> auth_client_id auth
    then err (described InvalidClient ''client_id does not match authenticated client'') else
    await (require InvalidRequest ''an audience is required for client credentials'' (cc_audience request)) (\<lambda>audience.
    if audience \<notin> set (cl_allowed_audiences client)
    then err (described InvalidRequest ''client is not authorized for the requested audience'')
    else if (case cc_resource request of None \<Rightarrow> False | Some resource \<Rightarrow> resource \<noteq> audience)
    then err (described InvalidRequest ''resource must match the approved audience'')
    else
    let scopes = requested_scopes (cc_scope request) in
    if scopes = [] then err (described InvalidScope ''at least one scope is required for client credentials'') else
    await (lift (validate_scopes scopes (cl_allowed_scopes client))) (\<lambda>_.
    await (repo (kr_find_active_entity_root_key (ks_key_repo (key_service S)) EntityClient (cl_id client))) (\<lambda>found.
    await (require InvalidClient ''active client signing key not found'' found) (\<lambda>key.
    await (find_principal S (ky_id key)) (\<lambda>principal.
    await (require InvalidClient ''client principal is inactive'' principal) (\<lambda>subject.
    issue_client_credentials_access_token V S client subject scopes audience (cc_resource request))))))))))))"

definition refresh_token :: "'w idp_env \<Rightarrow> 'w OAuth2Service \<Rightarrow> RefreshTokenGrantRequest \<Rightarrow> OAuth2ClientAuth option
    \<Rightarrow> ('w, ErrorResponse, TokenResponse) op" where
  "refresh_token V S request client_auth =
    await (now V) (\<lambda>n.
    await (lift (decode_jwt (env_crypto V) (claims_from_json (env_crypto V)) (rg_refresh_token request)))
      (\<lambda>(jwt_header, claims).
    if claim_use claims \<noteq> UseRefresh then err (described InvalidGrant ''token is not a refresh token'')
    else if claim_exp claims < timestamp n then err (described InvalidGrant ''refresh token is expired'')
    else
    await (require InvalidGrant ''invalid refresh token signing key'' (env_parse_uuid V (hdr_kid jwt_header))) (\<lambda>kid.
    await (repo (kr_find_by_id (ks_key_repo (key_service S)) kid)) (\<lambda>found.
    await (require InvalidGrant ''refresh token signing key not found'' found) (\<lambda>key.
    await (find_client S (claim_client_id claims) client_not_found) (\<lambda>client.
    await (lift (validate_grant_type client GrantRefreshToken)) (\<lambda>_.
    await (lift (authenticate_client_for_token_endpoint client client_auth)) (\<lambda>_.
    let requested = requested_scopes (rg_scope request) in
    await (if requested = [] then ok (claim_scope claims)
      else let scopes = intersect_scopes requested (claim_scope claims) in
        if length scopes \<noteq> length requested
        then err (described InvalidScope ''requested scope must be a subset of refresh token scope'')
        else ok scopes) (\<lambda>scopes.
    await (find_principal S (ky_id key)) (\<lambda>principal.
    await (require InvalidGrant ''principal not found for refresh token'' principal) (\<lambda>subject.
    issue_tokens_for_client V S client subject scopes (claim_resource claims) (claim_authorization_details claims)
      None)))))))))))"

definition token_exchange :: "'w idp_env \<Rightarrow> 'w OAuth2Service \<Rightarrow> TokenExchangeGrantRequest \<Rightarrow> OAuth2ClientAuth option
    \<Rightarrow> ('w, ErrorResponse, TokenResponse) op" where
  "token_exchange V S request client_auth =
    (if te_subject_token_type request \<noteq> SubjectAccessToken
     then err (described InvalidRequest ''subject_token_type must be access_token'') else
    let E = env_crypto V in
    await (lift (decode_jwt E (claims_from_json E) (te_subject_token request))) (\<lambda>(jwt_header, _).
    await (require InvalidGrant ''invalid subject token signing key'' (env_parse_uuid V (hdr_kid jwt_header))) (\<lambda>kid.
    await (find_public_jwk V S kid) (\<lambda>jwk.
    await (lift (verify_jwt E (claims_from_json E) jwk (te_subject_token request))) (\<lambda>(_, claims).
    await (now V) (\<lambda>n.
    if claim_type claims \<noteq> Bearer \<or> claim_use claims \<noteq> UseAccess
      \<or> claim_iss claims \<noteq> cfg_issuer (oauth_config S) \<or> claim_exp claims \<le> timestamp n
      \<or> claim_nbf claims > timestamp n \<or> claim_aud claims = []
    then err (described InvalidGrant ''invalid subject access token'') else
    await (repo (kr_find_by_id (ks_key_repo (key_service S)) kid)) (\<lambda>found.
    await (require InvalidGrant ''subject token signing key not found'' found) (\<lambda>key.
    await (find_client S (claim_client_id claims) client_not_found) (\<lambda>client.
    await (lift (validate_grant_type client GrantTokenExchange)) (\<lambda>_.
    await (lift (authenticate_client_for_token_endpoint client client_auth)) (\<lambda>_.
    let requested = requested_scopes (te_scope request);
        scopes = (if requested = [] then claim_scope claims else intersect_scopes requested (claim_scope claims)) in
    await (case te_authorization_details request of None \<Rightarrow> ok ()
      | Some details \<Rightarrow> lift (validate_authorization_details details)) (\<lambda>_.
    await (find_principal S (ky_id key)) (\<lambda>principal.
    await (require InvalidGrant ''principal not found for subject_token'' principal) (\<lambda>subject.
    let resource = (case te_resource request of Some r \<Rightarrow> Some r | None \<Rightarrow> claim_resource claims) in
    issue_tokens_for_client V S client subject scopes resource (te_authorization_details request)
      resource))))))))))))))"

fun token :: "'w idp_env \<Rightarrow> 'w OAuth2Service \<Rightarrow> TokenRequest \<Rightarrow> OAuth2ClientAuth option
    \<Rightarrow> ('w, ErrorResponse, TokenResponse) op" where
  "token V S (Password request) client_auth = password V S request client_auth"
| "token V S (AuthorizationCode request) client_auth = authorization_code V S request client_auth"
| "token V S (ClientCredentials request) client_auth = client_credentials V S request client_auth"
| "token V S (RefreshToken request) client_auth = refresh_token V S request client_auth"
| "token V S (TokenExchange request) client_auth = token_exchange V S request client_auth"

section \<open>Other endpoints\<close>

definition revoke :: "RevocationRequest \<Rightarrow> ('w, ErrorResponse, unit) op" where
  "revoke request =
    (if blank (rv_token request) then err (described InvalidRequest ''token is required'')
     else err (described UnsupportedGrantType ''token revocation is not implemented''))"

definition device_authorization :: "'w idp_env \<Rightarrow> 'w OAuth2Service \<Rightarrow> DeviceAuthorizationRequest
    \<Rightarrow> ('w, ErrorResponse, DeviceAuthorization) op" where
  "device_authorization V S request =
    (if da_client_id request = Some [] then err (described InvalidRequest ''client_id cannot be empty'') else
    let issuer = trim_end_slashes (cfg_issuer (oauth_config S)) in
    await (generate_random_string V 32) (\<lambda>user_code.
    await (generate_random_string V 32) (\<lambda>device_code.
    ok \<lparr>dz_code = Some device_code, dz_expires_in = Some (cfg_device_code_ttl_secs (oauth_config S)),
      dz_interval = Some (cfg_device_poll_interval_secs (oauth_config S)), dz_user_code = Some user_code,
      dz_verification_uri = Some (issuer @ ''/oauth2/device/verify''),
      dz_verification_uri_complete = Some (issuer @ ''/oauth2/device/verify?user_code='' @ user_code)\<rparr>)))"

end
