(* ===== verification/Oauth2_Users.thy ===== *)
theory Oauth2_Users
  imports Oauth2_Grants
begin

text \<open>
  The administration of users and their consents in the OAuth2 service,
  \<open>crates/idp-service/src/oauth2/service.rs\<close>.
\<close>

definition user_not_found :: ErrorResponse where
  "user_not_found = described NotFound ''User not found''"

definition hydrate_user_info :: "'w idp_env \<Rightarrow> 'w OAuth2Service \<Rightarrow> User \<Rightarrow> ('w, ErrorResponse, UserInfo) op" where
  "hydrate_user_info V S user =
    (let info = UserInfo_from V user in
    await (repo (us_find_user_emails_by_user_id (user_repo S) (usr_id user))) (\<lambda>emails.
    let info = (case List.find em_primary emails of None \<Rightarrow> info
      | Some e \<Rightarrow> info\<lparr>ui_email := Some (em_email e), ui_email_verified := Some (em_verified e)\<rparr>) in
    await (repo (us_find_user_phone_numbers_by_user_id (user_repo S) (usr_id user))) (\<lambda>phone_numbers.
    let info = (case List.find ph_primary phone_numbers of None \<Rightarrow> info
      | Some p \<Rightarrow> info\<lparr>ui_phone_number := Some (ph_phone_number p), ui_phone_number_verified := Some (ph_verified p)\<rparr>) in
    ok info)))"

definition find_user_info :: "'w idp_env \<Rightarrow> 'w OAuth2Service \<Rightarrow> uuid \<Rightarrow> ('w, ErrorResponse, UserInfo) op" where
  "find_user_info V S user_id =
    await (repo (us_find_user_by_id (user_repo S) user_id)) (\<lambda>found.
    await (lift (ok_or user_not_found found)) (\<lambda>user. hydrate_user_info V S user))"

definition list_user_info :: "'w idp_env \<Rightarrow> 'w OAuth2Service \<Rightarrow> 32 word \<Rightarrow> 32 word \<Rightarrow> ('w, ErrorResponse, UserInfo list) op" where
  "list_user_info V S offset limit =
    await (repo (us_list_users (user_repo S) offset limit)) (\<lambda>users.
    fold_op (\<lambda>infos user. await (hydrate_user_info V S user) (\<lambda>info. ok (infos @ [info]))) [] users)"

definition or_else :: "'a option \<Rightarrow> 'a option \<Rightarrow> 'a option" where
  "or_else a b = (case a of None \<Rightarrow> b | Some x \<Rightarrow> Some x)"

definition parse_sex :: "string option \<Rightarrow> Sex option \<Rightarrow> ErrorResponse + Sex option" where
  "parse_sex requested existing =
    (case requested of None \<Rightarrow> Inr existing
    | Some s \<Rightarrow>
      if s = ''male'' then Inr (Some Male)
      else if s = ''female'' then Inr (Some Female)
      else Inl (described InvalidRequest (''unsupported sex value: '' @ s)))"

definition parse_birthdate :: "'w idp_env \<Rightarrow> string option \<Rightarrow> datetime option \<Rightarrow> ErrorResponse + datetime option" where
  "parse_birthdate V requested existing =
    (case requested of None \<Rightarrow> Inr existing
    | Some s \<Rightarrow> and_then (ok_or (described InvalidRequest ''birthdate must be RFC3339'') (env_parse_rfc3339 V s))
        (\<lambda>t. Inr (Some t)))"

definition updated_user :: "User \<Rightarrow> UpdateUserInfoRequest \<Rightarrow> Sex option \<Rightarrow> datetime option \<Rightarrow> datetime \<Rightarrow> User" where
  "updated_user existing request sex birthdate n = \<lparr>
    usr_id = usr_id existing,
    usr_name = (case up_name request of Some s \<Rightarrow> s | None \<Rightarrow> usr_name existing),
    usr_given_name = or_else (up_given_name request) (usr_given_name existing),
    usr_family_name = or_else (up_family_name request) (usr_family_name existing),
    usr_middle_name = or_else (up_middle_name request) (usr_middle_name existing),
    usr_nickname = or_else (up_nickname request) (usr_nickname existing),
    usr_profile = or_else (up_profile request) (usr_profile existing),
    usr_picture = or_else (up_picture request) (usr_picture existing),
    usr_website = or_else (up_website request) (usr_website existing),
    usr_sex = sex,
    usr_birthdate = birthdate,
    usr_zoneinfo = or_else (up_zoneinfo request) (usr_zoneinfo existing),
    usr_locale = or_else (up_locale request) (usr_locale existing),
    usr_created_at = usr_created_at existing,
    usr_updated_at = n\<rparr>"

definition update_user_info :: "'w idp_env \<Rightarrow> 'w OAuth2Service \<Rightarrow> uuid \<Rightarrow> UpdateUserInfoRequest
    \<Rightarrow> ('w, ErrorResponse, UserInfo) op" where
  "update_user_info V S user_id request =
    await (repo (us_find_user_by_id (user_repo S) user_id)) (\<lambda>found.
    await (lift (ok_or user_not_found found)) (\<lambda>existing.
    await (lift (parse_sex (up_sex request) (usr_sex existing))) (\<lambda>sex.
    await (lift (parse_birthdate V (up_birthdate request) (usr_birthdate existing))) (\<lambda>birthdate.
    await (now V) (\<lambda>n.
    await (repo (us_update_user (user_repo S) (updated_user existing request sex birthdate n))) (\<lambda>user.
    await (case up_email request of None \<Rightarrow> ok ()
      | Some email \<Rightarrow> repo (us_upsert_primary_user_email (user_repo S) (usr_id user) email
          (case up_email_verified request of None \<Rightarrow> False | Some b \<Rightarrow> b))) (\<lambda>_.
    await (case up_phone_number request of None \<Rightarrow> ok ()
      | Some phone_number \<Rightarrow> repo (us_upsert_primary_user_phone_number (user_repo S) (usr_id user) phone_number
          (case up_phone_number_verified request of None \<Rightarrow> False | Some b \<Rightarrow> b))) (\<lambda>_.
    hydrate_user_info V S user))))))))"

definition ensure_user :: "'w OAuth2Service \<Rightarrow> uuid \<Rightarrow> ('w, ErrorResponse, unit) op" where
  "ensure_user S user_id =
    await (repo (us_find_user_by_id (user_repo S) user_id)) (\<lambda>found.
    if found = None then err user_not_found else ok ())"

definition reset_user_password :: "'w OAuth2Service \<Rightarrow> uuid \<Rightarrow> string \<Rightarrow> ('w, ErrorResponse, unit) op" where
  "reset_user_password S user_id new_password =
    await (ensure_user S user_id) (\<lambda>_. repo (us_replace_user_password (user_repo S) user_id new_password))"

definition delete_user :: "'w OAuth2Service \<Rightarrow> uuid \<Rightarrow> ('w, ErrorResponse, unit) op" where
  "delete_user S user_id = await (ensure_user S user_id) (\<lambda>_. repo (us_delete_user_by_id (user_repo S) user_id))"

definition list_user_consents :: "'w OAuth2Service \<Rightarrow> uuid \<Rightarrow> 32 word \<Rightarrow> 32 word
    \<Rightarrow> ('w, ErrorResponse, OAuth2UserConsent list) op" where
  "list_user_consents S user_id offset limit =
    await (ensure_user S user_id) (\<lambda>_. repo (uc_list_user_consents (oauth2_user_consent_repo S) user_id offset limit))"

definition consent_not_found :: ErrorResponse where
  "consent_not_found = described NotFound ''User consent not found''"

definition revoke_user_consent :: "'w OAuth2Service \<Rightarrow> uuid \<Rightarrow> uuid \<Rightarrow> ('w, ErrorResponse, unit) op" where
  "revoke_user_consent S user_id consent_id =
    await (ensure_user S user_id) (\<lambda>_.
    await (repo (uc_find_user_consent_by_id (oauth2_user_consent_repo S) consent_id)) (\<lambda>found.
    await (lift (ok_or consent_not_found found)) (\<lambda>consent.
    if co_user_id consent \<noteq> user_id then err consent_not_found
    else repo (uc_delete_user_consent_by_id (oauth2_user_consent_repo S) consent_id))))"

end
