(* ===== verification/Oauth2_Safety.thy ===== *)
theory Oauth2_Safety
  imports Oauth2_Users
begin

text \<open>
  What a successful answer of the OAuth2 service means, for every implementation of its
  repositories: who was authenticated, what was checked, and what the issued tokens say.
\<close>

section \<open>Vocabulary\<close>

text \<open>The lookup of a client by its public identifier returned this client in some state of the run.\<close>

definition client_known :: "'w OAuth2Service \<Rightarrow> string \<Rightarrow> Client \<Rightarrow> bool" where
  "client_known S client_id client =
    (\<exists>w0 w1. cl_find_client_by_client_id (client_repo S) client_id w0 = (Inr (Some client), w1))"

definition grant_allowed :: "Client \<Rightarrow> GrantType \<Rightarrow> bool" where
  "grant_allowed client grant = (cl_allowed_grant_types client = [] \<or> grant \<in> set (cl_allowed_grant_types client))"

text \<open>A confidential client shows its secret by its registered method; a public client may name
  itself but nobody else.\<close>

definition client_authenticated :: "Client \<Rightarrow> OAuth2ClientAuth option \<Rightarrow> bool" where
  "client_authenticated client client_auth =
    (case cl_client_type client of
      Confidential \<Rightarrow> \<exists>auth. client_auth = Some auth \<and> auth_client_id auth = cl_client_id client
        \<and> auth_method auth = cl_token_endpoint_auth_method client
        \<and> auth_method auth \<in> {ClientSecretBasic, ClientSecretPost}
        \<and> auth_client_secret auth = Some (cl_client_secret client)
    | Public \<Rightarrow> \<forall>auth. client_auth = Some auth \<longrightarrow> auth_client_id auth = cl_client_id client)"

text \<open>The token is the encoding of the claims under a signing key loaded for the key.\<close>

definition issued :: "'w idp_env \<Rightarrow> 'w OAuth2Service \<Rightarrow> Key \<Rightarrow> StandardClaims \<Rightarrow> string \<Rightarrow> bool" where
  "issued V S key claims jwt =
    (\<exists>jwk w0 w1. load_signing_jwk V S key w0 = (Inr jwk, w1)
      \<and> encode_jwt (env_crypto V) (claims_to_json (env_crypto V)) jwk claims = Inr jwt)"

fun grant_of :: "TokenRequest \<Rightarrow> GrantType" where
  "grant_of (Password _) = GrantPassword"
| "grant_of (AuthorizationCode _) = GrantAuthorizationCode"
| "grant_of (ClientCredentials _) = GrantClientCredentials"
| "grant_of (RefreshToken _) = GrantRefreshToken"
| "grant_of (TokenExchange _) = GrantTokenExchange"

text \<open>An access token of the client about the subject.\<close>

definition access_token_for :: "'w idp_env \<Rightarrow> 'w OAuth2Service \<Rightarrow> Client \<Rightarrow> Principal \<Rightarrow> StandardClaims \<Rightarrow> bool" where
  "access_token_for V S client subject claims =
    (claim_type claims = Bearer \<and> claim_use claims = UseAccess
    \<and> claim_iss claims = cfg_issuer (oauth_config S)
    \<and> claim_client_id claims = cl_client_id client
    \<and> claim_sub claims = show_id V (get_entity_id subject)
    \<and> claim_principal_type claims = principal_type subject
    \<and> claim_nbf claims = claim_iat claims
    \<and> claim_exp claims = claim_iat claims + sint (cfg_token_ttl_secs (oauth_config S)))"

section \<open>The checks\<close>

lemma authenticate_iff:
  "authenticate_client_for_token_endpoint client client_auth = Inr () \<longleftrightarrow> client_authenticated client client_auth"
  by (cases client_auth)
    (auto simp: authenticate_client_for_token_endpoint_def client_authenticated_def split: ClientType.split)

lemma validate_grant_type_iff: "validate_grant_type client grant = Inr () \<longleftrightarrow> grant_allowed client grant"
  by (simp add: validate_grant_type_def grant_allowed_def)

lemma validate_scopes_iff: "validate_scopes requested granted = Inr () \<longleftrightarrow> set requested \<subseteq> set granted"
  by (cases requested) (auto simp: validate_scopes_def Let_def filter_empty_conv)

lemmas checks = authenticate_iff validate_grant_type_iff validate_scopes_iff

lemma set_intersect_scopes: "set (intersect_scopes requested granted) \<subseteq> set granted"
  by (auto simp: intersect_scopes_def)

lemma find_client_returns [returns]:
  "find_client S client_id e w = (Inr client, w') \<longleftrightarrow>
    cl_find_client_by_client_id (client_repo S) client_id w = (Inr (Some client), w')"
  by (auto simp: find_client_def returns)

lemma require_returns [returns]: "require code d found w = (Inr a, w') \<longleftrightarrow> found = Some a \<and> w' = w"
  by (auto simp: require_def returns)

lemma client_knownI:
  "cl_find_client_by_client_id (client_repo S) client_id w = (Inr (Some client), w') \<Longrightarrow> client_known S client_id client"
  by (auto simp: client_known_def)

lemma issuedI:
  "load_signing_jwk V S key w = (Inr jwk, w') \<Longrightarrow>
    encode_jwt (env_crypto V) (claims_to_json (env_crypto V)) jwk claims = Inr jwt \<Longrightarrow> issued V S key claims jwt"
  by (auto simp: issued_def)

lemma principal_type_user: "get_entity_type subject = EntityUser \<Longrightarrow> principal_type subject = PrincipalUser"
  by (cases subject) auto

lemma principal_type_client: "get_entity_type subject = EntityClient \<Longrightarrow> principal_type subject = PrincipalClient"
  by (cases subject) auto

lemma issue_tokens_returns:
  assumes "issue_tokens_for_client V S client subject scopes resource details audience w = (Inr response, w')"
  shows "\<exists>claims. issued V S (get_key subject) claims (tr_access_token response)
    \<and> access_token_for V S client subject claims \<and> claim_scope claims = scopes
    \<and> claim_resource claims = resource \<and> claim_authorization_details claims = details
    \<and> claim_aud claims = (case audience of Some a \<Rightarrow> a | None \<Rightarrow> cl_client_id client)
    \<and> principal_type subject = PrincipalUser \<and> tr_refresh_token response \<noteq> None"
proof -
  from assms obtain n jwk w1 w2 where user: "get_entity_type subject = EntityUser"
    and load: "load_signing_jwk V S (get_key subject) w1 = (Inr jwk, w2)"
    and jwt: "encode_jwt (env_crypto V) (claims_to_json (env_crypto V)) jwk
      (access_claims V S client subject scopes resource details audience n) = Inr (tr_access_token response)"
    and refresh: "tr_refresh_token response \<noteq> None"
    by (auto simp: issue_tokens_for_client_def Let_def returns split: if_splits)
  from load jwt have "issued V S (get_key subject) (access_claims V S client subject scopes resource details audience n)
      (tr_access_token response)"
    by (auto simp: issued_def)
  with user refresh show ?thesis
    by (intro exI [of _ "access_claims V S client subject scopes resource details audience n"])
      (simp add: access_token_for_def access_claims_def plus_seconds_def principal_type_user)
qed

lemma issue_client_credentials_returns:
  assumes "issue_client_credentials_access_token V S client subject scopes audience resource w = (Inr response, w')"
  shows "\<exists>claims. issued V S (get_key subject) claims (tr_access_token response)
    \<and> access_token_for V S client subject claims \<and> claim_scope claims = scopes
    \<and> claim_resource claims = resource \<and> claim_authorization_details claims = None
    \<and> claim_aud claims = audience \<and> get_entity_id subject = cl_id client
    \<and> principal_type subject = PrincipalClient \<and> tr_refresh_token response = None \<and> tr_id_token response = None"
  using assms unfolding issue_client_credentials_access_token_def Let_def
  by (clarsimp simp: returns del: not_None_eq)
    (intro exI conjI, erule (1) issuedI, simp_all add: access_token_for_def plus_seconds_def principal_type_client)

section \<open>The grants\<close>

text \<open>What every grant has established when it answers, and what is particular to each.\<close>

definition granted :: "'w idp_env \<Rightarrow> 'w OAuth2Service \<Rightarrow> GrantType \<Rightarrow> string \<Rightarrow> OAuth2ClientAuth option \<Rightarrow> Client
    \<Rightarrow> Principal \<Rightarrow> StandardClaims \<Rightarrow> TokenResponse \<Rightarrow> bool" where
  "granted V S grant client_id client_auth client subject claims response =
    (client_known S client_id client \<and> grant_allowed client grant \<and> client_authenticated client client_auth
    \<and> issued V S (get_key subject) claims (tr_access_token response) \<and> access_token_for V S client subject claims)"

lemma client_credentials_returns:
  assumes "client_credentials V S request client_auth w = (Inr response, w')"
  shows "\<exists>client subject claims. granted V S GrantClientCredentials (cc_client_id request) client_auth client subject claims response
    \<and> cl_client_type client = Confidential
    \<and> get_entity_id subject = cl_id client \<and> principal_type subject = PrincipalClient
    \<and> cc_audience request = Some (claim_aud claims) \<and> claim_aud claims \<in> set (cl_allowed_audiences client)
    \<and> (cc_resource request = None \<or> cc_resource request = cc_audience request)
    \<and> claim_scope claims = requested_scopes (cc_scope request) \<and> claim_scope claims \<noteq> []
    \<and> set (claim_scope claims) \<subseteq> set (cl_allowed_scopes client)
    \<and> tr_refresh_token response = None \<and> tr_id_token response = None"
proof -
  have resource: "\<not> (case cc_resource request of None \<Rightarrow> False | Some resource \<Rightarrow> resource \<noteq> audience) \<longleftrightarrow>
      cc_resource request = None \<or> cc_resource request = Some audience" for audience
    by (simp split: option.split)
  show ?thesis
    by (insert assms, unfold client_credentials_def Let_def, simp add: returns checks resource, clarify,
        drule issue_client_credentials_returns, drule client_knownI, clarify, unfold granted_def,
        intro exI conjI, simp, auto)
qed

lemma password_returns:
  assumes "password V S request client_auth w = (Inr response, w')"
  shows "\<exists>client subject claims user stored. granted V S GrantPassword (pg_client_id request) client_auth client subject claims response
    \<and> (\<exists>w0 w1. us_find_user_by_username_or_email (user_repo S) (pg_username request) w0 = (Inr (Some user), w1))
    \<and> (\<exists>w0 w1. us_find_user_password_by_user_id (user_repo S) (usr_id user) w0 = (Inr (Some stored), w1))
    \<and> verify_password V (pg_password request) (pw_password_hash stored) = Inr True
    \<and> principal_type subject = PrincipalUser
    \<and> set (claim_scope claims) \<subseteq> set (cl_allowed_scopes client) \<and> tr_refresh_token response \<noteq> None"
  by (insert assms, unfold password_def Let_def, simp add: returns checks del: not_None_eq, clarify,
      drule issue_tokens_returns, drule client_knownI, clarify, unfold granted_def,
      intro exI conjI, assumption+, auto dest: subsetD [OF set_intersect_scopes])

text \<open>The code as the lookup returned it, before it was used.\<close>

definition code_usable :: "'w idp_env \<Rightarrow> AuthorizationCodeGrantRequest \<Rightarrow> OAuth2AuthorizationCode \<Rightarrow> datetime \<Rightarrow> bool" where
  "code_usable V request code n =
    (ac_consumed_at code = None \<and> \<not> ac_expires_at code < n
    \<and> (cg_client_id request = None \<or> cg_client_id request = Some (ac_client_id code))
    \<and> (cg_redirect_uri request = None \<or> cg_redirect_uri request = Some (ac_redirect_uri code))
    \<and> (\<forall>challenge. ac_code_challenge code = Some challenge \<longrightarrow> ac_code_challenge_method code = Some S256
        \<and> b64url_encode (env_crypto V) (sha256 (env_crypto V) (str_bytes (cg_code_verifier request))) = challenge))"

lemma validate_code_grant_iff:
  "validate_authorization_code_grant request client_id (Some redirect_uri) = Inr () \<longleftrightarrow>
    cg_code request \<noteq> [] \<and> cg_code_verifier request \<noteq> []
    \<and> (cg_client_id request = None \<or> cg_client_id request = Some client_id)
    \<and> (cg_redirect_uri request = None \<or> cg_redirect_uri request = Some redirect_uri)"
  by (auto simp: validate_authorization_code_grant_def split: option.split)

lemma verify_challenge_iff:
  "verify_code_challenge E verifier challenge m = Inr () \<longleftrightarrow>
    m = S256 \<and> b64url_encode E (sha256 E (str_bytes verifier)) = challenge"
  by (cases m) simp

lemma challenge_returns:
  "(case ac_code_challenge code of None \<Rightarrow> ok ()
      | Some code_challenge \<Rightarrow>
        await (require InvalidGrant d (ac_code_challenge_method code)) (\<lambda>method.
        lift (verify_code_challenge E verifier code_challenge method))) w = (Inr u, w') \<longleftrightarrow>
    w' = w \<and> (\<forall>challenge. ac_code_challenge code = Some challenge \<longrightarrow> ac_code_challenge_method code = Some S256
        \<and> b64url_encode E (sha256 E (str_bytes verifier)) = challenge)"
  by (cases "ac_code_challenge code"; cases "ac_code_challenge_method code") (auto simp: returns verify_challenge_iff)

lemma authorization_code_returns:
  assumes "authorization_code V S request client_auth w = (Inr response, w')"
  shows "\<exists>client subject claims code n w0 w1 w2 w3.
    ac_find_authorization_code_by_code (authorization_code_repo S) (cg_code request) w0 = (Inr (Some code), w1)
    \<and> code_usable V request code n
    \<and> granted V S GrantAuthorizationCode (ac_client_id code) client_auth client subject claims response
    \<and> principal_type subject = PrincipalUser \<and> claim_scope claims = ac_scopes code
    \<and> ac_consume_authorization_code (authorization_code_repo S) (ac_id code) n w2 = (Inr (), w3)
    \<and> tr_refresh_token response \<noteq> None"
  by (insert assms, unfold authorization_code_def,
      simp add: returns checks challenge_returns validate_code_grant_iff del: not_None_eq,
      clarify, drule issue_tokens_returns, drule client_knownI, clarify,
      unfold granted_def code_usable_def, intro exI conjI, assumption+, simp)

lemma refresh_token_returns:
  assumes "refresh_token V S request client_auth w = (Inr response, w')"
  shows "\<exists>client subject claims header old. decode_jwt (env_crypto V) (claims_from_json (env_crypto V))
        (rg_refresh_token request) = Inr (header, old)
    \<and> claim_use old = UseRefresh
    \<and> granted V S GrantRefreshToken (claim_client_id old) client_auth client subject claims response
    \<and> principal_type subject = PrincipalUser \<and> set (claim_scope claims) \<subseteq> set (claim_scope old)
    \<and> claim_resource claims = claim_resource old
    \<and> claim_authorization_details claims = claim_authorization_details old \<and> tr_refresh_token response \<noteq> None"
  by (insert assms, unfold refresh_token_def Let_def, cases "requested_scopes (rg_scope request) = []";
      simp add: returns checks case_prod_beta del: not_None_eq,
      clarify, drule issue_tokens_returns, drule client_knownI,
      clarify, unfold granted_def, intro exI conjI, assumption+,
      auto dest: subsetD [OF set_intersect_scopes])

lemma details_returns:
  "(case found of None \<Rightarrow> ok () | Some details \<Rightarrow> lift (check details)) w = (Inr u, w') \<longleftrightarrow>
    w' = w \<and> (\<forall>details. found = Some details \<longrightarrow> check details = Inr ())"
  by (auto simp: returns split: option.split)

lemma token_exchange_returns:
  assumes "token_exchange V S request client_auth w = (Inr response, w')"
  shows "\<exists>client subject claims header old jwk key n. te_subject_token_type request = SubjectAccessToken
    \<and> (\<exists>w0 w1. find_public_jwk V S key w0 = (Inr jwk, w1))
    \<and> verify_jwt (env_crypto V) (claims_from_json (env_crypto V)) jwk (te_subject_token request) = Inr (header, old)
    \<and> claim_type old = Bearer \<and> claim_use old = UseAccess \<and> claim_iss old = cfg_issuer (oauth_config S)
    \<and> (\<exists>w0 w1. utc_now (env_host V) w0 = (n, w1)) \<and> claim_nbf old \<le> timestamp n \<and> timestamp n < claim_exp old
    \<and> granted V S GrantTokenExchange (claim_client_id old) client_auth client subject claims response
    \<and> principal_type subject = PrincipalUser \<and> set (claim_scope claims) \<subseteq> set (claim_scope old)
    \<and> (\<forall>details. te_authorization_details request = Some details \<longrightarrow> validate_authorization_details details = Inr ())
    \<and> claim_authorization_details claims = te_authorization_details request \<and> tr_refresh_token response \<noteq> None"
  by (insert assms, unfold token_exchange_def Let_def now_def, cases "requested_scopes (te_scope request) = []";
      simp add: returns checks details_returns case_prod_beta not_less not_le del: not_None_eq,
      clarify, drule issue_tokens_returns, drule client_knownI, clarify,
      unfold granted_def, intro exI conjI, assumption+,
      auto dest: subsetD [OF set_intersect_scopes])

end
