(* ===== verification/Token_Codec.thy ===== *)
theory Token_Codec
  imports Keys
begin

text \<open>
  Tokens read back what was signed: the laws of the external codecs and signatures that
  \<open>jwt.rs\<close> relies on (locale \<open>token_codec\<close>), what follows for \<open>encode_jwt\<close>, \<open>decode_jwt\<close> and
  \<open>verify_jwt\<close>, and an executable codec that satisfies the laws.
\<close>

section \<open>The laws\<close>

text \<open>What the crates document: base64 and JSON give back what they encoded, URL-safe base64 writes no
  dot, and a signature verifies under the public point of the private key that made it.\<close>

locale token_codec =
  fixes E :: crypto and B :: bip32
  assumes b64url_inverse: "b64url_decode E (b64url_encode E bs) = Inr bs"
    and b64url_no_dot: "CHR ''.'' \<notin> set (b64url_encode E bs)"
    and b64_inverse: "b64_decode E (b64_encode E bs) = Inr bs"
    and header_inverse: "header_to_json E h = Inr bs \<Longrightarrow> header_from_json E bs = Inr h"
    and claims_inverse: "claims_to_json E c = Inr bs \<Longrightarrow> claims_from_json E bs = Inr c"
    and signature_inverse: "signature_from_slice E (sign_bytes E k m) = Inr (sign_bytes E k m)"
    and key_pair: "signing_key_from_slice E (private_bytes B xprv) = Inr k \<Longrightarrow>
      public_point B xprv = (Some x, Some y) \<Longrightarrow>
      \<exists>v. verifying_key_from_sec1 E (4 # x @ y) = Inr v \<and> (\<forall>m. verify_bytes E v m (sign_bytes E k m) = Inr ())"
begin

definition header_for :: "string \<Rightarrow> JwtHeader" where
  "header_for kid = \<lparr>hdr_alg = JWT_HEADER_ALG, hdr_typ = JWT_HEADER_TYP, hdr_kid = kid, hdr_jwk = None\<rparr>"

lemma encode_returns:
  assumes "encode_jwt E (claims_to_json E) jwk claims = Inr jwt"
  shows "\<exists>hb cb k. header_to_json E (header_for (jp_kid jwk)) = Inr hb \<and> claims_to_json E claims = Inr cb
    \<and> signing_key_from_jwk E jwk = Inr k
    \<and> jwt = b64url_encode E hb @ CHR ''.'' # b64url_encode E cb @ CHR ''.''
      # b64url_encode E (sign_bytes E k (str_bytes (b64url_encode E hb @ ''.'' @ b64url_encode E cb)))"
  using assms by (auto simp: encode_jwt_def Let_def header_for_def)

lemma decode_encoded:
  assumes "encode_jwt E (claims_to_json E) jwk claims = Inr jwt"
  shows "decode_jwt E (claims_from_json E) jwt = Inr (header_for (jp_kid jwk), claims)"
proof -
  from encode_returns [OF assms] obtain hb cb t where
    json: "header_to_json E (header_for (jp_kid jwk)) = Inr hb" "claims_to_json E claims = Inr cb"
    and jwt: "jwt = b64url_encode E hb @ CHR ''.'' # b64url_encode E cb @ CHR ''.'' # t"
    by blast
  show ?thesis
    unfolding decode_jwt_def jwt
    by (simp add: b64url_no_dot decode_part_def parse_part_def b64url_inverse header_inverse [OF json(1)]
        claims_inverse [OF json(2)])
qed

text \<open>Both published forms of a key carry its public point.\<close>

lemma verifying_key:
  assumes "to_jwk_private E B show_id key derived = Inr jwk" "signing_key_from_jwk E jwk = Inr k"
    and "jk_params public = PublicEc crv (ec_x (jp_params jwk)) (ec_y (jp_params jwk))"
  shows "\<exists>v. verifing_key_from_jwt E public = Inr v \<and> (\<forall>m. verify_bytes E v m (sign_bytes E k m) = Inr ())"
proof -
  from assms(1) obtain x y where point: "public_point B (dk_key derived) = (Some x, Some y)"
    and params: "jp_params jwk = PrivateEc ''secp256k1'' (b64_encode E x) (b64_encode E y)
      (b64_encode E (private_bytes B (dk_key derived)))"
    by (cases "public_point B (dk_key derived)") (auto simp: to_jwk_private_def to_xyd_def to_xy_def)
  from assms(2) have "signing_key_from_slice E (private_bytes B (dk_key derived)) = Inr k"
    by (simp add: signing_key_from_jwk_def params b64_inverse)
  from key_pair [OF this point] obtain v where "verifying_key_from_sec1 E (4 # x @ y) = Inr v"
    "\<forall>m. verify_bytes E v m (sign_bytes E k m) = Inr ()" by blast
  then show ?thesis
    by (simp add: verifing_key_from_jwt_def assms(3) params b64_inverse)
qed

lemma verify_encoded:
  assumes key: "to_jwk_private E B show_id key derived = Inr jwk"
    and public: "jk_params public = PublicEc crv (ec_x (jp_params jwk)) (ec_y (jp_params jwk))"
    and encode: "encode_jwt E (claims_to_json E) jwk claims = Inr jwt"
  shows "verify_jwt E (claims_from_json E) public jwt = Inr (header_for (show_id (ky_id key)), claims)"
proof -
  from encode_returns [OF encode] obtain hb cb k where
    json: "header_to_json E (header_for (jp_kid jwk)) = Inr hb" "claims_to_json E claims = Inr cb"
    and k: "signing_key_from_jwk E jwk = Inr k"
    and jwt: "jwt = b64url_encode E hb @ CHR ''.'' # b64url_encode E cb @ CHR ''.''
      # b64url_encode E (sign_bytes E k (str_bytes (b64url_encode E hb @ ''.'' @ b64url_encode E cb)))"
    by blast
  from verifying_key [OF key k public] obtain v where v: "verifing_key_from_jwt E public = Inr v"
    "\<And>m. verify_bytes E v m (sign_bytes E k m) = Inr ()" by blast
  have kid: "jp_kid jwk = show_id (ky_id key)"
    using key by (auto simp: to_jwk_private_def)
  show ?thesis
    unfolding verify_jwt_def jwt
    by (simp add: b64url_no_dot decode_part_def parse_part_def b64url_inverse header_inverse [OF json(1)]
        claims_inverse [OF json(2)] signature_inverse v kid)
qed

end

section \<open>An executable codec\<close>

text \<open>A codec writes a value so that a reader finds it and what follows.\<close>

record 'a codec =
  put :: "'a \<Rightarrow> byte list"
  get :: "byte list \<Rightarrow> ('a \<times> byte list) option"

definition codec_ok :: "'a codec \<Rightarrow> bool" where
  "codec_ok c = (\<forall>a rest. get c (put c a @ rest) = Some (a, rest))"

definition nat_codec :: "nat codec" where
  "nat_codec = \<lparr>put = (\<lambda>n. str_bytes (decimal n) @ [59]),
    get = (\<lambda>bs. case dropWhile (\<lambda>b. b \<noteq> 59) bs of [] \<Rightarrow> None
      | _ # rest \<Rightarrow> Some (undecimal (bytes_str (takeWhile (\<lambda>b. b \<noteq> 59) bs)), rest))\<rparr>"

definition map_codec :: "('b \<Rightarrow> 'a) \<Rightarrow> ('a \<Rightarrow> 'b) \<Rightarrow> 'a codec \<Rightarrow> 'b codec" where
  "map_codec f g c = \<lparr>put = (\<lambda>b. put c (f b)), get = (\<lambda>bs. map_option (\<lambda>(a, rest). (g a, rest)) (get c bs))\<rparr>"

definition pair_codec :: "'a codec \<Rightarrow> 'b codec \<Rightarrow> ('a \<times> 'b) codec" where
  "pair_codec c d = \<lparr>put = (\<lambda>(a, b). put c a @ put d b),
    get = (\<lambda>bs. case get c bs of None \<Rightarrow> None | Some (a, rest) \<Rightarrow>
      map_option (\<lambda>(b, rest'). ((a, b), rest')) (get d rest))\<rparr>"

fun get_many :: "'a codec \<Rightarrow> nat \<Rightarrow> byte list \<Rightarrow> ('a list \<times> byte list) option" where
  "get_many c 0 bs = Some ([], bs)"
| "get_many c (Suc n) bs = (case get c bs of None \<Rightarrow> None | Some (a, rest) \<Rightarrow>
    map_option (\<lambda>(as, rest'). (a # as, rest')) (get_many c n rest))"

definition list_codec :: "'a codec \<Rightarrow> 'a list codec" where
  "list_codec c = \<lparr>put = (\<lambda>as. put nat_codec (length as) @ concat (map (put c) as)),
    get = (\<lambda>bs. case get nat_codec bs of None \<Rightarrow> None | Some (n, rest) \<Rightarrow> get_many c n rest)\<rparr>"

definition option_codec :: "'a codec \<Rightarrow> 'a option codec" where
  "option_codec c = map_codec (\<lambda>x. case x of None \<Rightarrow> [] | Some a \<Rightarrow> [a])
    (\<lambda>as. case as of [] \<Rightarrow> None | a # _ \<Rightarrow> Some a) (list_codec c)"

definition char_codec :: "char codec" where
  "char_codec = map_codec of_char char_of nat_codec"

definition int_codec :: "int codec" where
  "int_codec = map_codec (\<lambda>n. (if n < 0 then 1 else 0, nat \<bar>n\<bar>))
    (\<lambda>(s, n). if s = (1 :: nat) then - int n else int n) (pair_codec nat_codec nat_codec)"

abbreviation string_codec :: "string codec" where
  "string_codec \<equiv> list_codec char_codec"

lemma bytes_str_str_bytes [simp]: "bytes_str (str_bytes s) = s"
proof -
  have "char_of (unat (of_nat (of_char c) :: byte)) = c" for c
    by (simp add: unat_of_nat take_bit_nat_eq_self)
  then show ?thesis by (simp add: bytes_str_def str_bytes_def comp_def)
qed

lemma codec_okD: "codec_ok c \<Longrightarrow> get c (put c a @ rest) = Some (a, rest)"
  by (simp add: codec_ok_def)

lemma nat_codec_ok: "codec_ok nat_codec"
proof -
  have no_end: "(59 :: byte) \<notin> set (str_bytes (decimal n))" for n
  proof
    assume "(59 :: byte) \<in> set (str_bytes (decimal n))"
    then obtain c where c: "c \<in> set (decimal n)" "(59 :: byte) = of_nat (of_char c)"
      by (auto simp: str_bytes_def)
    from decimal_digits [OF c(1)] have "of_char c \<le> (57 :: nat)" by simp
    then have "unat (of_nat (of_char c) :: byte) \<le> 57" by (simp add: unat_of_nat take_bit_nat_eq_self)
    then show False by (simp flip: c(2))
  qed
  show ?thesis
    unfolding codec_ok_def nat_codec_def
    using no_end by (auto simp: dropWhile_append takeWhile_append undecimal_decimal)
qed

lemma map_codec_ok: "codec_ok c \<Longrightarrow> (\<And>b. g (f b) = b) \<Longrightarrow> codec_ok (map_codec f g c)"
  by (simp add: codec_ok_def map_codec_def)

lemma pair_codec_ok: "codec_ok c \<Longrightarrow> codec_ok d \<Longrightarrow> codec_ok (pair_codec c d)"
  by (simp add: codec_ok_def pair_codec_def split: prod.split)

lemma get_many_ok: "codec_ok c \<Longrightarrow> get_many c (length as) (concat (map (put c) as) @ rest) = Some (as, rest)"
  by (induction as arbitrary: rest) (simp_all add: codec_okD)

lemma list_codec_ok: "codec_ok c \<Longrightarrow> codec_ok (list_codec c)"
  unfolding codec_ok_def [of "list_codec c"]
  by (simp add: list_codec_def codec_okD [OF nat_codec_ok] get_many_ok)

lemma option_codec_ok: "codec_ok c \<Longrightarrow> codec_ok (option_codec c)"
  unfolding option_codec_def by (intro map_codec_ok list_codec_ok) (auto split: option.split)

lemma char_codec_ok: "codec_ok char_codec"
  unfolding char_codec_def by (intro map_codec_ok nat_codec_ok) simp

lemma int_codec_ok: "codec_ok int_codec"
  unfolding int_codec_def by (intro map_codec_ok pair_codec_ok nat_codec_ok) auto

lemmas codecs_ok = map_codec_ok pair_codec_ok list_codec_ok option_codec_ok char_codec_ok int_codec_ok nat_codec_ok

section \<open>Claims and headers\<close>

fun token_type_no :: "TokenType \<Rightarrow> nat" where
  "token_type_no Bearer = 0"
| "token_type_no DPoP = 1"

fun token_use_no :: "TokenUse \<Rightarrow> nat" where
  "token_use_no UseId = 0"
| "token_use_no UseAccess = 1"
| "token_use_no UseRefresh = 2"

fun principal_type_no :: "PrincipalType \<Rightarrow> nat" where
  "principal_type_no PrincipalUser = 0"
| "principal_type_no PrincipalClient = 1"

fun action_no :: "StorageAuthorizationAction \<Rightarrow> nat" where
  "action_no Read = 0"
| "action_no Write = 1"

definition token_type_codec :: "TokenType codec" where
  "token_type_codec = map_codec token_type_no (\<lambda>n. if n = 0 then Bearer else DPoP) nat_codec"

definition token_use_codec :: "TokenUse codec" where
  "token_use_codec = map_codec token_use_no
    (\<lambda>n. if n = 0 then UseId else if n = 1 then UseAccess else UseRefresh) nat_codec"

definition principal_type_codec :: "PrincipalType codec" where
  "principal_type_codec = map_codec principal_type_no (\<lambda>n. if n = 0 then PrincipalUser else PrincipalClient) nat_codec"

definition detail_codec :: "AuthorizationDetail codec" where
  "detail_codec = map_codec (\<lambda>d. case d of Storage s \<Rightarrow> map action_no (detail_actions s))
    (\<lambda>ns. Storage \<lparr>detail_actions = map (\<lambda>n. if n = 0 then Read else Write) ns\<rparr>) (list_codec nat_codec)"

definition claims_codec :: "StandardClaims codec" where
  "claims_codec = map_codec
    (\<lambda>c. (claim_type c, claim_use c, claim_exp c, claim_iat c, claim_nbf c, claim_iss c, claim_aud c,
      claim_client_id c, claim_sub c, claim_principal_type c, claim_resource c, claim_authorization_details c,
      claim_scope c))
    (\<lambda>(ty, use, exp, iat, nbf, iss, aud, client, sub, pt, res, details, scope).
      \<lparr>claim_type = ty, claim_use = use, claim_exp = exp, claim_iat = iat, claim_nbf = nbf, claim_iss = iss,
        claim_aud = aud, claim_client_id = client, claim_sub = sub, claim_principal_type = pt,
        claim_resource = res, claim_authorization_details = details, claim_scope = scope\<rparr>)
    (pair_codec token_type_codec (pair_codec token_use_codec (pair_codec int_codec (pair_codec int_codec
      (pair_codec int_codec (pair_codec string_codec (pair_codec string_codec (pair_codec string_codec
      (pair_codec string_codec (pair_codec principal_type_codec (pair_codec (option_codec string_codec)
      (pair_codec (option_codec (list_codec detail_codec)) (list_codec string_codec)))))))))))))"

text \<open>Headers without an embedded key, the only ones the source writes.\<close>

definition header_codec :: "JwtHeader codec" where
  "header_codec = map_codec (\<lambda>h. (hdr_alg h, hdr_typ h, hdr_kid h))
    (\<lambda>(alg, typ, kid). \<lparr>hdr_alg = alg, hdr_typ = typ, hdr_kid = kid, hdr_jwk = None\<rparr>)
    (pair_codec string_codec (pair_codec string_codec string_codec))"

definition from_codec :: "'a codec \<Rightarrow> byte list \<Rightarrow> string + 'a" where
  "from_codec c bs = (case get c bs of Some (a, []) \<Rightarrow> Inr a | _ \<Rightarrow> Inl ''invalid JSON'')"

text \<open>Two letters for every byte.\<close>

definition letters :: "byte list \<Rightarrow> string" where
  "letters bs = concat (map (\<lambda>b. [char_of (97 + unat b div 16), char_of (97 + unat b mod 16)]) bs)"

fun unletters :: "string \<Rightarrow> string + byte list" where
  "unletters [] = Inr []"
| "unletters [_] = Inl ''invalid length''"
| "unletters (a # b # s) = and_then (unletters s) (\<lambda>bs. Inr (of_nat (16 * (of_char a - 97) + (of_char b - 97)) # bs))"

definition mem_crypto :: crypto where
  "mem_crypto = \<lparr>b64url_encode = letters, b64url_decode = unletters, b64_encode = letters, b64_decode = unletters,
    sha256 = (\<lambda>bs. bs),
    header_to_json = (\<lambda>h. if hdr_jwk h = None then Inr (put header_codec h) else Inl ''embedded key''),
    header_from_json = from_codec header_codec,
    claims_to_json = (\<lambda>c. Inr (put claims_codec c)), claims_from_json = from_codec claims_codec,
    id_claims_to_json = (\<lambda>c. Inr (put claims_codec (id_standard_claims c))),
    signing_key_from_slice = (\<lambda>bs. if bs = [] then Inl ''empty key'' else Inr bs),
    sign_bytes = (\<lambda>k m. 4 # k @ m), signature_from_slice = Inr, verifying_key_from_sec1 = Inr,
    verify_bytes = (\<lambda>v m s. if s = v @ m then Inr () else Inl ''signature error'')\<rparr>"

lemma claims_codec_ok: "codec_ok claims_codec"
proof -
  have ty: "codec_ok token_type_codec"
    unfolding token_type_codec_def
  proof (rule map_codec_ok [OF nat_codec_ok])
    show "(if token_type_no t = 0 then Bearer else DPoP) = t" for t by (cases t) auto
  qed
  have use: "codec_ok token_use_codec"
    unfolding token_use_codec_def
  proof (rule map_codec_ok [OF nat_codec_ok])
    show "(if token_use_no t = 0 then UseId else if token_use_no t = 1 then UseAccess else UseRefresh) = t" for t
      by (cases t) auto
  qed
  have pt: "codec_ok principal_type_codec"
    unfolding principal_type_codec_def
  proof (rule map_codec_ok [OF nat_codec_ok])
    show "(if principal_type_no t = 0 then PrincipalUser else PrincipalClient) = t" for t by (cases t) auto
  qed
  have detail: "codec_ok detail_codec"
    unfolding detail_codec_def
  proof (rule map_codec_ok [OF list_codec_ok [OF nat_codec_ok]])
    have "(if action_no a = 0 then Read else Write) = a" for a by (cases a) auto
    then show "Storage \<lparr>detail_actions = map (\<lambda>n. if n = 0 then Read else Write)
        (case d of Storage s \<Rightarrow> map action_no (detail_actions s))\<rparr> = d" for d
      by (cases d) (simp add: comp_def)
  qed
  note parts = pair_codec_ok list_codec_ok option_codec_ok char_codec_ok int_codec_ok nat_codec_ok ty use pt detail
  show ?thesis
    unfolding claims_codec_def by (rule map_codec_ok, intro parts) simp
qed

lemma header_codec_ok: "hdr_jwk h = None \<Longrightarrow> get header_codec (put header_codec h @ rest) = Some (h, rest)"
proof -
  have "codec_ok (pair_codec string_codec (pair_codec string_codec string_codec))" by (intro codecs_ok)
  note codec_okD [OF this]
  then show "hdr_jwk h = None \<Longrightarrow> ?thesis" by (cases h) (simp add: header_codec_def map_codec_def)
qed

lemma letter_code: "n < 16 \<Longrightarrow> of_char (char_of (97 + n) :: char) = 97 + (n :: nat)"
  by (simp add: take_bit_nat_eq_self)

lemma nibbles: "unat (b :: byte) div 16 < 16" "unat b mod 16 < 16"
proof -
  have "unat b < 2 ^ LENGTH(8)" by (rule unsigned_less)
  then show "unat b div 16 < 16" "unat b mod 16 < 16" by (simp_all add: less_mult_imp_div_less)
qed

lemma unletters_letters: "unletters (letters bs) = Inr bs"
proof (induction bs)
  case (Cons b bs)
  have "16 * (unat b div 16) + unat b mod 16 = unat b" by simp
  then show ?case
    using Cons by (simp add: letters_def letter_code [OF nibbles(1)] letter_code [OF nibbles(2)] del: of_char_of)
qed (simp add: letters_def)

lemma letters_no_dot: "CHR ''.'' \<notin> set (letters bs)"
proof -
  have "c \<in> set (letters bs) \<Longrightarrow> (97 :: nat) \<le> of_char c" for c
    by (auto simp: letters_def letter_code [OF nibbles(1)] letter_code [OF nibbles(2)] simp del: of_char_of)
  then show ?thesis by fastforce
qed

section \<open>Extended keys\<close>

text \<open>Derivation appends the child to the key; paths are printed as \<open>m/44'/0\<close>.\<close>

definition child_text :: "child_number \<Rightarrow> string" where
  "child_text c = decimal (unat (take_bit 31 c)) @ (if bit c 31 then [CHR 0x27] else [])"

definition parse_child :: "string \<Rightarrow> string + child_number" where
  "parse_child s =
    (let hardened = (s \<noteq> [] \<and> last s = CHR 0x27); digits = (if hardened then butlast s else s) in
     if digits = [] \<or> (\<exists>c \<in> set digits. of_char c < (48 :: nat) \<or> (57 :: nat) < of_char c) then Inl ''invalid child number''
     else if 2 ^ 31 \<le> undecimal digits then Inl ''invalid child number''
     else Inr (if hardened then set_bit 31 (of_nat (undecimal digits)) else of_nat (undecimal digits)))"

definition mem_path_text :: "derivation_path \<Rightarrow> string" where
  "mem_path_text path = ''m'' @ concat (map (\<lambda>c. CHR ''/'' # child_text c) path)"

definition mem_parse_path :: "string \<Rightarrow> string + derivation_path" where
  "mem_parse_path s = (case split_on CHR ''/'' s of
    m # children \<Rightarrow> if m = ''m'' then try_collect parse_child children else Inl ''invalid derivation path''
    | [] \<Rightarrow> Inl ''invalid derivation path'')"

definition child_bytes :: "child_number \<Rightarrow> byte list" where
  "child_bytes c = map (\<lambda>i. ucast (drop_bit (8 * i) c)) [3, 2, 1, 0]"

definition mem_bip32 :: bip32 where
  "mem_bip32 = \<lparr>xprv_new = Inr, xprv_from_str = unletters, xprv_to_string = letters,
    derive_child = (\<lambda>k c. Inr (k @ child_bytes c)), private_bytes = (\<lambda>k. k),
    public_point = (\<lambda>k. (Some k, Some [])), public_key = (\<lambda>k. k),
    derive_public_child = (\<lambda>k c. Inr (k @ child_bytes c)), public_bytes = (\<lambda>k. k),
    child_new = (\<lambda>i hardened. if 2 ^ 31 \<le> unat i then Inl ''invalid child number''
      else Inr (if hardened then set_bit 31 i else i)),
    is_hardened = (\<lambda>c. bit c 31), path_from_str = mem_parse_path, path_to_string = mem_path_text,
    mnemonic_from_entropy = (\<lambda>bs. Inr (letters bs)), mnemonic_to_seed = (\<lambda>m p. str_bytes (m @ p))\<rparr>"

lemma decimal_nonempty: "decimal n \<noteq> []"
  by (subst decimal.simps) simp

lemma child_text_chars: "c \<in> set (child_text i) \<Longrightarrow> of_char c \<in> {48 .. (57 :: nat)} \<or> c = CHR 0x27"
  using decimal_digits by (auto simp: child_text_def split: if_splits)

lemma child_text_no: "CHR ''/'' \<notin> set (child_text i)" "CHR '':'' \<notin> set (child_text i)"
  using child_text_chars by fastforce+

lemma parse_child_text: "parse_child (child_text i) = Inr i"
proof -
  let ?n = "unat (take_bit 31 i)"
  have digits: "\<not> (\<exists>c \<in> set (decimal ?n). of_char c < (48 :: nat) \<or> (57 :: nat) < of_char c)"
    using decimal_digits by fastforce
  have less: "?n < 2 ^ 31" using take_bit_nat_less_exp [of 31 "unat i"] by (simp add: unsigned_take_bit_eq)
  have last: "last (decimal ?n) \<noteq> CHR 0x27"
    using decimal_digits [OF last_in_set [OF decimal_nonempty [of ?n]]] by auto
  have i: "(if bit i 31 then set_bit 31 (of_nat ?n) else of_nat ?n) = i"
  proof (rule bit_word_eqI)
    fix n assume "n < LENGTH(32)"
    then have "n < 31 \<or> n = 31" by auto
    then show "bit (if bit i 31 then set_bit 31 (of_nat ?n) else of_nat ?n :: child_number) n = bit i n"
      by (auto simp: bit_set_bit_iff bit_take_bit_iff)
  qed
  show ?thesis
    unfolding parse_child_def child_text_def Let_def
    using digits less last i by (auto simp: decimal_nonempty undecimal_decimal)
qed

lemma mem_path_inverse: "mem_parse_path (mem_path_text path) = Inr path"
proof -
  have "split_on CHR ''/'' (s @ concat (map (\<lambda>c. CHR ''/'' # child_text c) path)) = s # map child_text path"
    if "CHR ''/'' \<notin> set s" for s
    using that
    by (induction path arbitrary: s) (simp_all add: child_text_no)
  from this [of "''m''"] show ?thesis
    by (simp add: mem_parse_path_def mem_path_text_def try_collect_Inr parse_child_text comp_def)
qed

lemma mem_path_no_colon: "CHR '':'' \<notin> set (mem_path_text path)"
  using child_text_no(2) by (auto simp: mem_path_text_def)

section \<open>It satisfies the laws\<close>

interpretation mem_tokens: token_codec mem_crypto mem_bip32
proof
  fix h bs assume "header_to_json mem_crypto h = Inr bs"
  then show "header_from_json mem_crypto bs = Inr h"
    using header_codec_ok [of h "[]"] by (auto simp: mem_crypto_def from_codec_def split: if_splits)
next
  fix c bs assume "claims_to_json mem_crypto c = Inr bs"
  then show "claims_from_json mem_crypto bs = Inr c"
    using codec_okD [OF claims_codec_ok, of c "[]"] by (simp add: mem_crypto_def from_codec_def)
next
  fix xprv k x y
  assume "signing_key_from_slice mem_crypto (private_bytes mem_bip32 xprv) = Inr k"
    and "public_point mem_bip32 xprv = (Some x, Some y)"
  then show "\<exists>v. verifying_key_from_sec1 mem_crypto (4 # x @ y) = Inr v
      \<and> (\<forall>m. verify_bytes mem_crypto v m (sign_bytes mem_crypto k m) = Inr ())"
    by (simp add: mem_crypto_def mem_bip32_def split: if_splits)
qed (simp_all add: mem_crypto_def unletters_letters letters_no_dot)

end
