(* ===== verification/Idp_Repos.thy ===== *)
theory Idp_Repos
  imports Oauth2_Service Replica
begin

text \<open>
  The repositories of authorization codes and user consents over the replicated database:
  \<open>crates/idp-service/src/replica/oauth2_authorization_code_repo.rs\<close> and
  \<open>oauth2_user_consent_repo.rs\<close>.  The JSON text of a list of scopes is the external crate's:
  \<open>scopes_json\<close>.
\<close>

section \<open>Shared helpers\<close>

definition repo_db_error :: "engine_error \<Rightarrow> RepoError" where
  "repo_db_error e = RepoInvalidInput e"

definition repo_row_error :: "'w host \<Rightarrow> from_row_error \<Rightarrow> RepoError" where
  "repo_row_error H e = RepoInvalidInput (show_from_row_error H e)"

definition repo_now :: "'w host \<Rightarrow> ('w, 'e, datetime) op" where
  "repo_now H = await (effect (utc_now H)) (\<lambda>t. ok (with_nanosecond_0 t))"

definition or_null_with :: "('a \<Rightarrow> Value) \<Rightarrow> 'a option \<Rightarrow> Value" where
  "or_null_with f x = (case x of None \<Rightarrow> Null | Some a \<Rightarrow> f a)"

record scopes_json =
  scopes_to_json :: "string list \<Rightarrow> string"
  scopes_from_json :: "string \<Rightarrow> string + string list"

section \<open>Authorization codes\<close>

abbreviation CODE_TABLE :: string where
  "CODE_TABLE \<equiv> ''oauth2_authorization_codes''"

definition code_columns :: "string list" where
  "code_columns = [''id'', ''code_hash'', ''client_id'', ''key_id'', ''redirect_uri'', ''scopes'', ''resource'',
    ''code_challenge'', ''code_challenge_method'', ''nonce'', ''expires_at'', ''consumed_at'', ''created_at'',
    ''updated_at'']"

record AuthorizationCodeRow =
  cw_id :: uuid
  cw_code :: string
  cw_client_id :: string
  cw_key_id :: uuid
  cw_redirect_uri :: string
  cw_scopes :: string
  cw_resource :: "string option"
  cw_code_challenge :: "string option"
  cw_code_challenge_method :: "int option"
  cw_nonce :: "string option"
  cw_expires_at :: int
  cw_consumed_at :: "int option"
  cw_created_at :: int
  cw_updated_at :: int

definition code_from_row :: "'w host \<Rightarrow> row \<Rightarrow> string list \<Rightarrow> from_row_error + AuthorizationCodeRow" where
  "code_from_row H r cs =
    and_then (field H decode_uuid r cs ''id'') (\<lambda>i.
    and_then (field H decode_text r cs ''code_hash'') (\<lambda>code.
    and_then (field H decode_text r cs ''client_id'') (\<lambda>client_id.
    and_then (field H decode_uuid r cs ''key_id'') (\<lambda>kid.
    and_then (field H decode_text r cs ''redirect_uri'') (\<lambda>redirect_uri.
    and_then (field H decode_text r cs ''scopes'') (\<lambda>scopes.
    and_then (field H decode_opt_text r cs ''resource'') (\<lambda>resource.
    and_then (field H decode_opt_text r cs ''code_challenge'') (\<lambda>code_challenge.
    and_then (field H decode_opt_int r cs ''code_challenge_method'') (\<lambda>code_challenge_method.
    and_then (field H decode_opt_text r cs ''nonce'') (\<lambda>nonce.
    and_then (field H decode_int r cs ''expires_at'') (\<lambda>expires_at.
    and_then (field H decode_opt_int r cs ''consumed_at'') (\<lambda>consumed_at.
    and_then (field H decode_int r cs ''created_at'') (\<lambda>created_at.
    and_then (field H decode_int r cs ''updated_at'') (\<lambda>updated_at.
    Inr (AuthorizationCodeRow.make i code client_id kid redirect_uri scopes resource code_challenge
      code_challenge_method nonce expires_at consumed_at created_at updated_at)))))))))))))))"

definition code_challenge_method_of :: "int \<Rightarrow> RepoError + CodeChallengeMethod" where
  "code_challenge_method_of n = (if n = 0 then Inr S256 else Inl (RepoInvalidInput ''invalid code challenge method''))"

definition CodeChallengeMethod_as_i64 :: "CodeChallengeMethod \<Rightarrow> int" where
  "CodeChallengeMethod_as_i64 m = (case m of S256 \<Rightarrow> 0)"

definition code_timestamp :: "'w host \<Rightarrow> int \<Rightarrow> RepoError + datetime" where
  "code_timestamp H n = ok_or (RepoInvalidInput ''invalid authorization code timestamp'') (from_timestamp H n)"

text \<open>\<open>Option::map(f).transpose()\<close>.\<close>

definition transpose_option :: "('a \<Rightarrow> 'e + 'b) \<Rightarrow> 'a option \<Rightarrow> 'e + 'b option" where
  "transpose_option f x = (case x of None \<Rightarrow> Inr None | Some a \<Rightarrow> and_then (f a) (\<lambda>b. Inr (Some b)))"

definition code_try_from :: "'w host \<Rightarrow> scopes_json \<Rightarrow> AuthorizationCodeRow \<Rightarrow> RepoError + OAuth2AuthorizationCode" where
  "code_try_from H J r =
    and_then (result_map_err RepoOther (scopes_from_json J (cw_scopes r))) (\<lambda>scopes.
    and_then (transpose_option code_challenge_method_of (cw_code_challenge_method r)) (\<lambda>method.
    and_then (code_timestamp H (cw_expires_at r)) (\<lambda>expires_at.
    and_then (transpose_option (code_timestamp H) (cw_consumed_at r)) (\<lambda>consumed_at.
    and_then (code_timestamp H (cw_created_at r)) (\<lambda>created_at.
    and_then (code_timestamp H (cw_updated_at r)) (\<lambda>updated_at.
    Inr \<lparr>ac_id = cw_id r, ac_code = cw_code r, ac_client_id = cw_client_id r, ac_key_id = cw_key_id r,
      ac_redirect_uri = cw_redirect_uri r, ac_scopes = scopes, ac_resource = cw_resource r,
      ac_code_challenge = cw_code_challenge r, ac_code_challenge_method = method, ac_nonce = cw_nonce r,
      ac_expires_at = expires_at, ac_consumed_at = consumed_at, ac_created_at = created_at,
      ac_updated_at = updated_at\<rparr>))))))"

text \<open>\<open>format!("{:x}", digest)\<close>: two lower-case hexadecimal digits for every byte.\<close>

definition hex_digit :: "nat \<Rightarrow> char" where
  "hex_digit n = (if n < 10 then char_of (48 + n) else char_of (87 + n))"

definition hex :: "byte list \<Rightarrow> string" where
  "hex bs = concat (map (\<lambda>b. [hex_digit (unat b div 16), hex_digit (unat b mod 16)]) bs)"

definition code_hash :: "crypto \<Rightarrow> string \<Rightarrow> string" where
  "code_hash E code = hex (sha256 E (str_bytes code))"

definition code_row_from :: "crypto \<Rightarrow> scopes_json \<Rightarrow> OAuth2AuthorizationCode \<Rightarrow> AuthorizationCodeRow" where
  "code_row_from E J c = \<lparr>cw_id = ac_id c, cw_code = code_hash E (ac_code c), cw_client_id = ac_client_id c,
    cw_key_id = ac_key_id c, cw_redirect_uri = ac_redirect_uri c, cw_scopes = scopes_to_json J (ac_scopes c),
    cw_resource = ac_resource c, cw_code_challenge = ac_code_challenge c,
    cw_code_challenge_method = map_option CodeChallengeMethod_as_i64 (ac_code_challenge_method c),
    cw_nonce = ac_nonce c, cw_expires_at = timestamp (ac_expires_at c), cw_consumed_at = None,
    cw_created_at = timestamp (ac_created_at c), cw_updated_at = timestamp (ac_updated_at c)\<rparr>"

definition code_to_row :: "AuthorizationCodeRow \<Rightarrow> row" where
  "code_to_row r = [Uuid (cw_id r), Text (cw_code r), Text (cw_client_id r), Null, Uuid (cw_key_id r),
    Text (cw_redirect_uri r), Text (cw_scopes r), or_null_with Text (cw_resource r), Null,
    or_null_with Text (cw_code_challenge r), or_null_with Integer (cw_code_challenge_method r),
    or_null_with Text (cw_nonce r), Integer (cw_expires_at r), or_null_with Integer (cw_consumed_at r),
    Integer (cw_created_at r), Integer (cw_updated_at r)]"

definition code_column :: "string \<Rightarrow> query_column" where
  "code_column name = QueryColumn CODE_TABLE name"

definition code_equals :: "string \<Rightarrow> Value \<Rightarrow> query_expr" where
  "code_equals name v = Equals (QValue (ExprColumn (code_column name))) (QValue (ExprValue v))"

definition code_assignment :: "string \<Rightarrow> Value \<Rightarrow> assignment" where
  "code_assignment name v = Assignment (code_column name) (ExprValue v)"

definition code_select :: "query_expr option \<Rightarrow> query" where
  "code_select predicate = Select CODE_TABLE (map code_column code_columns) predicate"

definition code_rows :: "'w host \<Rightarrow> query \<Rightarrow> ('w, RepoError, AuthorizationCodeRow list) op" where
  "code_rows H query =
    await (map_err repo_db_error (execute H [Query query])) (\<lambda>results.
    await (lift (ok_or (RepoInvalidInput ''missing authorization code query result'') (pop_result results))) (\<lambda>result.
    lift (result_map_err (repo_row_error H) (rows_as H (code_from_row H) result))))"

definition code_ensure_clear :: "'w host \<Rightarrow> uuid \<Rightarrow> ('w, RepoError, unit) op" where
  "code_ensure_clear H i =
    await (map_err repo_db_error (allows_token_issuance H [SecurityRow_new OAuthAuthorizationCodeTable i])) (\<lambda>clear.
    if clear then ok () else err (RepoInvalidInput ''conflicted authorization code''))"

definition code_find :: "'w host \<Rightarrow> crypto \<Rightarrow> scopes_json \<Rightarrow> string \<Rightarrow> ('w, RepoError, OAuth2AuthorizationCode option) op" where
  "code_find H E J code =
    await (code_rows H (code_select (Some (code_equals ''code_hash'' (Text (code_hash E code)))))) (\<lambda>rows.
    await (lift (transpose_option (code_try_from H J) (case rows of [] \<Rightarrow> None | r # _ \<Rightarrow> Some r))) (\<lambda>row.
    await (case row of None \<Rightarrow> ok () | Some r \<Rightarrow> code_ensure_clear H (ac_id r)) (\<lambda>_.
    ok (map_option (\<lambda>r. r\<lparr>ac_code := code\<rparr>) row))))"

definition create_authorization_code :: "'w host \<Rightarrow> crypto \<Rightarrow> scopes_json \<Rightarrow> (nat \<Rightarrow> 'w \<Rightarrow> byte list \<times> 'w) \<Rightarrow> string \<Rightarrow> uuid
    \<Rightarrow> string \<Rightarrow> string list \<Rightarrow> string option \<Rightarrow> string option \<Rightarrow> CodeChallengeMethod option \<Rightarrow> string option
    \<Rightarrow> datetime \<Rightarrow> ('w, RepoError, OAuth2AuthorizationCode) op" where
  "create_authorization_code H E J random client_id kid redirect_uri scopes resource code_challenge
      code_challenge_method nonce expires_at =
    await (repo_now H) (\<lambda>n.
    await (effect (now_v7 H)) (\<lambda>i.
    await (effect (random 32)) (\<lambda>bytes.
    let code = \<lparr>ac_id = i, ac_code = b64url_encode E bytes, ac_client_id = client_id, ac_key_id = kid,
      ac_redirect_uri = redirect_uri, ac_scopes = scopes, ac_resource = resource,
      ac_code_challenge = code_challenge, ac_code_challenge_method = code_challenge_method, ac_nonce = nonce,
      ac_expires_at = expires_at, ac_consumed_at = None, ac_created_at = n, ac_updated_at = n\<rparr> in
    await (map_err repo_db_error (execute H [Query (Insert CODE_TABLE (code_to_row (code_row_from E J code)))])) (\<lambda>_.
    await (code_ensure_clear H (ac_id code)) (\<lambda>_. ok code)))))"

definition consume_authorization_code :: "'w host \<Rightarrow> uuid \<Rightarrow> datetime \<Rightarrow> ('w, RepoError, unit) op" where
  "consume_authorization_code H i consumed_at =
    await (code_ensure_clear H i) (\<lambda>_.
    await (code_rows H (code_select (Some (code_equals ''id'' (Uuid i))))) (\<lambda>rows.
    await (lift (ok_or (RepoInvalidInput ''authorization code not found'') (case rows of [] \<Rightarrow> None | r # _ \<Rightarrow> Some r)))
      (\<lambda>code.
    if cw_consumed_at code \<noteq> None then err (RepoInvalidInput ''authorization code already consumed'') else
    await (map_err repo_db_error (execute H [Query (Update CODE_TABLE
      [code_assignment ''consumed_at'' (Integer (timestamp consumed_at)),
       code_assignment ''updated_at'' (Integer (timestamp consumed_at))]
      (Some (code_equals ''id'' (Uuid i))))])) (\<lambda>_.
    code_ensure_clear H i))))"

definition DbOAuth2AuthorizationCodeRepo :: "'w host \<Rightarrow> crypto \<Rightarrow> scopes_json \<Rightarrow> (nat \<Rightarrow> 'w \<Rightarrow> byte list \<times> 'w)
    \<Rightarrow> 'w OAuth2AuthorizationCodeRepo" where
  "DbOAuth2AuthorizationCodeRepo H E J random = \<lparr>
    ac_create_authorization_code = create_authorization_code H E J random,
    ac_find_authorization_code_by_code = code_find H E J,
    ac_consume_authorization_code = consume_authorization_code H\<rparr>"

section \<open>User consents\<close>

abbreviation CONSENT_TABLE :: string where
  "CONSENT_TABLE \<equiv> ''oauth2_user_consents''"

definition consent_columns :: "string list" where
  "consent_columns = [''id'', ''user_id'', ''client_id'', ''redirect_uri'', ''scope'', ''created_at'', ''updated_at'']"

record ConsentRow =
  sw_id :: uuid
  sw_user_id :: uuid
  sw_client_id :: string
  sw_redirect_uri :: string
  sw_scope :: string
  sw_created_at :: int
  sw_updated_at :: int

definition consent_from_row :: "'w host \<Rightarrow> row \<Rightarrow> string list \<Rightarrow> from_row_error + ConsentRow" where
  "consent_from_row H r cs =
    and_then (field H decode_uuid r cs ''id'') (\<lambda>i.
    and_then (field H decode_uuid r cs ''user_id'') (\<lambda>user_id.
    and_then (field H decode_text r cs ''client_id'') (\<lambda>client_id.
    and_then (field H decode_text r cs ''redirect_uri'') (\<lambda>redirect_uri.
    and_then (field H decode_text r cs ''scope'') (\<lambda>scope.
    and_then (field H decode_int r cs ''created_at'') (\<lambda>created_at.
    and_then (field H decode_int r cs ''updated_at'') (\<lambda>updated_at.
    Inr (ConsentRow.make i user_id client_id redirect_uri scope created_at updated_at))))))))"

definition consent_timestamp :: "'w host \<Rightarrow> int \<Rightarrow> RepoError + datetime" where
  "consent_timestamp H n = ok_or (RepoInvalidInput ''invalid user consent timestamp'') (from_timestamp H n)"

definition consent_try_from :: "'w host \<Rightarrow> ConsentRow \<Rightarrow> RepoError + OAuth2UserConsent" where
  "consent_try_from H r =
    and_then (consent_timestamp H (sw_created_at r)) (\<lambda>created_at.
    and_then (consent_timestamp H (sw_updated_at r)) (\<lambda>updated_at.
    Inr \<lparr>co_id = sw_id r, co_user_id = sw_user_id r, co_client_id = sw_client_id r,
      co_redirect_uri = sw_redirect_uri r, co_scope = sw_scope r, co_created_at = created_at,
      co_updated_at = updated_at\<rparr>))"

definition consent_row_from :: "OAuth2UserConsent \<Rightarrow> ConsentRow" where
  "consent_row_from c = \<lparr>sw_id = co_id c, sw_user_id = co_user_id c, sw_client_id = co_client_id c,
    sw_redirect_uri = co_redirect_uri c, sw_scope = co_scope c, sw_created_at = timestamp (co_created_at c),
    sw_updated_at = timestamp (co_updated_at c)\<rparr>"

definition consent_to_row :: "ConsentRow \<Rightarrow> row" where
  "consent_to_row r = [Uuid (sw_id r), Uuid (sw_user_id r), Text (sw_client_id r), Text (sw_redirect_uri r),
    Text (sw_scope r), Null, Null, Integer (sw_created_at r), Integer (sw_updated_at r)]"

definition consent_column :: "string \<Rightarrow> query_column" where
  "consent_column name = QueryColumn CONSENT_TABLE name"

definition consent_equals :: "string \<Rightarrow> Value \<Rightarrow> query_expr" where
  "consent_equals name v = Equals (QValue (ExprColumn (consent_column name))) (QValue (ExprValue v))"

definition consent_assignment :: "string \<Rightarrow> Value \<Rightarrow> assignment" where
  "consent_assignment name v = Assignment (consent_column name) (ExprValue v)"

definition consent_identity :: "uuid \<Rightarrow> string \<Rightarrow> string \<Rightarrow> string \<Rightarrow> query_expr" where
  "consent_identity user_id client_id redirect_uri scope =
    And (consent_equals ''user_id'' (Uuid user_id))
      (And (consent_equals ''client_id'' (Text client_id))
        (And (consent_equals ''redirect_uri'' (Text redirect_uri)) (consent_equals ''scope'' (Text scope))))"

definition consent_select :: "query_expr option \<Rightarrow> query" where
  "consent_select predicate = Select CONSENT_TABLE (map consent_column consent_columns) predicate"

definition consent_rows :: "'w host \<Rightarrow> query \<Rightarrow> ('w, RepoError, ConsentRow list) op" where
  "consent_rows H query =
    await (map_err repo_db_error (execute H [Query query])) (\<lambda>results.
    await (lift (ok_or (RepoInvalidInput ''missing user consent query result'') (pop_result results))) (\<lambda>result.
    lift (result_map_err (repo_row_error H) (rows_as H (consent_from_row H) result))))"

definition consent_ensure_clear :: "'w host \<Rightarrow> uuid \<Rightarrow> ('w, RepoError, unit) op" where
  "consent_ensure_clear H i =
    await (map_err repo_db_error (allows_authorization H [SecurityRow_new OAuthUserConsentTable i])) (\<lambda>clear.
    if clear then ok () else err (RepoInvalidInput ''conflicted user consent''))"

definition consent_find :: "'w host \<Rightarrow> query_expr \<Rightarrow> ('w, RepoError, OAuth2UserConsent option) op" where
  "consent_find H predicate =
    await (consent_rows H (consent_select (Some predicate))) (\<lambda>rows.
    await (lift (transpose_option (consent_try_from H) (case rows of [] \<Rightarrow> None | r # _ \<Rightarrow> Some r))) (\<lambda>consent.
    await (case consent of None \<Rightarrow> ok () | Some c \<Rightarrow> consent_ensure_clear H (co_id c)) (\<lambda>_.
    ok consent)))"

definition upsert_user_consent :: "'w host \<Rightarrow> uuid \<Rightarrow> string \<Rightarrow> string \<Rightarrow> string \<Rightarrow> ('w, RepoError, OAuth2UserConsent) op" where
  "upsert_user_consent H user_id client_id redirect_uri scope =
    await (consent_find H (consent_identity user_id client_id redirect_uri scope)) (\<lambda>existing.
    await (repo_now H) (\<lambda>n.
    await (case existing of Some consent \<Rightarrow> ok consent
      | None \<Rightarrow> await (effect (now_v7 H)) (\<lambda>i.
          ok \<lparr>co_id = i, co_user_id = user_id, co_client_id = client_id, co_redirect_uri = redirect_uri,
            co_scope = scope, co_created_at = n, co_updated_at = n\<rparr>)) (\<lambda>consent.
    let updated_at = (if existing \<noteq> None \<and> timestamp n \<le> timestamp (co_updated_at consent)
          then DateTime (timestamp (co_updated_at consent) + 1) (nanosecond (co_updated_at consent)) else n);
        statement = (if existing \<noteq> None
          then Update CONSENT_TABLE [consent_assignment ''updated_at'' (Integer (timestamp updated_at))]
            (Some (consent_equals ''id'' (Uuid (co_id consent))))
          else Insert CONSENT_TABLE (consent_to_row (consent_row_from consent))) in
    await (map_err repo_db_error (execute H [Query statement])) (\<lambda>_.
    await (consent_ensure_clear H (co_id consent)) (\<lambda>_.
    ok (consent\<lparr>co_updated_at := updated_at\<rparr>))))))"

definition find_user_consent :: "'w host \<Rightarrow> uuid \<Rightarrow> string \<Rightarrow> string \<Rightarrow> string
    \<Rightarrow> ('w, RepoError, OAuth2UserConsent option) op" where
  "find_user_consent H user_id client_id redirect_uri scope =
    consent_find H (consent_identity user_id client_id redirect_uri scope)"

definition repo_list_user_consents :: "'w host \<Rightarrow> uuid \<Rightarrow> 32 word \<Rightarrow> 32 word
    \<Rightarrow> ('w, RepoError, OAuth2UserConsent list) op" where
  "repo_list_user_consents H user_id offset limit =
    await (consent_rows H (consent_select (Some (consent_equals ''user_id'' (Uuid user_id))))) (\<lambda>rows.
    await (lift (try_collect (consent_try_from H) (take (unat limit) (drop (unat offset) rows)))) (\<lambda>consents.
    await (for_each (\<lambda>consent. consent_ensure_clear H (co_id consent)) consents) (\<lambda>_.
    ok consents)))"

definition find_user_consent_by_id :: "'w host \<Rightarrow> uuid \<Rightarrow> ('w, RepoError, OAuth2UserConsent option) op" where
  "find_user_consent_by_id H consent_id = consent_find H (consent_equals ''id'' (Uuid consent_id))"

definition delete_user_consent_by_id :: "'w host \<Rightarrow> uuid \<Rightarrow> ('w, RepoError, unit) op" where
  "delete_user_consent_by_id H consent_id =
    await (consent_ensure_clear H consent_id) (\<lambda>_.
    await (map_err repo_db_error (execute H [Query (Delete CONSENT_TABLE
      (Some (consent_equals ''id'' (Uuid consent_id))))])) (\<lambda>_. ok ()))"

definition DbOAuth2UserConsentRepo :: "'w host \<Rightarrow> 'w OAuth2UserConsentRepo" where
  "DbOAuth2UserConsentRepo H = \<lparr>
    uc_upsert_user_consent = upsert_user_consent H,
    uc_find_user_consent = find_user_consent H,
    uc_list_user_consents = repo_list_user_consents H,
    uc_find_user_consent_by_id = find_user_consent_by_id H,
    uc_delete_user_consent_by_id = delete_user_consent_by_id H\<rparr>"

end
