(* ===== verification/Oauth2_Example.thy ===== *)
theory Oauth2_Example
  imports Oauth2_Safety Token_Codec Idp_Repos
begin

text \<open>
  A small identity provider on the executable engine and codec: one user, one public and one
  confidential client, and the repositories of codes and consents of the source.  It is the
  concrete input of the OAuth2 properties.
\<close>

definition demo_env :: "mem idp_env" where
  "demo_env = \<lparr>env_host = mem_host schema_columns, env_crypto = mem_crypto, env_bip32 = mem_bip32,
    env_random = (\<lambda>n w. (replicate n 7, w)), env_verify_encoded = (\<lambda>stored input. Inr (str_bytes stored = input)),
    env_parse_uuid = (\<lambda>s. if s = [] then None else Some (of_nat (undecimal s))),
    env_parse_rfc3339 = (\<lambda>_. None), env_to_rfc3339 = (\<lambda>_. [])\<rparr>"

definition demo_key :: "uuid \<Rightarrow> EntityType \<Rightarrow> uuid \<Rightarrow> Key" where
  "demo_key i entity_type entity_id = \<lparr>ky_id = i, ky_parent_id = None, ky_entity_type = entity_type,
    ky_entity_id = entity_id, ky_derivation_path = ''m'', ky_derivation_index = 0, ky_name = ''root'',
    ky_hardened = True, ky_revoked_at = None, ky_expires_at = None, ky_created_at = DateTime 1 0,
    ky_updated_at = DateTime 1 0\<rparr>"

definition demo_user :: User where
  "demo_user = \<lparr>usr_id = 1, usr_name = ''ada'', usr_given_name = None, usr_family_name = None,
    usr_middle_name = None, usr_nickname = None, usr_profile = None, usr_picture = None, usr_website = None,
    usr_sex = None, usr_birthdate = None, usr_zoneinfo = None, usr_locale = None,
    usr_created_at = DateTime 1 0, usr_updated_at = DateTime 1 0\<rparr>"

definition demo_client :: "uuid \<Rightarrow> string \<Rightarrow> ClientType \<Rightarrow> TokenEndpointAuthMethod \<Rightarrow> Client" where
  "demo_client i client_id client_type method = \<lparr>cl_id = i, cl_application_id = 9, cl_client_id = client_id,
    cl_client_secret = ''secret'', cl_client_id_issued_at = None, cl_client_secret_expires_at = None,
    cl_client_name = client_id, cl_client_uri = ''https://app'', cl_redirect_uris = [''https://app/back''],
    cl_client_type = client_type, cl_profile = Web, cl_token_endpoint_auth_method = method,
    cl_allowed_grant_types = [], cl_response_types = [Code], cl_allowed_scopes = [''openid'', ''storage''],
    cl_allowed_audiences = [''api''], cl_logo_uri = None, cl_contacts = [], cl_terms_of_service_uri = None,
    cl_policy_uri = None, cl_software_statement = None, cl_software_id = None, cl_software_version = None,
    cl_created_at = DateTime 1 0, cl_updated_at = DateTime 1 0\<rparr>"

definition demo_app :: Client where
  "demo_app = demo_client 2 ''app'' Public AuthNone"

definition demo_server :: Client where
  "demo_server = demo_client 3 ''srv'' Confidential ClientSecretPost"

definition no_op :: "('w, RepoError, 'a) op" where
  "no_op = err (RepoOther ''read only'')"

definition demo_service :: "mem OAuth2Service" where
  "demo_service = \<lparr>
    application_repo = \<lparr>ap_find_by_id = (\<lambda>_. ok None), ap_find_by_uri = (\<lambda>_. ok None),
      ap_list_applications = (\<lambda>_ _. ok []), ap_create_application = (\<lambda>_ _ _. no_op),
      ap_update_application = (\<lambda>_. no_op), ap_delete_application_by_id = (\<lambda>_. no_op)\<rparr>,
    client_repo = \<lparr>
      cl_find_client_by_id = (\<lambda>i. ok (if i = 2 then Some demo_app else if i = 3 then Some demo_server else None)),
      cl_find_client_by_client_id = (\<lambda>i. ok (if i = ''app'' then Some demo_app else if i = ''srv'' then Some demo_server else None)),
      cl_list_clients = (\<lambda>_ _. ok []), cl_create_client = (\<lambda>_. no_op), cl_update_client = (\<lambda>_. no_op),
      cl_delete_client_by_client_id = (\<lambda>_. no_op)\<rparr>,
    authorization_code_repo = DbOAuth2AuthorizationCodeRepo (mem_host schema_columns) mem_crypto
      \<lparr>scopes_to_json = join '' '', scopes_from_json = (\<lambda>s. Inr (split_whitespace s))\<rparr> (\<lambda>n w. (replicate n 7, w)),
    user_repo = \<lparr>us_find_user_by_id = (\<lambda>i. ok (if i = 1 then Some demo_user else None)),
      us_list_users = (\<lambda>_ _. ok []),
      us_find_user_by_username_or_email = (\<lambda>n. ok (if n = ''ada'' then Some demo_user else None)),
      us_find_user_emails_by_user_id = (\<lambda>_. ok []), us_find_user_phone_numbers_by_user_id = (\<lambda>_. ok []),
      us_find_user_password_by_user_id = (\<lambda>i. ok (Some \<lparr>pw_id = 5, pw_user_id = i, pw_active = True, pw_password_hash = ''hunter2'',
        pw_created_at = DateTime 1 0, pw_updated_at = DateTime 1 0\<rparr>)),
      us_create_user_with_password = (\<lambda>_ _. no_op), us_update_user = (\<lambda>_. no_op),
      us_upsert_primary_user_email = (\<lambda>_ _ _. no_op), us_upsert_primary_user_phone_number = (\<lambda>_ _ _. no_op),
      us_replace_user_password = (\<lambda>_ _. no_op), us_delete_user_by_id = (\<lambda>_. no_op)\<rparr>,
    oauth2_user_consent_repo = DbOAuth2UserConsentRepo (mem_host schema_columns),
    key_service = \<lparr>
      ks_key_repo = \<lparr>kr_list_active = ok [demo_key 11 EntityUser 1, demo_key 13 EntityClient 3],
        kr_list_by_entity = (\<lambda>_ _. ok []),
        kr_find_by_id = (\<lambda>i. ok (if i = 11 then Some (demo_key 11 EntityUser 1)
          else if i = 13 then Some (demo_key 13 EntityClient 3) else None)),
        kr_find_by_entity = (\<lambda>t i. ok (if t = EntityUser \<and> i = 1 then Some (demo_key 11 EntityUser 1) else None)),
        kr_find_active_entity_root_key = (\<lambda>t i. ok (if t = EntityUser \<and> i = 1 then Some (demo_key 11 EntityUser 1)
          else if t = EntityClient \<and> i = 3 then Some (demo_key 13 EntityClient 3) else None)),
        kr_delete_by_entity = (\<lambda>_ _. no_op), kr_create_key = (\<lambda>_ _ _ _ _ _. no_op)\<rparr>,
      ks_private_key_repo = \<lparr>pk_load = (\<lambda>_ path. ok (Some \<lparr>dk_key = [1, 2, 3], dk_path = path\<rparr>)),
        pk_store = (\<lambda>_ _. no_op), pk_delete = (\<lambda>_ _. no_op)\<rparr>,
      ks_namespace = ''idp''\<rparr>,
    oauth_config = default_config\<rparr>"

definition demo_world :: mem where
  "demo_world = \<lparr>mem_tables = (\<lambda>_. []), mem_conflicts = (\<lambda>_ _. []), mem_clock = 1000, mem_next = 50\<rparr>"

lemmas demo_defs = demo_env_def demo_key_def demo_user_def demo_client_def demo_app_def demo_server_def
  demo_service_def demo_world_def default_config_def

text \<open>What the executable codec signs.\<close>

definition demo_jwk :: "uuid \<Rightarrow> JwkPrivate" where
  "demo_jwk i = \<lparr>jp_use = Signature, jp_kid = decimal (unat i), jp_alg = EdDSA,
      jp_params = PrivateEc ''secp256k1'' (letters [1, 2, 3]) (letters []) (letters [1, 2, 3])\<rparr>"

definition demo_sign :: "('a \<Rightarrow> byte list) \<Rightarrow> uuid \<Rightarrow> 'a \<Rightarrow> string" where
  "demo_sign to_json i a =
    (let input = letters (put header_codec \<lparr>hdr_alg = JWT_HEADER_ALG, hdr_typ = JWT_HEADER_TYP,
        hdr_kid = decimal (unat i), hdr_jwk = None\<rparr>) @ ''.'' @ letters (to_json a) in
     input @ ''.'' @ letters (4 # [1, 2, 3] @ str_bytes input))"

lemma demo_encode:
  "encode_jwt (env_crypto demo_env) (claims_to_json (env_crypto demo_env)) (demo_jwk i) claims
    = Inr (demo_sign (put claims_codec) i claims)"
  "encode_jwt (env_crypto demo_env) (id_claims_to_json (env_crypto demo_env)) (demo_jwk i) id_claims
    = Inr (demo_sign (put claims_codec) i (id_standard_claims id_claims))"
  by (simp_all add: demo_sign_def demo_jwk_def encode_jwt_def signing_key_from_jwk_def mem_crypto_def
      demo_env_def unletters_letters Let_def)

lemma demo_load:
  "load_signing_jwk demo_env demo_service (demo_key i t e) w = (Inr (demo_jwk i), w)"
  by (simp add: load_signing_jwk_def load_private_key_def Key_derivation_path_def to_jwk_private_def to_xyd_def
      to_xy_def demo_jwk_def demo_defs mem_bip32_def mem_crypto_def op_defs mem_parse_path_def show_id_def)

lemma demo_now: "now demo_env w = (Inr (DateTime (mem_time w) 0), w)"
  by (simp add: now_def effect_def demo_env_def)

lemma demo_issue:
  "\<exists>r. issue_tokens_for_client demo_env demo_service client (UserPrincipal demo_user (demo_key 11 EntityUser 1)) scopes
    resource details audience w = (Inr r, w)"
  by (simp add: issue_tokens_for_client_def demo_now demo_load demo_encode await_def lift_def ok_def Let_def)

lemma demo_clients:
  "cl_find_client_by_client_id (client_repo demo_service) ''app'' = ok (Some demo_app)"
  "cl_find_client_by_client_id (client_repo demo_service) ''srv'' = ok (Some demo_server)"
  by (simp_all add: demo_service_def)

lemma demo_find_principal:
  "find_principal demo_service 11 w = (Inr (Some (UserPrincipal demo_user (demo_key 11 EntityUser 1))), w)"
  "find_principal demo_service 13 w = (Inr (Some (ClientPrincipal demo_server (demo_key 13 EntityClient 3))), w)"
  by (simp_all add: find_principal_def ensure_key_is_active_entity_root_def attempt_def demo_service_def op_defs)
    (simp_all add: demo_key_def)

lemma demo_keys:
  "kr_find_active_entity_root_key (ks_key_repo (key_service demo_service)) EntityClient 3 = ok (Some (demo_key 13 EntityClient 3))"
  "kr_find_by_id (ks_key_repo (key_service demo_service)) 11 = ok (Some (demo_key 11 EntityUser 1))"
  "kr_find_by_entity (ks_key_repo (key_service demo_service)) EntityUser 1 = ok (Some (demo_key 11 EntityUser 1))"
  "ky_id (demo_key i t e) = i"
  by (simp_all add: demo_service_def demo_key_def)

lemma demo_client_fields [simp]:
  "cl_id (demo_client i c t m) = i" "cl_client_id (demo_client i c t m) = c" "cl_client_type (demo_client i c t m) = t"
  "cl_token_endpoint_auth_method (demo_client i c t m) = m" "cl_client_secret (demo_client i c t m) = ''secret''"
  "cl_client_secret_expires_at (demo_client i c t m) = None" "cl_allowed_grant_types (demo_client i c t m) = []"
  "cl_allowed_scopes (demo_client i c t m) = [''openid'', ''storage'']"
  "cl_allowed_audiences (demo_client i c t m) = [''api'']" "cl_redirect_uris (demo_client i c t m) = [''https://app/back'']"
  "cl_response_types (demo_client i c t m) = [Code]"
  by (simp_all add: demo_client_def)

lemma demo_issue_client:
  "\<exists>r. issue_client_credentials_access_token demo_env demo_service demo_server
      (ClientPrincipal demo_server (demo_key 13 EntityClient 3)) scopes audience resource w = (Inr r, w)"
  by (simp add: issue_client_credentials_access_token_def demo_now demo_load demo_encode await_def lift_def ok_def Let_def)

lemma demo_scopes:
  "parse_scopes ''storage'' = [''storage'']" "parse_scopes ''openid'' = [''openid'']"
  "parse_scopes ''storage openid'' = [''storage'', ''openid'']" "parse_scopes ''openid storage'' = [''openid'', ''storage'']"
  by (simp_all add: parse_scopes_def split_whitespace_def split_white.simps white_defs)

lemmas demo_returns = returns checks demo_clients demo_keys demo_find_principal demo_now Let_def requested_scopes_def
  demo_scopes client_authenticated_def grant_allowed_def

lemma demo_client_credentials:
  "\<exists>r. client_credentials demo_env demo_service \<lparr>cc_client_id = ''srv'', cc_client_secret = ''secret'',
      cc_scope = Some ''storage'', cc_audience = Some ''api'', cc_resource = None\<rparr>
    (Some \<lparr>auth_client_id = ''srv'', auth_client_secret = Some ''secret'', auth_method = ClientSecretPost\<rparr>) demo_world
    = (Inr r, demo_world)"
  using demo_issue_client [of "[''storage'']" "''api''" None demo_world]
  by (simp add: client_credentials_def demo_returns)
    (simp add: demo_server_def demo_returns)

lemma demo_users:
  "us_find_user_by_username_or_email (user_repo demo_service) ''ada'' = ok (Some demo_user)"
  "us_find_user_password_by_user_id (user_repo demo_service) i = ok (Some \<lparr>pw_id = 5, pw_user_id = i, pw_active = True,
     pw_password_hash = ''hunter2'', pw_created_at = DateTime 1 0, pw_updated_at = DateTime 1 0\<rparr>)"
  "usr_id demo_user = 1"
  by (simp_all add: demo_service_def demo_user_def)

lemma demo_password:
  "\<exists>r. password demo_env demo_service \<lparr>pg_client_id = ''app'', pg_username = ''ada'', pg_password = ''hunter2'',
      pg_scope = Some ''openid'', pg_resource = None\<rparr> None demo_world = (Inr r, demo_world)"
proof -
  have "verify_password demo_env ''hunter2'' ''hunter2'' = Inr True" by (simp add: verify_password_def demo_env_def)
  then show ?thesis
    using demo_issue [of demo_app "[''openid'']" None None None demo_world]
    by (simp add: password_def demo_returns demo_users)
      (simp add: demo_app_def demo_returns intersect_scopes_def ex_bool_eq)
qed

section \<open>A consent and a code\<close>

definition demo_consented :: mem where
  "demo_consented = demo_world\<lparr>mem_tables := (mem_tables demo_world)(CONSENT_TABLE :=
    [stored_row (schema_columns CONSENT_TABLE) (consent_to_row \<lparr>sw_id = 40, sw_user_id = 1, sw_client_id = ''app'',
      sw_redirect_uri = ''https://app/back'', sw_scope = ''openid storage'', sw_created_at = 900, sw_updated_at = 900\<rparr>)])\<rparr>"

definition demo_coded :: mem where
  "demo_coded = demo_world\<lparr>mem_tables := (mem_tables demo_world)(CODE_TABLE :=
    [stored_row (schema_columns CODE_TABLE) (code_to_row \<lparr>cw_id = 41, cw_code = code_hash mem_crypto ''abc'',
      cw_client_id = ''app'', cw_key_id = 11, cw_redirect_uri = ''https://app/back'', cw_scopes = ''openid'',
      cw_resource = None, cw_code_challenge = Some (letters (str_bytes ''verifier'')), cw_code_challenge_method = Some 0,
      cw_nonce = None, cw_expires_at = 1500, cw_consumed_at = None, cw_created_at = 900, cw_updated_at = 900\<rparr>)])\<rparr>"

lemma demo_code:
  "ac_find_authorization_code_by_code (authorization_code_repo demo_service) ''abc'' demo_coded =
    (Inr (Some \<lparr>ac_id = 41, ac_code = ''abc'', ac_client_id = ''app'', ac_key_id = 11,
      ac_redirect_uri = ''https://app/back'', ac_scopes = [''openid''], ac_resource = None,
      ac_code_challenge = Some (letters (str_bytes ''verifier'')), ac_code_challenge_method = Some S256,
      ac_nonce = None, ac_expires_at = DateTime 1500 0, ac_consumed_at = None, ac_created_at = DateTime 900 0,
      ac_updated_at = DateTime 900 0\<rparr>), demo_coded)"
  apply (simp add: demo_service_def DbOAuth2AuthorizationCodeRepo_def code_find_def code_rows_def code_select_def code_equals_def code_column_def code_columns_def
    op_defs run_simps demo_coded_def code_to_row_def code_from_row_def or_null_with_def AuthorizationCodeRow.make_def demo_world_def)
  apply (simp add: run_simps op_defs code_try_from_def transpose_option_def code_challenge_method_of_def code_timestamp_def
     code_ensure_clear_def allows_token_issuance_def split_whitespace_def split_white.simps white_defs)
  done

lemma demo_crypto: "b64url_encode (env_crypto demo_env) = letters" "sha256 (env_crypto demo_env) bs = bs"
  by (simp_all add: demo_env_def mem_crypto_def)

lemma demo_consume:
  "\<exists>w'. ac_consume_authorization_code (authorization_code_repo demo_service) 41 t demo_coded = (Inr (), w')"
  apply (simp add: demo_service_def DbOAuth2AuthorizationCodeRepo_def consume_authorization_code_def code_rows_def code_select_def code_equals_def code_column_def code_columns_def
    op_defs run_simps demo_coded_def code_to_row_def code_from_row_def or_null_with_def AuthorizationCodeRow.make_def demo_world_def
    code_ensure_clear_def allows_token_issuance_def)
  done

lemma demo_authorization_code:
  "\<exists>r w'. authorization_code demo_env demo_service \<lparr>cg_client_id = Some ''app'', cg_code = ''abc'',
      cg_code_verifier = ''verifier'', cg_redirect_uri = None\<rparr> None demo_coded = (Inr r, w')"
proof -
  obtain w' where consume: "ac_consume_authorization_code (authorization_code_repo demo_service) 41
      (DateTime (mem_time demo_coded) 0) demo_coded = (Inr (), w')"
    using demo_consume by blast
  have "mem_time demo_coded = 1000" by (simp add: demo_coded_def demo_world_def run_simps)
  with consume show ?thesis
    using demo_issue [of demo_app "[''openid'']" None None None w']
    by (simp add: authorization_code_def demo_returns demo_code challenge_returns datetime_order validate_code_grant_iff)
      (auto simp: demo_app_def demo_returns demo_crypto)
qed

definition demo_request :: AuthorizationRequest where
  "demo_request = \<lparr>ar_response_type = Code, ar_client_id = ''app'', ar_redirect_uri = None,
      ar_scope = Some ''storage openid'', ar_state = None, ar_resource = None, ar_code_challenge = Some ''x'',
      ar_code_challenge_method = Some S256, ar_nonce = None, ar_prompt = None, ar_response_mode = None,
      ar_login_hint = None, ar_id_token_hint = None, ar_ui_locales = None\<rparr>"

lemma demo_normalize:
  "normalize_scopes [''storage'', ''openid''] = ''openid storage''"
  "normalize_scopes [''openid'', ''storage''] = ''openid storage''"
  by (simp_all add: normalize_scopes_def)

lemma demo_consent:
  "\<exists>consent. uc_find_user_consent (oauth2_user_consent_repo demo_service) 1 ''app'' ''https://app/back'' ''openid storage'' demo_consented
    = (Inr (Some consent), demo_consented)"
  by (simp add: demo_service_def DbOAuth2UserConsentRepo_def find_user_consent_def consent_find_def consent_rows_def consent_select_def consent_identity_def consent_equals_def consent_column_def consent_columns_def
    op_defs run_simps demo_consented_def consent_to_row_def consent_from_row_def ConsentRow.make_def demo_world_def
    transpose_option_def consent_try_from_def consent_timestamp_def
    consent_ensure_clear_def allows_authorization_def)

lemma demo_create:
  "\<exists>code w'. ac_create_authorization_code (authorization_code_repo demo_service) ''app'' 11 ''https://app/back'' scopes None
    (Some ''x'') (Some S256) None t demo_consented = (Inr code, w')"
  by (simp add: demo_service_def DbOAuth2AuthorizationCodeRepo_def create_authorization_code_def repo_now_def code_to_row_def code_row_from_def
    op_defs run_simps demo_consented_def or_null_with_def demo_world_def
    code_ensure_clear_def allows_token_issuance_def)

lemma demo_authorize:
  "\<exists>r w'. authorize demo_env demo_service demo_request (UserPrincipal demo_user (demo_key 11 EntityUser 1)) demo_consented
    = (Inr r, w')"
  using demo_consent demo_create [of "[''storage'', ''openid'']" "plus_seconds (DateTime (mem_time demo_consented) 0)
    (cfg_authorization_code_ttl_secs (oauth_config demo_service))"]
  by (simp add: authorize_def demo_returns demo_request_def)
    (auto simp: demo_app_def demo_returns demo_normalize demo_users validate_authorization_request_def
      validate_response_type_def resolve_redirect_uri_def validate_pkce_def validate_response_mode_def
      intersect_scopes_def)

section \<open>Tokens of the user\<close>

definition demo_claims :: "TokenUse \<Rightarrow> StandardClaims" where
  "demo_claims use = \<lparr>claim_type = Bearer, claim_use = use, claim_exp = 2000, claim_iat = 900, claim_nbf = 900,
    claim_iss = ''https://api.localhost:1355/idp'', claim_aud = ''app'', claim_client_id = ''app'', claim_sub = ''1'',
    claim_principal_type = PrincipalUser, claim_resource = None, claim_authorization_details = None,
    claim_scope = [''openid'', ''storage'']\<rparr>"

lemma demo_claims_fields [simp]:
  "claim_type (demo_claims use) = Bearer" "claim_use (demo_claims use) = use" "claim_exp (demo_claims use) = 2000"
  "claim_nbf (demo_claims use) = 900" "claim_iss (demo_claims use) = ''https://api.localhost:1355/idp''"
  "claim_aud (demo_claims use) = ''app''" "claim_client_id (demo_claims use) = ''app''"
  "claim_resource (demo_claims use) = None" "claim_authorization_details (demo_claims use) = None"
  "claim_scope (demo_claims use) = [''openid'', ''storage'']"
  by (simp_all add: demo_claims_def)

abbreviation demo_jwt :: "TokenUse \<Rightarrow> string" where
  "demo_jwt use \<equiv> demo_sign (put claims_codec) 11 (demo_claims use)"

lemma demo_decode:
  "decode_jwt (env_crypto demo_env) (claims_from_json (env_crypto demo_env)) (demo_jwt use)
    = Inr (mem_tokens.header_for (decimal 11), demo_claims use)"
proof -
  have "env_crypto demo_env = mem_crypto" by (simp add: demo_env_def)
  with mem_tokens.decode_encoded [of "demo_jwk 11" "demo_claims use" "demo_jwt use"] demo_encode(1) [of 11 "demo_claims use"]
  show ?thesis by (simp add: demo_jwk_def)
qed

lemma demo_public:
  "\<exists>jwk. find_public_jwk demo_env demo_service 11 w = (Inr jwk, w)
    \<and> verify_jwt (env_crypto demo_env) (claims_from_json (env_crypto demo_env)) jwk (demo_jwt use)
      = Inr (mem_tokens.header_for (decimal 11), demo_claims use)"
proof -
  have E: "env_crypto demo_env = mem_crypto" "env_bip32 demo_env = mem_bip32" by (simp_all add: demo_env_def)
  let ?public = "\<lparr>jk_use = Signature, jk_kid = decimal 11, jk_alg = EdDSA,
    jk_params = PublicEc ''secp256k1'' (letters [1, 2, 3]) (letters [])\<rparr>"
  have "find_public_jwk demo_env demo_service 11 w = (Inr ?public, w)"
    by (simp add: find_public_jwk_def ensure_key_is_active_entity_root_def load_private_key_def demo_keys returns
        demo_service_def Key_derivation_path_def to_jwk_public_def to_xy_def demo_key_def E mem_bip32_def mem_crypto_def
        mem_parse_path_def show_id_def) (simp add: demo_env_def)
  moreover have "verify_jwt (env_crypto demo_env) (claims_from_json (env_crypto demo_env)) ?public (demo_jwt use)
      = Inr (mem_tokens.header_for (decimal 11), demo_claims use)"
    using mem_tokens.verify_encoded [of "\<lambda>i. decimal (unat i)" "demo_key 11 EntityUser 1"
        "\<lparr>dk_key = [1, 2, 3], dk_path = []\<rparr>" "demo_jwk 11" ?public "''secp256k1''" "demo_claims use" "demo_jwt use"]
      demo_encode(1) [of 11 "demo_claims use"] E
    by (simp add: to_jwk_private_def to_xyd_def to_xy_def demo_jwk_def demo_key_def mem_bip32_def) (simp add: mem_crypto_def)
  ultimately show ?thesis by blast
qed

lemma demo_parse: "env_parse_uuid demo_env (decimal n) = Some (of_nat n)"
  by (simp add: demo_env_def decimal_nonempty undecimal_decimal)

lemma demo_refresh:
  "\<exists>r. refresh_token demo_env demo_service \<lparr>rg_refresh_token = demo_jwt UseRefresh, rg_scope = Some ''openid''\<rparr> None demo_world
    = (Inr r, demo_world)"
proof -
  have "mem_time demo_world = 1000" by (simp add: demo_world_def mem_time_def mem_from_timestamp_def)
  then show ?thesis
    using demo_issue [of demo_app "[''openid'']" None None None demo_world]
    by (simp add: refresh_token_def demo_returns demo_decode mem_tokens.header_for_def demo_parse)
      (auto simp: demo_app_def demo_returns intersect_scopes_def)
qed

lemma demo_exchange:
  "\<exists>r. token_exchange demo_env demo_service \<lparr>te_subject_token = demo_jwt UseAccess, te_subject_token_type = SubjectAccessToken,
      te_actor_token = None, te_actor_token_type = None, te_resource = Some ''https://files'', te_audience = None,
      te_authorization_details = Some [Storage \<lparr>detail_actions = [Read]\<rparr>], te_scope = Some ''storage'',
      te_requested_token_type = None\<rparr> None demo_world = (Inr r, demo_world)"
proof -
  have "mem_time demo_world = 1000" by (simp add: demo_world_def mem_time_def mem_from_timestamp_def)
  moreover obtain jwk where "find_public_jwk demo_env demo_service 11 demo_world = (Inr jwk, demo_world)"
    "verify_jwt (env_crypto demo_env) (claims_from_json (env_crypto demo_env)) jwk (demo_jwt UseAccess)
      = Inr (mem_tokens.header_for (decimal 11), demo_claims UseAccess)"
    using demo_public by blast
  moreover have "cfg_issuer (oauth_config demo_service) = ''https://api.localhost:1355/idp''"
    by (simp add: demo_service_def default_config_def)
  ultimately show ?thesis
    using demo_issue [of demo_app "[''storage'']" "Some ''https://files''" "Some [Storage \<lparr>detail_actions = [Read]\<rparr>]"
        "Some ''https://files''" demo_world]
    by (simp add: token_exchange_def demo_returns demo_decode mem_tokens.header_for_def demo_parse)
      (auto simp: demo_app_def demo_returns intersect_scopes_def validate_authorization_details_def)
qed

end
