(* ===== verification/Oauth2_Properties.thy ===== *)
theory Oauth2_Properties
  imports Oauth2_Example
begin

text \<open>
  The properties of the OAuth2 service that hold for every implementation of its repositories.
\<close>

section \<open>Authorization requests\<close>

lemma resolve_redirect_Inr:
  "resolve_redirect_uri request client = Inr uri \<Longrightarrow>
    uri \<in> set (cl_redirect_uris client) \<and> (ar_redirect_uri request = None \<or> ar_redirect_uri request = Some uri)"
  by (auto simp: resolve_redirect_uri_def split: option.splits list.splits if_splits)

lemma validate_pkce_Inr:
  assumes "validate_pkce request client required = Inr ()" and "required \<or> cl_client_type client = Public"
  shows "ar_code_challenge request \<noteq> None \<and> ar_code_challenge_method request = Some S256"
  using assms by (auto simp: validate_pkce_def Let_def split: option.splits if_splits)

lemma authorize_returns:
  assumes "authorize V S request subject w = (Inr response, w')"
  shows "\<exists>client redirect_uri scopes consent code n w0 w1 w2.
    client_known S (ar_client_id request) client
    \<and> get_entity_type subject = EntityUser
    \<and> resolve_redirect_uri request client = Inr redirect_uri
    \<and> validate_pkce request client (cfg_require_pkce (oauth_config S)) = Inr ()
    \<and> scopes = intersect_scopes (requested_scopes (ar_scope request)) (cl_allowed_scopes client)
    \<and> uc_find_user_consent (oauth2_user_consent_repo S) (get_entity_id subject) (cl_client_id client) redirect_uri
        (normalize_scopes scopes) w0 = (Inr (Some consent), w1)
    \<and> ac_create_authorization_code (authorization_code_repo S) (cl_client_id client) (ky_id (get_key subject))
        redirect_uri scopes (ar_resource request) (ar_code_challenge request) (ar_code_challenge_method request)
        (ar_nonce request) (plus_seconds n (cfg_authorization_code_ttl_secs (oauth_config S))) w2 = (Inr code, w')
    \<and> response = Success (ac_code code) (ar_state request) (Some (cfg_issuer (oauth_config S)))"
  by (insert assms, unfold authorize_def Let_def validate_authorization_request_def,
      simp add: returns split: if_split_asm, clarify, drule client_knownI,
      intro exI conjI, assumption+, auto)

section \<open>Properties\<close>

text \<open>C1: whatever the grant, the token endpoint answers only when the client was found, is allowed the grant
  and authenticated itself (a confidential client by its secret and registered method), and the access token is
  the signed encoding of claims that name this issuer, this client and the principal, valid for exactly the
  configured time; a client principal gets a token from the client credentials grant only, and that grant alone
  gives no refresh token.\<close>

theorem token_endpoint_sound:
  assumes "token V S request client_auth w = (Inr response, w')"
  shows "\<exists>client client_id subject claims. client_known S client_id client \<and> grant_allowed client (grant_of request)
    \<and> client_authenticated client client_auth
    \<and> issued V S (get_key subject) claims (tr_access_token response)
    \<and> access_token_for V S client subject claims
    \<and> (principal_type subject = PrincipalClient \<longleftrightarrow> grant_of request = GrantClientCredentials)
    \<and> (tr_refresh_token response = None \<longleftrightarrow> grant_of request = GrantClientCredentials)"
  using assms
  by (cases request)
    (auto simp: granted_def dest!: password_returns authorization_code_returns client_credentials_returns
      refresh_token_returns token_exchange_returns, (blast | force)+)

theorem token_endpoint_sound_witness:
  "\<exists>response client subject claims. token demo_env demo_service (ClientCredentials \<lparr>cc_client_id = ''srv'',
      cc_client_secret = ''secret'', cc_scope = Some ''storage'', cc_audience = Some ''api'', cc_resource = None\<rparr>)
    (Some \<lparr>auth_client_id = ''srv'', auth_client_secret = Some ''secret'', auth_method = ClientSecretPost\<rparr>) demo_world
    = (Inr response, demo_world)
    \<and> issued demo_env demo_service (get_key subject) claims (tr_access_token response)
    \<and> access_token_for demo_env demo_service client subject claims \<and> principal_type subject = PrincipalClient"
proof -
  let ?request = "ClientCredentials \<lparr>cc_client_id = ''srv'', cc_client_secret = ''secret'',
      cc_scope = Some ''storage'', cc_audience = Some ''api'', cc_resource = None\<rparr>"
  let ?auth = "Some \<lparr>auth_client_id = ''srv'', auth_client_secret = Some ''secret'', auth_method = ClientSecretPost\<rparr>"
  obtain r where run: "token demo_env demo_service ?request ?auth demo_world = (Inr r, demo_world)"
    using demo_client_credentials by auto
  with token_endpoint_sound [OF run] show ?thesis by auto
qed

text \<open>The run of a successful exchange, call by call: the checks in between change nothing.\<close>

lemma authorization_code_run:
  assumes "authorization_code V S request client_auth w = (Inr response, w')"
  shows "\<exists>n code subject client w1 w2 w3 w4 w5. utc_now (env_host V) w = (n, w1)
    \<and> ac_find_authorization_code_by_code (authorization_code_repo S) (cg_code request) w1 = (Inr (Some code), w2)
    \<and> code_usable V request code n
    \<and> find_principal S (ac_key_id code) w2 = (Inr (Some subject), w3)
    \<and> cl_find_client_by_client_id (client_repo S) (ac_client_id code) w3 = (Inr (Some client), w4)
    \<and> grant_allowed client GrantAuthorizationCode \<and> client_authenticated client client_auth
    \<and> ac_consume_authorization_code (authorization_code_repo S) (ac_id code) n w4 = (Inr (), w5)
    \<and> issue_tokens_for_client V S client subject (ac_scopes code) (ac_resource code) None None w5 = (Inr response, w')"
proof -
  from assms obtain n code subject client w1 w2 w3 w4 w5 where
    "utc_now (env_host V) w = (n, w1)"
    "ac_find_authorization_code_by_code (authorization_code_repo S) (cg_code request) w1 = (Inr (Some code), w2)"
    "ac_consumed_at code = None" "\<not> ac_expires_at code < n"
    "find_principal S (ac_key_id code) w2 = (Inr (Some subject), w3)"
    "cl_find_client_by_client_id (client_repo S) (ac_client_id code) w3 = (Inr (Some client), w4)"
    "grant_allowed client GrantAuthorizationCode" "client_authenticated client client_auth"
    "validate_authorization_code_grant request (ac_client_id code) (Some (ac_redirect_uri code)) = Inr ()"
    "\<forall>challenge. ac_code_challenge code = Some challenge \<longrightarrow> ac_code_challenge_method code = Some S256
      \<and> b64url_encode (env_crypto V) (sha256 (env_crypto V) (str_bytes (cg_code_verifier request))) = challenge"
    "ac_consume_authorization_code (authorization_code_repo S) (ac_id code) n w4 = (Inr (), w5)"
    "issue_tokens_for_client V S client subject (ac_scopes code) (ac_resource code) None None w5 = (Inr response, w')"
    by (simp add: authorization_code_def now_def returns checks challenge_returns del: not_None_eq) metis
  then show ?thesis unfolding code_usable_def validate_code_grant_iff by blast
qed

text \<open>C2: an authorization code is exchanged only for the client it was issued to and only once verified.  At the time
  \<open>n\<close> that the clock showed when the request arrived, the code that was then found was neither consumed nor expired; the client
  is the code's, may use the grant and authenticated itself, the redirect address repeats that of the authorization request,
  and the verifier hashes to the challenge of the request if there was one.  The code was marked consumed at that time, the
  tokens were made afterwards, in the state that the consumption left, and they have the scopes of the code and the user of
  the code as subject.\<close>

theorem authorization_code_sound:
  assumes "authorization_code V S request client_auth w = (Inr response, w')"
  shows "\<exists>n code subject client claims w1 w2 w3 w4 w5. utc_now (env_host V) w = (n, w1)
    \<and> ac_find_authorization_code_by_code (authorization_code_repo S) (cg_code request) w1 = (Inr (Some code), w2)
    \<and> code_usable V request code n
    \<and> find_principal S (ac_key_id code) w2 = (Inr (Some subject), w3)
    \<and> cl_find_client_by_client_id (client_repo S) (ac_client_id code) w3 = (Inr (Some client), w4)
    \<and> grant_allowed client GrantAuthorizationCode \<and> client_authenticated client client_auth
    \<and> ac_consume_authorization_code (authorization_code_repo S) (ac_id code) n w4 = (Inr (), w5)
    \<and> issue_tokens_for_client V S client subject (ac_scopes code) (ac_resource code) None None w5 = (Inr response, w')
    \<and> issued V S (get_key subject) claims (tr_access_token response)
    \<and> access_token_for V S client subject claims \<and> claim_scope claims = ac_scopes code
    \<and> claim_principal_type claims = PrincipalUser"
proof -
  from authorization_code_run [OF assms] obtain n code subject client w1 w2 w3 w4 w5 where run:
    "utc_now (env_host V) w = (n, w1)"
    "ac_find_authorization_code_by_code (authorization_code_repo S) (cg_code request) w1 = (Inr (Some code), w2)"
    "code_usable V request code n" "find_principal S (ac_key_id code) w2 = (Inr (Some subject), w3)"
    "cl_find_client_by_client_id (client_repo S) (ac_client_id code) w3 = (Inr (Some client), w4)"
    "grant_allowed client GrantAuthorizationCode" "client_authenticated client client_auth"
    "ac_consume_authorization_code (authorization_code_repo S) (ac_id code) n w4 = (Inr (), w5)"
    and issue: "issue_tokens_for_client V S client subject (ac_scopes code) (ac_resource code) None None w5 = (Inr response, w')"
    by blast
  from issue_tokens_returns [OF issue] obtain claims where
    "issued V S (get_key subject) claims (tr_access_token response)" "access_token_for V S client subject claims"
    "claim_scope claims = ac_scopes code" "claim_principal_type claims = PrincipalUser"
    by (auto simp: access_token_for_def)
  with run issue show ?thesis by blast
qed

theorem authorization_code_sound_witness:
  "\<exists>response w' code n w1. authorization_code demo_env demo_service \<lparr>cg_client_id = Some ''app'', cg_code = ''abc'',
      cg_code_verifier = ''verifier'', cg_redirect_uri = None\<rparr> None demo_coded = (Inr response, w')
    \<and> utc_now (env_host demo_env) demo_coded = (n, w1)
    \<and> code_usable demo_env \<lparr>cg_client_id = Some ''app'', cg_code = ''abc'',
      cg_code_verifier = ''verifier'', cg_redirect_uri = None\<rparr> code n"
proof -
  obtain r w' where run: "authorization_code demo_env demo_service \<lparr>cg_client_id = Some ''app'', cg_code = ''abc'',
      cg_code_verifier = ''verifier'', cg_redirect_uri = None\<rparr> None demo_coded = (Inr r, w')"
    using demo_authorization_code by blast
  with authorization_code_sound [OF run] show ?thesis by blast
qed

text \<open>C5: the client credentials grant gives a token to a confidential client about itself only: the client
  showed its secret, named itself in the request, and asked for an audience and for at least one scope it was
  provisioned with; the token is for exactly that audience and those scopes, with no refresh and no identity
  token.\<close>

theorem client_credentials_sound:
  assumes "client_credentials V S request client_auth w = (Inr response, w')"
  shows "\<exists>client subject claims. client_known S (cc_client_id request) client
    \<and> cl_client_type client = Confidential \<and> grant_allowed client GrantClientCredentials
    \<and> client_authenticated client client_auth \<and> get_entity_id subject = cl_id client
    \<and> issued V S (get_key subject) claims (tr_access_token response)
    \<and> claim_sub claims = show_id V (cl_id client) \<and> claim_principal_type claims = PrincipalClient
    \<and> cc_audience request = Some (claim_aud claims) \<and> claim_aud claims \<in> set (cl_allowed_audiences client)
    \<and> claim_scope claims = requested_scopes (cc_scope request) \<and> claim_scope claims \<noteq> []
    \<and> set (claim_scope claims) \<subseteq> set (cl_allowed_scopes client)
    \<and> tr_refresh_token response = None \<and> tr_id_token response = None"
  using client_credentials_returns [OF assms] by (fastforce simp: granted_def access_token_for_def)

theorem client_credentials_sound_witness:
  "\<exists>response client. client_credentials demo_env demo_service \<lparr>cc_client_id = ''srv'', cc_client_secret = ''secret'',
      cc_scope = Some ''storage'', cc_audience = Some ''api'', cc_resource = None\<rparr>
    (Some \<lparr>auth_client_id = ''srv'', auth_client_secret = Some ''secret'', auth_method = ClientSecretPost\<rparr>) demo_world
    = (Inr response, demo_world) \<and> client_known demo_service ''srv'' client \<and> cl_client_type client = Confidential"
proof -
  obtain r where run: "client_credentials demo_env demo_service \<lparr>cc_client_id = ''srv'', cc_client_secret = ''secret'',
      cc_scope = Some ''storage'', cc_audience = Some ''api'', cc_resource = None\<rparr>
    (Some \<lparr>auth_client_id = ''srv'', auth_client_secret = Some ''secret'', auth_method = ClientSecretPost\<rparr>) demo_world
    = (Inr r, demo_world)"
    using demo_client_credentials by blast
  with client_credentials_sound [OF run] show ?thesis by auto
qed

text \<open>C6: a token is exchanged only when its signature verified under the public key the service publishes for
  the key it names, it is an access token of this issuer that is valid now, and its client is allowed the exchange
  and authenticated itself; the new token has no scope the old one lacks and exactly the authorization details of
  the request, which were checked.\<close>

theorem token_exchange_sound:
  assumes "token_exchange V S request client_auth w = (Inr response, w')"
  shows "\<exists>jwk key header old n client subject claims.
    (\<exists>w0 w1. find_public_jwk V S key w0 = (Inr jwk, w1))
    \<and> verify_jwt (env_crypto V) (claims_from_json (env_crypto V)) jwk (te_subject_token request) = Inr (header, old)
    \<and> claim_use old = UseAccess \<and> claim_iss old = cfg_issuer (oauth_config S)
    \<and> (\<exists>w0 w1. utc_now (env_host V) w0 = (n, w1)) \<and> claim_nbf old \<le> timestamp n \<and> timestamp n < claim_exp old
    \<and> client_known S (claim_client_id old) client \<and> grant_allowed client GrantTokenExchange
    \<and> client_authenticated client client_auth
    \<and> issued V S (get_key subject) claims (tr_access_token response)
    \<and> set (claim_scope claims) \<subseteq> set (claim_scope old)
    \<and> claim_authorization_details claims = te_authorization_details request
    \<and> (\<forall>details. te_authorization_details request = Some details \<longrightarrow> validate_authorization_details details = Inr ())"
  using token_exchange_returns [OF assms] unfolding granted_def by blast

theorem token_exchange_sound_witness:
  "\<exists>response jwk key header old w1. token_exchange demo_env demo_service \<lparr>te_subject_token = demo_jwt UseAccess,
      te_subject_token_type = SubjectAccessToken, te_actor_token = None, te_actor_token_type = None,
      te_resource = Some ''https://files'', te_audience = None,
      te_authorization_details = Some [Storage \<lparr>detail_actions = [Read]\<rparr>], te_scope = Some ''storage'',
      te_requested_token_type = None\<rparr> None demo_world = (Inr response, demo_world)
    \<and> (\<exists>w0. find_public_jwk demo_env demo_service key w0 = (Inr jwk, w1))
    \<and> verify_jwt (env_crypto demo_env) (claims_from_json (env_crypto demo_env)) jwk (demo_jwt UseAccess) = Inr (header, old)"
proof -
  obtain r where run: "token_exchange demo_env demo_service \<lparr>te_subject_token = demo_jwt UseAccess,
      te_subject_token_type = SubjectAccessToken, te_actor_token = None, te_actor_token_type = None,
      te_resource = Some ''https://files'', te_audience = None,
      te_authorization_details = Some [Storage \<lparr>detail_actions = [Read]\<rparr>], te_scope = Some ''storage'',
      te_requested_token_type = None\<rparr> None demo_world = (Inr r, demo_world)"
    using demo_exchange by blast
  from token_exchange_sound [OF run] obtain jwk key header old w0 w1 where
    "find_public_jwk demo_env demo_service key w0 = (Inr jwk, w1)"
    "verify_jwt (env_crypto demo_env) (claims_from_json (env_crypto demo_env)) jwk (demo_jwt UseAccess) = Inr (header, old)"
    by auto
  with run show ?thesis by blast
qed



text \<open>C4: a code is issued only to a user who consented: the principal is a user, the client is registered and
  the redirect address is one of its own, the user has approved this client, address and set of scopes, the
  scopes of the code are among those of the client, and a proof key is bound to the code whenever it is
  required, always for a public client.\<close>

theorem authorize_sound:
  assumes "authorize V S request subject w = (Inr response, w')"
  shows "\<exists>client redirect_uri scopes consent code expires_at w0 w1 w2.
    get_entity_type subject = EntityUser \<and> client_known S (ar_client_id request) client
    \<and> redirect_uri \<in> set (cl_redirect_uris client)
    \<and> (ar_redirect_uri request = None \<or> ar_redirect_uri request = Some redirect_uri)
    \<and> set scopes \<subseteq> set (cl_allowed_scopes client)
    \<and> uc_find_user_consent (oauth2_user_consent_repo S) (get_entity_id subject) (cl_client_id client) redirect_uri
        (normalize_scopes scopes) w0 = (Inr (Some consent), w1)
    \<and> (cfg_require_pkce (oauth_config S) \<or> cl_client_type client = Public \<longrightarrow>
        ar_code_challenge request \<noteq> None \<and> ar_code_challenge_method request = Some S256)
    \<and> ac_create_authorization_code (authorization_code_repo S) (cl_client_id client) (ky_id (get_key subject))
        redirect_uri scopes (ar_resource request) (ar_code_challenge request) (ar_code_challenge_method request)
        (ar_nonce request) expires_at w2 = (Inr code, w')
    \<and> response = Success (ac_code code) (ar_state request) (Some (cfg_issuer (oauth_config S)))"
proof -
  from authorize_returns [OF assms] obtain client redirect_uri scopes consent code n w0 w1 w2 where
    run: "client_known S (ar_client_id request) client" "get_entity_type subject = EntityUser"
      "resolve_redirect_uri request client = Inr redirect_uri"
      "validate_pkce request client (cfg_require_pkce (oauth_config S)) = Inr ()"
      "scopes = intersect_scopes (requested_scopes (ar_scope request)) (cl_allowed_scopes client)"
      "uc_find_user_consent (oauth2_user_consent_repo S) (get_entity_id subject) (cl_client_id client) redirect_uri
        (normalize_scopes scopes) w0 = (Inr (Some consent), w1)"
      "ac_create_authorization_code (authorization_code_repo S) (cl_client_id client) (ky_id (get_key subject))
        redirect_uri scopes (ar_resource request) (ar_code_challenge request) (ar_code_challenge_method request)
        (ar_nonce request) (plus_seconds n (cfg_authorization_code_ttl_secs (oauth_config S))) w2 = (Inr code, w')"
      "response = Success (ac_code code) (ar_state request) (Some (cfg_issuer (oauth_config S)))"
    by blast
  have "set scopes \<subseteq> set (cl_allowed_scopes client)" by (simp add: run(5) set_intersect_scopes)
  with run(1,2,6-8) resolve_redirect_Inr [OF run(3)] validate_pkce_Inr [OF run(4)] show ?thesis by blast
qed

theorem authorize_sound_witness:
  "\<exists>response w' scopes consent w0 w1. authorize demo_env demo_service demo_request
      (UserPrincipal demo_user (demo_key 11 EntityUser 1)) demo_consented = (Inr response, w')
    \<and> uc_find_user_consent (oauth2_user_consent_repo demo_service) 1 ''app'' ''https://app/back''
        (normalize_scopes scopes) w0 = (Inr (Some consent), w1)"
proof -
  obtain r w' where run: "authorize demo_env demo_service demo_request
      (UserPrincipal demo_user (demo_key 11 EntityUser 1)) demo_consented = (Inr r, w')"
    using demo_authorize by blast
  from authorize_sound [OF run] obtain client uri scopes consent w0 w1 where
    "client_known demo_service ''app'' client" "uri \<in> set (cl_redirect_uris client)"
    "uc_find_user_consent (oauth2_user_consent_repo demo_service) 1 (cl_client_id client) uri
        (normalize_scopes scopes) w0 = (Inr (Some consent), w1)"
    by (auto simp: demo_request_def demo_users)
  with run show ?thesis
    by (auto simp: client_known_def demo_clients demo_app_def returns)
qed



end
