(* ===== verification/Scopes.thy ===== *)
theory Scopes
  imports Oauth2_Helpers
begin

text \<open>
  Scopes and authorization details: parsing a printed list of scopes gives it back, the
  normal form of a list of scopes identifies its set, and the details a token can carry.
\<close>

section \<open>Scope tokens\<close>

text \<open>A scope token of RFC 6749 is a non-empty word of printable ASCII characters without space.\<close>

definition scope_token :: "string \<Rightarrow> bool" where
  "scope_token s = (s \<noteq> [] \<and> (\<forall>c \<in> set s. 33 \<le> (of_char c :: nat) \<and> of_char c \<le> (126 :: nat)))"

lemma token_char_not_white:
  assumes "33 \<le> (of_char c :: nat)" "of_char c \<le> (126 :: nat)"
  shows "white_front (c # cs) = 0"
  using assms by (cases cs; cases "tl cs") (auto simp: white_defs)

lemma split_white_token:
  assumes "\<forall>c \<in> set s. 33 \<le> (of_char c :: nat) \<and> of_char c \<le> (126 :: nat)"
  shows "split_white acc (s @ t) = split_white (rev s @ acc) t"
  using assms
proof (induction s arbitrary: acc)
  case (Cons c s)
  then have "white_front (c # s @ t) = 0" by (intro token_char_not_white) auto
  with Cons show ?case by (simp add: split_white.simps [of acc "c # s @ t"])
qed simp

lemma split_white_space: "split_white acc (CHR '' '' # t) = (if acc = [] then [] else [rev acc]) @ split_white [] t"
  by (simp add: split_white.simps [of acc "CHR '' '' # t"] white_defs)

lemma split_white_Nil: "split_white acc [] = (if acc = [] then [] else [rev acc])"
  by (simp add: split_white.simps [of acc "[]"])

lemma parse_join: "\<forall>s \<in> set scopes. scope_token s \<Longrightarrow> parse_scopes (join '' '' scopes) = scopes"
proof (induction scopes rule: induct_list012)
  case (2 x)
  then show ?case
    using split_white_token [of x "[]" "[]"]
    by (simp add: scope_token_def parse_scopes_def split_whitespace_def split_white_Nil)
next
  case (3 x y zs)
  then have "parse_scopes (join '' '' (y # zs)) = y # zs" by simp
  then show ?case
    using 3(3) split_white_token [of x "[]" "CHR '' '' # join '' '' (y # zs)"]
    by (simp add: scope_token_def parse_scopes_def split_whitespace_def split_white_space)
qed (simp add: parse_scopes_def split_whitespace_def split_white_Nil)

lemma distinct_remdups_adj_sorted: "sorted xs \<Longrightarrow> distinct (remdups_adj (xs :: 'a :: linorder list))"
  by (induction xs rule: remdups_adj.induct) (auto simp: order_le_less)

lemma normal_list: "remdups_adj (sort xs) = sorted_list_of_set (set xs)"
  by (rule sorted_distinct_set_unique) (simp_all add: distinct_remdups_adj_sorted)

text \<open>Parsing the scopes that were printed into a token or a response gives back the same list.\<close>

lemma scopes_roundtrip:
  assumes "\<forall>s \<in> set scopes. scope_token s"
  shows "parse_scopes (scopes_to_string scopes) = scopes"
  using parse_join [OF assms] by (simp add: scopes_to_string_def)

text \<open>Two lists of scopes have the same normal form exactly when they have the same members, so that a
  consent is found again for every order and repetition of the scopes and for no other set.\<close>

lemma normalize_scopes_iff:
  assumes "\<forall>s \<in> set xs \<union> set ys. scope_token s"
  shows "normalize_scopes xs = normalize_scopes ys \<longleftrightarrow> set xs = set ys"
proof
  assume "normalize_scopes xs = normalize_scopes ys"
  then have "parse_scopes (normalize_scopes xs) = parse_scopes (normalize_scopes ys)" by simp
  then have "remdups_adj (sort xs) = remdups_adj (sort ys)"
    using assms by (simp add: normalize_scopes_def parse_join)
  then have "set (remdups_adj (sort xs)) = set (remdups_adj (sort ys))" by (rule arg_cong)
  then show "set xs = set ys" by simp
qed (simp add: normalize_scopes_def normal_list)


lemma repeated_iff: "(\<exists>i < length xs. xs ! i \<in> set (take i xs)) \<longleftrightarrow> \<not> distinct xs"
proof
  assume "\<exists>i < length xs. xs ! i \<in> set (take i xs)"
  then obtain i j where "i < length xs" "j < i" "xs ! i = xs ! j"
    by (auto simp: in_set_conv_nth)
  then show "\<not> distinct xs" by (metis nth_eq_iff_index_eq order_less_irrefl order_less_trans)
next
  assume "\<not> distinct xs"
  then obtain ys y zs where "y \<in> set ys" "xs = ys @ y # zs" by (auto simp: not_distinct_conv_prefix)
  then have "length ys < length xs" "xs ! length ys \<in> set (take (length ys) xs)" by (simp_all add: nth_append)
  then show "\<exists>i < length xs. xs ! i \<in> set (take i xs)" by blast
qed

text \<open>The authorization details of a token exchange are accepted exactly when they are one storage detail
  with at least one action and no action twice; every other list is refused as an invalid request.\<close>

lemma validate_authorization_details_iff:
  "validate_authorization_details details =
    (if \<exists>d. details = [Storage d] \<and> detail_actions d \<noteq> [] \<and> distinct (detail_actions d) then Inr ()
     else Inl (described InvalidRequest
       (if length details = 1 then ''storage actions must be non-empty and unique''
        else ''exactly one storage authorization detail is required'')))"
proof (cases "\<exists>d. details = [d]")
  case True
  then obtain d where "details = [Storage d]" by (metis AuthorizationDetail.exhaust)
  then show ?thesis
    by (auto simp: validate_authorization_details_def list_ex_iff repeated_iff [symmetric])
next
  case False
  then have "length details \<noteq> 1" by (simp add: length_Suc_conv)
  with False show ?thesis
    by (cases details rule: list.exhaust; cases "tl details")
      (auto simp: validate_authorization_details_def split: AuthorizationDetail.split)
qed

end
