(* ===== verification/Key_Vault.thy ===== *)
theory Key_Vault
  imports Oauth2_Example
begin

text \<open>
  Derived keys and the private key repository are correct: derivation along a path composes,
  derived keys verify against their ancestors, and \<open>ensure_derivation_path\<close> keeps every key of
  a namespace equal to the derivation of the namespace's root.  The repository is specified by
  the locale \<open>private_keys\<close>; the key ring repository satisfies it when the key ring does what its
  crate documents (locale \<open>os_keyring\<close>), and an executable key ring does.
\<close>

section \<open>Derivation\<close>

lemma derive_along_append:
  "derive_along B key (path @ path') = and_then (derive_along B key path) (\<lambda>key'. derive_along B key' path')"
  by (induction path arbitrary: key) (auto simp: and_then_def split: sum.split)

lemma starts_with_iff: "starts_with xs ps \<longleftrightarrow> (\<exists>ys. xs = ps @ ys)"
  by (metis append_eq_conv_conj append_take_drop_id starts_with_def)

lemma derive_from_path_Inr:
  "derive_from_derivation_path B k path = Inr k' \<longleftrightarrow>
    (\<exists>rest. path = dk_path k @ rest \<and> derive_along B (dk_key k) rest = Inr (dk_key k')) \<and> dk_path k' = path"
  by (cases k') (auto simp: derive_from_derivation_path_def starts_with_iff)

lemma verify_derived_key_Inr:
  "dk_path child = dk_path k @ rest \<Longrightarrow> derive_along B (dk_key k) rest = Inr key \<Longrightarrow>
    verify_derived_key B k child = Inr (private_bytes B key = private_bytes B (dk_key child))"
  by (auto simp: verify_derived_key_def starts_with_iff)

text \<open>C40: deriving in two steps is deriving at once: a key derived to an intermediate path and from there to a
  longer one is the key, or the error, of the derivation to the longer path.\<close>

theorem derive_compose:
  assumes "derive_from_derivation_path B k path = Inr parent"
  shows "derive_from_derivation_path B parent (path @ rest) = derive_from_derivation_path B k (path @ rest)"
  using assms
  by (auto simp: derive_from_path_Inr) (auto simp: derive_from_derivation_path_def starts_with_iff derive_along_append)

theorem derive_compose_witness:
  "derive_from_derivation_path mem_bip32 \<lparr>dk_key = [1, 2] @ child_bytes 7, dk_path = [7]\<rparr> ([7] @ [8])
    = derive_from_derivation_path mem_bip32 \<lparr>dk_key = [1, 2], dk_path = []\<rparr> ([7] @ [8])"
  by (rule derive_compose) (simp add: derive_from_path_Inr mem_bip32_def)

text \<open>Verification accepts exactly the derived keys: a key verifies against an ancestor when deriving the
  ancestor to the path of the key succeeds and gives the same private key.\<close>

lemma verify_derived_iff:
  "verify_derived_key B k child = Inr True \<longleftrightarrow>
    (\<exists>derived. derive_from_derivation_path B k (dk_path child) = Inr derived
      \<and> private_bytes B (dk_key derived) = private_bytes B (dk_key child))"
proof (cases "\<exists>rest. dk_path child = dk_path k @ rest")
  case True
  then obtain rest where rest: "dk_path child = dk_path k @ rest" by blast
  then show ?thesis
    by (cases "derive_along B (dk_key k) rest")
      (auto simp: verify_derived_key_def derive_from_derivation_path_def starts_with_iff)
next
  case False
  then show ?thesis by (auto simp: verify_derived_key_def derive_from_derivation_path_def starts_with_iff)
qed

section \<open>Private key repositories\<close>

text \<open>\<open>vault w ns path\<close> is the extended key stored for the namespace and path.\<close>

type_synonym vault = "string \<Rightarrow> derivation_path \<Rightarrow> xprv option"

text \<open>Every stored key of the namespace is derived from its stored root.\<close>

definition rooted :: "bip32 \<Rightarrow> vault \<Rightarrow> string \<Rightarrow> bool" where
  "rooted B v ns = (\<forall>path key. v ns path = Some key \<longrightarrow>
    (\<exists>root. v ns [] = Some root \<and> derive_along B root path = Inr key))"

text \<open>Nothing that was stored changed, and nothing outside the namespace was stored.\<close>

definition grows :: "string \<Rightarrow> vault \<Rightarrow> vault \<Rightarrow> bool" where
  "grows ns v v' = ((\<forall>path key. v ns path = Some key \<longrightarrow> v' ns path = Some key) \<and> (\<forall>other. other \<noteq> ns \<longrightarrow> v' other = v other))"

lemma grows_refl [simp]: "grows ns v v"
  by (simp add: grows_def)

lemma grows_trans: "grows ns v v' \<Longrightarrow> grows ns v' v'' \<Longrightarrow> grows ns v v''"
  by (auto simp: grows_def)

locale private_keys =
  fixes P :: "'w PrivateKeyRepo" and vault :: "'w \<Rightarrow> vault"
  assumes load_keeps: "pk_load P ns path w = (result, w') \<Longrightarrow> vault w' = vault w"
    and load_ok: "pk_load P ns path w = (Inr found, w') \<Longrightarrow>
      found = map_option (\<lambda>key. \<lparr>dk_key = key, dk_path = path\<rparr>) (vault w ns path)"
    and store_ok: "pk_store P ns k w = (Inr u, w') \<Longrightarrow>
      vault w' = (vault w)(ns := (vault w ns)(dk_path k \<mapsto> dk_key k))"
    and store_fails: "pk_store P ns k w = (Inl e, w') \<Longrightarrow> vault w' = vault w"
begin

lemma wp_load:
  assumes "\<And>w'. vault w' = vault w \<Longrightarrow>
      Q (map_option (\<lambda>key. \<lparr>dk_key = key, dk_path = path\<rparr>) (vault w ns path)) w'"
    and "\<And>e w'. vault w' = vault w \<Longrightarrow> X e w'"
  shows "wp (pk_load P ns path) Q X w"
  by (rule wp_I) (use assms load_keeps load_ok in metis)+

lemma wp_store:
  assumes "\<And>w'. vault w' = (vault w)(ns := (vault w ns)(dk_path k \<mapsto> dk_key k)) \<Longrightarrow> Q () w'"
    and "\<And>e w'. vault w' = vault w \<Longrightarrow> X e w'"
  shows "wp (pk_store P ns k) Q X w"
  by (rule wp_I) (use assms store_ok store_fails in \<open>(metis old.unit.exhaust)+\<close>)

definition ensured :: "bip32 \<Rightarrow> string \<Rightarrow> derivation_path \<Rightarrow> vault \<Rightarrow> DerivedKey \<Rightarrow> 'w \<Rightarrow> bool" where
  "ensured B ns path v k w = (dk_path k = path \<and> vault w ns path = Some (dk_key k)
    \<and> rooted B (vault w) ns \<and> grows ns v (vault w))"

lemma wp_store_child:
  assumes parent: "ensured B ns path v parent w" and new: "v ns (path @ [c]) = None"
    and derive: "derive_from_derivation_path B parent (path @ [c]) = Inr child"
  shows "wp (pk_store P ns child) (\<lambda>_ w'. ensured B ns (path @ [c]) v child w')
    (\<lambda>_ w'. rooted B (vault w') ns \<and> grows ns v (vault w')) w"
proof (rule wp_store, goal_cases)
  case (1 w')
  from parent have path: "dk_path parent = path" "vault w ns path = Some (dk_key parent)"
    and old: "rooted B (vault w) ns" "grows ns v (vault w)" by (simp_all add: ensured_def)
  from derive path have child: "dk_path child = path @ [c]" "derive_along B (dk_key parent) [c] = Inr (dk_key child)"
    by (auto simp: derive_from_path_Inr)
  from old(1) path(2) obtain root where root: "vault w ns [] = Some root" "derive_along B root path = Inr (dk_key parent)"
    by (auto simp: rooted_def)
  have "derive_along B root (path @ [c]) = Inr (dk_key child)"
    unfolding derive_along_append using root(2) child(2) by simp
  with old root(1) child(1) new 1 show ?case
    by (auto simp: ensured_def rooted_def grows_def)
qed (use parent in \<open>simp add: ensured_def\<close>)

lemma wp_ensure_path:
  assumes "rooted B (vault w) ns"
  shows "wp (ensure_derivation_path P B ns path) (ensured B ns path (vault w))
    (\<lambda>_ w'. rooted B (vault w') ns \<and> grows ns (vault w) (vault w')) w"
  using assms
proof (induction path arbitrary: w rule: rev_induct)
  case Nil
  show ?case
    unfolding ensure_derivation_path.simps [of P B ns "[]"] wp_simps
    by (rule wp_load) (use Nil in \<open>auto simp: ensured_def split: option.split\<close>)
next
  case (snoc c path)
  show ?case
    unfolding ensure_derivation_path.simps [of P B ns "path @ [c]"] wp_await
  proof (rule wp_load, goal_cases)
    case (1 w1)
    show ?case
    proof (cases "vault w ns (path @ [c])")
      case (Some key)
      then show ?thesis using 1 snoc.prems by (simp add: wp_simps ensured_def)
    next
      case None
      have IH: "wp (ensure_derivation_path P B ns path) (ensured B ns path (vault w))
          (\<lambda>_ w'. rooted B (vault w') ns \<and> grows ns (vault w) (vault w')) w1"
        using snoc.IH [of w1] snoc.prems 1 by simp
      show ?thesis
        using None
        by (auto simp: wp_simps butlast_append split: sum.split
            intro!: wp_conseq [OF IH] wp_conseq [OF wp_store_child] dest: result_map_err_Inr [THEN iffD1])
          (simp_all add: ensured_def)
    qed
  qed (use snoc.prems in simp)
qed

end

section \<open>The key ring repository\<close>

text \<open>The key ring keeps one secret for every entry; the printed forms of paths and extended keys are those
  of BIP32: paths are \<open>m/0'/1\<close>, keys are base58 text, and both can be read back.\<close>

locale os_keyring =
  fixes B :: bip32 and G :: "'w keyring" and secrets :: "'w \<Rightarrow> keyring_entry \<Rightarrow> byte list option"
    and service :: string
  assumes entry_ok: "entry_with_modifiers G service user modifiers = Inr entry \<Longrightarrow> entry = (service, user, modifiers)"
    and get_keeps: "get_secret G entry w = (result, w') \<Longrightarrow> secrets w' = secrets w"
    and get_ok: "get_secret G entry w = (Inr secret, w') \<Longrightarrow> secrets w entry = Some secret"
    and get_none: "get_secret G entry w = (Inl NoEntry, w') \<Longrightarrow> secrets w entry = None"
    and set_ok: "set_secret G entry secret w = (Inr u, w') \<Longrightarrow> secrets w' = (secrets w)(entry \<mapsto> secret)"
    and set_fails: "set_secret G entry secret w = (Inl e, w') \<Longrightarrow> secrets w' = secrets w"
    and path_inverse: "path_from_str B (path_to_string B path) = Inr path"
    and path_no_colon: "CHR '':'' \<notin> set (path_to_string B path)"
    and xprv_inverse: "xprv_from_str B (xprv_to_string B xprv) = Inr xprv"
    and xprv_utf8: "valid_utf8 (str_bytes (xprv_to_string B xprv))"
begin

definition key_entry :: "string \<Rightarrow> derivation_path \<Rightarrow> keyring_entry" where
  "key_entry ns path =
    (service, derived_key_entry_name ns (path_to_string B path), [(''target'', ''IdP'')])"

definition read_key :: "byte list \<Rightarrow> xprv option" where
  "read_key secret = (case from_utf8 G secret of Inl _ \<Rightarrow> None
    | Inr text \<Rightarrow> (case xprv_from_str B text of Inl _ \<Rightarrow> None | Inr xprv \<Rightarrow> Some xprv))"

definition keyring_vault :: "'w \<Rightarrow> vault" where
  "keyring_vault w ns path = Option.bind (secrets w (key_entry ns path)) read_key"

lemma key_entry_inj: "key_entry ns path = key_entry ns' path' \<longleftrightarrow> ns = ns' \<and> path = path'"
proof
  assume "key_entry ns path = key_entry ns' path'"
  then have "ns @ CHR '':'' # path_to_string B path = ns' @ CHR '':'' # path_to_string B path'"
    by (simp add: key_entry_def derived_key_entry_name_def)
  then have "ns = ns' \<and> path_to_string B path = path_to_string B path'"
    by (rule after_sep_unique) (rule path_no_colon)+
  then show "ns = ns' \<and> path = path'" using path_inverse by (metis Inr_inject)
qed simp

lemma read_stored: "read_key (str_bytes (xprv_to_string B xprv)) = Some xprv"
  by (simp add: read_key_def from_utf8_def xprv_utf8 xprv_inverse)

lemma create_entry: "create_key_entry G service (derived_key_entry_name ns (path_to_string B path)) = Inr entry \<Longrightarrow>
    entry = key_entry ns path"
  by (auto simp: create_key_entry_def key_entry_def dest: entry_ok)

lemma load_returns:
  assumes "keyring_load B G service ns path w = (result, w')"
  shows "secrets w' = secrets w"
    and "result = Inr found \<Longrightarrow>
      found = map_option (\<lambda>key. \<lparr>dk_key = key, dk_path = path\<rparr>) (keyring_vault w ns path)"
  using assms
  by (auto simp: keyring_load_def await_def lift_def ok_def err_def result_map_err_def DerivedKey_from_xprv_def
      keyring_vault_def read_key_def split: sum.splits prod.splits keyring_error.splits
      dest!: create_entry dest: get_keeps get_ok get_none)

lemma store_returns:
  assumes "keyring_store B G service ns k w = (result, w')"
  shows "result = Inl e \<Longrightarrow> secrets w' = secrets w"
    and "result = Inr u \<Longrightarrow> secrets w' = (secrets w)(key_entry ns (dk_path k) \<mapsto> str_bytes (xprv_to_string B (dk_key k)))"
  using assms
  by (auto simp: keyring_store_def await_def lift_def ok_def map_err_def result_map_err_def to_xprv_string_def
      split: sum.splits prod.splits dest!: create_entry dest: set_ok set_fails)

lemma keyring_repo: "private_keys (PrivateKeyKeyringRepo B G service) (keyring_vault)"
proof
  fix ns k w u w'
  assume "pk_store (PrivateKeyKeyringRepo B G service) ns k w = (Inr u, w')"
  then have "keyring_store B G service ns k w = (Inr u, w')" by (simp add: PrivateKeyKeyringRepo_def)
  note store_returns(2) [OF this refl]
  then show "keyring_vault w' = (keyring_vault w)(ns := (keyring_vault w ns)(dk_path k \<mapsto> dk_key k))"
    by (intro ext) (auto simp: keyring_vault_def key_entry_inj read_stored)
next
  fix ns path w result w'
  assume "pk_load (PrivateKeyKeyringRepo B G service) ns path w = (result, w')"
  then have "keyring_load B G service ns path w = (result, w')" by (simp add: PrivateKeyKeyringRepo_def)
  then show "keyring_vault w' = keyring_vault w"
    by (simp add: keyring_vault_def fun_eq_iff load_returns(1))
next
  fix ns k w e w'
  assume "pk_store (PrivateKeyKeyringRepo B G service) ns k w = (Inl e, w')"
  then have "keyring_store B G service ns k w = (Inl e, w')" by (simp add: PrivateKeyKeyringRepo_def)
  from store_returns(1) [OF this refl] show "keyring_vault w' = keyring_vault w"
    by (intro ext) (simp add: keyring_vault_def)
qed (auto simp: PrivateKeyKeyringRepo_def dest: load_returns(2))

end

sublocale os_keyring \<subseteq> ring: private_keys "PrivateKeyKeyringRepo B G service" keyring_vault
  by (rule keyring_repo)

text \<open>A key ring that is available.\<close>

locale os_keyring_live = os_keyring B G secrets service
  for B :: bip32 and G :: "'w keyring" and secrets :: "'w \<Rightarrow> keyring_entry \<Rightarrow> byte list option" and service :: string +
  assumes entry_live: "\<exists>entry. entry_with_modifiers G s user modifiers = Inr entry"
    and get_live: "\<exists>result w'. get_secret G entry w = (result, w') \<and> (\<forall>text. result \<noteq> Inl (KeyringError text))"
    and set_live: "\<exists>w'. set_secret G entry secret w = (Inr (), w')"
begin

text \<open>Whatever is stored under the names of the namespace can be read.\<close>

definition readable :: "string \<Rightarrow> 'w \<Rightarrow> bool" where
  "readable ns w = (\<forall>path secret. secrets w (key_entry ns path) = Some secret \<longrightarrow> read_key secret \<noteq> None)"

lemma load_live:
  assumes "readable ns w"
  shows "\<exists>w'. pk_load (PrivateKeyKeyringRepo B G service) ns path w =
    (Inr (map_option (\<lambda>key. \<lparr>dk_key = key, dk_path = path\<rparr>) (keyring_vault w ns path)), w') \<and> readable ns w'"
proof -
  obtain entry where "entry_with_modifiers G service (derived_key_entry_name ns (path_to_string B path)) [(''target'', ''IdP'')]
      = Inr entry" using entry_live by blast
  then have entry: "create_key_entry G service (derived_key_entry_name ns (path_to_string B path)) = Inr (key_entry ns path)"
    using create_entry by (simp add: create_key_entry_def)
  obtain result w' where get: "get_secret G (key_entry ns path) w = (result, w')" "\<And>text. result \<noteq> Inl (KeyringError text)"
    using get_live by blast
  have same: "secrets w' = secrets w" by (rule get_keeps [OF get(1)])
  show ?thesis
  proof (cases result)
    case (Inl e)
    with get(2) have "e = NoEntry" by (cases e) auto
    with Inl get have "secrets w (key_entry ns path) = None" using get_none by blast
    with Inl \<open>e = NoEntry\<close> get(1) same assms show ?thesis
      by (simp add: PrivateKeyKeyringRepo_def keyring_load_def await_def lift_def ok_def entry keyring_vault_def readable_def)
  next
    case (Inr secret)
    with get have stored: "secrets w (key_entry ns path) = Some secret" using get_ok by blast
    with assms obtain xprv where "read_key secret = Some xprv" by (auto simp: readable_def)
    with Inr get(1) same stored assms show ?thesis
      by (auto simp: PrivateKeyKeyringRepo_def keyring_load_def await_def lift_def ok_def entry keyring_vault_def
          readable_def read_key_def DerivedKey_from_xprv_def split: sum.splits)
  qed
qed

lemma store_live:
  assumes "readable ns w"
  shows "\<exists>w'. pk_store (PrivateKeyKeyringRepo B G service) ns k w = (Inr (), w') \<and> readable ns w'"
proof -
  obtain entry where "entry_with_modifiers G service (derived_key_entry_name ns (path_to_string B (dk_path k)))
      [(''target'', ''IdP'')] = Inr entry" using entry_live by blast
  then have entry: "create_key_entry G service (derived_key_entry_name ns (path_to_string B (dk_path k))) = Inr (key_entry ns (dk_path k))"
    using create_entry by (simp add: create_key_entry_def)
  obtain w' where set: "set_secret G (key_entry ns (dk_path k)) (str_bytes (to_xprv_string B k)) w = (Inr (), w')"
    using set_live by blast
  then have "keyring_store B G service ns k w = (Inr (), w')"
    by (simp add: keyring_store_def entry await_def lift_def map_err_def ok_def)
  moreover have "readable ns w'"
    using assms by (auto simp: set_ok [OF set] readable_def read_stored to_xprv_string_def)
  ultimately show ?thesis by (simp add: PrivateKeyKeyringRepo_def)
qed

text \<open>The loop over the ancestors ends and finds or makes every key on the path.\<close>

lemma ensure_live:
  assumes "rooted B (keyring_vault w) ns" "readable ns w" "keyring_vault w ns [] = Some root"
    and "derive_along B root path = Inr key"
  shows "\<exists>w'. ensure_derivation_path (PrivateKeyKeyringRepo B G service) B ns path w
    = (Inr \<lparr>dk_key = key, dk_path = path\<rparr>, w') \<and> readable ns w'"
  using assms
proof (induction path arbitrary: w key rule: rev_induct)
  case Nil
  from load_live [OF Nil(2), of "[]"] Nil show ?case
    by (auto simp: ensure_derivation_path.simps [of _ _ _ "[]"] await_def ok_def)
next
  case (snoc c path)
  let ?P = "PrivateKeyKeyringRepo B G service"
  from load_live [OF snoc.prems(2), of "path @ [c]"] obtain w1 where
    load: "pk_load ?P ns (path @ [c]) w =
      (Inr (map_option (\<lambda>key. \<lparr>dk_key = key, dk_path = path @ [c]\<rparr>) (keyring_vault w ns (path @ [c]))), w1)"
    "readable ns w1" by blast
  have same: "keyring_vault w1 = keyring_vault w" by (rule ring.load_keeps [OF load(1)])
  show ?case
  proof (cases "keyring_vault w ns (path @ [c])")
    case (Some stored)
    with snoc.prems have "stored = key" by (auto simp: rooted_def)
    with Some load show ?thesis
      by (auto simp: ensure_derivation_path.simps [of _ _ _ "path @ [c]"] await_def ok_def)
  next
    case None
    from snoc.prems(4) obtain parent where parent: "derive_along B root path = Inr parent"
      "derive_along B parent [c] = Inr key" by (auto simp: derive_along_append)
    from snoc.IH [OF _ load(2) _ parent(1)] snoc.prems(1,3) obtain w2 where
      ensure: "ensure_derivation_path ?P B ns path w1 = (Inr \<lparr>dk_key = parent, dk_path = path\<rparr>, w2)" "readable ns w2"
      by (auto simp: same)
    have derive: "derive_from_derivation_path B \<lparr>dk_key = parent, dk_path = path\<rparr> (path @ [c])
        = Inr \<lparr>dk_key = key, dk_path = path @ [c]\<rparr>"
      using parent(2) by (simp add: derive_from_path_Inr)
    from store_live [OF ensure(2), of "\<lparr>dk_key = key, dk_path = path @ [c]\<rparr>"] None load ensure derive show ?thesis
      by (auto simp: ensure_derivation_path.simps [of _ _ _ "path @ [c]"] await_def ok_def lift_def butlast_append)
  qed
qed

end

section \<open>An executable key ring\<close>

definition mem_keyring :: "(keyring_entry \<Rightarrow> byte list option) keyring" where
  "mem_keyring = \<lparr>entry_with_modifiers = (\<lambda>s u m. Inr (s, u, m)),
    get_secret = (\<lambda>entry w. (case w entry of None \<Rightarrow> Inl NoEntry | Some secret \<Rightarrow> Inr secret, w)),
    set_secret = (\<lambda>entry secret w. (Inr (), w(entry \<mapsto> secret))),
    delete_credential = (\<lambda>entry w. if w entry = None then (Inl NoEntry, w) else (Inr (), w(entry := None))),
    show_keyring_error = (\<lambda>_. ''no entry''), show_utf8_error = (\<lambda>_. ''invalid utf-8 sequence''),
    fill_random = (\<lambda>n w. (Inr (replicate n 42), w))\<rparr>"

lemma letters_utf8: "valid_utf8 (str_bytes (letters bs))"
proof -
  have ascii: "\<forall>b \<in> set bytes. unat b < 128 \<Longrightarrow> valid_utf8 bytes" for bytes
    by (induction bytes) auto
  have "c \<in> set (letters bs) \<Longrightarrow> of_char c < (113 :: nat)" for c
    using nibbles by (auto simp: letters_def letter_code simp del: of_char_of)
  then have "c \<in> set (letters bs) \<Longrightarrow> unat (of_nat (of_char c) :: byte) < 128" for c
    by (fastforce simp: unat_of_nat take_bit_nat_eq_self)
  then show ?thesis by (intro ascii) (auto simp: str_bytes_def)
qed

interpretation mem_ring: os_keyring_live mem_bip32 mem_keyring "\<lambda>w. w" service for service
proof
  fix entry w show "\<exists>result w'. get_secret mem_keyring entry w = (result, w') \<and> (\<forall>text. result \<noteq> Inl (KeyringError text))"
    by (simp add: mem_keyring_def split: option.split)
qed (auto simp: mem_keyring_def mem_bip32_def mem_path_inverse mem_path_no_colon unletters_letters letters_utf8
    split: option.splits)

section \<open>Properties of the key ring repository\<close>

text \<open>A namespace with a root key and nothing else.\<close>

definition root_only :: "keyring_entry \<Rightarrow> byte list option" where
  "root_only = [(''svc'', ''ns:m'', [(''target'', ''IdP'')]) \<mapsto> str_bytes (letters [1, 2])]"

lemma mem_path_text_root: "mem_path_text path = ''m'' \<longleftrightarrow> path = []"
  by (cases path) (simp_all add: mem_path_text_def)

lemma mem_bip32_fields:
  "path_to_string mem_bip32 = mem_path_text" "xprv_from_str mem_bip32 = unletters"
  by (simp_all add: mem_bip32_def)

lemma root_only_vault:
  "mem_ring.keyring_vault ''svc'' root_only ''ns'' [] = Some [1, 2]"
  "mem_ring.keyring_vault ''svc'' root_only ''ns'' path \<noteq> None \<Longrightarrow> path = []"
  by (auto simp: mem_ring.keyring_vault_def mem_ring.key_entry_def mem_ring.read_key_def root_only_def
      derived_key_entry_name_def mem_path_text_root from_utf8_def letters_utf8 unletters_letters
      mem_bip32_fields split: if_splits)

lemma root_only_ok: "rooted mem_bip32 (mem_ring.keyring_vault ''svc'' root_only) ''ns''" "mem_ring.readable ''svc'' ''ns'' root_only"
proof -
  show "rooted mem_bip32 (mem_ring.keyring_vault ''svc'' root_only) ''ns''"
    unfolding rooted_def
  proof (intro allI impI)
    fix path key assume key: "mem_ring.keyring_vault ''svc'' root_only ''ns'' path = Some key"
    with root_only_vault(2) [of path] have "path = []" by simp
    with key root_only_vault(1) show "\<exists>root. mem_ring.keyring_vault ''svc'' root_only ''ns'' [] = Some root
        \<and> derive_along mem_bip32 root path = Inr key" by simp
  qed
  show "mem_ring.readable ''svc'' ''ns'' root_only"
    by (auto simp: mem_ring.readable_def mem_ring.key_entry_def mem_ring.read_key_def root_only_def
      derived_key_entry_name_def from_utf8_def letters_utf8 unletters_letters mem_bip32_fields split: if_splits)
qed

text \<open>C35: \<open>ensure_derivation_path\<close> keeps the key ring rooted.  When every stored key of the namespace is the
  derivation of its root, the key it returns is the root's derivation to the path and is stored, every key of the
  namespace still is such a derivation, no stored key changed, and no other namespace was touched; an error
  leaves the same true of what is stored.\<close>

theorem ensure_derivation_path_rooted:
  assumes "os_keyring B G secrets service"
    and "rooted B (os_keyring.keyring_vault B G secrets service w) ns"
    and "ensure_derivation_path (PrivateKeyKeyringRepo B G service) B ns path w = (result, w')"
  shows "rooted B (os_keyring.keyring_vault B G secrets service w') ns
    \<and> grows ns (os_keyring.keyring_vault B G secrets service w) (os_keyring.keyring_vault B G secrets service w')
    \<and> (\<forall>k. result = Inr k \<longrightarrow> dk_path k = path
        \<and> os_keyring.keyring_vault B G secrets service w' ns path = Some (dk_key k)
        \<and> (\<exists>root. os_keyring.keyring_vault B G secrets service w' ns [] = Some root \<and> derive_along B root path = Inr (dk_key k)))"
proof -
  note repo = os_keyring.keyring_repo [OF assms(1)]
  note wp = private_keys.wp_ensure_path [OF repo, OF assms(2), of path]
  show ?thesis
  proof (cases result)
    case (Inl e)
    with wp_run_err [OF wp] assms(3) show ?thesis by simp
  next
    case (Inr k)
    with wp_run [OF wp] assms(3) show ?thesis
      by (auto simp: private_keys.ensured_def [OF repo] rooted_def)
  qed
qed

theorem ensure_derivation_path_rooted_witness:
  "\<exists>w'. ensure_derivation_path (PrivateKeyKeyringRepo mem_bip32 mem_keyring ''svc'') mem_bip32 ''ns'' [5, 6] root_only
      = (Inr \<lparr>dk_key = [1, 2] @ child_bytes 5 @ child_bytes 6, dk_path = [5, 6]\<rparr>, w')
    \<and> rooted mem_bip32 (mem_ring.keyring_vault ''svc'' w') ''ns''"
proof -
  have "derive_along mem_bip32 [1, 2] [5, 6] = Inr ([1, 2] @ child_bytes 5 @ child_bytes 6)" by (simp add: mem_bip32_def)
  from mem_ring.ensure_live [OF root_only_ok root_only_vault(1) this] obtain w' where
    run: "ensure_derivation_path (PrivateKeyKeyringRepo mem_bip32 mem_keyring ''svc'') mem_bip32 ''ns'' [5, 6] root_only
      = (Inr \<lparr>dk_key = [1, 2] @ child_bytes 5 @ child_bytes 6, dk_path = [5, 6]\<rparr>, w')" by blast
  with ensure_derivation_path_rooted [OF mem_ring.os_keyring_axioms root_only_ok(1) run] show ?thesis by blast
qed

text \<open>C36: \<open>ensure_derivation_path\<close> returns.  On an available key ring whose namespace is rooted and readable, when
  the root can be derived to the path, the recursion over the ancestors ends with exactly that key, however many
  of the ancestors are missing.\<close>

theorem ensure_derivation_path_returns:
  assumes "os_keyring_live B G secrets service"
    and "rooted B (os_keyring.keyring_vault B G secrets service w) ns"
    and "os_keyring_live.readable B G secrets service ns w"
    and "os_keyring.keyring_vault B G secrets service w ns [] = Some root"
    and "derive_along B root path = Inr key"
  shows "\<exists>w'. ensure_derivation_path (PrivateKeyKeyringRepo B G service) B ns path w
    = (Inr \<lparr>dk_key = key, dk_path = path\<rparr>, w')"
  using os_keyring_live.ensure_live [OF assms] by blast

theorem ensure_derivation_path_returns_witness:
  "\<exists>w'. ensure_derivation_path (PrivateKeyKeyringRepo mem_bip32 mem_keyring ''svc'') mem_bip32 ''ns'' [5, 6] root_only
    = (Inr \<lparr>dk_key = [1, 2] @ child_bytes 5 @ child_bytes 6, dk_path = [5, 6]\<rparr>, w')"
  by (rule ensure_derivation_path_returns [OF mem_ring.os_keyring_live_axioms root_only_ok root_only_vault(1)])
    (simp add: mem_bip32_def)

text \<open>Keys of different entities or paths never share an entry of the key ring: the name of an entry
  determines the kind and the identifier of the entity and the derivation path.\<close>

lemma key_entry_name_injective:
  assumes "\<And>i j. show_uuid i = show_uuid j \<Longrightarrow> i = j" and "\<And>i. CHR '':'' \<notin> set (show_uuid i)"
    and "\<And>p q. path_to_string B p = path_to_string B q \<Longrightarrow> p = q" and "\<And>p. CHR '':'' \<notin> set (path_to_string B p)"
    and "derived_key_entry_name (scoped_namespace show_uuid S entity_type entity_id) (path_to_string B path)
      = derived_key_entry_name (scoped_namespace show_uuid S entity_type' entity_id') (path_to_string B path')"
  shows "entity_type = entity_type' \<and> entity_id = entity_id' \<and> path = path'"
proof -
  have 1: "scoped_namespace show_uuid S entity_type entity_id = scoped_namespace show_uuid S entity_type' entity_id'
      \<and> path_to_string B path = path_to_string B path'"
    using assms(5) unfolding derived_key_entry_name_def
    by (intro after_sep_unique [where c = "CHR '':''"]) (simp_all add: assms(4))
  then have "(ks_namespace S @ '':'' @ EntityType_to_string entity_type) @ CHR '':'' # show_uuid entity_id
      = (ks_namespace S @ '':'' @ EntityType_to_string entity_type') @ CHR '':'' # show_uuid entity_id'"
    by (simp add: scoped_namespace_def)
  then have "ks_namespace S @ '':'' @ EntityType_to_string entity_type = ks_namespace S @ '':'' @ EntityType_to_string entity_type'
      \<and> show_uuid entity_id = show_uuid entity_id'"
    by (rule after_sep_unique) (rule assms(2))+
  moreover have "EntityType_to_string entity_type = EntityType_to_string entity_type' \<Longrightarrow> entity_type = entity_type'"
    by (cases entity_type; cases entity_type') simp_all
  ultimately show ?thesis using 1 assms(1,3) by simp
qed


end
