(* ===== verification/Idp_Stores.thy ===== *)
theory Idp_Stores
  imports Idp_Repos
begin

text \<open>
  The repositories of keys, applications and clients over the replicated database:
  \<open>key_repo.rs\<close>, \<open>application_repo.rs\<close> and \<open>client_repo.rs\<close> in
  \<open>crates/idp-service/src/replica\<close>.  The JSON text of the lists of a client is the external
  crate's: \<open>client_json\<close>.
\<close>

section \<open>Shared helpers\<close>

text \<open>Each of the files has its own copy of these functions, with its table fixed or as an argument.\<close>

definition table_column :: "string \<Rightarrow> string \<Rightarrow> query_column" where
  "table_column t name = QueryColumn t name"

definition table_equals :: "string \<Rightarrow> string \<Rightarrow> Value \<Rightarrow> query_expr" where
  "table_equals t name v = Equals (QValue (ExprColumn (table_column t name))) (QValue (ExprValue v))"

definition table_assignment :: "string \<Rightarrow> string \<Rightarrow> Value \<Rightarrow> assignment" where
  "table_assignment t name v = Assignment (table_column t name) (ExprValue v)"

definition table_select :: "string \<Rightarrow> string list \<Rightarrow> query_expr option \<Rightarrow> query" where
  "table_select t columns predicate = Select t (map (table_column t) columns) predicate"

definition table_rows :: "'w host \<Rightarrow> (row \<Rightarrow> string list \<Rightarrow> from_row_error + 'a) \<Rightarrow> query \<Rightarrow> string
    \<Rightarrow> ('w, RepoError, 'a list) op" where
  "table_rows H from_row query missing =
    await (map_err repo_db_error (execute H [Query query])) (\<lambda>results.
    await (lift (ok_or (RepoInvalidInput missing) (pop_result results))) (\<lambda>result.
    lift (result_map_err (repo_row_error H) (rows_as H from_row result))))"

definition table_write :: "'w host \<Rightarrow> query list \<Rightarrow> ('w, RepoError, unit) op" where
  "table_write H queries = await (map_err repo_db_error (execute H (map Query queries))) (\<lambda>_. ok ())"

text \<open>\<open>Iterator::next\<close> on a fresh iterator.\<close>

definition first :: "'a list \<Rightarrow> 'a option" where
  "first xs = (case xs of [] \<Rightarrow> None | x # _ \<Rightarrow> Some x)"

text \<open>\<open>Iterator::max_by_key\<close>: the last of the elements with the greatest key; \<open>Iterator::max\<close>.\<close>

definition max_by_key :: "('a \<Rightarrow> 'k::linorder) \<Rightarrow> 'a list \<Rightarrow> 'a option" where
  "max_by_key key xs = (case xs of [] \<Rightarrow> None
    | x # ys \<Rightarrow> Some (foldl (\<lambda>best y. if key best \<le> key y then y else best) x ys))"

definition max_of :: "'k::linorder list \<Rightarrow> 'k option" where
  "max_of xs = max_by_key (\<lambda>x. x) xs"

text \<open>\<open>u32::checked_add\<close> and \<open>u32::try_from\<close> of an \<open>i64\<close>.\<close>

definition checked_add :: "32 word \<Rightarrow> 32 word \<Rightarrow> 32 word option" where
  "checked_add a b = (if unat a + unat b < 2 ^ 32 then Some (a + b) else None)"

definition u32_try_from :: "int \<Rightarrow> 32 word option" where
  "u32_try_from n = (if 0 \<le> n \<and> n < 2 ^ 32 then Some (word_of_int n) else None)"

definition int_of_bool :: "bool \<Rightarrow> int" where
  "int_of_bool b = (if b then 1 else 0)"

section \<open>Keys\<close>

abbreviation KEY_TABLE :: string where
  "KEY_TABLE \<equiv> ''keys''"

definition key_columns :: "string list" where
  "key_columns = [''id'', ''parent_id'', ''entity_type'', ''entity_id'', ''derivation_path'', ''derivation_index'',
    ''hardened'', ''name'', ''revoked_at'', ''expires_at'', ''created_at'', ''updated_at'']"

record KeyRow =
  kw_id :: uuid
  kw_parent_id :: "uuid option"
  kw_entity_type :: int
  kw_entity_id :: uuid
  kw_derivation_path :: string
  kw_derivation_index :: int
  kw_hardened :: int
  kw_name :: string
  kw_revoked_at :: "int option"
  kw_expires_at :: "int option"
  kw_created_at :: int
  kw_updated_at :: int

definition key_from_row :: "'w host \<Rightarrow> row \<Rightarrow> string list \<Rightarrow> from_row_error + KeyRow" where
  "key_from_row H r cs =
    and_then (field H decode_uuid r cs ''id'') (\<lambda>i.
    and_then (field H decode_opt_uuid r cs ''parent_id'') (\<lambda>parent_id.
    and_then (field H decode_int r cs ''entity_type'') (\<lambda>entity_type.
    and_then (field H decode_uuid r cs ''entity_id'') (\<lambda>entity_id.
    and_then (field H decode_text r cs ''derivation_path'') (\<lambda>derivation_path.
    and_then (field H decode_int r cs ''derivation_index'') (\<lambda>derivation_index.
    and_then (field H decode_int r cs ''hardened'') (\<lambda>hardened.
    and_then (field H decode_text r cs ''name'') (\<lambda>nm.
    and_then (field H decode_opt_int r cs ''revoked_at'') (\<lambda>revoked_at.
    and_then (field H decode_opt_int r cs ''expires_at'') (\<lambda>expires_at.
    and_then (field H decode_int r cs ''created_at'') (\<lambda>created_at.
    and_then (field H decode_int r cs ''updated_at'') (\<lambda>updated_at.
    Inr (KeyRow.make i parent_id entity_type entity_id derivation_path derivation_index hardened nm revoked_at
      expires_at created_at updated_at)))))))))))))"

definition entity_type_of :: "int \<Rightarrow> RepoError + EntityType" where
  "entity_type_of n = (if n = 0 then Inr EntityUser else if n = 1 then Inr EntityClient
    else Inl (RepoInvalidInput ''invalid key entity type''))"

definition EntityType_as_i64 :: "EntityType \<Rightarrow> int" where
  "EntityType_as_i64 t = (case t of EntityUser \<Rightarrow> 0 | EntityClient \<Rightarrow> 1)"

definition key_timestamp :: "'w host \<Rightarrow> int \<Rightarrow> RepoError + datetime" where
  "key_timestamp H n = ok_or (RepoInvalidInput ''invalid key timestamp'') (from_timestamp H n)"

definition key_try_from :: "'w host \<Rightarrow> KeyRow \<Rightarrow> RepoError + Key" where
  "key_try_from H r =
    and_then (entity_type_of (kw_entity_type r)) (\<lambda>entity_type.
    and_then (ok_or (RepoInvalidInput ''invalid key derivation index'') (u32_try_from (kw_derivation_index r)))
      (\<lambda>derivation_index.
    and_then (transpose_option (key_timestamp H) (kw_revoked_at r)) (\<lambda>revoked_at.
    and_then (transpose_option (key_timestamp H) (kw_expires_at r)) (\<lambda>expires_at.
    and_then (key_timestamp H (kw_created_at r)) (\<lambda>created_at.
    and_then (key_timestamp H (kw_updated_at r)) (\<lambda>updated_at.
    Inr \<lparr>ky_id = kw_id r, ky_parent_id = kw_parent_id r, ky_entity_type = entity_type,
      ky_entity_id = kw_entity_id r, ky_derivation_path = kw_derivation_path r,
      ky_derivation_index = derivation_index, ky_name = kw_name r, ky_hardened = (kw_hardened r \<noteq> 0),
      ky_revoked_at = revoked_at, ky_expires_at = expires_at, ky_created_at = created_at,
      ky_updated_at = updated_at\<rparr>))))))"

definition key_row_from :: "Key \<Rightarrow> KeyRow" where
  "key_row_from k = \<lparr>kw_id = ky_id k, kw_parent_id = ky_parent_id k,
    kw_entity_type = EntityType_as_i64 (ky_entity_type k), kw_entity_id = ky_entity_id k,
    kw_derivation_path = ky_derivation_path k, kw_derivation_index = uint (ky_derivation_index k),
    kw_hardened = int_of_bool (ky_hardened k), kw_name = ky_name k,
    kw_revoked_at = map_option timestamp (ky_revoked_at k),
    kw_expires_at = map_option timestamp (ky_expires_at k), kw_created_at = timestamp (ky_created_at k),
    kw_updated_at = timestamp (ky_updated_at k)\<rparr>"

definition key_to_row :: "KeyRow \<Rightarrow> row" where
  "key_to_row r = [Uuid (kw_id r), or_null_with Uuid (kw_parent_id r), Integer (kw_entity_type r),
    Uuid (kw_entity_id r), Text (kw_derivation_path r), Integer (kw_derivation_index r),
    Integer (kw_hardened r), Text (kw_name r), or_null_with Integer (kw_revoked_at r),
    or_null_with Integer (kw_expires_at r), Integer (kw_created_at r), Integer (kw_updated_at r)]"

definition key_active :: "Key \<Rightarrow> datetime \<Rightarrow> bool" where
  "key_active key n =
    ((case ky_revoked_at key of None \<Rightarrow> True | Some revoked_at \<Rightarrow> revoked_at > n)
     \<and> (case ky_expires_at key of None \<Rightarrow> True | Some expires_at \<Rightarrow> expires_at > n))"

definition db_keys :: "'w host \<Rightarrow> ('w, RepoError, Key list) op" where
  "db_keys H =
    await (table_rows H (key_from_row H) (table_select KEY_TABLE key_columns None) ''missing key query result'') (\<lambda>rows.
    lift (try_collect (key_try_from H) rows))"

definition key_ensure_clear :: "'w host \<Rightarrow> uuid \<Rightarrow> ('w, RepoError, unit) op" where
  "key_ensure_clear H i =
    await (map_err repo_db_error (allows_authentication H [] [i])) (\<lambda>clear.
    if clear then ok () else err (RepoInvalidInput ''conflicted key''))"

definition db_list_active :: "'w host \<Rightarrow> ('w, RepoError, Key list) op" where
  "db_list_active H =
    await (effect (utc_now H)) (\<lambda>n.
    await (db_keys H) (\<lambda>keys.
    let keys = filter (\<lambda>key. key_active key n) keys in
    await (for_each (\<lambda>key. key_ensure_clear H (ky_id key)) keys) (\<lambda>_. ok keys)))"

definition db_list_by_entity :: "'w host \<Rightarrow> EntityType \<Rightarrow> uuid \<Rightarrow> ('w, RepoError, Key list) op" where
  "db_list_by_entity H entity_type entity_id =
    await (effect (utc_now H)) (\<lambda>n.
    await (db_keys H) (\<lambda>keys.
    let keys = filter (\<lambda>key. ky_entity_type key = entity_type \<and> ky_entity_id key = entity_id \<and> key_active key n) keys in
    await (for_each (\<lambda>key. key_ensure_clear H (ky_id key)) keys) (\<lambda>_. ok keys)))"

text \<open>\<open>find(|key| key.id == id && active(key, Utc::now()))\<close>: the clock is read for every key with
  this identifier.\<close>

fun find_active_key :: "'w host \<Rightarrow> uuid \<Rightarrow> Key list \<Rightarrow> ('w, 'e, Key option) op" where
  "find_active_key H i [] = ok None"
| "find_active_key H i (key # keys) =
    (if ky_id key = i
     then await (effect (utc_now H)) (\<lambda>n. if key_active key n then ok (Some key) else find_active_key H i keys)
     else find_active_key H i keys)"

definition db_find_key_by_id :: "'w host \<Rightarrow> uuid \<Rightarrow> ('w, RepoError, Key option) op" where
  "db_find_key_by_id H i =
    await (db_keys H) (\<lambda>keys.
    await (find_active_key H i keys) (\<lambda>found.
    await (case found of None \<Rightarrow> ok () | Some key \<Rightarrow> key_ensure_clear H (ky_id key)) (\<lambda>_. ok found)))"

definition db_find_active_entity_root_key :: "'w host \<Rightarrow> EntityType \<Rightarrow> uuid \<Rightarrow> ('w, RepoError, Key option) op" where
  "db_find_active_entity_root_key H entity_type entity_id =
    await (db_list_by_entity H entity_type entity_id) (\<lambda>keys.
    ok (max_by_key ky_created_at (filter (\<lambda>key. ky_parent_id key = None) keys)))"

definition db_find_by_entity :: "'w host \<Rightarrow> EntityType \<Rightarrow> uuid \<Rightarrow> ('w, RepoError, Key option) op" where
  "db_find_by_entity H entity_type entity_id = db_find_active_entity_root_key H entity_type entity_id"

definition db_delete_by_entity :: "'w host \<Rightarrow> EntityType \<Rightarrow> uuid \<Rightarrow> ('w, RepoError, unit) op" where
  "db_delete_by_entity H entity_type entity_id =
    table_write H [Delete KEY_TABLE (Some (And
      (table_equals KEY_TABLE ''entity_type'' (Integer (EntityType_as_i64 entity_type)))
      (table_equals KEY_TABLE ''entity_id'' (Uuid entity_id))))]"

definition next_derivation_index :: "uuid option \<Rightarrow> Key list \<Rightarrow> RepoError + 32 word" where
  "next_derivation_index parent_id keys =
    (case max_of (map ky_derivation_index (filter (\<lambda>key. ky_parent_id key = parent_id) keys)) of
      Some index \<Rightarrow> ok_or (RepoInvalidInput ''key derivation index exhausted'') (checked_add index 1)
    | None \<Rightarrow> Inr 0)"

definition db_create_key :: "'w host \<Rightarrow> uuid option \<Rightarrow> EntityType \<Rightarrow> uuid \<Rightarrow> bool \<Rightarrow> string \<Rightarrow> datetime option
    \<Rightarrow> ('w, RepoError, Key) op" where
  "db_create_key H parent_id entity_type entity_id hardened name expires_at =
    await (case parent_id of None \<Rightarrow> ok None
      | Some i \<Rightarrow> await (db_find_key_by_id H i) (\<lambda>found.
          await (lift (ok_or (RepoInvalidInput ''parent key not found'') found)) (\<lambda>key. ok (Some key)))) (\<lambda>parent.
    await (db_keys H) (\<lambda>keys.
    await (lift (next_derivation_index parent_id keys)) (\<lambda>derivation_index.
    await (repo_now H) (\<lambda>n.
    await (effect (now_v7 H)) (\<lambda>i.
    let key = \<lparr>ky_id = i, ky_parent_id = parent_id, ky_entity_type = entity_type, ky_entity_id = entity_id,
      ky_derivation_path = build_derivation_path (map_option ky_derivation_path parent) derivation_index hardened,
      ky_derivation_index = derivation_index, ky_name = name, ky_hardened = hardened, ky_revoked_at = None,
      ky_expires_at = expires_at, ky_created_at = n, ky_updated_at = n\<rparr> in
    await (table_write H [Insert KEY_TABLE (key_to_row (key_row_from key))]) (\<lambda>_. ok key))))))"

definition DbKeyRepo :: "'w host \<Rightarrow> 'w KeyRepo" where
  "DbKeyRepo H = \<lparr>kr_list_active = db_list_active H, kr_list_by_entity = db_list_by_entity H,
    kr_find_by_id = db_find_key_by_id H, kr_find_by_entity = db_find_by_entity H,
    kr_find_active_entity_root_key = db_find_active_entity_root_key H,
    kr_delete_by_entity = db_delete_by_entity H, kr_create_key = db_create_key H\<rparr>"

section \<open>Applications\<close>

abbreviation APPLICATION_TABLE :: string where
  "APPLICATION_TABLE \<equiv> ''applications''"

definition application_columns :: "string list" where
  "application_columns = [''id'', ''name'', ''uri'', ''description'', ''created_at'', ''updated_at'']"

record ApplicationRow =
  aw_id :: uuid
  aw_name :: string
  aw_uri :: string
  aw_description :: "string option"
  aw_created_at :: int
  aw_updated_at :: int

definition application_from_row :: "'w host \<Rightarrow> row \<Rightarrow> string list \<Rightarrow> from_row_error + ApplicationRow" where
  "application_from_row H r cs =
    and_then (field H decode_uuid r cs ''id'') (\<lambda>i.
    and_then (field H decode_text r cs ''name'') (\<lambda>nm.
    and_then (field H decode_text r cs ''uri'') (\<lambda>uri.
    and_then (field H decode_opt_text r cs ''description'') (\<lambda>description.
    and_then (field H decode_int r cs ''created_at'') (\<lambda>created_at.
    and_then (field H decode_int r cs ''updated_at'') (\<lambda>updated_at.
    Inr (ApplicationRow.make i nm uri description created_at updated_at)))))))"

definition application_timestamp :: "'w host \<Rightarrow> int \<Rightarrow> RepoError + datetime" where
  "application_timestamp H n = ok_or (RepoInvalidInput ''invalid application timestamp'') (from_timestamp H n)"

definition application_try_from :: "'w host \<Rightarrow> ApplicationRow \<Rightarrow> RepoError + Application" where
  "application_try_from H r =
    and_then (application_timestamp H (aw_created_at r)) (\<lambda>created_at.
    and_then (application_timestamp H (aw_updated_at r)) (\<lambda>updated_at.
    Inr \<lparr>app_id = aw_id r, app_name = aw_name r, app_uri = aw_uri r, app_description = aw_description r,
      app_created_at = created_at, app_updated_at = updated_at\<rparr>))"

definition application_row_from :: "Application \<Rightarrow> ApplicationRow" where
  "application_row_from a = \<lparr>aw_id = app_id a, aw_name = app_name a, aw_uri = app_uri a,
    aw_description = app_description a, aw_created_at = timestamp (app_created_at a),
    aw_updated_at = timestamp (app_updated_at a)\<rparr>"

definition application_to_row :: "ApplicationRow \<Rightarrow> row" where
  "application_to_row r = [Uuid (aw_id r), Text (aw_name r), Text (aw_uri r), or_null_with Text (aw_description r),
    Integer (aw_created_at r), Integer (aw_updated_at r)]"

definition application_ensure_clear :: "'w host \<Rightarrow> uuid \<Rightarrow> ('w, RepoError, unit) op" where
  "application_ensure_clear H i =
    await (map_err repo_db_error (allows_token_issuance H [SecurityRow_new ApplicationTable i])) (\<lambda>clear.
    if clear then ok () else err (RepoInvalidInput ''conflicted application''))"

definition application_find :: "'w host \<Rightarrow> string \<Rightarrow> Value \<Rightarrow> ('w, RepoError, Application option) op" where
  "application_find H column v =
    await (table_rows H (application_from_row H)
      (table_select APPLICATION_TABLE application_columns (Some (table_equals APPLICATION_TABLE column v)))
      ''missing application query result'') (\<lambda>rows.
    await (lift (transpose_option (application_try_from H) (first rows))) (\<lambda>application.
    await (case application of None \<Rightarrow> ok () | Some a \<Rightarrow> application_ensure_clear H (app_id a)) (\<lambda>_.
    ok application)))"

definition db_find_application_by_id :: "'w host \<Rightarrow> uuid \<Rightarrow> ('w, RepoError, Application option) op" where
  "db_find_application_by_id H i = application_find H ''id'' (Uuid i)"

definition db_find_application_by_uri :: "'w host \<Rightarrow> string \<Rightarrow> ('w, RepoError, Application option) op" where
  "db_find_application_by_uri H uri = application_find H ''uri'' (Text uri)"

definition db_list_applications :: "'w host \<Rightarrow> 32 word \<Rightarrow> 32 word \<Rightarrow> ('w, RepoError, Application list) op" where
  "db_list_applications H offset limit =
    await (table_rows H (application_from_row H) (table_select APPLICATION_TABLE application_columns None)
      ''missing application query result'') (\<lambda>rows.
    await (lift (try_collect (application_try_from H) (take (unat limit) (drop (unat offset) rows)))) (\<lambda>applications.
    await (for_each (\<lambda>a. application_ensure_clear H (app_id a)) applications) (\<lambda>_.
    ok applications)))"

definition db_create_application :: "'w host \<Rightarrow> string \<Rightarrow> string \<Rightarrow> string option \<Rightarrow> ('w, RepoError, Application) op" where
  "db_create_application H name uri description =
    await (repo_now H) (\<lambda>n.
    await (effect (now_v7 H)) (\<lambda>i.
    let application = \<lparr>app_id = i, app_name = name, app_uri = uri, app_description = description,
      app_created_at = n, app_updated_at = n\<rparr> in
    await (table_write H [Insert APPLICATION_TABLE (application_to_row (application_row_from application))]) (\<lambda>_.
    ok application)))"

definition db_update_application :: "'w host \<Rightarrow> Application \<Rightarrow> ('w, RepoError, Application) op" where
  "db_update_application H application =
    await (application_ensure_clear H (app_id application)) (\<lambda>_.
    await (repo_now H) (\<lambda>updated_at.
    await (table_write H [Update APPLICATION_TABLE
      [table_assignment APPLICATION_TABLE ''name'' (Text (app_name application)),
       table_assignment APPLICATION_TABLE ''uri'' (Text (app_uri application)),
       table_assignment APPLICATION_TABLE ''description'' (or_null_with Text (app_description application)),
       table_assignment APPLICATION_TABLE ''updated_at'' (Integer (timestamp updated_at))]
      (Some (table_equals APPLICATION_TABLE ''id'' (Uuid (app_id application))))]) (\<lambda>_.
    ok (application\<lparr>app_updated_at := updated_at\<rparr>))))"

definition db_delete_application_by_id :: "'w host \<Rightarrow> uuid \<Rightarrow> ('w, RepoError, unit) op" where
  "db_delete_application_by_id H i =
    await (application_ensure_clear H i) (\<lambda>_.
    await (db_find_application_by_id H i) (\<lambda>found.
    if found = None then err (RepoInvalidInput ''application not found'') else
    table_write H [Delete APPLICATION_TABLE (Some (table_equals APPLICATION_TABLE ''id'' (Uuid i)))]))"

definition DbApplicationRepo :: "'w host \<Rightarrow> 'w ApplicationRepo" where
  "DbApplicationRepo H = \<lparr>ap_find_by_id = db_find_application_by_id H,
    ap_find_by_uri = db_find_application_by_uri H, ap_list_applications = db_list_applications H,
    ap_create_application = db_create_application H, ap_update_application = db_update_application H,
    ap_delete_application_by_id = db_delete_application_by_id H\<rparr>"

section \<open>Clients\<close>

abbreviation CLIENT_TABLE :: string where
  "CLIENT_TABLE \<equiv> ''clients''"

record client_json =
  strings_json :: scopes_json
  grants_to_json :: "GrantType list \<Rightarrow> string"
  grants_from_json :: "string \<Rightarrow> string + GrantType list"
  responses_to_json :: "ResponseType list \<Rightarrow> string"
  responses_from_json :: "string \<Rightarrow> string + ResponseType list"

definition client_columns :: "string list" where
  "client_columns = [''id'', ''application_id'', ''client_id'', ''client_secret_hash'', ''client_id_issued_at'',
    ''client_secret_expires_at'', ''client_name'', ''client_uri'', ''redirect_uris'', ''client_type'',
    ''profile'', ''token_endpoint_auth_method'', ''allowed_grant_types'', ''response_types'',
    ''allowed_scopes'', ''allowed_audiences'', ''logo_uri'', ''contacts'', ''terms_of_service_uri'',
    ''policy_uri'', ''software_statement'', ''software_id'', ''software_version'', ''created_at'',
    ''updated_at'']"

record ClientRow =
  lw_id :: uuid
  lw_application_id :: uuid
  lw_client_id :: string
  lw_client_secret :: string
  lw_client_id_issued_at :: "int option"
  lw_client_secret_expires_at :: "int option"
  lw_client_name :: string
  lw_client_uri :: string
  lw_redirect_uris :: string
  lw_client_type :: int
  lw_profile :: int
  lw_token_endpoint_auth_method :: int
  lw_allowed_grant_types :: string
  lw_response_types :: string
  lw_allowed_scopes :: string
  lw_allowed_audiences :: string
  lw_logo_uri :: "string option"
  lw_contacts :: string
  lw_terms_of_service_uri :: "string option"
  lw_policy_uri :: "string option"
  lw_software_statement :: "string option"
  lw_software_id :: "string option"
  lw_software_version :: "string option"
  lw_created_at :: int
  lw_updated_at :: int

definition client_from_row :: "'w host \<Rightarrow> row \<Rightarrow> string list \<Rightarrow> from_row_error + ClientRow" where
  "client_from_row H r cs =
    and_then (field H decode_uuid r cs ''id'') (\<lambda>i.
    and_then (field H decode_uuid r cs ''application_id'') (\<lambda>application_id.
    and_then (field H decode_text r cs ''client_id'') (\<lambda>client_id.
    and_then (field H decode_text r cs ''client_secret_hash'') (\<lambda>client_secret_hash.
    and_then (field H decode_opt_int r cs ''client_id_issued_at'') (\<lambda>client_id_issued_at.
    and_then (field H decode_opt_int r cs ''client_secret_expires_at'') (\<lambda>client_secret_expires_at.
    and_then (field H decode_text r cs ''client_name'') (\<lambda>client_name.
    and_then (field H decode_text r cs ''client_uri'') (\<lambda>client_uri.
    and_then (field H decode_text r cs ''redirect_uris'') (\<lambda>redirect_uris.
    and_then (field H decode_int r cs ''client_type'') (\<lambda>client_type.
    and_then (field H decode_int r cs ''profile'') (\<lambda>profile.
    and_then (field H decode_int r cs ''token_endpoint_auth_method'') (\<lambda>token_endpoint_auth_method.
    and_then (field H decode_text r cs ''allowed_grant_types'') (\<lambda>allowed_grant_types.
    and_then (field H decode_text r cs ''response_types'') (\<lambda>response_types.
    and_then (field H decode_text r cs ''allowed_scopes'') (\<lambda>allowed_scopes.
    and_then (field H decode_text r cs ''allowed_audiences'') (\<lambda>allowed_audiences.
    and_then (field H decode_opt_text r cs ''logo_uri'') (\<lambda>logo_uri.
    and_then (field H decode_text r cs ''contacts'') (\<lambda>contacts.
    and_then (field H decode_opt_text r cs ''terms_of_service_uri'') (\<lambda>terms_of_service_uri.
    and_then (field H decode_opt_text r cs ''policy_uri'') (\<lambda>policy_uri.
    and_then (field H decode_opt_text r cs ''software_statement'') (\<lambda>software_statement.
    and_then (field H decode_opt_text r cs ''software_id'') (\<lambda>software_id.
    and_then (field H decode_opt_text r cs ''software_version'') (\<lambda>software_version.
    and_then (field H decode_int r cs ''created_at'') (\<lambda>created_at.
    and_then (field H decode_int r cs ''updated_at'') (\<lambda>updated_at.
    Inr (ClientRow.make i application_id client_id client_secret_hash client_id_issued_at client_secret_expires_at
      client_name client_uri redirect_uris client_type profile token_endpoint_auth_method
      allowed_grant_types response_types allowed_scopes allowed_audiences logo_uri contacts
      terms_of_service_uri policy_uri software_statement software_id software_version created_at
      updated_at))))))))))))))))))))))))))"

definition client_json_of :: "('a \<Rightarrow> string + 'b) \<Rightarrow> 'a \<Rightarrow> RepoError + 'b" where
  "client_json_of from_json text = result_map_err RepoOther (from_json text)"

definition client_timestamp :: "'w host \<Rightarrow> int \<Rightarrow> RepoError + datetime" where
  "client_timestamp H n = ok_or (RepoInvalidInput ''invalid client timestamp'') (from_timestamp H n)"

definition client_type_of :: "int \<Rightarrow> RepoError + ClientType" where
  "client_type_of n = (if n = 0 then Inr Confidential else if n = 1 then Inr Public
    else Inl (RepoInvalidInput ''invalid client type''))"

definition ClientType_as_i64 :: "ClientType \<Rightarrow> int" where
  "ClientType_as_i64 t = (case t of Confidential \<Rightarrow> 0 | Public \<Rightarrow> 1)"

definition profile_of :: "int \<Rightarrow> RepoError + ClientProfile" where
  "profile_of n = (if n = 0 then Inr Web else if n = 1 then Inr UserAgentBased else if n = 2 then Inr Native
    else Inl (RepoInvalidInput ''invalid client profile''))"

definition ClientProfile_as_i64 :: "ClientProfile \<Rightarrow> int" where
  "ClientProfile_as_i64 p = (case p of Web \<Rightarrow> 0 | UserAgentBased \<Rightarrow> 1 | Native \<Rightarrow> 2)"

definition token_endpoint_auth_method_of :: "int \<Rightarrow> RepoError + TokenEndpointAuthMethod" where
  "token_endpoint_auth_method_of n = (if n = 0 then Inr ClientSecretBasic else if n = 1 then Inr ClientSecretPost
    else if n = 2 then Inr PrivateKeyJwt else if n = 3 then Inr ClientSecretJwt else if n = 4 then Inr AuthNone
    else Inl (RepoInvalidInput ''invalid client token endpoint auth method''))"

definition TokenEndpointAuthMethod_as_i64 :: "TokenEndpointAuthMethod \<Rightarrow> int" where
  "TokenEndpointAuthMethod_as_i64 m = (case m of ClientSecretBasic \<Rightarrow> 0 | ClientSecretPost \<Rightarrow> 1
    | PrivateKeyJwt \<Rightarrow> 2 | ClientSecretJwt \<Rightarrow> 3 | AuthNone \<Rightarrow> 4)"

definition client_try_from :: "'w host \<Rightarrow> client_json \<Rightarrow> ClientRow \<Rightarrow> RepoError + Client" where
  "client_try_from H J r =
    (let strings = client_json_of (scopes_from_json (strings_json J)) in
    and_then (transpose_option (client_timestamp H) (lw_client_id_issued_at r)) (\<lambda>client_id_issued_at.
    and_then (transpose_option (client_timestamp H) (lw_client_secret_expires_at r)) (\<lambda>client_secret_expires_at.
    and_then (strings (lw_redirect_uris r)) (\<lambda>redirect_uris.
    and_then (client_type_of (lw_client_type r)) (\<lambda>client_type.
    and_then (profile_of (lw_profile r)) (\<lambda>profile.
    and_then (token_endpoint_auth_method_of (lw_token_endpoint_auth_method r)) (\<lambda>token_endpoint_auth_method.
    and_then (client_json_of (grants_from_json J) (lw_allowed_grant_types r)) (\<lambda>allowed_grant_types.
    and_then (client_json_of (responses_from_json J) (lw_response_types r)) (\<lambda>response_types.
    and_then (strings (lw_allowed_scopes r)) (\<lambda>allowed_scopes.
    and_then (strings (lw_allowed_audiences r)) (\<lambda>allowed_audiences.
    and_then (strings (lw_contacts r)) (\<lambda>contacts.
    and_then (client_timestamp H (lw_created_at r)) (\<lambda>created_at.
    and_then (client_timestamp H (lw_updated_at r)) (\<lambda>updated_at.
    Inr \<lparr>cl_id = lw_id r, cl_application_id = lw_application_id r, cl_client_id = lw_client_id r,
      cl_client_secret = lw_client_secret r, cl_client_id_issued_at = client_id_issued_at,
      cl_client_secret_expires_at = client_secret_expires_at, cl_client_name = lw_client_name r,
      cl_client_uri = lw_client_uri r, cl_redirect_uris = redirect_uris, cl_client_type = client_type,
      cl_profile = profile, cl_token_endpoint_auth_method = token_endpoint_auth_method,
      cl_allowed_grant_types = allowed_grant_types, cl_response_types = response_types,
      cl_allowed_scopes = allowed_scopes, cl_allowed_audiences = allowed_audiences,
      cl_logo_uri = lw_logo_uri r, cl_contacts = contacts,
      cl_terms_of_service_uri = lw_terms_of_service_uri r, cl_policy_uri = lw_policy_uri r,
      cl_software_statement = lw_software_statement r, cl_software_id = lw_software_id r,
      cl_software_version = lw_software_version r, cl_created_at = created_at,
      cl_updated_at = updated_at\<rparr>))))))))))))))"

definition client_row_from :: "client_json \<Rightarrow> Client \<Rightarrow> ClientRow" where
  "client_row_from J c = (let strings = scopes_to_json (strings_json J) in
    \<lparr>lw_id = cl_id c, lw_application_id = cl_application_id c, lw_client_id = cl_client_id c,
     lw_client_secret = cl_client_secret c,
     lw_client_id_issued_at = map_option timestamp (cl_client_id_issued_at c),
     lw_client_secret_expires_at = map_option timestamp (cl_client_secret_expires_at c),
     lw_client_name = cl_client_name c, lw_client_uri = cl_client_uri c,
     lw_redirect_uris = strings (cl_redirect_uris c), lw_client_type = ClientType_as_i64 (cl_client_type c),
     lw_profile = ClientProfile_as_i64 (cl_profile c),
     lw_token_endpoint_auth_method = TokenEndpointAuthMethod_as_i64 (cl_token_endpoint_auth_method c),
     lw_allowed_grant_types = grants_to_json J (cl_allowed_grant_types c),
     lw_response_types = responses_to_json J (cl_response_types c),
     lw_allowed_scopes = strings (cl_allowed_scopes c), lw_allowed_audiences = strings (cl_allowed_audiences c),
     lw_logo_uri = cl_logo_uri c, lw_contacts = strings (cl_contacts c),
     lw_terms_of_service_uri = cl_terms_of_service_uri c, lw_policy_uri = cl_policy_uri c,
     lw_software_statement = cl_software_statement c, lw_software_id = cl_software_id c,
     lw_software_version = cl_software_version c, lw_created_at = timestamp (cl_created_at c),
     lw_updated_at = timestamp (cl_updated_at c)\<rparr>)"

definition client_assignment :: "string \<Rightarrow> Value \<Rightarrow> assignment" where
  "client_assignment name v = table_assignment CLIENT_TABLE name v"

definition client_assignments :: "ClientRow \<Rightarrow> int \<Rightarrow> assignment list" where
  "client_assignments r updated_at = [
    client_assignment ''application_id'' (Uuid (lw_application_id r)),
    client_assignment ''client_secret_hash'' (Text (lw_client_secret r)),
    client_assignment ''client_id_issued_at'' (or_null_with Integer (lw_client_id_issued_at r)),
    client_assignment ''client_secret_expires_at'' (or_null_with Integer (lw_client_secret_expires_at r)),
    client_assignment ''client_name'' (Text (lw_client_name r)),
    client_assignment ''client_uri'' (Text (lw_client_uri r)),
    client_assignment ''redirect_uris'' (Text (lw_redirect_uris r)),
    client_assignment ''client_type'' (Integer (lw_client_type r)),
    client_assignment ''profile'' (Integer (lw_profile r)),
    client_assignment ''token_endpoint_auth_method'' (Integer (lw_token_endpoint_auth_method r)),
    client_assignment ''allowed_grant_types'' (Text (lw_allowed_grant_types r)),
    client_assignment ''response_types'' (Text (lw_response_types r)),
    client_assignment ''allowed_scopes'' (Text (lw_allowed_scopes r)),
    client_assignment ''allowed_audiences'' (Text (lw_allowed_audiences r)),
    client_assignment ''logo_uri'' (or_null_with Text (lw_logo_uri r)),
    client_assignment ''contacts'' (Text (lw_contacts r)),
    client_assignment ''terms_of_service_uri'' (or_null_with Text (lw_terms_of_service_uri r)),
    client_assignment ''policy_uri'' (or_null_with Text (lw_policy_uri r)),
    client_assignment ''software_statement'' (or_null_with Text (lw_software_statement r)),
    client_assignment ''software_id'' (or_null_with Text (lw_software_id r)),
    client_assignment ''software_version'' (or_null_with Text (lw_software_version r)),
    client_assignment ''updated_at'' (Integer updated_at)]"

definition client_to_row :: "ClientRow \<Rightarrow> row" where
  "client_to_row r = [Uuid (lw_id r), Uuid (lw_application_id r), Text (lw_client_id r), Text (lw_client_secret r),
    or_null_with Integer (lw_client_id_issued_at r),
    or_null_with Integer (lw_client_secret_expires_at r), Text (lw_client_name r),
    Text (lw_client_uri r), Text (lw_redirect_uris r), Integer (lw_client_type r),
    Integer (lw_profile r), Integer (lw_token_endpoint_auth_method r), Text (lw_allowed_grant_types r),
    Text (lw_response_types r), Text (lw_allowed_scopes r), Text (lw_allowed_audiences r),
    or_null_with Text (lw_logo_uri r), Text (lw_contacts r),
    or_null_with Text (lw_terms_of_service_uri r), or_null_with Text (lw_policy_uri r),
    or_null_with Text (lw_software_statement r), or_null_with Text (lw_software_id r),
    or_null_with Text (lw_software_version r), Null, Integer (lw_created_at r),
    Integer (lw_updated_at r)]"

definition db_clients :: "'w host \<Rightarrow> client_json \<Rightarrow> query_expr option \<Rightarrow> ('w, RepoError, Client list) op" where
  "db_clients H J predicate =
    await (table_rows H (client_from_row H) (table_select CLIENT_TABLE client_columns predicate)
      ''missing client query result'') (\<lambda>rows.
    lift (try_collect (client_try_from H J) rows))"

definition client_ensure_clear :: "'w host \<Rightarrow> uuid \<Rightarrow> ('w, RepoError, unit) op" where
  "client_ensure_clear H i =
    await (map_err repo_db_error (allows_token_issuance H [SecurityRow_new ClientTable i])) (\<lambda>clear.
    if clear then ok () else err (RepoInvalidInput ''conflicted client''))"

definition application_id_from_row :: "'w host \<Rightarrow> row \<Rightarrow> string list \<Rightarrow> from_row_error + uuid" where
  "application_id_from_row H r cs = field H decode_uuid r cs ''id''"

definition client_application_id :: "'w host \<Rightarrow> ClientRegistration \<Rightarrow> ('w, RepoError, uuid) op" where
  "client_application_id H registration =
    (let application = cr_application registration in
    await (table_rows H (application_id_from_row H)
      (table_select ''applications'' [''id''] (Some (table_equals ''applications'' ''uri'' (Text (reg_uri application)))))
      ''missing application query result'') (\<lambda>rows.
    case first rows of Some i \<Rightarrow> ok i
    | None \<Rightarrow>
      await (repo_now H) (\<lambda>n.
      await (effect (now_v7 H)) (\<lambda>i.
      await (table_write H [Insert ''applications'' [Uuid i,
        Text (case reg_name application of Some name \<Rightarrow> name | None \<Rightarrow> cr_client_name registration),
        Text (reg_uri application), or_null_with Text (reg_description application),
        Integer (timestamp n), Integer (timestamp n)]]) (\<lambda>_. ok i)))))"

definition db_find_client :: "'w host \<Rightarrow> client_json \<Rightarrow> query_expr \<Rightarrow> ('w, RepoError, Client option) op" where
  "db_find_client H J predicate =
    await (db_clients H J (Some predicate)) (\<lambda>clients.
    await (case first clients of None \<Rightarrow> ok () | Some client \<Rightarrow> client_ensure_clear H (cl_id client)) (\<lambda>_.
    ok (first clients)))"

definition db_find_client_by_id :: "'w host \<Rightarrow> client_json \<Rightarrow> uuid \<Rightarrow> ('w, RepoError, Client option) op" where
  "db_find_client_by_id H J i = db_find_client H J (table_equals CLIENT_TABLE ''id'' (Uuid i))"

definition db_find_client_by_client_id :: "'w host \<Rightarrow> client_json \<Rightarrow> string \<Rightarrow> ('w, RepoError, Client option) op" where
  "db_find_client_by_client_id H J client_id =
    db_find_client H J (table_equals CLIENT_TABLE ''client_id'' (Text client_id))"

definition db_list_clients :: "'w host \<Rightarrow> client_json \<Rightarrow> 32 word \<Rightarrow> 32 word \<Rightarrow> ('w, RepoError, Client list) op" where
  "db_list_clients H J offset limit =
    await (db_clients H J None) (\<lambda>clients.
    let clients = take (unat limit) (drop (unat offset) clients) in
    await (for_each (\<lambda>client. client_ensure_clear H (cl_id client)) clients) (\<lambda>_. ok clients))"

definition registered_secret :: "ClientRegistration \<Rightarrow> RepoError + string" where
  "registered_secret registration = (case cr_client_type registration of
      Confidential \<Rightarrow> ok_or (RepoInvalidInput ''client_secret is required for confidential client key material'')
        (case cr_client_secret registration of None \<Rightarrow> None
         | Some secret \<Rightarrow> if blank secret then None else Some secret)
    | Public \<Rightarrow> Inr (case cr_client_secret registration of Some secret \<Rightarrow> secret | None \<Rightarrow> []))"

definition registered_client :: "'w host \<Rightarrow> ClientRegistration \<Rightarrow> string \<Rightarrow> string \<Rightarrow> uuid \<Rightarrow> uuid \<Rightarrow> datetime
    \<Rightarrow> RepoError + Client" where
  "registered_client H r client_id client_secret application_id i n =
    and_then (transpose_option (client_timestamp H) (cr_client_id_issued_at r)) (\<lambda>client_id_issued_at.
    and_then (transpose_option (client_timestamp H) (cr_client_secret_expires_at r)) (\<lambda>client_secret_expires_at.
    Inr \<lparr>cl_id = i, cl_application_id = application_id, cl_client_id = client_id, cl_client_secret = client_secret,
      cl_client_id_issued_at = client_id_issued_at, cl_client_secret_expires_at = client_secret_expires_at,
      cl_client_name = cr_client_name r,
      cl_client_uri = (case cr_client_uri r of Some uri \<Rightarrow> uri | None \<Rightarrow> reg_uri (cr_application r)),
      cl_redirect_uris = cr_redirect_uris r, cl_client_type = cr_client_type r, cl_profile = cr_profile r,
      cl_token_endpoint_auth_method = cr_token_endpoint_auth_method r,
      cl_allowed_grant_types = cr_allowed_grant_types r, cl_response_types = cr_response_types r,
      cl_allowed_scopes = cr_allowed_scopes r, cl_allowed_audiences = cr_allowed_audiences r,
      cl_logo_uri = cr_logo_uri r, cl_contacts = cr_contacts r,
      cl_terms_of_service_uri = cr_terms_of_service_uri r, cl_policy_uri = cr_policy_uri r,
      cl_software_statement = cr_software_statement r, cl_software_id = cr_software_id r,
      cl_software_version = cr_software_version r, cl_created_at = n, cl_updated_at = n\<rparr>))"

definition db_create_client :: "'w host \<Rightarrow> client_json \<Rightarrow> bip32 \<Rightarrow> 'w keyring \<Rightarrow> 'w KeyService \<Rightarrow> ClientRegistration
    \<Rightarrow> ('w, RepoError, Client) op" where
  "db_create_client H J B G K registration =
    await (lift (ok_or (RepoInvalidInput ''client_id is required'') (cr_client_id registration))) (\<lambda>client_id.
    await (lift (registered_secret registration)) (\<lambda>client_secret.
    await (client_application_id H registration) (\<lambda>application_id.
    await (repo_now H) (\<lambda>n.
    await (effect (now_v7 H)) (\<lambda>i.
    await (lift (registered_client H registration client_id client_secret application_id i n)) (\<lambda>client.
    await (table_write H [Insert CLIENT_TABLE (client_to_row (client_row_from J client))]) (\<lambda>_.
    let passphrase = (if cl_client_type client = Confidential then cl_client_secret client else []) in
    await (ensure_entity_master_key B G (uuid_to_string H) K EntityClient (cl_id client) passphrase) (\<lambda>_.
    await (create_key B (uuid_to_string H) K None EntityClient (cl_id client) True (cl_client_name client) None) (\<lambda>_.
    ok client)))))))))"

definition db_update_client :: "'w host \<Rightarrow> client_json \<Rightarrow> Client \<Rightarrow> ('w, RepoError, Client) op" where
  "db_update_client H J client =
    await (client_ensure_clear H (cl_id client)) (\<lambda>_.
    await (repo_now H) (\<lambda>updated_at.
    await (table_write H [Update CLIENT_TABLE
      (client_assignments (client_row_from J client) (timestamp updated_at))
      (Some (table_equals CLIENT_TABLE ''id'' (Uuid (cl_id client))))]) (\<lambda>_.
    ok (client\<lparr>cl_updated_at := updated_at\<rparr>))))"

definition db_delete_client_by_client_id :: "'w host \<Rightarrow> client_json \<Rightarrow> string \<Rightarrow> ('w, RepoError, unit) op" where
  "db_delete_client_by_client_id H J client_id =
    await (db_find_client_by_client_id H J client_id) (\<lambda>found.
    await (lift (ok_or (RepoInvalidInput ''client not found'') found)) (\<lambda>client.
    table_write H [Delete CLIENT_TABLE (Some (table_equals CLIENT_TABLE ''id'' (Uuid (cl_id client))))]))"

definition DbClientRepo :: "'w host \<Rightarrow> client_json \<Rightarrow> bip32 \<Rightarrow> 'w keyring \<Rightarrow> 'w KeyService \<Rightarrow> 'w ClientRepo" where
  "DbClientRepo H J B G K = \<lparr>cl_find_client_by_id = db_find_client_by_id H J,
    cl_find_client_by_client_id = db_find_client_by_client_id H J, cl_list_clients = db_list_clients H J,
    cl_create_client = db_create_client H J B G K, cl_update_client = db_update_client H J,
    cl_delete_client_by_client_id = db_delete_client_by_client_id H J\<rparr>"

end
