(* ===== verification/Idp_User_Store.thy ===== *)
theory Idp_User_Store
  imports Idp_Stores "HOL-Library.Product_Lexorder"
begin

text \<open>
  The repository of users, their e-mail addresses, phone numbers and password credentials over
  the replicated database, \<open>crates/idp-service/src/replica/user_repo.rs\<close>, with the password
  hash of \<open>crates/idp-service/src/util.rs\<close> and \<open>password_config.rs\<close>.  The function
  \<open>argon2::hash_encoded\<close>, randomness and the text of dates are external: \<open>user_env\<close>.
\<close>

section \<open>Password hashing\<close>

record PasswordConfig =
  salt_length :: nat
  hash_length :: "32 word"
  memory_mib :: "32 word"
  iterations :: "32 word"
  parallelism :: "32 word"
  history :: "8 word"
  expire_days :: "8 word"
  force_reset_after_days :: "8 word option"

definition default_PasswordConfig :: PasswordConfig where
  "default_PasswordConfig = \<lparr>salt_length = 16, hash_length = 32, memory_mib = 47, iterations = 3, parallelism = 4,
    history = 24, expire_days = 60, force_reset_after_days = Some 90\<rparr>"

datatype Argon2Variant = Argon2d | Argon2i | Argon2id

text \<open>The fields the code sets; the others have the defaults of the external crate.\<close>

record Argon2Config =
  a2_variant :: Argon2Variant
  a2_hash_length :: "32 word"
  a2_lanes :: "32 word"
  a2_mem_cost :: "32 word"
  a2_time_cost :: "32 word"

definition argon2_config :: "PasswordConfig \<Rightarrow> Argon2Config" where
  "argon2_config c = \<lparr>a2_variant = Argon2id, a2_hash_length = hash_length c, a2_lanes = parallelism c,
    a2_mem_cost = memory_mib c * 1024, a2_time_cost = iterations c\<rparr>"

record 'w user_env =
  ue_host :: "'w host"
  ue_random :: "nat \<Rightarrow> 'w \<Rightarrow> byte list \<times> 'w"
  ue_hash_encoded :: "byte list \<Rightarrow> byte list \<Rightarrow> Argon2Config \<Rightarrow> string + string"
  ue_parse_rfc3339 :: "string \<Rightarrow> datetime option"
  ue_to_rfc3339 :: "datetime \<Rightarrow> string"
  ue_password_config :: PasswordConfig

definition encrypt_password :: "'w user_env \<Rightarrow> string \<Rightarrow> ('w, string, string) op" where
  "encrypt_password V input =
    await (effect (ue_random V (salt_length (ue_password_config V)))) (\<lambda>salt.
    lift (ue_hash_encoded V (str_bytes input) salt (argon2_config (ue_password_config V))))"

section \<open>Rows\<close>

abbreviation USERS :: string where
  "USERS \<equiv> ''users''"

abbreviation EMAILS :: string where
  "EMAILS \<equiv> ''user_emails''"

abbreviation PHONES :: string where
  "PHONES \<equiv> ''user_phone_numbers''"

abbreviation CREDENTIALS :: string where
  "CREDENTIALS \<equiv> ''credentials''"

abbreviation PASSWORD_KIND :: string where
  "PASSWORD_KIND \<equiv> ''password''"

definition user_columns :: "string list" where
  "user_columns = [''id'', ''name'', ''given_name'', ''family_name'', ''middle_name'', ''nickname'', ''profile'',
    ''picture'', ''website'', ''sex'', ''birthdate'', ''zoneinfo'', ''locale'', ''created_at'',
    ''updated_at'', ''handle'']"

definition email_columns :: "string list" where
  "email_columns = [''id'', ''user_id'', ''email'', ''verified'', ''primary_email'', ''created_at'', ''updated_at'']"

definition phone_columns :: "string list" where
  "phone_columns = [''id'', ''user_id'', ''phone_number'', ''verified'', ''primary_phone'', ''created_at'',
    ''updated_at'']"

definition credential_columns :: "string list" where
  "credential_columns = [''id'', ''user_id'', ''kind'', ''secret_hash'', ''active'', ''revoked_at'', ''created_at'',
    ''updated_at'']"

record UserRow =
  uw_id :: uuid
  uw_name :: string
  uw_given_name :: "string option"
  uw_family_name :: "string option"
  uw_middle_name :: "string option"
  uw_nickname :: "string option"
  uw_profile :: "string option"
  uw_picture :: "string option"
  uw_website :: "string option"
  uw_sex :: "int option"
  uw_birthdate :: "string option"
  uw_zoneinfo :: "string option"
  uw_locale :: "string option"
  uw_created_at :: int
  uw_updated_at :: int
  uw_handle :: string

definition user_from_row :: "'w host \<Rightarrow> row \<Rightarrow> string list \<Rightarrow> from_row_error + UserRow" where
  "user_from_row H r cs =
    and_then (field H decode_uuid r cs ''id'') (\<lambda>i.
    and_then (field H decode_text r cs ''name'') (\<lambda>nm.
    and_then (field H decode_opt_text r cs ''given_name'') (\<lambda>given_name.
    and_then (field H decode_opt_text r cs ''family_name'') (\<lambda>family_name.
    and_then (field H decode_opt_text r cs ''middle_name'') (\<lambda>middle_name.
    and_then (field H decode_opt_text r cs ''nickname'') (\<lambda>nickname.
    and_then (field H decode_opt_text r cs ''profile'') (\<lambda>profile.
    and_then (field H decode_opt_text r cs ''picture'') (\<lambda>picture.
    and_then (field H decode_opt_text r cs ''website'') (\<lambda>website.
    and_then (field H decode_opt_int r cs ''sex'') (\<lambda>sex.
    and_then (field H decode_opt_text r cs ''birthdate'') (\<lambda>birthdate.
    and_then (field H decode_opt_text r cs ''zoneinfo'') (\<lambda>zoneinfo.
    and_then (field H decode_opt_text r cs ''locale'') (\<lambda>locale.
    and_then (field H decode_int r cs ''created_at'') (\<lambda>created_at.
    and_then (field H decode_int r cs ''updated_at'') (\<lambda>updated_at.
    and_then (field H decode_text r cs ''handle'') (\<lambda>handle.
    Inr (UserRow.make i nm given_name family_name middle_name nickname profile picture website sex birthdate zoneinfo
      locale created_at updated_at handle)))))))))))))))))"

definition user_timestamp :: "'w user_env \<Rightarrow> int \<Rightarrow> RepoError + datetime" where
  "user_timestamp V n = ok_or (RepoInvalidInput ''invalid user timestamp'') (from_timestamp (ue_host V) n)"

definition user_birthdate :: "'w user_env \<Rightarrow> string \<Rightarrow> RepoError + datetime" where
  "user_birthdate V text = ok_or (RepoInvalidInput ''invalid user birthdate'') (ue_parse_rfc3339 V text)"

definition user_sex :: "int \<Rightarrow> RepoError + Sex" where
  "user_sex n = (if n = 0 then Inr Male else if n = 1 then Inr Female
    else Inl (RepoInvalidInput ''invalid user sex''))"

definition Sex_as_i64 :: "Sex \<Rightarrow> int" where
  "Sex_as_i64 s = (case s of Male \<Rightarrow> 0 | Female \<Rightarrow> 1)"

definition user_try_from :: "'w user_env \<Rightarrow> UserRow \<Rightarrow> RepoError + User" where
  "user_try_from V r =
    and_then (transpose_option user_sex (uw_sex r)) (\<lambda>sex.
    and_then (transpose_option (user_birthdate V) (uw_birthdate r)) (\<lambda>birthdate.
    and_then (user_timestamp V (uw_created_at r)) (\<lambda>created_at.
    and_then (user_timestamp V (uw_updated_at r)) (\<lambda>updated_at.
    Inr \<lparr>usr_id = uw_id r, usr_name = uw_name r, usr_given_name = uw_given_name r,
      usr_family_name = uw_family_name r, usr_middle_name = uw_middle_name r, usr_nickname = uw_nickname r,
      usr_profile = uw_profile r, usr_picture = uw_picture r, usr_website = uw_website r, usr_sex = sex,
      usr_birthdate = birthdate, usr_zoneinfo = uw_zoneinfo r, usr_locale = uw_locale r,
      usr_created_at = created_at, usr_updated_at = updated_at\<rparr>))))"

definition user_row_from :: "'w user_env \<Rightarrow> User \<Rightarrow> UserRow" where
  "user_row_from V u = \<lparr>uw_id = usr_id u, uw_name = usr_name u, uw_given_name = usr_given_name u,
    uw_family_name = usr_family_name u, uw_middle_name = usr_middle_name u, uw_nickname = usr_nickname u,
    uw_profile = usr_profile u, uw_picture = usr_picture u, uw_website = usr_website u,
    uw_sex = map_option Sex_as_i64 (usr_sex u), uw_birthdate = map_option (ue_to_rfc3339 V) (usr_birthdate u),
    uw_zoneinfo = usr_zoneinfo u, uw_locale = usr_locale u, uw_created_at = timestamp (usr_created_at u),
    uw_updated_at = timestamp (usr_updated_at u), uw_handle = usr_name u\<rparr>"

definition user_assignments :: "'w user_env \<Rightarrow> User \<Rightarrow> datetime \<Rightarrow> assignment list" where
  "user_assignments V u updated_at = (let r = user_row_from V u in
    [table_assignment USERS ''name'' (Text (uw_name r)),
     table_assignment USERS ''given_name'' (or_null_with Text (uw_given_name r)),
     table_assignment USERS ''family_name'' (or_null_with Text (uw_family_name r)),
     table_assignment USERS ''middle_name'' (or_null_with Text (uw_middle_name r)),
     table_assignment USERS ''nickname'' (or_null_with Text (uw_nickname r)),
     table_assignment USERS ''profile'' (or_null_with Text (uw_profile r)),
     table_assignment USERS ''picture'' (or_null_with Text (uw_picture r)),
     table_assignment USERS ''website'' (or_null_with Text (uw_website r)),
     table_assignment USERS ''sex'' (or_null_with Integer (uw_sex r)),
     table_assignment USERS ''birthdate'' (or_null_with Text (uw_birthdate r)),
     table_assignment USERS ''zoneinfo'' (or_null_with Text (uw_zoneinfo r)),
     table_assignment USERS ''locale'' (or_null_with Text (uw_locale r)),
     table_assignment USERS ''updated_at'' (Integer (timestamp updated_at))])"

definition user_to_row :: "UserRow \<Rightarrow> row" where
  "user_to_row r = [Uuid (uw_id r), Text (uw_handle r), Text (uw_name r), or_null_with Text (uw_given_name r),
    or_null_with Text (uw_family_name r), or_null_with Text (uw_middle_name r),
    or_null_with Text (uw_nickname r), or_null_with Text (uw_profile r),
    or_null_with Text (uw_picture r), or_null_with Text (uw_website r), or_null_with Integer (uw_sex r),
    or_null_with Text (uw_birthdate r), or_null_with Text (uw_zoneinfo r),
    or_null_with Text (uw_locale r), Integer (uw_created_at r), Integer (uw_updated_at r)]"

record EmailRow =
  ew_id :: uuid
  ew_user_id :: uuid
  ew_email :: string
  ew_verified :: int
  ew_primary :: int
  ew_created_at :: int
  ew_updated_at :: int

definition email_from_row :: "'w host \<Rightarrow> row \<Rightarrow> string list \<Rightarrow> from_row_error + EmailRow" where
  "email_from_row H r cs =
    and_then (field H decode_uuid r cs ''id'') (\<lambda>i.
    and_then (field H decode_uuid r cs ''user_id'') (\<lambda>user_id.
    and_then (field H decode_text r cs ''email'') (\<lambda>email.
    and_then (field H decode_int r cs ''verified'') (\<lambda>verified.
    and_then (field H decode_int r cs ''primary_email'') (\<lambda>primary_email.
    and_then (field H decode_int r cs ''created_at'') (\<lambda>created_at.
    and_then (field H decode_int r cs ''updated_at'') (\<lambda>updated_at.
    Inr (EmailRow.make i user_id email verified primary_email created_at updated_at))))))))"

definition email_try_from :: "'w user_env \<Rightarrow> EmailRow \<Rightarrow> RepoError + UserEmail" where
  "email_try_from V r =
    and_then (user_timestamp V (ew_created_at r)) (\<lambda>created_at.
    and_then (user_timestamp V (ew_updated_at r)) (\<lambda>updated_at.
    Inr \<lparr>em_id = ew_id r, em_user_id = ew_user_id r, em_email = ew_email r, em_verified = (ew_verified r \<noteq> 0),
      em_primary = (ew_primary r \<noteq> 0), em_created_at = created_at, em_updated_at = updated_at\<rparr>))"

definition email_to_row :: "EmailRow \<Rightarrow> row" where
  "email_to_row r = [Uuid (ew_id r), Uuid (ew_user_id r), Text (ew_email r), Integer (ew_verified r),
    Integer (ew_primary r), Integer (ew_created_at r), Integer (ew_updated_at r)]"

text \<open>The flags of a phone number and of a credential are read as integers and kept as Booleans.\<close>

record PhoneRow =
  pr_id :: uuid
  pr_user_id :: uuid
  pr_phone_number :: string
  pr_verified :: bool
  pr_primary :: bool
  pr_created_at :: int
  pr_updated_at :: int

definition phone_from_row :: "'w host \<Rightarrow> row \<Rightarrow> string list \<Rightarrow> from_row_error + PhoneRow" where
  "phone_from_row H r cs =
    and_then (field H decode_uuid r cs ''id'') (\<lambda>i.
    and_then (field H decode_uuid r cs ''user_id'') (\<lambda>user_id.
    and_then (field H decode_text r cs ''phone_number'') (\<lambda>phone_number.
    and_then (field H decode_int r cs ''verified'') (\<lambda>verified.
    and_then (field H decode_int r cs ''primary_phone'') (\<lambda>primary_phone.
    and_then (field H decode_int r cs ''created_at'') (\<lambda>created_at.
    and_then (field H decode_int r cs ''updated_at'') (\<lambda>updated_at.
    Inr (PhoneRow.make i user_id phone_number (verified \<noteq> 0) (primary_phone \<noteq> 0) created_at updated_at))))))))"

definition phone_try_from :: "'w user_env \<Rightarrow> PhoneRow \<Rightarrow> RepoError + UserPhoneNumber" where
  "phone_try_from V r =
    and_then (user_timestamp V (pr_created_at r)) (\<lambda>created_at.
    and_then (user_timestamp V (pr_updated_at r)) (\<lambda>updated_at.
    Inr \<lparr>ph_id = pr_id r, ph_user_id = pr_user_id r, ph_phone_number = pr_phone_number r,
      ph_verified = pr_verified r, ph_primary = pr_primary r, ph_created_at = created_at,
      ph_updated_at = updated_at\<rparr>))"

definition bool_value :: "bool \<Rightarrow> Value" where
  "bool_value b = Integer (int_of_bool b)"

definition phone_to_row :: "PhoneRow \<Rightarrow> row" where
  "phone_to_row r = [Uuid (pr_id r), Uuid (pr_user_id r), Text (pr_phone_number r), bool_value (pr_verified r),
    bool_value (pr_primary r), Integer (pr_created_at r), Integer (pr_updated_at r)]"

record CredentialRow =
  cd_id :: uuid
  cd_user_id :: uuid
  cd_kind :: string
  cd_secret_hash :: string
  cd_active :: bool
  cd_revoked_at :: "int option"
  cd_created_at :: int
  cd_updated_at :: int

definition credential_from_row :: "'w host \<Rightarrow> row \<Rightarrow> string list \<Rightarrow> from_row_error + CredentialRow" where
  "credential_from_row H r cs =
    and_then (field H decode_uuid r cs ''id'') (\<lambda>i.
    and_then (field H decode_uuid r cs ''user_id'') (\<lambda>user_id.
    and_then (field H decode_text r cs ''kind'') (\<lambda>kind.
    and_then (field H decode_text r cs ''secret_hash'') (\<lambda>secret_hash.
    and_then (field H decode_int r cs ''active'') (\<lambda>active.
    and_then (field H decode_opt_int r cs ''revoked_at'') (\<lambda>revoked_at.
    and_then (field H decode_int r cs ''created_at'') (\<lambda>created_at.
    and_then (field H decode_int r cs ''updated_at'') (\<lambda>updated_at.
    Inr (CredentialRow.make i user_id kind secret_hash (active \<noteq> 0) revoked_at created_at updated_at)))))))))"

definition credential_try_from :: "'w user_env \<Rightarrow> CredentialRow \<Rightarrow> RepoError + UserPassword" where
  "credential_try_from V r =
    and_then (user_timestamp V (cd_created_at r)) (\<lambda>created_at.
    and_then (user_timestamp V (cd_updated_at r)) (\<lambda>updated_at.
    Inr \<lparr>pw_id = cd_id r, pw_user_id = cd_user_id r, pw_active = cd_active r, pw_password_hash = cd_secret_hash r,
      pw_created_at = created_at, pw_updated_at = updated_at\<rparr>))"

definition credential_to_row :: "CredentialRow \<Rightarrow> row" where
  "credential_to_row r = [Uuid (cd_id r), Uuid (cd_user_id r), Text (cd_kind r), Text (cd_secret_hash r),
    bool_value (cd_active r), or_null_with Integer (cd_revoked_at r), Integer (cd_created_at r),
    Integer (cd_updated_at r)]"

section \<open>Queries\<close>

definition db_users :: "'w user_env \<Rightarrow> query_expr option \<Rightarrow> ('w, RepoError, User list) op" where
  "db_users V predicate =
    await (table_rows (ue_host V) (user_from_row (ue_host V)) (table_select USERS user_columns predicate)
      ''missing user query result'') (\<lambda>rows.
    lift (try_collect (user_try_from V) rows))"

definition db_emails :: "'w user_env \<Rightarrow> uuid \<Rightarrow> ('w, RepoError, UserEmail list) op" where
  "db_emails V user_id =
    await (table_rows (ue_host V) (email_from_row (ue_host V))
      (table_select EMAILS email_columns (Some (table_equals EMAILS ''user_id'' (Uuid user_id))))
      ''missing email query result'') (\<lambda>rows.
    lift (try_collect (email_try_from V) rows))"

definition db_phones :: "'w user_env \<Rightarrow> uuid \<Rightarrow> ('w, RepoError, UserPhoneNumber list) op" where
  "db_phones V user_id =
    await (table_rows (ue_host V) (phone_from_row (ue_host V))
      (table_select PHONES phone_columns (Some (table_equals PHONES ''user_id'' (Uuid user_id))))
      ''missing phone query result'') (\<lambda>rows.
    lift (try_collect (phone_try_from V) rows))"

definition db_credentials :: "'w user_env \<Rightarrow> uuid \<Rightarrow> ('w, RepoError, CredentialRow list) op" where
  "db_credentials V user_id =
    table_rows (ue_host V) (credential_from_row (ue_host V))
      (table_select CREDENTIALS credential_columns (Some (And
        (table_equals CREDENTIALS ''user_id'' (Uuid user_id))
        (table_equals CREDENTIALS ''kind'' (Text PASSWORD_KIND)))))
      ''missing credential query result''"

definition ensure_credential_clear :: "'w user_env \<Rightarrow> uuid \<Rightarrow> ('w, RepoError, unit) op" where
  "ensure_credential_clear V i =
    await (map_err repo_db_error (allows_authentication (ue_host V) [i] [])) (\<lambda>clear.
    if clear then ok () else err (RepoInvalidInput ''conflicted credential''))"

definition db_find_user_by_id :: "'w user_env \<Rightarrow> uuid \<Rightarrow> ('w, RepoError, User option) op" where
  "db_find_user_by_id V i =
    await (db_users V (Some (table_equals USERS ''id'' (Uuid i)))) (\<lambda>users. ok (first users))"

text \<open>\<open>sort_by_key\<close> is stable, as \<^const>\<open>sort_key\<close> is; \<open>Reverse\<close> of a key is its negation.\<close>

definition db_list_users :: "'w user_env \<Rightarrow> 32 word \<Rightarrow> 32 word \<Rightarrow> ('w, RepoError, User list) op" where
  "db_list_users V offset limit =
    await (db_users V None) (\<lambda>users.
    ok (take (unat limit) (drop (unat offset)
      (sort_key (\<lambda>u. (- timestamp (usr_created_at u), - int (nanosecond (usr_created_at u)))) users))))"

definition db_find_user_by_username_or_email :: "'w user_env \<Rightarrow> string \<Rightarrow> ('w, RepoError, User option) op" where
  "db_find_user_by_username_or_email V identifier =
    await (db_users V (Some (table_equals USERS ''handle'' (Text identifier)))) (\<lambda>users.
    if first users \<noteq> None then ok (first users) else
    await (table_rows (ue_host V) (email_from_row (ue_host V))
      (table_select EMAILS email_columns (Some (table_equals EMAILS ''email'' (Text identifier))))
      ''missing email query result'') (\<lambda>rows.
    await (lift (try_collect (email_try_from V) rows)) (\<lambda>emails.
    case max_by_key (\<lambda>e. (em_primary e, - uint (em_id e))) emails of
      Some e \<Rightarrow> db_find_user_by_id V (em_user_id e)
    | None \<Rightarrow> ok None)))"

definition db_find_user_emails_by_user_id :: "'w user_env \<Rightarrow> uuid \<Rightarrow> ('w, RepoError, UserEmail list) op" where
  "db_find_user_emails_by_user_id V user_id =
    await (db_emails V user_id) (\<lambda>emails. ok (sort_key (\<lambda>e. (\<not> em_primary e, em_id e)) emails))"

definition db_find_user_phone_numbers_by_user_id :: "'w user_env \<Rightarrow> uuid \<Rightarrow> ('w, RepoError, UserPhoneNumber list) op" where
  "db_find_user_phone_numbers_by_user_id V user_id =
    await (db_phones V user_id) (\<lambda>phones. ok (sort_key (\<lambda>p. (\<not> ph_primary p, ph_id p)) phones))"

definition db_find_user_password_by_user_id :: "'w user_env \<Rightarrow> uuid \<Rightarrow> ('w, RepoError, UserPassword option) op" where
  "db_find_user_password_by_user_id V user_id =
    await (db_credentials V user_id) (\<lambda>rows.
    let credential = find (\<lambda>c. cd_active c \<and> cd_revoked_at c = None) rows in
    await (case credential of None \<Rightarrow> ok () | Some c \<Rightarrow> ensure_credential_clear V (cd_id c)) (\<lambda>_.
    lift (transpose_option (credential_try_from V) credential)))"

section \<open>Updates\<close>

definition db_create_user_with_password :: "'w user_env \<Rightarrow> string \<Rightarrow> string \<Rightarrow> ('w, RepoError, User) op" where
  "db_create_user_with_password V name password =
    (if blank password then err (RepoInvalidInput ''password is required'') else
    await (repo_now (ue_host V)) (\<lambda>n.
    await (effect (now_v7 (ue_host V))) (\<lambda>i.
    let user = \<lparr>usr_id = i, usr_name = name, usr_given_name = None, usr_family_name = None,
      usr_middle_name = None, usr_nickname = None, usr_profile = None, usr_picture = None, usr_website = None,
      usr_sex = None, usr_birthdate = None, usr_zoneinfo = None, usr_locale = None, usr_created_at = n,
      usr_updated_at = n\<rparr> in
    await (effect (now_v7 (ue_host V))) (\<lambda>j.
    await (map_err RepoOther (encrypt_password V password)) (\<lambda>secret_hash.
    let credential = \<lparr>cd_id = j, cd_user_id = usr_id user, cd_kind = PASSWORD_KIND, cd_secret_hash = secret_hash,
      cd_active = True, cd_revoked_at = None, cd_created_at = timestamp n, cd_updated_at = timestamp n\<rparr> in
    await (table_write (ue_host V) [Insert USERS (user_to_row (user_row_from V user)),
      Insert CREDENTIALS (credential_to_row credential)]) (\<lambda>_.
    ok user))))))"

definition db_update_user :: "'w user_env \<Rightarrow> User \<Rightarrow> ('w, RepoError, User) op" where
  "db_update_user V user =
    await (db_find_user_by_id V (usr_id user)) (\<lambda>found.
    if found = None then err (RepoInvalidInput ''user not found'') else
    await (repo_now (ue_host V)) (\<lambda>updated_at.
    await (table_write (ue_host V) [Update USERS (user_assignments V user updated_at)
      (Some (table_equals USERS ''id'' (Uuid (usr_id user))))]) (\<lambda>_.
    ok (user\<lparr>usr_updated_at := updated_at\<rparr>))))"

definition db_upsert_primary_user_email :: "'w user_env \<Rightarrow> uuid \<Rightarrow> string \<Rightarrow> bool \<Rightarrow> ('w, RepoError, unit) op" where
  "db_upsert_primary_user_email V user_id email verified =
    await (repo_now (ue_host V)) (\<lambda>n.
    await (db_emails V user_id) (\<lambda>emails.
    await (case find (\<lambda>e. em_email e = email) emails of
      Some existing \<Rightarrow> table_write (ue_host V) [Update EMAILS
        [table_assignment EMAILS ''verified'' (bool_value verified),
         table_assignment EMAILS ''primary_email'' (bool_value True),
         table_assignment EMAILS ''updated_at'' (Integer (timestamp n))]
        (Some (table_equals EMAILS ''id'' (Uuid (em_id existing))))]
    | None \<Rightarrow>
        await (effect (now_v7 (ue_host V))) (\<lambda>i.
        table_write (ue_host V) [Insert EMAILS (email_to_row \<lparr>ew_id = i, ew_user_id = user_id, ew_email = email,
          ew_verified = int_of_bool verified, ew_primary = 1, ew_created_at = timestamp n,
          ew_updated_at = timestamp n\<rparr>)])) (\<lambda>_.
    for_each (\<lambda>existing. table_write (ue_host V) [Update EMAILS
      [table_assignment EMAILS ''primary_email'' (bool_value False),
       table_assignment EMAILS ''updated_at'' (Integer (timestamp n))]
      (Some (table_equals EMAILS ''id'' (Uuid (em_id existing))))])
      (filter (\<lambda>e. em_email e \<noteq> email) emails))))"

definition db_upsert_primary_user_phone_number :: "'w user_env \<Rightarrow> uuid \<Rightarrow> string \<Rightarrow> bool \<Rightarrow> ('w, RepoError, unit) op" where
  "db_upsert_primary_user_phone_number V user_id phone_number verified =
    await (repo_now (ue_host V)) (\<lambda>n.
    await (db_phones V user_id) (\<lambda>phones.
    await (case find (\<lambda>p. ph_phone_number p = phone_number) phones of
      Some existing \<Rightarrow> table_write (ue_host V) [Update PHONES
        [table_assignment PHONES ''verified'' (bool_value verified),
         table_assignment PHONES ''primary_phone'' (bool_value True),
         table_assignment PHONES ''updated_at'' (Integer (timestamp n))]
        (Some (table_equals PHONES ''id'' (Uuid (ph_id existing))))]
    | None \<Rightarrow>
        await (effect (now_v7 (ue_host V))) (\<lambda>i.
        table_write (ue_host V) [Insert PHONES (phone_to_row \<lparr>pr_id = i, pr_user_id = user_id,
          pr_phone_number = phone_number, pr_verified = verified, pr_primary = True,
          pr_created_at = timestamp n, pr_updated_at = timestamp n\<rparr>)])) (\<lambda>_.
    for_each (\<lambda>existing. table_write (ue_host V) [Update PHONES
      [table_assignment PHONES ''primary_phone'' (bool_value False),
       table_assignment PHONES ''updated_at'' (Integer (timestamp n))]
      (Some (table_equals PHONES ''id'' (Uuid (ph_id existing))))])
      (filter (\<lambda>p. ph_phone_number p \<noteq> phone_number) phones))))"

definition db_replace_user_password :: "'w user_env \<Rightarrow> uuid \<Rightarrow> string \<Rightarrow> ('w, RepoError, unit) op" where
  "db_replace_user_password V user_id password =
    await (map_err RepoOther (encrypt_password V password)) (\<lambda>password_hash.
    await (repo_now (ue_host V)) (\<lambda>n.
    await (db_credentials V user_id) (\<lambda>credentials.
    await (for_each (\<lambda>c. if cd_active c then ensure_credential_clear V (cd_id c) else ok ()) credentials) (\<lambda>_.
    await (db_credentials V user_id) (\<lambda>credentials'.
    await (for_each (\<lambda>c. table_write (ue_host V) [Update CREDENTIALS
      [table_assignment CREDENTIALS ''active'' (bool_value False),
       table_assignment CREDENTIALS ''updated_at'' (Integer (timestamp n))]
      (Some (table_equals CREDENTIALS ''id'' (Uuid (cd_id c))))]) credentials') (\<lambda>_.
    await (effect (now_v7 (ue_host V))) (\<lambda>i.
    table_write (ue_host V) [Insert CREDENTIALS (credential_to_row \<lparr>cd_id = i, cd_user_id = user_id,
      cd_kind = PASSWORD_KIND, cd_secret_hash = password_hash, cd_active = True, cd_revoked_at = None,
      cd_created_at = timestamp n, cd_updated_at = timestamp n\<rparr>)])))))))"

definition db_delete_user_by_id :: "'w user_env \<Rightarrow> uuid \<Rightarrow> ('w, RepoError, unit) op" where
  "db_delete_user_by_id V user_id =
    table_write (ue_host V) [Delete USERS (Some (table_equals USERS ''id'' (Uuid user_id)))]"

definition DbUserRepo :: "'w user_env \<Rightarrow> 'w UserRepo" where
  "DbUserRepo V = \<lparr>us_find_user_by_id = db_find_user_by_id V, us_list_users = db_list_users V,
    us_find_user_by_username_or_email = db_find_user_by_username_or_email V,
    us_find_user_emails_by_user_id = db_find_user_emails_by_user_id V,
    us_find_user_phone_numbers_by_user_id = db_find_user_phone_numbers_by_user_id V,
    us_find_user_password_by_user_id = db_find_user_password_by_user_id V,
    us_create_user_with_password = db_create_user_with_password V, us_update_user = db_update_user V,
    us_upsert_primary_user_email = db_upsert_primary_user_email V,
    us_upsert_primary_user_phone_number = db_upsert_primary_user_phone_number V,
    us_replace_user_password = db_replace_user_password V, us_delete_user_by_id = db_delete_user_by_id V\<rparr>"

end
