(* ===== verification/Key_Registry.thy ===== *)
theory Key_Registry
  imports Idp_User_Store "HOL-Library.Multiset"
begin

text \<open>
  The key repository is correct: \<open>DbKeyRepo::create_key\<close> keeps the keys a forest in which a
  key's derivation path is its parent's path followed by its own index, the indices of siblings
  are distinct, and therefore no two keys share a derivation path.  The laws of reading and
  writing a table, which the other repositories share, come first.
\<close>

section \<open>Reading and writing a table\<close>

lemma view_insert:
  assumes "view f cs (xs @ ys) rows" and "f (map s cs) cs = Inr r"
  shows "\<exists>rows'. view f cs (xs @ s # ys) rows' \<and> mset rows' = add_mset r (mset rows)"
proof -
  obtain rows1 rows2 where "rows = rows1 @ rows2" "view f cs xs rows1" "view f cs ys rows2"
    using view_append [OF assms(1)] by blast
  with assms(2) have "view f cs (xs @ s # ys) (rows1 @ r # rows2) \<and> mset (rows1 @ r # rows2) = add_mset r (mset rows)"
    by (simp add: view_def)
  then show ?thesis by blast
qed

lemma first_Some [simp]: "first xs = Some x \<longleftrightarrow> (\<exists>ys. xs = x # ys)"
  by (auto simp: first_def split: list.split)

lemma first_None [simp]: "first xs = None \<longleftrightarrow> xs = []"
  by (auto simp: first_def split: list.split)

context db_engine
begin

lemma wp_table_rows [wp_rules]:
  assumes "\<And>rows w'. same w w' \<Longrightarrow> view f cs (filter (selects p) (T w t)) rows \<Longrightarrow> Q rows w'"
    and "\<And>e w'. same w w' \<Longrightarrow> X e w'"
  shows "wp (table_rows H f (table_select t cs p) missing) Q X w"
  unfolding table_rows_def table_select_def wp_simps
proof (rule wp_select, goal_cases)
  case (2 qr w')
  have "rows_as H f qr = try_collect (\<lambda>s. f (map s cs) cs) (filter (selects p) (T w t))"
    by (rule rows_as_select) (use 2(2,3) in \<open>simp_all add: table_column_def comp_def\<close>)
  then show ?case
    using assms 2(1) by (auto simp: pop_result_def view_def try_collect_Inr split: sum.split)
qed (simp_all add: table_column_def assms(2))

lemma wp_table_update [wp_rules]:
  assumes "\<And>w'. T w' = (T w)(t := update_rows (selects p) (assign as) (T w t)) \<Longrightarrow>
      (\<And>t k. C w t k = [] \<Longrightarrow> C w' t k = []) \<Longrightarrow> clock w \<le> clock w' \<Longrightarrow> Q () w'"
    and "\<And>e w'. same w w' \<Longrightarrow> X e w'"
  shows "wp (table_write H [Update t as p]) Q X w"
  unfolding table_write_def wp_simps by (rule wp_modify) (simp_all add: assms)

lemma wp_table_delete [wp_rules]:
  assumes "\<And>w'. T w' = (T w)(t := filter (\<lambda>s. \<not> selects p s) (T w t)) \<Longrightarrow>
      (\<And>t k. C w t k = [] \<Longrightarrow> C w' t k = []) \<Longrightarrow> clock w \<le> clock w' \<Longrightarrow> Q () w'"
    and "\<And>e w'. same w w' \<Longrightarrow> X e w'"
  shows "wp (table_write H [Delete t p]) Q X w"
  unfolding table_write_def wp_simps by (rule wp_modify) (simp_all add: assms)

lemma wp_table_insert [wp_rules]:
  assumes "\<And>s xs ys w'. stored_as (cols t) (v # r) s \<Longrightarrow> T w t = xs @ ys \<Longrightarrow>
      T w' = (T w)(t := xs @ s # ys) \<Longrightarrow> \<forall>s \<in> set (T w t). \<not> keyed (cols t) [v] s \<Longrightarrow>
      (\<And>t k. C w t k = [] \<Longrightarrow> C w' t k = []) \<Longrightarrow> clock w \<le> clock w' \<Longrightarrow> Q () w'"
    and "\<And>e w'. same w w' \<Longrightarrow> X e w'"
  shows "wp (table_write H [Insert t (v # r)]) Q X w"
  unfolding table_write_def wp_simps list.map by (rule wp_insert) (simp_all add: assms)

lemma wp_repo_now [wp_rules]:
  assumes "\<And>t w'. same w w' \<Longrightarrow> clock w \<le> timestamp t \<Longrightarrow> Q t w'"
  shows "wp (repo_now H) Q X w"
  unfolding repo_now_def wp_simps by (rule wp_utc_now) (simp add: assms with_nanosecond_0_def)

lemma opt_decode [simp]:
  "decode_opt_int H (or_null_with Integer a) c = Inr a" "decode_opt_text H (or_null_with Text b) c = Inr b"
  "decode_opt_uuid H (or_null_with Uuid d) c = Inr d"
  by (simp_all add: or_null_with_def decode_ok split: option.split)

end

text \<open>The executable engine.\<close>

lemma mem_table_rows:
  "table_rows (mem_host cols) f (table_select t cs p) missing w
    = (result_map_err (repo_row_error (mem_host cols))
        (try_collect (\<lambda>s. f (map s cs) cs) (filter (selects p) (mem_tables w t))), w)"
  by (simp add: table_rows_def table_select_def op_defs mem_execute_def pop_result_def rows_as_def
      table_column_def comp_def try_collect_map)

lemma mem_table_insert:
  assumes "length r + 1 = length (cols t)" and "\<forall>s \<in> set (mem_tables w t). \<not> keyed (cols t) [v] s"
  shows "table_write (mem_host cols) [Insert t (v # r)] w
    = (Inr (), w\<lparr>mem_tables := (mem_tables w)(t := mem_tables w t @ [stored_row (cols t) (v # r)])\<rparr>)"
  using assms by (auto simp: table_write_def op_defs mem_execute_def)

section \<open>Derivation paths and indices\<close>

lemma max_by_key_None [simp]: "max_by_key f xs = None \<longleftrightarrow> xs = []"
  by (simp add: max_by_key_def split: list.split)

lemma max_by_key_Some: "max_by_key f xs = Some m \<Longrightarrow> m \<in> set xs \<and> (\<forall>x \<in> set xs. f x \<le> f m)"
proof -
  let ?step = "\<lambda>b y. if f b \<le> f y then y else b"
  have "foldl ?step x ys \<in> set (x # ys) \<and> (\<forall>y \<in> set (x # ys). f y \<le> f (foldl ?step x ys))" for x ys
  proof (induction ys arbitrary: x)
    case (Cons y ys)
    from Cons.IH [of "?step x y"] show ?case by (auto split: if_splits)
  qed simp
  moreover assume "max_by_key f xs = Some m"
  then obtain x ys where "xs = x # ys" "m = foldl ?step x ys"
    by (auto simp: max_by_key_def split: list.splits)
  ultimately show ?thesis by simp
qed

lemma checked_add_1: "checked_add i 1 = Some j \<longleftrightarrow> unat j = unat i + 1"
proof (cases "unat i + 1 < 2 ^ 32")
  case True
  then have "unat (i + 1) = unat i + 1" using unat_add_lem [of i 1] by simp
  with True show ?thesis by (auto simp: checked_add_def word_unat_eq_iff)
next
  case False
  moreover have "unat j < 2 ^ 32" using unsigned_less [of j] by simp
  ultimately show ?thesis by (auto simp: checked_add_def)
qed

text \<open>The next index is above the index of every sibling, and the least such when there is one; there
  is none exactly when a sibling has the last index.\<close>

lemma next_derivation_index_Inr:
  assumes "next_derivation_index p keys = Inr i"
  shows "\<forall>k \<in> set keys. ky_parent_id k = p \<longrightarrow> ky_derivation_index k < i"
    and "i = 0 \<or> (\<exists>k \<in> set keys. ky_parent_id k = p \<and> unat i = unat (ky_derivation_index k) + 1)"
proof -
  let ?is = "map ky_derivation_index (filter (\<lambda>k. ky_parent_id k = p) keys)"
  show "\<forall>k \<in> set keys. ky_parent_id k = p \<longrightarrow> ky_derivation_index k < i"
  proof (cases "max_of ?is")
    case (Some m)
    then have "unat i = unat m + 1" using assms by (auto simp: next_derivation_index_def checked_add_1)
    moreover have "\<forall>j \<in> set ?is. j \<le> m" using max_by_key_Some [OF Some [unfolded max_of_def]] by blast
    ultimately show ?thesis by (auto simp: word_less_nat_alt word_le_nat_alt)
  qed (auto simp: max_of_def filter_empty_conv)
  show "i = 0 \<or> (\<exists>k \<in> set keys. ky_parent_id k = p \<and> unat i = unat (ky_derivation_index k) + 1)"
  proof (cases "max_of ?is")
    case None
    then show ?thesis using assms by (simp add: next_derivation_index_def)
  next
    case (Some m)
    then have "unat i = unat m + 1" using assms by (auto simp: next_derivation_index_def checked_add_1)
    moreover have "m \<in> set ?is" using max_by_key_Some [OF Some [unfolded max_of_def]] by blast
    ultimately show ?thesis by auto
  qed
qed

lemma slash_not_in_index: "CHR ''/'' \<notin> set (decimal n @ (if h then [CHR 0x27] else []))"
  using decimal_digits [of "CHR ''/''" n] by auto

lemma build_derivation_path_split:
  "build_derivation_path p i h
    = (case p of Some x \<Rightarrow> x | None \<Rightarrow> ''m'') @ CHR ''/'' # decimal (unat i) @ (if h then [CHR 0x27] else [])"
  by (simp add: build_derivation_path_def)

lemma build_derivation_path_inj:
  assumes "build_derivation_path p i h = build_derivation_path p' i' h'"
  shows "(case p of Some x \<Rightarrow> x | None \<Rightarrow> ''m'') = (case p' of Some x \<Rightarrow> x | None \<Rightarrow> ''m'') \<and> i = i' \<and> h = h'"
proof -
  from after_sep_unique [OF assms [unfolded build_derivation_path_split]]
  have "(case p of Some x \<Rightarrow> x | None \<Rightarrow> ''m'') = (case p' of Some x \<Rightarrow> x | None \<Rightarrow> ''m'')"
    and index: "decimal (unat i) @ (if h then [CHR 0x27] else []) = decimal (unat i') @ (if h' then [CHR 0x27] else [])"
    using slash_not_in_index by auto
  moreover have "h = h'"
  proof (rule ccontr)
    assume "h \<noteq> h'"
    then obtain m n where "decimal m @ [CHR 0x27] = decimal n" using index by (metis append_Nil2)
    then have "CHR 0x27 \<in> set (decimal n)" by (metis in_set_conv_decomp)
    then show False using decimal_digits by fastforce
  qed
  ultimately show ?thesis using index by (simp add: word_unat_eq_iff)
qed

section \<open>The forest of keys\<close>

definition key_path :: "KeyRow list \<Rightarrow> KeyRow \<Rightarrow> bool" where
  "key_path rows r = (case kw_parent_id r of
      None \<Rightarrow> kw_derivation_path r
        = build_derivation_path None (word_of_int (kw_derivation_index r)) (kw_hardened r \<noteq> 0)
    | Some p \<Rightarrow> (\<exists>q \<in> set rows. kw_id q = p \<and> kw_derivation_path r
        = build_derivation_path (Some (kw_derivation_path q)) (word_of_int (kw_derivation_index r)) (kw_hardened r \<noteq> 0)))"

definition key_tree :: "KeyRow list \<Rightarrow> bool" where
  "key_tree rows =
    (distinct (map kw_id rows) \<and> distinct (map (\<lambda>r. (kw_parent_id r, kw_derivation_index r)) rows)
     \<and> (\<forall>r \<in> set rows. 0 \<le> kw_derivation_index r \<and> kw_derivation_index r < 2 ^ 32 \<and> key_path rows r))"

lemma key_path_build:
  "key_path rows r \<Longrightarrow> \<exists>p. kw_derivation_path r
    = build_derivation_path p (word_of_int (kw_derivation_index r)) (kw_hardened r \<noteq> 0)"
  by (auto simp: key_path_def split: option.splits)

lemma index_inj:
  assumes "(word_of_int m :: 32 word) = word_of_int n" "0 \<le> m" "m < 2 ^ 32" "0 \<le> n" "n < 2 ^ 32"
  shows "m = n"
proof -
  from assms(1) have "uint (word_of_int m :: 32 word) = uint (word_of_int n :: 32 word)" by simp
  with assms(2-) show ?thesis by (simp add: uint_word_of_int)
qed

lemma key_tree_row:
  "key_tree rows \<Longrightarrow> r \<in> set rows \<Longrightarrow> 0 \<le> kw_derivation_index r \<and> kw_derivation_index r < 2 ^ 32 \<and> key_path rows r"
  by (simp add: key_tree_def)

lemma key_tree_sibling:
  "key_tree rows \<Longrightarrow> r \<in> set rows \<Longrightarrow> r' \<in> set rows \<Longrightarrow> kw_parent_id r = kw_parent_id r' \<Longrightarrow>
    (word_of_int (kw_derivation_index r) :: 32 word) = word_of_int (kw_derivation_index r') \<Longrightarrow> r = r'"
  using index_inj [of "kw_derivation_index r" "kw_derivation_index r'"]
  unfolding key_tree_def by (auto simp: distinct_map dest!: inj_onD)

lemma key_path_not_root:
  assumes "key_path rows q" shows "kw_derivation_path q \<noteq> ''m''"
proof
  assume "kw_derivation_path q = ''m''"
  moreover have "CHR ''/'' \<in> set (kw_derivation_path q)"
    using key_path_build [OF assms] by (auto simp: build_derivation_path_split)
  ultimately show False by simp
qed

lemma key_path_cases:
  assumes "key_path rows r"
  obtains base where "kw_derivation_path r
      = build_derivation_path base (word_of_int (kw_derivation_index r)) (kw_hardened r \<noteq> 0)"
    and "base = None \<and> kw_parent_id r = None
      \<or> (\<exists>q \<in> set rows. base = Some (kw_derivation_path q) \<and> kw_parent_id r = Some (kw_id q))"
  using assms by (auto simp: key_path_def split: option.splits)

lemma key_tree_path_inj:
  assumes "key_tree rows"
  shows "\<lbrakk>r \<in> set rows; r' \<in> set rows; kw_derivation_path r = kw_derivation_path r'\<rbrakk> \<Longrightarrow> r = r'"
proof (induction "length (kw_derivation_path r)" arbitrary: r r' rule: less_induct)
  case less
  note row = key_tree_row [OF assms]
  obtain base where r: "kw_derivation_path r
      = build_derivation_path base (word_of_int (kw_derivation_index r)) (kw_hardened r \<noteq> 0)"
    and base: "base = None \<and> kw_parent_id r = None
      \<or> (\<exists>q \<in> set rows. base = Some (kw_derivation_path q) \<and> kw_parent_id r = Some (kw_id q))"
    using key_path_cases row less.prems(1) by blast
  obtain base' where r': "kw_derivation_path r'
      = build_derivation_path base' (word_of_int (kw_derivation_index r')) (kw_hardened r' \<noteq> 0)"
    and base': "base' = None \<and> kw_parent_id r' = None
      \<or> (\<exists>q \<in> set rows. base' = Some (kw_derivation_path q) \<and> kw_parent_id r' = Some (kw_id q))"
    using key_path_cases row less.prems(2) by blast
  note parts = build_derivation_path_inj [OF less.prems(3) [unfolded r r']]
  have "kw_parent_id r = kw_parent_id r'"
  proof (cases "base = None \<or> base' = None")
    case True
    then show ?thesis using base base' parts row key_path_not_root by fastforce
  next
    case False
    then obtain q q' where q: "q \<in> set rows" "base = Some (kw_derivation_path q)" "kw_parent_id r = Some (kw_id q)"
      and q': "q' \<in> set rows" "base' = Some (kw_derivation_path q')" "kw_parent_id r' = Some (kw_id q')"
      using base base' by blast
    have "length (kw_derivation_path q) < length (kw_derivation_path r)"
      by (simp add: r q(2) build_derivation_path_split)
    then have "q = q'" using less.hyps q(1,2) q'(1,2) parts by simp
    then show ?thesis using q(3) q'(3) by simp
  qed
  then show ?case using key_tree_sibling [OF assms less.prems(1,2)] parts by simp
qed

lemma key_tree_paths:
  assumes "key_tree rows" shows "distinct (map kw_derivation_path rows)"
proof -
  have "distinct rows" using assms by (auto simp: key_tree_def distinct_map)
  moreover have "inj_on kw_derivation_path (set rows)" by (rule inj_onI) (rule key_tree_path_inj [OF assms])
  ultimately show ?thesis by (simp add: distinct_map)
qed

lemma key_tree_insert:
  assumes "key_tree rows" and "mset rows' = add_mset r (mset rows)"
    and "kw_id r \<notin> kw_id ` set rows" and "0 \<le> kw_derivation_index r" "kw_derivation_index r < 2 ^ 32"
    and "\<forall>q \<in> set rows. kw_parent_id q = kw_parent_id r \<longrightarrow> kw_derivation_index q < kw_derivation_index r"
    and "key_path rows r"
  shows "key_tree rows'"
proof -
  have set: "set rows' = insert r (set rows)" using assms(2) by (metis set_mset_mset set_mset_add_mset_insert)
  have perm: "distinct (map f rows') = distinct (map f (r # rows))" for f :: "KeyRow \<Rightarrow> 'b"
  proof -
    have "mset (map f rows') = mset (map f (r # rows))" using assms(2) by simp
    then show ?thesis by (rule mset_eq_imp_distinct_iff)
  qed
  have "key_path rows' q" if "key_path rows q" for q
    using that by (auto simp: key_path_def set split: option.splits)
  moreover have "(kw_parent_id r, kw_derivation_index r) \<notin> (\<lambda>r. (kw_parent_id r, kw_derivation_index r)) ` set rows"
    using assms(6) by auto
  ultimately show ?thesis using assms unfolding key_tree_def perm set by simp
qed

section \<open>The operations of the repository\<close>

abbreviation key_table :: "'w host \<Rightarrow> tables \<Rightarrow> KeyRow list \<Rightarrow> bool" where
  "key_table H T \<equiv> view (key_from_row H) key_columns (T KEY_TABLE)"

lemma key_schema: "schema_columns KEY_TABLE = key_columns"
  by (simp add: schema_columns_def key_columns_def)

lemma u32_try_from_Some: "u32_try_from n = Some i \<longleftrightarrow> 0 \<le> n \<and> n < 2 ^ 32 \<and> uint i = n"
  by (auto simp: u32_try_from_def uint_word_of_int word_uint_eq_iff)

lemma key_try_from_Inr:
  "key_try_from H r = Inr k \<Longrightarrow> ky_id k = kw_id r \<and> ky_parent_id k = kw_parent_id r
    \<and> ky_derivation_path k = kw_derivation_path r \<and> uint (ky_derivation_index k) = kw_derivation_index r"
  by (auto simp: key_try_from_def u32_try_from_Some)

lemma key_row_from_simps [simp]:
  "kw_id (key_row_from k) = ky_id k" "kw_parent_id (key_row_from k) = ky_parent_id k"
  "kw_derivation_path (key_row_from k) = ky_derivation_path k"
  "kw_derivation_index (key_row_from k) = uint (ky_derivation_index k)"
  "kw_hardened (key_row_from k) \<noteq> 0 \<longleftrightarrow> ky_hardened k"
  by (simp_all add: key_row_from_def int_of_bool_def)

lemma key_columns_set: "set key_columns = {''id'', ''parent_id'', ''entity_type'', ''entity_id'', ''derivation_path'',
    ''derivation_index'', ''hardened'', ''name'', ''revoked_at'', ''expires_at'', ''created_at'', ''updated_at''}"
  by (simp add: key_columns_def)

context db_engine
begin

lemma key_view_to_row:
  assumes "stored_as key_columns (key_to_row r) s"
  shows "key_from_row H (map s key_columns) key_columns = Inr r"
proof -
  note row = assms [unfolded stored_as_def, unfolded key_columns_def key_to_row_def, simplified]
  show ?thesis by (simp add: key_from_row_def key_columns_set row decode_ok KeyRow.make_def)
qed

lemma wp_db_keys [wp_rules]:
  assumes "\<And>rows keys w'. same w w' \<Longrightarrow> key_table H (T w) rows \<Longrightarrow> map (key_try_from H) rows = map Inr keys \<Longrightarrow> Q keys w'"
    and "\<And>e w'. same w w' \<Longrightarrow> X e w'"
  shows "wp (db_keys H) Q X w"
  unfolding db_keys_def wp_simps
  by (rule wp_table_rows) (auto simp: assms selects_def try_collect_Inr split: sum.split)

lemma wp_key_ensure_clear [wp_rules]:
  assumes "\<And>w'. same w w' \<Longrightarrow> Q () w'" and "\<And>e w'. same w w' \<Longrightarrow> X e w'"
  shows "wp (key_ensure_clear H i) Q X w"
  unfolding key_ensure_clear_def allows_authentication_def wp_simps by (rule wp_clear) (simp_all add: assms)

lemma wp_find_active_key [wp_rules]:
  assumes "\<And>found w'. same w w' \<Longrightarrow> (\<And>k. found = Some k \<Longrightarrow> k \<in> set keys \<and> ky_id k = i) \<Longrightarrow> Q found w'"
  shows "wp (find_active_key H i keys) Q X w"
  using assms
proof (induction keys arbitrary: w)
  case Nil
  show ?case unfolding find_active_key.simps wp_simps by (rule Nil) simp_all
next
  case (Cons key keys)
  have rest: "wp (find_active_key H i keys) Q X w1" if "same w w1" for w1
    by (rule Cons.IH) (use Cons.prems same_trans [OF that] in auto)
  show ?case
  proof (cases "ky_id key = i")
    case True
    show ?thesis
      unfolding find_active_key.simps wp_simps if_P [OF True]
    proof (rule wp_utc_now, goal_cases)
      case (1 t w1)
      then show ?case using rest [OF 1(1)] Cons.prems [OF 1(1), of "Some key"] True by simp
    qed
  next
    case False
    then show ?thesis using rest [of w] by simp
  qed
qed

lemma wp_db_find_key_by_id [wp_rules]:
  assumes "\<And>rows keys found w'. same w w' \<Longrightarrow> key_table H (T w) rows \<Longrightarrow> map (key_try_from H) rows = map Inr keys \<Longrightarrow>
      (\<And>k. found = Some k \<Longrightarrow> k \<in> set keys \<and> ky_id k = i) \<Longrightarrow> Q found w'"
    and "\<And>e w'. same w w' \<Longrightarrow> X e w'"
  shows "wp (db_find_key_by_id H i) Q X w"
  unfolding db_find_key_by_id_def wp_simps
proof (rule wp_db_keys, goal_cases)
  case (1 rows keys w1)
  show ?case
    by (rule wp_find_active_key)
      (auto split: option.split intro!: wp_key_ensure_clear assms(1) [OF _ 1(2,3)] assms(2) intro: same_trans 1(1) dest: same_trans [OF 1(1)])
qed (rule assms(2))

lemma key_id_stored: "key_from_row H (map s key_columns) key_columns = Inr r \<Longrightarrow> s ''id'' = Uuid (kw_id r)"
  by (auto simp: key_from_row_def key_columns_set KeyRow.make_def decode_uuid_ok)

lemma key_fresh:
  assumes "key_table H (T w) rows" and "\<forall>s \<in> set (T w KEY_TABLE). \<not> keyed key_columns [Uuid i] s"
  shows "i \<notin> kw_id ` set rows"
proof
  assume "i \<in> kw_id ` set rows"
  then obtain r where "r \<in> set rows" "kw_id r = i" by blast
  then obtain s where "s \<in> set (T w KEY_TABLE)" "key_from_row H (map s key_columns) key_columns = Inr r"
    using assms(1) [unfolded view_def, symmetric] by (auto dest: map_eq_mapD)
  with key_id_stored \<open>kw_id r = i\<close> assms(2) show False by (force simp: keyed_def key_columns_def)
qed

end

text \<open>What a new key is: fresh, below its parent, with the index after those of its siblings.\<close>

definition new_key :: "KeyRow list \<Rightarrow> uuid option \<Rightarrow> Key \<Rightarrow> bool" where
  "new_key rows parent_id key =
    (ky_id key \<notin> kw_id ` set rows \<and> ky_parent_id key = parent_id
     \<and> (\<forall>r \<in> set rows. kw_parent_id r = parent_id \<longrightarrow>
          0 \<le> kw_derivation_index r \<and> kw_derivation_index r < uint (ky_derivation_index key))
     \<and> (ky_derivation_index key = 0
        \<or> (\<exists>r \<in> set rows. kw_parent_id r = parent_id \<and> uint (ky_derivation_index key) = kw_derivation_index r + 1))
     \<and> key_path rows (key_row_from key))"

lemma next_index_rows:
  assumes "map (key_try_from H) rows = map Inr keys" and "next_derivation_index p keys = Inr i"
  shows "\<forall>r \<in> set rows. kw_parent_id r = p \<longrightarrow> 0 \<le> kw_derivation_index r \<and> kw_derivation_index r < uint i"
    and "i = 0 \<or> (\<exists>r \<in> set rows. kw_parent_id r = p \<and> uint i = kw_derivation_index r + 1)"
proof -
  have key: "\<exists>k \<in> set keys. key_try_from H r = Inr k" if "r \<in> set rows" for r
    using map_eq_mapD [OF assms(1) that] by blast
  have row: "\<exists>r \<in> set rows. key_try_from H r = Inr k" if "k \<in> set keys" for k
    using map_eq_mapD [OF assms(1) [symmetric] that] by fastforce
  show "\<forall>r \<in> set rows. kw_parent_id r = p \<longrightarrow> 0 \<le> kw_derivation_index r \<and> kw_derivation_index r < uint i"
  proof (intro ballI impI)
    fix r assume "r \<in> set rows" "kw_parent_id r = p"
    then obtain k where "k \<in> set keys" "ky_parent_id k = p" "uint (ky_derivation_index k) = kw_derivation_index r"
      using key key_try_from_Inr by metis
    with next_derivation_index_Inr(1) [OF assms(2)] show "0 \<le> kw_derivation_index r \<and> kw_derivation_index r < uint i"
      by (metis uint_ge_0 word_less_def)
  qed
  show "i = 0 \<or> (\<exists>r \<in> set rows. kw_parent_id r = p \<and> uint i = kw_derivation_index r + 1)"
  proof (cases "i = 0")
    case False
    then obtain k where k: "k \<in> set keys" "ky_parent_id k = p" "unat i = unat (ky_derivation_index k) + 1"
      using next_derivation_index_Inr(2) [OF assms(2)] by blast
    then have "uint i = uint (ky_derivation_index k) + 1" by (metis int_ops(2) of_nat_add of_nat_unat)
    with k row key_try_from_Inr show ?thesis by metis
  qed simp
qed

lemma parent_row:
  assumes "map (key_try_from H) rows = map Inr keys" and "k \<in> set keys"
  shows "\<exists>q \<in> set rows. kw_id q = ky_id k \<and> kw_derivation_path q = ky_derivation_path k"
  using map_eq_mapD [OF assms(1) [symmetric] assms(2)] key_try_from_Inr by metis

lemma new_key_path:
  assumes "case parent_id of None \<Rightarrow> parent = None
      | Some p \<Rightarrow> \<exists>k. parent = Some k \<and> (\<exists>q \<in> set rows. kw_id q = p \<and> kw_derivation_path q = ky_derivation_path k)"
    and "ky_parent_id key = parent_id"
    and "ky_derivation_path key = build_derivation_path (map_option ky_derivation_path parent)
      (ky_derivation_index key) (ky_hardened key)"
  shows "key_path rows (key_row_from key)"
  using assms by (cases parent_id) (auto simp: key_path_def)

context db_engine
begin

lemma wp_key_parent:
  assumes "key_table H (T w) rows"
    and "\<And>parent w'. same w w' \<Longrightarrow> (case parent_id of None \<Rightarrow> parent = None
      | Some p \<Rightarrow> \<exists>k. parent = Some k \<and> (\<exists>q \<in> set rows. kw_id q = p \<and> kw_derivation_path q = ky_derivation_path k)) \<Longrightarrow>
      Q parent w'"
    and "\<And>e w'. same w w' \<Longrightarrow> X e w'"
  shows "wp (case parent_id of None \<Rightarrow> ok None | Some i \<Rightarrow> await (db_find_key_by_id H i) (\<lambda>found.
      await (lift (ok_or e found)) (\<lambda>key. ok (Some key)))) Q X w"
proof (cases parent_id)
  case None
  then show ?thesis using assms(2) [of w None] by (simp add: wp_simps)
next
  case (Some i)
  have "wp (db_find_key_by_id H i) (\<lambda>found. wp (await (lift (ok_or e found)) (\<lambda>key. ok (Some key))) Q X) X w"
  proof (rule wp_db_find_key_by_id, goal_cases)
    case (1 rows1 keys found w1)
    then have "rows1 = rows" using assms(1) view_unique by blast
    then have "\<exists>q \<in> set rows. kw_id q = i \<and> kw_derivation_path q = ky_derivation_path k" if "found = Some k" for k
      using 1(4) [OF that] parent_row [of H rows keys k] 1(3) by auto
    then show ?case using Some assms(2) [OF 1(1)] assms(3) [OF 1(1)] by (cases found) (simp_all add: wp_simps)
  qed (rule assms(3))
  then show ?thesis by (simp add: Some wp_simps)
qed

lemma wp_db_create_key:
  assumes schema: "cols KEY_TABLE = key_columns" and table: "key_table H (T w) rows"
    and made: "\<And>key rows' w'. key_table H (T w') rows' \<Longrightarrow> mset rows' = add_mset (key_row_from key) (mset rows) \<Longrightarrow>
      new_key rows parent_id key \<Longrightarrow> Q key w'"
    and fails: "\<And>e w'. same w w' \<Longrightarrow> X e w'"
  shows "wp (db_create_key H parent_id entity_type entity_id hardened name expires_at) Q X w"
  unfolding db_create_key_def wp_await Let_def
proof (rule wp_key_parent [OF table], goal_cases)
  case (1 parent w1)
  show ?case
    unfolding wp_simps
  proof (rule wp_db_keys, goal_cases)
    case (1 rows1 keys w2)
    then have rows1: "rows1 = rows" using table view_unique sameD(1) [OF \<open>same w w1\<close>] by metis
    have w2: "same w w2" using same_trans \<open>same w w1\<close> 1(1) by blast
    show ?case
    proof (cases "next_derivation_index parent_id keys")
      case (Inl e)
      then show ?thesis using fails [OF w2] by (simp add: wp_simps)
    next
      case (Inr index)
      note below = next_index_rows [OF 1(3) [unfolded rows1] Inr]
      let ?key = "\<lambda>n i. \<lparr>ky_id = i, ky_parent_id = parent_id, ky_entity_type = entity_type, ky_entity_id = entity_id,
        ky_derivation_path = build_derivation_path (map_option ky_derivation_path parent) index hardened,
        ky_derivation_index = index, ky_name = name, ky_hardened = hardened, ky_revoked_at = None,
        ky_expires_at = expires_at, ky_created_at = n, ky_updated_at = n\<rparr>"
      have "wp (table_write H [Insert KEY_TABLE (key_to_row (key_row_from (?key n i)))]) (\<lambda>_. Q (?key n i)) X w3"
        if w3: "same w w3" for n i w3
        unfolding key_to_row_def
      proof (rule wp_table_insert, goal_cases)
        case (1 s xs ys w4)
        have "key_from_row H (map s key_columns) key_columns = Inr (key_row_from (?key n i))"
          by (rule key_view_to_row) (use 1(1) in \<open>simp add: schema key_to_row_def\<close>)
        with view_insert [of "key_from_row H" key_columns xs ys rows s] obtain rows' where
          "key_table H (T w4) rows'" "mset rows' = add_mset (key_row_from (?key n i)) (mset rows)"
          using table 1(2,3) sameD(1) [OF w3] by (auto simp: fun_upd_def)
        moreover have "i \<notin> kw_id ` set rows"
          by (rule key_fresh [of w3]) (use table 1(4) sameD(1) [OF w3] schema in \<open>simp_all add: key_row_from_def\<close>)
        moreover have "key_path rows (key_row_from (?key n i))" by (rule new_key_path [OF \<open>case parent_id of None \<Rightarrow> _ | Some p \<Rightarrow> _ p\<close>]) simp_all
        ultimately show ?case using made below by (simp add: new_key_def)
      qed (use fails same_trans [OF w3] in blast)
      then show ?thesis using Inr w2 by (auto simp: wp_simps intro!: wp_repo_now wp_now_v7 dest: same_trans)
    qed
  qed (use fails same_trans [OF \<open>same w w1\<close>] in blast)
qed (rule fails)

end

section \<open>Properties\<close>

text \<open>C34: a new key has an index above the index of every sibling: the one after the greatest of them, or 0 when
  there is none.  The index never wraps around: when a sibling has the last 32-bit index, no key is created.\<close>

theorem create_key_index:
  assumes "db_engine H T C schema_columns clock" and "key_table H (T w) rows"
    and "db_create_key H parent_id entity_type entity_id hardened name expires_at w = (Inr key, w')"
  shows "(\<forall>r \<in> set rows. kw_parent_id r = parent_id \<longrightarrow>
        0 \<le> kw_derivation_index r \<and> kw_derivation_index r < uint (ky_derivation_index key))
    \<and> (ky_derivation_index key = 0
        \<or> (\<exists>r \<in> set rows. kw_parent_id r = parent_id \<and> uint (ky_derivation_index key) = kw_derivation_index r + 1))
    \<and> (\<forall>r \<in> set rows. kw_parent_id r = parent_id \<longrightarrow> kw_derivation_index r < 2 ^ 32 - 1)"
proof -
  have "wp (db_create_key H parent_id entity_type entity_id hardened name expires_at)
      (\<lambda>key _. new_key rows parent_id key) (\<lambda>_ _. True) w"
    by (rule db_engine.wp_db_create_key [OF assms(1) key_schema assms(2)]) simp_all
  from wp_run [OF this assms(3)] have new: "new_key rows parent_id key" .
  moreover have "uint (ky_derivation_index key) < 2 ^ 32" using uint_lt2p [of "ky_derivation_index key"] by simp
  ultimately show ?thesis by (fastforce simp: new_key_def)
qed

definition root_key :: KeyRow where
  "root_key = \<lparr>kw_id = 1, kw_parent_id = None, kw_entity_type = 0, kw_entity_id = 9, kw_derivation_path = ''m/0''  @ [CHR 0x27],
    kw_derivation_index = 0, kw_hardened = 1, kw_name = ''root'', kw_revoked_at = None, kw_expires_at = None,
    kw_created_at = 50, kw_updated_at = 50\<rparr>"

definition one_key :: mem where
  "one_key = \<lparr>mem_tables = (\<lambda>t. if t = KEY_TABLE then [stored_row key_columns (key_to_row root_key)] else []),
    mem_conflicts = (\<lambda>_ _. []), mem_clock = 100, mem_next = 2\<rparr>"

lemma one_key_table: "key_table (mem_host schema_columns) (mem_tables one_key) [root_key]"
proof -
  have "stored_as key_columns (key_to_row root_key) (stored_row key_columns (key_to_row root_key))"
    by (rule stored_as_stored_row) (simp_all add: key_columns_def key_to_row_def)
  from memdb.key_view_to_row [OF this] show ?thesis by (simp add: view_def one_key_def)
qed

lemma one_key_keys:
  "db_keys (mem_host schema_columns) one_key = (Inr [\<lparr>ky_id = 1, ky_parent_id = None, ky_entity_type = EntityUser,
    ky_entity_id = 9, ky_derivation_path = ''m/0'' @ [CHR 0x27], ky_derivation_index = 0, ky_name = ''root'',
    ky_hardened = True, ky_revoked_at = None, ky_expires_at = None, ky_created_at = DateTime 50 0,
    ky_updated_at = DateTime 50 0\<rparr>], one_key)"
proof -
  have "try_collect (\<lambda>s. key_from_row (mem_host schema_columns) (map s key_columns) key_columns)
      (mem_tables one_key KEY_TABLE) = Inr [root_key]"
    using one_key_table by (simp only: view_def try_collect_Inr)
  then show ?thesis
    by (simp add: db_keys_def returns mem_table_rows selects_def root_key_def key_try_from_def entity_type_of_def
        u32_try_from_def transpose_option_def key_timestamp_def mem_from_timestamp_def)
qed

lemma one_key_create:
  assumes "parent = None \<or> parent = Some 1"
  shows "\<exists>key w'. db_create_key (mem_host schema_columns) parent EntityUser 9 False ''new'' None one_key = (Inr key, w')"
proof -
  have clear: "key_ensure_clear (mem_host schema_columns) 1 one_key = (Inr (), one_key)"
    by (simp add: key_ensure_clear_def allows_authentication_def SecurityRow_new_def SecurityRow_key_def one_key_def op_defs)
  have find: "\<exists>k. db_find_key_by_id (mem_host schema_columns) 1 one_key = (Inr (Some k), one_key)"
    by (simp add: db_find_key_by_id_def await_def one_key_keys clear effect_def ok_def key_active_def)
  have next_id: "mem_next one_key = 2" "\<forall>s \<in> set (mem_tables one_key KEY_TABLE). \<not> keyed key_columns [Uuid 2] s"
    by (simp_all add: one_key_def keyed_def key_columns_def stored_row_def key_to_row_def root_key_def)
  have "length key_columns = 12" by (simp add: key_columns_def)
  with assms find next_id show ?thesis
    by (auto simp: db_create_key_def checked_add_def await_def ok_def lift_def effect_def one_key_keys next_derivation_index_def
        max_of_def max_by_key_def repo_now_def Let_def key_to_row_def mem_table_insert key_schema key_row_from_def)
qed

theorem create_key_index_witness:
  "\<exists>key w'. db_create_key (mem_host schema_columns) None EntityUser 9 False ''new'' None one_key = (Inr key, w')
    \<and> uint (ky_derivation_index key) = 1"
proof -
  obtain key w' where run: "db_create_key (mem_host schema_columns) None EntityUser 9 False ''new'' None one_key = (Inr key, w')"
    using one_key_create by blast
  from create_key_index [OF memdb.db_engine_axioms one_key_table run]
  have "uint (ky_derivation_index key) = 1" by (auto simp: root_key_def)
  with run show ?thesis by blast
qed

text \<open>C33: creating a key keeps the keys a forest.  When every key's derivation path is its parent's path followed
  by its own index and siblings have distinct indices, this is still so after \<open>create_key\<close>, whether it succeeds
  or fails; a failure changes no key, a success adds the returned key only, and no two keys ever share a
  derivation path, so that the unique index of the database on that column is never violated.\<close>

theorem create_key_tree:
  assumes "db_engine H T C schema_columns clock" and "key_table H (T w) rows" and "key_tree rows"
    and "db_create_key H parent_id entity_type entity_id hardened name expires_at w = (result, w')"
  shows "\<exists>rows'. key_table H (T w') rows' \<and> key_tree rows' \<and> distinct (map kw_derivation_path rows')
    \<and> (case result of Inl e \<Rightarrow> rows' = rows | Inr key \<Rightarrow> mset rows' = add_mset (key_row_from key) (mset rows))"
proof -
  let ?after = "\<lambda>result w'. \<exists>rows'. key_table H (T w') rows' \<and> key_tree rows'
    \<and> (case result of Inl e \<Rightarrow> rows' = rows | Inr key \<Rightarrow> mset rows' = add_mset (key_row_from key) (mset rows))"
  have "wp (db_create_key H parent_id entity_type entity_id hardened name expires_at)
      (\<lambda>key. ?after (Inr key)) (\<lambda>e. ?after (Inl e)) w"
  proof (rule db_engine.wp_db_create_key [OF assms(1) key_schema assms(2)], goal_cases)
    case (1 key rows' w')
    have "key_tree rows'"
      by (rule key_tree_insert [OF assms(3) 1(2)])
        (use 1(3) uint_lt2p [of "ky_derivation_index key"] in \<open>auto simp: new_key_def\<close>)
    with 1(1,2) show ?case by auto
  next
    case (2 e w')
    then show ?case using assms(2,3) db_engine.sameD(1) [OF assms(1)] by auto
  qed
  with assms(4) have "?after result w'" by (cases result) (auto dest: wp_run wp_run_err)
  then show ?thesis using key_tree_paths by blast
qed

lemma root_key_tree: "key_tree [root_key]"
  by (simp add: key_tree_def key_path_def root_key_def build_derivation_path_def decimal.simps digit_def char_of_def bit_0)

theorem create_key_tree_witness:
  "\<exists>rows' key w'. db_create_key (mem_host schema_columns) (Some 1) EntityUser 9 False ''new'' None one_key = (Inr key, w')
    \<and> key_table (mem_host schema_columns) (mem_tables w') rows' \<and> distinct (map kw_derivation_path rows')
    \<and> mset rows' = add_mset (key_row_from key) (mset [root_key])"
proof -
  obtain key w' where run: "db_create_key (mem_host schema_columns) (Some 1) EntityUser 9 False ''new'' None one_key
      = (Inr key, w')"
    using one_key_create by blast
  from create_key_tree [OF memdb.db_engine_axioms one_key_table root_key_tree run] run show ?thesis by auto
qed

end
