(* ===== verification/Idp_Frames.thy ===== *)
theory Idp_Frames
  imports Key_Registry
begin

text \<open>
  The service of the identity server over one engine, and the frames of its repositories: the key ring and the source of randomness are not part of
  the database, and no lookup of a repository changes a table.
\<close>

section \<open>The service of the identity server\<close>

text \<open>The external functions and settings of \<open>crates/idp-server/src/cli/run.rs\<close>, and the key service and the
  OAuth2 service that it builds over one engine.\<close>

record 'w store_env =
  se_users :: "'w user_env"
  se_json :: client_json
  se_bip32 :: bip32
  se_keyring :: "'w keyring"
  se_service :: string
  se_namespace :: string

definition store_keys :: "'w store_env \<Rightarrow> 'w KeyService" where
  "store_keys N = \<lparr>ks_key_repo = DbKeyRepo (ue_host (se_users N)),
    ks_private_key_repo = PrivateKeyKeyringRepo (se_bip32 N) (se_keyring N) (se_service N),
    ks_namespace = se_namespace N\<rparr>"

definition native_oauth2_service :: "'w store_env \<Rightarrow> crypto \<Rightarrow> OAuth2Config \<Rightarrow> 'w OAuth2Service" where
  "native_oauth2_service N E config = (let H = ue_host (se_users N) in \<lparr>
    application_repo = DbApplicationRepo H,
    client_repo = DbClientRepo H (se_json N) (se_bip32 N) (se_keyring N) (store_keys N),
    authorization_code_repo = DbOAuth2AuthorizationCodeRepo H E (strings_json (se_json N)) (ue_random (se_users N)),
    user_repo = DbUserRepo (se_users N),
    oauth2_user_consent_repo = DbOAuth2UserConsentRepo H,
    key_service = store_keys N,
    oauth_config = config\<rparr>)"

section \<open>Outside the database\<close>

text \<open>The key ring and the source of randomness are not part of the database.\<close>

locale idp_outside =
  fixes T :: "'w \<Rightarrow> tables" and G :: "'w keyring" and random :: "nat \<Rightarrow> 'w \<Rightarrow> byte list \<times> 'w"
  assumes get_secret_outside: "unchanged T (get_secret G entry)"
    and set_secret_outside: "unchanged T (set_secret G entry secret)"
    and fill_random_outside: "unchanged T (fill_random G n)"
    and random_outside: "random n w = (bytes, w') \<Longrightarrow> T w' = T w"
begin

lemma keeps_secret [keeps_intros]:
  "keeps (\<lambda>w. P (T w)) (set_secret G entry secret)" "keeps (\<lambda>w. P (T w)) (fill_random G n)"
  by (rule unchanged_keeps [of T], rule set_secret_outside fill_random_outside)+

lemma keeps_random [keeps_intros]: "keeps (\<lambda>w. P (T w)) (effect (random n))"
  by (rule keeps_effect) (simp add: random_outside)

lemma keeps_keyring_load [keeps_intros]: "keeps (\<lambda>w. P (T w)) (keyring_load B G service ns path)"
proof -
  have "T w' = T w" if "keyring_load B G service ns path w = (r, w')" for w r w'
    using that get_secret_outside unfolding unchanged_def
    by (auto simp: keyring_load_def op_defs split: prod.splits sum.splits keyring_error.splits if_splits)
  then show ?thesis by (auto simp: keeps_def)
qed

lemma keeps_keyring_store [keeps_intros]: "keeps (\<lambda>w. P (T w)) (keyring_store B G service ns key)"
  unfolding keyring_store_def by (intro keeps_intros)

lemma keeps_ensure_derivation_path [keeps_intros]:
  "keeps (\<lambda>w. P (T w)) (ensure_derivation_path (PrivateKeyKeyringRepo B G service) B ns path)"
proof (induction path rule: length_induct)
  case (1 path)
  show ?case
    by (subst ensure_derivation_path.simps, cases "path = []")
      (simp_all add: PrivateKeyKeyringRepo_def 1 [simplified PrivateKeyKeyringRepo_def] keeps_intros)
qed

lemma keeps_ensure_master_key [keeps_intros]:
  "keeps (\<lambda>w. P (T w)) (ensure_master_key_with_passphrase (PrivateKeyKeyringRepo B G service) B G ns passphrase)"
  unfolding ensure_master_key_with_passphrase_def MasterKey_entropy_def PrivateKeyKeyringRepo_def
  by (simp add: Let_def) (intro keeps_intros)

end

section \<open>Lookups\<close>

context db_engine
begin

lemma keeps_table_rows [keeps_intros]: "keeps (\<lambda>w. P (T w)) (table_rows H f (table_select t cs p) missing)"
  by (rule keeps_wp, rule wp_table_rows) (simp_all add: sameD)

lemma keeps_utc_now [keeps_intros]: "keeps (\<lambda>w. P (T w)) (effect (utc_now H))"
  by (rule keeps_wp, rule wp_utc_now) (simp_all add: sameD)

lemma keeps_now_v7 [keeps_intros]: "keeps (\<lambda>w. P (T w)) (effect (now_v7 H))"
  by (rule keeps_wp, rule wp_now_v7) (simp_all add: sameD)

lemma keeps_clear [keeps_intros]: "keeps (\<lambda>w. P (T w)) (clear H rows)"
  by (rule keeps_wp, rule wp_clear) (simp_all add: sameD)

lemma keeps_repo_now [keeps_intros]: "keeps (\<lambda>w. P (T w)) (repo_now H)"
  unfolding repo_now_def by (intro keeps_intros)

lemma keeps_ensure_clear [keeps_intros]:
  "keeps (\<lambda>w. P (T w)) (key_ensure_clear H i)" "keeps (\<lambda>w. P (T w)) (application_ensure_clear H i)"
  "keeps (\<lambda>w. P (T w)) (client_ensure_clear H i)" "ue_host V = H \<Longrightarrow> keeps (\<lambda>w. P (T w)) (ensure_credential_clear V i)"
  unfolding key_ensure_clear_def application_ensure_clear_def client_ensure_clear_def ensure_credential_clear_def
    allows_authentication_def allows_token_issuance_def
  by (simp_all only:) (intro keeps_intros)+

text \<open>Lookups leave the tables as they are.\<close>

lemma keeps_key_reads [keeps_intros]:
  "keeps (\<lambda>w. P (T w)) (db_keys H)" "keeps (\<lambda>w. P (T w)) (find_active_key H i keys)"
  "keeps (\<lambda>w. P (T w)) (db_find_key_by_id H i)"
proof -
  show keys: "keeps (\<lambda>w. P (T w)) (db_keys H)" unfolding db_keys_def by (intro keeps_intros)
  show find: "keeps (\<lambda>w. P (T w)) (find_active_key H i keys)" for keys
    by (induction keys) (auto intro!: keeps_intros)
  show "keeps (\<lambda>w. P (T w)) (db_find_key_by_id H i)"
    unfolding db_find_key_by_id_def by (intro keeps_intros keys find)
qed

lemma keeps_key_lists [keeps_intros]:
  "keeps (\<lambda>w. P (T w)) (db_list_active H)" "keeps (\<lambda>w. P (T w)) (db_list_by_entity H entity_type entity_id)"
  "keeps (\<lambda>w. P (T w)) (db_find_active_entity_root_key H entity_type entity_id)"
  "keeps (\<lambda>w. P (T w)) (db_find_by_entity H entity_type entity_id)"
  unfolding db_list_active_def db_list_by_entity_def db_find_active_entity_root_key_def db_find_by_entity_def
  by (intro keeps_intros)+

lemma keeps_application_reads [keeps_intros]:
  "keeps (\<lambda>w. P (T w)) (application_find H column v)" "keeps (\<lambda>w. P (T w)) (db_find_application_by_id H i)"
  unfolding db_find_application_by_id_def application_find_def by (intro keeps_intros)+

lemma keeps_client_reads [keeps_intros]:
  "keeps (\<lambda>w. P (T w)) (db_clients H J p)" "keeps (\<lambda>w. P (T w)) (db_find_client H J q)"
  "keeps (\<lambda>w. P (T w)) (db_find_client_by_id H J i)" "keeps (\<lambda>w. P (T w)) (db_find_client_by_client_id H J client_id)"
  unfolding db_find_client_by_id_def db_find_client_by_client_id_def db_find_client_def db_clients_def
  by (intro keeps_intros)+

lemma keeps_user_reads:
  assumes "ue_host V = H"
  shows "keeps (\<lambda>w. P (T w)) (db_users V p)" "keeps (\<lambda>w. P (T w)) (db_emails V i)"
    "keeps (\<lambda>w. P (T w)) (db_phones V i)" "keeps (\<lambda>w. P (T w)) (db_credentials V i)"
    "keeps (\<lambda>w. P (T w)) (db_find_user_by_id V i)" "keeps (\<lambda>w. P (T w)) (db_find_user_by_username_or_email V name)"
    "keeps (\<lambda>w. P (T w)) (db_find_user_password_by_user_id V i)"
  unfolding db_find_user_password_by_user_id_def db_find_user_by_username_or_email_def db_find_user_by_id_def
    db_users_def db_emails_def db_phones_def db_credentials_def assms
  by (intro keeps_intros assms)+

end

end
