(* ===== verification/Idp_Types.thy ===== *)
theory Idp_Types
  imports Idp_Frames Token_Codec
begin

text \<open>
  Type safety of the identity tables: every operation of the key, application, client and user
  repositories that writes leaves all rows of their tables well typed, so that the row decoders
  of the source never fail on a row that the repositories wrote.
\<close>

section \<open>Typed rows\<close>

datatype column_type = UuidCol | OptUuidCol | IntCol | OptIntCol | TextCol | OptTextCol

fun has_type :: "column_type \<Rightarrow> Value \<Rightarrow> bool" where
  "has_type UuidCol v = (\<exists>i. v = Uuid i)"
| "has_type OptUuidCol v = (v = Null \<or> (\<exists>i. v = Uuid i))"
| "has_type IntCol v = (\<exists>n. v = Integer n)"
| "has_type OptIntCol v = (v = Null \<or> (\<exists>n. v = Integer n))"
| "has_type TextCol v = (\<exists>x. v = Text x)"
| "has_type OptTextCol v = (v = Null \<or> (\<exists>x. v = Text x))"

lemma has_type_value [simp]:
  "has_type UuidCol (Uuid i)" "has_type IntCol (Integer n)" "has_type TextCol (Text x)"
  "has_type OptUuidCol (or_null_with Uuid a)" "has_type OptIntCol (or_null_with Integer b)"
  "has_type OptTextCol (or_null_with Text c)"
  by (simp_all add: or_null_with_def split: option.split)

declare has_type.simps [simp del]

text \<open>The type as which the decoders of the source read each column.\<close>

definition column_types :: "string \<Rightarrow> (string \<times> column_type) list" where
  "column_types t =
    (if t = KEY_TABLE then [(''id'', UuidCol), (''parent_id'', OptUuidCol), (''entity_type'', IntCol),
        (''entity_id'', UuidCol), (''derivation_path'', TextCol), (''derivation_index'', IntCol),
        (''hardened'', IntCol), (''name'', TextCol), (''revoked_at'', OptIntCol), (''expires_at'', OptIntCol),
        (''created_at'', IntCol), (''updated_at'', IntCol)]
     else if t = APPLICATION_TABLE then [(''id'', UuidCol), (''name'', TextCol), (''uri'', TextCol),
        (''description'', OptTextCol), (''created_at'', IntCol), (''updated_at'', IntCol)]
     else if t = CLIENT_TABLE then [(''id'', UuidCol), (''application_id'', UuidCol), (''client_id'', TextCol),
        (''client_secret_hash'', TextCol), (''client_id_issued_at'', OptIntCol),
        (''client_secret_expires_at'', OptIntCol), (''client_name'', TextCol), (''client_uri'', TextCol),
        (''redirect_uris'', TextCol), (''client_type'', IntCol), (''profile'', IntCol),
        (''token_endpoint_auth_method'', IntCol), (''allowed_grant_types'', TextCol), (''response_types'', TextCol),
        (''allowed_scopes'', TextCol), (''allowed_audiences'', TextCol), (''logo_uri'', OptTextCol),
        (''contacts'', TextCol), (''terms_of_service_uri'', OptTextCol), (''policy_uri'', OptTextCol),
        (''software_statement'', OptTextCol), (''software_id'', OptTextCol), (''software_version'', OptTextCol),
        (''created_at'', IntCol), (''updated_at'', IntCol)]
     else if t = USERS then [(''id'', UuidCol), (''name'', TextCol), (''given_name'', OptTextCol),
        (''family_name'', OptTextCol), (''middle_name'', OptTextCol), (''nickname'', OptTextCol),
        (''profile'', OptTextCol), (''picture'', OptTextCol), (''website'', OptTextCol), (''sex'', OptIntCol),
        (''birthdate'', OptTextCol), (''zoneinfo'', OptTextCol), (''locale'', OptTextCol), (''created_at'', IntCol),
        (''updated_at'', IntCol), (''handle'', TextCol)]
     else if t = EMAILS then [(''id'', UuidCol), (''user_id'', UuidCol), (''email'', TextCol), (''verified'', IntCol),
        (''primary_email'', IntCol), (''created_at'', IntCol), (''updated_at'', IntCol)]
     else if t = PHONES then [(''id'', UuidCol), (''user_id'', UuidCol), (''phone_number'', TextCol),
        (''verified'', IntCol), (''primary_phone'', IntCol), (''created_at'', IntCol), (''updated_at'', IntCol)]
     else if t = CREDENTIALS then [(''id'', UuidCol), (''user_id'', UuidCol), (''kind'', TextCol),
        (''secret_hash'', TextCol), (''active'', IntCol), (''revoked_at'', OptIntCol), (''created_at'', IntCol),
        (''updated_at'', IntCol)]
     else [])"

definition typed_row :: "string \<Rightarrow> stored \<Rightarrow> bool" where
  "typed_row t s = list_all (\<lambda>(c, ty). has_type ty (s c)) (column_types t)"

definition typed_tables :: "tables \<Rightarrow> bool" where
  "typed_tables T = (\<forall>t. \<forall>s \<in> set (T t). typed_row t s)"

text \<open>Assignments of values of the columns' types.\<close>

fun typed_assignment :: "string \<Rightarrow> assignment \<Rightarrow> bool" where
  "typed_assignment t (Assignment c (ExprValue v)) =
    list_all (\<lambda>(name, ty). name = column_name c \<longrightarrow> has_type ty v) (column_types t)"
| "typed_assignment t _ = False"

lemma typed_assign1: "typed_row t s \<Longrightarrow> typed_assignment t a \<Longrightarrow> typed_row t (assign1 a s)"
  by (cases "(t, a)" rule: typed_assignment.cases) (auto simp: typed_row_def assign1_def list_all_iff)

lemma typed_assign: "typed_row t s \<Longrightarrow> list_all (typed_assignment t) as \<Longrightarrow> typed_row t (assign as s)"
  unfolding assign_def by (induction as arbitrary: s) (auto intro: typed_assign1)

lemma typed_update:
  "typed_tables T \<Longrightarrow> list_all (typed_assignment t) as \<Longrightarrow> typed_tables (T(t := update_rows P (assign as) (T t)))"
  by (auto simp: typed_tables_def update_rows_def intro: typed_assign)

lemma typed_delete: "typed_tables T \<Longrightarrow> typed_tables (T(t := filter P (T t)))"
  by (auto simp: typed_tables_def)

lemma typed_insert: "typed_tables T \<Longrightarrow> T t = xs @ ys \<Longrightarrow> typed_row t s \<Longrightarrow> typed_tables (T(t := xs @ s # ys))"
  by (auto simp: typed_tables_def)

text \<open>The rows that the repositories insert.\<close>

definition typed_values :: "string \<Rightarrow> row \<Rightarrow> bool" where
  "typed_values t r = (\<forall>s. stored_as (schema_columns t) r s \<longrightarrow> typed_row t s)"

lemmas typed_row_simps = typed_values_def stored_as_def schema_columns_def typed_row_def column_types_def

lemma typed_key: "typed_values KEY_TABLE (key_to_row r)"
  by (simp add: typed_row_simps key_to_row_def)

lemma typed_application: "typed_values APPLICATION_TABLE (application_to_row r)"
  by (simp add: typed_row_simps application_to_row_def)

lemma typed_client: "typed_values CLIENT_TABLE (client_to_row r)"
  by (simp add: typed_row_simps client_to_row_def)

lemma typed_user: "typed_values USERS (user_to_row r)"
  by (simp add: typed_row_simps user_to_row_def)

lemma typed_email: "typed_values EMAILS (email_to_row r)"
  by (simp add: typed_row_simps email_to_row_def)

lemma typed_phone: "typed_values PHONES (phone_to_row r)"
  by (simp add: typed_row_simps phone_to_row_def bool_value_def)

lemma typed_credential: "typed_values CREDENTIALS (credential_to_row r)"
  by (simp add: typed_row_simps credential_to_row_def bool_value_def)

lemma typed_registered_application:
  "typed_values APPLICATION_TABLE [Uuid i, Text name, Text uri, or_null_with Text d, Integer m, Integer n]"
  by (simp add: typed_row_simps)

lemma typed_client_assignments: "list_all (typed_assignment CLIENT_TABLE) (client_assignments r n)"
  by (simp add: client_assignments_def client_assignment_def table_assignment_def table_column_def column_types_def)

lemma typed_user_assignments: "list_all (typed_assignment USERS) (user_assignments V u n)"
  by (simp add: user_assignments_def Let_def table_assignment_def table_column_def column_types_def)

section \<open>Decoding typed rows\<close>

lemma and_then_total: "\<exists>a. r = Inr a \<Longrightarrow> (\<And>a. \<exists>b. f a = Inr b) \<Longrightarrow> \<exists>b. and_then r f = Inr b"
  by auto

context db_engine
begin

lemma typed_field:
  "c \<in> set cs \<Longrightarrow> has_type UuidCol (s c) \<Longrightarrow> \<exists>i. field H decode_uuid (map s cs) cs c = Inr i"
  "c \<in> set cs \<Longrightarrow> has_type OptUuidCol (s c) \<Longrightarrow> \<exists>i. field H decode_opt_uuid (map s cs) cs c = Inr i"
  "c \<in> set cs \<Longrightarrow> has_type IntCol (s c) \<Longrightarrow> \<exists>n. field H decode_int (map s cs) cs c = Inr n"
  "c \<in> set cs \<Longrightarrow> has_type OptIntCol (s c) \<Longrightarrow> \<exists>n. field H decode_opt_int (map s cs) cs c = Inr n"
  "c \<in> set cs \<Longrightarrow> has_type TextCol (s c) \<Longrightarrow> \<exists>x. field H decode_text (map s cs) cs c = Inr x"
  "c \<in> set cs \<Longrightarrow> has_type OptTextCol (s c) \<Longrightarrow> \<exists>x. field H decode_opt_text (map s cs) cs c = Inr x"
  by (auto simp: has_type.simps decode_ok)

lemma typed_row_decodes:
  "typed_row KEY_TABLE s \<Longrightarrow> \<exists>r. key_from_row H (map s key_columns) key_columns = Inr r"
  "typed_row APPLICATION_TABLE s \<Longrightarrow> \<exists>r. application_from_row H (map s application_columns) application_columns = Inr r"
  "typed_row CLIENT_TABLE s \<Longrightarrow> \<exists>r. client_from_row H (map s client_columns) client_columns = Inr r"
  "typed_row USERS s \<Longrightarrow> \<exists>r. user_from_row H (map s user_columns) user_columns = Inr r"
  "typed_row EMAILS s \<Longrightarrow> \<exists>r. email_from_row H (map s email_columns) email_columns = Inr r"
  "typed_row PHONES s \<Longrightarrow> \<exists>r. phone_from_row H (map s phone_columns) phone_columns = Inr r"
  "typed_row CREDENTIALS s \<Longrightarrow> \<exists>r. credential_from_row H (map s credential_columns) credential_columns = Inr r"
  unfolding key_from_row_def application_from_row_def client_from_row_def user_from_row_def email_from_row_def
    phone_from_row_def credential_from_row_def
  by ((intro and_then_total typed_field; simp add: typed_row_def column_types_def)?;
      simp add: key_columns_def application_columns_def client_columns_def user_columns_def email_columns_def
        phone_columns_def credential_columns_def)+

lemma view_total:
  assumes "\<And>s. s \<in> set ss \<Longrightarrow> \<exists>r. f (map s cs) cs = Inr r" shows "\<exists>rows. view f cs ss rows"
proof -
  have "\<forall>s. \<exists>r. s \<in> set ss \<longrightarrow> f (map s cs) cs = Inr r" using assms by blast
  then obtain g where "\<And>s. s \<in> set ss \<Longrightarrow> f (map s cs) cs = Inr (g s)" by metis
  then have "view f cs ss (map g ss)" by (simp add: view_def)
  then show ?thesis by blast
qed

end

section \<open>The operations keep the types\<close>

text \<open>A batch of two inserts that succeeds inserted both rows.\<close>

locale db_engine_batch = db_engine +
  assumes inserts_ok:
    "execute H [Query (Insert t r), Query (Insert t' r')] w = (Inr rs, w') \<Longrightarrow>
      \<exists>s xs ys s' xs' ys'. stored_as (cols t) r s \<and> T w t = xs @ ys \<and> stored_as (cols t') r' s'
        \<and> ((T w)(t := xs @ s # ys)) t' = xs' @ ys' \<and> T w' = (T w)(t := xs @ s # ys, t' := xs' @ s' # ys')"


context db_engine
begin

lemma keeps_typed_update:
  "list_all (typed_assignment t) as \<Longrightarrow> keeps (\<lambda>w. typed_tables (T w)) (table_write H [Update t as p])"
  by (rule keeps_wp, rule wp_table_update) (simp_all add: typed_update sameD)

lemma keeps_typed_delete [keeps_intros]: "keeps (\<lambda>w. typed_tables (T w)) (table_write H [Delete t p])"
  by (rule keeps_wp, rule wp_table_delete) (simp_all add: typed_delete sameD)

lemma keeps_typed_insert:
  assumes "cols t = schema_columns t" and "typed_values t r" and "r \<noteq> []"
  shows "keeps (\<lambda>w. typed_tables (T w)) (table_write H [Insert t r])"
proof -
  obtain v vs where "r = v # vs" using assms(3) by (cases r) auto
  moreover have "typed_row t s" if "stored_as (cols t) r s" for s
    using that assms(1,2) by (simp add: typed_values_def)
  ultimately show ?thesis
    by (auto intro!: keeps_wp wp_table_insert typed_insert simp: sameD)
qed

end

context db_engine_batch
begin

lemma keeps_typed_inserts:
  assumes "cols = schema_columns" and "typed_values t r" and "typed_values t' r'"
  shows "keeps (\<lambda>w. typed_tables (T w)) (table_write H [Insert t r, Insert t' r'])"
  unfolding table_write_def
proof (intro keeps_intros keeps_wp wp_I, goal_cases)
  case (1 w rs w')
  then show ?case
    using inserts_ok [of t r t' r' w rs w'] assms
    by (auto simp: typed_values_def intro!: typed_insert)
next
  case (2 w e w')
  then show ?case using same_fails sameD(1) by fastforce
qed

end

text \<open>The operations that write.\<close>

datatype store_op =
    CreateKey "uuid option" EntityType uuid bool string "datetime option" | DeleteKeys EntityType uuid
  | CreateApplication string string "string option" | UpdateApplication Application | DeleteApplication uuid
  | CreateClient ClientRegistration | UpdateClient Client | DeleteClient string
  | CreateUser string string | UpdateUser User | UpsertEmail uuid string bool | UpsertPhone uuid string bool
  | ReplacePassword uuid string | DeleteUser uuid

fun run_store_op :: "'w store_env \<Rightarrow> store_op \<Rightarrow> 'w \<Rightarrow> 'w" where
  "run_store_op N (CreateKey p t e h n x) w = snd (kr_create_key (ks_key_repo (store_keys N)) p t e h n x w)"
| "run_store_op N (DeleteKeys t e) w = snd (kr_delete_by_entity (ks_key_repo (store_keys N)) t e w)"
| "run_store_op N (CreateApplication n u d) w = snd (db_create_application (ue_host (se_users N)) n u d w)"
| "run_store_op N (UpdateApplication a) w = snd (db_update_application (ue_host (se_users N)) a w)"
| "run_store_op N (DeleteApplication i) w = snd (db_delete_application_by_id (ue_host (se_users N)) i w)"
| "run_store_op N (CreateClient r) w =
    snd (db_create_client (ue_host (se_users N)) (se_json N) (se_bip32 N) (se_keyring N) (store_keys N) r w)"
| "run_store_op N (UpdateClient c) w = snd (db_update_client (ue_host (se_users N)) (se_json N) c w)"
| "run_store_op N (DeleteClient i) w = snd (db_delete_client_by_client_id (ue_host (se_users N)) (se_json N) i w)"
| "run_store_op N (CreateUser n p) w = snd (db_create_user_with_password (se_users N) n p w)"
| "run_store_op N (UpdateUser u) w = snd (db_update_user (se_users N) u w)"
| "run_store_op N (UpsertEmail i e v) w = snd (db_upsert_primary_user_email (se_users N) i e v w)"
| "run_store_op N (UpsertPhone i p v) w = snd (db_upsert_primary_user_phone_number (se_users N) i p v w)"
| "run_store_op N (ReplacePassword i p) w = snd (db_replace_user_password (se_users N) i p w)"
| "run_store_op N (DeleteUser i) w = snd (db_delete_user_by_id (se_users N) i w)"

locale idp_store = db_engine_batch H T C cols clock +
    idp_outside T "se_keyring N" "ue_random (se_users N)"
  for H :: "'w host" and T C cols clock and N :: "'w store_env" +
  assumes schema: "cols = schema_columns" and host: "ue_host (se_users N) = H"
begin

abbreviation typed where
  "typed w \<equiv> typed_tables (T w)"

lemma typed_assigned [simp]:
  "typed_assignment t (table_assignment u c v) = list_all (\<lambda>(name, ty). name = c \<longrightarrow> has_type ty v) (column_types t)"
  by (simp add: table_assignment_def table_column_def)

lemmas store_intros = keeps_intros keeps_user_reads [OF host]

lemma keeps_create_key: "keeps typed (db_create_key H p t e h n x)"
  unfolding db_create_key_def
  by (intro store_intros keeps_typed_insert typed_key) (simp_all add: schema key_to_row_def)

lemma keeps_application_ops:
  "keeps typed (db_create_application H n u d)" "keeps typed (db_update_application H a)"
  "keeps typed (db_delete_application_by_id H i)"
  unfolding db_create_application_def db_update_application_def db_delete_application_by_id_def
  by (intro store_intros keeps_typed_insert typed_application keeps_typed_update;
      simp add: schema application_to_row_def column_types_def)+

lemma keeps_key_service:
  "keeps typed (create_key (se_bip32 N) show (store_keys N) p t e h n x)"
  "keeps typed (ensure_entity_master_key (se_bip32 N) (se_keyring N) show (store_keys N) t e passphrase)"
  unfolding create_key_def ensure_entity_master_key_def store_keys_def DbKeyRepo_def
  by (simp_all add: host) (intro store_intros keeps_create_key)+

lemma keeps_client_ops:
  "keeps typed (db_create_client H (se_json N) (se_bip32 N) (se_keyring N) (store_keys N) r)"
  "keeps typed (db_update_client H (se_json N) c)" "keeps typed (db_delete_client_by_client_id H (se_json N) i)"
  unfolding db_create_client_def db_update_client_def db_delete_client_by_client_id_def client_application_id_def Let_def
  by (intro store_intros keeps_key_service keeps_typed_insert typed_client typed_registered_application
      keeps_typed_update typed_client_assignments; simp add: schema client_to_row_def)+

lemma keeps_encrypt [keeps_intros]: "keeps typed (encrypt_password (se_users N) input)"
  unfolding encrypt_password_def by (intro keeps_intros)

lemma keeps_user_ops:
  "keeps typed (db_create_user_with_password (se_users N) name input)" "keeps typed (db_update_user (se_users N) u)"
  "keeps typed (db_upsert_primary_user_email (se_users N) i email verified)"
  "keeps typed (db_upsert_primary_user_phone_number (se_users N) i phone verified)"
  "keeps typed (db_replace_user_password (se_users N) i input)" "keeps typed (db_delete_user_by_id (se_users N) i)"
  unfolding db_create_user_with_password_def db_update_user_def db_upsert_primary_user_email_def
    db_upsert_primary_user_phone_number_def db_replace_user_password_def db_delete_user_by_id_def Let_def host
  by (intro store_intros keeps_encrypt keeps_typed_inserts keeps_typed_insert typed_user typed_credential typed_email typed_phone
      keeps_typed_update typed_user_assignments host;
      simp add: schema user_to_row_def credential_to_row_def email_to_row_def phone_to_row_def column_types_def bool_value_def)+

lemma run_store_op_typed: "typed w \<Longrightarrow> typed (run_store_op N op w)"
proof -
  have snd: "typed (snd (m w))" if "keeps typed m" "typed w" for m :: "('w, RepoError, 'b) op"
    using that by (metis keepsD prod.collapse)
  assume "typed w"
  then show ?thesis
    by (cases op) (simp_all add: store_keys_def DbKeyRepo_def host db_delete_by_entity_def snd keeps_create_key
        keeps_typed_delete keeps_application_ops keeps_client_ops [unfolded store_keys_def DbKeyRepo_def host] keeps_user_ops)
qed

lemma store_ops_typed: "typed w \<Longrightarrow> typed (fold (run_store_op N) ops w)"
  by (induction ops arbitrary: w) (simp_all add: run_store_op_typed)

end

text \<open>The executable engine, with a key ring and a password hash beside it.\<close>

definition mem_store_env :: "mem store_env" where
  "mem_store_env = \<lparr>
    se_users = \<lparr>ue_host = mem_host schema_columns, ue_random = (\<lambda>n w. (replicate n 7, w)),
      ue_hash_encoded = (\<lambda>input salt _. Inr (bytes_str (salt @ input))), ue_parse_rfc3339 = (\<lambda>_. None),
      ue_to_rfc3339 = (\<lambda>_. []), ue_password_config = default_PasswordConfig\<rparr>,
    se_json = \<lparr>strings_json = \<lparr>scopes_to_json = join '' '', scopes_from_json = (\<lambda>s. Inr (split_whitespace s))\<rparr>,
      grants_to_json = (\<lambda>_. []), grants_from_json = (\<lambda>_. Inr []), responses_to_json = (\<lambda>_. []),
      responses_from_json = (\<lambda>_. Inr [])\<rparr>,
    se_bip32 = mem_bip32,
    se_keyring = \<lparr>entry_with_modifiers = (\<lambda>service user modifiers. Inr (service, user, modifiers)),
      get_secret = (\<lambda>_. err NoEntry), set_secret = (\<lambda>_ _. ok ()), delete_credential = (\<lambda>_. ok ()),
      show_keyring_error = (\<lambda>_. []), show_utf8_error = (\<lambda>_. []), fill_random = (\<lambda>n. ok (replicate n 7))\<rparr>,
    se_service = ''idp'', se_namespace = ''local''\<rparr>"

interpretation mem_store: idp_store "mem_host schema_columns" mem_tables mem_conflicts schema_columns mem_time mem_store_env
proof (unfold_locales, goal_cases)
  case (1 t r t' r' w rs w')
  then have "length r = length (schema_columns t)" "length r' = length (schema_columns t')"
    "mem_tables w' = (mem_tables w)(t := mem_tables w t @ [stored_row (schema_columns t) r],
      t' := ((mem_tables w)(t := mem_tables w t @ [stored_row (schema_columns t) r])) t' @ [stored_row (schema_columns t') r'])"
    by (auto simp: mem_execute_def await_def ok_def split: if_splits prod.splits)
  with stored_as_stored_row [OF distinct_schema_columns] show ?case
    by (metis append_Nil2)
qed (auto simp: mem_store_env_def unchanged_def ok_def err_def)

text \<open>C32: the identity tables stay well typed.  Whatever sequence of writing operations of the key, application,
  client and user repositories runs, and whether each succeeds or fails, every row of their tables keeps values of
  the column types, and the row decoders of all seven tables succeed on every row.\<close>

theorem store_ops_well_typed:
  assumes "idp_store H T C schema_columns clock N" and "typed_tables (T w)"
    and "T' = T (fold (run_store_op N) ops w)"
  shows "typed_tables T'
    \<and> (\<exists>rows. view (key_from_row H) key_columns (T' KEY_TABLE) rows)
    \<and> (\<exists>rows. view (application_from_row H) application_columns (T' APPLICATION_TABLE) rows)
    \<and> (\<exists>rows. view (client_from_row H) client_columns (T' CLIENT_TABLE) rows)
    \<and> (\<exists>rows. view (user_from_row H) user_columns (T' USERS) rows)
    \<and> (\<exists>rows. view (email_from_row H) email_columns (T' EMAILS) rows)
    \<and> (\<exists>rows. view (phone_from_row H) phone_columns (T' PHONES) rows)
    \<and> (\<exists>rows. view (credential_from_row H) credential_columns (T' CREDENTIALS) rows)"
proof -
  have typed: "typed_tables T'" unfolding assms(3) by (rule idp_store.store_ops_typed [OF assms(1,2)])
  then have row: "typed_row t s" if "s \<in> set (T' t)" for t s using that by (simp add: typed_tables_def)
  have engine: "db_engine H T C schema_columns clock"
    using assms(1) by (simp add: idp_store_def db_engine_batch_def)
  show ?thesis
    by (intro conjI typed) (rule db_engine.view_total [OF engine], rule db_engine.typed_row_decodes [OF engine], erule row)+
qed

theorem store_ops_well_typed_witness:
  "let T' = mem_tables (fold (run_store_op mem_store_env)
      [CreateUser ''ada'' ''hunter2'', CreateKey None EntityUser 1 True ''root'' None, ReplacePassword 1 ''hunter3'']
      \<lparr>mem_tables = (\<lambda>_. []), mem_conflicts = (\<lambda>_ _. []), mem_clock = 100, mem_next = 1\<rparr>) in
    typed_tables T' \<and> (\<exists>rows. view (user_from_row (mem_host schema_columns)) user_columns (T' USERS) rows)"
proof -
  let ?w = "\<lparr>mem_tables = (\<lambda>_. []), mem_conflicts = (\<lambda>_ _. []), mem_clock = 100, mem_next = 1\<rparr> :: mem"
  have "typed_tables (mem_tables ?w)" by (simp add: typed_tables_def)
  from store_ops_well_typed [OF mem_store.idp_store_axioms this refl] show ?thesis unfolding Let_def by blast
qed

end
