(* ===== verification/Code_Single_Use.thy ===== *)
theory Code_Single_Use
  imports Idp_Types Oauth2_Example
begin

text \<open>
  An authorization code is exchanged at most once: once the token endpoint answered an exchange,
  the code is marked consumed in the database, no request to the token endpoint undoes this, and a
  consumed code is refused.
\<close>

section \<open>What the token endpoint reads\<close>

lemma keeps_entity [keeps_intros]:
  "keeps I m \<Longrightarrow> keeps I n \<Longrightarrow> keeps I (case t of EntityUser \<Rightarrow> m | EntityClient \<Rightarrow> n)"
  by (simp split: EntityType.split)

lemma keeps_attempted [keeps_intros]: "keeps I m \<Longrightarrow> keeps I (attempt m)"
  by (fastforce simp: keeps_def attempt_def split: prod.splits)

lemma keeps_require [keeps_intros]: "keeps I (require code d found)"
  unfolding require_def by (rule keeps_lift)

locale token_reads =
  fixes V :: "'w idp_env" and S :: "'w OAuth2Service" and T :: "'w \<Rightarrow> tables"
  assumes clock_read: "utc_now (env_host V) w = (t, w') \<Longrightarrow> T w' = T w"
    and client_reads: "unchanged T (cl_find_client_by_id (client_repo S) i)"
      "unchanged T (cl_find_client_by_client_id (client_repo S) client_id)"
    and user_reads: "unchanged T (us_find_user_by_id (user_repo S) i)"
      "unchanged T (us_find_user_by_username_or_email (user_repo S) name)"
      "unchanged T (us_find_user_password_by_user_id (user_repo S) i)"
    and key_reads: "unchanged T (kr_find_by_id (ks_key_repo (key_service S)) i)"
      "unchanged T (kr_find_by_entity (ks_key_repo (key_service S)) entity_type i)"
      "unchanged T (kr_find_active_entity_root_key (ks_key_repo (key_service S)) entity_type i)"
    and private_key_reads: "unchanged T (pk_load (ks_private_key_repo (key_service S)) ns path)"
begin

lemma keeps_lookups [keeps_intros]:
  "keeps (\<lambda>w. P (T w)) (cl_find_client_by_id (client_repo S) i)"
  "keeps (\<lambda>w. P (T w)) (cl_find_client_by_client_id (client_repo S) client_id)"
  "keeps (\<lambda>w. P (T w)) (us_find_user_by_id (user_repo S) i)"
  "keeps (\<lambda>w. P (T w)) (us_find_user_by_username_or_email (user_repo S) name)"
  "keeps (\<lambda>w. P (T w)) (us_find_user_password_by_user_id (user_repo S) i)"
  "keeps (\<lambda>w. P (T w)) (kr_find_by_id (ks_key_repo (key_service S)) i)"
  "keeps (\<lambda>w. P (T w)) (kr_find_by_entity (ks_key_repo (key_service S)) entity_type i)"
  "keeps (\<lambda>w. P (T w)) (kr_find_active_entity_root_key (ks_key_repo (key_service S)) entity_type i)"
  "keeps (\<lambda>w. P (T w)) (pk_load (ks_private_key_repo (key_service S)) ns path)"
  by (rule unchanged_keeps [of T], rule client_reads user_reads key_reads private_key_reads)+

lemma keeps_now [keeps_intros]: "keeps (\<lambda>w. P (T w)) (now V)"
  unfolding now_def by (rule keeps_effect) (simp add: clock_read)

lemma keeps_find_client [keeps_intros]: "keeps (\<lambda>w. P (T w)) (find_client S client_id e)"
  unfolding find_client_def by (intro keeps_intros)

lemma keeps_ensure_root [keeps_intros]: "keeps (\<lambda>w. P (T w)) (ensure_key_is_active_entity_root S key)"
  unfolding ensure_key_is_active_entity_root_def by (intro keeps_intros)

lemma keeps_find_principal [keeps_intros]: "keeps (\<lambda>w. P (T w)) (find_principal S kid)"
  unfolding find_principal_def by (intro keeps_intros)

lemma keeps_load_key [keeps_intros]:
  "keeps (\<lambda>w. P (T w)) (load_private_key V S key)" "keeps (\<lambda>w. P (T w)) (load_signing_jwk V S key)"
  "keeps (\<lambda>w. P (T w)) (find_public_jwk V S kid)"
  unfolding find_public_jwk_def load_signing_jwk_def load_private_key_def by (intro keeps_intros)+

lemma keeps_issue [keeps_intros]:
  "keeps (\<lambda>w. P (T w)) (issue_tokens_for_client V S client subject scopes resource details audience)"
  "keeps (\<lambda>w. P (T w)) (issue_client_credentials_access_token V S client subject scopes aud resource)"
  unfolding issue_tokens_for_client_def issue_client_credentials_access_token_def by (intro keeps_intros)+

lemma keeps_other_grants [keeps_intros]:
  "keeps (\<lambda>w. P (T w)) (password V S pg client_auth)" "keeps (\<lambda>w. P (T w)) (client_credentials V S cc client_auth)"
  "keeps (\<lambda>w. P (T w)) (refresh_token V S rg client_auth)" "keeps (\<lambda>w. P (T w)) (token_exchange V S te client_auth)"
  unfolding password_def client_credentials_def refresh_token_def token_exchange_def by (intro keeps_intros)+

lemma keeps_token:
  assumes "\<And>code. keeps (\<lambda>w. P (T w)) (ac_find_authorization_code_by_code (authorization_code_repo S) code)"
    and "\<And>i n. keeps (\<lambda>w. P (T w)) (ac_consume_authorization_code (authorization_code_repo S) i n)"
  shows "keeps (\<lambda>w. P (T w)) (token V S request client_auth)"
proof -
  have "keeps (\<lambda>w. P (T w)) (authorization_code V S g client_auth)" for g
    unfolding authorization_code_def by (intro keeps_intros assms)
  then show ?thesis by (cases request) (simp_all add: keeps_intros)
qed

end

text \<open>The repositories over the engine and the key ring are such readers.\<close>

context idp_store
begin

lemma native_token_reads:
  assumes "env_host V = H" shows "token_reads V (native_oauth2_service N E config) T"
proof (unfold_locales, goal_cases)
  case (1 w t w')
  then show ?case using now_keeps assms by simp
qed (simp add: native_oauth2_service_def store_keys_def DbKeyRepo_def DbClientRepo_def DbUserRepo_def
    PrivateKeyKeyringRepo_def Let_def host, rule unchangedI, intro keeps_intros keeps_user_reads host)+

end

interpretation mem_token: token_reads demo_env "native_oauth2_service mem_store_env mem_crypto default_config" mem_tables
  by (rule mem_store.native_token_reads) (simp add: demo_env_def)

section \<open>Codes in the database\<close>

text \<open>The rows with a hash are one code; they are spent.\<close>

definition unique_hash :: "string \<Rightarrow> tables \<Rightarrow> bool" where
  "unique_hash h T = (\<forall>s \<in> set (T CODE_TABLE). \<forall>s' \<in> set (T CODE_TABLE).
    s ''code_hash'' = Text h \<and> s' ''code_hash'' = Text h \<longrightarrow> s ''id'' = s' ''id'')"

definition spent :: "string \<Rightarrow> tables \<Rightarrow> bool" where
  "spent h T = (\<forall>s \<in> set (T CODE_TABLE). s ''code_hash'' = Text h \<longrightarrow> (\<exists>n. s ''consumed_at'' = Integer n))"

definition consumed :: "uuid \<Rightarrow> int \<Rightarrow> tables \<Rightarrow> tables" where
  "consumed i n T = T(CODE_TABLE := update_rows (\<lambda>s. s ''id'' = Uuid i)
    (\<lambda>s. s(''consumed_at'' := Integer n, ''updated_at'' := Integer n)) (T CODE_TABLE))"

lemma unique_consumed: "unique_hash h T \<Longrightarrow> unique_hash h (consumed i n T)"
  by (fastforce simp: unique_hash_def consumed_def update_rows_def)

lemma spent_consumed: "spent h T \<Longrightarrow> spent h (consumed i n T)"
  by (fastforce simp: spent_def consumed_def update_rows_def)

lemma consumed_spent:
  assumes "unique_hash h T" and "s \<in> set (T CODE_TABLE)" and "s ''code_hash'' = Text h" and "s ''id'' = Uuid i"
  shows "spent h (consumed i n T)"
  using assms by (fastforce simp: spent_def unique_hash_def consumed_def update_rows_def)

text \<open>A lookup finds a row with the hash of the code.\<close>

definition found_row :: "crypto \<Rightarrow> string \<Rightarrow> OAuth2AuthorizationCode \<Rightarrow> tables \<Rightarrow> bool" where
  "found_row E presented code T' = (\<exists>s \<in> set (T' CODE_TABLE). s ''code_hash'' = Text (code_hash E presented)
    \<and> s ''id'' = Uuid (ac_id code) \<and> (\<forall>n. s ''consumed_at'' = Integer n \<longrightarrow> ac_consumed_at code \<noteq> None))"

context db_engine
begin

lemma keeps_code_clear [keeps_intros]: "keeps (\<lambda>w. P (T w)) (code_ensure_clear H i)"
  unfolding code_ensure_clear_def allows_token_issuance_def by (intro keeps_intros)

lemma wp_code_clear:
  assumes "\<And>w'. same w w' \<Longrightarrow> Q () w'" and "\<And>e w'. same w w' \<Longrightarrow> X e w'"
  shows "wp (code_ensure_clear H i) Q X w"
  unfolding code_ensure_clear_def allows_token_issuance_def wp_simps by (rule wp_clear) (simp_all add: assms)

lemma wp_code_rows:
  assumes "\<And>rows w'. same w w' \<Longrightarrow> view (code_from_row H) code_columns (filter (holds e) (T w CODE_TABLE)) rows \<Longrightarrow> Q rows w'"
    and "\<And>e w'. same w w' \<Longrightarrow> X e w'"
  shows "wp (code_rows H (code_select (Some e))) Q X w"
proof -
  have "code_rows H (code_select (Some e)) = table_rows H (code_from_row H) (table_select CODE_TABLE code_columns (Some e))
      ''missing authorization code query result''"
    by (simp add: code_rows_def table_rows_def code_select_def table_select_def code_column_def [abs_def] table_column_def [abs_def])
  then show ?thesis by (simp only:, intro wp_table_rows) (simp_all add: assms selects_def [abs_def])
qed

lemma code_columns_set: "set code_columns = {''id'', ''code_hash'', ''client_id'', ''key_id'', ''redirect_uri'', ''scopes'',
    ''resource'', ''code_challenge'', ''code_challenge_method'', ''nonce'', ''expires_at'', ''consumed_at'', ''created_at'',
    ''updated_at''}"
  by (auto simp: code_columns_def)

lemma code_row_fields:
  assumes "code_from_row H (map s code_columns) code_columns = Inr r"
  shows "s ''id'' = Uuid (cw_id r)" and "s ''consumed_at'' = Integer n \<Longrightarrow> cw_consumed_at r = Some n"
  using assms by (auto simp: code_from_row_def code_columns_set AuthorizationCodeRow.make_def decode_ok)

lemma wp_code_find:
  assumes "\<And>found w'. same w w' \<Longrightarrow> (\<And>code. found = Some code \<Longrightarrow> found_row E presented code (T w)) \<Longrightarrow> Q found w'"
    and "\<And>e w'. same w w' \<Longrightarrow> X e w'"
  shows "wp (code_find H E J presented) Q X w"
  unfolding code_find_def wp_simps code_equals_def code_column_def
proof (rule wp_code_rows, goal_cases)
  case (1 rows w1)
  have row: "found_row E presented code (T w)" if "rows = r # rest" "code_try_from H J r = Inr c" "code = c\<lparr>ac_code := presented\<rparr>"
    for r rest c code
  proof -
    from 1(2) that(1) obtain s where s: "s \<in> set (T w CODE_TABLE)" "s ''code_hash'' = Text (code_hash E presented)"
      "code_from_row H (map s code_columns) code_columns = Inr r"
      using view_mem [OF 1(2), of r] by auto
    moreover have "ac_id code = cw_id r" and "cw_consumed_at r \<noteq> None \<Longrightarrow> ac_consumed_at code \<noteq> None"
      using that(2,3) by (auto simp: code_try_from_def transpose_option_def)
    ultimately show ?thesis using code_row_fields [OF s(3)] by (fastforce simp: found_row_def)
  qed
  have found: "wp (code_ensure_clear H (ac_id c)) (\<lambda>_. Q (Some (c\<lparr>ac_code := presented\<rparr>))) X w1"
    if "rows = r # rest" "code_try_from H J r = Inr c" for r rest c
  proof (rule wp_code_clear, goal_cases)
    case (1 w2)
    then show ?case by (intro assms(1) same_trans [OF \<open>same w w1\<close>]) (use row [OF that] in auto)
  qed (intro assms(2) same_trans [OF 1(1)])
  show ?case
  proof (cases rows)
    case Nil
    then show ?thesis using assms(1) [OF 1(1), of None] by (simp add: transpose_option_def wp_simps)
  next
    case (Cons r rest)
    then show ?thesis
      using found [OF Cons] assms(2) [OF 1(1)]
      by (cases "code_try_from H J r") (simp_all add: transpose_option_def wp_simps)
  qed
qed (rule assms(2))

lemma keeps_code_find [keeps_intros]: "keeps (\<lambda>w. P (T w)) (code_find H E J presented)"
  by (rule keeps_wp, rule wp_code_find) (simp_all add: sameD)

lemma keeps_code_rows [keeps_intros]: "keeps (\<lambda>w. P (T w)) (code_rows H (code_select (Some e)))"
  by (rule keeps_wp, rule wp_code_rows) (simp_all add: sameD)

lemma wp_consume_update:
  "wp (execute H [Query (Update CODE_TABLE [code_assignment ''consumed_at'' (Integer m),
      code_assignment ''updated_at'' (Integer m)] (Some (code_equals ''id'' (Uuid i))))])
    (\<lambda>_ w'. T w' = consumed i m (T w)) (\<lambda>_ w'. T w' = T w) w"
proof -
  have "modify (Query (Update CODE_TABLE [code_assignment ''consumed_at'' (Integer m), code_assignment ''updated_at'' (Integer m)]
      (Some (code_equals ''id'' (Uuid i))))) T' = consumed i m T'" for T'
  proof -
    have "(\<lambda>s. if s ''id'' = Uuid i \<and> s ''id'' \<noteq> Null then assign [Assignment (QueryColumn CODE_TABLE ''consumed_at'')
        (ExprValue (Integer m)), Assignment (QueryColumn CODE_TABLE ''updated_at'') (ExprValue (Integer m))] s else s)
      = (\<lambda>s. if s ''id'' = Uuid i then s(''consumed_at'' := Integer m, ''updated_at'' := Integer m) else s)"
      by (rule ext) (simp add: assign_def assign1_def)
    then show ?thesis
      by (simp add: consumed_def code_assignment_def code_equals_def code_column_def update_rows_def selects_def)
  qed
  then show ?thesis by (intro wp_modify) (simp_all add: sameD)
qed

lemma keeps_consume:
  assumes "\<And>T'. P T' \<Longrightarrow> P (consumed i (timestamp n) T')"
  shows "keeps (\<lambda>w. P (T w)) (consume_authorization_code H i n)"
proof -
  have "keeps (\<lambda>w. P (T w)) (execute H [Query (Update CODE_TABLE [code_assignment ''consumed_at'' (Integer (timestamp n)),
      code_assignment ''updated_at'' (Integer (timestamp n))] (Some (code_equals ''id'' (Uuid i))))])"
    by (rule keeps_wp, rule wp_conseq, rule wp_consume_update) (simp_all add: assms)
  then show ?thesis unfolding consume_authorization_code_def by (intro keeps_intros)
qed

lemma unchanged_code_reads:
  "unchanged T (code_ensure_clear H i)" "unchanged T (code_rows H (code_select (Some e)))" "unchanged T (code_find H E J presented)"
  by (rule unchangedI, intro keeps_intros)+

lemma consume_returns:
  assumes "consume_authorization_code H i n w = (Inr (), w')"
  shows "T w' = consumed i (timestamp n) (T w)"
proof -
  from assms obtain rows code rs w1 w2 w3 where run: "code_ensure_clear H i w = (Inr (), w1)"
    "code_rows H (code_select (Some (code_equals ''id'' (Uuid i)))) w1 = (Inr rows, w2)"
    "execute H [Query (Update CODE_TABLE [code_assignment ''consumed_at'' (Integer (timestamp n)),
      code_assignment ''updated_at'' (Integer (timestamp n))] (Some (code_equals ''id'' (Uuid i))))] w2 = (Inr rs, w3)"
    "code_ensure_clear H i w3 = (Inr (), w')"
    by (auto simp: consume_authorization_code_def returns simp del: not_None_eq)
  have "T w3 = consumed i (timestamp n) (T w2)" using wp_run [OF wp_consume_update run(3)] .
  then show ?thesis using run(1,2,4) unchanged_code_reads by (auto simp: unchanged_def)
qed

end

section \<open>One exchange\<close>

context token_reads
begin

text \<open>A successful exchange found the code unconsumed and consumed it.\<close>

lemma exchange_returns:
  assumes "authorization_code V S g client_auth w = (Inr response, w')"
  shows "\<exists>code n w1 w2 w3 w4. T w1 = T w \<and> T w3 = T w2 \<and> ac_consumed_at code = None
    \<and> ac_find_authorization_code_by_code (authorization_code_repo S) (cg_code g) w1 = (Inr (Some code), w2)
    \<and> ac_consume_authorization_code (authorization_code_repo S) (ac_id code) n w3 = (Inr (), w4)
    \<and> T w' = T w4"
proof -
  from assms obtain n code w1 w2 subject w3 client w4 w5 where run: "(now V :: ('w, ErrorResponse, datetime) op) w = (Inr n, w1)"
    "ac_find_authorization_code_by_code (authorization_code_repo S) (cg_code g) w1 = (Inr (Some code), w2)"
    "ac_consumed_at code = None" "find_principal S (ac_key_id code) w2 = (Inr (Some subject), w3)"
    "cl_find_client_by_client_id (client_repo S) (ac_client_id code) w3 = (Inr (Some client), w4)"
    "ac_consume_authorization_code (authorization_code_repo S) (ac_id code) n w4 = (Inr (), w5)"
    "issue_tokens_for_client V S client subject (ac_scopes code) (ac_resource code) None None w5 = (Inr response, w')"
    unfolding authorization_code_def
    by (clarsimp simp: returns checks challenge_returns validate_code_grant_iff require_def simp del: not_None_eq)
  have "unchanged T (now V :: ('w, ErrorResponse, datetime) op)" "unchanged T (find_principal S (ac_key_id code))"
    "unchanged T (issue_tokens_for_client V S client subject (ac_scopes code) (ac_resource code) None None)"
    by (rule unchangedI, intro keeps_intros)+
  with run client_reads(2) have "T w1 = T w" "T w3 = T w2" "T w4 = T w3" "T w' = T w5" by (auto simp: unchanged_def)
  then have "T w1 = T w \<and> T w4 = T w2 \<and> T w' = T w5" by simp
  with run(2,3,6) show ?thesis by blast
qed

end

text \<open>The answers of the token endpoint to a sequence of requests, one after another.\<close>

fun token_run :: "'w idp_env \<Rightarrow> 'w OAuth2Service \<Rightarrow> (TokenRequest \<times> OAuth2ClientAuth option) list \<Rightarrow> 'w
    \<Rightarrow> (ErrorResponse + TokenResponse) list" where
  "token_run V S [] w = []"
| "token_run V S (q # qs) w = (case token V S (fst q) (snd q) w of (response, w') \<Rightarrow> response # token_run V S qs w')"

text \<open>The request asked to exchange this code, and tokens were issued.\<close>

definition exchanged :: "string \<Rightarrow> (TokenRequest \<times> OAuth2ClientAuth option) \<times> (ErrorResponse + TokenResponse) \<Rightarrow> bool" where
  "exchanged presented = (\<lambda>((request, _), response). (case request of AuthorizationCode g \<Rightarrow> cg_code g = presented | _ \<Rightarrow> False)
    \<and> (case response of Inr _ \<Rightarrow> True | Inl _ \<Rightarrow> False))"

locale db_codes = token_reads V S T + db_engine H T C cols clock
  for V :: "'w idp_env" and S :: "'w OAuth2Service" and T :: "'w \<Rightarrow> tables" and H :: "'w host" and C cols clock +
  fixes E :: crypto and J :: scopes_json and random :: "nat \<Rightarrow> 'w \<Rightarrow> byte list \<times> 'w"
  assumes repo: "authorization_code_repo S = DbOAuth2AuthorizationCodeRepo H E J random"
begin

lemma keeps_codes:
  "keeps (\<lambda>w. spent h (T w)) (token V S request client_auth)"
  "keeps (\<lambda>w. unique_hash h (T w)) (token V S request client_auth)"
  by (rule keeps_token; simp only: repo DbOAuth2AuthorizationCodeRepo_def OAuth2AuthorizationCodeRepo.simps;
      (rule keeps_code_find | rule keeps_consume, erule spent_consumed unique_consumed))+

lemma exchange_found:
  assumes "authorization_code V S g client_auth w = (Inr response, w')"
  shows "\<exists>code n. found_row E (cg_code g) code (T w) \<and> ac_consumed_at code = None
    \<and> T w' = consumed (ac_id code) (timestamp n) (T w)"
proof -
  obtain code n w1 w2 w3 w4 where run: "T w1 = T w" "T w3 = T w2" "ac_consumed_at code = None"
    "code_find H E J (cg_code g) w1 = (Inr (Some code), w2)" "consume_authorization_code H (ac_id code) n w3 = (Inr (), w4)"
    "T w' = T w4"
    using exchange_returns [OF assms] by (auto simp: repo DbOAuth2AuthorizationCodeRepo_def)
  have "wp (code_find H E J (cg_code g)) (\<lambda>found _. \<forall>code. found = Some code \<longrightarrow> found_row E (cg_code g) code (T w1))
      (\<lambda>_ _. True) w1"
    by (rule wp_code_find) simp_all
  from wp_run [OF this run(4)] have "found_row E (cg_code g) code (T w)" by (simp add: run(1))
  moreover have "T w2 = T w1" using unchanged_code_reads(3) run(4) by (auto simp: unchanged_def)
  ultimately show ?thesis using run consume_returns [OF run(5)] by auto
qed

lemma spent_refused:
  assumes "spent (code_hash E presented) (T w)" and "cg_code g = presented"
  shows "authorization_code V S g client_auth w \<noteq> (Inr response, w')"
  using assms exchange_found by (fastforce simp: found_row_def spent_def)

lemma exchange_spends:
  assumes "unique_hash (code_hash E presented) (T w)" and "cg_code g = presented"
    and "authorization_code V S g client_auth w = (Inr response, w')"
  shows "spent (code_hash E presented) (T w')"
proof -
  obtain code :: OAuth2AuthorizationCode and n s where "T w' = consumed (ac_id code) (timestamp n) (T w)" "s \<in> set (T w CODE_TABLE)"
    "s ''code_hash'' = Text (code_hash E presented)" "s ''id'' = Uuid (ac_id code)"
    using exchange_found [OF assms(3)] unfolding assms(2) found_row_def by blast
  with consumed_spent [OF assms(1)] show ?thesis by simp
qed

lemma spent_none:
  "spent (code_hash E presented) (T w) \<Longrightarrow> filter (exchanged presented) (zip qs (token_run V S qs w)) = []"
proof (induction qs arbitrary: w)
  case (Cons q qs)
  obtain r w' where run: "token V S (fst q) (snd q) w = (r, w')" by fastforce
  have "spent (code_hash E presented) (T w')" using keepsD [OF keeps_codes(1) run Cons.prems] .
  moreover have "\<not> exchanged presented (q, r)"
    using run spent_refused [OF Cons.prems] by (cases q; cases r) (auto simp: exchanged_def split: TokenRequest.splits)
  ultimately show ?case using run Cons.IH by simp
qed simp

lemma at_most_one:
  "unique_hash (code_hash E presented) (T w) \<Longrightarrow> length (filter (exchanged presented) (zip qs (token_run V S qs w))) \<le> 1"
proof (induction qs arbitrary: w)
  case (Cons q qs)
  obtain r w' where run: "token V S (fst q) (snd q) w = (r, w')" by fastforce
  have unique: "unique_hash (code_hash E presented) (T w')" using keepsD [OF keeps_codes(2) run Cons.prems] .
  show ?case
  proof (cases "exchanged presented (q, r)")
    case True
    then have "spent (code_hash E presented) (T w')"
      using run exchange_spends [OF Cons.prems] by (cases q; cases r) (auto simp: exchanged_def split: TokenRequest.splits)
    then show ?thesis using run spent_none by simp
  next
    case False
    then show ?thesis using run Cons.IH [OF unique] by simp
  qed
qed simp

end

interpretation native_codes: db_codes demo_env "native_oauth2_service mem_store_env mem_crypto default_config" mem_tables
    "mem_host schema_columns" mem_conflicts schema_columns mem_time mem_crypto "strings_json (se_json mem_store_env)"
    "ue_random (se_users mem_store_env)"
  by unfold_locales (simp add: native_oauth2_service_def mem_store_env_def Let_def)

interpretation demo_codes: db_codes demo_env demo_service mem_tables "mem_host schema_columns" mem_conflicts schema_columns
    mem_time mem_crypto "\<lparr>scopes_to_json = join '' '', scopes_from_json = (\<lambda>s. Inr (split_whitespace s))\<rparr>"
    "\<lambda>n w. (replicate n 7, w)"
  by unfold_locales (auto simp: demo_env_def demo_service_def unchanged_def ok_def)

text \<open>C3: an authorization code is exchanged at most once.  However many requests of whatever grants the token endpoint
  processes, one after another, at most one of the requests that present a code is answered with tokens, as long as the
  hash of the code belongs to one code of the table (the unique index on that column).\<close>

theorem authorization_code_single_use:
  assumes "db_engine H T C schema_columns clock" and "token_reads V S T"
    and "authorization_code_repo S = DbOAuth2AuthorizationCodeRepo H E J random"
    and "unique_hash (code_hash E presented) (T w)"
  shows "length (filter (exchanged presented) (zip requests (token_run V S requests w))) \<le> 1"
proof -
  have "db_codes V S T H C schema_columns clock E J random"
    using assms(1,2,3) by (simp add: db_codes_def db_codes_axioms_def)
  from db_codes.at_most_one [OF this assms(4)] show ?thesis .
qed

theorem authorization_code_single_use_witness:
  "\<exists>request. length (filter (exchanged ''abc'') (zip [request, request] (token_run demo_env demo_service [request, request] demo_coded))) = 1"
proof -
  obtain request where request: "request = (AuthorizationCode \<lparr>cg_client_id = Some ''app'', cg_code = ''abc'',
      cg_code_verifier = ''verifier'', cg_redirect_uri = None\<rparr>, None :: OAuth2ClientAuth option)"
    by blast
  obtain r w' where "authorization_code demo_env demo_service (case fst request of AuthorizationCode g \<Rightarrow> g) (snd request) demo_coded
      = (Inr r, w')"
    using demo_authorization_code unfolding request by auto
  then have "exchanged ''abc'' (request, hd (token_run demo_env demo_service [request, request] demo_coded))"
    by (simp add: request exchanged_def)
  then have "1 \<le> length (filter (exchanged ''abc'') (zip [request, request] (token_run demo_env demo_service [request, request] demo_coded)))"
    by (cases "token demo_env demo_service (fst request) (snd request) demo_coded") simp
  moreover have "unique_hash (code_hash mem_crypto ''abc'') (mem_tables demo_coded)"
    by (simp add: unique_hash_def demo_coded_def)
  from authorization_code_single_use [OF memdb.db_engine_axioms demo_codes.token_reads_axioms demo_codes.repo this,
      of "[request, request]"]
  have "length (filter (exchanged ''abc'') (zip [request, request] (token_run demo_env demo_service [request, request] demo_coded))) \<le> 1" .
  ultimately show ?thesis by (intro exI [of _ request]) linarith
qed

end
