(* ===== verification/Control_Plane.thy ===== *)
theory Control_Plane
  imports Oauth2_Helpers
begin

text \<open>
  The client through which the management server and the identity server reach a hosted control
  plane (\<open>crates/management-service/src/hosted_control_plane.rs\<close>): the checks of its addresses, its
  service token with a cache, token introspection, and the checks of storage tokens.  The HTTP
  client, the URL parser, the JSON codec and the system clock are external crates and the operating
  system: the record \<open>web\<close> holds the functions the code calls.
\<close>

section \<open>HTTP\<close>

record Url =
  url_scheme :: string
  url_host :: "string option"
  url_query :: "string option"
  url_fragment :: "string option"
  url_username :: string
  url_password :: "string option"
  url_path :: string

record IntrospectionRequest =
  ir_token :: string
  ir_token_type_hint :: "string option"

record IntrospectionResponse =
  is_claims :: StandardClaims
  is_application_id :: string

record DeviceEndpointIdentity =
  ei_device_id :: uuid
  ei_owner_subject :: string
  ei_endpoint_id :: string

record DeviceSelfRevocationRequest =
  sv_public_key :: string
  sv_signature :: string

record StorageResourceDetail =
  sd_id :: string
  sd_application_id :: uuid

datatype http_method = GET | POST

datatype http_body = NoBody | Form "(string \<times> string) list" | IntrospectionBody IntrospectionRequest
  | RevocationBody DeviceSelfRevocationRequest | JsonBody "(string \<times> string) list"

record http_request =
  rq_method :: http_method
  rq_url :: Url
  rq_bearer :: "string option"
  rq_body :: http_body

text \<open>The body arrives in chunks, each of which may fail to arrive.\<close>

record http_response =
  rs_status :: nat
  rs_chunks :: "(string + byte list) list"

record CachedServiceToken =
  ct_value :: string
  ct_valid_until :: int

record 'w web =
  parse_url :: "string \<Rightarrow> Url option"
  join_url :: "Url \<Rightarrow> string \<Rightarrow> string + Url"
  push_segment :: "Url \<Rightarrow> string \<Rightarrow> Url option"
  ip_is_loopback :: "string \<Rightarrow> bool"
  build_client :: "string + unit"
  send :: "http_request \<Rightarrow> ('w, string, http_response) op"
  status_error :: "nat \<Rightarrow> string"
  token_from_json :: "byte list \<Rightarrow> string + TokenResponse"
  introspection_from_json :: "byte list \<Rightarrow> string + IntrospectionResponse"
  endpoint_from_json :: "byte list \<Rightarrow> string + DeviceEndpointIdentity"
  resource_from_json :: "byte list \<Rightarrow> string + StorageResourceDetail"
  devices_from_json :: "byte list \<Rightarrow> string + DeviceInfo list"
  trusted_from_json :: "byte list \<Rightarrow> string + TrustedDevice list"
  jwks_from_json :: "byte list \<Rightarrow> string + JwkPublic list"
  system_time :: "'w \<Rightarrow> int \<times> 'w"
  time_checked_add :: "int \<Rightarrow> 64 word \<Rightarrow> int option"
  cached_token :: "('w, unit, CachedServiceToken option) op"
  store_token :: "CachedServiceToken \<Rightarrow> ('w, unit, unit) op"
  web_parse_uuid :: "string \<Rightarrow> uuid option"
  web_show_uuid :: "uuid \<Rightarrow> string"
  web_crypto :: crypto

definition is_success :: "nat \<Rightarrow> bool" where
  "is_success status = (200 \<le> status \<and> status < 300)"

text \<open>\<open>Response::error_for_status\<close> refuses client and server errors.\<close>

definition is_error :: "nat \<Rightarrow> bool" where
  "is_error status = (400 \<le> status \<and> status < 600)"

definition MAX_RESPONSE_SIZE :: nat where
  "MAX_RESPONSE_SIZE = 64 * 1024"

fun read_chunks :: "string \<Rightarrow> byte list \<Rightarrow> (string + byte list) list \<Rightarrow> string + byte list" where
  "read_chunks label body [] = Inr body"
| "read_chunks label body (Inl e # chunks) = Inl (''invalid '' @ label)"
| "read_chunks label body (Inr chunk # chunks) =
    (if length body + length chunk > MAX_RESPONSE_SIZE then Inl (label @ '' is too large'')
     else read_chunks label (body @ chunk) chunks)"

definition read_limited_body :: "http_response \<Rightarrow> string \<Rightarrow> string + byte list" where
  "read_limited_body response label = read_chunks label [] (rs_chunks response)"

text \<open>\<open>Response::json\<close> reads the whole body.\<close>

fun whole_body :: "(string + byte list) list \<Rightarrow> string + byte list" where
  "whole_body [] = Inr []"
| "whole_body (Inl e # chunks) = Inl e"
| "whole_body (Inr chunk # chunks) = and_then (whole_body chunks) (\<lambda>body. Inr (chunk @ body))"

section \<open>Addresses\<close>

definition ascii_lower :: "char \<Rightarrow> char" where
  "ascii_lower c = (let n = of_char c :: nat in if 65 \<le> n \<and> n \<le> 90 then char_of (n + 32) else c)"

definition to_ascii_lowercase :: "string \<Rightarrow> string" where
  "to_ascii_lowercase = map ascii_lower"

definition is_loopback :: "'w web \<Rightarrow> Url \<Rightarrow> bool" where
  "is_loopback W url = (case url_host url of None \<Rightarrow> False
    | Some host \<Rightarrow> to_ascii_lowercase host = ''localhost'' \<or> suffix ''.localhost'' (to_ascii_lowercase host)
      \<or> ip_is_loopback W host)"

definition normalize_service_url :: "'w web \<Rightarrow> string \<Rightarrow> string + Url" where
  "normalize_service_url W s =
    and_then (ok_or ''invalid service URI'' (parse_url W s)) (\<lambda>url.
    if url_scheme url \<notin> {''http'', ''https''} \<or> url_host url = None \<or> url_query url \<noteq> None
       \<or> url_fragment url \<noteq> None \<or> url_username url \<noteq> [] \<or> url_password url \<noteq> None
       \<or> (url_scheme url = ''http'' \<and> \<not> is_loopback W url)
    then Inl ''service URI must use HTTPS except for loopback and must not contain credentials, a query, or a fragment''
    else Inr (if suffix ''/'' (url_path url) then url else url\<lparr>url_path := url_path url @ ''/''\<rparr>))"

definition service_url :: "'w web \<Rightarrow> Url \<Rightarrow> string \<Rightarrow> string + Url" where
  "service_url W base_url path = join_url W base_url path"

section \<open>The client\<close>

record ServiceTokenClient =
  stc_client_id :: string
  stc_client_secret :: string
  stc_audience :: string

record HostedControlPlane =
  hcp_idp_base_url :: Url
  hcp_storage_base_url :: Url
  hcp_expected_issuer :: string
  hcp_service_token_client :: "ServiceTokenClient option"

definition invalid_issuer :: string where
  "invalid_issuer = ''issuer must be an HTTP URL without a query or fragment''"

definition new_with_services :: "'w web \<Rightarrow> string \<Rightarrow> string \<Rightarrow> string \<Rightarrow> string + HostedControlPlane" where
  "new_with_services W idp_base_url storage_base_url expected_issuer =
    and_then (ok_or invalid_issuer (parse_url W expected_issuer)) (\<lambda>issuer.
    if url_scheme issuer \<notin> {''http'', ''https''} \<or> url_host issuer = None \<or> url_query issuer \<noteq> None
       \<or> url_fragment issuer \<noteq> None \<or> url_username issuer \<noteq> [] \<or> url_password issuer \<noteq> None
    then Inl invalid_issuer else
    and_then (normalize_service_url W idp_base_url) (\<lambda>idp.
    and_then (normalize_service_url W storage_base_url) (\<lambda>storage.
    and_then (build_client W) (\<lambda>_.
    Inr \<lparr>hcp_idp_base_url = idp, hcp_storage_base_url = storage, hcp_expected_issuer = expected_issuer,
      hcp_service_token_client = None\<rparr>))))"

definition new_with_issuer :: "'w web \<Rightarrow> string \<Rightarrow> string \<Rightarrow> string + HostedControlPlane" where
  "new_with_issuer W base_url expected_issuer = new_with_services W base_url base_url expected_issuer"

definition new_control_plane :: "'w web \<Rightarrow> string \<Rightarrow> string + HostedControlPlane" where
  "new_control_plane W base_url = new_with_services W base_url base_url (trim_end_slashes base_url)"

definition with_idp_service_client :: "HostedControlPlane \<Rightarrow> string \<Rightarrow> string \<Rightarrow> string \<Rightarrow> string + HostedControlPlane" where
  "with_idp_service_client P client_id client_secret audience =
    (if trim client_id = [] \<or> client_secret = [] \<or> trim audience = []
     then Inl ''IdP service client ID, secret and audience are required''
     else Inr (P\<lparr>hcp_service_token_client := Some \<lparr>stc_client_id = client_id, stc_client_secret = client_secret,
       stc_audience = audience\<rparr>\<rparr>))"

text \<open>\<open>str::split_ascii_whitespace\<close>.\<close>

definition ascii_white :: "char \<Rightarrow> bool" where
  "ascii_white c = ((of_char c :: nat) \<in> {9, 10, 12, 13, 32})"

fun ascii_words :: "string \<Rightarrow> string \<Rightarrow> string list" where
  "ascii_words acc [] = (if acc = [] then [] else [acc])"
| "ascii_words acc (c # s) =
    (if ascii_white c then (if acc = [] then ascii_words [] s else acc # ascii_words [] s) else ascii_words (acc @ [c]) s)"

definition TOKEN_SCOPE :: string where
  "TOKEN_SCOPE = ''idp.token.validate idp.device.lookup''"

text \<open>Times are nanoseconds since the Unix epoch.\<close>

definition RENEWAL_MARGIN :: int where
  "RENEWAL_MARGIN = 15 * 1000000000"

definition fresh :: "int \<Rightarrow> CachedServiceToken \<Rightarrow> bool" where
  "fresh now token = (now \<le> ct_valid_until token \<and> ct_valid_until token - now > RENEWAL_MARGIN)"

definition service_token_ok :: "HostedControlPlane \<Rightarrow> TokenResponse \<Rightarrow> bool" where
  "service_token_ok P token = (tr_token_type token = Bearer \<and> tr_issuer token = Some (hcp_expected_issuer P)
    \<and> (case tr_scope token of None \<Rightarrow> False
      | Some scope \<Rightarrow> list_all (\<lambda>required. required \<in> set (ascii_words [] scope)) (ascii_words [] TOKEN_SCOPE)))"

definition token_form :: "ServiceTokenClient \<Rightarrow> (string \<times> string) list" where
  "token_form c = [(''grant_type'', ''client_credentials''), (''client_id'', stc_client_id c),
    (''client_secret'', stc_client_secret c), (''scope'', TOKEN_SCOPE), (''audience'', stc_audience c)]"

definition cache_unavailable :: string where
  "cache_unavailable = ''IdP service token cache is unavailable''"

text \<open>The clock is read only when a token is cached, as the filter of an \<open>Option\<close> does.\<close>

definition cached_service_token :: "'w web \<Rightarrow> ('w, string, string option) op" where
  "cached_service_token W =
    await (map_err (\<lambda>_. cache_unavailable) (cached_token W)) (\<lambda>cached.
    case cached of None \<Rightarrow> ok None
    | Some token \<Rightarrow> await (effect (system_time W)) (\<lambda>now.
        ok (if fresh now token then Some (ct_value token) else None)))"

definition idp_service_access_token :: "'w web \<Rightarrow> HostedControlPlane \<Rightarrow> ('w, string, string) op" where
  "idp_service_access_token W P =
    await (lift (ok_or ''IdP service OAuth client is not configured'' (hcp_service_token_client P))) (\<lambda>client.
    await (cached_service_token W) (\<lambda>cached.
    case cached of Some token \<Rightarrow> ok token | None \<Rightarrow>
    await (lift (service_url W (hcp_idp_base_url P) ''oauth2/token'')) (\<lambda>url.
    await (map_err (\<lambda>_. ''IdP token endpoint is unavailable'') (send W \<lparr>rq_method = POST, rq_url = url,
      rq_bearer = None, rq_body = Form (token_form client)\<rparr>)) (\<lambda>response.
    if \<not> is_success (rs_status response) then err ''IdP rejected the Management service client'' else
    await (lift (read_limited_body response ''IdP token response'')) (\<lambda>body.
    await (lift (result_map_err (\<lambda>_. ''invalid IdP token response'') (token_from_json W body))) (\<lambda>token.
    if \<not> service_token_ok P token then err ''IdP returned an unauthorized service token'' else
    await (lift (ok_or ''IdP service token has no expiry'' (tr_expires_in token))) (\<lambda>expires_in.
    await (effect (system_time W)) (\<lambda>now.
    await (lift (ok_or ''IdP service token expiry is invalid'' (time_checked_add W now expires_in))) (\<lambda>valid_until.
    await (map_err (\<lambda>_. cache_unavailable) (store_token W \<lparr>ct_value = tr_access_token token,
      ct_valid_until = valid_until\<rparr>)) (\<lambda>_.
    ok (tr_access_token token)))))))))))"

definition validate_actor_token :: "'w web \<Rightarrow> HostedControlPlane \<Rightarrow> string \<Rightarrow> ('w, string, StandardClaims \<times> uuid) op" where
  "validate_actor_token W P actor_token =
    await (idp_service_access_token W P) (\<lambda>service_token.
    await (lift (service_url W (hcp_idp_base_url P) ''oauth2/introspect'')) (\<lambda>url.
    await (map_err (\<lambda>_. ''IdP token validation is unavailable'') (send W \<lparr>rq_method = POST, rq_url = url,
      rq_bearer = Some service_token, rq_body = IntrospectionBody \<lparr>ir_token = actor_token,
        ir_token_type_hint = Some ''access_token''\<rparr>\<rparr>)) (\<lambda>response.
    if rs_status response = 401 then err ''actor token was rejected by IdP''
    else if \<not> is_success (rs_status response) then err ''IdP token validation is unavailable'' else
    await (lift (read_limited_body response ''IdP token validation response'')) (\<lambda>body.
    await (lift (result_map_err (\<lambda>_. ''invalid IdP token validation response'') (introspection_from_json W body))) (\<lambda>r.
    await (lift (ok_or ''invalid application ID in IdP response'' (web_parse_uuid W (is_application_id r)))) (\<lambda>application_id.
    ok (is_claims r, application_id)))))))"

definition get_storage_endpoint_identity :: "'w web \<Rightarrow> HostedControlPlane \<Rightarrow> string
    \<Rightarrow> ('w, string, DeviceEndpointIdentity) op" where
  "get_storage_endpoint_identity W P endpoint_id =
    await (lift (service_url W (hcp_idp_base_url P) ''devices/endpoints/'')) (\<lambda>base.
    await (lift (ok_or ''invalid IdP endpoint URL'' (push_segment W base endpoint_id))) (\<lambda>url.
    await (idp_service_access_token W P) (\<lambda>service_token.
    await (map_err (\<lambda>_. ''IdP endpoint lookup is unavailable'') (send W \<lparr>rq_method = GET, rq_url = url,
      rq_bearer = Some service_token, rq_body = NoBody\<rparr>)) (\<lambda>response.
    if rs_status response = 401 \<or> rs_status response = 403
    then err ''IdP rejected Management device lookup permission''
    else if rs_status response = 404 then err ''IdP identity was not found''
    else if \<not> is_success (rs_status response) then err ''IdP endpoint lookup is unavailable'' else
    await (lift (read_limited_body response ''IdP endpoint response'')) (\<lambda>body.
    await (lift (result_map_err (\<lambda>_. ''invalid IdP endpoint response'') (endpoint_from_json W body))) (\<lambda>identity.
    if ei_endpoint_id identity \<noteq> endpoint_id then err ''IdP returned a mismatched endpoint identity''
    else ok identity))))))"

definition get_from :: "'w web \<Rightarrow> (byte list \<Rightarrow> string + 'a) \<Rightarrow> Url \<Rightarrow> string \<Rightarrow> string \<Rightarrow> ('w, string, 'a) op" where
  "get_from W from_json base_url path token =
    await (lift (service_url W base_url path)) (\<lambda>url.
    await (send W \<lparr>rq_method = GET, rq_url = url, rq_bearer = (if token = [] then None else Some token),
      rq_body = NoBody\<rparr>) (\<lambda>response.
    if is_error (rs_status response) then err (status_error W (rs_status response)) else
    await (lift (whole_body (rs_chunks response))) (\<lambda>body. lift (from_json body))))"

definition post_empty_idp :: "'w web \<Rightarrow> HostedControlPlane \<Rightarrow> string \<Rightarrow> http_body \<Rightarrow> ('w, string, unit) op" where
  "post_empty_idp W P path body =
    await (lift (service_url W (hcp_idp_base_url P) path)) (\<lambda>url.
    await (send W \<lparr>rq_method = POST, rq_url = url, rq_bearer = None, rq_body = body\<rparr>) (\<lambda>response.
    if is_error (rs_status response) then err (status_error W (rs_status response)) else ok ()))"

definition check_issuer :: "HostedControlPlane \<Rightarrow> StandardClaims \<Rightarrow> string + unit" where
  "check_issuer P claims = (if claim_iss claims \<noteq> hcp_expected_issuer P
    then Inl ''token issuer is not the configured issuer'' else Inr ())"

text \<open>\<open>Duration::as_secs() as i64\<close>: whole seconds, as a 64-bit integer.\<close>

definition as_secs :: "int \<Rightarrow> int" where
  "as_secs nanos = sint (word_of_int (nanos div 1000000000) :: 64 word)"

definition verify_access_token :: "'w web \<Rightarrow> HostedControlPlane \<Rightarrow> string \<Rightarrow> ('w, string, StandardClaims) op" where
  "verify_access_token W P token =
    (let E = web_crypto W in
    await (lift (result_map_err (\<lambda>_. ''invalid token'') (decode_jwt E (claims_from_json E) token))) (\<lambda>(header, _).
    await (get_from W (jwks_from_json W) (hcp_idp_base_url P) ''.well-known/jwks.json'' []) (\<lambda>keys.
    await (lift (ok_or ''token signing key is not trusted'' (List.find (\<lambda>jwk. jk_kid jwk = hdr_kid header) keys))) (\<lambda>jwk.
    await (lift (result_map_err (\<lambda>_. ''invalid token'') (verify_jwt E (claims_from_json E) jwk token))) (\<lambda>(_, claims).
    await (lift (check_issuer P claims)) (\<lambda>_.
    await (effect (system_time W)) (\<lambda>time.
    if time < 0 then err ''system clock is before Unix epoch'' else
    let now = as_secs time in
    if claim_type claims \<noteq> Bearer \<or> claim_use claims \<noteq> UseAccess \<or> claim_exp claims \<le> now \<or> claim_iat claims > now
       \<or> claim_nbf claims > now \<or> claim_sub claims = [] \<or> claim_aud claims = [] \<or> ''storage'' \<notin> set (claim_scope claims)
    then err ''invalid storage access token'' else ok claims)))))))"

definition validate_storage_read_claims :: "StandardClaims \<Rightarrow> string \<Rightarrow> string \<Rightarrow> string + unit" where
  "validate_storage_read_claims claims expected_owner expected_storage_audience =
    (case claim_authorization_details claims of
      Some [Storage detail] \<Rightarrow>
        if expected_owner = [] \<or> claim_sub claims \<noteq> expected_owner \<or> claim_client_id claims = []
           \<or> expected_storage_audience = [] \<or> claim_aud claims \<noteq> expected_storage_audience
           \<or> claim_resource claims \<noteq> Some expected_storage_audience \<or> Read \<notin> set (detail_actions detail)
        then Inl ''storage read authorization required'' else Inr ()
    | _ \<Rightarrow> Inl ''storage read authorization required'')"

datatype ResourceKind = Database | FileSystem

definition lookup_storage_resource :: "'w web \<Rightarrow> HostedControlPlane \<Rightarrow> string \<Rightarrow> uuid \<Rightarrow> ResourceKind \<Rightarrow> string
    \<Rightarrow> ('w, string, uuid) op" where
  "lookup_storage_resource W P read_token expected_application_id kind resource_id =
    await (lift (ok_or ''invalid storage resource ID'' (web_parse_uuid W resource_id))) (\<lambda>i.
    if resource_id \<noteq> web_show_uuid W i then err ''invalid storage resource ID'' else
    let collection = (case kind of Database \<Rightarrow> ''databases'' | FileSystem \<Rightarrow> ''filesystems'') in
    await (get_from W (resource_from_json W) (hcp_storage_base_url P) (collection @ ''/'' @ web_show_uuid W i) read_token) (\<lambda>resource.
    if sd_id resource \<noteq> resource_id then err ''storage resource ID mismatch''
    else if sd_application_id resource \<noteq> expected_application_id then err ''storage application ID mismatch''
    else ok (sd_application_id resource)))"

definition validate_storage_resource :: "'w web \<Rightarrow> HostedControlPlane \<Rightarrow> string \<Rightarrow> string \<Rightarrow> string \<Rightarrow> uuid
    \<Rightarrow> ResourceKind \<Rightarrow> string \<Rightarrow> ('w, string, uuid) op" where
  "validate_storage_resource W P read_token expected_owner expected_storage_audience expected_application_id kind resource_id =
    await (verify_access_token W P read_token) (\<lambda>claims.
    await (lift (validate_storage_read_claims claims expected_owner expected_storage_audience)) (\<lambda>_.
    lookup_storage_resource W P read_token expected_application_id kind resource_id))"

definition lookup_approved_device :: "'w web \<Rightarrow> HostedControlPlane \<Rightarrow> string \<Rightarrow> uuid \<Rightarrow> ('w, string, unit) op" where
  "lookup_approved_device W P read_token device_id =
    await (get_from W (devices_from_json W) (hcp_idp_base_url P) ''devices'' read_token) (\<lambda>devices.
    if list_ex (\<lambda>device. info_id device = device_id \<and> info_state device = Approved) devices then ok ()
    else err ''device is not an approved device of the token subject'')"

definition validate_selection_device :: "'w web \<Rightarrow> HostedControlPlane \<Rightarrow> string \<Rightarrow> string \<Rightarrow> string \<Rightarrow> uuid
    \<Rightarrow> ('w, string, unit) op" where
  "validate_selection_device W P read_token expected_actor_subject expected_storage_audience device_id =
    await (verify_access_token W P read_token) (\<lambda>claims.
    await (lift (validate_storage_read_claims claims expected_actor_subject expected_storage_audience)) (\<lambda>_.
    lookup_approved_device W P read_token device_id))"

definition trusted_devices :: "'w web \<Rightarrow> HostedControlPlane \<Rightarrow> string \<Rightarrow> ('w, string, TrustedDevice list) op" where
  "trusted_devices W P token = get_from W (trusted_from_json W) (hcp_idp_base_url P) ''devices/trusted'' token"

definition revoke_self :: "'w web \<Rightarrow> HostedControlPlane \<Rightarrow> DeviceSelfRevocationRequest \<Rightarrow> ('w, string, unit) op" where
  "revoke_self W P request = post_empty_idp W P ''devices/revoke-self'' (RevocationBody request)"

end
