(* ===== verification/Roles.thy ===== *)
theory Roles
  imports Devices "HOL-Library.Char_ord" "HOL-Library.List_Lexorder" "HOL-Library.Product_Lexorder"
begin

text \<open>
  Roles and permissions (\<open>crates/management-service/src/replica/role_repo.rs\<close> and
  \<open>permission_repo.rs\<close>, \<open>crates/management-service/src/service.rs\<close>): a user holds roles in an
  application, a role holds permissions, and a permission name may end in a wildcard.  Strings
  are ordered by their bytes, as \<open>Ord for str\<close> orders them; identifiers as numbers, which is the
  order of their big-endian bytes.
\<close>

section \<open>Rows\<close>

record Role =
  ro_id :: uuid
  ro_application_id :: uuid
  ro_name :: string
  ro_description :: "string option"
  ro_created_at :: datetime
  ro_updated_at :: datetime

record Permission =
  pm_id :: uuid
  pm_application_id :: uuid
  pm_name :: string
  pm_description :: "string option"
  pm_created_at :: datetime
  pm_updated_at :: datetime

record RoleRow =
  rw_id :: uuid
  rw_application_id :: uuid
  rw_name :: string
  rw_description :: "string option"
  rw_revoked_at :: "int option"
  rw_created_at :: int
  rw_updated_at :: int

record PermissionRow =
  pw_id :: uuid
  pw_application_id :: uuid
  pw_name :: string
  pw_description :: "string option"
  pw_revoked_at :: "int option"
  pw_created_at :: int
  pw_updated_at :: int

record RolePermissionRow =
  rp_id :: uuid
  rp_role_id :: uuid
  rp_permission_id :: uuid
  rp_revoked_at :: "int option"

record UserRoleRow =
  ur_id :: uuid
  ur_user_id :: uuid
  ur_application_id :: uuid
  ur_role_id :: uuid
  ur_revoked_at :: "int option"
  ur_created_at :: int
  ur_updated_at :: int

abbreviation ROLES :: string where
  "ROLES \<equiv> ''roles''"

abbreviation PERMISSIONS :: string where
  "PERMISSIONS \<equiv> ''permissions''"

abbreviation ROLE_PERMISSIONS :: string where
  "ROLE_PERMISSIONS \<equiv> ''role_permissions''"

abbreviation USER_ROLES :: string where
  "USER_ROLES \<equiv> ''application_user_roles''"

definition ROLE_COLUMNS :: "string list" where
  "ROLE_COLUMNS = [''id'', ''application_id'', ''name'', ''description'', ''revoked_at'', ''created_at'', ''updated_at'']"

definition PERMISSION_COLUMNS :: "string list" where
  "PERMISSION_COLUMNS =
    [''id'', ''application_id'', ''name'', ''description'', ''revoked_at'', ''created_at'', ''updated_at'']"

definition ROLE_PERMISSION_COLUMNS :: "string list" where
  "ROLE_PERMISSION_COLUMNS = [''id'', ''role_id'', ''permission_id'', ''revoked_at'']"

definition USER_ROLE_COLUMNS :: "string list" where
  "USER_ROLE_COLUMNS =
    [''id'', ''user_id'', ''application_id'', ''role_id'', ''revoked_at'', ''created_at'', ''updated_at'']"

definition role_from_row :: "'w host \<Rightarrow> row \<Rightarrow> string list \<Rightarrow> from_row_error + RoleRow" where
  "role_from_row H r cs =
    and_then (field H decode_uuid r cs ''id'') (\<lambda>i.
    and_then (field H decode_uuid r cs ''application_id'') (\<lambda>application_id.
    and_then (field H decode_text r cs ''name'') (\<lambda>name.
    and_then (field H decode_opt_text r cs ''description'') (\<lambda>description.
    and_then (field H decode_opt_int r cs ''revoked_at'') (\<lambda>revoked_at.
    and_then (field H decode_int r cs ''created_at'') (\<lambda>created_at.
    and_then (field H decode_int r cs ''updated_at'') (\<lambda>updated_at.
    Inr \<lparr>rw_id = i, rw_application_id = application_id, rw_name = name, rw_description = description,
      rw_revoked_at = revoked_at, rw_created_at = created_at, rw_updated_at = updated_at\<rparr>)))))))"

definition permission_from_row :: "'w host \<Rightarrow> row \<Rightarrow> string list \<Rightarrow> from_row_error + PermissionRow" where
  "permission_from_row H r cs =
    and_then (field H decode_uuid r cs ''id'') (\<lambda>i.
    and_then (field H decode_uuid r cs ''application_id'') (\<lambda>application_id.
    and_then (field H decode_text r cs ''name'') (\<lambda>name.
    and_then (field H decode_opt_text r cs ''description'') (\<lambda>description.
    and_then (field H decode_opt_int r cs ''revoked_at'') (\<lambda>revoked_at.
    and_then (field H decode_int r cs ''created_at'') (\<lambda>created_at.
    and_then (field H decode_int r cs ''updated_at'') (\<lambda>updated_at.
    Inr \<lparr>pw_id = i, pw_application_id = application_id, pw_name = name, pw_description = description,
      pw_revoked_at = revoked_at, pw_created_at = created_at, pw_updated_at = updated_at\<rparr>)))))))"

definition role_permission_from_row :: "'w host \<Rightarrow> row \<Rightarrow> string list \<Rightarrow> from_row_error + RolePermissionRow" where
  "role_permission_from_row H r cs =
    and_then (field H decode_uuid r cs ''id'') (\<lambda>i.
    and_then (field H decode_uuid r cs ''role_id'') (\<lambda>role_id.
    and_then (field H decode_uuid r cs ''permission_id'') (\<lambda>permission_id.
    and_then (field H decode_opt_int r cs ''revoked_at'') (\<lambda>revoked_at.
    Inr \<lparr>rp_id = i, rp_role_id = role_id, rp_permission_id = permission_id, rp_revoked_at = revoked_at\<rparr>))))"

definition user_role_from_row :: "'w host \<Rightarrow> row \<Rightarrow> string list \<Rightarrow> from_row_error + UserRoleRow" where
  "user_role_from_row H r cs =
    and_then (field H decode_uuid r cs ''id'') (\<lambda>i.
    and_then (field H decode_uuid r cs ''user_id'') (\<lambda>user_id.
    and_then (field H decode_uuid r cs ''application_id'') (\<lambda>application_id.
    and_then (field H decode_uuid r cs ''role_id'') (\<lambda>role_id.
    and_then (field H decode_opt_int r cs ''revoked_at'') (\<lambda>revoked_at.
    and_then (field H decode_int r cs ''created_at'') (\<lambda>created_at.
    and_then (field H decode_int r cs ''updated_at'') (\<lambda>updated_at.
    Inr \<lparr>ur_id = i, ur_user_id = user_id, ur_application_id = application_id, ur_role_id = role_id,
      ur_revoked_at = revoked_at, ur_created_at = created_at, ur_updated_at = updated_at\<rparr>)))))))"

definition role_timestamp :: "'w host \<Rightarrow> int \<Rightarrow> ManagementError + datetime" where
  "role_timestamp H n = ok_or (InvalidInput ''invalid timestamp'') (from_timestamp H n)"

definition role_try_from :: "'w host \<Rightarrow> RoleRow \<Rightarrow> ManagementError + Role" where
  "role_try_from H r =
    and_then (role_timestamp H (rw_created_at r)) (\<lambda>created_at.
    and_then (role_timestamp H (rw_updated_at r)) (\<lambda>updated_at.
    Inr \<lparr>ro_id = rw_id r, ro_application_id = rw_application_id r, ro_name = rw_name r,
      ro_description = rw_description r, ro_created_at = created_at, ro_updated_at = updated_at\<rparr>))"

definition permission_try_from :: "'w host \<Rightarrow> PermissionRow \<Rightarrow> ManagementError + Permission" where
  "permission_try_from H r =
    and_then (role_timestamp H (pw_created_at r)) (\<lambda>created_at.
    and_then (role_timestamp H (pw_updated_at r)) (\<lambda>updated_at.
    Inr \<lparr>pm_id = pw_id r, pm_application_id = pw_application_id r, pm_name = pw_name r,
      pm_description = pw_description r, pm_created_at = created_at, pm_updated_at = updated_at\<rparr>))"

definition role_row_from :: "Role \<Rightarrow> RoleRow" where
  "role_row_from r = \<lparr>rw_id = ro_id r, rw_application_id = ro_application_id r, rw_name = ro_name r,
    rw_description = ro_description r, rw_revoked_at = None, rw_created_at = timestamp (ro_created_at r),
    rw_updated_at = timestamp (ro_updated_at r)\<rparr>"

definition role_to_row :: "RoleRow \<Rightarrow> row" where
  "role_to_row r = [Uuid (rw_id r), Uuid (rw_application_id r), Text (rw_name r), or_null Text (rw_description r),
    or_null Integer (rw_revoked_at r), Integer (rw_created_at r), Integer (rw_updated_at r)]"

definition user_role_to_row :: "UserRoleRow \<Rightarrow> row" where
  "user_role_to_row r = [Uuid (ur_id r), Uuid (ur_user_id r), Uuid (ur_application_id r), Uuid (ur_role_id r),
    or_null Integer (ur_revoked_at r), Integer (ur_created_at r), Integer (ur_updated_at r)]"

section \<open>Queries\<close>

definition authz_column :: "string \<Rightarrow> string \<Rightarrow> query_column" where
  "authz_column t name = QueryColumn t name"

definition authz_equals :: "string \<Rightarrow> string \<Rightarrow> Value \<Rightarrow> query_expr" where
  "authz_equals t name v = Equals (QValue (ExprColumn (authz_column t name))) (QValue (ExprValue v))"

definition authz_select :: "string \<Rightarrow> string list \<Rightarrow> query" where
  "authz_select t columns = Select t (map (authz_column t) columns) None"

definition authz_rows :: "'w host \<Rightarrow> (row \<Rightarrow> string list \<Rightarrow> from_row_error + 'a) \<Rightarrow> string \<Rightarrow> string list
    \<Rightarrow> ('w, ManagementError, 'a list) op" where
  "authz_rows H from_row t columns =
    await (map_err db_error (execute H [Query (authz_select t columns)])) (\<lambda>results.
    await (lift (ok_or (InvalidInput ''missing query result'') (pop_result results))) (\<lambda>result.
    lift (result_map_err (row_error H) (rows_as H from_row result))))"

text \<open>The statements the repositories execute; only that they succeed matters.\<close>

definition authz_insert :: "'w host \<Rightarrow> string \<Rightarrow> row \<Rightarrow> ('w, ManagementError, unit) op" where
  "authz_insert H t r = await (map_err db_error (execute H [Query (Insert t r)])) (\<lambda>_. ok ())"

definition authz_delete :: "'w host \<Rightarrow> string \<Rightarrow> uuid \<Rightarrow> ('w, ManagementError, unit) op" where
  "authz_delete H t i =
    await (map_err db_error (execute H [Query (Delete t (Some (authz_equals t ''id'' (Uuid i))))])) (\<lambda>_. ok ())"

definition db_roles :: "'w host \<Rightarrow> ('w, ManagementError, RoleRow list) op" where
  "db_roles H = authz_rows H (role_from_row H) ROLES ROLE_COLUMNS"

definition db_permissions :: "'w host \<Rightarrow> ('w, ManagementError, PermissionRow list) op" where
  "db_permissions H = authz_rows H (permission_from_row H) PERMISSIONS PERMISSION_COLUMNS"

definition db_role_permissions :: "'w host \<Rightarrow> ('w, ManagementError, RolePermissionRow list) op" where
  "db_role_permissions H = authz_rows H (role_permission_from_row H) ROLE_PERMISSIONS ROLE_PERMISSION_COLUMNS"

definition db_user_roles :: "'w host \<Rightarrow> ('w, ManagementError, UserRoleRow list) op" where
  "db_user_roles H = authz_rows H (user_role_from_row H) USER_ROLES USER_ROLE_COLUMNS"

definition ensure_authorization_clear :: "'w host \<Rightarrow> SecurityRow list \<Rightarrow> ('w, ManagementError, unit) op" where
  "ensure_authorization_clear H rows =
    await (map_err db_error (allows_authorization H rows)) (\<lambda>allowed.
    if allowed then ok () else err (InvalidInput ''conflicted authorization state''))"

definition ensure_role_clear :: "'w host \<Rightarrow> uuid \<Rightarrow> ('w, ManagementError, unit) op" where
  "ensure_role_clear H role_id = ensure_authorization_clear H [SecurityRow_new RoleTable role_id]"

definition db_role :: "'w host \<Rightarrow> uuid \<Rightarrow> uuid \<Rightarrow> ('w, ManagementError, Role option) op" where
  "db_role H application_id role_id =
    await (db_roles H) (\<lambda>rows.
    case List.find (\<lambda>role. rw_id role = role_id \<and> rw_application_id role = application_id
      \<and> rw_revoked_at role = None) rows of
      None \<Rightarrow> ok None
    | Some row \<Rightarrow>
      await (lift (role_try_from H row)) (\<lambda>role.
      await (ensure_role_clear H (ro_id role)) (\<lambda>_. ok (Some role))))"

definition active_user_role :: "'w host \<Rightarrow> uuid \<Rightarrow> uuid \<Rightarrow> uuid \<Rightarrow> ('w, ManagementError, UserRoleRow option) op" where
  "active_user_role H application_id user_id role_id =
    await (db_user_roles H) (\<lambda>rows.
    case List.find (\<lambda>user_role. ur_application_id user_role = application_id \<and> ur_user_id user_role = user_id
      \<and> ur_role_id user_role = role_id \<and> ur_revoked_at user_role = None) rows of
      None \<Rightarrow> ok None
    | Some user_role \<Rightarrow>
      await (ensure_authorization_clear H [SecurityRow_new UserRoleTable (ur_id user_role)]) (\<lambda>_. ok (Some user_role)))"

section \<open>The role repository\<close>

definition list_roles :: "'w host \<Rightarrow> uuid \<Rightarrow> 32 word \<Rightarrow> 32 word \<Rightarrow> ('w, ManagementError, Role list) op" where
  "list_roles H application_id offset limit =
    await (db_roles H) (\<lambda>rows.
    await (lift (try_collect (role_try_from H)
      (filter (\<lambda>role. rw_application_id role = application_id \<and> rw_revoked_at role = None) rows))) (\<lambda>roles.
    let roles = take (unat limit) (drop (unat offset) (sort_key ro_name roles)) in
    await (for_each (\<lambda>role. ensure_role_clear H (ro_id role)) roles) (\<lambda>_. ok roles)))"

definition create_role :: "'w host \<Rightarrow> uuid \<Rightarrow> string \<Rightarrow> string option \<Rightarrow> ('w, ManagementError, Role) op" where
  "create_role H application_id name description =
    await (device_now H) (\<lambda>now.
    await (effect (now_v7 H)) (\<lambda>i.
    let role = \<lparr>ro_id = i, ro_application_id = application_id, ro_name = name, ro_description = description,
          ro_created_at = now, ro_updated_at = now\<rparr> in
    await (authz_insert H ROLES (role_to_row (role_row_from role))) (\<lambda>_. ok role)))"

definition delete_role_by_id :: "'w host \<Rightarrow> uuid \<Rightarrow> uuid \<Rightarrow> ('w, ManagementError, unit) op" where
  "delete_role_by_id H application_id role_id =
    await (db_role H application_id role_id) (\<lambda>found.
    await (lift (ok_or (InvalidInput ''role not found'') found)) (\<lambda>role.
    await (db_role_permissions H) (\<lambda>role_permissions.
    await (db_user_roles H) (\<lambda>user_roles.
    let relationships =
      map (\<lambda>rp. SecurityRow_new RolePermissionTable (rp_id rp))
        (filter (\<lambda>rp. rp_role_id rp = ro_id role \<and> rp_revoked_at rp = None) role_permissions)
      @ map (\<lambda>ur. SecurityRow_new UserRoleTable (ur_id ur))
        (filter (\<lambda>ur. ur_role_id ur = ro_id role \<and> ur_revoked_at ur = None) user_roles) in
    await (ensure_authorization_clear H relationships) (\<lambda>_.
    authz_delete H ROLES (ro_id role))))))"

definition add_role_to_user :: "'w host \<Rightarrow> uuid \<Rightarrow> uuid \<Rightarrow> uuid \<Rightarrow> ('w, ManagementError, unit) op" where
  "add_role_to_user H application_id user_id role_id =
    await (db_role H application_id role_id) (\<lambda>found.
    await (lift (ok_or (InvalidInput ''role not found'') found)) (\<lambda>_.
    await (active_user_role H application_id user_id role_id) (\<lambda>active.
    if active \<noteq> None then ok () else
    await (device_now H) (\<lambda>now.
    await (effect (now_v7 H)) (\<lambda>i.
    authz_insert H USER_ROLES (user_role_to_row \<lparr>ur_id = i, ur_user_id = user_id,
      ur_application_id = application_id, ur_role_id = role_id, ur_revoked_at = None,
      ur_created_at = timestamp now, ur_updated_at = timestamp now\<rparr>))))))"

definition remove_role_from_user :: "'w host \<Rightarrow> uuid \<Rightarrow> uuid \<Rightarrow> uuid \<Rightarrow> ('w, ManagementError, unit) op" where
  "remove_role_from_user H application_id user_id role_id =
    await (db_role H application_id role_id) (\<lambda>found.
    await (lift (ok_or (InvalidInput ''role not found'') found)) (\<lambda>_.
    await (active_user_role H application_id user_id role_id) (\<lambda>active.
    await (lift (ok_or (InvalidInput ''user role not found'') active)) (\<lambda>user_role.
    authz_delete H USER_ROLES (ur_id user_role)))))"

definition ensure_user_roles_clear :: "'w host \<Rightarrow> UserRoleRow list \<Rightarrow> ('w, ManagementError, unit) op" where
  "ensure_user_roles_clear H =
    for_each (\<lambda>user_role. ensure_authorization_clear H [SecurityRow_new UserRoleTable (ur_id user_role)])"

definition list_user_roles :: "'w host \<Rightarrow> uuid \<Rightarrow> uuid \<Rightarrow> ('w, ManagementError, Role list) op" where
  "list_user_roles H application_id user_id =
    await (db_user_roles H) (\<lambda>rows.
    let user_roles = filter (\<lambda>user_role. ur_application_id user_role = application_id
      \<and> ur_user_id user_role = user_id \<and> ur_revoked_at user_role = None) rows in
    await (ensure_user_roles_clear H user_roles) (\<lambda>_.
    await (fold_op (\<lambda>roles user_role.
      await (db_role H application_id (ur_role_id user_role)) (\<lambda>role.
      ok (case role of None \<Rightarrow> roles | Some r \<Rightarrow> roles @ [r]))) [] user_roles) (\<lambda>roles.
    ok (sort_key ro_name roles))))"

definition list_user_roles_across_applications :: "'w host \<Rightarrow> uuid \<Rightarrow> ('w, ManagementError, Role list) op" where
  "list_user_roles_across_applications H user_id =
    await (db_user_roles H) (\<lambda>rows.
    let user_roles = filter (\<lambda>user_role. ur_user_id user_role = user_id \<and> ur_revoked_at user_role = None) rows in
    await (ensure_user_roles_clear H user_roles) (\<lambda>_.
    await (fold_op (\<lambda>roles user_role.
      await (db_role H (ur_application_id user_role) (ur_role_id user_role)) (\<lambda>role.
      ok (case role of None \<Rightarrow> roles | Some r \<Rightarrow> roles @ [r]))) [] user_roles) (\<lambda>roles.
    ok (sort_key (\<lambda>role. (ro_application_id role, ro_name role)) roles))))"

definition list_user_permissions :: "'w host \<Rightarrow> uuid \<Rightarrow> uuid \<Rightarrow> ('w, ManagementError, Permission list) op" where
  "list_user_permissions H application_id user_id =
    await (list_user_roles H application_id user_id) (\<lambda>roles.
    await (db_role_permissions H) (\<lambda>rows.
    let role_permissions = filter (\<lambda>row. rp_role_id row \<in> set (map ro_id roles) \<and> rp_revoked_at row = None) rows in
    await (for_each (\<lambda>row. ensure_authorization_clear H [SecurityRow_new RolePermissionTable (rp_id row)])
      role_permissions) (\<lambda>_.
    await (db_permissions H) (\<lambda>permission_rows.
    await (lift (try_collect (permission_try_from H)
      (filter (\<lambda>permission. pw_application_id permission = application_id
        \<and> pw_id permission \<in> set (map rp_permission_id role_permissions) \<and> pw_revoked_at permission = None)
        permission_rows))) (\<lambda>permissions.
    let permissions = sort_key pm_name permissions in
    await (for_each (\<lambda>permission. ensure_authorization_clear H [SecurityRow_new PermissionTable (pm_id permission)])
      permissions) (\<lambda>_.
    ok permissions))))))"

text \<open>\<open>str::strip_suffix\<close> with a character.\<close>

definition strip_suffix :: "char \<Rightarrow> string \<Rightarrow> string option" where
  "strip_suffix c s = (if s \<noteq> [] \<and> last s = c then Some (butlast s) else None)"

definition permission_matches :: "string \<Rightarrow> string \<Rightarrow> bool" where
  "permission_matches granted required =
    (if granted = ''*'' \<or> granted = required then True else
     case strip_suffix (CHR ''*'') granted of None \<Rightarrow> False
     | Some stem \<Rightarrow>
       if prefix stem required then True
       else (case strip_suffix (CHR '':'') stem of None \<Rightarrow> False | Some p \<Rightarrow> prefix (p @ ''.'') required)
         \<or> (case strip_suffix (CHR ''.'') stem of None \<Rightarrow> False | Some p \<Rightarrow> prefix (p @ '':'') required))"

definition has_user_application_permission :: "'w host \<Rightarrow> uuid \<Rightarrow> uuid \<Rightarrow> string \<Rightarrow> ('w, ManagementError, bool) op" where
  "has_user_application_permission H user_id application_id permission_name =
    await (list_user_permissions H application_id user_id) (\<lambda>permissions.
    ok (list_ex (\<lambda>permission. permission_matches (pm_name permission) permission_name) permissions))"

section \<open>The permission repository\<close>

text \<open>It decodes the roles' three columns it needs, writes relations with their times, and has its own texts of
  errors.\<close>

record RoleKeyRow =
  rk_id :: uuid
  rk_application_id :: uuid
  rk_revoked_at :: "int option"

definition ROLE_KEY_COLUMNS :: "string list" where
  "ROLE_KEY_COLUMNS = [''id'', ''application_id'', ''revoked_at'']"

definition role_key_from_row :: "'w host \<Rightarrow> row \<Rightarrow> string list \<Rightarrow> from_row_error + RoleKeyRow" where
  "role_key_from_row H r cs =
    and_then (field H decode_uuid r cs ''id'') (\<lambda>i.
    and_then (field H decode_uuid r cs ''application_id'') (\<lambda>application_id.
    and_then (field H decode_opt_int r cs ''revoked_at'') (\<lambda>revoked_at.
    Inr \<lparr>rk_id = i, rk_application_id = application_id, rk_revoked_at = revoked_at\<rparr>)))"

definition permission_timestamp :: "'w host \<Rightarrow> int \<Rightarrow> ManagementError + datetime" where
  "permission_timestamp H n = ok_or (InvalidInput ''invalid permission timestamp'') (from_timestamp H n)"

definition stored_permission_try_from :: "'w host \<Rightarrow> PermissionRow \<Rightarrow> ManagementError + Permission" where
  "stored_permission_try_from H r =
    and_then (permission_timestamp H (pw_created_at r)) (\<lambda>created_at.
    and_then (permission_timestamp H (pw_updated_at r)) (\<lambda>updated_at.
    Inr \<lparr>pm_id = pw_id r, pm_application_id = pw_application_id r, pm_name = pw_name r,
      pm_description = pw_description r, pm_created_at = created_at, pm_updated_at = updated_at\<rparr>))"

definition permission_row_from :: "Permission \<Rightarrow> PermissionRow" where
  "permission_row_from p = \<lparr>pw_id = pm_id p, pw_application_id = pm_application_id p, pw_name = pm_name p,
    pw_description = pm_description p, pw_revoked_at = None, pw_created_at = timestamp (pm_created_at p),
    pw_updated_at = timestamp (pm_updated_at p)\<rparr>"

definition permission_to_row :: "PermissionRow \<Rightarrow> row" where
  "permission_to_row r = [Uuid (pw_id r), Uuid (pw_application_id r), Text (pw_name r),
    or_null Text (pw_description r), Null, Integer (pw_created_at r), Integer (pw_updated_at r)]"

definition role_permission_to_row :: "RolePermissionRow \<Rightarrow> int \<Rightarrow> row" where
  "role_permission_to_row r now = [Uuid (rp_id r), Uuid (rp_role_id r), Uuid (rp_permission_id r), Null,
    Integer now, Integer now]"

definition ensure_permission_clear :: "'w host \<Rightarrow> SecurityRow list \<Rightarrow> ('w, ManagementError, unit) op" where
  "ensure_permission_clear H rows =
    await (map_err db_error (allows_authorization H rows)) (\<lambda>allowed.
    if allowed then ok () else err (InvalidInput ''conflicted permission state''))"

definition db_permission :: "'w host \<Rightarrow> uuid \<Rightarrow> uuid \<Rightarrow> ('w, ManagementError, Permission option) op" where
  "db_permission H application_id permission_id =
    await (db_permissions H) (\<lambda>rows.
    case List.find (\<lambda>row. pw_id row = permission_id \<and> pw_application_id row = application_id
      \<and> pw_revoked_at row = None) rows of
      None \<Rightarrow> ok None
    | Some row \<Rightarrow>
      await (lift (stored_permission_try_from H row)) (\<lambda>permission.
      await (ensure_permission_clear H [SecurityRow_new PermissionTable (pm_id permission)]) (\<lambda>_.
      ok (Some permission))))"

definition db_role_key :: "'w host \<Rightarrow> uuid \<Rightarrow> uuid \<Rightarrow> ('w, ManagementError, RoleKeyRow option) op" where
  "db_role_key H application_id role_id =
    await (authz_rows H (role_key_from_row H) ROLES ROLE_KEY_COLUMNS) (\<lambda>rows.
    case List.find (\<lambda>row. rk_id row = role_id \<and> rk_application_id row = application_id
      \<and> rk_revoked_at row = None) rows of
      None \<Rightarrow> ok None
    | Some role \<Rightarrow>
      await (ensure_permission_clear H [SecurityRow_new RoleTable (rk_id role)]) (\<lambda>_. ok (Some role)))"

definition db_role_permission :: "'w host \<Rightarrow> uuid \<Rightarrow> uuid \<Rightarrow> ('w, ManagementError, RolePermissionRow option) op" where
  "db_role_permission H role_id permission_id =
    await (db_role_permissions H) (\<lambda>rows.
    case List.find (\<lambda>row. rp_role_id row = role_id \<and> rp_permission_id row = permission_id
      \<and> rp_revoked_at row = None) rows of
      None \<Rightarrow> ok None
    | Some relation \<Rightarrow>
      await (ensure_permission_clear H [SecurityRow_new RolePermissionTable (rp_id relation)]) (\<lambda>_.
      ok (Some relation)))"

definition list_permissions :: "'w host \<Rightarrow> uuid \<Rightarrow> 32 word \<Rightarrow> 32 word \<Rightarrow> ('w, ManagementError, Permission list) op" where
  "list_permissions H application_id offset limit =
    await (db_permissions H) (\<lambda>rows.
    await (lift (try_collect (stored_permission_try_from H)
      (filter (\<lambda>row. pw_application_id row = application_id \<and> pw_revoked_at row = None) rows))) (\<lambda>permissions.
    await (for_each (\<lambda>permission. ensure_permission_clear H [SecurityRow_new PermissionTable (pm_id permission)])
      permissions) (\<lambda>_.
    ok (take (unat limit) (drop (unat offset) permissions)))))"

definition create_permission :: "'w host \<Rightarrow> uuid \<Rightarrow> string \<Rightarrow> string option \<Rightarrow> ('w, ManagementError, Permission) op" where
  "create_permission H application_id name description =
    await (device_now H) (\<lambda>now.
    await (effect (now_v7 H)) (\<lambda>i.
    let permission = \<lparr>pm_id = i, pm_application_id = application_id, pm_name = name, pm_description = description,
          pm_created_at = now, pm_updated_at = now\<rparr> in
    await (authz_insert H PERMISSIONS (permission_to_row (permission_row_from permission))) (\<lambda>_.
    await (ensure_permission_clear H [SecurityRow_new PermissionTable i]) (\<lambda>_. ok permission))))"

definition delete_permission_by_id :: "'w host \<Rightarrow> uuid \<Rightarrow> uuid \<Rightarrow> ('w, ManagementError, unit) op" where
  "delete_permission_by_id H application_id permission_id =
    await (db_permission H application_id permission_id) (\<lambda>found.
    await (lift (ok_or (InvalidInput ''permission not found'') found)) (\<lambda>_.
    authz_delete H PERMISSIONS permission_id))"

definition add_permission_to_role :: "'w host \<Rightarrow> uuid \<Rightarrow> uuid \<Rightarrow> uuid \<Rightarrow> ('w, ManagementError, unit) op" where
  "add_permission_to_role H application_id role_id permission_id =
    await (db_role_key H application_id role_id) (\<lambda>role.
    await (lift (ok_or (InvalidInput ''role not found'') role)) (\<lambda>_.
    await (db_permission H application_id permission_id) (\<lambda>permission.
    await (lift (ok_or (InvalidInput ''permission not found'') permission)) (\<lambda>_.
    await (db_role_permission H role_id permission_id) (\<lambda>relation.
    if relation \<noteq> None then ok () else
    await (device_now H) (\<lambda>now.
    await (effect (now_v7 H)) (\<lambda>i.
    await (authz_insert H ROLE_PERMISSIONS (role_permission_to_row \<lparr>rp_id = i, rp_role_id = role_id,
      rp_permission_id = permission_id, rp_revoked_at = None\<rparr> (timestamp now))) (\<lambda>_.
    ensure_permission_clear H [SecurityRow_new RolePermissionTable i]))))))))"

definition remove_permission_from_role :: "'w host \<Rightarrow> uuid \<Rightarrow> uuid \<Rightarrow> uuid \<Rightarrow> ('w, ManagementError, unit) op" where
  "remove_permission_from_role H application_id role_id permission_id =
    await (db_role_key H application_id role_id) (\<lambda>role.
    await (lift (ok_or (InvalidInput ''role not found'') role)) (\<lambda>_.
    await (db_permission H application_id permission_id) (\<lambda>permission.
    await (lift (ok_or (InvalidInput ''permission not found'') permission)) (\<lambda>_.
    await (db_role_permission H role_id permission_id) (\<lambda>found.
    await (lift (ok_or (InvalidInput ''role permission not found'') found)) (\<lambda>relation.
    authz_delete H ROLE_PERMISSIONS (rp_id relation)))))))"

definition list_role_permissions :: "'w host \<Rightarrow> uuid \<Rightarrow> uuid \<Rightarrow> ('w, ManagementError, Permission list) op" where
  "list_role_permissions H application_id role_id =
    await (db_role_key H application_id role_id) (\<lambda>role.
    await (lift (ok_or (InvalidInput ''role not found'') role)) (\<lambda>_.
    await (db_role_permissions H) (\<lambda>relations.
    await (db_permissions H) (\<lambda>permissions.
    await (fold_op (\<lambda>listed relation.
      await (ensure_permission_clear H [SecurityRow_new RolePermissionTable (rp_id relation)]) (\<lambda>_.
      case List.find (\<lambda>row. pw_id row = rp_permission_id relation \<and> pw_application_id row = application_id)
        permissions of
        None \<Rightarrow> ok listed
      | Some row \<Rightarrow>
        await (lift (stored_permission_try_from H row)) (\<lambda>permission.
        await (ensure_permission_clear H [SecurityRow_new PermissionTable (pm_id permission)]) (\<lambda>_.
        ok (listed @ [permission]))))) [] (filter (\<lambda>row. rp_role_id row = role_id) relations)) (\<lambda>listed.
    ok (sort_key pm_name listed))))))"

end
