(* ===== verification/Management_Server.thy ===== *)
theory Management_Server
  imports Control_Plane Roles Selection
begin

text \<open>
  The management service (\<open>crates/management-service/src/service.rs\<close>) and the routes of the management
  server (\<open>crates/management-server/src/router\<close>): the middleware that turns a bearer token into an actor,
  the permission check of every route, and the handlers of roles, permissions, users, device selections
  and replication.  The extractors of the web framework are external: a handler takes the path, the
  query, the body and the authorization header (absent, not text, or text) as arguments.
\<close>

section \<open>The service\<close>

record 'w RoleRepo =
  rr_list_roles :: "uuid \<Rightarrow> 32 word \<Rightarrow> 32 word \<Rightarrow> ('w, ManagementError, Role list) op"
  rr_create_role :: "uuid \<Rightarrow> string \<Rightarrow> string option \<Rightarrow> ('w, ManagementError, Role) op"
  rr_find_role_by_id :: "uuid \<Rightarrow> uuid \<Rightarrow> ('w, ManagementError, Role option) op"
  rr_delete_role_by_id :: "uuid \<Rightarrow> uuid \<Rightarrow> ('w, ManagementError, unit) op"
  rr_add_role_to_user :: "uuid \<Rightarrow> uuid \<Rightarrow> uuid \<Rightarrow> ('w, ManagementError, unit) op"
  rr_remove_role_from_user :: "uuid \<Rightarrow> uuid \<Rightarrow> uuid \<Rightarrow> ('w, ManagementError, unit) op"
  rr_list_user_roles :: "uuid \<Rightarrow> uuid \<Rightarrow> ('w, ManagementError, Role list) op"
  rr_list_user_roles_across_applications :: "uuid \<Rightarrow> ('w, ManagementError, Role list) op"
  rr_list_user_permissions :: "uuid \<Rightarrow> uuid \<Rightarrow> ('w, ManagementError, Permission list) op"
  rr_has_user_application_permission :: "uuid \<Rightarrow> uuid \<Rightarrow> string \<Rightarrow> ('w, ManagementError, bool) op"

record 'w PermissionRepo =
  pr_list_permissions :: "uuid \<Rightarrow> 32 word \<Rightarrow> 32 word \<Rightarrow> ('w, ManagementError, Permission list) op"
  pr_create_permission :: "uuid \<Rightarrow> string \<Rightarrow> string option \<Rightarrow> ('w, ManagementError, Permission) op"
  pr_find_permission_by_id :: "uuid \<Rightarrow> uuid \<Rightarrow> ('w, ManagementError, Permission option) op"
  pr_delete_permission_by_id :: "uuid \<Rightarrow> uuid \<Rightarrow> ('w, ManagementError, unit) op"
  pr_add_permission_to_role :: "uuid \<Rightarrow> uuid \<Rightarrow> uuid \<Rightarrow> ('w, ManagementError, unit) op"
  pr_remove_permission_from_role :: "uuid \<Rightarrow> uuid \<Rightarrow> uuid \<Rightarrow> ('w, ManagementError, unit) op"
  pr_list_role_permissions :: "uuid \<Rightarrow> uuid \<Rightarrow> ('w, ManagementError, Permission list) op"

definition DbRoleRepo :: "'w host \<Rightarrow> 'w RoleRepo" where
  "DbRoleRepo H = \<lparr>rr_list_roles = list_roles H, rr_create_role = create_role H, rr_find_role_by_id = db_role H,
    rr_delete_role_by_id = delete_role_by_id H, rr_add_role_to_user = add_role_to_user H,
    rr_remove_role_from_user = remove_role_from_user H, rr_list_user_roles = list_user_roles H,
    rr_list_user_roles_across_applications = list_user_roles_across_applications H,
    rr_list_user_permissions = list_user_permissions H,
    rr_has_user_application_permission = has_user_application_permission H\<rparr>"

definition DbPermissionRepo :: "'w host \<Rightarrow> 'w PermissionRepo" where
  "DbPermissionRepo H = \<lparr>pr_list_permissions = list_permissions H, pr_create_permission = create_permission H,
    pr_find_permission_by_id = db_permission H, pr_delete_permission_by_id = delete_permission_by_id H,
    pr_add_permission_to_role = add_permission_to_role H, pr_remove_permission_from_role = remove_permission_from_role H,
    pr_list_role_permissions = list_role_permissions H\<rparr>"

record 'w ManagementService =
  ms_permission_repo :: "'w PermissionRepo"
  ms_role_repo :: "'w RoleRepo"

definition MANAGEMENT_APPLICATION_URI :: string where
  "MANAGEMENT_APPLICATION_URI = ''idp-management''"

definition ms_has_user_application_permission :: "'w ManagementService \<Rightarrow> uuid \<Rightarrow> uuid \<Rightarrow> string \<Rightarrow> ('w, ManagementError, bool) op" where
  "ms_has_user_application_permission M = rr_has_user_application_permission (ms_role_repo M)"

definition ms_list_roles :: "'w ManagementService \<Rightarrow> uuid \<Rightarrow> 32 word \<Rightarrow> 32 word \<Rightarrow> ('w, ManagementError, Role list) op" where
  "ms_list_roles M = rr_list_roles (ms_role_repo M)"

definition ms_create_role :: "'w ManagementService \<Rightarrow> uuid \<Rightarrow> string \<Rightarrow> string option \<Rightarrow> ('w, ManagementError, Role) op" where
  "ms_create_role M = rr_create_role (ms_role_repo M)"

definition ms_find_role_by_id :: "'w ManagementService \<Rightarrow> uuid \<Rightarrow> uuid \<Rightarrow> ('w, ManagementError, Role option) op" where
  "ms_find_role_by_id M = rr_find_role_by_id (ms_role_repo M)"

definition ms_delete_role_by_id :: "'w ManagementService \<Rightarrow> uuid \<Rightarrow> uuid \<Rightarrow> ('w, ManagementError, unit) op" where
  "ms_delete_role_by_id M = rr_delete_role_by_id (ms_role_repo M)"

definition ms_add_role_to_user :: "'w ManagementService \<Rightarrow> uuid \<Rightarrow> uuid \<Rightarrow> uuid \<Rightarrow> ('w, ManagementError, unit) op" where
  "ms_add_role_to_user M = rr_add_role_to_user (ms_role_repo M)"

definition ms_remove_role_from_user :: "'w ManagementService \<Rightarrow> uuid \<Rightarrow> uuid \<Rightarrow> uuid \<Rightarrow> ('w, ManagementError, unit) op" where
  "ms_remove_role_from_user M = rr_remove_role_from_user (ms_role_repo M)"

definition ms_list_user_roles :: "'w ManagementService \<Rightarrow> uuid \<Rightarrow> uuid \<Rightarrow> ('w, ManagementError, Role list) op" where
  "ms_list_user_roles M = rr_list_user_roles (ms_role_repo M)"

definition ms_list_user_roles_across_applications :: "'w ManagementService \<Rightarrow> uuid \<Rightarrow> ('w, ManagementError, Role list) op" where
  "ms_list_user_roles_across_applications M = rr_list_user_roles_across_applications (ms_role_repo M)"

definition ms_list_permissions :: "'w ManagementService \<Rightarrow> uuid \<Rightarrow> 32 word \<Rightarrow> 32 word \<Rightarrow> ('w, ManagementError, Permission list) op" where
  "ms_list_permissions M = pr_list_permissions (ms_permission_repo M)"

definition ms_create_permission :: "'w ManagementService \<Rightarrow> uuid \<Rightarrow> string \<Rightarrow> string option \<Rightarrow> ('w, ManagementError, Permission) op" where
  "ms_create_permission M = pr_create_permission (ms_permission_repo M)"

definition ms_find_permission_by_id :: "'w ManagementService \<Rightarrow> uuid \<Rightarrow> uuid \<Rightarrow> ('w, ManagementError, Permission option) op" where
  "ms_find_permission_by_id M = pr_find_permission_by_id (ms_permission_repo M)"

definition ms_delete_permission_by_id :: "'w ManagementService \<Rightarrow> uuid \<Rightarrow> uuid \<Rightarrow> ('w, ManagementError, unit) op" where
  "ms_delete_permission_by_id M = pr_delete_permission_by_id (ms_permission_repo M)"

definition ms_list_role_permissions :: "'w ManagementService \<Rightarrow> uuid \<Rightarrow> uuid \<Rightarrow> ('w, ManagementError, Permission list) op" where
  "ms_list_role_permissions M = pr_list_role_permissions (ms_permission_repo M)"

definition ms_add_permission_to_role :: "'w ManagementService \<Rightarrow> uuid \<Rightarrow> uuid \<Rightarrow> uuid \<Rightarrow> ('w, ManagementError, unit) op" where
  "ms_add_permission_to_role M = pr_add_permission_to_role (ms_permission_repo M)"

definition ms_remove_permission_from_role :: "'w ManagementService \<Rightarrow> uuid \<Rightarrow> uuid \<Rightarrow> uuid \<Rightarrow> ('w, ManagementError, unit) op" where
  "ms_remove_permission_from_role M = pr_remove_permission_from_role (ms_permission_repo M)"

section \<open>Actors\<close>

record 'w RouterState =
  rt_host :: "'w host"
  rt_web :: "'w web"
  rt_management_service :: "'w ManagementService"
  rt_control_plane :: HostedControlPlane
  rt_storage_audience :: string

text \<open>Both the service and the selection policies are over the engine of the process.\<close>

definition native_router :: "'w host \<Rightarrow> 'w web \<Rightarrow> HostedControlPlane \<Rightarrow> string \<Rightarrow> 'w RouterState" where
  "native_router H W control_plane storage_audience = \<lparr>rt_host = H, rt_web = W,
    rt_management_service = \<lparr>ms_permission_repo = DbPermissionRepo H, ms_role_repo = DbRoleRepo H\<rparr>,
    rt_control_plane = control_plane, rt_storage_audience = storage_audience\<rparr>"

type_synonym header_value = "(string + string) option"

record ManagementAuthorization =
  au_subject :: uuid
  au_application_id :: uuid

definition AUTHORIZATION_BEARER_PREFIX :: string where
  "AUTHORIZATION_BEARER_PREFIX = ''Bearer ''"

definition authorization_from_header :: "string + string \<Rightarrow> ErrorResponse + string" where
  "authorization_from_header v = (case v of
      Inl _ \<Rightarrow> Inl (described NotAuthorized ''invalid authorization header cannot be parsed as string'')
    | Inr s \<Rightarrow>
      if length s < length AUTHORIZATION_BEARER_PREFIX then Inl (described NotAuthorized ''authorization header is too short'')
      else if \<not> prefix AUTHORIZATION_BEARER_PREFIX s
      then Inl (described NotAuthorized (''authorization header does not start with '' @ [CHR 0x27] @ ''Bearer '' @ [CHR 0x27]))
      else Inr (drop (length AUTHORIZATION_BEARER_PREFIX) s))"

definition management_audience :: "StandardClaims \<Rightarrow> bool" where
  "management_audience claims = (claim_principal_type claims = PrincipalUser \<and> claim_aud claims = MANAGEMENT_APPLICATION_URI)"

definition actor_rejected :: "string \<Rightarrow> ErrorResponse" where
  "actor_rejected e = ErrorResponse_new (if e = ''actor token was rejected by IdP'' then NotAuthorized else TemporarilyUnavailable)"

definition from_request_parts :: "'w RouterState \<Rightarrow> header_value \<Rightarrow> ('w, ErrorResponse, ManagementAuthorization) op" where
  "from_request_parts R header = (case header of
      None \<Rightarrow> err (described NotAuthorized ''missing authorization header'')
    | Some v \<Rightarrow>
      await (lift (authorization_from_header v)) (\<lambda>token.
      await (map_err actor_rejected (validate_actor_token (rt_web R) (rt_control_plane R) token)) (\<lambda>(claims, application_id).
      if \<not> management_audience claims then err (ErrorResponse_new NotAuthorized) else
      await (lift (ok_or (ErrorResponse_new NotAuthorized) (web_parse_uuid (rt_web R) (claim_sub claims)))) (\<lambda>subject.
      ok \<lparr>au_subject = subject, au_application_id = application_id\<rparr>))))"

definition require_application_permission :: "'w ManagementService \<Rightarrow> ManagementAuthorization \<Rightarrow> string
    \<Rightarrow> ('w, ErrorResponse, unit) op" where
  "require_application_permission M authorization permission =
    await (map_err ErrorResponse_from (ms_has_user_application_permission M (au_subject authorization)
      (au_application_id authorization) permission)) (\<lambda>has_permission.
    if has_permission then ok () else err (described AccessDenied ''missing required application permission''))"

section \<open>Roles\<close>

record RoleResponse =
  rsp_id :: uuid
  rsp_application_id :: uuid
  rsp_name :: string
  rsp_description :: "string option"
  rsp_created_at :: int
  rsp_updated_at :: int

definition RoleResponse_from :: "Role \<Rightarrow> RoleResponse" where
  "RoleResponse_from r = \<lparr>rsp_id = ro_id r, rsp_application_id = ro_application_id r, rsp_name = ro_name r,
    rsp_description = ro_description r, rsp_created_at = timestamp (ro_created_at r), rsp_updated_at = timestamp (ro_updated_at r)\<rparr>"

definition normalize_limit :: "32 word \<Rightarrow> 32 word" where
  "normalize_limit limit = min (max limit 1) 100"

definition ROLES_READ_PERMISSION :: string where
  "ROLES_READ_PERMISSION = ''roles.read''"

definition ROLES_WRITE_PERMISSION :: string where
  "ROLES_WRITE_PERMISSION = ''roles.write''"

definition route_list_roles :: "'w RouterState \<Rightarrow> ManagementAuthorization \<Rightarrow> uuid \<Rightarrow> 32 word \<Rightarrow> 32 word
    \<Rightarrow> ('w, ErrorResponse, RoleResponse list) op" where
  "route_list_roles R authorization application_id offset limit =
    await (require_application_permission (rt_management_service R) authorization ROLES_READ_PERMISSION) (\<lambda>_.
    await (map_err ErrorResponse_from (ms_list_roles (rt_management_service R) application_id offset (normalize_limit limit))) (\<lambda>roles.
    ok (map RoleResponse_from roles)))"

definition route_create_role :: "'w RouterState \<Rightarrow> ManagementAuthorization \<Rightarrow> uuid \<Rightarrow> string \<Rightarrow> string option
    \<Rightarrow> ('w, ErrorResponse, RoleResponse) op" where
  "route_create_role R authorization application_id name description =
    await (require_application_permission (rt_management_service R) authorization ROLES_WRITE_PERMISSION) (\<lambda>_.
    await (map_err ErrorResponse_from (ms_create_role (rt_management_service R) application_id name description)) (\<lambda>role.
    ok (RoleResponse_from role)))"

definition require_role :: "'w RouterState \<Rightarrow> uuid \<Rightarrow> uuid \<Rightarrow> ('w, ErrorResponse, unit) op" where
  "require_role R application_id role_id =
    await (map_err ErrorResponse_from (ms_find_role_by_id (rt_management_service R) application_id role_id)) (\<lambda>role.
    if role = None then err (described NotFound ''Role not found'') else ok ())"

definition route_delete_role :: "'w RouterState \<Rightarrow> ManagementAuthorization \<Rightarrow> uuid \<Rightarrow> uuid \<Rightarrow> ('w, ErrorResponse, unit) op" where
  "route_delete_role R authorization application_id role_id =
    await (require_application_permission (rt_management_service R) authorization ROLES_WRITE_PERMISSION) (\<lambda>_.
    await (require_role R application_id role_id) (\<lambda>_.
    map_err ErrorResponse_from (ms_delete_role_by_id (rt_management_service R) application_id role_id)))"

definition route_list_user_roles :: "'w RouterState \<Rightarrow> ManagementAuthorization \<Rightarrow> uuid \<Rightarrow> uuid
    \<Rightarrow> ('w, ErrorResponse, RoleResponse list) op" where
  "route_list_user_roles R authorization application_id user_id =
    await (require_application_permission (rt_management_service R) authorization ROLES_READ_PERMISSION) (\<lambda>_.
    await (map_err ErrorResponse_from (ms_list_user_roles (rt_management_service R) application_id user_id)) (\<lambda>roles.
    ok (map RoleResponse_from roles)))"

definition route_assign_role_to_user :: "'w RouterState \<Rightarrow> ManagementAuthorization \<Rightarrow> uuid \<Rightarrow> uuid \<Rightarrow> uuid
    \<Rightarrow> ('w, ErrorResponse, unit) op" where
  "route_assign_role_to_user R authorization application_id user_id role_id =
    await (require_application_permission (rt_management_service R) authorization ROLES_WRITE_PERMISSION) (\<lambda>_.
    await (require_role R application_id role_id) (\<lambda>_.
    map_err ErrorResponse_from (ms_add_role_to_user (rt_management_service R) application_id user_id role_id)))"

definition route_revoke_role_from_user :: "'w RouterState \<Rightarrow> ManagementAuthorization \<Rightarrow> uuid \<Rightarrow> uuid \<Rightarrow> uuid
    \<Rightarrow> ('w, ErrorResponse, unit) op" where
  "route_revoke_role_from_user R authorization application_id user_id role_id =
    await (require_application_permission (rt_management_service R) authorization ROLES_WRITE_PERMISSION) (\<lambda>_.
    map_err ErrorResponse_from (ms_remove_role_from_user (rt_management_service R) application_id user_id role_id))"

section \<open>Permissions and users\<close>

record PermissionResponse =
  psp_id :: uuid
  psp_application_id :: uuid
  psp_name :: string
  psp_description :: "string option"
  psp_created_at :: int
  psp_updated_at :: int

definition PermissionResponse_from :: "Permission \<Rightarrow> PermissionResponse" where
  "PermissionResponse_from p = \<lparr>psp_id = pm_id p, psp_application_id = pm_application_id p, psp_name = pm_name p,
    psp_description = pm_description p, psp_created_at = timestamp (pm_created_at p), psp_updated_at = timestamp (pm_updated_at p)\<rparr>"

definition PERMISSIONS_READ_PERMISSION :: string where
  "PERMISSIONS_READ_PERMISSION = ''permissions.read''"

definition PERMISSIONS_WRITE_PERMISSION :: string where
  "PERMISSIONS_WRITE_PERMISSION = ''permissions.write''"

definition require_permission :: "'w RouterState \<Rightarrow> uuid \<Rightarrow> uuid \<Rightarrow> ('w, ErrorResponse, unit) op" where
  "require_permission R application_id permission_id =
    await (map_err ErrorResponse_from (ms_find_permission_by_id (rt_management_service R) application_id permission_id)) (\<lambda>permission.
    if permission = None then err (described NotFound ''Permission not found'') else ok ())"

definition route_list_permissions :: "'w RouterState \<Rightarrow> ManagementAuthorization \<Rightarrow> uuid \<Rightarrow> 32 word \<Rightarrow> 32 word
    \<Rightarrow> ('w, ErrorResponse, PermissionResponse list) op" where
  "route_list_permissions R authorization application_id offset limit =
    await (require_application_permission (rt_management_service R) authorization PERMISSIONS_READ_PERMISSION) (\<lambda>_.
    await (map_err ErrorResponse_from (ms_list_permissions (rt_management_service R) application_id offset (normalize_limit limit))) (\<lambda>permissions.
    ok (map PermissionResponse_from permissions)))"

definition route_create_permission :: "'w RouterState \<Rightarrow> ManagementAuthorization \<Rightarrow> uuid \<Rightarrow> string \<Rightarrow> string option
    \<Rightarrow> ('w, ErrorResponse, PermissionResponse) op" where
  "route_create_permission R authorization application_id name description =
    await (require_application_permission (rt_management_service R) authorization PERMISSIONS_WRITE_PERMISSION) (\<lambda>_.
    await (map_err ErrorResponse_from (ms_create_permission (rt_management_service R) application_id name description)) (\<lambda>permission.
    ok (PermissionResponse_from permission)))"

definition route_delete_permission :: "'w RouterState \<Rightarrow> ManagementAuthorization \<Rightarrow> uuid \<Rightarrow> uuid \<Rightarrow> ('w, ErrorResponse, unit) op" where
  "route_delete_permission R authorization application_id permission_id =
    await (require_application_permission (rt_management_service R) authorization PERMISSIONS_WRITE_PERMISSION) (\<lambda>_.
    await (require_permission R application_id permission_id) (\<lambda>_.
    map_err ErrorResponse_from (ms_delete_permission_by_id (rt_management_service R) application_id permission_id)))"

definition route_list_role_permissions :: "'w RouterState \<Rightarrow> ManagementAuthorization \<Rightarrow> uuid \<Rightarrow> uuid
    \<Rightarrow> ('w, ErrorResponse, PermissionResponse list) op" where
  "route_list_role_permissions R authorization application_id role_id =
    await (require_application_permission (rt_management_service R) authorization PERMISSIONS_READ_PERMISSION) (\<lambda>_.
    await (map_err ErrorResponse_from (ms_list_role_permissions (rt_management_service R) application_id role_id)) (\<lambda>permissions.
    ok (map PermissionResponse_from permissions)))"

definition route_assign_permission_to_role :: "'w RouterState \<Rightarrow> ManagementAuthorization \<Rightarrow> uuid \<Rightarrow> uuid \<Rightarrow> uuid
    \<Rightarrow> ('w, ErrorResponse, unit) op" where
  "route_assign_permission_to_role R authorization application_id role_id permission_id =
    await (require_application_permission (rt_management_service R) authorization PERMISSIONS_WRITE_PERMISSION) (\<lambda>_.
    await (require_role R application_id role_id) (\<lambda>_.
    await (require_permission R application_id permission_id) (\<lambda>_.
    map_err ErrorResponse_from (ms_add_permission_to_role (rt_management_service R) application_id role_id permission_id))))"

definition route_revoke_permission_from_role :: "'w RouterState \<Rightarrow> ManagementAuthorization \<Rightarrow> uuid \<Rightarrow> uuid \<Rightarrow> uuid
    \<Rightarrow> ('w, ErrorResponse, unit) op" where
  "route_revoke_permission_from_role R authorization application_id role_id permission_id =
    await (require_application_permission (rt_management_service R) authorization PERMISSIONS_WRITE_PERMISSION) (\<lambda>_.
    map_err ErrorResponse_from (ms_remove_permission_from_role (rt_management_service R) application_id role_id permission_id))"

record UserApplicationRoleResponse =
  uar_role_id :: uuid
  uar_application_id :: uuid
  uar_role_name :: string
  uar_role_description :: "string option"
  uar_created_at :: int
  uar_updated_at :: int

definition UserApplicationRoleResponse_from :: "Role \<Rightarrow> UserApplicationRoleResponse" where
  "UserApplicationRoleResponse_from r = \<lparr>uar_role_id = ro_id r, uar_application_id = ro_application_id r,
    uar_role_name = ro_name r, uar_role_description = ro_description r, uar_created_at = timestamp (ro_created_at r),
    uar_updated_at = timestamp (ro_updated_at r)\<rparr>"

definition USERS_READ_PERMISSION :: string where
  "USERS_READ_PERMISSION = ''users.read''"

definition route_list_user_roles_across_applications :: "'w RouterState \<Rightarrow> ManagementAuthorization \<Rightarrow> uuid
    \<Rightarrow> ('w, ErrorResponse, UserApplicationRoleResponse list) op" where
  "route_list_user_roles_across_applications R authorization user_id =
    await (require_application_permission (rt_management_service R) authorization USERS_READ_PERMISSION) (\<lambda>_.
    await (map_err ErrorResponse_from (ms_list_user_roles_across_applications (rt_management_service R) user_id)) (\<lambda>roles.
    ok (map UserApplicationRoleResponse_from roles)))"

section \<open>Device selections\<close>

datatype SelectionKind = SelectDatabase | SelectFilesystem

fun resource_kind :: "SelectionKind \<Rightarrow> ResourceKind" where
  "resource_kind SelectDatabase = Database"
| "resource_kind SelectFilesystem = FileSystem"

fun policy_kind :: "SelectionKind \<Rightarrow> string" where
  "policy_kind SelectDatabase = ''database''"
| "policy_kind SelectFilesystem = ''filesystem''"

record SelectionRequest =
  sq_application_id :: uuid
  sq_kind :: SelectionKind
  sq_id :: uuid
  sq_storage_access_token :: string

definition SELECTION_PERMISSION :: string where
  "SELECTION_PERMISSION = ''devices.select''"

text \<open>\<open>contains(char::is_whitespace)\<close>: the bytes of a whitespace character start with a byte that starts a character.\<close>

definition contains_whitespace :: "string \<Rightarrow> bool" where
  "contains_whitespace s = list_ex (\<lambda>i. 0 < white_front (drop i s)) [0..<length s]"

definition route_put_device_selection :: "'w RouterState \<Rightarrow> ManagementAuthorization \<Rightarrow> uuid \<Rightarrow> SelectionRequest
    \<Rightarrow> ('w, ErrorResponse, unit) op" where
  "route_put_device_selection R authorization device_id body =
    await (require_application_permission (rt_management_service R) authorization SELECTION_PERMISSION) (\<lambda>_.
    let owner = web_show_uuid (rt_web R) (au_subject authorization) in
    if sq_storage_access_token body = [] \<or> contains_whitespace (trim (sq_storage_access_token body))
    then err (ErrorResponse_new NotAuthorized) else
    await (map_err (\<lambda>_. ErrorResponse_new AccessDenied) (validate_selection_device (rt_web R) (rt_control_plane R)
      (sq_storage_access_token body) owner (rt_storage_audience R) device_id)) (\<lambda>_.
    await (map_err (\<lambda>_. ErrorResponse_new AccessDenied) (validate_storage_resource (rt_web R) (rt_control_plane R)
      (sq_storage_access_token body) owner (rt_storage_audience R) (sq_application_id body)
      (resource_kind (sq_kind body)) (web_show_uuid (rt_web R) (sq_id body)))) (\<lambda>_.
    await (map_err ErrorResponse_from (policy_get (rt_host R) device_id owner (sq_application_id body))) (\<lambda>previous.
    if (case previous of None \<Rightarrow> False | Some policy \<Rightarrow> \<not> sp_admin_allowed policy)
    then err (ErrorResponse_new AccessDenied) else
    map_err ErrorResponse_from (set_prevalidated (rt_host R) \<lparr>sp_device_id = device_id, sp_owner_subject = owner,
      sp_application_id = Some (sq_application_id body), sp_selected_kind = Some (policy_kind (sq_kind body)),
      sp_selected_id = Some (sq_id body),
      sp_admin_allowed = (case previous of None \<Rightarrow> True | Some policy \<Rightarrow> sp_admin_allowed policy)\<rparr>)))))"

definition route_delete_device_selection :: "'w RouterState \<Rightarrow> ManagementAuthorization \<Rightarrow> uuid \<Rightarrow> ('w, ErrorResponse, unit) op" where
  "route_delete_device_selection R authorization device_id =
    await (require_application_permission (rt_management_service R) authorization SELECTION_PERMISSION) (\<lambda>_.
    await (map_err ErrorResponse_from (deselect_owned (rt_host R) device_id
      (web_show_uuid (rt_web R) (au_subject authorization)))) (\<lambda>deselected.
    if \<not> deselected then err (ErrorResponse_new NotFound) else ok ()))"

definition route_delete_device_resource_selection :: "'w RouterState \<Rightarrow> ManagementAuthorization \<Rightarrow> uuid \<Rightarrow> uuid
    \<Rightarrow> SelectionKind \<Rightarrow> uuid \<Rightarrow> ('w, ErrorResponse, unit) op" where
  "route_delete_device_resource_selection R authorization device_id application_id kind resource_id =
    await (require_application_permission (rt_management_service R) authorization SELECTION_PERMISSION) (\<lambda>_.
    await (map_err ErrorResponse_from (deselect_resource_owned (rt_host R) device_id
      (web_show_uuid (rt_web R) (au_subject authorization)) application_id (policy_kind kind) resource_id)) (\<lambda>deselected.
    if \<not> deselected then err (ErrorResponse_new NotFound) else ok ()))"

section \<open>Replication\<close>

record ReplicationAdmissionRequest =
  ra_source_endpoint_id :: string
  ra_target_endpoint_id :: string
  ra_application_id :: string
  ra_kind :: string
  ra_resource_id :: string
  ra_operation :: string

record SelectedResourceInfo =
  sri_owner_subject :: string
  sri_application_id :: string
  sri_kind :: string
  sri_resource_id :: string

definition MANAGEMENT_REPLICATION_READ_SCOPE :: string where
  "MANAGEMENT_REPLICATION_READ_SCOPE = ''management.replication.read''"

definition MANAGEMENT_REPLICATION_ADMIT_SCOPE :: string where
  "MANAGEMENT_REPLICATION_ADMIT_SCOPE = ''management.replication.admit''"

definition denied :: ErrorResponse where
  "denied = ErrorResponse_new AccessDenied"

definition unavailable :: ErrorResponse where
  "unavailable = ErrorResponse_new TemporarilyUnavailable"

definition replication_client_authorized :: "StandardClaims \<Rightarrow> string \<Rightarrow> string \<Rightarrow> bool" where
  "replication_client_authorized claims storage_audience required_scope =
    (claim_principal_type claims = PrincipalClient \<and> claim_aud claims = storage_audience
     \<and> required_scope \<in> set (claim_scope claims))"

definition bearer_token :: "header_value \<Rightarrow> string option" where
  "bearer_token header = (case header of
      Some (Inr s) \<Rightarrow> if prefix ''Bearer '' s \<and> drop 7 s \<noteq> [] then Some (drop 7 s) else None
    | _ \<Rightarrow> None)"

definition authorize_storage :: "'w RouterState \<Rightarrow> header_value \<Rightarrow> string \<Rightarrow> ('w, ErrorResponse, unit) op" where
  "authorize_storage R header required_scope =
    await (lift (ok_or (ErrorResponse_new NotAuthorized) (bearer_token header))) (\<lambda>token.
    await (map_err actor_rejected (validate_actor_token (rt_web R) (rt_control_plane R) token)) (\<lambda>(claims, _).
    if \<not> replication_client_authorized claims (rt_storage_audience R) required_scope then err denied else ok ()))"

definition selected_resource_response :: "'w web \<Rightarrow> SelectedResource \<Rightarrow> SelectedResourceInfo" where
  "selected_resource_response W r = \<lparr>sri_owner_subject = sel_owner_subject r,
    sri_application_id = web_show_uuid W (sel_application_id r), sri_kind = sel_kind r, sri_resource_id = web_show_uuid W (sel_resource_id r)\<rparr>"

definition route_selected_resources :: "'w RouterState \<Rightarrow> header_value \<Rightarrow> string
    \<Rightarrow> ('w, ErrorResponse, SelectedResourceInfo list) op" where
  "route_selected_resources R header endpoint_id =
    await (authorize_storage R header MANAGEMENT_REPLICATION_READ_SCOPE) (\<lambda>_.
    await (map_err (\<lambda>_. unavailable) (get_storage_endpoint_identity (rt_web R) (rt_control_plane R) endpoint_id)) (\<lambda>identity.
    await (map_err (\<lambda>_. unavailable) (selected_resources_for_device (rt_host R) (ei_device_id identity))) (\<lambda>resources.
    ok (map (selected_resource_response (rt_web R))
      (filter (\<lambda>resource. sel_owner_subject resource = ei_owner_subject identity) resources)))))"

definition resource_is_selected :: "SelectedResource list \<Rightarrow> uuid \<Rightarrow> string \<Rightarrow> uuid \<Rightarrow> string \<Rightarrow> uuid \<Rightarrow> bool" where
  "resource_is_selected resources device_id owner_subject application_id kind resource_id =
    list_ex (\<lambda>resource. sel_device_id resource = device_id \<and> sel_owner_subject resource = owner_subject
      \<and> sel_application_id resource = application_id \<and> sel_kind resource = kind
      \<and> sel_resource_id resource = resource_id) resources"

definition admit_endpoint :: "'w RouterState \<Rightarrow> uuid \<Rightarrow> string \<Rightarrow> uuid \<Rightarrow> DeviceEndpointIdentity
    \<Rightarrow> ('w, ErrorResponse, unit) op" where
  "admit_endpoint R application_id kind resource_id identity =
    await (map_err (\<lambda>_. unavailable) (policy_get (rt_host R) (ei_device_id identity) (ei_owner_subject identity)
      application_id)) (\<lambda>policy.
    if \<not> (case policy of None \<Rightarrow> False | Some policy \<Rightarrow> sp_admin_allowed policy) then err denied else
    await (map_err (\<lambda>_. unavailable) (selected_resources_for_device (rt_host R) (ei_device_id identity))) (\<lambda>selected.
    if \<not> resource_is_selected selected (ei_device_id identity) (ei_owner_subject identity) application_id kind resource_id
    then err denied else ok ()))"

definition route_replication_admission :: "'w RouterState \<Rightarrow> header_value \<Rightarrow> ReplicationAdmissionRequest
    \<Rightarrow> ('w, ErrorResponse, unit) op" where
  "route_replication_admission R header request =
    await (authorize_storage R header MANAGEMENT_REPLICATION_ADMIT_SCOPE) (\<lambda>_.
    await (lift (ok_or (ErrorResponse_new InvalidRequest) (web_parse_uuid (rt_web R) (ra_application_id request)))) (\<lambda>application_id.
    await (lift (ok_or (ErrorResponse_new InvalidRequest) (web_parse_uuid (rt_web R) (ra_resource_id request)))) (\<lambda>resource_id.
    if ra_kind request \<notin> {''database'', ''filesystem''} \<or> ra_operation request \<noteq> ''synchronize'' then err denied else
    await (map_err (\<lambda>_. unavailable) (get_storage_endpoint_identity (rt_web R) (rt_control_plane R)
      (ra_source_endpoint_id request))) (\<lambda>source.
    await (map_err (\<lambda>_. unavailable) (get_storage_endpoint_identity (rt_web R) (rt_control_plane R)
      (ra_target_endpoint_id request))) (\<lambda>target.
    if ei_device_id source = ei_device_id target \<or> ei_owner_subject source \<noteq> ei_owner_subject target then err denied else
    for_each (admit_endpoint R application_id (ra_kind request) resource_id) [source, target])))))"

section \<open>The router\<close>

text \<open>The requests a user makes, and those a storage server makes.\<close>

datatype user_request =
    GetRoles uuid "32 word" "32 word" | PostRole uuid string "string option" | DeleteRoleOf uuid uuid
  | GetUserRoles uuid uuid | PostUserRole uuid uuid uuid | DeleteUserRole uuid uuid uuid
  | GetPermissions uuid "32 word" "32 word" | PostPermission uuid string "string option" | DeletePermissionOf uuid uuid
  | GetRolePermissions uuid uuid | PostRolePermission uuid uuid uuid | DeleteRolePermission uuid uuid uuid
  | GetRolesEverywhere uuid
  | PutSelection uuid SelectionRequest | DeleteSelection uuid | DeleteResourceSelection uuid uuid SelectionKind uuid

datatype user_response = Roles "RoleResponse list" | OneRole RoleResponse | Permissions "PermissionResponse list"
  | OnePermission PermissionResponse | UserRoles "UserApplicationRoleResponse list" | NoContent

definition respond :: "('a \<Rightarrow> 'b) \<Rightarrow> ('w, 'e, 'a) op \<Rightarrow> ('w, 'e, 'b) op" where
  "respond f m = await m (\<lambda>a. ok (f a))"

fun user_route :: "'w RouterState \<Rightarrow> ManagementAuthorization \<Rightarrow> user_request \<Rightarrow> ('w, ErrorResponse, user_response) op" where
  "user_route R u (GetRoles a offset limit) = respond Roles (route_list_roles R u a offset limit)"
| "user_route R u (PostRole a name d) = respond OneRole (route_create_role R u a name d)"
| "user_route R u (DeleteRoleOf a r) = respond (\<lambda>_. NoContent) (route_delete_role R u a r)"
| "user_route R u (GetUserRoles a v) = respond Roles (route_list_user_roles R u a v)"
| "user_route R u (PostUserRole a v r) = respond (\<lambda>_. NoContent) (route_assign_role_to_user R u a v r)"
| "user_route R u (DeleteUserRole a v r) = respond (\<lambda>_. NoContent) (route_revoke_role_from_user R u a v r)"
| "user_route R u (GetPermissions a offset limit) = respond Permissions (route_list_permissions R u a offset limit)"
| "user_route R u (PostPermission a name d) = respond OnePermission (route_create_permission R u a name d)"
| "user_route R u (DeletePermissionOf a p) = respond (\<lambda>_. NoContent) (route_delete_permission R u a p)"
| "user_route R u (GetRolePermissions a r) = respond Permissions (route_list_role_permissions R u a r)"
| "user_route R u (PostRolePermission a r p) = respond (\<lambda>_. NoContent) (route_assign_permission_to_role R u a r p)"
| "user_route R u (DeleteRolePermission a r p) = respond (\<lambda>_. NoContent) (route_revoke_permission_from_role R u a r p)"
| "user_route R u (GetRolesEverywhere v) = respond UserRoles (route_list_user_roles_across_applications R u v)"
| "user_route R u (PutSelection d body) = respond (\<lambda>_. NoContent) (route_put_device_selection R u d body)"
| "user_route R u (DeleteSelection d) = respond (\<lambda>_. NoContent) (route_delete_device_selection R u d)"
| "user_route R u (DeleteResourceSelection d a kind i) =
    respond (\<lambda>_. NoContent) (route_delete_device_resource_selection R u d a kind i)"

text \<open>The actor is extracted before the handler runs.\<close>

definition serve_user :: "'w RouterState \<Rightarrow> header_value \<Rightarrow> user_request \<Rightarrow> ('w, ErrorResponse, user_response) op" where
  "serve_user R header request = await (from_request_parts R header) (\<lambda>authorization. user_route R authorization request)"

end
