(* ===== verification/Role_Access.thy ===== *)
theory Role_Access
  imports Roles Device_Registry
begin

text \<open>
  Who holds which permission.  The four tables are read as an abstract access state: roles of
  applications, permissions of applications, roles of users and permissions of roles.  Every
  writing operation of the two repositories refines a step of that state, and the permission
  check answers exactly what the state says, only from rows without conflicts.
\<close>

section \<open>The abstract access state\<close>

record access =
  ac_roles :: "(uuid \<times> uuid) set"
  ac_permissions :: "(uuid \<times> uuid \<times> string) set"
  ac_holders :: "(uuid \<times> uuid \<times> uuid) set"
  ac_grants :: "(uuid \<times> uuid) set"

text \<open>A user holds a role of the application to which a permission of the application is granted that matches the name.\<close>

definition may :: "access \<Rightarrow> uuid \<Rightarrow> uuid \<Rightarrow> string \<Rightarrow> bool" where
  "may a user_id application_id required = (\<exists>r p name. (application_id, user_id, r) \<in> ac_holders a
    \<and> (application_id, r) \<in> ac_roles a \<and> (r, p) \<in> ac_grants a \<and> (application_id, p, name) \<in> ac_permissions a
    \<and> permission_matches name required)"

datatype access_op =
    CreateRole uuid string "string option" | DeleteRole uuid uuid
  | CreatePermission uuid string "string option" | DeletePermission uuid uuid
  | AddRole uuid uuid uuid | RemoveRole uuid uuid uuid
  | AddPermission uuid uuid uuid | RemovePermission uuid uuid uuid

text \<open>The writing operations, with the identifiers and values they return dropped.\<close>

fun run_access_op :: "'w host \<Rightarrow> access_op \<Rightarrow> ('w, ManagementError, unit) op" where
  "run_access_op H (CreateRole a name d) = await (create_role H a name d) (\<lambda>_. ok ())"
| "run_access_op H (DeleteRole a r) = delete_role_by_id H a r"
| "run_access_op H (CreatePermission a name d) = await (create_permission H a name d) (\<lambda>_. ok ())"
| "run_access_op H (DeletePermission a p) = delete_permission_by_id H a p"
| "run_access_op H (AddRole a u r) = add_role_to_user H a u r"
| "run_access_op H (RemoveRole a u r) = remove_role_from_user H a u r"
| "run_access_op H (AddPermission a r p) = add_permission_to_role H a r p"
| "run_access_op H (RemovePermission a r p) = remove_permission_from_role H a r p"

fun access_step :: "access_op \<Rightarrow> access \<Rightarrow> access \<Rightarrow> bool" where
  "access_step (CreateRole a name d) s s' = (\<exists>i. (\<forall>b. (b, i) \<notin> ac_roles s) \<and> s' = s\<lparr>ac_roles := insert (a, i) (ac_roles s)\<rparr>)"
| "access_step (DeleteRole a r) s s' = ((a, r) \<in> ac_roles s \<and> s' = s\<lparr>ac_roles := ac_roles s - {(b, i). i = r}\<rparr>)"
| "access_step (CreatePermission a name d) s s' =
    (\<exists>i. (\<forall>b n. (b, i, n) \<notin> ac_permissions s) \<and> s' = s\<lparr>ac_permissions := insert (a, i, name) (ac_permissions s)\<rparr>)"
| "access_step (DeletePermission a p) s s' =
    ((\<exists>n. (a, p, n) \<in> ac_permissions s) \<and> s' = s\<lparr>ac_permissions := ac_permissions s - {(b, i, n). i = p}\<rparr>)"
| "access_step (AddRole a u r) s s' = ((a, r) \<in> ac_roles s \<and> s' = s\<lparr>ac_holders := insert (a, u, r) (ac_holders s)\<rparr>)"
| "access_step (RemoveRole a u r) s s' =
    ((a, r) \<in> ac_roles s \<and> (a, u, r) \<in> ac_holders s \<and> s' = s\<lparr>ac_holders := ac_holders s - {(a, u, r)}\<rparr>)"
| "access_step (AddPermission a r p) s s' = ((a, r) \<in> ac_roles s \<and> (\<exists>n. (a, p, n) \<in> ac_permissions s)
    \<and> s' = s\<lparr>ac_grants := insert (r, p) (ac_grants s)\<rparr>)"
| "access_step (RemovePermission a r p) s s' = ((a, r) \<in> ac_roles s \<and> (\<exists>n. (a, p, n) \<in> ac_permissions s)
    \<and> (r, p) \<in> ac_grants s \<and> s' = s\<lparr>ac_grants := ac_grants s - {(r, p)}\<rparr>)"

section \<open>The tables as an access state\<close>

record rbac =
  rb_roles :: "RoleRow list"
  rb_permissions :: "PermissionRow list"
  rb_user_roles :: "UserRoleRow list"
  rb_role_permissions :: "RolePermissionRow list"

definition rbac_view :: "'w host \<Rightarrow> tables \<Rightarrow> rbac \<Rightarrow> bool" where
  "rbac_view H T A = (view (role_from_row H) ROLE_COLUMNS (T ROLES) (rb_roles A)
    \<and> view (permission_from_row H) PERMISSION_COLUMNS (T PERMISSIONS) (rb_permissions A)
    \<and> view (user_role_from_row H) USER_ROLE_COLUMNS (T USER_ROLES) (rb_user_roles A)
    \<and> view (role_permission_from_row H) ROLE_PERMISSION_COLUMNS (T ROLE_PERMISSIONS) (rb_role_permissions A))"

definition access_of :: "rbac \<Rightarrow> access" where
  "access_of A = \<lparr>
    ac_roles = {(rw_application_id r, rw_id r) | r. r \<in> set (rb_roles A) \<and> rw_revoked_at r = None},
    ac_permissions = {(pw_application_id p, pw_id p, pw_name p) | p. p \<in> set (rb_permissions A) \<and> pw_revoked_at p = None},
    ac_holders = {(ur_application_id u, ur_user_id u, ur_role_id u) | u. u \<in> set (rb_user_roles A) \<and> ur_revoked_at u = None},
    ac_grants = {(rp_role_id g, rp_permission_id g) | g. g \<in> set (rb_role_permissions A) \<and> rp_revoked_at g = None}\<rparr>"

text \<open>Primary keys are distinct, and no relation is stored twice among the rows that are not revoked, as the unique
  indexes of the schema say.\<close>

definition rbac_keys :: "rbac \<Rightarrow> bool" where
  "rbac_keys A = (distinct (map rw_id (rb_roles A)) \<and> distinct (map pw_id (rb_permissions A))
    \<and> distinct (map ur_id (rb_user_roles A)) \<and> distinct (map rp_id (rb_role_permissions A))
    \<and> inj_on (\<lambda>u. (ur_application_id u, ur_user_id u, ur_role_id u)) {u \<in> set (rb_user_roles A). ur_revoked_at u = None}
    \<and> inj_on (\<lambda>g. (rp_role_id g, rp_permission_id g)) {g \<in> set (rb_role_permissions A). rp_revoked_at g = None})"

lemma rbac_view_unique: "rbac_view H T A \<Longrightarrow> rbac_view H T B \<Longrightarrow> B = A"
  by (auto simp: rbac_view_def dest: view_unique intro: rbac.equality)

lemma access_of_simps [simp]:
  "(a, r) \<in> ac_roles (access_of A) \<longleftrightarrow>
    (\<exists>x \<in> set (rb_roles A). rw_id x = r \<and> rw_application_id x = a \<and> rw_revoked_at x = None)"
  "(a, p, n) \<in> ac_permissions (access_of A) \<longleftrightarrow>
    (\<exists>x \<in> set (rb_permissions A). pw_id x = p \<and> pw_application_id x = a \<and> pw_name x = n \<and> pw_revoked_at x = None)"
  "(a, u, r) \<in> ac_holders (access_of A) \<longleftrightarrow> (\<exists>x \<in> set (rb_user_roles A). ur_application_id x = a
    \<and> ur_user_id x = u \<and> ur_role_id x = r \<and> ur_revoked_at x = None)"
  "(r, p) \<in> ac_grants (access_of A) \<longleftrightarrow>
    (\<exists>x \<in> set (rb_role_permissions A). rp_role_id x = r \<and> rp_permission_id x = p \<and> rp_revoked_at x = None)"
  by (auto simp: access_of_def)

lemma access_eqI:
  assumes "\<And>a r. (a, r) \<in> ac_roles x \<longleftrightarrow> (a, r) \<in> ac_roles y"
    and "\<And>a p n. (a, p, n) \<in> ac_permissions x \<longleftrightarrow> (a, p, n) \<in> ac_permissions y"
    and "\<And>a u r. (a, u, r) \<in> ac_holders x \<longleftrightarrow> (a, u, r) \<in> ac_holders y"
    and "\<And>r p. (r, p) \<in> ac_grants x \<longleftrightarrow> (r, p) \<in> ac_grants y"
  shows "x = (y :: access)"
proof (rule access.equality)
  show "ac_roles x = ac_roles y" using assms(1) by auto
  show "ac_permissions x = ac_permissions y" using assms(2) by auto
  show "ac_holders x = ac_holders y" using assms(3) by auto
  show "ac_grants x = ac_grants y" using assms(4) by auto
qed simp

section \<open>Reading the tables\<close>

context db_engine
begin

lemma wp_authz_rows:
  assumes "\<And>rows w'. same w w' \<Longrightarrow> view f cs (T w t) rows \<Longrightarrow> Q rows w'" and "\<And>e w'. same w w' \<Longrightarrow> X e w'"
  shows "wp (authz_rows H f t cs) Q X w"
  unfolding authz_rows_def authz_select_def wp_simps
proof (rule wp_select, goal_cases)
  case (2 qr w')
  have "rows_as H f qr = try_collect (\<lambda>s. f (map s cs) cs) (T w t)"
    by (rule rows_as_select) (use 2(2,3) in \<open>simp_all add: authz_column_def comp_def selects_def\<close>)
  then show ?case
    using assms 2(1) by (auto simp: pop_result_def view_def try_collect_Inr split: sum.split)
qed (simp_all add: authz_column_def assms(2))

lemma wp_authorization_clear:
  assumes "\<And>w'. same w w' \<Longrightarrow> list_all (conflict_free (C w)) rows \<Longrightarrow> Q () w'" and "\<And>e w'. same w w' \<Longrightarrow> X e w'"
  shows "wp (ensure_authorization_clear H rows) Q X w"
  unfolding ensure_authorization_clear_def allows_authorization_def wp_simps
  by (rule wp_clear) (simp_all add: assms)

lemma wp_permission_clear:
  assumes "\<And>w'. same w w' \<Longrightarrow> Q () w'" and "\<And>e w'. same w w' \<Longrightarrow> X e w'"
  shows "wp (ensure_permission_clear H rows) Q X w"
  unfolding ensure_permission_clear_def allows_authorization_def wp_simps
  by (rule wp_clear) (simp_all add: assms)

text \<open>A loop over checks for conflicts.\<close>

lemma wp_each_clear:
  assumes "\<And>w'. same w w' \<Longrightarrow> \<forall>x \<in> set xs. conflict_free (C w) (f x) \<Longrightarrow> Q () w'" and "\<And>e w'. same w w' \<Longrightarrow> X e w'"
  shows "wp (for_each (\<lambda>x. ensure_authorization_clear H [f x]) xs) Q X w"
proof -
  have "wp (for_each (\<lambda>x. ensure_authorization_clear H [f x]) xs)
      (\<lambda>_ w'. same w w' \<and> (\<forall>x \<in> set xs. conflict_free (C w) (f x))) (\<lambda>_ w'. same w w') w"
  proof (rule wp_for_each_prefix)
    fix ys x zs w1 assume 1: "same w w1 \<and> (\<forall>x \<in> set ys. conflict_free (C w) (f x))"
    show "wp (ensure_authorization_clear H [f x])
        (\<lambda>_ w'. same w w' \<and> (\<forall>x \<in> set (ys @ [x]). conflict_free (C w) (f x))) (\<lambda>_ w'. same w w') w1"
      by (rule wp_authorization_clear) (use 1 in \<open>auto simp: sameD intro: same_trans\<close>)
  qed simp
  then show ?thesis by (rule wp_conseq) (use assms in auto)
qed

lemma wp_device_now:
  assumes "\<And>t w'. same w w' \<Longrightarrow> Q t w'"
  shows "wp (device_now H) Q X w"
  unfolding device_now_def wp_simps by (rule wp_utc_now) (simp add: assms)

lemma wp_db_role:
  assumes "\<And>found rows w'. same w w' \<Longrightarrow> view (role_from_row H) ROLE_COLUMNS (T w ROLES) rows \<Longrightarrow>
      (found = None \<longleftrightarrow> \<not> (\<exists>x \<in> set rows. rw_id x = role_id \<and> rw_application_id x = application_id \<and> rw_revoked_at x = None)) \<Longrightarrow>
      (\<And>r. found = Some r \<Longrightarrow> ro_id r = role_id \<and> conflict_free (C w) (SecurityRow_new RoleTable role_id)) \<Longrightarrow> Q found w'"
    and "\<And>e w'. same w w' \<Longrightarrow> X e w'"
  shows "wp (db_role H application_id role_id) Q X w"
  unfolding db_role_def db_roles_def wp_await
proof (rule wp_authz_rows, goal_cases)
  case (1 rows w1)
  let ?P = "\<lambda>role. rw_id role = role_id \<and> rw_application_id role = application_id \<and> rw_revoked_at role = None"
  show ?case
  proof (cases "List.find ?P rows")
    case None
    then have "\<not> (\<exists>x \<in> set rows. ?P x)" by (auto simp: find_None_iff)
    then have "Q None w1" by (intro assms(1) [OF 1]) auto
    then show ?thesis unfolding None option.case wp_ok .
  next
    case (Some row)
    then have "?P row" "row \<in> set rows" using find_SomeD by fast+
    then have "wp (ensure_role_clear H (ro_id r)) (\<lambda>_. wp (ok (Some r)) Q X) X w1" if "role_try_from H row = Inr r" for r
      unfolding ensure_role_clear_def wp_ok using that
      by (intro wp_authorization_clear assms(1) [OF same_trans [OF 1(1)] 1(2)] assms(2) same_trans [OF 1(1)])
        (auto simp: role_try_from_def sameD [OF 1(1)])
    then show ?thesis
      unfolding Some option.case using assms(2) [OF 1(1)] by (simp add: wp_simps split: sum.split)
  qed
qed (rule assms(2))

text \<open>The roles a user holds: the roles of the listed relations that exist.\<close>

lemma wp_list_user_roles:
  assumes A: "rbac_view H (T w) A"
    and Q: "\<And>roles w'. same w w' \<Longrightarrow>
      set (map ro_id roles) = {r. (application_id, user_id, r) \<in> ac_holders (access_of A) \<and> (application_id, r) \<in> ac_roles (access_of A)} \<Longrightarrow>
      (\<And>r. r \<in> set roles \<Longrightarrow> conflict_free (C w) (SecurityRow_new RoleTable (ro_id r))) \<Longrightarrow>
      (\<And>u. u \<in> set (rb_user_roles A) \<Longrightarrow> ur_application_id u = application_id \<Longrightarrow> ur_user_id u = user_id \<Longrightarrow>
        ur_revoked_at u = None \<Longrightarrow> conflict_free (C w) (SecurityRow_new UserRoleTable (ur_id u))) \<Longrightarrow> Q roles w'"
    and X: "\<And>e w'. same w w' \<Longrightarrow> X e w'"
  shows "wp (list_user_roles H application_id user_id) Q X w"
  unfolding list_user_roles_def db_user_roles_def wp_await Let_def
proof (rule wp_authz_rows, goal_cases)
  case (1 rows w1)
  define users where "users = filter (\<lambda>u. ur_application_id u = application_id \<and> ur_user_id u = user_id \<and> ur_revoked_at u = None) rows"
  have rows: "rows = rb_user_roles A" using A 1(2) by (auto simp: rbac_view_def dest: view_unique)
  define held where "held = (\<lambda>us :: UserRoleRow list. {r. \<exists>u \<in> set us. ur_role_id u = r \<and> (application_id, r) \<in> ac_roles (access_of A)})"
  define clear_roles where "clear_roles = (\<lambda>roles :: Role list. \<forall>r \<in> set roles. conflict_free (C w) (SecurityRow_new RoleTable (ro_id r)))"
  let ?loop = "\<lambda>roles u. await (db_role H application_id (ur_role_id u)) (\<lambda>role. ok (case role of None \<Rightarrow> roles | Some r \<Rightarrow> roles @ [r]))"
  have step: "wp (?loop roles u) (\<lambda>roles w'. same w w' \<and> set (map ro_id roles) = held (us @ [u]) \<and> clear_roles roles)
      (\<lambda>_. same w) w2" if 2: "same w w2 \<and> set (map ro_id roles) = held us \<and> clear_roles roles" for roles us u w2
    unfolding wp_await
  proof (rule wp_db_role, goal_cases)
    case (1 found rows' w3)
    have "rows' = rb_roles A" using A 1(2) 2 by (auto simp: rbac_view_def sameD dest: view_unique)
    with 1(3,4) 2 have "(found = None \<longleftrightarrow> (application_id, ur_role_id u) \<notin> ac_roles (access_of A))"
      "\<And>r. found = Some r \<Longrightarrow> ro_id r = ur_role_id u \<and> conflict_free (C w) (SecurityRow_new RoleTable (ur_role_id u))"
      by (auto simp: sameD)
    then show ?case
      using 2 same_trans [OF _ 1(1)] by (cases found) (auto simp: wp_simps held_def clear_roles_def simp del: access_of_simps)
  qed (use 2 same_trans in blast)
  have loop: "wp (fold_op ?loop [] users) (\<lambda>roles w'. same w w' \<and> set (map ro_id roles) = held users \<and> clear_roles roles)
      (\<lambda>_. same w) w2" if "same w w2" for w2
    by (rule wp_fold_op_prefix) (use that step in \<open>auto simp: held_def clear_roles_def\<close>)
  have held: "held users = {r. (application_id, user_id, r) \<in> ac_holders (access_of A) \<and> (application_id, r) \<in> ac_roles (access_of A)}"
    by (auto simp: held_def users_def rows)
  show ?case
    unfolding users_def [symmetric] ensure_user_roles_clear_def
  proof (rule wp_each_clear, goal_cases)
    case (1 w2)
    have clear: "conflict_free (C w) (SecurityRow_new UserRoleTable (ur_id u))"
      if "u \<in> set (rb_user_roles A)" "ur_application_id u = application_id" "ur_user_id u = user_id" "ur_revoked_at u = None" for u
      using 1(2) that by (simp add: users_def rows sameD(2) [OF \<open>same w w1\<close>])
    show ?case
    proof (rule wp_conseq [OF loop [OF same_trans [OF \<open>same w w1\<close> 1(1)]]], goal_cases)
      case (1 roles w3)
      then show ?case unfolding wp_ok by (intro Q clear) (auto simp: held clear_roles_def simp del: access_of_simps)
    qed (rule X)
  qed (intro X same_trans [OF \<open>same w w1\<close>])
qed (rule X)

end

text \<open>A chain of rows without conflicts from the user to a permission that matches.\<close>

definition vouched :: "conflicts \<Rightarrow> rbac \<Rightarrow> uuid \<Rightarrow> uuid \<Rightarrow> string \<Rightarrow> bool" where
  "vouched C A user_id application_id required = (\<exists>u \<in> set (rb_user_roles A). \<exists>g \<in> set (rb_role_permissions A). \<exists>p \<in> set (rb_permissions A).
    ur_application_id u = application_id \<and> ur_user_id u = user_id \<and> ur_revoked_at u = None
    \<and> (application_id, ur_role_id u) \<in> ac_roles (access_of A)
    \<and> rp_role_id g = ur_role_id u \<and> rp_revoked_at g = None
    \<and> pw_id p = rp_permission_id g \<and> pw_application_id p = application_id \<and> pw_revoked_at p = None
    \<and> permission_matches (pw_name p) required
    \<and> conflict_free C (SecurityRow_new UserRoleTable (ur_id u)) \<and> conflict_free C (SecurityRow_new RoleTable (ur_role_id u))
    \<and> conflict_free C (SecurityRow_new RolePermissionTable (rp_id g)) \<and> conflict_free C (SecurityRow_new PermissionTable (pw_id p)))"

lemma vouched_may: "vouched C A user_id application_id required \<Longrightarrow> may (access_of A) user_id application_id required"
  unfolding vouched_def may_def by (simp only: access_of_simps) blast

lemma collected_permissions:
  assumes "try_collect (permission_try_from H) ps = Inr permissions"
  shows "(\<lambda>p. (pm_id p, pm_name p)) ` set permissions = (\<lambda>p. (pw_id p, pw_name p)) ` set ps"
  using assms
proof (induction ps arbitrary: permissions)
  case (Cons x ps)
  from Cons.prems obtain y ys where "permissions = y # ys" "permission_try_from H x = Inr y"
    "try_collect (permission_try_from H) ps = Inr ys"
    by auto
  moreover from this(2) have "pm_id y = pw_id x" "pm_name y = pw_name x" by (auto simp: permission_try_from_def)
  ultimately show ?case using Cons.IH [of ys] by simp
qed simp

lemma list_ex_names:
  assumes "(\<lambda>p. (pm_id p, pm_name p)) ` set permissions = (\<lambda>p. (pw_id p, pw_name p)) ` set ps"
  shows "list_ex (\<lambda>p. P (pm_name p)) permissions \<longleftrightarrow> (\<exists>p \<in> set ps. P (pw_name p))"
proof -
  have "pm_name ` set permissions = pw_name ` set ps"
    using arg_cong [OF assms, of "image snd"] by (simp add: image_image)
  then show ?thesis by (metis (no_types, lifting) image_iff list_ex_iff)
qed

context db_engine
begin

text \<open>The permissions of the roles: the check reads the relations and the permissions it needs, and each of
  them must be without conflicts.\<close>

lemma wp_listed_permissions:
  assumes A: "rbac_view H (T w) A"
    and Q: "\<And>permissions w'. same w w' \<Longrightarrow>
      (\<lambda>p. (pm_id p, pm_name p)) ` set permissions = (\<lambda>p. (pw_id p, pw_name p)) ` set (filter (\<lambda>p. pw_application_id p = application_id
        \<and> pw_id p \<in> set (map rp_permission_id gs) \<and> pw_revoked_at p = None) (rb_permissions A)) \<Longrightarrow>
      (\<And>p. p \<in> set permissions \<Longrightarrow> conflict_free (C w) (SecurityRow_new PermissionTable (pm_id p))) \<Longrightarrow> Q permissions w'"
    and X: "\<And>e w'. same w w' \<Longrightarrow> X e w'"
  shows "wp (db_permissions H) (\<lambda>permission_rows.
    wp (lift (try_collect (permission_try_from H)
      (filter (\<lambda>permission. pw_application_id permission = application_id
        \<and> pw_id permission \<in> set (map rp_permission_id gs) \<and> pw_revoked_at permission = None)
        permission_rows))) (\<lambda>permissions.
    wp (for_each (\<lambda>permission. ensure_authorization_clear H [SecurityRow_new PermissionTable (pm_id permission)])
      (sort_key pm_name permissions)) (\<lambda>_. wp (ok (sort_key pm_name permissions)) Q X) X) X) X w"
  unfolding db_permissions_def
proof (rule wp_authz_rows, goal_cases)
  case (1 rows w1)
  have rows: "rows = rb_permissions A" using A 1(2) by (auto simp: rbac_view_def dest: view_unique)
  show ?case
    unfolding wp_lift rows
  proof (split sum.split, intro conjI allI impI, goal_cases)
    case (2 permissions)
    show ?case
    proof (rule wp_each_clear, goal_cases)
      case (1 w2)
      show ?case
        unfolding wp_ok
        by (rule Q) (use 1 collected_permissions [OF 2] same_trans [OF \<open>same w w1\<close>] in \<open>auto simp: sameD [OF \<open>same w w1\<close>]\<close>)
    qed (intro X same_trans [OF 1(1)])
  qed (rule X [OF 1(1)])
qed (rule X)

lemma wp_has_permission:
  assumes A: "rbac_view H (T w) A"
    and Q: "\<And>b w'. same w w' \<Longrightarrow> (b \<Longrightarrow> vouched (C w) A user_id application_id required) \<Longrightarrow>
      (may (access_of A) user_id application_id required \<Longrightarrow> b) \<Longrightarrow> Q b w'"
    and X: "\<And>e w'. same w w' \<Longrightarrow> X e w'"
  shows "wp (has_user_application_permission H user_id application_id required) Q X w"
  unfolding has_user_application_permission_def list_user_permissions_def wp_await Let_def
proof (rule wp_list_user_roles [OF A], goal_cases)
  case (1 roles w1)
  note roles = 1
  show ?case
    unfolding db_role_permissions_def
  proof (rule wp_authz_rows, goal_cases)
    case (1 all w2)
    have same2: "same w w2" using same_trans [OF roles(1) 1(1)] .
    have all: "all = rb_role_permissions A" using A 1(2) by (auto simp: rbac_view_def sameD [OF roles(1)] dest: view_unique)
    define gs where "gs = filter (\<lambda>row. rp_role_id row \<in> set (map ro_id roles) \<and> rp_revoked_at row = None) all"
    show ?case
      unfolding gs_def [symmetric]
    proof (rule wp_each_clear, goal_cases)
      case (1 w3)
      have same3: "same w w3" using same_trans [OF same2 1(1)] .
      show ?case
      proof (rule wp_listed_permissions [where A = A], goal_cases)
        case (2 permissions w4)
        show ?case
          unfolding wp_ok
        proof (rule Q [OF same_trans [OF same3 2(1)]])
          let ?b = "list_ex (\<lambda>permission. permission_matches (pm_name permission) required) permissions"
          note names = list_ex_names [OF 2(2), of "\<lambda>n. permission_matches n required"]
          show "vouched (C w) A user_id application_id required" if ?b
          proof -
            from that names obtain p where p: "p \<in> set (rb_permissions A)" "pw_application_id p = application_id"
              "pw_id p \<in> set (map rp_permission_id gs)" "pw_revoked_at p = None" "permission_matches (pw_name p) required"
              by auto
            then obtain g where g: "g \<in> set gs" "rp_permission_id g = pw_id p" by auto
            then have role: "rp_role_id g \<in> set (map ro_id roles)" by (simp add: gs_def)
            then obtain r where r: "r \<in> set roles" "ro_id r = rp_role_id g" by auto
            have "(application_id, user_id, rp_role_id g) \<in> ac_holders (access_of A)"
              "(application_id, rp_role_id g) \<in> ac_roles (access_of A)" using role unfolding roles(2) by blast+
            moreover from this(1) obtain u where "u \<in> set (rb_user_roles A)" "ur_application_id u = application_id"
              "ur_user_id u = user_id" "ur_role_id u = rp_role_id g" "ur_revoked_at u = None" by auto
            moreover have "conflict_free (C w) (SecurityRow_new PermissionTable (pw_id p))"
            proof -
              have "(pw_id p, pw_name p) \<in> (\<lambda>p. (pm_id p, pm_name p)) ` set permissions" using 2(2) p by auto
              then show ?thesis using 2(3) by (auto simp: sameD [OF same3])
            qed
            moreover have "conflict_free (C w) (SecurityRow_new RolePermissionTable (rp_id g))"
              using 1(2) g(1) by (simp add: sameD [OF same2])
            moreover have "g \<in> set (rb_role_permissions A)" "rp_revoked_at g = None" using g(1) by (auto simp: gs_def all)
            ultimately show ?thesis
              using p g(2) r(2) roles(3) [OF r(1)] roles(4) unfolding vouched_def by metis
          qed
          show ?b if "may (access_of A) user_id application_id required"
          proof -
            from that obtain r q name where c: "(application_id, user_id, r) \<in> ac_holders (access_of A)"
              "(application_id, r) \<in> ac_roles (access_of A)" "(r, q) \<in> ac_grants (access_of A)"
              "(application_id, q, name) \<in> ac_permissions (access_of A)" "permission_matches name required"
              unfolding may_def by blast
            from c(1,2) roles(2) have "r \<in> set (map ro_id roles)" by blast
            with c(3) have "q \<in> set (map rp_permission_id gs)" by (auto simp: gs_def all)
            with c(4,5) show ?thesis unfolding names by auto
          qed
        qed
      qed (use A in \<open>auto simp: sameD [OF same3] intro: X same_trans [OF same3]\<close>)
    qed (intro X same_trans [OF same2])
  qed (intro X same_trans [OF roles(1)])
qed (rule X)

end

end
