(* ===== verification/Role_Updates.thy ===== *)
theory Role_Updates
  imports Role_Access
begin

text \<open>
  The writing operations of the role and permission repositories refine the steps of the access
  state: creating, deleting, granting and withdrawing change exactly what their names say.
\<close>

section \<open>Lookups\<close>

context db_engine
begin

text \<open>Lookups of one row.\<close>

lemma wp_active_user_role:
  assumes A: "rbac_view H (T w) A"
    and "\<And>w'. same w w' \<Longrightarrow> (application_id, user_id, role_id) \<notin> ac_holders (access_of A) \<Longrightarrow> Q None w'"
    and "\<And>u w'. same w w' \<Longrightarrow> u \<in> set (rb_user_roles A) \<Longrightarrow> ur_application_id u = application_id \<Longrightarrow>
      ur_user_id u = user_id \<Longrightarrow> ur_role_id u = role_id \<Longrightarrow> ur_revoked_at u = None \<Longrightarrow> Q (Some u) w'"
    and X: "\<And>e w'. same w w' \<Longrightarrow> X e w'"
  shows "wp (active_user_role H application_id user_id role_id) Q X w"
  unfolding active_user_role_def db_user_roles_def wp_await
proof (rule wp_authz_rows, goal_cases)
  case (1 rows w1)
  let ?P = "\<lambda>u. ur_application_id u = application_id \<and> ur_user_id u = user_id \<and> ur_role_id u = role_id \<and> ur_revoked_at u = None"
  have rows: "rows = rb_user_roles A" using A 1(2) by (auto simp: rbac_view_def dest: view_unique)
  show ?case
  proof (cases "List.find ?P rows")
    case None
    then have "Q None w1" by (intro assms(2) [OF 1(1)]) (auto simp: find_None_iff rows)
    then show ?thesis unfolding None option.case wp_ok .
  next
    case (Some u)
    then have u: "?P u" "u \<in> set rows" using find_SomeD by fast+
    show ?thesis
      unfolding Some option.case wp_await
    proof (rule wp_authorization_clear, goal_cases)
      case (1 w2)
      show ?case unfolding wp_ok by (rule assms(3)) (use u rows same_trans [OF \<open>same w w1\<close> 1(1)] in auto)
    qed (intro X same_trans [OF 1(1)])
  qed
qed (rule X)

lemma wp_db_role_permission:
  assumes A: "rbac_view H (T w) A"
    and "\<And>w'. same w w' \<Longrightarrow> (role_id, permission_id) \<notin> ac_grants (access_of A) \<Longrightarrow> Q None w'"
    and "\<And>g w'. same w w' \<Longrightarrow> g \<in> set (rb_role_permissions A) \<Longrightarrow> rp_role_id g = role_id \<Longrightarrow>
      rp_permission_id g = permission_id \<Longrightarrow> rp_revoked_at g = None \<Longrightarrow> Q (Some g) w'"
    and X: "\<And>e w'. same w w' \<Longrightarrow> X e w'"
  shows "wp (db_role_permission H role_id permission_id) Q X w"
  unfolding db_role_permission_def db_role_permissions_def wp_await
proof (rule wp_authz_rows, goal_cases)
  case (1 rows w1)
  let ?P = "\<lambda>g. rp_role_id g = role_id \<and> rp_permission_id g = permission_id \<and> rp_revoked_at g = None"
  have rows: "rows = rb_role_permissions A" using A 1(2) by (auto simp: rbac_view_def dest: view_unique)
  show ?case
  proof (cases "List.find ?P rows")
    case None
    then have "Q None w1" by (intro assms(2) [OF 1(1)]) (auto simp: find_None_iff rows)
    then show ?thesis unfolding None option.case wp_ok .
  next
    case (Some g)
    then have g: "?P g" "g \<in> set rows" using find_SomeD by fast+
    show ?thesis
      unfolding Some option.case wp_await
    proof (rule wp_permission_clear, goal_cases)
      case (1 w2)
      show ?case unfolding wp_ok by (rule assms(3)) (use g rows same_trans [OF \<open>same w w1\<close> 1(1)] in auto)
    qed (intro X same_trans [OF 1(1)])
  qed
qed (rule X)

lemma wp_found_role:
  assumes A: "rbac_view H (T w) A"
    and "\<And>r w'. same w w' \<Longrightarrow> (application_id, role_id) \<in> ac_roles (access_of A) \<Longrightarrow> ro_id r = role_id \<Longrightarrow> Q r w'"
    and X: "\<And>e w'. same w w' \<Longrightarrow> X e w'"
  shows "wp (db_role H application_id role_id) (\<lambda>found. wp (lift (ok_or e found)) Q X) X w"
proof (rule wp_db_role, goal_cases)
  case (1 found rows w')
  have "rows = rb_roles A" using A 1(2) by (auto simp: rbac_view_def dest: view_unique)
  with 1 assms(2) [OF 1(1)] X [OF 1(1)] show ?case by (cases found) (auto simp: wp_simps)
qed (rule X)

lemma role_key_view:
  assumes "view (role_from_row H) ROLE_COLUMNS ss rows" and "view (role_key_from_row H) ROLE_KEY_COLUMNS ss keys"
  shows "map (\<lambda>k. (rk_id k, rk_application_id k, rk_revoked_at k)) keys = map (\<lambda>r. (rw_id r, rw_application_id r, rw_revoked_at r)) rows"
  using assms unfolding view_def
proof (induction ss arbitrary: rows keys)
  case (Cons s ss)
  from Cons.prems obtain r rs k ks where split: "rows = r # rs" "keys = k # ks"
    "role_from_row H (map s ROLE_COLUMNS) ROLE_COLUMNS = Inr r" "role_key_from_row H (map s ROLE_KEY_COLUMNS) ROLE_KEY_COLUMNS = Inr k"
    "map (\<lambda>s. role_from_row H (map s ROLE_COLUMNS) ROLE_COLUMNS) ss = map Inr rs"
    "map (\<lambda>s. role_key_from_row H (map s ROLE_KEY_COLUMNS) ROLE_KEY_COLUMNS) ss = map Inr ks"
    by (auto simp: Cons_eq_map_conv)
  have "rk_id k = rw_id r \<and> rk_application_id k = rw_application_id r \<and> rk_revoked_at k = rw_revoked_at r"
    using split(3,4) by (auto simp: role_from_row_def role_key_from_row_def field_ok ROLE_COLUMNS_def ROLE_KEY_COLUMNS_def
      simp del: map_append list.map)
  with Cons.IH [OF split(5,6)] split(1,2) show ?case by simp
qed simp

lemma wp_found_role_key:
  assumes A: "rbac_view H (T w) A"
    and Q: "\<And>r w'. same w w' \<Longrightarrow> (application_id, role_id) \<in> ac_roles (access_of A) \<Longrightarrow> Q r w'"
    and X: "\<And>e w'. same w w' \<Longrightarrow> X e w'"
  shows "wp (db_role_key H application_id role_id) (\<lambda>found. wp (lift (ok_or e found)) Q X) X w"
  unfolding db_role_key_def wp_await
proof (rule wp_authz_rows, goal_cases)
  case (1 keys w1)
  let ?P = "\<lambda>row. rk_id row = role_id \<and> rk_application_id row = application_id \<and> rk_revoked_at row = None"
  show ?case
  proof (cases "List.find ?P keys")
    case None
    then show ?thesis using X [OF 1(1)] by (simp add: wp_simps)
  next
    case (Some k)
    then have k: "?P k" "k \<in> set keys" using find_SomeD by fast+
    have "map (\<lambda>k. (rk_id k, rk_application_id k, rk_revoked_at k)) keys
        = map (\<lambda>r. (rw_id r, rw_application_id r, rw_revoked_at r)) (rb_roles A)"
      using A 1(2) by (intro role_key_view) (simp_all add: rbac_view_def)
    from map_eq_mapD [OF this k(2)] k(1) have held: "(application_id, role_id) \<in> ac_roles (access_of A)" by auto
    show ?thesis
      unfolding Some option.case wp_await
    proof (rule wp_permission_clear, goal_cases)
      case (1 w2)
      show ?case using Q [OF same_trans [OF \<open>same w w1\<close> 1(1)] held] by (simp add: wp_simps)
    qed (intro X same_trans [OF 1(1)])
  qed
qed (rule X)

lemma wp_found_permission:
  assumes A: "rbac_view H (T w) A"
    and Q: "\<And>p w' n. same w w' \<Longrightarrow> (application_id, permission_id, n) \<in> ac_permissions (access_of A) \<Longrightarrow> Q p w'"
    and X: "\<And>e w'. same w w' \<Longrightarrow> X e w'"
  shows "wp (db_permission H application_id permission_id) (\<lambda>found. wp (lift (ok_or e found)) Q X) X w"
  unfolding db_permission_def db_permissions_def wp_await
proof (rule wp_authz_rows, goal_cases)
  case (1 rows w1)
  let ?P = "\<lambda>row. pw_id row = permission_id \<and> pw_application_id row = application_id \<and> pw_revoked_at row = None"
  have rows: "rows = rb_permissions A" using A 1(2) by (auto simp: rbac_view_def dest: view_unique)
  show ?case
  proof (cases "List.find ?P rows")
    case None
    then show ?thesis using X [OF 1(1)] by (simp add: wp_simps)
  next
    case (Some row)
    then have "?P row" "row \<in> set rows" using find_SomeD by fast+
    then have held: "(application_id, permission_id, pw_name row) \<in> ac_permissions (access_of A)" by (auto simp: rows)
    have "wp (ensure_permission_clear H [SecurityRow_new PermissionTable (pm_id p)])
        (\<lambda>_. wp (ok (Some p)) (\<lambda>found. wp (lift (ok_or e found)) Q X) X) X w1" for p
    proof (rule wp_permission_clear, goal_cases)
      case (1 w2)
      show ?case using Q [OF same_trans [OF \<open>same w w1\<close> 1(1)] held] by (simp add: wp_simps)
    qed (intro X same_trans [OF 1(1)])
    then show ?thesis
      unfolding Some option.case wp_await wp_lift using X [OF 1(1)] by (simp split: sum.split)
  qed
qed (rule X)

section \<open>Writing the tables\<close>

lemma wp_authz_delete:
  assumes "\<And>w'. T w' = (T w)(t := filter (\<lambda>s. s ''id'' \<noteq> Uuid i) (T w t)) \<Longrightarrow> Q () w'" and "\<And>e w'. same w w' \<Longrightarrow> X e w'"
  shows "wp (authz_delete H t i) Q X w"
proof -
  have "(\<lambda>s. \<not> selects (Some (authz_equals t ''id'' (Uuid i))) s) = (\<lambda>s. s ''id'' \<noteq> Uuid i)"
    by (auto simp: fun_eq_iff selects_def authz_equals_def authz_column_def)
  then show ?thesis
    unfolding authz_delete_def wp_simps by (intro wp_modify) (simp_all add: assms)
qed

lemma wp_authz_insert:
  assumes "\<And>s xs ys w'. stored_as (cols t) (v # r) s \<Longrightarrow> T w t = xs @ ys \<Longrightarrow> T w' = (T w)(t := xs @ s # ys) \<Longrightarrow>
      \<forall>s \<in> set (T w t). \<not> keyed (cols t) [v] s \<Longrightarrow> Q () w'" and "\<And>e w'. same w w' \<Longrightarrow> X e w'"
  shows "wp (authz_insert H t (v # r)) Q X w"
  unfolding authz_insert_def wp_simps by (rule wp_insert) (simp_all add: assms)

end

text \<open>A table whose decoder reads the key from the column \<open>id\<close>, without a row and with a new row.\<close>

lemma view_delete:
  assumes "view f cs ss rows" and "\<And>s r. f (map s cs) cs = Inr r \<Longrightarrow> s ''id'' = Uuid (key r)"
  shows "view f cs (filter (\<lambda>s. s ''id'' \<noteq> Uuid i) ss) (filter (\<lambda>r. key r \<noteq> i) rows)"
  unfolding view_def
proof (rule map_Inr_filter)
  show "map (\<lambda>s. f (map s cs) cs) ss = map Inr rows" using assms(1) by (simp add: view_def)
  show "(x ''id'' \<noteq> Uuid i) = (key y \<noteq> i)" if "f (map x cs) cs = Inr y" for x y using assms(2) [OF that] by simp
qed

lemma view_inserted:
  assumes "view f cs (xs @ ys) rows" and "f (map s cs) cs = Inr r" and "\<And>s r. f (map s cs) cs = Inr r \<Longrightarrow> s ''id'' = Uuid (key r)"
    and "\<forall>s \<in> set (xs @ ys). s ''id'' \<noteq> Uuid (key r)"
  shows "\<exists>rows'. view f cs (xs @ s # ys) rows' \<and> set rows' = insert r (set rows) \<and> key r \<notin> key ` set rows
    \<and> (distinct (map key rows) \<longrightarrow> distinct (map key rows'))"
proof -
  obtain rows1 rows2 where split: "rows = rows1 @ rows2" "view f cs xs rows1" "view f cs ys rows2"
    using view_append [OF assms(1)] by blast
  have fresh: "key r \<notin> key ` set rows" using view_mem [OF assms(1)] assms(3,4) by fastforce
  have "view f cs (xs @ s # ys) (rows1 @ r # rows2)" using split assms(2) by (simp add: view_def)
  then show ?thesis using split(1) fresh by (intro exI [of _ "rows1 @ r # rows2"]) auto
qed

locale authz_db = db_engine H T C cols clock
  for H :: "'w host" and T C cols clock +
  assumes schema: "cols = schema_columns"
begin

lemma authz_columns:
  "set ROLE_COLUMNS = {''id'', ''application_id'', ''name'', ''description'', ''revoked_at'', ''created_at'', ''updated_at''}"
  "set PERMISSION_COLUMNS = {''id'', ''application_id'', ''name'', ''description'', ''revoked_at'', ''created_at'', ''updated_at''}"
  "set USER_ROLE_COLUMNS = {''id'', ''user_id'', ''application_id'', ''role_id'', ''revoked_at'', ''created_at'', ''updated_at''}"
  "set ROLE_PERMISSION_COLUMNS = {''id'', ''role_id'', ''permission_id'', ''revoked_at''}"
  by (auto simp: ROLE_COLUMNS_def PERMISSION_COLUMNS_def USER_ROLE_COLUMNS_def ROLE_PERMISSION_COLUMNS_def)

lemmas authz_rows_from = role_from_row_def permission_from_row_def user_role_from_row_def role_permission_from_row_def

lemma authz_keys:
  "role_from_row H (map s ROLE_COLUMNS) ROLE_COLUMNS = Inr a \<Longrightarrow> s ''id'' = Uuid (rw_id a)"
  "permission_from_row H (map s PERMISSION_COLUMNS) PERMISSION_COLUMNS = Inr b \<Longrightarrow> s ''id'' = Uuid (pw_id b)"
  "user_role_from_row H (map s USER_ROLE_COLUMNS) USER_ROLE_COLUMNS = Inr c \<Longrightarrow> s ''id'' = Uuid (ur_id c)"
  "role_permission_from_row H (map s ROLE_PERMISSION_COLUMNS) ROLE_PERMISSION_COLUMNS = Inr d \<Longrightarrow> s ''id'' = Uuid (rp_id d)"
  by (auto simp: authz_rows_from authz_columns decode_uuid_ok)

lemma authz_decode:
  "stored_as (cols ROLES) (role_to_row a) s \<Longrightarrow> role_from_row H (map s ROLE_COLUMNS) ROLE_COLUMNS = Inr a"
  "stored_as (cols PERMISSIONS) (permission_to_row b) s \<Longrightarrow> pw_revoked_at b = None \<Longrightarrow>
    permission_from_row H (map s PERMISSION_COLUMNS) PERMISSION_COLUMNS = Inr b"
  "stored_as (cols USER_ROLES) (user_role_to_row c) s \<Longrightarrow> user_role_from_row H (map s USER_ROLE_COLUMNS) USER_ROLE_COLUMNS = Inr c"
  "stored_as (cols ROLE_PERMISSIONS) (role_permission_to_row d n) s \<Longrightarrow> rp_revoked_at d = None \<Longrightarrow>
    role_permission_from_row H (map s ROLE_PERMISSION_COLUMNS) ROLE_PERMISSION_COLUMNS = Inr d"
proof -
  have null: "decode_opt_int H (or_null Integer x) k = Inr x" "decode_opt_text H (or_null Text y) k = Inr y" for x y k
    by (cases x; simp add: decode_ok) (cases y; simp add: decode_ok)
  note defs = schema schema_columns_def stored_as_def authz_rows_from authz_columns role_columns_def
    role_to_row_def permission_to_row_def user_role_to_row_def role_permission_to_row_def decode_ok null
  show "stored_as (cols ROLES) (role_to_row a) s \<Longrightarrow> role_from_row H (map s ROLE_COLUMNS) ROLE_COLUMNS = Inr a"
    "stored_as (cols PERMISSIONS) (permission_to_row b) s \<Longrightarrow> pw_revoked_at b = None \<Longrightarrow>
      permission_from_row H (map s PERMISSION_COLUMNS) PERMISSION_COLUMNS = Inr b"
    "stored_as (cols USER_ROLES) (user_role_to_row c) s \<Longrightarrow> user_role_from_row H (map s USER_ROLE_COLUMNS) USER_ROLE_COLUMNS = Inr c"
    "stored_as (cols ROLE_PERMISSIONS) (role_permission_to_row d n) s \<Longrightarrow> rp_revoked_at d = None \<Longrightarrow>
      role_permission_from_row H (map s ROLE_PERMISSION_COLUMNS) ROLE_PERMISSION_COLUMNS = Inr d"
    by (simp_all add: defs)
qed

text \<open>The keys of the tables are their column \<open>id\<close>.\<close>

lemma authz_keyed: "t \<in> {ROLES, PERMISSIONS, USER_ROLES, ROLE_PERMISSIONS} \<Longrightarrow> keyed (cols t) [v] s = (s ''id'' = v)"
  unfolding keyed_def schema by (elim insertE) (simp_all add: schema_columns_def role_columns_def eq_commute [of v])

text \<open>Deletions.\<close>

lemma delete_role_row:
  assumes "rbac_view H T' A" "rbac_keys A"
  shows "\<exists>A'. rbac_view H (T'(ROLES := filter (\<lambda>s. s ''id'' \<noteq> Uuid i) (T' ROLES))) A' \<and> rbac_keys A'
    \<and> access_of A' = (access_of A)\<lparr>ac_roles := ac_roles (access_of A) - {(b, j). j = i}\<rparr>"
proof (intro exI conjI)
  let ?A = "A\<lparr>rb_roles := filter (\<lambda>r. rw_id r \<noteq> i) (rb_roles A)\<rparr>"
  show "rbac_view H (T'(ROLES := filter (\<lambda>s. s ''id'' \<noteq> Uuid i) (T' ROLES))) ?A"
    using assms(1) by (auto simp: rbac_view_def intro: view_delete authz_keys)
  show "rbac_keys ?A" using assms(2) by (simp add: rbac_keys_def distinct_map_filter)
  show "access_of ?A = (access_of A)\<lparr>ac_roles := ac_roles (access_of A) - {(b, j). j = i}\<rparr>"
    by (rule access_eqI) auto
qed

lemma delete_permission_row:
  assumes "rbac_view H T' A" "rbac_keys A"
  shows "\<exists>A'. rbac_view H (T'(PERMISSIONS := filter (\<lambda>s. s ''id'' \<noteq> Uuid i) (T' PERMISSIONS))) A' \<and> rbac_keys A'
    \<and> access_of A' = (access_of A)\<lparr>ac_permissions := ac_permissions (access_of A) - {(b, j, n). j = i}\<rparr>"
proof (intro exI conjI)
  let ?A = "A\<lparr>rb_permissions := filter (\<lambda>r. pw_id r \<noteq> i) (rb_permissions A)\<rparr>"
  show "rbac_view H (T'(PERMISSIONS := filter (\<lambda>s. s ''id'' \<noteq> Uuid i) (T' PERMISSIONS))) ?A"
    using assms(1) by (auto simp: rbac_view_def intro: view_delete authz_keys)
  show "rbac_keys ?A" using assms(2) by (auto simp: rbac_keys_def distinct_map_filter inj_on_def)
  show "access_of ?A = (access_of A)\<lparr>ac_permissions := ac_permissions (access_of A) - {(b, j, n). j = i}\<rparr>"
    by (rule access_eqI) auto
qed

lemma delete_user_role_row:
  assumes "rbac_view H T' A" "rbac_keys A"
    and "x \<in> set (rb_user_roles A)" "ur_id x = i" "ur_revoked_at x = None"
  shows "\<exists>A'. rbac_view H (T'(USER_ROLES := filter (\<lambda>s. s ''id'' \<noteq> Uuid i) (T' USER_ROLES))) A' \<and> rbac_keys A'
    \<and> access_of A' = (access_of A)\<lparr>ac_holders := ac_holders (access_of A) - {(ur_application_id x, ur_user_id x, ur_role_id x)}\<rparr>"
proof (intro exI conjI)
  let ?A = "A\<lparr>rb_user_roles := filter (\<lambda>r. ur_id r \<noteq> i) (rb_user_roles A)\<rparr>"
  show "rbac_view H (T'(USER_ROLES := filter (\<lambda>s. s ''id'' \<noteq> Uuid i) (T' USER_ROLES))) ?A"
    using assms(1) by (auto simp: rbac_view_def intro: view_delete authz_keys)
  show "rbac_keys ?A" using assms(2) by (auto simp: rbac_keys_def distinct_map_filter inj_on_def)
  show "access_of ?A = (access_of A)\<lparr>ac_holders := ac_holders (access_of A) - {(ur_application_id x, ur_user_id x, ur_role_id x)}\<rparr>"
    proof -
    have other: "ur_id y = i \<longleftrightarrow> (ur_application_id y, ur_user_id y, ur_role_id y) = (ur_application_id x, ur_user_id x, ur_role_id x)" if "y \<in> set (rb_user_roles A)" "ur_revoked_at y = None" for y
    proof
      assume "ur_id y = i"
      then have "y = x" using assms(2-4) that(1) by (auto simp: rbac_keys_def distinct_map dest: inj_onD)
      then show "(ur_application_id y, ur_user_id y, ur_role_id y) = (ur_application_id x, ur_user_id x, ur_role_id x)" by simp
    next
      assume "(ur_application_id y, ur_user_id y, ur_role_id y) = (ur_application_id x, ur_user_id x, ur_role_id x)"
      then have "y = x" using assms(2,3,5) that by (auto simp: rbac_keys_def dest: inj_onD)
      then show "ur_id y = i" using assms(4) by simp
    qed
    show ?thesis by (rule access_eqI) (use other in auto)
  qed
qed

lemma delete_role_permission_row:
  assumes "rbac_view H T' A" "rbac_keys A"
    and "x \<in> set (rb_role_permissions A)" "rp_id x = i" "rp_revoked_at x = None"
  shows "\<exists>A'. rbac_view H (T'(ROLE_PERMISSIONS := filter (\<lambda>s. s ''id'' \<noteq> Uuid i) (T' ROLE_PERMISSIONS))) A' \<and> rbac_keys A'
    \<and> access_of A' = (access_of A)\<lparr>ac_grants := ac_grants (access_of A) - {(rp_role_id x, rp_permission_id x)}\<rparr>"
proof (intro exI conjI)
  let ?A = "A\<lparr>rb_role_permissions := filter (\<lambda>r. rp_id r \<noteq> i) (rb_role_permissions A)\<rparr>"
  show "rbac_view H (T'(ROLE_PERMISSIONS := filter (\<lambda>s. s ''id'' \<noteq> Uuid i) (T' ROLE_PERMISSIONS))) ?A"
    using assms(1) by (auto simp: rbac_view_def intro: view_delete authz_keys)
  show "rbac_keys ?A" using assms(2) by (auto simp: rbac_keys_def distinct_map_filter inj_on_def)
  show "access_of ?A = (access_of A)\<lparr>ac_grants := ac_grants (access_of A) - {(rp_role_id x, rp_permission_id x)}\<rparr>"
    proof -
    have other: "rp_id y = i \<longleftrightarrow> (rp_role_id y, rp_permission_id y) = (rp_role_id x, rp_permission_id x)" if "y \<in> set (rb_role_permissions A)" "rp_revoked_at y = None" for y
    proof
      assume "rp_id y = i"
      then have "y = x" using assms(2-4) that(1) by (auto simp: rbac_keys_def distinct_map dest: inj_onD)
      then show "(rp_role_id y, rp_permission_id y) = (rp_role_id x, rp_permission_id x)" by simp
    next
      assume "(rp_role_id y, rp_permission_id y) = (rp_role_id x, rp_permission_id x)"
      then have "y = x" using assms(2,3,5) that by (auto simp: rbac_keys_def dest: inj_onD)
      then show "rp_id y = i" using assms(4) by simp
    qed
    show ?thesis by (rule access_eqI) (use other in auto)
  qed
qed

text \<open>Insertions.\<close>

lemma insert_role_row:
  assumes A: "rbac_view H T' A" "rbac_keys A" and row: "role_from_row H (map s ROLE_COLUMNS) ROLE_COLUMNS = Inr x" "rw_revoked_at x = None"
    and new: "T' ROLES = xs @ ys" "\<forall>s \<in> set (T' ROLES). s ''id'' \<noteq> Uuid (rw_id x)"
  shows "\<exists>A'. rbac_view H (T'(ROLES := xs @ s # ys)) A' \<and> rbac_keys A' \<and> rw_id x \<notin> rw_id ` set (rb_roles A)
    \<and> access_of A' = (access_of A)\<lparr>ac_roles := insert (rw_application_id x, rw_id x) (ac_roles (access_of A))\<rparr>"
proof -
  have "view (role_from_row H) ROLE_COLUMNS (xs @ ys) (rb_roles A)" using A(1) new(1) by (simp add: rbac_view_def)
  from view_inserted [where key = rw_id, OF this row(1)] have "\<exists>rows. view (role_from_row H) ROLE_COLUMNS (xs @ s # ys) rows
      \<and> set rows = insert x (set (rb_roles A)) \<and> rw_id x \<notin> rw_id ` set (rb_roles A)
      \<and> (distinct (map rw_id (rb_roles A)) \<longrightarrow> distinct (map rw_id rows))"
    using authz_keys(1) new(1,2) by simp
  then obtain rows where rows: "view (role_from_row H) ROLE_COLUMNS (xs @ s # ys) rows" "set rows = insert x (set (rb_roles A))"
    "rw_id x \<notin> rw_id ` set (rb_roles A)" "distinct (map rw_id (rb_roles A)) \<longrightarrow> distinct (map rw_id rows)"
    by blast
  let ?A = "A\<lparr>rb_roles := rows\<rparr>"
  have "rbac_view H (T'(ROLES := xs @ s # ys)) ?A" using A(1) rows(1) by (simp add: rbac_view_def)
  moreover have "rbac_keys ?A" using A(2) rows(2-4)  by (auto simp: rbac_keys_def inj_on_def)
  moreover have "access_of ?A = (access_of A)\<lparr>ac_roles := insert (rw_application_id x, rw_id x) (ac_roles (access_of A))\<rparr>"
    using row(2) by (intro access_eqI) (auto simp: rows(2))
  ultimately show ?thesis using rows(3) by blast
qed

lemma insert_permission_row:
  assumes A: "rbac_view H T' A" "rbac_keys A" and row: "permission_from_row H (map s PERMISSION_COLUMNS) PERMISSION_COLUMNS = Inr x" "pw_revoked_at x = None"
    and new: "T' PERMISSIONS = xs @ ys" "\<forall>s \<in> set (T' PERMISSIONS). s ''id'' \<noteq> Uuid (pw_id x)"
  shows "\<exists>A'. rbac_view H (T'(PERMISSIONS := xs @ s # ys)) A' \<and> rbac_keys A' \<and> pw_id x \<notin> pw_id ` set (rb_permissions A)
    \<and> access_of A' = (access_of A)\<lparr>ac_permissions := insert (pw_application_id x, pw_id x, pw_name x) (ac_permissions (access_of A))\<rparr>"
proof -
  have "view (permission_from_row H) PERMISSION_COLUMNS (xs @ ys) (rb_permissions A)" using A(1) new(1) by (simp add: rbac_view_def)
  from view_inserted [where key = pw_id, OF this row(1)] have "\<exists>rows. view (permission_from_row H) PERMISSION_COLUMNS (xs @ s # ys) rows
      \<and> set rows = insert x (set (rb_permissions A)) \<and> pw_id x \<notin> pw_id ` set (rb_permissions A)
      \<and> (distinct (map pw_id (rb_permissions A)) \<longrightarrow> distinct (map pw_id rows))"
    using authz_keys(2) new(1,2) by simp
  then obtain rows where rows: "view (permission_from_row H) PERMISSION_COLUMNS (xs @ s # ys) rows" "set rows = insert x (set (rb_permissions A))"
    "pw_id x \<notin> pw_id ` set (rb_permissions A)" "distinct (map pw_id (rb_permissions A)) \<longrightarrow> distinct (map pw_id rows)"
    by blast
  let ?A = "A\<lparr>rb_permissions := rows\<rparr>"
  have "rbac_view H (T'(PERMISSIONS := xs @ s # ys)) ?A" using A(1) rows(1) by (simp add: rbac_view_def)
  moreover have "rbac_keys ?A" using A(2) rows(2-4)  by (auto simp: rbac_keys_def inj_on_def)
  moreover have "access_of ?A = (access_of A)\<lparr>ac_permissions := insert (pw_application_id x, pw_id x, pw_name x) (ac_permissions (access_of A))\<rparr>"
    using row(2) by (intro access_eqI) (auto simp: rows(2))
  ultimately show ?thesis using rows(3) by blast
qed

lemma insert_user_role_row:
  assumes A: "rbac_view H T' A" "rbac_keys A" and row: "user_role_from_row H (map s USER_ROLE_COLUMNS) USER_ROLE_COLUMNS = Inr x" "ur_revoked_at x = None"
    and new: "T' USER_ROLES = xs @ ys" "\<forall>s \<in> set (T' USER_ROLES). s ''id'' \<noteq> Uuid (ur_id x)"
      "(ur_application_id x, ur_user_id x, ur_role_id x) \<notin> ac_holders (access_of A)"
  shows "\<exists>A'. rbac_view H (T'(USER_ROLES := xs @ s # ys)) A' \<and> rbac_keys A' \<and> ur_id x \<notin> ur_id ` set (rb_user_roles A)
    \<and> access_of A' = (access_of A)\<lparr>ac_holders := insert (ur_application_id x, ur_user_id x, ur_role_id x) (ac_holders (access_of A))\<rparr>"
proof -
  have "view (user_role_from_row H) USER_ROLE_COLUMNS (xs @ ys) (rb_user_roles A)" using A(1) new(1) by (simp add: rbac_view_def)
  from view_inserted [where key = ur_id, OF this row(1)] have "\<exists>rows. view (user_role_from_row H) USER_ROLE_COLUMNS (xs @ s # ys) rows
      \<and> set rows = insert x (set (rb_user_roles A)) \<and> ur_id x \<notin> ur_id ` set (rb_user_roles A)
      \<and> (distinct (map ur_id (rb_user_roles A)) \<longrightarrow> distinct (map ur_id rows))"
    using authz_keys(3) new(1,2) by simp
  then obtain rows where rows: "view (user_role_from_row H) USER_ROLE_COLUMNS (xs @ s # ys) rows" "set rows = insert x (set (rb_user_roles A))"
    "ur_id x \<notin> ur_id ` set (rb_user_roles A)" "distinct (map ur_id (rb_user_roles A)) \<longrightarrow> distinct (map ur_id rows)"
    by blast
  let ?A = "A\<lparr>rb_user_roles := rows\<rparr>"
  have "rbac_view H (T'(USER_ROLES := xs @ s # ys)) ?A" using A(1) rows(1) by (simp add: rbac_view_def)
  moreover have "rbac_keys ?A" using A(2) rows(2-4) new(3) by (auto simp: rbac_keys_def inj_on_def)
  moreover have "access_of ?A = (access_of A)\<lparr>ac_holders := insert (ur_application_id x, ur_user_id x, ur_role_id x) (ac_holders (access_of A))\<rparr>"
    using row(2) by (intro access_eqI) (auto simp: rows(2))
  ultimately show ?thesis using rows(3) by blast
qed

lemma insert_role_permission_row:
  assumes A: "rbac_view H T' A" "rbac_keys A" and row: "role_permission_from_row H (map s ROLE_PERMISSION_COLUMNS) ROLE_PERMISSION_COLUMNS = Inr x" "rp_revoked_at x = None"
    and new: "T' ROLE_PERMISSIONS = xs @ ys" "\<forall>s \<in> set (T' ROLE_PERMISSIONS). s ''id'' \<noteq> Uuid (rp_id x)"
      "(rp_role_id x, rp_permission_id x) \<notin> ac_grants (access_of A)"
  shows "\<exists>A'. rbac_view H (T'(ROLE_PERMISSIONS := xs @ s # ys)) A' \<and> rbac_keys A' \<and> rp_id x \<notin> rp_id ` set (rb_role_permissions A)
    \<and> access_of A' = (access_of A)\<lparr>ac_grants := insert (rp_role_id x, rp_permission_id x) (ac_grants (access_of A))\<rparr>"
proof -
  have "view (role_permission_from_row H) ROLE_PERMISSION_COLUMNS (xs @ ys) (rb_role_permissions A)" using A(1) new(1) by (simp add: rbac_view_def)
  from view_inserted [where key = rp_id, OF this row(1)] have "\<exists>rows. view (role_permission_from_row H) ROLE_PERMISSION_COLUMNS (xs @ s # ys) rows
      \<and> set rows = insert x (set (rb_role_permissions A)) \<and> rp_id x \<notin> rp_id ` set (rb_role_permissions A)
      \<and> (distinct (map rp_id (rb_role_permissions A)) \<longrightarrow> distinct (map rp_id rows))"
    using authz_keys(4) new(1,2) by simp
  then obtain rows where rows: "view (role_permission_from_row H) ROLE_PERMISSION_COLUMNS (xs @ s # ys) rows" "set rows = insert x (set (rb_role_permissions A))"
    "rp_id x \<notin> rp_id ` set (rb_role_permissions A)" "distinct (map rp_id (rb_role_permissions A)) \<longrightarrow> distinct (map rp_id rows)"
    by blast
  let ?A = "A\<lparr>rb_role_permissions := rows\<rparr>"
  have "rbac_view H (T'(ROLE_PERMISSIONS := xs @ s # ys)) ?A" using A(1) rows(1) by (simp add: rbac_view_def)
  moreover have "rbac_keys ?A" using A(2) rows(2-4) new(3) by (auto simp: rbac_keys_def inj_on_def)
  moreover have "access_of ?A = (access_of A)\<lparr>ac_grants := insert (rp_role_id x, rp_permission_id x) (ac_grants (access_of A))\<rparr>"
    using row(2) by (intro access_eqI) (auto simp: rows(2))
  ultimately show ?thesis using rows(3) by blast
qed

section \<open>The operations refine the steps\<close>

definition stepped :: "access_op \<Rightarrow> rbac \<Rightarrow> tables \<Rightarrow> bool" where
  "stepped op A T' = (\<exists>A'. rbac_view H T' A' \<and> rbac_keys A' \<and> access_step op (access_of A) (access_of A'))"

lemma wp_create_role:
  assumes "rbac_view H (T w) A" "rbac_keys A"
  shows "wp (run_access_op H (CreateRole a name d)) (\<lambda>_ w'. stepped (CreateRole a name d) A (T w')) (\<lambda>_ w'. T w' = T w) w"
  unfolding run_access_op.simps create_role_def wp_await Let_def
proof (rule wp_device_now, rule wp_now_v7, goal_cases)
  case (1 now w1 i w2)
  then have T: "T w2 = T w" by (simp add: sameD)
  let ?r = "role_row_from \<lparr>ro_id = i, ro_application_id = a, ro_name = name, ro_description = d, ro_created_at = now, ro_updated_at = now\<rparr>"
  have row: "role_to_row ?r = Uuid i # tl (role_to_row ?r)" by (simp add: role_to_row_def role_row_from_def)
  show ?case
  proof (subst row, rule wp_authz_insert, goal_cases)
    case (1 s xs ys w3)
    have "role_from_row H (map s ROLE_COLUMNS) ROLE_COLUMNS = Inr ?r" by (rule authz_decode) (use 1(1) row in simp)
    from insert_role_row [OF assms this, of xs ys] 1(2-4) T obtain A' where "rbac_view H (T w3) A'" "rbac_keys A'"
      "i \<notin> rw_id ` set (rb_roles A)" "access_of A' = (access_of A)\<lparr>ac_roles := insert (a, i) (ac_roles (access_of A))\<rparr>"
      by (auto simp: role_row_from_def authz_keyed)
    moreover from this(3) have "\<forall>b. (b, i) \<notin> ac_roles (access_of A)" by auto
    ultimately show ?case unfolding wp_ok stepped_def access_step.simps by metis
  qed (simp add: sameD T)
qed

lemma wp_create_permission:
  assumes "rbac_view H (T w) A" "rbac_keys A"
  shows "wp (run_access_op H (CreatePermission a name d)) (\<lambda>_ w'. stepped (CreatePermission a name d) A (T w'))
    (\<lambda>_ w'. T w' = T w \<or> stepped (CreatePermission a name d) A (T w')) w"
  unfolding run_access_op.simps create_permission_def wp_await Let_def
proof (rule wp_device_now, rule wp_now_v7, goal_cases)
  case (1 now w1 i w2)
  then have T: "T w2 = T w" by (simp add: sameD)
  let ?p = "permission_row_from \<lparr>pm_id = i, pm_application_id = a, pm_name = name, pm_description = d, pm_created_at = now, pm_updated_at = now\<rparr>"
  have row: "permission_to_row ?p = Uuid i # tl (permission_to_row ?p)" by (simp add: permission_to_row_def permission_row_from_def)
  show ?case
  proof (subst row, rule wp_authz_insert, goal_cases)
    case (1 s xs ys w3)
    have "permission_from_row H (map s PERMISSION_COLUMNS) PERMISSION_COLUMNS = Inr ?p"
      by (rule authz_decode) (use 1(1) row in \<open>simp_all add: permission_row_from_def\<close>)
    from insert_permission_row [OF assms this, of xs ys] 1(2-4) T obtain A' where "rbac_view H (T w3) A'" "rbac_keys A'"
      "i \<notin> pw_id ` set (rb_permissions A)"
      "access_of A' = (access_of A)\<lparr>ac_permissions := insert (a, i, name) (ac_permissions (access_of A))\<rparr>"
      by (auto simp: permission_row_from_def authz_keyed)
    moreover from this(3) have "\<forall>b n. (b, i, n) \<notin> ac_permissions (access_of A)" by auto
    ultimately have "stepped (CreatePermission a name d) A (T w3)" unfolding stepped_def access_step.simps by metis
    then show ?case by (intro wp_permission_clear) (simp_all add: wp_simps sameD)
  qed (simp add: sameD T)
qed

lemma wp_delete_role:
  assumes A: "rbac_view H (T w) A" "rbac_keys A"
  shows "wp (run_access_op H (DeleteRole a r)) (\<lambda>_ w'. stepped (DeleteRole a r) A (T w')) (\<lambda>_ w'. T w' = T w) w"
  unfolding run_access_op.simps delete_role_by_id_def wp_await Let_def db_role_permissions_def db_user_roles_def
proof (rule wp_found_role [OF A(1)], goal_cases)
  case (1 role w1)
  note role = 1
  show ?case
  proof (rule wp_authz_rows, rule wp_authz_rows, rule wp_authorization_clear, rule wp_authz_delete, goal_cases)
    case (1 rps w2 urs w3 w4 w5)
    then have T: "T w4 = T w" using role by (simp add: sameD)
    from 1(7) delete_role_row [OF A, of r] role(2,3) show ?case by (auto simp: T stepped_def)
  qed (use role in \<open>simp_all add: sameD\<close>)
qed (simp add: sameD)

lemma wp_delete_permission:
  assumes A: "rbac_view H (T w) A" "rbac_keys A"
  shows "wp (run_access_op H (DeletePermission a p)) (\<lambda>_ w'. stepped (DeletePermission a p) A (T w')) (\<lambda>_ w'. T w' = T w) w"
  unfolding run_access_op.simps delete_permission_by_id_def wp_await
proof (rule wp_found_permission [OF A(1)], rule wp_authz_delete, goal_cases)
  case (1 found w1 n w2)
  from 1(3) delete_permission_row [OF A, of p] 1(1,2) show ?case by (auto simp: sameD stepped_def)
qed (simp_all add: sameD)

lemma wp_add_role:
  assumes A: "rbac_view H (T w) A" "rbac_keys A"
  shows "wp (run_access_op H (AddRole a u r)) (\<lambda>_ w'. stepped (AddRole a u r) A (T w')) (\<lambda>_ w'. T w' = T w) w"
  unfolding run_access_op.simps add_role_to_user_def wp_await
proof (rule wp_found_role [OF A(1)], goal_cases)
  case (1 role w1)
  note role = 1
  show ?case
  proof (rule wp_active_user_role [where A = A], goal_cases)
    case (2 w2)
    have T2: "T w2 = T w" using role 2 by (simp add: sameD)
    show ?case
      unfolding simp_thms if_True if_False wp_await
    proof (rule wp_device_now, rule wp_now_v7, goal_cases)
      case (1 now w3 i w4)
      then have T: "T w4 = T w" using T2 by (simp add: sameD)
      let ?u = "\<lparr>ur_id = i, ur_user_id = u, ur_application_id = a, ur_role_id = r, ur_revoked_at = None,
        ur_created_at = timestamp now, ur_updated_at = timestamp now\<rparr>"
      have row: "user_role_to_row ?u = Uuid i # tl (user_role_to_row ?u)" by (simp add: user_role_to_row_def)
      show ?case
      proof (subst row, rule wp_authz_insert, goal_cases)
        case (1 s xs ys w5)
        have "user_role_from_row H (map s USER_ROLE_COLUMNS) USER_ROLE_COLUMNS = Inr ?u" by (rule authz_decode) (use 1(1) row in simp)
        from insert_user_role_row [OF A this, of xs ys] 1(2-4) T 2(2) obtain A' where "rbac_view H (T w5) A'" "rbac_keys A'"
          "access_of A' = (access_of A)\<lparr>ac_holders := insert (a, u, r) (ac_holders (access_of A))\<rparr>"
          by (auto simp: authz_keyed simp del: access_of_simps)
        then show ?case unfolding stepped_def access_step.simps using role(2) by metis
      qed (simp add: sameD T)
    qed
  next
    case (3 x w2)
    then have "T w2 = T w" using role by (simp add: sameD)
    moreover have "access_of A = (access_of A)\<lparr>ac_holders := insert (a, u, r) (ac_holders (access_of A))\<rparr>"
      using 3 by (intro access_eqI) auto
    ultimately show ?case using A role(2) by (auto simp: wp_simps stepped_def simp del: access_of_simps)
  qed (use role A in \<open>simp_all add: sameD\<close>)
qed (simp add: sameD)

lemma wp_remove_role:
  assumes A: "rbac_view H (T w) A" "rbac_keys A"
  shows "wp (run_access_op H (RemoveRole a u r)) (\<lambda>_ w'. stepped (RemoveRole a u r) A (T w')) (\<lambda>_ w'. T w' = T w) w"
  unfolding run_access_op.simps remove_role_from_user_def wp_await
proof (rule wp_found_role [OF A(1)], goal_cases)
  case (1 role w1)
  note role = 1
  show ?case
  proof (rule wp_active_user_role [where A = A], goal_cases)
    case (3 x w2)
    then have T: "T w2 = T w" using role by (simp add: sameD)
    show ?case
      unfolding ok_or_simps wp_lift sum.case
    proof (rule wp_authz_delete, goal_cases)
      case (1 w3)
      obtain A' where "rbac_view H (T w3) A'" "rbac_keys A'"
        "access_of A' = (access_of A)\<lparr>ac_holders := ac_holders (access_of A) - {(a, u, r)}\<rparr>"
        using delete_user_role_row [OF A 3(2) refl 3(6)] 3(3-5) 1 T by auto
      moreover have "(a, u, r) \<in> ac_holders (access_of A)" using 3 by auto
      ultimately show ?case unfolding stepped_def access_step.simps using role(2) by metis
    qed (simp add: sameD T)
  qed (use role A in \<open>simp_all add: sameD wp_simps\<close>)
qed (simp add: sameD)

lemma wp_add_permission:
  assumes A: "rbac_view H (T w) A" "rbac_keys A"
  shows "wp (run_access_op H (AddPermission a r p)) (\<lambda>_ w'. stepped (AddPermission a r p) A (T w'))
    (\<lambda>_ w'. T w' = T w \<or> stepped (AddPermission a r p) A (T w')) w"
  unfolding run_access_op.simps add_permission_to_role_def wp_await
proof (rule wp_found_role_key [OF A(1)], rule wp_found_permission [where A = A], goal_cases)
  case (2 role w1 permission w2 n)
  note found = 2
  have T2: "T w2 = T w" using found by (simp add: sameD)
  show ?case
  proof (rule wp_db_role_permission [where A = A], goal_cases)
    case (2 w3)
    note free = 2
    have T3: "T w3 = T w" using free T2 by (simp add: sameD)
    show ?case
      unfolding simp_thms if_True if_False wp_await
    proof (rule wp_device_now, rule wp_now_v7, goal_cases)
      case (1 now w4 i w5)
      then have T: "T w5 = T w" using T3 by (simp add: sameD)
      let ?g = "\<lparr>rp_id = i, rp_role_id = r, rp_permission_id = p, rp_revoked_at = None\<rparr>"
      have row: "role_permission_to_row ?g (timestamp now) = Uuid i # tl (role_permission_to_row ?g (timestamp now))"
        by (simp add: role_permission_to_row_def)
      show ?case
      proof (subst row, rule wp_authz_insert, goal_cases)
        case (1 s xs ys w6)
        have "role_permission_from_row H (map s ROLE_PERMISSION_COLUMNS) ROLE_PERMISSION_COLUMNS = Inr ?g"
          by (rule authz_decode) (use 1(1) row in simp_all)
        from insert_role_permission_row [OF A this, of xs ys] 1(2-4) T free(2) obtain A' where "rbac_view H (T w6) A'" "rbac_keys A'"
          "access_of A' = (access_of A)\<lparr>ac_grants := insert (r, p) (ac_grants (access_of A))\<rparr>"
          by (auto simp: authz_keyed simp del: access_of_simps)
        then have "stepped (AddPermission a r p) A (T w6)" unfolding stepped_def access_step.simps using found by metis
        then show ?case by (intro wp_permission_clear) (simp_all add: sameD)
      qed (simp add: sameD T)
    qed
  next
    case (3 x w3)
    then have "T w3 = T w" using T2 by (simp add: sameD)
    moreover have "access_of A = (access_of A)\<lparr>ac_grants := insert (r, p) (ac_grants (access_of A))\<rparr>"
      using 3 by (intro access_eqI) auto
    ultimately have "stepped (AddPermission a r p) A (T w3)" unfolding stepped_def access_step.simps using A found by metis
    then show ?case by (simp add: wp_simps)
  qed (use T2 A in \<open>simp_all add: sameD\<close>)
qed (use A in \<open>simp_all add: sameD\<close>)

lemma wp_remove_permission:
  assumes A: "rbac_view H (T w) A" "rbac_keys A"
  shows "wp (run_access_op H (RemovePermission a r p)) (\<lambda>_ w'. stepped (RemovePermission a r p) A (T w')) (\<lambda>_ w'. T w' = T w) w"
  unfolding run_access_op.simps remove_permission_from_role_def wp_await
proof (rule wp_found_role_key [OF A(1)], rule wp_found_permission [where A = A], goal_cases)
  case (2 role w1 permission w2 n)
  note found = 2
  have T2: "T w2 = T w" using found by (simp add: sameD)
  show ?case
  proof (rule wp_db_role_permission [where A = A], goal_cases)
    case (3 x w3)
    then have T: "T w3 = T w" using T2 by (simp add: sameD)
    show ?case
      unfolding ok_or_simps wp_lift sum.case
    proof (rule wp_authz_delete, goal_cases)
      case (1 w4)
      obtain A' where "rbac_view H (T w4) A'" "rbac_keys A'"
        "access_of A' = (access_of A)\<lparr>ac_grants := ac_grants (access_of A) - {(r, p)}\<rparr>"
        using delete_role_permission_row [OF A 3(2) refl 3(5)] 3(3,4) 1 T by auto
      moreover have "(r, p) \<in> ac_grants (access_of A)" using 3 by auto
      ultimately show ?case unfolding stepped_def access_step.simps using found by metis
    qed (simp add: sameD T)
  qed (use T2 A in \<open>simp_all add: sameD wp_simps\<close>)
qed (use A in \<open>simp_all add: sameD\<close>)

lemma wp_access_op:
  assumes "rbac_view H (T w) A" "rbac_keys A"
  shows "wp (run_access_op H op) (\<lambda>_ w'. stepped op A (T w')) (\<lambda>_ w'. T w' = T w \<or> stepped op A (T w')) w"
proof (cases op)
  case (CreateRole a n d)
  show ?thesis unfolding CreateRole by (rule wp_conseq [OF wp_create_role [OF assms]]) simp_all
next
  case (DeleteRole a r)
  show ?thesis unfolding DeleteRole by (rule wp_conseq [OF wp_delete_role [OF assms]]) simp_all
next
  case (CreatePermission a n d)
  show ?thesis unfolding CreatePermission by (rule wp_create_permission [OF assms])
next
  case (DeletePermission a p)
  show ?thesis unfolding DeletePermission by (rule wp_conseq [OF wp_delete_permission [OF assms]]) simp_all
next
  case (AddRole a u r)
  show ?thesis unfolding AddRole by (rule wp_conseq [OF wp_add_role [OF assms]]) simp_all
next
  case (RemoveRole a u r)
  show ?thesis unfolding RemoveRole by (rule wp_conseq [OF wp_remove_role [OF assms]]) simp_all
next
  case (AddPermission a r p)
  show ?thesis unfolding AddPermission by (rule wp_add_permission [OF assms])
next
  case (RemovePermission a r p)
  show ?thesis unfolding RemovePermission by (rule wp_conseq [OF wp_remove_permission [OF assms]]) simp_all
qed

end

interpretation mem_authz: authz_db "mem_host schema_columns" mem_tables mem_conflicts schema_columns mem_time
  by unfold_locales simp

section \<open>Properties\<close>

text \<open>A role of an application, a permission of the application that the role has, and a user without the role.\<close>

definition demo_access :: mem where
  "demo_access = \<lparr>mem_tables = (\<lambda>t.
      if t = ROLES then [stored_row (schema_columns ROLES) (role_to_row (role_row_from \<lparr>ro_id = 10, ro_application_id = 1,
        ro_name = ''admin'', ro_description = None, ro_created_at = DateTime 900 0, ro_updated_at = DateTime 900 0\<rparr>))]
      else if t = PERMISSIONS then [stored_row (schema_columns PERMISSIONS) (permission_to_row (permission_row_from \<lparr>pm_id = 20,
        pm_application_id = 1, pm_name = ''roles.*'', pm_description = None, pm_created_at = DateTime 900 0, pm_updated_at = DateTime 900 0\<rparr>))]
      else if t = ROLE_PERMISSIONS then [stored_row (schema_columns ROLE_PERMISSIONS) (role_permission_to_row
        \<lparr>rp_id = 30, rp_role_id = 10, rp_permission_id = 20, rp_revoked_at = None\<rparr> 900)]
      else []), mem_conflicts = (\<lambda>_ _. []), mem_clock = 1000, mem_next = 50\<rparr>"

definition demo_rbac :: rbac where
  "demo_rbac = \<lparr>rb_roles = [\<lparr>rw_id = 10, rw_application_id = 1, rw_name = ''admin'', rw_description = None, rw_revoked_at = None,
      rw_created_at = 900, rw_updated_at = 900\<rparr>],
    rb_permissions = [\<lparr>pw_id = 20, pw_application_id = 1, pw_name = ''roles.*'', pw_description = None, pw_revoked_at = None,
      pw_created_at = 900, pw_updated_at = 900\<rparr>],
    rb_user_roles = [], rb_role_permissions = [\<lparr>rp_id = 30, rp_role_id = 10, rp_permission_id = 20, rp_revoked_at = None\<rparr>]\<rparr>"

lemmas demo_access_simps = demo_access_def demo_rbac_def role_to_row_def role_row_from_def permission_to_row_def permission_row_from_def
  role_permission_to_row_def user_role_to_row_def view_def ROLE_COLUMNS_def PERMISSION_COLUMNS_def ROLE_PERMISSION_COLUMNS_def
  USER_ROLE_COLUMNS_def role_from_row_def permission_from_row_def role_permission_from_row_def user_role_from_row_def

lemma demo_rbac_view: "rbac_view (mem_host schema_columns) (mem_tables demo_access) demo_rbac" "rbac_keys demo_rbac"
  by (simp_all add: rbac_view_def rbac_keys_def demo_access_simps run_simps inj_on_def)

text \<open>C19: the role and permission repositories refine an access state.  Every writing operation of the two
  repositories, when it succeeds, performs exactly its step (create, delete, grant or withdraw) on the roles,
  permissions, role holders and granted permissions that the tables denote; when it fails, the access state is
  unchanged or the step was performed.  Rows stay readable, primary keys distinct and relations unrepeated.\<close>

theorem access_refines:
  assumes "db_engine H T C schema_columns clock" and "rbac_view H (T w) A" and "rbac_keys A"
    and "run_access_op H op w = (answer, w')"
  shows "\<exists>A'. rbac_view H (T w') A' \<and> rbac_keys A' \<and> (access_step op (access_of A) (access_of A')
    \<or> (\<exists>e. answer = Inl e) \<and> access_of A' = access_of A)"
proof -
  have db: "authz_db H T C schema_columns clock" using assms(1) by (simp add: authz_db_def authz_db_axioms_def)
  note spec = authz_db.wp_access_op [OF db assms(2,3), of op]
  note stepped = authz_db.stepped_def [OF db]
  show ?thesis
  proof (cases answer)
    case (Inl e)
    then show ?thesis using wp_run_err [OF spec] assms(2-4) unfolding stepped by fastforce
  next
    case (Inr u)
    then show ?thesis using wp_run [OF spec] assms(4) unfolding stepped by blast
  qed
qed

theorem access_refines_witness:
  "\<exists>w'. run_access_op (mem_host schema_columns) (AddRole 1 5 10) demo_access = (Inr (), w')
    \<and> (\<exists>A'. rbac_view (mem_host schema_columns) (mem_tables w') A' \<and> (1, 5, 10) \<in> ac_holders (access_of A'))"
proof -
  obtain w' where run: "run_access_op (mem_host schema_columns) (AddRole 1 5 10) demo_access = (Inr (), w')"
    by (simp add: add_role_to_user_def db_role_def db_roles_def active_user_role_def db_user_roles_def authz_rows_def authz_select_def
        authz_column_def authz_insert_def ensure_role_clear_def ensure_authorization_clear_def role_try_from_def role_timestamp_def
        device_now_def demo_access_simps run_simps)
  from access_refines [OF memdb.db_engine_axioms demo_rbac_view run] obtain A' where "rbac_view (mem_host schema_columns) (mem_tables w') A'"
    "access_of A' = (access_of demo_rbac)\<lparr>ac_holders := insert (1, 5, 10) (ac_holders (access_of demo_rbac))\<rparr>"
    by (auto simp del: access_of_simps)
  moreover from this(2) have "(1, 5, 10) \<in> ac_holders (access_of A')" by (simp del: access_of_simps)
  ultimately show ?thesis using run by blast
qed

text \<open>C17: the permission check is exact.  When it answers, a user has a permission in an application if and only if the
  user holds a role of that application that has a permission of that application whose name matches; a positive answer
  rests on rows none of which is in conflict; the check changes nothing.\<close>

theorem has_permission_exact:
  assumes "db_engine H T C schema_columns clock" and "rbac_view H (T w) A"
    and "has_user_application_permission H user_id application_id required w = (answer, w')"
  shows "T w' = T w \<and> (\<forall>b. answer = Inr b \<longrightarrow> (b \<longleftrightarrow> may (access_of A) user_id application_id required)
    \<and> (b \<longrightarrow> vouched (C w) A user_id application_id required))"
proof -
  have "wp (has_user_application_permission H user_id application_id required)
      (\<lambda>b w'. T w' = T w \<and> (b \<longleftrightarrow> may (access_of A) user_id application_id required)
        \<and> (b \<longrightarrow> vouched (C w) A user_id application_id required)) (\<lambda>_ w'. T w' = T w) w"
    by (rule db_engine.wp_has_permission [OF assms(1,2)])
      (auto simp: db_engine.sameD [OF assms(1)] dest: vouched_may)
  from wp_run [OF this] wp_run_err [OF this] assms(3) show ?thesis by (cases answer) auto
qed

theorem has_permission_exact_witness:
  "\<exists>w b w'. has_user_application_permission (mem_host schema_columns) 5 1 ''roles.write'' w = (Inr b, w') \<and> b
    \<and> may (access_of (demo_rbac\<lparr>rb_user_roles := [\<lparr>ur_id = 40, ur_user_id = 5, ur_application_id = 1, ur_role_id = 10,
      ur_revoked_at = None, ur_created_at = 900, ur_updated_at = 900\<rparr>]\<rparr>)) 5 1 ''roles.write''"
proof -
  let ?u = "\<lparr>ur_id = 40, ur_user_id = 5, ur_application_id = 1, ur_role_id = 10,
      ur_revoked_at = None, ur_created_at = 900, ur_updated_at = 900\<rparr>"
  let ?w = "demo_access\<lparr>mem_tables := (mem_tables demo_access)(USER_ROLES := [stored_row (schema_columns USER_ROLES) (user_role_to_row ?u)])\<rparr>"
  have view: "rbac_view (mem_host schema_columns) (mem_tables ?w) (demo_rbac\<lparr>rb_user_roles := [?u]\<rparr>)"
    by (simp add: rbac_view_def demo_access_simps run_simps)
  have "has_user_application_permission (mem_host schema_columns) 5 1 ''roles.write'' ?w = (Inr True, ?w)"
    by (simp add: has_user_application_permission_def list_user_permissions_def list_user_roles_def ensure_user_roles_clear_def
        db_role_def db_roles_def db_user_roles_def db_permissions_def db_role_permissions_def authz_rows_def authz_select_def
        authz_column_def ensure_role_clear_def ensure_authorization_clear_def role_try_from_def permission_try_from_def role_timestamp_def
        permission_matches_def strip_suffix_def demo_access_simps run_simps del: set_filter)
  with has_permission_exact [OF memdb.db_engine_axioms view this] show ?thesis by blast
qed

end
