(* ===== verification/Management_Access.thy ===== *)
theory Management_Access
  imports Management_Server Role_Updates Selection_Policy Token_Codec
begin

text \<open>
  Who may do what through the management server: every request of a user is guarded by a validated token
  and a permission that the stored roles grant, every writing request performs its step of the access
  state, and a replication is admitted only between selected devices of one owner.
\<close>

section \<open>The network leaves the database alone\<close>

text \<open>The part \<open>f\<close> of the state is not touched by sending requests, by the cache of the service token and by the clock.\<close>

definition apart :: "'w web \<Rightarrow> ('w \<Rightarrow> 'b) \<Rightarrow> bool" where
  "apart W f = ((\<forall>rq. unchanged f (send W rq)) \<and> unchanged f (cached_token W) \<and> (\<forall>t. unchanged f (store_token W t))
    \<and> unchanged f (effect (system_time W) :: ('w, string, int) op))"

lemma apart_intros:
  assumes "apart W f"
  shows "keeps (\<lambda>w. Q (f w)) (send W rq)" "keeps (\<lambda>w. Q (f w)) (cached_token W)" "keeps (\<lambda>w. Q (f w)) (store_token W t)"
    "keeps (\<lambda>w. Q (f w)) (effect (system_time W) :: ('w, string, int) op)"
  using assms by (simp_all add: apart_def unchanged_keeps)

lemma apart_service_token:
  assumes "apart W f" shows "keeps (\<lambda>w. Q (f w)) (idp_service_access_token W P)"
  unfolding idp_service_access_token_def cached_service_token_def
  by (intro keeps_intros apart_intros [OF assms])

lemma apart_validate_actor:
  assumes "apart W f" shows "keeps (\<lambda>w. Q (f w)) (validate_actor_token W P t)"
  unfolding validate_actor_token_def
  by (intro keeps_intros apart_intros [OF assms] apart_service_token [OF assms])

lemma apart_endpoint:
  assumes "apart W f" shows "keeps (\<lambda>w. Q (f w)) (get_storage_endpoint_identity W P t)"
  unfolding get_storage_endpoint_identity_def
  by (intro keeps_intros apart_intros [OF assms] apart_service_token [OF assms])

lemma apart_from_request_parts:
  assumes "apart (rt_web R) f" shows "keeps (\<lambda>w. Q (f w)) (from_request_parts R header)"
  unfolding from_request_parts_def by (intro keeps_intros apart_validate_actor [OF assms])

section \<open>Guards\<close>

fun required_permission :: "user_request \<Rightarrow> string" where
  "required_permission (GetRoles _ _ _) = ''roles.read''"
| "required_permission (PostRole _ _ _) = ''roles.write''"
| "required_permission (DeleteRoleOf _ _) = ''roles.write''"
| "required_permission (GetUserRoles _ _) = ''roles.read''"
| "required_permission (PostUserRole _ _ _) = ''roles.write''"
| "required_permission (DeleteUserRole _ _ _) = ''roles.write''"
| "required_permission (GetPermissions _ _ _) = ''permissions.read''"
| "required_permission (PostPermission _ _ _) = ''permissions.write''"
| "required_permission (DeletePermissionOf _ _) = ''permissions.write''"
| "required_permission (GetRolePermissions _ _) = ''permissions.read''"
| "required_permission (PostRolePermission _ _ _) = ''permissions.write''"
| "required_permission (DeleteRolePermission _ _ _) = ''permissions.write''"
| "required_permission (GetRolesEverywhere _) = ''users.read''"
| "required_permission (PutSelection _ _) = ''devices.select''"
| "required_permission (DeleteSelection _) = ''devices.select''"
| "required_permission (DeleteResourceSelection _ _ _ _) = ''devices.select''"

fun request_op :: "user_request \<Rightarrow> access_op option" where
  "request_op (PostRole a name d) = Some (CreateRole a name d)"
| "request_op (DeleteRoleOf a r) = Some (DeleteRole a r)"
| "request_op (PostUserRole a u r) = Some (AddRole a u r)"
| "request_op (DeleteUserRole a u r) = Some (RemoveRole a u r)"
| "request_op (PostPermission a name d) = Some (CreatePermission a name d)"
| "request_op (DeletePermissionOf a p) = Some (DeletePermission a p)"
| "request_op (PostRolePermission a r p) = Some (AddPermission a r p)"
| "request_op (DeleteRolePermission a r p) = Some (RemovePermission a r p)"
| "request_op _ = None"

lemmas route_defs = route_list_roles_def route_create_role_def route_delete_role_def route_list_user_roles_def
  route_assign_role_to_user_def route_revoke_role_from_user_def route_list_permissions_def route_create_permission_def
  route_delete_permission_def route_list_role_permissions_def route_assign_permission_to_role_def
  route_revoke_permission_from_role_def route_list_user_roles_across_applications_def route_put_device_selection_def
  route_delete_device_selection_def route_delete_device_resource_selection_def

lemmas permission_names = ROLES_READ_PERMISSION_def ROLES_WRITE_PERMISSION_def PERMISSIONS_READ_PERMISSION_def
  PERMISSIONS_WRITE_PERMISSION_def USERS_READ_PERMISSION_def SELECTION_PERMISSION_def

text \<open>Every handler starts with the check of its permission.\<close>

lemma user_route_guarded:
  "\<exists>rest. user_route R u request =
    await (require_application_permission (rt_management_service R) u (required_permission request)) (\<lambda>_. rest)"
  by (cases request) (auto simp: respond_def route_defs permission_names await_assoc)

lemma native_service:
  "rt_host (native_router H W P aud) = H" "rt_web (native_router H W P aud) = W"
  "rt_control_plane (native_router H W P aud) = P" "rt_storage_audience (native_router H W P aud) = aud"
  "ms_role_repo (rt_management_service (native_router H W P aud)) = DbRoleRepo H"
  "ms_permission_repo (rt_management_service (native_router H W P aud)) = DbPermissionRepo H"
  by (simp_all add: native_router_def)

lemmas service_defs = ms_has_user_application_permission_def ms_list_roles_def ms_create_role_def ms_find_role_by_id_def
  ms_delete_role_by_id_def ms_add_role_to_user_def ms_remove_role_from_user_def ms_create_permission_def
  ms_find_permission_by_id_def ms_delete_permission_by_id_def ms_add_permission_to_role_def
  ms_remove_permission_from_role_def DbRoleRepo_def DbPermissionRepo_def

text \<open>The actor of a request: the bearer token was validated by the identity provider, as a token of a user for the
  management application.\<close>

definition actor :: "'w web \<Rightarrow> HostedControlPlane \<Rightarrow> header_value \<Rightarrow> 'w \<Rightarrow> ManagementAuthorization \<Rightarrow> bool" where
  "actor W P header w u = (\<exists>token claims w1. header = Some (Inr (''Bearer '' @ token))
    \<and> validate_actor_token W P token w = (Inr (claims, au_application_id u), w1)
    \<and> claim_principal_type claims = PrincipalUser \<and> claim_aud claims = ''idp-management''
    \<and> web_parse_uuid W (claim_sub claims) = Some (au_subject u))"

lemma bearer_prefix: "prefix ''Bearer '' s \<Longrightarrow> s = ''Bearer '' @ drop 7 s"
  by (auto simp: prefix_def)

lemma authorization_from_header_ok:
  "authorization_from_header v = Inr token \<longleftrightarrow> v = Inr (''Bearer '' @ token)"
proof
  assume "authorization_from_header v = Inr token"
  then obtain s where "v = Inr s" "prefix ''Bearer '' s" "token = drop 7 s"
    by (auto simp: authorization_from_header_def AUTHORIZATION_BEARER_PREFIX_def numeral_eq_Suc split: sum.splits if_splits)
  then show "v = Inr (''Bearer '' @ token)" using bearer_prefix by simp
qed (simp add: authorization_from_header_def AUTHORIZATION_BEARER_PREFIX_def)

lemma from_request_parts_actor:
  assumes "from_request_parts R header w = (Inr u, w')"
  shows "actor (rt_web R) (rt_control_plane R) header w u"
proof -
  from assms obtain v where v: "header = Some v" by (auto simp: from_request_parts_def returns split: option.splits)
  with assms show ?thesis
    by (auto simp: from_request_parts_def returns actor_def authorization_from_header_ok management_audience_def
        MANAGEMENT_APPLICATION_URI_def ok_or_def split: option.splits prod.splits)
qed

lemma wp_actor: "wp (from_request_parts R header) (\<lambda>u _. actor (rt_web R) (rt_control_plane R) header w u) (\<lambda>_ _. True) w"
  by (rule wp_I) (auto dest: from_request_parts_actor)

section \<open>Requests of users\<close>

context authz_db
begin

lemma wp_require_permission:
  assumes A: "rbac_view H (T w) A"
    and "\<And>w'. same w w' \<Longrightarrow> may (access_of A) (au_subject u) (au_application_id u) p \<Longrightarrow>
      vouched (C w) A (au_subject u) (au_application_id u) p \<Longrightarrow> Q () w'"
    and "\<And>e w'. same w w' \<Longrightarrow> X e w'"
  shows "wp (require_application_permission (rt_management_service (native_router H W P aud)) u p) Q X w"
  unfolding require_application_permission_def wp_await wp_map_err
  by (simp add: service_defs native_service)
    (rule wp_has_permission [OF A]; use assms(2,3) vouched_may in \<open>auto simp: wp_simps\<close>)

text \<open>The lookups before a change leave the tables as they are.\<close>

lemma keeps_reads:
  "keeps (\<lambda>w. T w = t) (authz_rows H f tb cs)"
  "keeps (\<lambda>w. T w = t) (ensure_authorization_clear H rows)" "keeps (\<lambda>w. T w = t) (ensure_permission_clear H rows)"
  by (rule keeps_wp, rule wp_authz_rows wp_authorization_clear wp_permission_clear; simp add: sameD)+

lemma keeps_role_clear: "keeps (\<lambda>w. T w = t) (ensure_role_clear H i)"
  unfolding ensure_role_clear_def by (rule keeps_reads)

lemma keeps_require_role: "keeps (\<lambda>w. T w = t) (require_role (native_router H W P aud) a r)"
  by (simp add: require_role_def service_defs native_service db_role_def db_roles_def)
    (intro keeps_intros keeps_reads keeps_role_clear)

lemma keeps_require_stored_permission: "keeps (\<lambda>w. T w = t) (require_permission (native_router H W P aud) a p)"
  by (simp add: require_permission_def service_defs native_service db_permission_def db_permissions_def)
    (intro keeps_intros keeps_reads)

text \<open>A writing handler performs its step, or fails and leaves the tables as they are or with the step performed.\<close>

lemma wp_after_reads:
  assumes "keeps (\<lambda>w'. T w' = T w) m" and "\<And>w'. T w' = T w \<Longrightarrow> wp n Q X w'" and "\<And>e w'. T w' = T w \<Longrightarrow> X e w'"
  shows "wp (await m (\<lambda>_. n)) Q X w"
  unfolding wp_await by (rule wp_conseq [OF wp_keeps [OF assms(1) refl]]) (simp_all add: assms(2,3))

lemma wp_user_write:
  assumes A: "rbac_view H (T w) A" "rbac_keys A" and "request_op request = Some op"
  shows "wp (user_route (native_router H W P aud) u request) (\<lambda>_ w'. stepped op A (T w'))
    (\<lambda>_ w'. T w' = T w \<or> stepped op A (T w')) w"
proof -
  let ?R = "native_router H W P aud"
  have step: "wp (run_access_op H op) (\<lambda>_ w'. stepped op A (T w')) (\<lambda>_ w'. T w' = T w \<or> stepped op A (T w')) w'"
    if "T w' = T w" for w' op
    using wp_access_op [of w' A op] A that by simp
  have guard: "keeps (\<lambda>w'. T w' = T w) (require_application_permission (rt_management_service ?R) u p)" for p
    by (rule keeps_wp) (rule wp_require_permission [of _ A], use A in \<open>simp_all add: sameD\<close>)
  note reads = guard keeps_require_role keeps_require_stored_permission
  note steps = step [where op = "CreateRole a n d" for a n d] step [where op = "DeleteRole a r" for a r]
    step [where op = "CreatePermission a n d" for a n d] step [where op = "DeletePermission a r" for a r]
    step [where op = "AddRole a v r" for a v r] step [where op = "RemoveRole a v r" for a v r]
    step [where op = "AddPermission a v r" for a v r] step [where op = "RemovePermission a v r" for a v r]
  note steps = steps [unfolded run_access_op.simps wp_await wp_ok_fun]
  show ?thesis
    using assms(3)
    by (cases request; clarsimp simp: respond_def route_defs await_assoc await_ok;
      intro wp_after_reads [OF reads(1)] wp_after_reads [OF reads(2)] wp_after_reads [OF reads(3)];
      simp add: wp_simps wp_ok_fun await_ok service_defs native_service steps)
qed

lemma wp_serve_user:
  assumes "apart W (\<lambda>w. (T w, C w))" and A: "rbac_view H (T w) A" "rbac_keys A"
  shows "wp (serve_user (native_router H W P aud) header request)
    (\<lambda>_ w'. (\<exists>u. actor W P header w u \<and> may (access_of A) (au_subject u) (au_application_id u) (required_permission request)
        \<and> vouched (C w) A (au_subject u) (au_application_id u) (required_permission request))
      \<and> (\<forall>op. request_op request = Some op \<longrightarrow> stepped op A (T w')))
    (\<lambda>_ w'. T w' = T w \<or> (\<exists>u. actor W P header w u
        \<and> may (access_of A) (au_subject u) (au_application_id u) (required_permission request)
        \<and> vouched (C w) A (au_subject u) (au_application_id u) (required_permission request))
      \<and> (\<forall>op. request_op request = Some op \<longrightarrow> stepped op A (T w'))) w"
    (is "wp _ ?Q ?X w")
proof -
  let ?R = "native_router H W P aud"
  have "wp (from_request_parts ?R header)
      (\<lambda>u w'. actor W P header w u \<and> T w' = T w \<and> C w' = C w) (\<lambda>_ w'. T w' = T w) w"
  proof (rule wp_conseq)
    have "keeps (\<lambda>w'. (T w', C w') = (T w, C w)) (from_request_parts ?R header)"
      by (rule apart_from_request_parts) (simp add: native_service assms(1))
    from wp_conj [OF wp_keeps [OF this refl] wp_actor]
    show "wp (from_request_parts ?R header) (\<lambda>u w'. (T w', C w') = (T w, C w) \<and> actor W P header w u)
      (\<lambda>_ w'. (T w', C w') = (T w, C w) \<and> True) w" by (simp add: native_service)
  qed auto
  then show ?thesis
    unfolding serve_user_def wp_await
  proof (rule wp_conseq, goal_cases)
    case (1 u w1)
    then have A1: "rbac_view H (T w1) A" using A by simp
    let ?may = "may (access_of A) (au_subject u) (au_application_id u) (required_permission request)
        \<and> vouched (C w) A (au_subject u) (au_application_id u) (required_permission request)"
    obtain rest where rest: "user_route ?R u request =
        await (require_application_permission (rt_management_service ?R) u (required_permission request)) (\<lambda>_. rest)"
      using user_route_guarded by blast
    have "wp (user_route ?R u request) (\<lambda>_ w'. ?may) (\<lambda>_ w'. ?may \<or> T w' = T w) w1"
      unfolding rest wp_await
      by (rule wp_require_permission [OF A1]) (use 1 in \<open>auto simp: sameD wp_I\<close>)
    moreover have "wp (user_route ?R u request) (\<lambda>_ w'. \<forall>op. request_op request = Some op \<longrightarrow> stepped op A (T w'))
      (\<lambda>_ w'. T w' = T w \<or> (\<forall>op. request_op request = Some op \<longrightarrow> stepped op A (T w'))) w1"
    proof (cases "request_op request")
      case (Some op)
      show ?thesis
        by (rule wp_conseq [OF wp_user_write [OF A1 A(2) Some]]) (use 1 Some in auto)
    qed (simp add: wp_I)
    ultimately show ?case by (rule wp_conseq [OF wp_conj]) (use 1 in auto)
  qed simp
qed

end

section \<open>Replication\<close>

text \<open>The identity provider named the device and the owner of an endpoint.\<close>

definition identified :: "'w web \<Rightarrow> HostedControlPlane \<Rightarrow> string \<Rightarrow> DeviceEndpointIdentity \<Rightarrow> bool" where
  "identified W P endpoint_id identity = (\<exists>w w'. get_storage_endpoint_identity W P endpoint_id w = (Inr identity, w'))"

text \<open>The device is not restricted by the administrator, and the owner selected the resource on it.\<close>

definition selected_on :: "'w host \<Rightarrow> tables \<Rightarrow> uuid \<Rightarrow> string \<Rightarrow> uuid \<Rightarrow> DeviceEndpointIdentity \<Rightarrow> bool" where
  "selected_on H T app kind rid d = ((\<exists>s \<in> set (T POLICY_TABLE). policy_admits H (ei_device_id d) (ei_owner_subject d) s)
    \<and> (\<exists>s \<in> set (T RESOURCE_TABLE). selection_row H (ei_device_id d) (ei_owner_subject d) app kind rid s))"

context db_engine
begin

lemma wp_selected_resources:
  assumes "restricts (T w0) (T w)"
  shows "wp (selected_resources_for_device H i)
    (\<lambda>found w'. restricts (T w0) (T w') \<and> (\<forall>r \<in> set found. \<exists>s \<in> set (T w0 RESOURCE_TABLE).
      selection_row H i (sel_owner_subject r) (sel_application_id r) (sel_kind r) (sel_resource_id r) s))
    (\<lambda>_ w'. restricts (T w0) (T w')) w"
    (is "wp _ ?I ?X w")
  unfolding selected_resources_for_device_def
proof (rule wp_resource_read, goal_cases)
  case (1 rows w1)
  then have start: "?I [] w1" using assms by (simp add: same_def)
  show ?case
  proof (rule wp_fold_op [where I = ?I], goal_cases)
    case (1 found r w2)
    then have w2: "restricts (T w0) (T w2)" by simp
    show ?case
    proof (cases "rs_device_id r = i \<and> rs_selected r")
      case True
      show ?thesis
        unfolding if_P [OF True] wp_await
      proof (rule wp_resource_selected, goal_cases)
        case (1 b w3)
        then have w3: "restricts (T w0) (T w3)" using w2 restricts_trans by blast
        show ?case unfolding wp_ok using 1 w3 admitted_before(2) [OF w3] \<open>?I found w2\<close> by (cases b) auto
      qed (use w2 restricts_trans in blast)
    next
      case False
      show ?thesis unfolding if_not_P [OF False] wp_ok using 1 by simp
    qed
  qed (rule start)
qed (use assms in \<open>simp add: same_def\<close>)

lemma wp_admit_endpoint:
  assumes "restricts (T w0) (T w)" "rt_host R = H"
  shows "wp (admit_endpoint R app kind rid d)
    (\<lambda>_ w'. restricts (T w0) (T w') \<and> selected_on H (T w0) app kind rid d) (\<lambda>_ w'. restricts (T w0) (T w')) w"
  unfolding admit_endpoint_def wp_await wp_map_err assms(2)
proof (rule wp_policy_get, goal_cases)
  case (1 res w1)
  have w1: "restricts (T w0) (T w1)" using assms(1) 1(1) by (rule restricts_trans)
  show ?case
  proof (cases "case res of None \<Rightarrow> False | Some policy \<Rightarrow> sp_admin_allowed policy")
    case True
    then obtain p where p: "res = Some p" "sp_admin_allowed p" by (auto split: option.splits)
    note policy = admitted_before(1) [OF w1 1(2) [OF p]]
    have "wp (selected_resources_for_device H (ei_device_id d)) (\<lambda>found. wp (if \<not> resource_is_selected found (ei_device_id d)
        (ei_owner_subject d) app kind rid then err denied else ok ())
        (\<lambda>_ w'. restricts (T w0) (T w') \<and> selected_on H (T w0) app kind rid d) (\<lambda>_ w'. restricts (T w0) (T w')))
        (\<lambda>_ w'. restricts (T w0) (T w')) w1"
      by (rule wp_conseq [OF wp_selected_resources [OF w1]])
        (use policy in \<open>fastforce simp: wp_simps resource_is_selected_def list_ex_iff selected_on_def\<close>)+
    then show ?thesis using True by (simp add: wp_simps)
  qed (use w1 in \<open>simp add: wp_simps\<close>)
qed (use assms(1) restricts_trans in blast)

end

text \<open>The request of a storage server: its token was validated by the identity provider, as a token of a client for the
  storage audience with the scope.\<close>

definition storage_client :: "'w web \<Rightarrow> HostedControlPlane \<Rightarrow> string \<Rightarrow> string \<Rightarrow> header_value \<Rightarrow> 'w \<Rightarrow> bool" where
  "storage_client W P audience scope header w = (\<exists>token claims app w1. header = Some (Inr (''Bearer '' @ token)) \<and> token \<noteq> []
    \<and> validate_actor_token W P token w = (Inr (claims, app), w1) \<and> claim_principal_type claims = PrincipalClient
    \<and> claim_aud claims = audience \<and> scope \<in> set (claim_scope claims))"

lemma bearer_token_Some: "bearer_token header = Some token \<Longrightarrow> header = Some (Inr (''Bearer '' @ token)) \<and> token \<noteq> []"
  using bearer_prefix by (fastforce simp: bearer_token_def split: option.splits sum.splits if_splits)

lemma authorize_storage_client:
  assumes "authorize_storage R header scope w = (Inr u, w')"
  shows "storage_client (rt_web R) (rt_control_plane R) (rt_storage_audience R) scope header w"
  using assms bearer_token_Some
  by (fastforce simp: authorize_storage_def returns storage_client_def replication_client_authorized_def ok_or_def
      split: option.splits prod.splits)

definition admissible :: "'w host \<Rightarrow> tables \<Rightarrow> 'w web \<Rightarrow> HostedControlPlane \<Rightarrow> ReplicationAdmissionRequest \<Rightarrow> bool" where
  "admissible H T W P request = (\<exists>app rid source target. web_parse_uuid W (ra_application_id request) = Some app
    \<and> web_parse_uuid W (ra_resource_id request) = Some rid
    \<and> ra_kind request \<in> {''database'', ''filesystem''} \<and> ra_operation request = ''synchronize''
    \<and> identified W P (ra_source_endpoint_id request) source \<and> identified W P (ra_target_endpoint_id request) target
    \<and> ei_device_id source \<noteq> ei_device_id target \<and> ei_owner_subject source = ei_owner_subject target
    \<and> (\<forall>d \<in> {source, target}. selected_on H T app (ra_kind request) rid d))"

context db_engine
begin

lemma wp_identified:
  assumes "apart W T" and "\<And>d w'. T w' = T w \<Longrightarrow> identified W P i d \<Longrightarrow> Q d w'" and "\<And>e w'. T w' = T w \<Longrightarrow> X e w'"
  shows "wp (get_storage_endpoint_identity W P i) Q X w"
proof (rule wp_keeps_returns [where I = "\<lambda>w'. T w' = T w"], goal_cases)
  case 1
  show ?case by (rule apart_endpoint [OF assms(1)])
next
  case (3 d w')
  then show ?case by (intro assms(2)) (auto simp: identified_def)
qed (simp_all add: assms(3))

lemma wp_admit_both:
  assumes "rt_host R = H" and "restricts (T w0) (T w)"
  shows "wp (for_each (admit_endpoint R app kind rid) ds)
    (\<lambda>_ w'. restricts (T w0) (T w') \<and> (\<forall>d \<in> set ds. selected_on H (T w0) app kind rid d)) (\<lambda>_ w'. restricts (T w0) (T w')) w"
proof (rule wp_for_each_prefix [where I = "\<lambda>ds w'. restricts (T w0) (T w') \<and> (\<forall>d \<in> set ds. selected_on H (T w0) app kind rid d)"],
    goal_cases)
  case (1 ys d zs w1)
  then have "restricts (T w0) (T w1)" by simp
  from wp_conseq [OF wp_admit_endpoint [OF this assms(1)]] 1 show ?case by auto
qed (use assms(2) in simp)

lemma wp_admission:
  assumes apart: "apart W T"
  shows "wp (route_replication_admission (native_router H W P aud) header request)
    (\<lambda>_ w'. restricts (T w) (T w') \<and> storage_client W P aud MANAGEMENT_REPLICATION_ADMIT_SCOPE header w
      \<and> admissible H (T w) W P request) (\<lambda>_ w'. restricts (T w) (T w')) w"
    (is "wp _ ?Q ?X w")
  unfolding route_replication_admission_def wp_await native_service
proof (rule wp_keeps_returns [where I = "\<lambda>w'. T w' = T w"], goal_cases)
  case 1
  show ?case unfolding authorize_storage_def native_service
    by (intro keeps_intros apart_validate_actor [OF apart])
next
  case (3 u w1)
  let ?R = "native_router H W P aud"
  have client: "storage_client W P aud MANAGEMENT_REPLICATION_ADMIT_SCOPE header w"
    using authorize_storage_client [OF 3(1)] by (simp add: native_service)
  have "wp (get_storage_endpoint_identity W P (ra_source_endpoint_id request)) (\<lambda>source.
      wp (get_storage_endpoint_identity W P (ra_target_endpoint_id request)) (\<lambda>target.
      wp (if ei_device_id source = ei_device_id target \<or> ei_owner_subject source \<noteq> ei_owner_subject target then err denied else
        for_each (admit_endpoint ?R app (ra_kind request) rid) [source, target]) ?Q ?X) (\<lambda>_ w'. restricts (T w) (T w'))) (\<lambda>_ w'. restricts (T w) (T w')) w1"
    if ids: "web_parse_uuid W (ra_application_id request) = Some app" "web_parse_uuid W (ra_resource_id request) = Some rid"
      "ra_kind request \<in> {''database'', ''filesystem''}" "ra_operation request = ''synchronize''" for app rid
  proof (rule wp_identified [OF apart], goal_cases)
    case (1 source w2)
    note s = 1
    show ?case
    proof (rule wp_identified [OF apart], goal_cases)
      case (1 target w3)
      have r: "restricts (T w) (T w3)" using 1 s 3 by simp
      show ?case
      proof (cases "ei_device_id source = ei_device_id target \<or> ei_owner_subject source \<noteq> ei_owner_subject target")
        case False
        show ?thesis
          unfolding if_not_P [OF False]
          by (rule wp_conseq [OF wp_admit_both [OF native_service(1) r]])
            (use client ids s 1 False in \<open>auto simp: admissible_def\<close>)
      qed (use r in \<open>simp add: wp_simps\<close>)
    qed (use s 3 in simp)
  qed (use 3 in simp)
  then show ?case using 3(2) by (auto simp: wp_simps wp_await_fun wp_map_err_fun ok_or_def split: option.split)
qed simp_all

end

section \<open>Selections of devices\<close>

definition published :: "'w web \<Rightarrow> HostedControlPlane \<Rightarrow> JwkPublic \<Rightarrow> bool" where
  "published W P jwk = (\<exists>keys w w'. jwk \<in> set keys
    \<and> get_from W (jwks_from_json W) (hcp_idp_base_url P) ''.well-known/jwks.json'' [] w = (Inr keys, w'))"

text \<open>A token to read storage, signed with a published key, of the issuer, for the owner and the audience, valid at some
  reading of the clock.\<close>

definition read_token :: "'w web \<Rightarrow> HostedControlPlane \<Rightarrow> string \<Rightarrow> string \<Rightarrow> string \<Rightarrow> bool" where
  "read_token W P audience owner token = (\<exists>jwk header claims detail time w w'. published W P jwk
    \<and> verify_jwt (web_crypto W) (claims_from_json (web_crypto W)) jwk token = Inr (header, claims)
    \<and> claim_iss claims = hcp_expected_issuer P \<and> claim_type claims = Bearer \<and> claim_use claims = UseAccess
    \<and> ''storage'' \<in> set (claim_scope claims) \<and> claim_sub claims = owner \<and> claim_aud claims = audience
    \<and> claim_resource claims = Some audience \<and> claim_authorization_details claims = Some [Storage detail]
    \<and> Read \<in> set (detail_actions detail)
    \<and> system_time W w = (time, w') \<and> claim_nbf claims \<le> as_secs time \<and> as_secs time < claim_exp claims)"

text \<open>The identity provider lists the device as approved for the bearer of the token.\<close>

definition approved_for :: "'w web \<Rightarrow> HostedControlPlane \<Rightarrow> string \<Rightarrow> uuid \<Rightarrow> bool" where
  "approved_for W P token device_id = (\<exists>devices device w w'. device \<in> set devices \<and> info_id device = device_id
    \<and> info_state device = Approved
    \<and> get_from W (devices_from_json W) (hcp_idp_base_url P) ''devices'' token w = (Inr devices, w'))"

text \<open>The storage service answers the bearer of the token that the resource belongs to the application.\<close>

definition belongs_to :: "'w web \<Rightarrow> HostedControlPlane \<Rightarrow> string \<Rightarrow> uuid \<Rightarrow> SelectionKind \<Rightarrow> uuid \<Rightarrow> bool" where
  "belongs_to W P token application_id kind i = (\<exists>resource w w'. sd_id resource = web_show_uuid W i
    \<and> sd_application_id resource = application_id
    \<and> get_from W (resource_from_json W) (hcp_storage_base_url P)
        ((case kind of SelectDatabase \<Rightarrow> ''databases/'' | SelectFilesystem \<Rightarrow> ''filesystems/'') @ web_show_uuid W i) token w
      = (Inr resource, w'))"

lemma find_set: "List.find P xs = Some x \<Longrightarrow> x \<in> set xs"
  using find_SomeD by fast

lemma verify_access_token_sound:
  assumes "verify_access_token W P token w = (Inr claims, w')" and "validate_storage_read_claims claims owner audience = Inr ()"
  shows "read_token W P audience owner token"
proof -
  let ?E = "web_crypto W"
  from assms(1) obtain keys jwk header time w1 w2 where
    "get_from W (jwks_from_json W) (hcp_idp_base_url P) ''.well-known/jwks.json'' [] w = (Inr keys, w1)" "jwk \<in> set keys"
    and token: "verify_jwt ?E (claims_from_json ?E) jwk token = Inr (header, claims)" "claim_iss claims = hcp_expected_issuer P"
      "claim_type claims = Bearer" "claim_use claims = UseAccess" "''storage'' \<in> set (claim_scope claims)"
      "system_time W w1 = (time, w2)" "claim_nbf claims \<le> as_secs time" "as_secs time < claim_exp claims"
    by (auto simp: verify_access_token_def returns Let_def check_issuer_def ok_or_def dest!: find_set
        split: prod.splits option.splits if_splits)
  then have "published W P jwk" unfolding published_def by blast
  moreover from assms(2) obtain detail where "claim_authorization_details claims = Some [Storage detail]"
    "Read \<in> set (detail_actions detail)" "claim_sub claims = owner" "claim_aud claims = audience" "claim_resource claims = Some audience"
    by (auto simp: validate_storage_read_claims_def split: option.splits list.splits AuthorizationDetail.splits if_splits)
  ultimately show ?thesis unfolding read_token_def using token by blast
qed

lemma validate_device_sound:
  assumes "validate_selection_device W P token owner audience device_id w = (Inr u, w')"
  shows "read_token W P audience owner token \<and> approved_for W P token device_id"
  using assms verify_access_token_sound
  by (fastforce simp: validate_selection_device_def lookup_approved_device_def returns approved_for_def list_ex_iff
      split: if_splits)

lemma validate_resource_sound:
  assumes "validate_storage_resource W P token owner audience application_id (resource_kind kind) (web_show_uuid W i) w = (Inr a, w')"
  shows "belongs_to W P token application_id kind i"
  using assms
  by (cases kind) (fastforce simp: validate_storage_resource_def lookup_storage_resource_def returns belongs_to_def ok_or_def Let_def
      split: if_splits option.splits)+

section \<open>An example\<close>

text \<open>A reader of tokens that finds the same header and the same claims in every token.\<close>

definition demo_read_claims :: StandardClaims where
  "demo_read_claims = \<lparr>claim_type = Bearer, claim_use = UseAccess, claim_exp = 2000, claim_iat = 900, claim_nbf = 900,
    claim_iss = ''https://idp'', claim_aud = ''storage'', claim_client_id = ''app'', claim_sub = ''5'',
    claim_principal_type = PrincipalUser, claim_resource = Some ''storage'',
    claim_authorization_details = Some [Storage \<lparr>detail_actions = [Read]\<rparr>], claim_scope = [''storage'']\<rparr>"

definition demo_header :: JwtHeader where
  "demo_header = \<lparr>hdr_alg = JWT_HEADER_ALG, hdr_typ = JWT_HEADER_TYP, hdr_kid = ''key'', hdr_jwk = None\<rparr>"

definition demo_published :: JwkPublic where
  "demo_published = \<lparr>jk_use = Signature, jk_kid = ''key'', jk_alg = EdDSA, jk_params = PublicEc ''secp256k1'' [] []\<rparr>"

definition demo_reader :: crypto where
  "demo_reader = mem_crypto\<lparr>b64url_decode := (\<lambda>s. Inr (str_bytes s)), header_from_json := (\<lambda>_. Inr demo_header),
    claims_from_json := (\<lambda>_. Inr demo_read_claims), verify_bytes := (\<lambda>_ _ _. Inr ())\<rparr>"

lemma demo_reads:
  "decode_jwt demo_reader (claims_from_json demo_reader) ''h.c.s'' = Inr (demo_header, demo_read_claims)"
  "verify_jwt demo_reader (claims_from_json demo_reader) demo_published ''h.c.s'' = Inr (demo_header, demo_read_claims)"
  by (simp_all add: demo_reader_def demo_published_def mem_crypto_def run_simps)

text \<open>The answers of an identity provider: tokens of given claims, two endpoints of one owner.\<close>

definition demo_web :: "StandardClaims \<Rightarrow> mem web" where
  "demo_web claims = \<lparr>parse_url = (\<lambda>_. None), join_url = (\<lambda>u p. Inr (u\<lparr>url_path := p\<rparr>)),
    push_segment = (\<lambda>u s. Some (u\<lparr>url_path := s\<rparr>)), ip_is_loopback = (\<lambda>_. False), build_client = Inr (),
    send = (\<lambda>rq. ok \<lparr>rs_status = 200, rs_chunks = [Inr (str_bytes (url_path (rq_url rq)))]\<rparr>),
    status_error = (\<lambda>_. []), token_from_json = (\<lambda>_. Inl []),
    introspection_from_json = (\<lambda>_. Inr \<lparr>is_claims = claims, is_application_id = ''1''\<rparr>),
    endpoint_from_json = (\<lambda>b. Inr (if b = str_bytes ''k1'' then \<lparr>ei_device_id = 1, ei_owner_subject = ''alice'', ei_endpoint_id = ''k1''\<rparr>
      else \<lparr>ei_device_id = 2, ei_owner_subject = ''alice'', ei_endpoint_id = ''k2''\<rparr>)),
    resource_from_json = (\<lambda>_. Inr \<lparr>sd_id = ''60'', sd_application_id = 50\<rparr>),
    devices_from_json = (\<lambda>_. Inr [\<lparr>info_id = 7, info_name = ''laptop'', info_public_key = ''k7'', info_address = [],
      info_state = Approved, info_created_at = 1, info_updated_at = 1, info_revoked_at = None\<rparr>]), trusted_from_json = (\<lambda>_. Inl []),
    jwks_from_json = (\<lambda>_. Inr [demo_published]),
    system_time = Pair 1000000000000, time_checked_add = (\<lambda>_ _. None),
    cached_token = ok (Some \<lparr>ct_value = ''service'', ct_valid_until = 2000000000000\<rparr>), store_token = (\<lambda>_. ok ()),
    web_parse_uuid = (\<lambda>s. if s = [] then None else Some (of_nat (undecimal s))),
    web_show_uuid = (\<lambda>u. if u = 5 then ''5'' else ''60''), web_crypto = demo_reader\<rparr>"

definition demo_plane :: HostedControlPlane where
  "demo_plane = (let u = \<lparr>url_scheme = ''https'', url_host = Some ''idp'', url_query = None, url_fragment = None,
      url_username = [], url_password = None, url_path = ''/''\<rparr> in
    \<lparr>hcp_idp_base_url = u, hcp_storage_base_url = u, hcp_expected_issuer = ''https://idp'',
     hcp_service_token_client = Some \<lparr>stc_client_id = ''management'', stc_client_secret = ''s'', stc_audience = ''idp''\<rparr>\<rparr>)"

definition demo_actor :: StandardClaims where
  "demo_actor = \<lparr>claim_type = Bearer, claim_use = UseAccess, claim_exp = 2000, claim_iat = 900, claim_nbf = 900,
    claim_iss = ''https://idp'', claim_aud = ''idp-management'', claim_client_id = ''app'', claim_sub = ''5'',
    claim_principal_type = PrincipalUser, claim_resource = None, claim_authorization_details = None, claim_scope = []\<rparr>"

definition demo_storage :: StandardClaims where
  "demo_storage = demo_actor\<lparr>claim_aud := ''storage'', claim_sub := ''storage-server'', claim_principal_type := PrincipalClient,
    claim_scope := [''management.replication.admit'']\<rparr>"

lemma demo_web_apart: "apart (demo_web claims) f"
  by (simp add: apart_def demo_web_def unchanged_def ok_def effect_def)

lemma demo_validate:
  "validate_actor_token (demo_web claims) demo_plane token w = (Inr (claims, 1), w)"
  by (simp add: validate_actor_token_def idp_service_access_token_def cached_service_token_def fresh_def RENEWAL_MARGIN_def
      service_url_def read_limited_body_def MAX_RESPONSE_SIZE_def is_success_def demo_web_def demo_plane_def op_defs ok_or_def
      undecimal_def Let_def str_bytes_def)

text \<open>The user 5 holds the role of the first application that may write roles.\<close>

definition demo_holder :: UserRoleRow where
  "demo_holder = \<lparr>ur_id = 40, ur_user_id = 5, ur_application_id = 1, ur_role_id = 10,
    ur_revoked_at = None, ur_created_at = 900, ur_updated_at = 900\<rparr>"

definition demo_granted :: mem where
  "demo_granted = demo_access\<lparr>mem_tables := (mem_tables demo_access)(USER_ROLES :=
    [stored_row (schema_columns USER_ROLES) (user_role_to_row demo_holder)])\<rparr>"

definition demo_granted_rbac :: rbac where
  "demo_granted_rbac = demo_rbac\<lparr>rb_user_roles := [demo_holder]\<rparr>"

lemma demo_granted_view:
  "rbac_view (mem_host schema_columns) (mem_tables demo_granted) demo_granted_rbac" "rbac_keys demo_granted_rbac"
  by (simp_all add: rbac_view_def rbac_keys_def demo_granted_def demo_granted_rbac_def demo_holder_def demo_access_simps run_simps inj_on_def)

lemma demo_actor_parts:
  "from_request_parts (native_router H (demo_web demo_actor) demo_plane audience) (Some (Inr ''Bearer t'')) w
    = (Inr \<lparr>au_subject = 5, au_application_id = 1\<rparr>, w)"
  by (simp add: from_request_parts_def authorization_from_header_def AUTHORIZATION_BEARER_PREFIX_def native_service demo_validate
      management_audience_def MANAGEMENT_APPLICATION_URI_def demo_actor_def op_defs ok_or_def)
    (simp add: demo_web_def undecimal_def op_defs)

lemmas access_run_simps = has_user_application_permission_def list_user_permissions_def list_user_roles_def ensure_user_roles_clear_def
  db_role_def db_roles_def db_user_roles_def db_permissions_def db_role_permissions_def authz_rows_def authz_select_def
  authz_column_def authz_insert_def ensure_role_clear_def ensure_authorization_clear_def role_try_from_def permission_try_from_def
  role_timestamp_def permission_matches_def strip_suffix_def active_user_role_def add_role_to_user_def device_now_def

definition demo_selector :: mem where
  "demo_selector = demo_granted\<lparr>mem_tables := (mem_tables demo_granted)(PERMISSIONS :=
    [stored_row (schema_columns PERMISSIONS) (permission_to_row (permission_row_from \<lparr>pm_id = 20, pm_application_id = 1,
      pm_name = ''devices.select'', pm_description = None, pm_created_at = DateTime 900 0, pm_updated_at = DateTime 900 0\<rparr>))])\<rparr>"

lemma demo_shows: "web_show_uuid (demo_web claims) 5 = ''5''" "web_show_uuid (demo_web claims) 60 = ''60''"
  by (simp_all add: demo_web_def)

lemma demo_gets: "get_from (demo_web c) from_json (hcp_idp_base_url demo_plane) path t w = lift (from_json (str_bytes path)) w"
    "get_from (demo_web c) from_json (hcp_storage_base_url demo_plane) path t w = lift (from_json (str_bytes path)) w"
  by (simp_all add: get_from_def service_url_def is_error_def demo_web_def demo_plane_def op_defs)

lemma demo_verified: "verify_access_token (demo_web c) demo_plane ''h.c.s'' w = (Inr demo_read_claims, w)"
proof -
  have "web_crypto (demo_web c) = demo_reader" "jwks_from_json (demo_web c) = (\<lambda>_. Inr [demo_published])"
    "system_time (demo_web c) = Pair 1000000000000" "hcp_expected_issuer demo_plane = ''https://idp''"
    by (simp_all add: demo_web_def demo_plane_def Let_def)
  then show ?thesis
    by (simp add: verify_access_token_def demo_reads demo_gets check_issuer_def as_secs_def ok_or_def op_defs Let_def)
      (simp add: demo_read_claims_def demo_header_def demo_published_def op_defs)
qed

lemma demo_storage_answers:
  "validate_selection_device (demo_web c) demo_plane ''h.c.s'' ''5'' ''storage'' 7 w = (Inr (), w)"
  "validate_storage_resource (demo_web c) demo_plane ''h.c.s'' ''5'' ''storage'' 50 Database ''60'' w = (Inr 50, w)"
proof -
  have claims: "validate_storage_read_claims demo_read_claims ''5'' ''storage'' = Inr ()"
    by (simp add: validate_storage_read_claims_def demo_read_claims_def)
  have web: "web_parse_uuid (demo_web c) ''60'' = Some 60"
    "resource_from_json (demo_web c) = (\<lambda>_. Inr \<lparr>sd_id = ''60'', sd_application_id = 50\<rparr>)"
    "\<exists>d. devices_from_json (demo_web c) = (\<lambda>_. Inr [d]) \<and> info_id d = 7 \<and> info_state d = Approved"
    by (simp add: demo_web_def undecimal_def, simp add: demo_web_def, force simp: demo_web_def)
  then show "validate_selection_device (demo_web c) demo_plane ''h.c.s'' ''5'' ''storage'' 7 w = (Inr (), w)"
    by (auto simp: validate_selection_device_def lookup_approved_device_def claims demo_verified demo_gets op_defs)
  show "validate_storage_resource (demo_web c) demo_plane ''h.c.s'' ''5'' ''storage'' 50 Database ''60'' w = (Inr 50, w)"
    using web by (simp add: validate_storage_resource_def lookup_storage_resource_def claims demo_verified demo_gets demo_shows
      ok_or_def op_defs Let_def)
qed

section \<open>Properties\<close>

text \<open>C21: every request of a user to the management server is guarded.  Either the request is refused and no table changed,
  or the identity provider validated the bearer token as a token of a user for the management application, and the roles
  stored for that user in the application of the token grant, through rows none of which is in conflict, the permission that
  the route names; and a request that creates, deletes, grants or withdraws performs exactly its step of the access state.\<close>

theorem management_requests_guarded:
  assumes "db_engine H T C schema_columns clock" and "apart W (\<lambda>w. (T w, C w))" and "rbac_view H (T w) A" and "rbac_keys A"
    and "serve_user (native_router H W P audience) header request w = (answer, w')"
  shows "(\<exists>e. answer = Inl e) \<and> T w' = T w
    \<or> (\<exists>u. actor W P header w u \<and> may (access_of A) (au_subject u) (au_application_id u) (required_permission request)
        \<and> vouched (C w) A (au_subject u) (au_application_id u) (required_permission request))
      \<and> (\<forall>op. request_op request = Some op \<longrightarrow>
          (\<exists>A'. rbac_view H (T w') A' \<and> rbac_keys A' \<and> access_step op (access_of A) (access_of A')))"
proof -
  have db: "authz_db H T C schema_columns clock" using assms(1) by (simp add: authz_db_def authz_db_axioms_def)
  note spec = authz_db.wp_serve_user [OF db assms(2-4), of P audience header request]
  note stepped = authz_db.stepped_def [OF db]
  show ?thesis
  proof (cases answer)
    case (Inl e)
    with wp_run_err [OF spec] assms(5) show ?thesis unfolding stepped by blast
  next
    case (Inr r)
    with wp_run [OF spec] assms(5) show ?thesis unfolding stepped by blast
  qed
qed

theorem management_requests_guarded_witness:
  "\<exists>w'. serve_user (native_router (mem_host schema_columns) (demo_web demo_actor) demo_plane ''storage'') (Some (Inr ''Bearer t''))
      (PostUserRole 1 6 10) demo_granted = (Inr NoContent, w')
    \<and> (\<exists>A'. rbac_view (mem_host schema_columns) (mem_tables w') A' \<and> (1, 6, 10) \<in> ac_holders (access_of A'))"
proof -
  let ?R = "native_router (mem_host schema_columns) (demo_web demo_actor) demo_plane ''storage''"
  have "has_user_application_permission (mem_host schema_columns) 5 1 ''roles.write'' demo_granted = (Inr True, demo_granted)"
    by (simp add: access_run_simps demo_access_simps demo_granted_def demo_holder_def run_simps del: set_filter)
  moreover have "\<exists>r. db_role (mem_host schema_columns) 1 10 demo_granted = (Inr (Some r), demo_granted)"
    by (simp add: access_run_simps demo_access_simps demo_granted_def run_simps del: set_filter)
  moreover have "\<exists>w'. add_role_to_user (mem_host schema_columns) 1 6 10 demo_granted = (Inr (), w')"
    by (simp add: access_run_simps demo_access_simps demo_granted_def demo_holder_def run_simps del: set_filter)
  ultimately have run: "\<exists>w'. user_route ?R \<lparr>au_subject = 5, au_application_id = 1\<rparr> (PostUserRole 1 6 10) demo_granted = (Inr NoContent, w')"
    by (auto simp: respond_def route_assign_role_to_user_def require_application_permission_def require_role_def permission_names
        service_defs native_service op_defs)
  from run obtain w' where served: "serve_user ?R (Some (Inr ''Bearer t'')) (PostUserRole 1 6 10) demo_granted = (Inr NoContent, w')"
    using demo_actor_parts by (auto simp: serve_user_def await_def)
  from management_requests_guarded [OF memdb.db_engine_axioms demo_web_apart demo_granted_view served] obtain A' where
    "rbac_view (mem_host schema_columns) (mem_tables w') A'" "access_step (AddRole 1 6 10) (access_of demo_granted_rbac) (access_of A')"
    by (auto simp del: access_step.simps access_of_simps)
  moreover from this(2) have "(1, 6, 10) \<in> ac_holders (access_of A')" by (simp del: access_of_simps)
  ultimately show ?thesis using served by blast
qed

text \<open>C23: a replication is admitted only between selected devices of one owner.  When the management server answers that two
  endpoints may synchronise a resource, the bearer token was validated as one of a client for the storage audience with the
  admission scope, the identity provider named two different devices of one owner for the endpoints, and on each of them the
  administrator allowed the owner's selections and the resource was selected.  On every outcome the selections change only
  towards restriction.\<close>

theorem replication_admission_sound:
  assumes "db_engine H T C schema_columns clock" and "apart W T"
    and "route_replication_admission (native_router H W P audience) header request w = (answer, w')"
  shows "restricts (T w) (T w') \<and> (\<forall>u. answer = Inr u \<longrightarrow>
    storage_client W P audience ''management.replication.admit'' header w \<and> admissible H (T w) W P request)"
proof -
  note spec = db_engine.wp_admission [OF assms(1,2), of P audience header request w]
  show ?thesis
    using wp_run [OF spec] wp_run_err [OF spec] assms(3)
    by (cases answer) (auto simp: MANAGEMENT_REPLICATION_ADMIT_SCOPE_def)
qed

theorem replication_admission_sound_witness:
  "\<exists>w'. route_replication_admission (native_router (mem_host schema_columns) (demo_web demo_storage) demo_plane ''storage'')
      (Some (Inr ''Bearer t'')) \<lparr>ra_source_endpoint_id = ''k1'', ra_target_endpoint_id = ''k2'', ra_application_id = ''50'',
        ra_kind = ''database'', ra_resource_id = ''60'', ra_operation = ''synchronize''\<rparr> two_peers = (Inr (), w')
    \<and> restricts (mem_tables two_peers) (mem_tables w')"
proof -
  let ?R = "native_router (mem_host schema_columns) (demo_web demo_storage) demo_plane ''storage''"
  let ?r = "\<lparr>ra_source_endpoint_id = ''k1'', ra_target_endpoint_id = ''k2'', ra_application_id = ''50'',
        ra_kind = ''database'', ra_resource_id = ''60'', ra_operation = ''synchronize''\<rparr>"
  have "authorize_storage ?R (Some (Inr ''Bearer t'')) MANAGEMENT_REPLICATION_ADMIT_SCOPE two_peers = (Inr (), two_peers)"
    by (simp add: authorize_storage_def bearer_token_def native_service demo_validate replication_client_authorized_def
        demo_storage_def demo_actor_def MANAGEMENT_REPLICATION_ADMIT_SCOPE_def op_defs ok_or_def)
  moreover have "web_parse_uuid (demo_web demo_storage) ''50'' = Some 50" "web_parse_uuid (demo_web demo_storage) ''60'' = Some 60"
    by (simp_all add: demo_web_def undecimal_def)
  moreover have "get_storage_endpoint_identity (demo_web demo_storage) demo_plane ''k1'' w
      = (Inr \<lparr>ei_device_id = 1, ei_owner_subject = ''alice'', ei_endpoint_id = ''k1''\<rparr>, w)"
    "get_storage_endpoint_identity (demo_web demo_storage) demo_plane ''k2'' w
      = (Inr \<lparr>ei_device_id = 2, ei_owner_subject = ''alice'', ei_endpoint_id = ''k2''\<rparr>, w)" for w
    by (simp_all add: get_storage_endpoint_identity_def idp_service_access_token_def cached_service_token_def fresh_def RENEWAL_MARGIN_def
      service_url_def read_limited_body_def MAX_RESPONSE_SIZE_def is_success_def demo_web_def demo_plane_def op_defs ok_or_def
      Let_def str_bytes_def)
  moreover have "for_each (admit_endpoint ?R 50 ''database'' 60)
      [\<lparr>ei_device_id = 1, ei_owner_subject = ''alice'', ei_endpoint_id = ''k1''\<rparr>,
       \<lparr>ei_device_id = 2, ei_owner_subject = ''alice'', ei_endpoint_id = ''k2''\<rparr>] two_peers = (Inr (), two_peers)"
    by (simp add: admit_endpoint_def native_service selected_resources_for_device_def resource_is_selected_def resource_select_def
      selection_run_simps run_simps two_peers_simps trim_id white_defs)
  ultimately have run: "route_replication_admission ?R (Some (Inr ''Bearer t'')) ?r two_peers = (Inr (), two_peers)"
    by (simp add: route_replication_admission_def native_service op_defs ok_or_def)
  from replication_admission_sound [OF memdb.db_engine_axioms demo_web_apart run] run show ?thesis by blast
qed



end
