(* ===== verification/Bootstrap.thy ===== *)
theory Bootstrap
  imports Enrollment
begin

text \<open>
  Grants for new devices of the identity provider (\<open>crates/idp-server/src/bootstrap\<close>): the registry of
  grants, which a new device presents over a peer-to-peer connection, and the handler of that
  connection.  Every operation of the registry runs under a lock and is one step; histories of steps,
  in any order and from any number of connections, are a relation.  The handler of one connection is
  interrupted by the calls of the registry that other tasks make between its own.  Instants are
  nanoseconds of the monotonic clock.  The connection, the synchronisation, the clock and what the
  other tasks do are external.
\<close>

section \<open>The registry\<close>

type_synonym instant = nat

type_synonym endpoint_id = "byte list"

record BootstrapGrant =
  bg_endpoint_id :: endpoint_id
  bg_device_id :: uuid
  bg_enrollment_code_hash :: "byte list"
  bg_expires_at :: instant
  bg_in_use :: bool

record BootstrapRegistry =
  br_grants :: "string \<rightharpoonup> BootstrapGrant"
  br_admission :: "byte list option"

definition GRANT_TTL :: nat where
  "GRANT_TTL = 15 * 60 * 1000000000"

text \<open>\<open>add\<close> is \<open>SystemTime::checked_add\<close>; system times are nanoseconds since the Unix epoch.\<close>

definition expires_at_unix :: "(int \<Rightarrow> nat \<Rightarrow> int option) \<Rightarrow> int \<Rightarrow> instant \<Rightarrow> BootstrapGrant \<Rightarrow> int" where
  "expires_at_unix add system_now now g =
    (case add system_now (bg_expires_at g - now) of None \<Rightarrow> 0
     | Some expiry \<Rightarrow> if expiry < 0 then 0 else sint (word_of_int (expiry div 1000000000) :: 64 word))"

definition empty_registry :: BootstrapRegistry where
  "empty_registry = \<lparr>br_grants = Map.empty, br_admission = None\<rparr>"

definition set_admission_server :: "byte list \<Rightarrow> BootstrapRegistry \<Rightarrow> BootstrapRegistry" where
  "set_admission_server alpn B = B\<lparr>br_admission := Some alpn\<rparr>"

text \<open>\<open>grants.retain(..)\<close> reads the clock at every entry: \<open>at\<close> is what it reads there.\<close>

definition retain :: "(string \<Rightarrow> instant) \<Rightarrow> (string \<rightharpoonup> BootstrapGrant) \<Rightarrow> (string \<rightharpoonup> BootstrapGrant)" where
  "retain at grants = (\<lambda>i. case grants i of None \<Rightarrow> None | Some g \<Rightarrow> if bg_expires_at g > at i then Some g else None)"

text \<open>The last component is the peer that the network server is told to admit, if there is one.\<close>

definition register_grant :: "instant \<Rightarrow> (string \<Rightarrow> instant) \<Rightarrow> string \<Rightarrow> endpoint_id \<Rightarrow> uuid \<Rightarrow> byte list \<Rightarrow> BootstrapRegistry
    \<Rightarrow> (string \<times> BootstrapGrant) \<times> BootstrapRegistry \<times> (endpoint_id \<times> byte list \<times> nat) option" where
  "register_grant now at grant_id endpoint_id device_id enrollment_code_hash B =
    (let grant = \<lparr>bg_endpoint_id = endpoint_id, bg_device_id = device_id, bg_enrollment_code_hash = enrollment_code_hash,
        bg_expires_at = now + GRANT_TTL, bg_in_use = False\<rparr> in
     ((grant_id, grant), B\<lparr>br_grants := (retain at (br_grants B))(grant_id \<mapsto> grant)\<rparr>,
      map_option (\<lambda>alpn. (endpoint_id, alpn, GRANT_TTL)) (br_admission B)))"

definition get_grant :: "string \<Rightarrow> BootstrapRegistry \<Rightarrow> BootstrapGrant option" where
  "get_grant grant_id B = br_grants B grant_id"

definition reserve :: "(string \<Rightarrow> instant) \<Rightarrow> string \<Rightarrow> endpoint_id \<Rightarrow> BootstrapRegistry \<Rightarrow> bool \<times> BootstrapRegistry" where
  "reserve at grant_id endpoint_id B =
    (let grants = retain at (br_grants B); kept = B\<lparr>br_grants := grants\<rparr> in
     case grants grant_id of None \<Rightarrow> (False, kept)
     | Some grant \<Rightarrow>
       if bg_endpoint_id grant \<noteq> endpoint_id \<or> bg_in_use grant then (False, kept)
       else (True, B\<lparr>br_grants := grants(grant_id \<mapsto> grant\<lparr>bg_in_use := True\<rparr>)\<rparr>))"

definition finish :: "string \<Rightarrow> endpoint_id \<Rightarrow> bool \<Rightarrow> BootstrapRegistry \<Rightarrow> BootstrapRegistry" where
  "finish grant_id endpoint_id success B =
    (case br_grants B grant_id of None \<Rightarrow> B
     | Some grant \<Rightarrow>
       if bg_endpoint_id grant \<noteq> endpoint_id then B
       else if success then B\<lparr>br_grants := (br_grants B)(grant_id := None)\<rparr>
       else B\<lparr>br_grants := (br_grants B)(grant_id \<mapsto> grant\<lparr>bg_in_use := False\<rparr>)\<rparr>)"

section \<open>The handler of a connection\<close>

datatype io_error = InvalidData string | PermissionDenied string | OtherIo string

text \<open>A call of the registry by some task, with the readings of the clock that it makes.\<close>

datatype registry_call = AdmissionCall "byte list"
  | RegisterCall instant "string \<Rightarrow> instant" string endpoint_id uuid "byte list"
  | ReserveCall "string \<Rightarrow> instant" string endpoint_id | FinishCall string endpoint_id bool

fun act :: "registry_call \<Rightarrow> BootstrapRegistry \<Rightarrow> BootstrapRegistry" where
  "act (AdmissionCall alpn) B = set_admission_server alpn B"
| "act (RegisterCall now at i e d h) B = fst (snd (register_grant now at i e d h B))"
| "act (ReserveCall at i e) B = snd (reserve at i e B)"
| "act (FinishCall i e success) B = finish i e success B"

text \<open>The stream of a connection, the synchronisation of the databases, the clock, and the calls of the registry that other
  tasks make while the handler waits in a state of the world.\<close>

record 'w bootstrap_net =
  bn_remote_id :: endpoint_id
  bn_accept_bi :: "('w, string, unit) op"
  bn_read_exact :: "nat \<Rightarrow> ('w, string, byte list) op"
  bn_write_all :: "byte list \<Rightarrow> ('w, string, unit) op"
  bn_from_utf8 :: "byte list \<Rightarrow> string option"
  bn_synchronize :: "('w, string, unit) op"
  bn_closed :: "'w \<Rightarrow> unit \<times> 'w"
  bn_instants :: "'w \<Rightarrow> (string \<Rightarrow> instant) \<times> 'w"
  bn_show_endpoint :: "endpoint_id \<Rightarrow> string"
  bn_others :: "'w \<Rightarrow> registry_call list"

type_synonym ('w, 'a) io = "(BootstrapRegistry \<times> 'w, io_error, 'a) op"

definition in_world :: "('w, 'e, 'a) op \<Rightarrow> (BootstrapRegistry \<times> 'w, 'e, 'a) op" where
  "in_world m s = (case m (snd s) of (r, w) \<Rightarrow> (r, (fst s, w)))"

definition in_grants :: "(BootstrapRegistry \<Rightarrow> 'a \<times> BootstrapRegistry) \<Rightarrow> (BootstrapRegistry \<times> 'w, 'e, 'a) op" where
  "in_grants f s = (case f (fst s) of (a, B) \<Rightarrow> (Inr a, (B, snd s)))"

text \<open>Other tasks may run between two calls of the registry and while an operation is awaited.\<close>

definition yield :: "'w bootstrap_net \<Rightarrow> (BootstrapRegistry \<times> 'w, 'e, unit) op" where
  "yield N s = (Inr (), (fold act (bn_others N (snd s)) (fst s), snd s))"

definition awaiting :: "'w bootstrap_net \<Rightarrow> ('w, 'e, 'a) op \<Rightarrow> (BootstrapRegistry \<times> 'w, 'e, 'a) op" where
  "awaiting N m s = (case m (snd s) of (r, w) \<Rightarrow> (r, (fold act (bn_others N w) (fst s), w)))"

definition finish_op :: "string \<Rightarrow> endpoint_id \<Rightarrow> bool \<Rightarrow> ('w, unit) io" where
  "finish_op grant_id endpoint_id success = in_grants (\<lambda>B. ((), finish grant_id endpoint_id success B))"

definition MAX_GRANT_BYTES :: nat where
  "MAX_GRANT_BYTES = 256"

definition u16_from_be_bytes :: "byte list \<Rightarrow> nat" where
  "u16_from_be_bytes bs = foldl (\<lambda>n b. 256 * n + unat b) 0 bs"

text \<open>The device of the grant is approved with the code of the grant, or is already the approved device of the peer.\<close>

definition approve_registered :: "'w DeviceRepo \<Rightarrow> 'w bootstrap_net \<Rightarrow> string \<Rightarrow> ('w, unit) io" where
  "approve_registered D N grant_id =
    await (yield N) (\<lambda>_. await (in_grants (\<lambda>B. (get_grant grant_id B, B))) (\<lambda>found.
    await (lift (ok_or (PermissionDenied ''bootstrap grant expired'') found)) (\<lambda>grant.
    await (map_err (\<lambda>e. OtherIo (ManagementError_to_string e))
      (awaiting N (repo_approve D (bg_device_id grant) (bg_enrollment_code_hash grant)))) (\<lambda>approved.
    if approved \<noteq> None then ok () else
    await (map_err (\<lambda>e. OtherIo (ManagementError_to_string e))
      (awaiting N (repo_find_approved_by_public_key D (bn_show_endpoint N (bn_remote_id N))))) (\<lambda>device.
    if case device of None \<Rightarrow> False | Some d \<Rightarrow> dev_id d = bg_device_id grant then ok ()
    else err (PermissionDenied ''registered device approval failed''))))))"

definition serve_grant :: "'w DeviceRepo \<Rightarrow> 'w bootstrap_net \<Rightarrow> string \<Rightarrow> ('w, unit) io" where
  "serve_grant D N grant_id =
    (let remote_id = bn_remote_id N in
    await (attempt_op (approve_registered D N grant_id)) (\<lambda>approval.
    case approval of Inl e \<Rightarrow> await (finish_op grant_id remote_id False) (\<lambda>_. err e)
    | Inr _ \<Rightarrow>
      await (attempt_op (awaiting N (bn_write_all N (str_bytes ''OK'')))) (\<lambda>written.
      case written of Inl e \<Rightarrow> await (finish_op grant_id remote_id False) (\<lambda>_. err (OtherIo e))
      | Inr _ \<Rightarrow>
        await (attempt_op (awaiting N (bn_synchronize N))) (\<lambda>result.
        await (finish_op grant_id remote_id (case result of Inl _ \<Rightarrow> False | Inr _ \<Rightarrow> True)) (\<lambda>_.
        case result of Inl e \<Rightarrow> err (OtherIo e)
        | Inr _ \<Rightarrow> await (awaiting N (effect (bn_closed N))) (\<lambda>_. ok ()))))))"

definition handle_bootstrap :: "'w DeviceRepo \<Rightarrow> 'w bootstrap_net \<Rightarrow> ('w, unit) io" where
  "handle_bootstrap D N =
    await (map_err OtherIo (awaiting N (bn_accept_bi N))) (\<lambda>_.
    await (map_err OtherIo (awaiting N (bn_read_exact N 2))) (\<lambda>length_bytes.
    let len = u16_from_be_bytes length_bytes in
    if len = 0 \<or> len > MAX_GRANT_BYTES then err (InvalidData ''invalid bootstrap grant length'') else
    await (map_err OtherIo (awaiting N (bn_read_exact N len))) (\<lambda>bytes.
    await (lift (ok_or (InvalidData ''invalid bootstrap grant'') (bn_from_utf8 N bytes))) (\<lambda>grant_id.
    await (in_world (effect (bn_instants N))) (\<lambda>at.
    await (in_grants (reserve at grant_id (bn_remote_id N))) (\<lambda>reserved.
    if \<not> reserved then err (PermissionDenied ''bootstrap grant denied'') else
    serve_grant D N grant_id))))))"

section \<open>Histories of the registry\<close>

datatype grant_event = Configure "byte list" | Register string endpoint_id instant | Reserve string endpoint_id bool
  | Finish string endpoint_id bool

text \<open>A state with the latest instant that was read under the lock; the clock does not run backwards.  A registration reads
  the start of its grant before it takes the lock, perhaps long before.\<close>

inductive grant_step :: "BootstrapRegistry \<times> instant \<Rightarrow> grant_event \<Rightarrow> BootstrapRegistry \<times> instant \<Rightarrow> bool" where
  configures: "grant_step (B, t) (Configure alpn) (set_admission_server alpn B, t)"
| registers: "(\<And>i. t \<le> at i \<and> now \<le> at i \<and> at i \<le> t') \<Longrightarrow> register_grant now at i e d h B = (g, B', p) \<Longrightarrow>
    grant_step (B, t) (Register i e now) (B', t')"
| reserves: "(\<And>i. t \<le> at i \<and> at i \<le> t') \<Longrightarrow> reserve at i e B = (b, B') \<Longrightarrow> grant_step (B, t) (Reserve i e b) (B', t')"
| finishes: "grant_step (B, t) (Finish i e b) (finish i e b B, t)"

inductive grant_run :: "grant_event list \<Rightarrow> BootstrapRegistry \<times> instant \<Rightarrow> bool" where
  starts: "grant_run [] (empty_registry, t)"
| steps: "grant_run es s \<Longrightarrow> grant_step s ev s' \<Longrightarrow> grant_run (es @ [ev]) s'"

inductive_cases grant_stepE: "grant_step s ev s'"

text \<open>What a history says of a grant: the peer it is bound to, when it ends, and whether it is in use.  A registration
  starts it anew, a success of its peer ends it, a failure of its peer frees it.\<close>

fun track :: "string \<Rightarrow> grant_event \<Rightarrow> (endpoint_id \<times> instant \<times> bool) option \<Rightarrow> (endpoint_id \<times> instant \<times> bool) option" where
  "track i (Configure _) st = st"
| "track i (Register j e now) st = (if j = i then Some (e, now + GRANT_TTL, False) else st)"
| "track i (Reserve j e b) st = (if j = i \<and> b then map_option (\<lambda>(p, d, u). (p, d, True)) st else st)"
| "track i (Finish j e b) st = (case st of None \<Rightarrow> None
    | Some (p, d, u) \<Rightarrow> if j = i \<and> p = e then (if b then None else Some (p, d, False)) else st)"

definition status :: "string \<Rightarrow> grant_event list \<Rightarrow> (endpoint_id \<times> instant \<times> bool) option" where
  "status i es = fold (track i) es None"

lemma status_snoc: "status i (es @ [ev]) = track i ev (status i es)"
  by (simp add: status_def)

text \<open>The registry holds what the history says, except grants that ended before the latest instant.\<close>

definition agrees :: "(endpoint_id \<times> instant \<times> bool) option \<Rightarrow> BootstrapGrant option \<Rightarrow> instant \<Rightarrow> bool" where
  "agrees st entry t = (case entry of
      Some g \<Rightarrow> st = Some (bg_endpoint_id g, bg_expires_at g, bg_in_use g)
    | None \<Rightarrow> (case st of None \<Rightarrow> True | Some (e, d, u) \<Rightarrow> d \<le> t))"

lemma agrees_retain:
  assumes "agrees st (grants i) t" "t \<le> at i" "at i \<le> t'"
  shows "agrees st (retain at grants i) t'"
  using assms by (auto simp: agrees_def retain_def split: option.splits)

lemma step_agrees:
  assumes "grant_step s ev s'" and "agrees st (br_grants (fst s) i) (snd s)"
  shows "agrees (track i ev st) (br_grants (fst s') i) (snd s') \<and> snd s \<le> snd s'"
  using assms(1)
proof cases
  case (registers t at now t' j e d h B g B' p)
  then have "agrees st (retain at (br_grants B) i) t'" "t \<le> t'"
    using agrees_retain [of st "br_grants B" i t at t'] assms(2) le_trans by (auto intro: le_trans)
  with registers show ?thesis
    by (auto simp: register_grant_def Let_def agrees_def)
next
  case (reserves t at t' j e B b B')
  then have "agrees st (retain at (br_grants B) i) t'" "t \<le> t'"
    using agrees_retain [of st "br_grants B" i t at t'] assms(2) by (auto intro: le_trans)
  with reserves show ?thesis
    by (auto simp: reserve_def Let_def agrees_def split: option.splits if_splits)
next
  case (configures B t alpn)
  with assms(2) show ?thesis by (simp add: set_admission_server_def)
next
  case (finishes B t j e b)
  with assms(2) have st: "agrees st (br_grants B i) t" by simp
  have other: "agrees (track i (Finish j e b) st) (br_grants (finish j e b B) i) t" if "j \<noteq> i"
  proof -
    have "track i (Finish j e b) st = st" using that by (simp split: option.split prod.split)
    moreover have "br_grants (finish j e b B) i = br_grants B i" using that by (simp add: finish_def split: option.split)
    ultimately show ?thesis using st by simp
  qed
  have "agrees (track i (Finish i e b) st) (br_grants (finish i e b B) i) t"
    using st by (cases "br_grants B i"; cases st) (auto simp: agrees_def finish_def)
  with other finishes show ?thesis by (cases "j = i") simp_all
qed

lemma run_agrees: "grant_run es s \<Longrightarrow> agrees (status i es) (br_grants (fst s) i) (snd s)"
proof (induction rule: grant_run.induct)
  case (starts t)
  show ?case by (simp add: status_def agrees_def empty_registry_def)
next
  case (steps es s ev s')
  then show ?case using step_agrees by (auto simp: status_snoc)
qed

section \<open>Connections\<close>

text \<open>What happens to the registry while a connection is served: its own calls are marked, all others are made by other tasks.\<close>

type_synonym call_trace = "(bool \<times> registry_call) list"

definition replay :: "call_trace \<Rightarrow> BootstrapRegistry \<Rightarrow> BootstrapRegistry" where
  "replay tr = fold (\<lambda>c. act (snd c)) tr"

definition own :: "call_trace \<Rightarrow> registry_call list" where
  "own tr = map snd (filter fst tr)"

abbreviation by_others :: "registry_call list \<Rightarrow> call_trace" where
  "by_others cs \<equiv> map (Pair False) cs"

lemma replay_simps [simp]: "replay [] B = B" "replay (c # tr) B = replay tr (act (snd c) B)"
  "replay (tr @ tr') B = replay tr' (replay tr B)" "replay (by_others cs) B = fold act cs B"
  by (simp_all add: replay_def) (induction cs arbitrary: B; simp)

lemma own_simps [simp]: "own [] = []" "own (c # tr) = (if fst c then [snd c] else []) @ own tr" "own (tr @ tr') = own tr @ own tr'"
  "own (by_others cs) = []"
  by (simp_all add: own_def)

text \<open>The grants that some tasks hold: those they reserved and did not finish.\<close>

fun hold :: "BootstrapRegistry \<Rightarrow> registry_call \<Rightarrow> (string \<times> endpoint_id) set \<Rightarrow> (string \<times> endpoint_id) set" where
  "hold B (ReserveCall at i e) H = (if fst (reserve at i e B) then insert (i, e) H else H)"
| "hold B (FinishCall i e success) H = H - {(i, e)}"
| "hold B _ H = H"

fun holders :: "bool \<Rightarrow> BootstrapRegistry \<Rightarrow> call_trace \<Rightarrow> (string \<times> endpoint_id) set \<Rightarrow> (string \<times> endpoint_id) set" where
  "holders a B [] H = H"
| "holders a B (c # tr) H = holders a (act (snd c) B) tr (if fst c = a then hold B (snd c) H else H)"

lemma holders_append [simp]: "holders a B (tr @ tr') H = holders a (replay tr B) tr' (holders a B tr H)"
  by (induction tr arbitrary: B H) simp_all

lemma holders_others [simp]: "holders True B (by_others cs) H = H"
  by (induction cs arbitrary: B) simp_all

text \<open>Every grant in use is held.\<close>

definition in_use_by :: "(string \<times> endpoint_id) set \<Rightarrow> BootstrapRegistry \<Rightarrow> bool" where
  "in_use_by H B = (\<forall>i g. br_grants B i = Some g \<longrightarrow> bg_in_use g \<longrightarrow> (i, bg_endpoint_id g) \<in> H)"

lemma retain_some: "retain at grants i = Some g \<longleftrightarrow> grants i = Some g \<and> at i < bg_expires_at g"
  by (auto simp: retain_def split: option.splits)

lemma act_in_use: "in_use_by H B \<Longrightarrow> in_use_by (hold B c H) (act c B)"
  by (cases c) (auto simp: in_use_by_def set_admission_server_def register_grant_def reserve_def finish_def Let_def retain_some
    split: option.splits if_splits)

lemma in_use_mono: "in_use_by H B \<Longrightarrow> H \<subseteq> K \<Longrightarrow> in_use_by K B"
  unfolding in_use_by_def by blast

lemma replay_in_use: "in_use_by (H \<union> K) B \<Longrightarrow> in_use_by (holders False B tr H \<union> holders True B tr K) (replay tr B)"
proof (induction tr arbitrary: B H K)
  case (Cons c tr)
  have "hold B (snd c) (H \<union> K) \<subseteq> hold B (snd c) H \<union> K" "hold B (snd c) (H \<union> K) \<subseteq> H \<union> hold B (snd c) K"
    by (cases "snd c"; auto)+
  with act_in_use [OF Cons.prems, of "snd c"] have "in_use_by (hold B (snd c) H \<union> K) (act (snd c) B)"
    "in_use_by (H \<union> hold B (snd c) K) (act (snd c) B)"
    by (auto intro: in_use_mono)
  then show ?case using Cons.IH by auto
qed simp

text \<open>A call that starts a grant anew, and a call that leaves a grant where it is: it does not register it anew, does not
  complete it, and finds that it has not expired.\<close>

fun registers_anew :: "string \<Rightarrow> registry_call \<Rightarrow> bool" where
  "registers_anew i (RegisterCall now at j e d h) = (j = i)"
| "registers_anew i _ = False"

fun spares :: "string \<Rightarrow> BootstrapGrant \<Rightarrow> registry_call \<Rightarrow> bool" where
  "spares i g (AdmissionCall alpn) = True"
| "spares i g (RegisterCall now at j e d h) = (j \<noteq> i \<and> at i < bg_expires_at g)"
| "spares i g (ReserveCall at j e) = (at i < bg_expires_at g)"
| "spares i g (FinishCall j e success) = (\<not> (success \<and> j = i \<and> e = bg_endpoint_id g))"

definition same_grant :: "BootstrapGrant \<Rightarrow> BootstrapGrant \<Rightarrow> bool" where
  "same_grant g g' = (g\<lparr>bg_in_use := False\<rparr> = g'\<lparr>bg_in_use := False\<rparr>)"

lemma same_grantD:
  assumes "same_grant g g'"
  shows "bg_endpoint_id g' = bg_endpoint_id g" "bg_expires_at g' = bg_expires_at g"
  using assms by (cases g; cases g'; simp add: same_grant_def)+

lemma act_spares:
  "br_grants B i = Some g \<Longrightarrow> spares i g c \<Longrightarrow> \<exists>g'. br_grants (act c B) i = Some g' \<and> same_grant g g'"
  by (cases c) (auto simp: set_admission_server_def register_grant_def reserve_def finish_def Let_def retain_def same_grant_def
    split: option.splits)

lemma same_grant_spares: "same_grant g g' \<Longrightarrow> spares i g' c = spares i g c"
  by (cases c) (simp_all add: same_grantD)

lemma replay_spares:
  "br_grants B i = Some g \<Longrightarrow> \<forall>c\<in>set tr. spares i g (snd c) \<Longrightarrow> \<exists>g'. br_grants (replay tr B) i = Some g' \<and> same_grant g g'"
proof (induction tr arbitrary: B g)
  case Nil
  then show ?case by (simp add: same_grant_def)
next
  case (Cons c tr)
  from Cons.prems(2) have "spares i g (snd c)" by simp
  from act_spares [OF Cons.prems(1) this] obtain g' where g': "br_grants (act (snd c) B) i = Some g'" "same_grant g g'" by blast
  have "\<forall>c\<in>set tr. spares i g' (snd c)" using Cons.prems(2) same_grant_spares [OF g'(2)] by simp
  from Cons.IH [OF g'(1) this] show ?case using g'(2) by (auto simp: same_grant_def)
qed

text \<open>A grant is only there if it was there before or is registered.\<close>

lemma act_old:
  "\<not> registers_anew i c \<Longrightarrow> br_grants (act c B) i = Some g' \<Longrightarrow> \<exists>g. br_grants B i = Some g \<and> same_grant g g'"
  by (cases c) (auto simp: set_admission_server_def register_grant_def reserve_def finish_def Let_def retain_some same_grant_def
    split: option.splits if_splits)

lemma replay_old:
  "\<forall>c\<in>set tr. \<not> registers_anew i (snd c) \<Longrightarrow> br_grants (replay tr B) i = Some g' \<Longrightarrow> \<exists>g. br_grants B i = Some g \<and> same_grant g g'"
proof (induction tr arbitrary: B)
  case Nil
  then show ?case by (simp add: same_grant_def)
next
  case (Cons c tr)
  then obtain g where "br_grants (act (snd c) B) i = Some g" "same_grant g g'" by auto
  moreover from act_old [OF _ this(1)] Cons.prems(1) obtain g0 where "br_grants B i = Some g0" "same_grant g0 g" by auto
  ultimately show ?case by (auto simp: same_grant_def)
qed

lemma replay_none: "\<forall>c\<in>set tr. \<not> registers_anew i (snd c) \<Longrightarrow> br_grants B i = None \<Longrightarrow> br_grants (replay tr B) i = None"
  using replay_old by (cases "br_grants (replay tr B) i") fastforce+

lemma reserve_free:
  "br_grants B i = Some g \<Longrightarrow> \<not> bg_in_use g \<Longrightarrow> later i < bg_expires_at g \<Longrightarrow> fst (reserve later i (bg_endpoint_id g) B)"
  by (simp add: reserve_def retain_def Let_def)

lemma reserve_none: "br_grants B i = None \<Longrightarrow> \<not> fst (reserve later i e B)"
  by (simp add: reserve_def retain_def Let_def)

text \<open>A connection that holds nothing left every grant that its trace spares to be reserved by its peer, unless another task
  holds it.\<close>

lemma spared_usable:
  assumes "in_use_by H B" "holders True B tr {} = {}" "br_grants B i = Some g" "\<forall>c\<in>set tr. spares i g (snd c)"
    "(i, bg_endpoint_id g) \<notin> holders False B tr H" "later i < bg_expires_at g"
  shows "fst (reserve later i (bg_endpoint_id g) (replay tr B))"
proof -
  obtain g' where g': "br_grants (replay tr B) i = Some g'" "same_grant g g'" using replay_spares assms(3,4) by blast
  have "in_use_by (holders False B tr H) (replay tr B)" using replay_in_use [of H "{}" B tr] assms(1,2) by simp
  moreover have same: "bg_endpoint_id g' = bg_endpoint_id g" "bg_expires_at g' = bg_expires_at g" using same_grantD [OF g'(2)] .
  ultimately have "\<not> bg_in_use g'" using g'(1) assms(5) unfolding in_use_by_def by metis
  then show ?thesis using reserve_free [OF g'(1)] assms(6) same by simp
qed

section \<open>The traces of a connection\<close>

definition along :: "BootstrapRegistry \<Rightarrow> (call_trace \<Rightarrow> bool) \<Rightarrow> BootstrapRegistry \<times> 'w \<Rightarrow> bool" where
  "along B P s = (\<exists>tr. fst s = replay tr B \<and> P tr)"

definition interruptible :: "'w bootstrap_net \<Rightarrow> (call_trace \<Rightarrow> bool) \<Rightarrow> bool" where
  "interruptible N P = (\<forall>tr w. P tr \<longrightarrow> P (tr @ by_others (bn_others N w)))"

lemma alongI: "fst s = replay tr B \<Longrightarrow> P tr \<Longrightarrow> along B P s"
  unfolding along_def by blast

lemma along_others:
  "along B P s \<Longrightarrow> interruptible N P \<Longrightarrow> along B P (fold act (bn_others N w) (fst s), w')"
  unfolding along_def interruptible_def by (metis fst_conv replay_simps(3,4))

lemma wp_awaiting:
  assumes "along B P s" "interruptible N P"
    "\<And>a w w' s'. m w = (Inr a, w') \<Longrightarrow> along B P s' \<Longrightarrow> Q a s'" "\<And>e w w' s'. m w = (Inl e, w') \<Longrightarrow> along B P s' \<Longrightarrow> X e s'"
  shows "wp (awaiting N m) Q X s"
proof -
  obtain r w where r: "m (snd s) = (r, w)" by fastforce
  then have run: "awaiting N m s = (r, (fold act (bn_others N w) (fst s), w))" by (simp add: awaiting_def)
  from along_others [OF assms(1,2)] have "along B P (fold act (bn_others N w) (fst s), w)" .
  with run r assms(3,4) show ?thesis unfolding wp_def by (cases r) auto
qed

lemma wp_yield: "along B P s \<Longrightarrow> interruptible N P \<Longrightarrow> (\<And>s'. along B P s' \<Longrightarrow> Q () s') \<Longrightarrow> wp (yield N) Q X s"
  using along_others [of B P s N "snd s" "snd s"] unfolding wp_def yield_def by simp

lemma wp_in_grants: "wp (in_grants f) Q X s = (case f (fst s) of (a, B) \<Rightarrow> Q a (B, snd s))"
  by (simp add: wp_def in_grants_def split: prod.split)

text \<open>The device of a grant is approved: with the code of the grant, or as the approved device of the peer.\<close>

definition approved_device :: "'w DeviceRepo \<Rightarrow> string \<Rightarrow> BootstrapGrant \<Rightarrow> bool" where
  "approved_device D public_key g = (\<exists>d w w'. repo_approve D (bg_device_id g) (bg_enrollment_code_hash g) w = (Inr (Some d), w')
    \<or> repo_find_approved_by_public_key D public_key w = (Inr (Some d), w') \<and> dev_id d = bg_device_id g)"

text \<open>The other tasks do what the world says, and the connection reads the clock of the world.\<close>

fun scripted_call :: "'w bootstrap_net \<Rightarrow> bool \<times> registry_call \<Rightarrow> bool" where
  "scripted_call N (True, ReserveCall at i e) = (\<exists>w. fst (bn_instants N w) = at)"
| "scripted_call N (True, c) = True"
| "scripted_call N (False, c) = (\<exists>w. c \<in> set (bn_others N w))"

abbreviation unregistered :: "string \<Rightarrow> call_trace \<Rightarrow> bool" where
  "unregistered i tr \<equiv> \<forall>c\<in>set tr. \<not> registers_anew i (snd c)"

text \<open>The stages of a connection: before the reservation; while it holds the grant; once the device of the grant, as it was
  found at some point of the trace, is approved; and at the end.\<close>

definition quiet :: "'w bootstrap_net \<Rightarrow> BootstrapRegistry \<Rightarrow> call_trace \<Rightarrow> bool" where
  "quiet N B tr = ((\<forall>c\<in>set tr. scripted_call N c) \<and> holders True B tr {} = {})"

definition idle :: "'w bootstrap_net \<Rightarrow> BootstrapRegistry \<Rightarrow> call_trace \<Rightarrow> bool" where
  "idle N B tr = (quiet N B tr \<and> own tr = [])"

definition holding :: "'w bootstrap_net \<Rightarrow> BootstrapRegistry \<Rightarrow> string \<Rightarrow> call_trace \<Rightarrow> bool" where
  "holding N B i tr = ((\<forall>c\<in>set tr. scripted_call N c) \<and> holders True B tr {} = {(i, bn_remote_id N)}
    \<and> (\<exists>at. own tr = [ReserveCall at i (bn_remote_id N)])
    \<and> (unregistered i tr \<longrightarrow> (\<exists>g. br_grants B i = Some g \<and> bg_endpoint_id g = bn_remote_id N)))"

definition served :: "'w DeviceRepo \<Rightarrow> 'w bootstrap_net \<Rightarrow> BootstrapRegistry \<Rightarrow> string \<Rightarrow> call_trace \<Rightarrow> bool" where
  "served D N B i tr = (\<exists>tr1 tr2 g. tr = tr1 @ tr2 \<and> br_grants (replay tr1 B) i = Some g
    \<and> approved_device D (bn_show_endpoint N (bn_remote_id N)) g \<and> (unregistered i tr \<longrightarrow> bg_endpoint_id g = bn_remote_id N))"

definition failure :: "'w bootstrap_net \<Rightarrow> BootstrapRegistry \<Rightarrow> call_trace \<Rightarrow> bool" where
  "failure N B tr = (quiet N B tr \<and> (\<exists>at i. own tr = [] \<or> own tr = [ReserveCall at i (bn_remote_id N)]
    \<or> own tr = [ReserveCall at i (bn_remote_id N), FinishCall i (bn_remote_id N) False]))"

definition success :: "'w DeviceRepo \<Rightarrow> 'w bootstrap_net \<Rightarrow> BootstrapRegistry \<Rightarrow> call_trace \<Rightarrow> bool" where
  "success D N B tr = (quiet N B tr \<and> (\<exists>at i. own tr = [ReserveCall at i (bn_remote_id N), FinishCall i (bn_remote_id N) True]
    \<and> served D N B i tr \<and> (unregistered i tr \<longrightarrow> br_grants (replay tr B) i = None)))"

lemma scripted_others: "\<forall>c\<in>set (by_others (bn_others N w)). scripted_call N c"
  by auto

lemma served_append: "served D N B i tr \<Longrightarrow> served D N B i (tr @ tr')"
  unfolding served_def by (metis append.assoc UnCI set_append)

lemma interruptible_idle: "interruptible N (idle N B)"
  using scripted_others [of N] by (auto simp: interruptible_def idle_def quiet_def)

lemma interruptible_holding: "interruptible N (holding N B i)"
  using scripted_others [of N] by (auto simp: interruptible_def holding_def)

lemma interruptible_conj: "interruptible N P \<Longrightarrow> interruptible N P' \<Longrightarrow> interruptible N (\<lambda>tr. P tr \<and> P' tr)"
  by (auto simp: interruptible_def)

lemma interruptible_served: "interruptible N (served D N B i)"
  by (auto simp: interruptible_def served_append)

lemma interruptible_success: "interruptible N (success D N B)"
proof -
  have "success D N B (tr @ by_others (bn_others N w))" if "success D N B tr" for tr w
  proof -
    from that obtain at i where i: "own tr = [ReserveCall at i (bn_remote_id N), FinishCall i (bn_remote_id N) True]"
      "served D N B i tr" "unregistered i tr \<longrightarrow> br_grants (replay tr B) i = None" "quiet N B tr"
      by (auto simp: success_def)
    let ?o = "by_others (bn_others N w)"
    have "br_grants (replay (tr @ ?o) B) i = None" if "unregistered i (tr @ ?o)"
      using that i(3) replay_none [of ?o i "replay tr B"] by auto
    moreover have "quiet N B (tr @ ?o)" using i(4) scripted_others [of N] by (auto simp: quiet_def)
    ultimately show ?thesis using i(1) served_append [OF i(2)] by (auto simp: success_def)
  qed
  then show ?thesis by (simp add: interruptible_def)
qed

lemmas interruptible = interruptible_idle interruptible_holding interruptible_conj interruptible_served interruptible_success

lemma idle_failure: "idle N B tr \<Longrightarrow> failure N B tr"
  by (simp add: idle_def failure_def)

lemma along_mono: "along B P s \<Longrightarrow> (\<And>tr. P tr \<Longrightarrow> P' tr) \<Longrightarrow> along B P' s"
  unfolding along_def by blast

text \<open>The own calls of a connection.\<close>

lemma own_reserve:
  assumes "along B (idle N B) s" "bn_instants N w = (at, w1)" "reserve at i (bn_remote_id N) (fst s) = (reserved, B')"
  shows "if reserved then along B (holding N B i) (B', w2) else along B (failure N B) (B', w2)"
proof -
  let ?E = "bn_remote_id N"
  obtain tr where tr: "fst s = replay tr B" "idle N B tr" using assms(1) by (auto simp: along_def)
  have w: "\<exists>w. fst (bn_instants N w) = at" using assms(2) by (metis fst_conv)
  let ?tr = "tr @ [(True, ReserveCall at i ?E)]"
  have scripted: "\<forall>c\<in>set ?tr. scripted_call N c" "own ?tr = [ReserveCall at i ?E]" "replay ?tr B = B'"
    using tr assms(3) w by (auto simp: idle_def quiet_def)
  have held: "holders True B ?tr {} = (if reserved then {(i, ?E)} else {})"
    using tr assms(3) by (simp add: idle_def quiet_def)
  show ?thesis
  proof (cases reserved)
    case True
    have "\<exists>g. br_grants B i = Some g \<and> bg_endpoint_id g = ?E" if "unregistered i ?tr"
    proof -
      obtain g where g: "br_grants (replay tr B) i = Some g" "bg_endpoint_id g = ?E"
        using assms(3) True tr(1) by (auto simp: reserve_def Let_def retain_some split: option.splits if_splits)
      then show ?thesis using replay_old [of tr i B g] that by (auto dest: same_grantD)
    qed
    with True scripted held have "holding N B i ?tr" by (auto simp: holding_def)
    then show ?thesis using True scripted(3) alongI [of "(B', w2)" ?tr B] by simp
  next
    case False
    with scripted held have "failure N B ?tr" by (auto simp: failure_def quiet_def)
    then show ?thesis using False scripted(3) alongI [of "(B', w2)" ?tr B] by simp
  qed
qed

lemma own_fails:
  assumes "along B (holding N B i) s"
  shows "along B (failure N B) (finish i (bn_remote_id N) False (fst s), w)"
proof -
  let ?E = "bn_remote_id N"
  obtain tr where tr: "fst s = replay tr B" "holding N B i tr" using assms by (auto simp: along_def)
  let ?tr = "tr @ [(True, FinishCall i ?E False)]"
  have "failure N B ?tr" using tr(2) by (auto simp: holding_def failure_def quiet_def)
  then show ?thesis using tr(1) by (intro alongI [where tr = ?tr]) simp_all
qed

lemma own_succeeds:
  assumes "along B (\<lambda>tr. holding N B i tr \<and> served D N B i tr) s"
  shows "along B (success D N B) (finish i (bn_remote_id N) True (fst s), w)"
proof -
  let ?E = "bn_remote_id N"
  obtain tr where tr: "fst s = replay tr B" "holding N B i tr" "served D N B i tr" using assms by (auto simp: along_def)
  let ?tr = "tr @ [(True, FinishCall i ?E True)]"
  have "br_grants (replay ?tr B) i = None" if "unregistered i ?tr"
  proof (cases "br_grants (replay tr B) i")
    case (Some g)
    with replay_old [of tr i B g] that tr(2) have "bg_endpoint_id g = ?E" by (auto simp: holding_def dest: same_grantD)
    with Some show ?thesis by (simp add: finish_def)
  qed (simp add: finish_def)
  with tr(2) served_append [OF tr(3)] have "success D N B ?tr" by (auto simp: holding_def success_def quiet_def)
  then show ?thesis using tr(1) by (intro alongI [where tr = ?tr]) simp_all
qed

lemma found_served:
  assumes "along B (holding N B i) s" "br_grants (fst s) i = Some g" "approved_device D (bn_show_endpoint N (bn_remote_id N)) g"
  shows "along B (\<lambda>tr. holding N B i tr \<and> served D N B i tr) s"
proof -
  obtain tr where tr: "fst s = replay tr B" "holding N B i tr" using assms(1) by (auto simp: along_def)
  have "bg_endpoint_id g = bn_remote_id N" if "unregistered i tr"
    using that tr assms(2) replay_old [of tr i B g] by (auto simp: holding_def dest: same_grantD)
  with assms(2,3) tr(1) have "served D N B i tr"
    unfolding served_def by (intro exI [of _ tr] exI [of _ "[]"] exI [of _ g]) auto
  with tr show ?thesis by (intro alongI [where tr = tr]) simp_all
qed

lemma wp_approve_registered:
  assumes "along B (holding N B i) s"
  shows "wp (approve_registered D N i) (\<lambda>_. along B (\<lambda>tr. holding N B i tr \<and> served D N B i tr)) (\<lambda>_. along B (holding N B i)) s"
    (is "wp _ (\<lambda>_. along B ?P) ?X s")
proof -
  let ?key = "bn_show_endpoint N (bn_remote_id N)"
  have found: "wp (await (map_err (\<lambda>e. OtherIo (ManagementError_to_string e))
      (awaiting N (repo_approve D (bg_device_id g) (bg_enrollment_code_hash g)))) (\<lambda>approved.
      if approved \<noteq> None then ok () else
      await (map_err (\<lambda>e. OtherIo (ManagementError_to_string e)) (awaiting N (repo_find_approved_by_public_key D ?key))) (\<lambda>device.
      if case device of None \<Rightarrow> False | Some d \<Rightarrow> dev_id d = bg_device_id g then ok ()
      else err (PermissionDenied ''registered device approval failed'')))) (\<lambda>_. along B ?P) ?X s'"
    if s': "along B (holding N B i) s'" "br_grants (fst s') i = Some g" for s' g
  proof -
    let ?R = "\<lambda>tr. holding N B i tr \<and> (approved_device D ?key g \<longrightarrow> served D N B i tr)"
    have "along B ?R s'"
      using s' found_served [OF s'(1,2), of D] by (cases "approved_device D ?key g") (auto elim: along_mono)
    moreover have "interruptible N ?R" using interruptible_holding interruptible_served by (fastforce simp: interruptible_def)
    ultimately show ?thesis
      unfolding wp_await wp_map_err wp_map_err_fun
    proof (rule wp_awaiting, goal_cases)
      case (1 approved w w' s1)
      show ?case
      proof (cases approved)
        case (Some d)
        with 1(1) have "approved_device D ?key g" by (auto simp: approved_device_def)
        with 1(2) Some show ?thesis by (auto simp: wp_ok elim: along_mono)
      next
        case None
        have "wp (awaiting N (repo_find_approved_by_public_key D ?key)) (\<lambda>device.
            wp (if case device of None \<Rightarrow> False | Some d \<Rightarrow> dev_id d = bg_device_id g then ok ()
              else err (PermissionDenied ''registered device approval failed'')) (\<lambda>_. along B ?P) ?X) (\<lambda>_. ?X e) s1" for e
          using 1(2) \<open>interruptible N ?R\<close>
        proof (rule wp_awaiting, goal_cases)
          case (1 device w w' s2)
          show ?case
          proof (cases "case device of None \<Rightarrow> False | Some d \<Rightarrow> dev_id d = bg_device_id g")
            case True
            with 1(1) have "approved_device D ?key g" by (auto simp: approved_device_def split: option.splits)
            with 1(2) True show ?thesis by (auto simp: wp_ok elim: along_mono)
          next
            case False
            with 1(2) show ?thesis by (auto simp: wp_err elim: along_mono)
          qed
        next
          case (2 e w w' s2)
          then show ?case by (auto elim: along_mono)
        qed
        then show ?thesis unfolding None by (simp add: wp_await wp_map_err)
      qed
    next
      case (2 e w w' s1)
      then show ?case by (auto elim: along_mono)
    qed
  qed
  show ?thesis
    unfolding approve_registered_def wp_await [of "yield N"]
  proof (rule wp_yield [OF assms interruptible_holding], goal_cases)
    case (1 s')
    show ?case
      unfolding wp_await [of "in_grants _"] wp_in_grants get_grant_def prod.case wp_await [of "lift _"] wp_lift
      by (cases "br_grants (fst s') i") (use 1 found [of "s'"] in \<open>simp_all add: ok_or_def\<close>)
  qed
qed

lemma wp_serve_grant:
  assumes "along B (holding N B i) s"
  shows "wp (serve_grant D N i) (\<lambda>_. along B (success D N B)) (\<lambda>_. along B (failure N B)) s" (is "wp _ ?Q ?X s")
proof -
  let ?P = "\<lambda>tr. holding N B i tr \<and> served D N B i tr"
  have P: "interruptible N ?P" by (intro interruptible)
  have held: "along B ?P s' \<Longrightarrow> along B (holding N B i) s'" for s' :: "BootstrapRegistry \<times> 'a" by (auto elim: along_mono)
  have failed: "wp (finish_op i (bn_remote_id N) False) (\<lambda>_. wp (err e) ?Q ?X) ?X s'" if "along B (holding N B i) s'" for s' e
    unfolding finish_op_def using own_fails [OF that] by (simp add: wp_in_grants wp_err)
  have completed: "wp (finish_op i (bn_remote_id N) True) (\<lambda>_. wp (await (awaiting N (effect (bn_closed N))) (\<lambda>_. ok ())) ?Q ?X) ?X s'"
    if "along B ?P s'" for s'
  proof -
    have "wp (awaiting N (effect (bn_closed N))) (\<lambda>_. ?Q ()) ?X (finish i (bn_remote_id N) True (fst s'), snd s')"
      using own_succeeds [OF that] interruptible_success by (rule wp_awaiting) (auto simp: effect_def split: prod.splits)
    then show ?thesis unfolding finish_op_def by (simp add: wp_in_grants wp_await wp_ok_fun)
  qed
  have synchronized: "wp (awaiting N (bn_synchronize N)) (\<lambda>a. wp (finish_op i (bn_remote_id N) True) (\<lambda>_.
      wp (await (awaiting N (effect (bn_closed N))) (\<lambda>_. ok ())) ?Q ?X) ?X)
      (\<lambda>e. wp (finish_op i (bn_remote_id N) False) (\<lambda>_. wp (err (OtherIo e)) ?Q ?X) ?X) s'" if "along B ?P s'" for s'
    using that P by (rule wp_awaiting) (use completed failed held in blast)+
  have written: "wp (awaiting N (bn_write_all N bytes)) (\<lambda>a. wp (awaiting N (bn_synchronize N)) (\<lambda>a. wp (finish_op i (bn_remote_id N) True) (\<lambda>_.
      wp (await (awaiting N (effect (bn_closed N))) (\<lambda>_. ok ())) ?Q ?X) ?X)
      (\<lambda>e. wp (finish_op i (bn_remote_id N) False) (\<lambda>_. wp (err (OtherIo e)) ?Q ?X) ?X))
      (\<lambda>e. wp (finish_op i (bn_remote_id N) False) (\<lambda>_. wp (err (OtherIo e)) ?Q ?X) ?X) s'" if "along B ?P s'" for s' bytes
    using that P by (rule wp_awaiting) (use synchronized failed held in blast)+
  show ?thesis
    unfolding serve_grant_def Let_def wp_await wp_attempt_op
    by (rule wp_conseq [OF wp_approve_registered [OF assms]])
      (use written failed in \<open>simp_all add: wp_await_fun wp_attempt_fun\<close>)
qed

lemma wp_handle_bootstrap:
  "wp (handle_bootstrap D N) (\<lambda>_. along B (success D N B)) (\<lambda>_. along B (failure N B)) (B, w)" (is "wp _ ?Q ?X _")
proof -
  have failed: "along B (idle N B) s \<Longrightarrow> along B (failure N B) s" for s :: "BootstrapRegistry \<times> 'a"
    by (auto elim: along_mono intro: idle_failure)
  let ?reserved = "\<lambda>i. await (in_world (effect (bn_instants N))) (\<lambda>at. await (in_grants (reserve at i (bn_remote_id N))) (\<lambda>reserved.
      if \<not> reserved then err (PermissionDenied ''bootstrap grant denied'') else serve_grant D N i))"
  have reserved: "wp (?reserved i) ?Q ?X s" if "along B (idle N B) s" for i s
  proof -
    obtain at w1 where at: "bn_instants N (snd s) = (at, w1)" by fastforce
    obtain r B1 where r: "reserve at i (bn_remote_id N) (fst s) = (r, B1)" by fastforce
    from own_reserve [OF that at r, of w1] have "wp (if \<not> r then err e else serve_grant D N i) ?Q ?X (B1, w1)" for e
      by (auto simp: wp_err intro: wp_serve_grant split: if_splits)
    with at r show ?thesis by (simp add: wp_def in_world_def effect_def await_def in_grants_def)
  qed
  let ?named = "\<lambda>n. await (map_err OtherIo (awaiting N (bn_read_exact N n))) (\<lambda>bytes.
      await (lift (ok_or (InvalidData ''invalid bootstrap grant'') (bn_from_utf8 N bytes))) ?reserved)"
  have named: "wp (?named n) ?Q ?X s" if "along B (idle N B) s" for n s
    unfolding wp_await [of "map_err _ _"] wp_map_err
    using that interruptible_idle
    by (rule wp_awaiting) (use reserved failed in \<open>auto simp: wp_await [of "lift _"] wp_lift ok_or_def split: option.split\<close>)
  have sized: "wp (let len = u16_from_be_bytes bs in
      if len = 0 \<or> len > MAX_GRANT_BYTES then err (InvalidData ''invalid bootstrap grant length'') else ?named len) ?Q ?X s"
    if "along B (idle N B) s" for bs s
    using named [OF that] failed [OF that] by (simp add: Let_def wp_err)
  have opened: "wp (await (map_err OtherIo (awaiting N (bn_read_exact N 2))) (\<lambda>bs. let len = u16_from_be_bytes bs in
      if len = 0 \<or> len > MAX_GRANT_BYTES then err (InvalidData ''invalid bootstrap grant length'') else ?named len)) ?Q ?X s"
    if "along B (idle N B) s" for s
    unfolding wp_await [of "map_err _ _"] wp_map_err
    using that interruptible_idle by (rule wp_awaiting) (use sized failed in auto)
  have "along B (idle N B) (B, w)" by (rule alongI [where tr = "[]"]) (simp_all add: idle_def quiet_def)
  then show ?thesis
    unfolding handle_bootstrap_def wp_await [of "map_err OtherIo (awaiting N (bn_accept_bi N))"] wp_map_err
    using interruptible_idle by (rule wp_awaiting) (use opened failed in auto)
qed

section \<open>Properties\<close>

text \<open>C13: a grant is exclusive, bound to its peer and used at most once.  In every history of the registry, in any
  interleaving of connections, a reservation succeeds exactly if the last registration of the grant was for the same peer,
  less than fifteen minutes before, and since then every reservation of it was given back by a failure and none was
  completed.\<close>

theorem grant_reserve_exact:
  assumes "grant_run es (B, t)" and "\<forall>j. t \<le> at j" and "reserve at i e B = (b, B')"
  shows "b \<longleftrightarrow> (\<exists>d. status i es = Some (e, d, False) \<and> at i < d)"
proof -
  have "agrees (status i es) (br_grants B i) t" using run_agrees [OF assms(1)] by simp
  moreover have "t \<le> at i" using assms(2) by simp
  ultimately show ?thesis
    using assms(3) by (auto simp: agrees_def reserve_def retain_def Let_def split: option.splits if_splits)
qed

theorem grant_reserve_exact_witness:
  "\<exists>B t B'. grant_run [Register ''g'' [1] 5, Reserve ''g'' [1] True, Finish ''g'' [1] False] (B, t)
    \<and> reserve (\<lambda>_. 10) ''g'' [1] B = (True, B')"
proof -
  let ?at = "\<lambda>_ :: string. 5 :: nat"
  let ?B1 = "fst (snd (register_grant 5 ?at ''g'' [1] 7 [] empty_registry))"
  let ?B2 = "snd (reserve ?at ''g'' [1] ?B1)"
  let ?B3 = "finish ''g'' [1] False ?B2"
  have "grant_run [Register ''g'' [1] 5] (?B1, 5)"
    using steps [OF starts [of 5] registers [of 5 ?at 5 5 "''g''" "[1]" 7 "[]" empty_registry]]
    by (simp add: register_grant_def Let_def)
  moreover have "reserve ?at ''g'' [1] ?B1 = (True, ?B2)"
    by (simp add: register_grant_def reserve_def retain_def empty_registry_def Let_def GRANT_TTL_def)
  ultimately have "grant_run [Register ''g'' [1] 5, Reserve ''g'' [1] True] (?B2, 5)"
    using steps reserves [of 5 ?at 5 "''g''" "[1]" ?B1 True ?B2] by fastforce
  from steps [OF this finishes] have run: "grant_run [Register ''g'' [1] 5, Reserve ''g'' [1] True, Finish ''g'' [1] False] (?B3, 5)" by simp
  obtain b B' where r: "reserve (\<lambda>_. 10) ''g'' [1] ?B3 = (b, B')" by fastforce
  from grant_reserve_exact [OF run _ this] have b by (simp add: status_def GRANT_TTL_def)
  with run r show ?thesis by auto
qed

text \<open>C14: a connection never leaves a grant behind in use, whatever other tasks do to the registry between its own calls
  of it.  The registry at the end is that at the start after the calls of all tasks, those of the connection among them:
  after a failure none, a reservation that was refused, or a reservation and its release; after a success one reservation and
  its completion, where the device of the grant was approved, and unless another task registers the same grant again it was a
  grant of the peer and can never be reserved again.  Every grant that was there before, that no task registers anew or
  completes, and that no task found to have expired, can be reserved by its peer until it expires, unless another task holds
  it: has reserved it, before (\<open>H\<close>) or meanwhile, and not finished.\<close>

theorem bootstrap_connection_settles:
  assumes "in_use_by H B" and "handle_bootstrap D N (B, w) = (answer, (B', w'))"
  shows "\<exists>tr. B' = replay tr B \<and> (\<forall>c\<in>set tr. scripted_call N c)
    \<and> (\<forall>i g later. br_grants B i = Some g \<longrightarrow> (\<forall>c\<in>set tr. spares i g (snd c)) \<longrightarrow> (i, bg_endpoint_id g) \<notin> holders False B tr H
        \<longrightarrow> later i < bg_expires_at g \<longrightarrow> fst (reserve later i (bg_endpoint_id g) B'))
    \<and> (case answer of
        Inl _ \<Rightarrow> \<exists>at i. own tr = [] \<or> own tr = [ReserveCall at i (bn_remote_id N)]
          \<or> own tr = [ReserveCall at i (bn_remote_id N), FinishCall i (bn_remote_id N) False]
      | Inr _ \<Rightarrow> \<exists>at i tr1 tr2 g. own tr = [ReserveCall at i (bn_remote_id N), FinishCall i (bn_remote_id N) True]
          \<and> tr = tr1 @ tr2 \<and> br_grants (replay tr1 B) i = Some g \<and> approved_device D (bn_show_endpoint N (bn_remote_id N)) g
          \<and> (unregistered i tr \<longrightarrow> bg_endpoint_id g = bn_remote_id N \<and> (\<forall>later e. \<not> fst (reserve later i e B'))))"
proof -
  have usable: "\<forall>i g later. br_grants B i = Some g \<longrightarrow> (\<forall>c\<in>set tr. spares i g (snd c)) \<longrightarrow> (i, bg_endpoint_id g) \<notin> holders False B tr H
      \<longrightarrow> later i < bg_expires_at g \<longrightarrow> fst (reserve later i (bg_endpoint_id g) (replay tr B))" if "quiet N B tr" for tr
    using that spared_usable [OF assms(1)] by (simp add: quiet_def)
  show ?thesis
  proof (cases answer)
    case (Inl e)
    from wp_run_err [OF wp_handle_bootstrap assms(2) [unfolded Inl]] have "along B (failure N B) (B', w')" .
    then obtain tr where "B' = replay tr B" "failure N B tr" by (auto simp: along_def)
    then show ?thesis unfolding Inl sum.case by (intro exI [of _ tr]) (auto simp: failure_def quiet_def intro: usable [rule_format])
  next
    case (Inr u)
    from wp_run [OF wp_handle_bootstrap assms(2) [unfolded Inr]] have "along B (success D N B) (B', w')" .
    then obtain tr where tr: "B' = replay tr B" "success D N B tr" by (auto simp: along_def)
    then obtain at i where i: "own tr = [ReserveCall at i (bn_remote_id N), FinishCall i (bn_remote_id N) True]" "served D N B i tr"
      "unregistered i tr \<longrightarrow> br_grants B' i = None" by (auto simp: success_def)
    then have "unregistered i tr \<longrightarrow> (\<forall>later e. \<not> fst (reserve later i e B'))" using reserve_none by blast
    with i(1,2) have "\<exists>at i tr1 tr2 g. own tr = [ReserveCall at i (bn_remote_id N), FinishCall i (bn_remote_id N) True]
        \<and> tr = tr1 @ tr2 \<and> br_grants (replay tr1 B) i = Some g \<and> approved_device D (bn_show_endpoint N (bn_remote_id N)) g
        \<and> (unregistered i tr \<longrightarrow> bg_endpoint_id g = bn_remote_id N \<and> (\<forall>later e. \<not> fst (reserve later i e B')))"
      unfolding served_def by blast
    moreover have "quiet N B tr" using tr(2) by (simp add: success_def)
    ultimately show ?thesis unfolding Inr sum.case using tr(1) usable [of tr] by (intro exI [of _ tr]) (simp add: quiet_def)
  qed
qed

text \<open>A connection of a second device, while another one holds a grant and a third device reserves its own.\<close>

definition demo_net :: "mem bootstrap_net" where
  "demo_net = \<lparr>bn_remote_id = str_bytes ''k2'', bn_accept_bi = ok (), bn_read_exact = (\<lambda>n. ok (if n = 2 then [0, 1] else str_bytes ''g'')),
    bn_write_all = (\<lambda>_. ok ()), bn_from_utf8 = (\<lambda>_. Some ''g''), bn_synchronize = ok (), bn_closed = Pair (),
    bn_instants = Pair (\<lambda>_. 10), bn_show_endpoint = (\<lambda>_. ''k2''), bn_others = (\<lambda>_. [ReserveCall (\<lambda>_. 9) ''third'' [3]])\<rparr>"

definition demo_grant :: "endpoint_id \<Rightarrow> uuid \<Rightarrow> bool \<Rightarrow> BootstrapGrant" where
  "demo_grant e d used = \<lparr>bg_endpoint_id = e, bg_device_id = d, bg_enrollment_code_hash = [7], bg_expires_at = 20, bg_in_use = used\<rparr>"

definition demo_grants :: "bool \<Rightarrow> bool \<Rightarrow> BootstrapRegistry" where
  "demo_grants third used = \<lparr>br_grants = [''g'' \<mapsto> demo_grant (str_bytes ''k2'') 2 used, ''other'' \<mapsto> demo_grant [9] 3 True,
    ''third'' \<mapsto> demo_grant [3] 4 third], br_admission = None\<rparr>"

lemma demo_others: "fold act (bn_others demo_net w) (demo_grants third used) = demo_grants True used"
  by (simp add: demo_net_def demo_grants_def demo_grant_def reserve_def retain_def Let_def fun_eq_iff)

lemma demo_reserve: "reserve (\<lambda>_. 10) ''g'' (bn_remote_id demo_net) (demo_grants True False) = (True, demo_grants True True)"
  by (simp add: demo_net_def demo_grants_def demo_grant_def reserve_def retain_def Let_def fun_eq_iff)

theorem bootstrap_connection_settles_witness:
  "\<exists>B' w' tr i. handle_bootstrap (DbDeviceRepo (mem_host schema_columns)) demo_net (demo_grants False False, two_devices) = (Inr (), (B', w'))
    \<and> B' = replay tr (demo_grants False False)
    \<and> own tr = [ReserveCall (\<lambda>_. 10) i (bn_remote_id demo_net), FinishCall i (bn_remote_id demo_net) True]
    \<and> (\<forall>later e. \<not> fst (reserve later i e B'))"
proof -
  let ?D = "DbDeviceRepo (mem_host schema_columns)" and ?B = "demo_grants False False"
  have "\<exists>d w'. device_approve (mem_host schema_columns) 2 [7] two_devices = (Inr (Some d), w')"
    by (simp add: device_approve_def run_simps two_devices_def laptop_def phone_def trim_id white_defs)
  then obtain d w1 where approve: "repo_approve ?D 2 [7] two_devices = (Inr (Some d), w1)" by (auto simp: DbDeviceRepo_def)
  have net: "bn_accept_bi demo_net = ok ()" "bn_write_all demo_net bs = ok ()"
    "bn_read_exact demo_net n = ok (if n = 2 then [0, 1] else str_bytes ''g'')" "bn_from_utf8 demo_net bs = Some ''g''"
    "bn_synchronize demo_net = ok ()" "bn_closed demo_net = Pair ()" "bn_instants demo_net = Pair (\<lambda>_. 10)" for bs n
    by (simp_all add: demo_net_def)
  have "get_grant ''g'' (demo_grants True True) = Some (demo_grant (str_bytes ''k2'') 2 True)"
    by (simp add: get_grant_def demo_grants_def)
  with approve have "approve_registered ?D demo_net ''g'' (demo_grants True True, two_devices) = (Inr (), (demo_grants True True, w1))"
    by (simp add: approve_registered_def awaiting_def yield_def in_grants_def demo_others ok_or_def demo_grant_def op_defs)
  then have "\<exists>s. serve_grant ?D demo_net ''g'' (demo_grants True True, two_devices) = (Inr (), s)"
    by (simp add: serve_grant_def Let_def attempt_op_def awaiting_def in_grants_def finish_op_def net demo_others op_defs)
  with demo_reserve have "\<exists>s. handle_bootstrap ?D demo_net (?B, two_devices) = (Inr (), s)"
    by (simp add: handle_bootstrap_def in_world_def awaiting_def in_grants_def net demo_others u16_from_be_bytes_def MAX_GRANT_BYTES_def
      ok_or_def op_defs Let_def)
  then obtain B' w' where run: "handle_bootstrap ?D demo_net (?B, two_devices) = (Inr (), (B', w'))" by auto
  have "in_use_by {(''other'', [9])} ?B" by (auto simp: in_use_by_def demo_grants_def demo_grant_def split: if_splits)
  from bootstrap_connection_settles [OF this run] obtain tr at i where tr: "B' = replay tr ?B" "\<forall>c\<in>set tr. scripted_call demo_net c"
    "own tr = [ReserveCall at i (bn_remote_id demo_net), FinishCall i (bn_remote_id demo_net) True]"
    "unregistered i tr \<longrightarrow> (\<forall>later e. \<not> fst (reserve later i e B'))"
    unfolding sum.case by blast
  have "\<not> registers_anew i (snd c)" if "c \<in> set tr" for c
  proof (cases "fst c")
    case True
    with that have "snd c \<in> set (own tr)" by (auto simp: own_def)
    with tr(3) show ?thesis by auto
  next
    case False
    with that tr(2) have "scripted_call demo_net (False, snd c)" by (metis prod.collapse)
    then show ?thesis by (auto simp: demo_net_def)
  qed
  moreover have "at = (\<lambda>_. 10)"
  proof -
    have "ReserveCall at i (bn_remote_id demo_net) \<in> set (own tr)" using tr(3) by simp
    then have "(True, ReserveCall at i (bn_remote_id demo_net)) \<in> set tr" by (auto simp: own_def)
    with tr(2) have "scripted_call demo_net (True, ReserveCall at i (bn_remote_id demo_net))" by blast
    then show ?thesis by (simp add: demo_net_def)
  qed
  ultimately show ?thesis using run tr by blast
qed

end
