(* ===== verification/Idp_Server.thy ===== *)
theory Idp_Server
  imports Oauth2_Users Control_Plane Bootstrap
begin

text \<open>
  The routes of the identity server (\<open>crates/idp-server/src/router\<close>): the middleware that turns a
  bearer token into a principal, token introspection for other servers, the routes of devices and
  their set-up, and the OAuth2 endpoints.  Handlers take the path, the query, the body and the
  authorization header as arguments; the network identity of the device and the controller of
  pairing are external.
\<close>

section \<open>State\<close>

record 'w device_identity =
  di_endpoint_id :: string
  di_endpoint_address :: "('w, string, string) op"
  di_sign :: "byte list \<Rightarrow> string"

record 'w pairing_controller =
  pc_set_pairing_accepting :: "bool \<Rightarrow> ('w, string, unit) op"
  pc_pairing_accepting :: "('w, string, bool) op"

text \<open>The clocks, the parser of endpoint addresses (the endpoint they name) and the query printer.\<close>

record 'w idp_net =
  in_system_time :: "'w \<Rightarrow> int \<times> 'w"
  in_instants :: "'w \<Rightarrow> (instant \<times> (string \<Rightarrow> instant)) \<times> 'w"
  in_checked_add :: "int \<Rightarrow> nat \<Rightarrow> int option"
  in_parse_address :: "string \<Rightarrow> endpoint_id option"
  in_allow_peer :: "endpoint_id \<times> byte list \<times> nat \<Rightarrow> ('w, ErrorResponse, unit) op"
  in_query_to_string :: "AuthorizationRequest \<Rightarrow> string + string"
  in_from_utf8 :: "byte list \<Rightarrow> string option"

record 'w IdpState =
  st_ui_base_uri :: string
  st_service_audience :: string
  st_env :: "'w idp_env"
  st_oauth2_service :: "'w OAuth2Service"
  st_devices :: "'w DeviceRepo"
  st_endpoints :: endpoints
  st_device_identity :: "'w device_identity"
  st_pairing_acceptance :: "'w pairing_controller option"
  st_hosted_control_plane :: "('w web \<times> HostedControlPlane) option"
  st_net :: "'w idp_net"

type_synonym authorization_header = "(string + string) option"

section \<open>Bearer tokens\<close>

record Authorization =
  az_principal :: Principal
  az_claims :: StandardClaims
  az_token :: string

fun claimed_entity_type :: "PrincipalType \<Rightarrow> EntityType" where
  "claimed_entity_type PrincipalUser = EntityUser"
| "claimed_entity_type PrincipalClient = EntityClient"

definition unix_now :: "'w IdpState \<Rightarrow> ('w, ErrorResponse, int) op" where
  "unix_now S = await (effect (in_system_time (st_net S))) (\<lambda>time.
    if time < 0 then err (ErrorResponse_new NotAuthorized) else ok (as_secs time))"

definition bearer_claims_ok :: "'w IdpState \<Rightarrow> Principal \<Rightarrow> PrincipalType option \<Rightarrow> int \<Rightarrow> StandardClaims \<Rightarrow> bool" where
  "bearer_claims_ok S subject expected_principal seconds claims = (\<not> (claim_type claims \<noteq> Bearer \<or> claim_use claims \<noteq> UseAccess
    \<or> claim_iss claims \<noteq> md_issuer (metadata (st_oauth2_service S))
    \<or> claim_exp claims \<le> seconds \<or> claim_nbf claims > seconds
    \<or> get_entity_type subject \<noteq> claimed_entity_type (claim_principal_type claims)
    \<or> (case expected_principal of None \<Rightarrow> False | Some expected \<Rightarrow> expected \<noteq> claim_principal_type claims)
    \<or> claim_sub claims \<noteq> show_id (st_env S) (get_entity_id subject) \<or> claim_aud claims = []))"

definition authorize_bearer_with_principal :: "'w IdpState \<Rightarrow> string \<Rightarrow> PrincipalType option
    \<Rightarrow> ('w, ErrorResponse, Authorization) op" where
  "authorize_bearer_with_principal S authorization_string expected_principal =
    (let E = env_crypto (st_env S) in
    await (lift (decode_jwt E (claims_from_json E) authorization_string)) (\<lambda>(jwt_header, _).
    await (lift (ok_or (ErrorResponse_new NotAuthorized) (env_parse_uuid (st_env S) (hdr_kid jwt_header)))) (\<lambda>key_id.
    await (find_principal (st_oauth2_service S) key_id) (\<lambda>found.
    await (lift (ok_or (described NotAuthorized ''principal not found for key id'') found)) (\<lambda>subject.
    await (find_public_jwk (st_env S) (st_oauth2_service S) key_id) (\<lambda>jwk.
    await (lift (verify_jwt E (claims_from_json E) jwk authorization_string)) (\<lambda>(_, claims).
    await (unix_now S) (\<lambda>seconds.
    if \<not> bearer_claims_ok S subject expected_principal seconds claims
    then err (described NotAuthorized ''invalid bearer token claims'') else
    ok \<lparr>az_principal = subject, az_claims = claims, az_token = authorization_string\<rparr>))))))))"

definition authorize_bearer :: "'w IdpState \<Rightarrow> string \<Rightarrow> ('w, ErrorResponse, Authorization) op" where
  "authorize_bearer S t = authorize_bearer_with_principal S t (Some PrincipalUser)"

definition authorize_bearer_any_principal :: "'w IdpState \<Rightarrow> string \<Rightarrow> ('w, ErrorResponse, Authorization) op" where
  "authorize_bearer_any_principal S t = authorize_bearer_with_principal S t None"

definition authorize_bearer_client :: "'w IdpState \<Rightarrow> string \<Rightarrow> ('w, ErrorResponse, Authorization) op" where
  "authorize_bearer_client S t = authorize_bearer_with_principal S t (Some PrincipalClient)"

definition BEARER_PREFIX :: string where
  "BEARER_PREFIX = ''Bearer ''"

definition bearer_from_header :: "string + string \<Rightarrow> ErrorResponse + string" where
  "bearer_from_header v = (case v of
      Inl _ \<Rightarrow> Inl (described NotAuthorized ''invalid authorization header cannot be parsed as string'')
    | Inr s \<Rightarrow>
      if length s < length BEARER_PREFIX then Inl (described NotAuthorized ''authorization header is too short'')
      else if \<not> prefix BEARER_PREFIX s
      then Inl (described NotAuthorized (''authorization header does not start with '' @ [CHR 0x27] @ ''Bearer '' @ [CHR 0x27]))
      else Inr (drop (length BEARER_PREFIX) s))"

definition standard_authorization :: "'w IdpState \<Rightarrow> authorization_header \<Rightarrow> ('w, ErrorResponse, Authorization) op" where
  "standard_authorization S header = (case header of
      Some v \<Rightarrow> await (lift (bearer_from_header v)) (authorize_bearer S)
    | None \<Rightarrow> err (described NotAuthorized ''missing authorization header''))"

text \<open>The routes of other servers read the header themselves.\<close>

definition caller_token :: "authorization_header \<Rightarrow> string option" where
  "caller_token header = (case header of
      Some (Inr s) \<Rightarrow> if prefix ''Bearer '' s \<and> drop 7 s \<noteq> [] then Some (drop 7 s) else None
    | _ \<Rightarrow> None)"

section \<open>Introspection\<close>

definition VALIDATE_TOKEN_SCOPE :: string where
  "VALIDATE_TOKEN_SCOPE = ''idp.token.validate''"

definition allows_audience :: "string list \<Rightarrow> string \<Rightarrow> bool" where
  "allows_audience allowed_audiences audience = list_ex (\<lambda>allowed. allowed = audience) allowed_audiences"

definition introspect :: "'w IdpState \<Rightarrow> authorization_header \<Rightarrow> IntrospectionRequest
    \<Rightarrow> ('w, ErrorResponse, IntrospectionResponse) op" where
  "introspect S header request =
    await (lift (ok_or (ErrorResponse_new NotAuthorized) (caller_token header))) (\<lambda>caller_token.
    await (authorize_bearer_client S caller_token) (\<lambda>caller.
    if claim_aud (az_claims caller) \<noteq> st_service_audience S then err (ErrorResponse_new NotAuthorized) else
    if VALIDATE_TOKEN_SCOPE \<notin> set (claim_scope (az_claims caller)) then err (ErrorResponse_new AccessDenied) else
    await (get_client (st_oauth2_service S) (claim_client_id (az_claims caller))) (\<lambda>client.
    await (authorize_bearer_any_principal S (ir_token request)) (\<lambda>inspected.
    if \<not> allows_audience (cr_allowed_audiences client) (claim_aud (az_claims inspected))
    then err (ErrorResponse_new NotAuthorized) else
    await (application_id_for_client (st_oauth2_service S) (claim_client_id (az_claims inspected))) (\<lambda>application_id.
    ok \<lparr>is_claims = az_claims inspected, is_application_id = show_id (st_env S) application_id\<rparr>)))))"

section \<open>Devices\<close>

definition DEVICE_LOOKUP_SCOPE :: string where
  "DEVICE_LOOKUP_SCOPE = ''idp.device.lookup''"

definition DEVICE_LIST_SCOPE :: string where
  "DEVICE_LIST_SCOPE = ''idp.device.list''"

definition can_list_device_endpoints :: "PrincipalType \<Rightarrow> string \<Rightarrow> string list \<Rightarrow> string \<Rightarrow> bool" where
  "can_list_device_endpoints kind audience scopes service_audience =
    (kind = PrincipalClient \<and> audience = service_audience \<and> DEVICE_LIST_SCOPE \<in> set scopes)"

definition can_lookup_device_endpoint :: "PrincipalType \<Rightarrow> string \<Rightarrow> string list \<Rightarrow> string \<Rightarrow> bool" where
  "can_lookup_device_endpoint kind audience scopes service_audience =
    (kind = PrincipalClient \<and> audience = service_audience \<and> DEVICE_LOOKUP_SCOPE \<in> set scopes)"

definition lookup_device_endpoint :: "'w IdpState \<Rightarrow> authorization_header \<Rightarrow> string
    \<Rightarrow> ('w, ErrorResponse, DeviceEndpointIdentity) op" where
  "lookup_device_endpoint S header endpoint_id =
    await (lift (ok_or (ErrorResponse_new NotAuthorized) (caller_token header))) (\<lambda>t.
    await (authorize_bearer_client S t) (\<lambda>caller.
    let claims = az_claims caller in
    if \<not> can_lookup_device_endpoint (claim_principal_type claims) (claim_aud claims) (claim_scope claims) (st_service_audience S)
    then err (ErrorResponse_new AccessDenied) else
    await (lift (ok_or (ErrorResponse_new InvalidRequest) (parse_endpoint (st_endpoints S) endpoint_id))) (\<lambda>parsed_endpoint.
    if show_endpoint (st_endpoints S) parsed_endpoint \<noteq> endpoint_id then err (ErrorResponse_new InvalidRequest) else
    await (map_err (\<lambda>_. ErrorResponse_new ServerError) (repo_find_approved_by_public_key (st_devices S) endpoint_id)) (\<lambda>found.
    await (lift (ok_or (ErrorResponse_new NotFound) found)) (\<lambda>device.
    ok \<lparr>ei_device_id = dev_id device, ei_owner_subject = dev_owner_subject device, ei_endpoint_id = endpoint_id\<rparr>)))))"

definition list_approved_device_endpoints :: "'w IdpState \<Rightarrow> authorization_header \<Rightarrow> ('w, ErrorResponse, string list) op" where
  "list_approved_device_endpoints S header =
    await (lift (ok_or (ErrorResponse_new NotAuthorized) (caller_token header))) (\<lambda>t.
    await (authorize_bearer_client S t) (\<lambda>caller.
    let claims = az_claims caller in
    if \<not> can_list_device_endpoints (claim_principal_type claims) (claim_aud claims) (claim_scope claims) (st_service_audience S)
    then err (ErrorResponse_new AccessDenied) else
    await (map_err (\<lambda>_. ErrorResponse_new ServerError) (repo_list (st_devices S))) (\<lambda>devices.
    ok (map dev_public_key (filter (\<lambda>device. dev_state device = Approved) devices)))))"

definition route_trusted_devices :: "'w IdpState \<Rightarrow> Authorization \<Rightarrow> ('w, ErrorResponse, TrustedDevice list) op" where
  "route_trusted_devices S authorization =
    (if ''storage'' \<notin> set (claim_scope (az_claims authorization)) then err (ErrorResponse_new AccessDenied) else
    map_err (\<lambda>_. ErrorResponse_new ServerError) (repo_list_approved (st_devices S) (claim_sub (az_claims authorization))))"

definition route_enroll_device :: "'w IdpState \<Rightarrow> Authorization \<Rightarrow> DeviceEnrollmentRequest
    \<Rightarrow> ('w, ErrorResponse, DeviceEnrollment) op" where
  "route_enroll_device S authorization request =
    enroll (st_devices S) (st_endpoints S) (claim_sub (az_claims authorization)) request"

text \<open>The controller over the network server: pairing is switched on for a time, or off.\<close>

definition TimedPairingAcceptanceController :: "(nat \<Rightarrow> ('w, string, unit) op) \<Rightarrow> (bool \<Rightarrow> ('w, string, unit) op)
    \<Rightarrow> ('w, string, bool) op \<Rightarrow> nat \<Rightarrow> 'w pairing_controller" where
  "TimedPairingAcceptanceController set_pairing_enabled_for set_pairing_enabled pairing_enabled timeout =
    \<lparr>pc_set_pairing_accepting = (\<lambda>accepting. if accepting then set_pairing_enabled_for timeout else set_pairing_enabled False),
     pc_pairing_accepting = pairing_enabled\<rparr>"

definition bind_controller :: "'w pairing_controller \<Rightarrow> 'w IdpState \<Rightarrow> 'w IdpState" where
  "bind_controller c S = S\<lparr>st_pairing_acceptance := Some c\<rparr>"

definition controller :: "'w pairing_controller option \<Rightarrow> string + 'w pairing_controller" where
  "controller slot = ok_or ''pairing controller is not initialized'' slot"

definition route_pairing_acceptance :: "'w IdpState \<Rightarrow> Authorization \<Rightarrow> ('w, ErrorResponse, bool) op" where
  "route_pairing_acceptance S authorization =
    map_err (\<lambda>_. ErrorResponse_new ServerError)
      (await (lift (controller (st_pairing_acceptance S))) pc_pairing_accepting)"

definition route_set_pairing_acceptance :: "'w IdpState \<Rightarrow> Authorization \<Rightarrow> bool \<Rightarrow> ('w, ErrorResponse, bool) op" where
  "route_set_pairing_acceptance S authorization accepting =
    await (map_err (\<lambda>_. ErrorResponse_new ServerError)
      (await (lift (controller (st_pairing_acceptance S))) (\<lambda>c. pc_set_pairing_accepting c accepting))) (\<lambda>_. ok accepting)"

definition route_list_devices :: "'w IdpState \<Rightarrow> Authorization \<Rightarrow> ('w, ErrorResponse, DeviceInfo list) op" where
  "route_list_devices S authorization = list_devices (st_devices S) (claim_sub (az_claims authorization))"

definition route_update_device :: "'w IdpState \<Rightarrow> Authorization \<Rightarrow> uuid \<Rightarrow> string \<Rightarrow> ('w, ErrorResponse, DeviceInfo) op" where
  "route_update_device S authorization device_id name =
    rename_device (st_devices S) (claim_sub (az_claims authorization)) device_id name"

definition route_revoke_device :: "'w IdpState \<Rightarrow> Authorization \<Rightarrow> uuid \<Rightarrow> ('w, ErrorResponse, unit) op" where
  "route_revoke_device S authorization device_id =
    revoke_device (st_devices S) (claim_sub (az_claims authorization)) device_id (di_endpoint_id (st_device_identity S))"

text \<open>The identity of this device, without a check of the caller.\<close>

definition route_device :: "'w IdpState \<Rightarrow> ('w, nat, string \<times> string) op" where
  "route_device S = await (map_err (\<lambda>_. 500) (di_endpoint_address (st_device_identity S))) (\<lambda>address.
    ok (di_endpoint_id (st_device_identity S), address))"

definition sign_device_message :: "'w IdpState \<Rightarrow> string \<Rightarrow> string" where
  "sign_device_message S message = di_sign (st_device_identity S) (str_bytes message)"

definition verify_request :: "endpoints \<Rightarrow> DeviceSelfRevocationRequest \<Rightarrow> ErrorResponse + unit" where
  "verify_request K request =
    verify_signature K (sv_public_key request) (device_self_revocation_payload (sv_public_key request)) (sv_signature request)"

definition route_revoke_self :: "'w IdpState \<Rightarrow> DeviceSelfRevocationRequest \<Rightarrow> ('w, ErrorResponse, unit) op" where
  "route_revoke_self S request =
    (case st_hosted_control_plane S of
      Some (W, control_plane) \<Rightarrow> map_err (\<lambda>_. ErrorResponse_new ServerError) (revoke_self W control_plane request)
    | None \<Rightarrow>
      await (lift (verify_request (st_endpoints S) request)) (\<lambda>_.
      revoke_own_device (st_devices S) (sv_public_key request)))"

section \<open>Set-up of a new device\<close>

record SetupBootstrapRequest =
  sb_device_name :: string
  sb_endpoint_id :: string
  sb_endpoint_addr :: string

record SetupBootstrapRegistration =
  sr_grant :: string
  sr_endpoint_id :: string
  sr_endpoint_addr :: string
  sr_expires_at :: int

definition create_pending_device :: "'w IdpState \<Rightarrow> string \<Rightarrow> SetupBootstrapRequest \<Rightarrow> endpoint_id \<Rightarrow> string
    \<Rightarrow> ('w, ErrorResponse, uuid \<times> byte list) op" where
  "create_pending_device S owner_subject request endpoint_id grant =
    (let enrollment_code_hash = sha256 (env_crypto (st_env S)) (str_bytes grant) in
    await (effect (in_system_time (st_net S))) (\<lambda>time.
    let expiry = (if time < 0 then 0 else as_secs time) + 15 * 60 in
    await (map_err (\<lambda>_. ErrorResponse_new ServerError) (repo_create (st_devices S) owner_subject (sb_device_name request)
      (show_endpoint (st_endpoints S) endpoint_id) (sb_endpoint_addr request) enrollment_code_hash expiry)) (\<lambda>device.
    ok (dev_id device, enrollment_code_hash))))"

definition bootstrap_device :: "'w IdpState \<Rightarrow> string \<Rightarrow> SetupBootstrapRequest \<Rightarrow> endpoint_id \<Rightarrow> string
    \<Rightarrow> ('w, ErrorResponse, uuid \<times> byte list) op" where
  "bootstrap_device S subject request endpoint_id grant =
    await (map_err (\<lambda>_. ErrorResponse_new ServerError) (repo_list (st_devices S))) (\<lambda>existing_devices.
    let existing = List.find (\<lambda>device. dev_public_key device = show_endpoint (st_endpoints S) endpoint_id) existing_devices in
    if case existing of None \<Rightarrow> False | Some device \<Rightarrow> dev_owner_subject device \<noteq> subject
    then err (ErrorResponse_new AccessDenied) else
    (case existing of
      Some device \<Rightarrow>
        if dev_state device = Approved then ok (dev_id device, [])
        else if dev_state device = Pending then
          await (map_err (\<lambda>_. ErrorResponse_new ServerError) (repo_revoke (st_devices S) subject (dev_id device)
            (di_endpoint_id (st_device_identity S)))) (\<lambda>_.
          create_pending_device S subject request endpoint_id grant)
        else create_pending_device S subject request endpoint_id grant
    | None \<Rightarrow> create_pending_device S subject request endpoint_id grant))"

definition register_bootstrap :: "'w IdpState \<Rightarrow> Authorization \<Rightarrow> SetupBootstrapRequest
    \<Rightarrow> (BootstrapRegistry \<times> 'w, ErrorResponse, SetupBootstrapRegistration) op" where
  "register_bootstrap S authorization request =
    (let claims = az_claims authorization in
    if ''setup'' \<notin> set (claim_scope claims) then err (ErrorResponse_new AccessDenied) else
    await (lift (ok_or (ErrorResponse_new InvalidRequest) (parse_endpoint (st_endpoints S) (sb_endpoint_id request)))) (\<lambda>endpoint_id.
    await (lift (ok_or (ErrorResponse_new InvalidRequest) (in_parse_address (st_net S) (sb_endpoint_addr request)))) (\<lambda>address_id.
    if show_endpoint (st_endpoints S) endpoint_id \<noteq> sb_endpoint_id request \<or> address_id \<noteq> endpoint_id
       \<or> trim (sb_device_name request) = []
    then err (ErrorResponse_new InvalidRequest) else
    await (in_world (generate_random_string (st_env S) 32)) (\<lambda>grant.
    await (in_world (bootstrap_device S (claim_sub claims) request endpoint_id grant)) (\<lambda>(device_id, enrollment_code_hash).
    await (in_world (effect (in_instants (st_net S)))) (\<lambda>(instant, at).
    await (in_grants (\<lambda>B. case register_grant instant at grant endpoint_id device_id enrollment_code_hash B of
      (registered, B', peer) \<Rightarrow> ((registered, peer), B'))) (\<lambda>((grant, record), peer).
    await (case peer of None \<Rightarrow> ok () | Some p \<Rightarrow> in_world (in_allow_peer (st_net S) p)) (\<lambda>_.
    await (in_world (effect (in_system_time (st_net S)))) (\<lambda>system_now.
    await (in_world (effect (in_instants (st_net S)))) (\<lambda>(later, _).
    await (map_err (\<lambda>_. ErrorResponse_new ServerError) (in_world (di_endpoint_address (st_device_identity S)))) (\<lambda>address.
    ok \<lparr>sr_grant = grant, sr_endpoint_id = di_endpoint_id (st_device_identity S), sr_endpoint_addr = address,
      sr_expires_at = expires_at_unix (in_checked_add (st_net S)) system_now later record\<rparr>)))))))))))"

section \<open>OAuth2 endpoints\<close>

definition parse_client_auth :: "'w IdpState \<Rightarrow> authorization_header \<Rightarrow> TokenRequest \<Rightarrow> ErrorResponse + OAuth2ClientAuth option" where
  "parse_client_auth S header request = (case header of
      None \<Rightarrow> Inr (case request of ClientCredentials r \<Rightarrow> Some \<lparr>auth_client_id = cc_client_id r,
          auth_client_secret = Some (cc_client_secret r), auth_method = ClientSecretPost\<rparr> | _ \<Rightarrow> None)
    | Some (Inl _) \<Rightarrow> Inl (described InvalidClient ''invalid authorization header encoding'')
    | Some (Inr raw) \<Rightarrow>
      if \<not> prefix ''Basic '' raw
      then Inl (described InvalidClient ''unsupported token endpoint authorization method'') else
      and_then (result_map_err (\<lambda>_. described InvalidClient ''invalid basic authorization token'')
        (b64_decode (env_crypto (st_env S)) (drop 6 raw))) (\<lambda>bytes.
      and_then (ok_or (described InvalidClient ''invalid basic authorization token'') (in_from_utf8 (st_net S) bytes)) (\<lambda>decoded.
      let client_id = trim (takeWhile (\<lambda>c. c \<noteq> CHR '':'') decoded);
          client_secret = (if CHR '':'' \<in> set decoded then Some (tl (dropWhile (\<lambda>c. c \<noteq> CHR '':'') decoded)) else None) in
      if client_id = [] then Inl (described InvalidClient ''client_id is required in basic authorization'')
      else Inr (Some \<lparr>auth_client_id = client_id, auth_client_secret = client_secret, auth_method = ClientSecretBasic\<rparr>))))"

definition route_token :: "'w IdpState \<Rightarrow> authorization_header \<Rightarrow> TokenRequest \<Rightarrow> ('w, ErrorResponse, TokenResponse) op" where
  "route_token S header request =
    await (lift (parse_client_auth S header request)) (\<lambda>client_auth.
    token (st_env S) (st_oauth2_service S) request client_auth)"

definition authorize_json :: "'w IdpState \<Rightarrow> Authorization \<Rightarrow> AuthorizationRequest
    \<Rightarrow> ('w, ErrorResponse, AuthorizationCodeResponse) op" where
  "authorize_json S authorization request = authorize (st_env S) (st_oauth2_service S) request (az_principal authorization)"

definition redirect_to_authorize_ui :: "'w IdpState \<Rightarrow> AuthorizationRequest \<Rightarrow> string option \<Rightarrow> ErrorResponse + string" where
  "redirect_to_authorize_ui S request raw_query =
    and_then (case raw_query of Some q \<Rightarrow> Inr q
      | None \<Rightarrow> result_map_err (\<lambda>e. described ServerError e) (in_query_to_string (st_net S) request)) (\<lambda>query_string.
    let base = st_ui_base_uri S in
    Inr ((if suffix ''/'' base then base else base @ ''/'') @ ''authorize?'' @ query_string))"

definition route_is_allowed_for_user :: "'w IdpState \<Rightarrow> Authorization \<Rightarrow> IsAllowedForUserRequest
    \<Rightarrow> ('w, ErrorResponse, IsAllowedForUserResponse) op" where
  "route_is_allowed_for_user S authorization request =
    is_allowed_for_user (st_oauth2_service S) request (az_principal authorization)"

definition route_approve_for_user :: "'w IdpState \<Rightarrow> Authorization \<Rightarrow> ApproveForUserRequest
    \<Rightarrow> ('w, ErrorResponse, IsAllowedForUserResponse) op" where
  "route_approve_for_user S authorization request =
    approve_for_user (st_oauth2_service S) request (az_principal authorization)"

definition route_register :: "'w IdpState \<Rightarrow> Authorization \<Rightarrow> ClientRegistration \<Rightarrow> ('w, ErrorResponse, ClientRegistration) op" where
  "route_register S authorization body = register_client (st_env S) (st_oauth2_service S) body"

definition route_get_register :: "'w IdpState \<Rightarrow> string \<Rightarrow> ('w, ErrorResponse, ClientRegistration) op" where
  "route_get_register S client_id =
    await (get_client (st_oauth2_service S) client_id) (\<lambda>response. ok (response\<lparr>cr_client_secret := None\<rparr>))"

definition route_delete_register :: "'w IdpState \<Rightarrow> Authorization \<Rightarrow> string \<Rightarrow> ('w, ErrorResponse, unit) op" where
  "route_delete_register S authorization client_id = delete_client (st_oauth2_service S) client_id"

definition route_put_register :: "'w IdpState \<Rightarrow> Authorization \<Rightarrow> string \<Rightarrow> ClientRegistration
    \<Rightarrow> ('w, ErrorResponse, ClientRegistration) op" where
  "route_put_register S authorization client_id body = update_client (st_env S) (st_oauth2_service S) client_id body"

definition route_userinfo :: "'w IdpState \<Rightarrow> Authorization \<Rightarrow> ('w, ErrorResponse, UserInfo) op" where
  "route_userinfo S authorization =
    (if get_entity_type (az_principal authorization) \<noteq> EntityUser
     then err (described AccessDenied ''Only users can access this endpoint'')
     else find_user_info (st_env S) (st_oauth2_service S) (get_entity_id (az_principal authorization)))"

definition route_jwks :: "'w IdpState \<Rightarrow> ('w, ErrorResponse, JwkPublic list) op" where
  "route_jwks S = list_jwks (st_env S) (st_oauth2_service S)"

definition route_openid_configuration :: "'w IdpState \<Rightarrow> AuthorizationServerMetadata" where
  "route_openid_configuration S = metadata (st_oauth2_service S)"

definition not_implemented :: "ErrorResponse + 'a" where
  "not_implemented = Inl (described NotImplemented ''endpoint is not implemented'')"

definition device_verify :: "('w, ErrorResponse, DeviceAuthorization) op" where
  "device_verify = lift not_implemented"

definition sessions_logout :: "('w, ErrorResponse, unit) op" where
  "sessions_logout = lift not_implemented"

definition route_device_auth :: "'w IdpState \<Rightarrow> DeviceAuthorizationRequest \<Rightarrow> ('w, ErrorResponse, DeviceAuthorization) op" where
  "route_device_auth S request = device_authorization (st_env S) (st_oauth2_service S) request"

definition route_revoke :: "RevocationRequest \<Rightarrow> ('w, ErrorResponse, unit) op" where
  "route_revoke request = revoke request"

end
