(* ===== verification/Idp_Access.thy ===== *)
theory Idp_Access
  imports Idp_Server Oauth2_Example
begin

text \<open>
  What the identity server answers to other servers: introspection returns the claims of a token only
  for genuine tokens, to callers that are registered for the audience of the token.
\<close>

section \<open>Genuine tokens\<close>

text \<open>The token is signed with the active root key of the principal that its header names, which the claims describe, and it
  is a current access token of this issuer.\<close>

definition genuine :: "'w IdpState \<Rightarrow> string \<Rightarrow> Principal \<Rightarrow> StandardClaims \<Rightarrow> bool" where
  "genuine S t subject claims = (\<exists>header key_id jwk time w1 w2 w3 w4 w5 w6.
    env_parse_uuid (st_env S) (hdr_kid header) = Some key_id
    \<and> find_principal (st_oauth2_service S) key_id w1 = (Inr (Some subject), w2)
    \<and> find_public_jwk (st_env S) (st_oauth2_service S) key_id w3 = (Inr jwk, w4)
    \<and> verify_jwt (env_crypto (st_env S)) (claims_from_json (env_crypto (st_env S))) jwk t = Inr (header, claims)
    \<and> in_system_time (st_net S) w5 = (time, w6) \<and> claim_nbf claims \<le> as_secs time \<and> as_secs time < claim_exp claims
    \<and> claim_type claims = Bearer \<and> claim_use claims = UseAccess
    \<and> claim_iss claims = md_issuer (metadata (st_oauth2_service S))
    \<and> get_entity_type subject = claimed_entity_type (claim_principal_type claims)
    \<and> claim_sub claims = show_id (st_env S) (get_entity_id subject) \<and> claim_aud claims \<noteq> [])"

text \<open>Reading and verifying a token find the same header and claims.\<close>

lemma verify_decode:
  assumes "verify_jwt E from_json jwk t = Inr (header, claims)"
  shows "decode_jwt E from_json t = Inr (header, claims)"
  using assms by (auto simp: verify_jwt_def decode_jwt_def split: list.splits)

lemma bearer_genuine:
  assumes "authorize_bearer_with_principal S t expected w = (Inr a, w')"
  shows "genuine S t (az_principal a) (az_claims a) \<and> az_token a = t
    \<and> (\<forall>p. expected = Some p \<longrightarrow> claim_principal_type (az_claims a) = p)"
proof -
  let ?E = "env_crypto (st_env S)"
  from assms obtain header c key_id w1 w2 jwk w3 h claims time w4 where
    "decode_jwt ?E (claims_from_json ?E) t = Inr (header, c)" "env_parse_uuid (st_env S) (hdr_kid header) = Some key_id"
    and found: "find_principal (st_oauth2_service S) key_id w = (Inr (Some (az_principal a)), w2)"
      "find_public_jwk (st_env S) (st_oauth2_service S) key_id w2 = (Inr jwk, w3)"
    and verified: "verify_jwt ?E (claims_from_json ?E) jwk t = Inr (h, az_claims a)"
    and time: "in_system_time (st_net S) w3 = (time, w4)"
      "bearer_claims_ok S (az_principal a) expected (as_secs time) (az_claims a)" "az_token a = t"
    by (auto simp: authorize_bearer_with_principal_def unix_now_def returns Let_def ok_or_def
        split: prod.splits option.splits if_splits)
  from verify_decode [OF verified] this(1,2) have "env_parse_uuid (st_env S) (hdr_kid h) = Some key_id" by simp
  with found verified time show ?thesis
    unfolding genuine_def by (fastforce simp: bearer_claims_ok_def split: option.splits)
qed

lemma caller_token_Some: "caller_token header = Some t \<Longrightarrow> header = Some (Inr (''Bearer '' @ t))"
  by (auto simp: caller_token_def prefix_def split: option.splits sum.splits if_splits)

section \<open>An example\<close>

text \<open>A client that may validate tokens asks about a token of the user.\<close>

definition demo_idp :: "mem IdpState" where
  "demo_idp = \<lparr>st_ui_base_uri = ''https://ui'', st_service_audience = ''idp'', st_env = demo_env, st_oauth2_service = demo_service,
    st_devices = DbDeviceRepo (mem_host schema_columns), st_endpoints = plain_endpoints,
    st_device_identity = \<lparr>di_endpoint_id = ''k1'', di_endpoint_address = ok [], di_sign = (\<lambda>_. [])\<rparr>,
    st_pairing_acceptance = None, st_hosted_control_plane = None,
    st_net = \<lparr>in_system_time = Pair 1000000000000, in_instants = Pair (0, \<lambda>_. 0), in_checked_add = (\<lambda>_ _. None),
      in_parse_address = (\<lambda>_. None), in_allow_peer = (\<lambda>_. ok ()), in_query_to_string = (\<lambda>_. Inr []),
      in_from_utf8 = (\<lambda>_. None)\<rparr>\<rparr>"

definition demo_caller :: StandardClaims where
  "demo_caller = (demo_claims UseAccess)\<lparr>claim_aud := ''idp'', claim_client_id := ''srv'', claim_sub := decimal 3,
    claim_principal_type := PrincipalClient, claim_scope := [''idp.token.validate'']\<rparr>"

definition demo_inspected :: StandardClaims where
  "demo_inspected = (demo_claims UseAccess)\<lparr>claim_aud := ''api'', claim_sub := decimal 1\<rparr>"

lemma demo_signed:
  assumes "i \<in> {11, 13}"
  shows "decode_jwt mem_crypto (claims_from_json mem_crypto) (demo_sign (put claims_codec) i claims)
      = Inr (mem_tokens.header_for (decimal (unat i)), claims)"
    "\<exists>jwk. find_public_jwk demo_env demo_service i w = (Inr jwk, w)
      \<and> verify_jwt mem_crypto (claims_from_json mem_crypto) jwk (demo_sign (put claims_codec) i claims)
        = Inr (mem_tokens.header_for (decimal (unat i)), claims)"
proof -
  have E: "env_crypto demo_env = mem_crypto" "env_bip32 demo_env = mem_bip32" by (simp_all add: demo_env_def)
  show "decode_jwt mem_crypto (claims_from_json mem_crypto) (demo_sign (put claims_codec) i claims)
      = Inr (mem_tokens.header_for (decimal (unat i)), claims)"
    using mem_tokens.decode_encoded [of "demo_jwk i" claims] demo_encode(1) [of i claims] E by (simp add: demo_jwk_def)
  let ?public = "\<lparr>jk_use = Signature, jk_kid = decimal (unat i), jk_alg = EdDSA,
    jk_params = PublicEc ''secp256k1'' (letters [1, 2, 3]) (letters [])\<rparr>"
  let ?key = "if i = 11 then demo_key 11 EntityUser 1 else demo_key 13 EntityClient 3"
  have "find_public_jwk demo_env demo_service i w = (Inr ?public, w)"
    using assms
    by (auto simp: find_public_jwk_def ensure_key_is_active_entity_root_def load_private_key_def demo_keys returns
        demo_service_def Key_derivation_path_def to_jwk_public_def to_xy_def demo_key_def E mem_bip32_def mem_crypto_def
        mem_parse_path_def show_id_def) (auto simp: demo_env_def)
  moreover have "verify_jwt mem_crypto (claims_from_json mem_crypto) ?public (demo_sign (put claims_codec) i claims)
      = Inr (mem_tokens.header_for (decimal (unat i)), claims)"
    using mem_tokens.verify_encoded [of "\<lambda>i. decimal (unat i)" ?key
        "\<lparr>dk_key = [1, 2, 3], dk_path = []\<rparr>" "demo_jwk i" ?public "''secp256k1''" claims]
      demo_encode(1) [of i claims] E assms
    by (auto simp: to_jwk_private_def to_xyd_def to_xy_def demo_jwk_def demo_key_def mem_bip32_def) (auto simp: mem_crypto_def)
  ultimately show "\<exists>jwk. find_public_jwk demo_env demo_service i w = (Inr jwk, w)
      \<and> verify_jwt mem_crypto (claims_from_json mem_crypto) jwk (demo_sign (put claims_codec) i claims)
        = Inr (mem_tokens.header_for (decimal (unat i)), claims)" by blast
qed

lemma demo_idp_simps:
  "st_env demo_idp = demo_env" "st_oauth2_service demo_idp = demo_service" "env_crypto demo_env = mem_crypto"
  "st_service_audience demo_idp = ''idp''" "in_system_time (st_net demo_idp) = Pair 1000000000000"
  by (simp_all add: demo_idp_def demo_env_def)

lemma demo_principals:
  "find_principal demo_service 11 w = (Inr (Some (UserPrincipal demo_user (demo_key 11 EntityUser 1))), w)"
  "find_principal demo_service 13 w = (Inr (Some (ClientPrincipal demo_server (demo_key 13 EntityClient 3))), w)"
  by (simp_all add: find_principal_def ensure_key_is_active_entity_root_def attempt_def demo_service_def demo_key_def demo_user_def
      demo_server_def demo_client_def op_defs ok_or_def)

lemma demo_bearer:
  assumes "i \<in> {11, 13}" and "find_principal demo_service i w = (Inr (Some subject), w)"
    and "bearer_claims_ok demo_idp subject expected 1000 claims"
  shows "authorize_bearer_with_principal demo_idp (demo_sign (put claims_codec) i claims) expected w
    = (Inr \<lparr>az_principal = subject, az_claims = claims, az_token = demo_sign (put claims_codec) i claims\<rparr>, w)"
proof -
  have "of_nat (unat i) = i" by simp
  with demo_parse [of "unat i"] have "env_parse_uuid demo_env (decimal (unat i)) = Some i" by simp
  moreover obtain jwk where "find_public_jwk demo_env demo_service i w = (Inr jwk, w)"
    "verify_jwt mem_crypto (claims_from_json mem_crypto) jwk (demo_sign (put claims_codec) i claims)
      = Inr (mem_tokens.header_for (decimal (unat i)), claims)" using demo_signed(2) [OF assms(1)] by blast
  moreover have "as_secs 1000000000000 = 1000" by (simp add: as_secs_def)
  ultimately show ?thesis
    using assms(2,3) demo_signed(1) [OF assms(1), of claims]
    by (simp add: authorize_bearer_with_principal_def demo_idp_simps unix_now_def mem_tokens.header_for_def ok_or_def op_defs Let_def)
qed

section \<open>Properties\<close>

text \<open>C8: introspection is sound.  The identity server returns the claims of a token only to the bearer of a genuine client
  token for its own audience with the validation scope, and only if the inspected token is genuine (signed with the active
  root key of the principal it names, of this issuer, current, an access token) and its audience is registered for the
  calling client; the application it names is the one of the client of the inspected token.\<close>

theorem introspect_sound:
  assumes "introspect S header request w = (Inr r, w')"
  shows "\<exists>t caller claims subject. header = Some (Inr (''Bearer '' @ t)) \<and> genuine S t caller claims
    \<and> claim_principal_type claims = PrincipalClient \<and> claim_aud claims = st_service_audience S
    \<and> ''idp.token.validate'' \<in> set (claim_scope claims)
    \<and> genuine S (ir_token request) subject (is_claims r)
    \<and> (\<exists>client w1 w2. get_client (st_oauth2_service S) (claim_client_id claims) w1 = (Inr client, w2)
        \<and> claim_aud (is_claims r) \<in> set (cr_allowed_audiences client))
    \<and> (\<exists>app w1 w2. application_id_for_client (st_oauth2_service S) (claim_client_id (is_claims r)) w1 = (Inr app, w2)
        \<and> is_application_id r = show_id (st_env S) app)"
proof -
  from assms obtain t caller w1 client w2 inspected w3 app w4 where
    "caller_token header = Some t" "authorize_bearer_client S t w = (Inr caller, w1)"
    "claim_aud (az_claims caller) = st_service_audience S" "VALIDATE_TOKEN_SCOPE \<in> set (claim_scope (az_claims caller))"
    "get_client (st_oauth2_service S) (claim_client_id (az_claims caller)) w1 = (Inr client, w2)"
    "authorize_bearer_any_principal S (ir_token request) w2 = (Inr inspected, w3)"
    "allows_audience (cr_allowed_audiences client) (claim_aud (az_claims inspected))"
    "application_id_for_client (st_oauth2_service S) (claim_client_id (az_claims inspected)) w3 = (Inr app, w4)"
    "r = \<lparr>is_claims = az_claims inspected, is_application_id = show_id (st_env S) app\<rparr>"
    by (auto simp: introspect_def returns ok_or_def split: option.splits if_splits)
  with caller_token_Some bearer_genuine [of S t] bearer_genuine [of S "ir_token request"] show ?thesis
    unfolding authorize_bearer_client_def authorize_bearer_any_principal_def allows_audience_def list_ex_iff VALIDATE_TOKEN_SCOPE_def
    by fastforce
qed

theorem introspect_sound_witness:
  "\<exists>r w'. introspect demo_idp (Some (Inr (''Bearer '' @ demo_sign (put claims_codec) 13 demo_caller)))
      \<lparr>ir_token = demo_sign (put claims_codec) 11 demo_inspected, ir_token_type_hint = None\<rparr> demo_world = (Inr r, w')
    \<and> (\<exists>subject. genuine demo_idp (demo_sign (put claims_codec) 11 demo_inspected) subject (is_claims r))"
proof -
  let ?t = "demo_sign (put claims_codec) 13 demo_caller" and ?i = "demo_sign (put claims_codec) 11 demo_inspected"
  let ?request = "\<lparr>ir_token = ?i, ir_token_type_hint = None\<rparr>"
  have "?t \<noteq> []" by (simp add: demo_sign_def Let_def)
  then have header: "caller_token (Some (Inr (''Bearer '' @ ?t))) = Some ?t" by (simp add: caller_token_def)
  have issuer: "md_issuer (metadata demo_service) = ''https://api.localhost:1355/idp''"
    by (simp add: metadata_def to_metadata_def demo_service_def default_config_def trim_end_slashes_def Let_def)
  have caller: "authorize_bearer_client demo_idp ?t demo_world = (Inr \<lparr>az_principal = ClientPrincipal demo_server (demo_key 13 EntityClient 3),
      az_claims = demo_caller, az_token = ?t\<rparr>, demo_world)"
    unfolding authorize_bearer_client_def
    by (rule demo_bearer) (simp_all add: demo_principals bearer_claims_ok_def demo_idp_simps issuer demo_caller_def demo_claims_def show_id_def
      demo_server_def demo_client_def demo_env_def)
  have inspected: "authorize_bearer_any_principal demo_idp ?i demo_world = (Inr \<lparr>az_principal = UserPrincipal demo_user (demo_key 11 EntityUser 1),
      az_claims = demo_inspected, az_token = ?i\<rparr>, demo_world)"
    unfolding authorize_bearer_any_principal_def
    by (rule demo_bearer) (simp_all add: demo_principals bearer_claims_ok_def demo_idp_simps issuer demo_inspected_def demo_claims_def show_id_def
      demo_user_def demo_env_def)
  have "\<exists>c. get_client demo_service ''srv'' demo_world = (Inr c, demo_world) \<and> cr_allowed_audiences c = [''api'']"
    by (simp add: get_client_def find_client_def demo_service_def demo_server_def demo_client_def ClientRegistration_from_def op_defs ok_or_def)
  moreover have "\<exists>a. application_id_for_client demo_service ''app'' demo_world = (Inr a, demo_world)"
    by (simp add: application_id_for_client_def find_client_def demo_service_def op_defs ok_or_def)
  moreover have "claim_client_id demo_caller = ''srv''" "claim_aud demo_caller = ''idp''" "claim_scope demo_caller = [''idp.token.validate'']"
    "claim_client_id demo_inspected = ''app''" "claim_aud demo_inspected = ''api''"
    by (simp_all add: demo_caller_def demo_inspected_def)
  ultimately have "\<exists>r. introspect demo_idp (Some (Inr (''Bearer '' @ ?t))) ?request demo_world = (Inr r, demo_world)"
    using header caller inspected
    by (auto simp: introspect_def demo_idp_simps VALIDATE_TOKEN_SCOPE_def allows_audience_def op_defs ok_or_def)
  then obtain r where run: "introspect demo_idp (Some (Inr (''Bearer '' @ ?t))) ?request demo_world = (Inr r, demo_world)" by blast
  from introspect_sound [OF this] run show ?thesis by auto
qed

end
