(* ===== verification/Storage_Clients.thy ===== *)
theory Storage_Clients
  imports Management_Server
begin

text \<open>
  The clients through which the storage server reaches the identity provider
  (\<open>crates/storage-server/src/idp_client.rs\<close>) and the management server
  (\<open>crates/storage-server/src/management_client.rs\<close>).  Each client has its own token cache; HTTP, URLs, JSON and endpoint
  identifiers are external crates.
\<close>

record 'w storage_web =
  sw_web :: "'w web"
  sw_show_url :: "Url \<Rightarrow> string"
  sw_push_segments :: "Url \<Rightarrow> string list \<Rightarrow> Url option"
  sw_endpoints_from_json :: "byte list \<Rightarrow> string + string list"
  sw_selected_from_json :: "byte list \<Rightarrow> string + SelectedResourceInfo list"
  sw_parse_endpoint :: "string \<Rightarrow> byte list option"
  sw_show_endpoint :: "byte list \<Rightarrow> string"

section \<open>Addresses\<close>

definition client_is_loopback :: "'w storage_web \<Rightarrow> Url \<Rightarrow> bool" where
  "client_is_loopback W url = (case url_host url of None \<Rightarrow> False
    | Some host \<Rightarrow> to_ascii_lowercase host = ''localhost'' \<or> ip_is_loopback (sw_web W) host)"

definition validate_http_url :: "'w storage_web \<Rightarrow> string \<Rightarrow> string \<Rightarrow> string + Url" where
  "validate_http_url W s description =
    and_then (ok_or (''invalid '' @ description) (parse_url (sw_web W) s)) (\<lambda>url.
    if url_scheme url \<notin> {''http'', ''https''} \<or> url_host url = None \<or> url_query url \<noteq> None \<or> url_fragment url \<noteq> None
       \<or> url_username url \<noteq> [] \<or> url_password url \<noteq> None \<or> (url_scheme url = ''http'' \<and> \<not> client_is_loopback W url)
    then Inl (description @ '' must use HTTPS except for loopback'') else Inr url)"

definition normalize_base_url :: "'w storage_web \<Rightarrow> string \<Rightarrow> string \<Rightarrow> string + Url" where
  "normalize_base_url W s description = and_then (validate_http_url W s description) (\<lambda>url.
    Inr (if suffix ''/'' (url_path url) then url else url\<lparr>url_path := url_path url @ ''/''\<rparr>))"

section \<open>Service tokens\<close>

text \<open>What a client asks the identity provider for.\<close>

record token_source =
  ts_idp_base_url :: Url
  ts_client_id :: string
  ts_client_secret :: string
  ts_issuer :: string
  ts_audience :: string
  ts_scopes :: string
  ts_cache_error :: string

definition storage_token_ok :: "token_source \<Rightarrow> TokenResponse \<Rightarrow> bool" where
  "storage_token_ok T token = (tr_token_type token = Bearer \<and> tr_issuer token = Some (ts_issuer T)
    \<and> (case tr_scope token of None \<Rightarrow> False
      | Some scope \<Rightarrow> list_all (\<lambda>required. required \<in> set (ascii_words [] scope)) (ascii_words [] (ts_scopes T))))"

definition storage_service_token :: "'w storage_web \<Rightarrow> token_source \<Rightarrow> ('w, string, string) op" where
  "storage_service_token W T =
    (let V = sw_web W in
    await (map_err (\<lambda>_. ts_cache_error T) (cached_token V)) (\<lambda>cached.
    await (case cached of None \<Rightarrow> ok None
      | Some token \<Rightarrow> await (effect (system_time V)) (\<lambda>now. ok (if fresh now token then Some (ct_value token) else None))) (\<lambda>usable.
    case usable of Some token \<Rightarrow> ok token | None \<Rightarrow>
    await (lift (result_map_err (\<lambda>_. ''invalid IdP token endpoint URL'') (join_url V (ts_idp_base_url T) ''oauth2/token''))) (\<lambda>url.
    await (map_err (\<lambda>_. ''IdP token endpoint is unavailable'') (send V \<lparr>rq_method = POST, rq_url = url, rq_bearer = None,
      rq_body = Form [(''grant_type'', ''client_credentials''), (''client_id'', ts_client_id T),
        (''client_secret'', ts_client_secret T), (''scope'', ts_scopes T), (''audience'', ts_audience T)]\<rparr>)) (\<lambda>response.
    if \<not> is_success (rs_status response) then err ''IdP rejected the Storage service client'' else
    await (lift (read_limited_body response ''IdP token response'')) (\<lambda>body.
    await (lift (result_map_err (\<lambda>_. ''invalid IdP token response'') (token_from_json V body))) (\<lambda>token.
    if \<not> storage_token_ok T token then err ''IdP returned an unauthorized Storage service token'' else
    await (lift (ok_or ''IdP service token has no expiry'' (tr_expires_in token))) (\<lambda>expires_in.
    await (effect (system_time V)) (\<lambda>now.
    await (lift (ok_or ''IdP service token expiry is invalid'' (time_checked_add V now expires_in))) (\<lambda>valid_until.
    await (map_err (\<lambda>_. ts_cache_error T) (store_token V \<lparr>ct_value = tr_access_token token, ct_valid_until = valid_until\<rparr>)) (\<lambda>_.
    ok (tr_access_token token))))))))))))"

section \<open>The identity provider\<close>

record IdpClient =
  ic_base_url :: Url
  ic_client_id :: string
  ic_client_secret :: string
  ic_issuer :: string
  ic_audience :: string

definition SERVICE_SCOPES :: string where
  "SERVICE_SCOPES = ''idp.device.lookup idp.device.list idp.token.validate''"

definition new_idp_client :: "'w storage_web \<Rightarrow> string \<Rightarrow> string \<Rightarrow> string \<Rightarrow> string \<Rightarrow> string \<Rightarrow> string + IdpClient" where
  "new_idp_client W base_url client_id client_secret issuer audience =
    (if trim client_id = [] \<or> client_secret = [] \<or> trim audience = []
     then Inl ''IdP OAuth client ID, secret and service audience are required'' else
     and_then (validate_http_url W issuer ''IdP issuer URL'') (\<lambda>issuer_url.
     and_then (normalize_base_url W base_url ''IdP API URL'') (\<lambda>base.
     and_then (result_map_err (\<lambda>_. ''could not create IdP HTTP client'') (build_client (sw_web W))) (\<lambda>_.
     Inr \<lparr>ic_base_url = base, ic_client_id = client_id, ic_client_secret = client_secret,
       ic_issuer = trim_end_slashes (sw_show_url W issuer_url), ic_audience = audience\<rparr>))))"

definition idp_token_source :: "IdpClient \<Rightarrow> token_source" where
  "idp_token_source C = \<lparr>ts_idp_base_url = ic_base_url C, ts_client_id = ic_client_id C, ts_client_secret = ic_client_secret C,
    ts_issuer = ic_issuer C, ts_audience = ic_audience C, ts_scopes = SERVICE_SCOPES,
    ts_cache_error = ''IdP service token cache is unavailable''\<rparr>"

datatype IdpIntrospectionError = InvalidToken | ServiceUnavailable

definition client_introspect :: "'w storage_web \<Rightarrow> IdpClient \<Rightarrow> string \<Rightarrow> ('w, IdpIntrospectionError, IntrospectionResponse) op" where
  "client_introspect W C token =
    (let V = sw_web W in
    await (lift (result_map_err (\<lambda>_. ServiceUnavailable) (join_url V (ic_base_url C) ''oauth2/introspect''))) (\<lambda>url.
    await (map_err (\<lambda>_. ServiceUnavailable) (storage_service_token W (idp_token_source C))) (\<lambda>caller_token.
    await (map_err (\<lambda>_. ServiceUnavailable) (send V \<lparr>rq_method = POST, rq_url = url, rq_bearer = Some caller_token,
      rq_body = IntrospectionBody \<lparr>ir_token = token, ir_token_type_hint = Some ''access_token''\<rparr>\<rparr>)) (\<lambda>response.
    if \<not> is_success (rs_status response)
    then err (if rs_status response = 401 then InvalidToken else ServiceUnavailable) else
    await (lift (result_map_err (\<lambda>_. ServiceUnavailable) (read_limited_body response ''IdP introspection response''))) (\<lambda>body.
    lift (result_map_err (\<lambda>_. ServiceUnavailable) (introspection_from_json V body)))))))"

fun check_endpoint_ids :: "'w storage_web \<Rightarrow> string list \<Rightarrow> string list \<Rightarrow> string + unit" where
  "check_endpoint_ids W seen [] = Inr ()"
| "check_endpoint_ids W seen (endpoint_id # rest) =
    and_then (ok_or ''IdP returned an invalid endpoint ID'' (sw_parse_endpoint W endpoint_id)) (\<lambda>parsed.
    if sw_show_endpoint W parsed \<noteq> endpoint_id \<or> endpoint_id \<in> set seen
    then Inl ''IdP returned an invalid or duplicate endpoint ID'' else check_endpoint_ids W (endpoint_id # seen) rest)"

definition approved_storage_endpoints :: "'w storage_web \<Rightarrow> IdpClient \<Rightarrow> ('w, string, string list) op" where
  "approved_storage_endpoints W C =
    (let V = sw_web W in
    await (lift (result_map_err (\<lambda>_. ''invalid IdP endpoint list URL'') (join_url V (ic_base_url C) ''devices/endpoints''))) (\<lambda>url.
    await (storage_service_token W (idp_token_source C)) (\<lambda>token.
    await (map_err (\<lambda>_. ''IdP endpoint list is unavailable'') (send V \<lparr>rq_method = GET, rq_url = url, rq_bearer = Some token,
      rq_body = NoBody\<rparr>)) (\<lambda>response.
    if \<not> is_success (rs_status response)
    then err (if rs_status response \<in> {401, 403} then ''IdP rejected Storage device lookup permission'' else ''IdP endpoint list failed'') else
    await (lift (read_limited_body response ''IdP endpoint list response'')) (\<lambda>body.
    await (lift (result_map_err (\<lambda>_. ''invalid IdP endpoint list response'') (sw_endpoints_from_json W body))) (\<lambda>endpoint_ids.
    await (lift (check_endpoint_ids W [] endpoint_ids)) (\<lambda>_.
    ok endpoint_ids)))))))"

section \<open>The management server\<close>

record ManagementClient =
  mc_management_base_url :: Url
  mc_idp_base_url :: Url
  mc_client_id :: string
  mc_client_secret :: string
  mc_issuer :: string
  mc_audience :: string

definition REPLICATION_SCOPES :: string where
  "REPLICATION_SCOPES = ''management.replication.read management.replication.admit''"

definition new_management_client :: "'w storage_web \<Rightarrow> string \<Rightarrow> string \<Rightarrow> string \<Rightarrow> string \<Rightarrow> string \<Rightarrow> string \<Rightarrow> string + ManagementClient" where
  "new_management_client W management_api_base idp_api_base client_id client_secret issuer audience =
    (if trim client_id = [] \<or> client_secret = [] \<or> trim audience = []
     then Inl ''Management OAuth client ID, secret and audience are required'' else
     and_then (validate_http_url W issuer ''IdP issuer URL'') (\<lambda>issuer_url.
     and_then (normalize_base_url W management_api_base ''Management API URL'') (\<lambda>management.
     and_then (normalize_base_url W idp_api_base ''IdP API URL'') (\<lambda>idp.
     and_then (result_map_err (\<lambda>_. ''could not create Management HTTP client'') (build_client (sw_web W))) (\<lambda>_.
     Inr \<lparr>mc_management_base_url = management, mc_idp_base_url = idp, mc_client_id = client_id, mc_client_secret = client_secret,
       mc_issuer = trim_end_slashes (sw_show_url W issuer_url), mc_audience = audience\<rparr>)))))"

definition management_token_source :: "ManagementClient \<Rightarrow> token_source" where
  "management_token_source C = \<lparr>ts_idp_base_url = mc_idp_base_url C, ts_client_id = mc_client_id C,
    ts_client_secret = mc_client_secret C, ts_issuer = mc_issuer C, ts_audience = mc_audience C, ts_scopes = REPLICATION_SCOPES,
    ts_cache_error = ''Management service token cache is unavailable''\<rparr>"

definition client_selected_resources :: "'w storage_web \<Rightarrow> ManagementClient \<Rightarrow> string \<Rightarrow> ('w, string, SelectedResourceInfo list) op" where
  "client_selected_resources W C endpoint_id =
    (let V = sw_web W; invalid = ''invalid Management replication URL'' in
    await (lift (result_map_err (\<lambda>_. invalid) (join_url V (mc_management_base_url C) ''replication/devices/''))) (\<lambda>base.
    await (lift (ok_or invalid (sw_push_segments W base [endpoint_id, ''selections'']))) (\<lambda>url.
    await (storage_service_token W (management_token_source C)) (\<lambda>token.
    await (map_err (\<lambda>_. ''Management replication API is unavailable'') (send V \<lparr>rq_method = GET, rq_url = url,
      rq_bearer = Some token, rq_body = NoBody\<rparr>)) (\<lambda>response.
    if \<not> is_success (rs_status response)
    then err (if rs_status response \<in> {401, 403} then ''Management rejected Storage replication-read permission''
      else ''Management selected-resources request failed'') else
    await (lift (read_limited_body response ''Management selections response'')) (\<lambda>body.
    lift (result_map_err (\<lambda>_. ''invalid Management selections response'') (sw_selected_from_json W body))))))))"

text \<open>The JSON object of an admission request.\<close>

definition admission_fields :: "ReplicationAdmissionRequest \<Rightarrow> (string \<times> string) list" where
  "admission_fields r = [(''sourceEndpointId'', ra_source_endpoint_id r), (''targetEndpointId'', ra_target_endpoint_id r),
    (''applicationId'', ra_application_id r), (''kind'', ra_kind r), (''resourceId'', ra_resource_id r), (''operation'', ra_operation r)]"

definition admit_peer_replication :: "'w storage_web \<Rightarrow> ManagementClient \<Rightarrow> byte list \<Rightarrow> byte list \<Rightarrow> string \<Rightarrow> string \<Rightarrow> string
    \<Rightarrow> ('w, string, unit) op" where
  "admit_peer_replication W C local_id remote_id application_id kind resource_id =
    (let V = sw_web W; request = \<lparr>ra_source_endpoint_id = sw_show_endpoint W local_id, ra_target_endpoint_id = sw_show_endpoint W remote_id,
       ra_application_id = application_id, ra_kind = kind, ra_resource_id = resource_id, ra_operation = ''synchronize''\<rparr> in
    await (lift (result_map_err (\<lambda>_. ''invalid Management replication URL'')
      (join_url V (mc_management_base_url C) ''replication/admission''))) (\<lambda>url.
    await (storage_service_token W (management_token_source C)) (\<lambda>token.
    await (map_err (\<lambda>_. ''Management replication API is unavailable'') (send V \<lparr>rq_method = POST, rq_url = url,
      rq_bearer = Some token, rq_body = JsonBody (admission_fields request)\<rparr>)) (\<lambda>response.
    if rs_status response = 204 then ok ()
    else err (if rs_status response \<in> {401, 403} then ''Management denied Storage replication admission''
      else ''Management replication admission request failed'')))))"

end
