(* ===== verification/Storage_Paths.thy ===== *)
theory Storage_Paths
  imports Control_Plane
begin

text \<open>
  What the parts of the storage service share (\<open>crates/storage-service\<close>, \<open>crates/storage-model\<close>): file
  paths with the functions of \<open>std::path\<close>, the ordered maps of the standard library, and the namespaces
  that separate the resources of users and applications.
\<close>

section \<open>Paths\<close>

text \<open>\<open>Path::join\<close>: an absolute path replaces the base.\<close>

definition path_join :: "string \<Rightarrow> string \<Rightarrow> string" where
  "path_join base path = (if prefix ''/'' path then path
    else if base = [] \<or> last base = CHR ''/'' then base @ path else base @ ''/'' @ path)"

text \<open>\<open>str::rsplit_once\<close>.\<close>

definition rsplit_once :: "char \<Rightarrow> string \<Rightarrow> (string \<times> string) option" where
  "rsplit_once c s = (if c \<in> set s
    then Some (rev (tl (dropWhile (\<lambda>x. x \<noteq> c) (rev s))), rev (takeWhile (\<lambda>x. x \<noteq> c) (rev s))) else None)"

lemma rsplit_once_append [simp]: "c \<notin> set b \<Longrightarrow> rsplit_once c (a @ c # b) = Some (a, b)"
proof -
  assume "c \<notin> set b"
  then have "takeWhile (\<lambda>x. x \<noteq> c) (rev b @ c # rev a) = rev b" "dropWhile (\<lambda>x. x \<noteq> c) (rev b @ c # rev a) = c # rev a"
    by (subst takeWhile_append2 dropWhile_append2; auto)+
  then show ?thesis by (simp add: rsplit_once_def)
qed

text \<open>\<open>Path::parent\<close> and \<open>Path::with_extension\<close>, for paths that do not end in a separator or in dots.\<close>

definition parent :: "string \<Rightarrow> string option" where
  "parent path = (case rsplit_once CHR ''/'' path of None \<Rightarrow> if path = [] then None else Some []
    | Some (dir, name) \<Rightarrow> if dir = [] then if name = [] then None else Some ''/'' else Some dir)"

definition file_stem :: "string \<Rightarrow> string" where
  "file_stem name = (case rsplit_once CHR ''.'' name of None \<Rightarrow> name | Some (stem, _) \<Rightarrow> if stem = [] then name else stem)"

definition new_extension :: "string \<Rightarrow> string \<Rightarrow> string" where
  "new_extension name extension = file_stem name @ (if extension = [] then [] else CHR ''.'' # extension)"

definition with_extension :: "string \<Rightarrow> string \<Rightarrow> string" where
  "with_extension path extension = (case rsplit_once CHR ''/'' path of None \<Rightarrow> new_extension path extension
    | Some (dir, name) \<Rightarrow> dir @ CHR ''/'' # new_extension name extension)"

lemma parent_child: "CHR ''/'' \<notin> set name \<Longrightarrow> dir \<noteq> [] \<Longrightarrow> parent (dir @ CHR ''/'' # name) = Some dir"
  by (simp add: parent_def)

lemma with_extension_child:
  "CHR ''/'' \<notin> set name \<Longrightarrow> with_extension (dir @ CHR ''/'' # name) extension = dir @ CHR ''/'' # new_extension name extension"
  by (simp add: with_extension_def)

section \<open>Ordered maps\<close>

text \<open>\<open>BTreeMap\<close> as the list of its entries in the order of their keys.\<close>

type_synonym ('k, 'v) btree_map = "('k \<times> 'v) list"

fun bt_insert :: "'k :: linorder \<Rightarrow> 'v \<Rightarrow> ('k, 'v) btree_map \<Rightarrow> ('k, 'v) btree_map" where
  "bt_insert k v [] = [(k, v)]"
| "bt_insert k v ((k', v') # m) = (if k < k' then (k, v) # (k', v') # m
    else if k = k' then (k, v) # m else (k', v') # bt_insert k v m)"

definition bt_get :: "('k, 'v) btree_map \<Rightarrow> 'k \<Rightarrow> 'v option" where
  "bt_get m k = map_of m k"

lemma bt_get_insert [simp]: "bt_get (bt_insert k v m) = (bt_get m)(k \<mapsto> v)"
proof
  show "bt_get (bt_insert k v m) k' = ((bt_get m)(k \<mapsto> v)) k'" for k'
    by (induction k v m rule: bt_insert.induct) (auto simp: bt_get_def)
qed

lemma bt_get_Nil [simp]: "bt_get [] = Map.empty"
  by (simp add: bt_get_def fun_eq_iff)

lemma bt_insert_above:
  "(\<forall>x \<in> set (bt_insert k v m). a < fst x) \<longleftrightarrow> a < k \<and> (\<forall>x \<in> set m. a < fst x)" for a :: "'k :: linorder"
  by (induction k v m rule: bt_insert.induct) auto

lemma bt_insert_sorted: "sorted_wrt (<) (map fst m) \<Longrightarrow> sorted_wrt (<) (map fst (bt_insert k v m))"
  by (induction k v m rule: bt_insert.induct) (auto simp: bt_insert_above intro: less_trans)

section \<open>Namespaces\<close>

record StorageNamespace =
  ns_user_sub :: string
  ns_application_id :: uuid

record ResourceIdentity =
  ri_kind :: ResourceKind
  ri_id :: string

definition subject_byte :: "char \<Rightarrow> bool" where
  "subject_byte c = (let n = of_char c :: nat in
    48 \<le> n \<and> n \<le> 57 \<or> 65 \<le> n \<and> n \<le> 90 \<or> 97 \<le> n \<and> n \<le> 122 \<or> c \<in> {CHR ''-'', CHR ''_'', CHR ''.''})"

definition subject_ok :: "string \<Rightarrow> bool" where
  "subject_ok subject = (subject \<noteq> [] \<and> subject \<notin> {''.'', ''..''} \<and> list_all subject_byte subject)"

text \<open>The text of an identifier names it and is one component of a path, as the text of a \<open>Uuid\<close> is.\<close>

definition names_ids :: "(uuid \<Rightarrow> string) \<Rightarrow> bool" where
  "names_ids show_uuid = (inj show_uuid \<and> (\<forall>i. show_uuid i \<noteq> [] \<and> CHR ''/'' \<notin> set (show_uuid i)))"

lemma decimal_not_Nil [simp]: "decimal n \<noteq> []"
  by (subst decimal.simps) simp

lemma names_ids_decimal: "names_ids (\<lambda>i. decimal (unat i))"
proof -
  have "CHR ''/'' \<notin> set (decimal n)" for n
    using decimal_digits [of "CHR ''/''" n] by auto
  then show ?thesis by (auto simp: names_ids_def inj_def word_unat_eq_iff)
qed

lemma subject_ok_component:
  assumes "subject_ok s" shows "s \<noteq> [] \<and> CHR ''/'' \<notin> set s \<and> s \<notin> {''.'', ''..''}"
  using assms by (auto simp: subject_ok_def list_all_iff subject_byte_def)

text \<open>The directory of a namespace below the root, for databases or for file systems.\<close>

definition namespace_dir :: "string \<Rightarrow> (uuid \<Rightarrow> string) \<Rightarrow> string \<Rightarrow> StorageNamespace \<Rightarrow> string" where
  "namespace_dir collection show_uuid root ns =
    path_join (path_join (path_join root collection) (ns_user_sub ns)) (show_uuid (ns_application_id ns))"

lemma not_prefix_sep: "CHR ''/'' \<notin> set s \<Longrightarrow> \<not> prefix ''/'' s"
  by (cases s) auto

lemma path_join_component:
  "CHR ''/'' \<notin> set s \<Longrightarrow> base \<noteq> [] \<Longrightarrow> last base \<noteq> CHR ''/'' \<Longrightarrow> path_join base s = base @ CHR ''/'' # s"
  by (simp add: path_join_def not_prefix_sep)

lemma last_component: "CHR ''/'' \<notin> set s \<Longrightarrow> s \<noteq> [] \<Longrightarrow> last (b @ CHR ''/'' # s) \<noteq> CHR ''/''"
  by (metis last.simps last_append last_in_set list.distinct(1))

lemma namespace_dir_eq:
  assumes "subject_ok (ns_user_sub ns)" "names_ids show_uuid" "collection \<noteq> []" "CHR ''/'' \<notin> set collection"
  shows "namespace_dir collection show_uuid root ns
    = path_join root collection @ CHR ''/'' # ns_user_sub ns @ CHR ''/'' # show_uuid (ns_application_id ns)"
proof -
  note s = subject_ok_component [OF assms(1)]
  have "last collection \<noteq> CHR ''/''" using assms(3,4) last_in_set by force
  then have base: "path_join root collection \<noteq> []" "last (path_join root collection) \<noteq> CHR ''/''"
    using assms(3,4) not_prefix_sep by (auto simp: path_join_def)
  have "path_join (path_join root collection) (ns_user_sub ns) = path_join root collection @ CHR ''/'' # ns_user_sub ns"
    using base s by (simp add: path_join_component)
  moreover have "last (path_join root collection @ CHR ''/'' # ns_user_sub ns) \<noteq> CHR ''/''"
    using s by (intro last_component) simp_all
  ultimately show ?thesis
    using assms(2) by (simp add: namespace_dir_def path_join_component names_ids_def)
qed

text \<open>Two namespaces with one directory are the same, and so are their entries.\<close>

lemma namespace_child_inj:
  assumes "namespace_dir collection show_uuid root ns @ CHR ''/'' # name = namespace_dir collection show_uuid root ns' @ CHR ''/'' # name'"
    and "subject_ok (ns_user_sub ns)" "subject_ok (ns_user_sub ns')" "names_ids show_uuid"
    and "collection \<noteq> []" "CHR ''/'' \<notin> set collection"
  shows "ns = (ns' :: StorageNamespace) \<and> name = name'"
proof -
  let ?u = "\<lambda>ns. show_uuid (ns_application_id ns)"
  have "ns_user_sub ns @ CHR ''/'' # ?u ns @ CHR ''/'' # name = ns_user_sub ns' @ CHR ''/'' # ?u ns' @ CHR ''/'' # name'"
    using assms by (simp add: namespace_dir_eq)
  from until_sep_unique [OF this] have subs: "ns_user_sub ns = ns_user_sub ns'"
    and "?u ns @ CHR ''/'' # name = ?u ns' @ CHR ''/'' # name'"
    using assms(2,3) subject_ok_component by blast+
  from until_sep_unique [OF this(2)] assms(4) have "?u ns = ?u ns'" "name = name'"
    by (auto simp: names_ids_def)
  with subs assms(4) show ?thesis by (auto simp: names_ids_def inj_def)
qed

end
