(* ===== verification/Storage_Files.thy ===== *)
theory Storage_Files
  imports Storage_Paths
begin

text \<open>
  The file systems of the storage service: the runtime that keeps the file systems of users and applications
  apart (\<open>crates/storage-service/src/scoped_file_system.rs\<close>) and the requests on one of them
  (\<open>crates/storage-service/src/service.rs\<close>, \<open>crates/storage-model/src/contract\<close>).  The file systems themselves and
  their catalogs are an external crate, \<open>file_system\<close>; the record \<open>file_systems\<close> holds its functions and those of the
  operating system.
\<close>

section \<open>The external crate\<close>

datatype file_system_error = FsNotFound | FsError string

datatype Residency = Full | Passthrough

datatype FileKind = File | Directory

record FileSystemResource =
  fsr_id :: uuid
  fsr_name :: "string option"

record CatalogEntry =
  ce_resource :: FileSystemResource
  ce_deleted :: bool

record fs_entry =
  en_path :: string
  en_kind :: FileKind
  en_revision :: string
  en_local :: bool

text \<open>An entry of a directory: its name when that is text, its name as text, whether it is a directory, and its path.\<close>

record dir_entry =
  de_name :: "string option"
  de_lossy_name :: string
  de_is_dir :: "string + bool"
  de_path :: string

datatype dir_error = DirNotFound | DirError string

record ('x, 'c, 'f, 'p) file_systems =
  fsc_open :: "string \<Rightarrow> ('x, file_system_error, 'c) op"
  fsc_create :: "'c \<Rightarrow> string option \<Rightarrow> ('x, file_system_error, FileSystemResource) op"
  fsc_list :: "'c \<Rightarrow> ('x, file_system_error, FileSystemResource list) op"
  fsc_delete :: "'c \<Rightarrow> uuid \<Rightarrow> ('x, file_system_error, unit) op"
  fsc_apply_tombstone :: "'c \<Rightarrow> uuid \<Rightarrow> ('x, file_system_error, unit) op"
  fsc_snapshot :: "'c \<Rightarrow> ('x, file_system_error, CatalogEntry list) op"
  fsc_import_snapshot :: "'c \<Rightarrow> CatalogEntry list \<Rightarrow> ('x, file_system_error, unit) op"
  fsc_mark_projected :: "'c \<Rightarrow> uuid \<Rightarrow> ('x, file_system_error, unit) op"
  fsc_mark_projected_selected :: "'c \<Rightarrow> uuid \<Rightarrow> ('x, file_system_error, unit) op"
  fsc_projected_selected :: "'c \<Rightarrow> ('x, file_system_error, uuid list) op"
  fsc_evict_projected_copy :: "'c \<Rightarrow> uuid \<Rightarrow> ('x, file_system_error, unit) op"
  fsc_open_filesystem :: "'c \<Rightarrow> uuid \<Rightarrow> 'p \<Rightarrow> ('x, file_system_error, 'f) op"
  fs_set_residency :: "'f \<Rightarrow> string \<Rightarrow> Residency \<Rightarrow> ('x, file_system_error, unit) op"
  fs_strong_count :: "'f \<Rightarrow> 'x \<Rightarrow> nat \<times> 'x"
  fs_read_file :: "'f \<Rightarrow> string \<Rightarrow> ('x, file_system_error, byte list) op"
  fs_write_file :: "'f \<Rightarrow> string \<Rightarrow> byte list \<Rightarrow> ('x, file_system_error, fs_entry) op"
  fs_append_file :: "'f \<Rightarrow> string \<Rightarrow> byte list \<Rightarrow> ('x, file_system_error, unit) op"
  fs_delete_path :: "'f \<Rightarrow> string \<Rightarrow> ('x, file_system_error, unit) op"
  fs_create_dir :: "'f \<Rightarrow> string \<Rightarrow> ('x, file_system_error, fs_entry) op"
  fs_rename_path :: "'f \<Rightarrow> string \<Rightarrow> string \<Rightarrow> ('x, file_system_error, unit) op"
  fs_entry_at :: "'f \<Rightarrow> string \<Rightarrow> ('x, file_system_error, fs_entry) op"
  fs_list_dir :: "'f \<Rightarrow> string \<Rightarrow> ('x, file_system_error, fs_entry list) op"
  fs_error_text :: "file_system_error \<Rightarrow> string"
  fs_parse_id :: "string \<Rightarrow> uuid option"
  fs_show_uuid :: "uuid \<Rightarrow> string"
  fs_parse_uuid :: "string \<Rightarrow> uuid option"
  fs_read_dir :: "string \<Rightarrow> ('x, dir_error, (string + dir_entry) list) op"
  fs_is_file :: "string \<Rightarrow> 'x \<Rightarrow> bool \<times> 'x"

section \<open>The runtime\<close>

text \<open>The catalogs and the file systems that are open.\<close>

record ('c, 'f) fs_tables =
  rt_catalogs :: "StorageNamespace \<rightharpoonup> 'c"
  rt_resources :: "StorageNamespace \<times> uuid \<rightharpoonup> 'f"

type_synonym ('x, 'c, 'f, 'a) fs_call = "(('c, 'f) fs_tables \<times> 'x, string, 'a) op"

definition in_crate :: "('x, 'e, 'a) op \<Rightarrow> (('c, 'f) fs_tables \<times> 'x, 'e, 'a) op" where
  "in_crate m s = (case m (snd s) of (r, x) \<Rightarrow> (r, (fst s, x)))"

definition in_tables :: "(('c, 'f) fs_tables \<Rightarrow> ('c, 'f) fs_tables) \<Rightarrow> (('c, 'f) fs_tables \<times> 'x, 'e, unit) op" where
  "in_tables g s = (Inr (), (g (fst s), snd s))"

definition read_tables :: "(('c, 'f) fs_tables \<Rightarrow> 'a) \<Rightarrow> (('c, 'f) fs_tables \<times> 'x, 'e, 'a) op" where
  "read_tables g s = (Inr (g (fst s)), s)"

definition crate_call :: "('x, 'c, 'f, 'p) file_systems \<Rightarrow> ('x, file_system_error, 'a) op \<Rightarrow> ('x, 'c, 'f, 'a) fs_call" where
  "crate_call E m = map_err (fs_error_text E) (in_crate m)"

definition storage_namespace_id :: "StorageNamespace \<Rightarrow> string + StorageNamespace" where
  "storage_namespace_id scope = (if \<not> subject_ok (ns_user_sub scope) then Inl ''invalid user subject''
    else if ns_application_id scope = 0 then Inl ''invalid application id'' else Inr scope)"

definition namespace_root :: "('x, 'c, 'f, 'p) file_systems \<Rightarrow> string \<Rightarrow> StorageNamespace \<Rightarrow> string" where
  "namespace_root E root ns = namespace_dir ''filesystems'' (fs_show_uuid E) root ns"

definition catalog :: "('x, 'c, 'f, 'p) file_systems \<Rightarrow> string \<Rightarrow> StorageNamespace \<Rightarrow> ('x, 'c, 'f, 'c) fs_call" where
  "catalog E root ns =
    await (read_tables (\<lambda>T. rt_catalogs T ns)) (\<lambda>found.
    case found of Some c \<Rightarrow> ok c
    | None \<Rightarrow>
      await (crate_call E (fsc_open E (namespace_root E root ns))) (\<lambda>c.
      await (in_tables (\<lambda>T. T\<lparr>rt_catalogs := (rt_catalogs T)(ns \<mapsto> c)\<rparr>)) (\<lambda>_.
      ok c)))"

definition create_resource :: "('x, 'c, 'f, 'p) file_systems \<Rightarrow> string \<Rightarrow> StorageNamespace \<Rightarrow> string option
    \<Rightarrow> ('x, 'c, 'f, FileSystemResource) fs_call" where
  "create_resource E root scope name =
    await (lift (storage_namespace_id scope)) (\<lambda>ns.
    await (catalog E root ns) (\<lambda>c.
    crate_call E (fsc_create E c name)))"

definition list_resources :: "('x, 'c, 'f, 'p) file_systems \<Rightarrow> string \<Rightarrow> StorageNamespace
    \<Rightarrow> ('x, 'c, 'f, FileSystemResource list) fs_call" where
  "list_resources E root scope =
    await (lift (storage_namespace_id scope)) (\<lambda>ns.
    await (catalog E root ns) (\<lambda>c.
    crate_call E (fsc_list E c)))"

definition remove_resource :: "StorageNamespace \<times> uuid \<Rightarrow> (('c, 'f) fs_tables \<times> 'x, 'e, unit) op" where
  "remove_resource key = in_tables (\<lambda>T. T\<lparr>rt_resources := (rt_resources T)(key := None)\<rparr>)"

definition delete_resource :: "('x, 'c, 'f, 'p) file_systems \<Rightarrow> string \<Rightarrow> StorageNamespace \<Rightarrow> uuid \<Rightarrow> ('x, 'c, 'f, bool) fs_call" where
  "delete_resource E root scope resource_id =
    await (lift (storage_namespace_id scope)) (\<lambda>ns.
    await (catalog E root ns) (\<lambda>c.
    await (attempt_op (in_crate (fsc_delete E c resource_id))) (\<lambda>result.
    case result of
      Inr _ \<Rightarrow> await (remove_resource (ns, resource_id)) (\<lambda>_. ok True)
    | Inl e \<Rightarrow> (case e of FsNotFound \<Rightarrow> ok False | FsError _ \<Rightarrow> err (fs_error_text E e)))))"

definition apply_deletion_tombstone :: "('x, 'c, 'f, 'p) file_systems \<Rightarrow> string \<Rightarrow> StorageNamespace \<Rightarrow> uuid
    \<Rightarrow> ('x, 'c, 'f, unit) fs_call" where
  "apply_deletion_tombstone E root scope resource_id =
    await (lift (storage_namespace_id scope)) (\<lambda>ns.
    await (catalog E root ns) (\<lambda>c.
    await (crate_call E (fsc_apply_tombstone E c resource_id)) (\<lambda>_.
    remove_resource (ns, resource_id))))"

definition is_tombstoned :: "('x, 'c, 'f, 'p) file_systems \<Rightarrow> string \<Rightarrow> StorageNamespace \<Rightarrow> uuid \<Rightarrow> ('x, 'c, 'f, bool) fs_call" where
  "is_tombstoned E root scope resource_id =
    await (lift (storage_namespace_id scope)) (\<lambda>ns.
    await (catalog E root ns) (\<lambda>c.
    await (crate_call E (fsc_snapshot E c)) (\<lambda>entries.
    ok (list_ex (\<lambda>entry. fsr_id (ce_resource entry) = resource_id \<and> ce_deleted entry) entries))))"

definition register_selected_resource :: "('x, 'c, 'f, 'p) file_systems \<Rightarrow> string \<Rightarrow> StorageNamespace \<Rightarrow> uuid
    \<Rightarrow> ('x, 'c, 'f, unit) fs_call" where
  "register_selected_resource E root scope resource_id =
    await (lift (storage_namespace_id scope)) (\<lambda>ns.
    await (catalog E root ns) (\<lambda>c.
    await (crate_call E (fsc_snapshot E c)) (\<lambda>entries.
    case List.find (\<lambda>entry. fsr_id (ce_resource entry) = resource_id) entries of
      Some entry \<Rightarrow>
        if ce_deleted entry then err ''selected filesystem has a local deletion tombstone''
        else crate_call E (fsc_mark_projected_selected E c resource_id)
    | None \<Rightarrow>
      await (crate_call E (fsc_import_snapshot E c
        [\<lparr>ce_resource = \<lparr>fsr_id = resource_id, fsr_name = None\<rparr>, ce_deleted = False\<rparr>])) (\<lambda>_.
      crate_call E (fsc_mark_projected E c resource_id)))))"

definition directory_error :: "dir_error \<Rightarrow> string" where
  "directory_error e = (case e of DirNotFound \<Rightarrow> ''not found'' | DirError message \<Rightarrow> message)"

text \<open>The catalogs of one subject: directories whose names are application identifiers and that hold a catalog file.\<close>

definition subject_catalogs :: "('x, 'c, 'f, 'p) file_systems \<Rightarrow> string \<Rightarrow> string \<Rightarrow> (StorageNamespace \<times> 'c) list \<Rightarrow> string + dir_entry
    \<Rightarrow> ('x, 'c, 'f, (StorageNamespace \<times> 'c) list) fs_call" where
  "subject_catalogs E root user_sub catalogs application =
    await (lift application) (\<lambda>application.
    await (lift (de_is_dir application)) (\<lambda>is_dir.
    if \<not> is_dir then ok catalogs else
    case fs_parse_uuid E (de_lossy_name application) of None \<Rightarrow> ok catalogs
    | Some application_id \<Rightarrow>
      let ns = \<lparr>ns_user_sub = user_sub, ns_application_id = application_id\<rparr> in
      await (in_crate (effect (fs_is_file E (path_join (de_path application) ''filesystem-catalog.redb'')))) (\<lambda>is_file.
      if \<not> is_file then ok catalogs else
      await (catalog E root ns) (\<lambda>c. ok (catalogs @ [(ns, c)])))))"

definition catalogs_on_disk :: "('x, 'c, 'f, 'p) file_systems \<Rightarrow> string \<Rightarrow> ('x, 'c, 'f, (StorageNamespace \<times> 'c) list) fs_call" where
  "catalogs_on_disk E root =
    await (attempt_op (in_crate (fs_read_dir E (path_join root ''filesystems'')))) (\<lambda>subjects.
    case subjects of
      Inl e \<Rightarrow> (case e of DirNotFound \<Rightarrow> ok [] | DirError message \<Rightarrow> err message)
    | Inr subjects \<Rightarrow> fold_op (\<lambda>catalogs subject.
        await (lift subject) (\<lambda>subject.
        await (lift (de_is_dir subject)) (\<lambda>is_dir.
        if \<not> is_dir then ok catalogs else
        case de_name subject of None \<Rightarrow> ok catalogs
        | Some user_sub \<Rightarrow>
          await (map_err directory_error (in_crate (fs_read_dir E (de_path subject)))) (\<lambda>applications.
          fold_op (subject_catalogs E root user_sub) catalogs applications)))) [] subjects)"

text \<open>A copy of a selected file system that is selected no longer is evicted, unless a session still holds it.\<close>

definition evict_unselected :: "('x, 'c, 'f, 'p) file_systems \<Rightarrow> (StorageNamespace \<times> uuid) set \<Rightarrow> StorageNamespace \<times> 'c \<Rightarrow> uuid
    \<Rightarrow> ('x, 'c, 'f, unit) fs_call" where
  "evict_unselected E selected catalog_entry resource_id =
    (let (ns, c) = catalog_entry; key = (ns, resource_id) in
    if key \<in> selected then ok () else
    await (read_tables (\<lambda>T. rt_resources T key)) (\<lambda>resource.
    await (case resource of None \<Rightarrow> ok False
      | Some f \<Rightarrow> await (in_crate (effect (fs_strong_count E f))) (\<lambda>count. ok (count > 1))) (\<lambda>in_use.
    if in_use then ok () else
    await (remove_resource key) (\<lambda>_.
    crate_call E (fsc_evict_projected_copy E c resource_id)))))"

definition remove_unselected_projected_resources :: "('x, 'c, 'f, 'p) file_systems \<Rightarrow> string \<Rightarrow> (string \<times> uuid \<times> uuid) list
    \<Rightarrow> ('x, 'c, 'f, unit) fs_call" where
  "remove_unselected_projected_resources E root selected =
    (let selected = set (map (\<lambda>(owner, application_id, resource_id).
        (\<lparr>ns_user_sub = owner, ns_application_id = application_id\<rparr>, resource_id)) selected) in
    await (catalogs_on_disk E root) (\<lambda>catalogs.
    for_each (\<lambda>(ns, c).
      await (crate_call E (fsc_projected_selected E c)) (\<lambda>resource_ids.
      for_each (evict_unselected E selected (ns, c)) resource_ids)) catalogs))"

definition open_resource :: "('x, 'c, 'f, 'p) file_systems \<Rightarrow> string \<Rightarrow> 'p \<Rightarrow> StorageNamespace \<Rightarrow> uuid \<Rightarrow> ('x, 'c, 'f, 'f) fs_call" where
  "open_resource E root local_peer scope resource_id =
    await (lift (storage_namespace_id scope)) (\<lambda>ns.
    await (read_tables (\<lambda>T. rt_resources T (ns, resource_id))) (\<lambda>found.
    case found of Some f \<Rightarrow> ok f
    | None \<Rightarrow>
      await (catalog E root ns) (\<lambda>c.
      await (crate_call E (fsc_open_filesystem E c resource_id local_peer)) (\<lambda>f.
      await (crate_call E (fs_set_residency E f [] Full)) (\<lambda>_.
      await (in_tables (\<lambda>T. T\<lparr>rt_resources := (rt_resources T)((ns, resource_id) \<mapsto> f)\<rparr>)) (\<lambda>_.
      ok f))))))"

definition fs_contains :: "('x, 'c, 'f, 'p) file_systems \<Rightarrow> string \<Rightarrow> StorageNamespace \<Rightarrow> ResourceIdentity \<Rightarrow> ('x, 'c, 'f, bool) fs_call" where
  "fs_contains E root scope resource =
    (if ri_kind resource \<noteq> FileSystem then ok False else
     case fs_parse_id E (ri_id resource) of None \<Rightarrow> ok False
     | Some resource_id \<Rightarrow>
       await (lift (storage_namespace_id scope)) (\<lambda>ns.
       await (catalog E root ns) (\<lambda>c.
       await (crate_call E (fsc_list E c)) (\<lambda>resources.
       ok (list_ex (\<lambda>entry. fsr_id entry = resource_id) resources)))))"

section \<open>Requests on a file system\<close>

datatype StorageRequest = Read string | Write string "byte list" | Append string "byte list" | Delete string | CreateDir string
  | Rename string string | Entry string | List string

record StorageEntry =
  se_name :: string
  se_hash :: string
  se_size :: "64 word"
  se_local :: bool

datatype StorageErrorCode = InvalidRequestCode | OperationFailed

datatype StorageResponse = Authenticated | ReadResponse "byte list" | Written StorageEntry | Appended StorageEntry | Deleted
  | DirectoryCreated StorageEntry | Renamed | EntryResponse StorageEntry | Listed "StorageEntry list" | StorageError StorageErrorCode

definition storage_entry :: "('x, 'c, 'f, 'p) file_systems \<Rightarrow> 'f \<Rightarrow> fs_entry \<Rightarrow> ('x, file_system_error, StorageEntry) op" where
  "storage_entry E f entry =
    await (if en_kind entry = File then await (fs_read_file E f (en_path entry)) (\<lambda>content. ok (of_nat (length content))) else ok 0) (\<lambda>size.
    ok \<lparr>se_name = en_path entry, se_hash = en_revision entry, se_size = size, se_local = en_local entry\<rparr>)"

definition execute :: "('x, 'c, 'f, 'p) file_systems \<Rightarrow> 'f \<Rightarrow> StorageRequest \<Rightarrow> ('x, file_system_error, StorageResponse) op" where
  "execute E f request = (case request of
      Read path \<Rightarrow> await (fs_read_file E f path) (\<lambda>content. ok (ReadResponse content))
    | Write path content \<Rightarrow> await (fs_write_file E f path content) (\<lambda>entry. await (storage_entry E f entry) (\<lambda>e. ok (Written e)))
    | Append path content \<Rightarrow> await (fs_append_file E f path content) (\<lambda>_. await (fs_entry_at E f path) (\<lambda>entry.
        await (storage_entry E f entry) (\<lambda>e. ok (Appended e))))
    | Delete path \<Rightarrow> await (fs_delete_path E f path) (\<lambda>_. ok Deleted)
    | CreateDir path \<Rightarrow> await (fs_create_dir E f path) (\<lambda>entry. await (storage_entry E f entry) (\<lambda>e. ok (DirectoryCreated e)))
    | Rename from to \<Rightarrow> await (fs_rename_path E f from to) (\<lambda>_. ok Renamed)
    | Entry path \<Rightarrow> await (fs_entry_at E f path) (\<lambda>entry. await (storage_entry E f entry) (\<lambda>e. ok (EntryResponse e)))
    | List path \<Rightarrow> await (fs_list_dir E f path) (\<lambda>entries.
        await (fold_op (\<lambda>es entry. await (storage_entry E f entry) (\<lambda>e. ok (es @ [e]))) [] entries) (\<lambda>es. ok (Listed es))))"

definition execute_session :: "('x, 'c, 'f, 'p) file_systems \<Rightarrow> 'f \<Rightarrow> StorageRequest \<Rightarrow> ('x, 'e, StorageResponse) op" where
  "execute_session E f request = await (attempt_op (execute E f request)) (\<lambda>result.
    ok (case result of Inr response \<Rightarrow> response | Inl _ \<Rightarrow> StorageError OperationFailed))"

section \<open>Separation of the namespaces\<close>

text \<open>A catalog, and a file system, that was opened for a namespace.\<close>

definition opened_catalog :: "('x, 'c, 'f, 'p) file_systems \<Rightarrow> string \<Rightarrow> StorageNamespace \<Rightarrow> 'c \<Rightarrow> bool" where
  "opened_catalog E root ns c = (\<exists>x x'. fsc_open E (namespace_root E root ns) x = (Inr c, x'))"

definition opened_fs :: "('x, 'c, 'f, 'p) file_systems \<Rightarrow> string \<Rightarrow> 'p \<Rightarrow> StorageNamespace \<Rightarrow> uuid \<Rightarrow> 'f \<Rightarrow> bool" where
  "opened_fs E root peer ns i f = (\<exists>c x x'. opened_catalog E root ns c \<and> fsc_open_filesystem E c i peer x = (Inr f, x'))"

definition scoped :: "('x, 'c, 'f, 'p) file_systems \<Rightarrow> string \<Rightarrow> 'p \<Rightarrow> ('c, 'f) fs_tables \<Rightarrow> bool" where
  "scoped E root peer T = ((\<forall>ns c. rt_catalogs T ns = Some c \<longrightarrow> opened_catalog E root ns c)
    \<and> (\<forall>ns i f. rt_resources T (ns, i) = Some f \<longrightarrow> opened_fs E root peer ns i f))"

lemma keeps_tables [keeps_intros]:
  "keeps (\<lambda>s. P (fst s)) (in_crate m)" "keeps (\<lambda>s. P (fst s)) (crate_call E m')" "keeps (\<lambda>s. P (fst s)) (read_tables g)"
  by (auto simp: keeps_def in_crate_def crate_call_def map_err_def read_tables_def split: prod.splits sum.splits)

lemma keeps_remove [keeps_intros]: "keeps (\<lambda>s. scoped E root peer (fst s)) (remove_resource key)"
  by (auto simp: keeps_def remove_resource_def in_tables_def scoped_def)

lemma wp_crate_call:
  "(\<And>a x x'. m x = (Inr a, x') \<Longrightarrow> Q a (fst s, x')) \<Longrightarrow> (\<And>e x. X e (fst s, x)) \<Longrightarrow> wp (crate_call E m) Q X s"
  by (auto simp: wp_def crate_call_def in_crate_def map_err_def split: prod.splits sum.splits)

lemma wp_read_tables: "wp (read_tables g) Q X s = Q (g (fst s)) s"
  by (simp add: wp_def read_tables_def)

lemma wp_in_tables: "wp (in_tables g) Q X s = Q () (g (fst s), snd s)"
  by (simp add: wp_def in_tables_def)

lemma wp_catalog:
  assumes "scoped E root peer (fst s)"
    and "\<And>c s'. scoped E root peer (fst s') \<Longrightarrow> opened_catalog E root ns c \<Longrightarrow> Q c s'"
    and "\<And>e s'. scoped E root peer (fst s') \<Longrightarrow> X e s'"
  shows "wp (catalog E root ns) Q X s"
proof (cases "rt_catalogs (fst s) ns")
  case (Some c)
  with assms(1) have "opened_catalog E root ns c" by (simp add: scoped_def)
  with assms(1,2) Some show ?thesis by (simp add: catalog_def wp_await wp_read_tables wp_ok)
next
  case None
  show ?thesis
    unfolding catalog_def wp_await wp_read_tables None option.case
  proof (rule wp_crate_call, goal_cases)
    case (1 c x x')
    then have "opened_catalog E root ns c" by (auto simp: opened_catalog_def)
    with assms(1,2) show ?case by (simp add: wp_await wp_in_tables wp_ok scoped_def)
  qed (use assms(1,3) in simp)
qed

lemma keeps_catalog [keeps_intros]: "keeps (\<lambda>s. scoped E root peer (fst s)) (catalog E root ns)"
  by (rule keeps_wp) (rule wp_catalog; simp)

lemma wp_open_resource:
  assumes "scoped E root peer (fst s)"
  shows "wp (open_resource E root peer scope i)
    (\<lambda>f s'. scoped E root peer (fst s') \<and> subject_ok (ns_user_sub scope) \<and> opened_fs E root peer scope i f)
    (\<lambda>_ s'. scoped E root peer (fst s')) s"
proof (cases "storage_namespace_id scope")
  case (Inl e)
  with assms show ?thesis by (simp add: open_resource_def wp_simps)
next
  case (Inr ns)
  then have ns: "ns = scope" "subject_ok (ns_user_sub scope)" by (auto simp: storage_namespace_id_def split: if_splits)
  show ?thesis
  proof (cases "rt_resources (fst s) (scope, i)")
    case (Some f)
    with assms ns show ?thesis
      by (auto simp: open_resource_def wp_simps Inr wp_read_tables scoped_def)
  next
    case None
    show ?thesis
      unfolding open_resource_def wp_await wp_lift Inr sum.case ns(1) wp_read_tables None option.case
    proof (rule wp_catalog [OF assms], goal_cases)
      case (1 c s')
      have "scoped E root peer (T\<lparr>rt_resources := (rt_resources T)((scope, i) \<mapsto> f)\<rparr>) \<and> opened_fs E root peer scope i f"
        if "fsc_open_filesystem E c i peer x = (Inr f, x')" "scoped E root peer T" for f x x' T
        using that 1 by (auto simp: scoped_def opened_fs_def)
      with 1 ns(2) show ?case
        by (auto simp: wp_await wp_in_tables wp_ok intro!: wp_crate_call)
    qed simp
  qed
qed

datatype fs_request = CreateFs StorageNamespace "string option" | ListFs StorageNamespace | DeleteFs StorageNamespace uuid
  | TombstoneFs StorageNamespace uuid | IsTombstonedFs StorageNamespace uuid | SelectFs StorageNamespace uuid
  | OpenFs StorageNamespace uuid | EvictFs "(string \<times> uuid \<times> uuid) list" | ContainsFs StorageNamespace ResourceIdentity

fun run_fs :: "('x, 'c, 'f, 'p) file_systems \<Rightarrow> string \<Rightarrow> 'p \<Rightarrow> fs_request \<Rightarrow> ('c, 'f) fs_tables \<times> 'x \<Rightarrow> ('c, 'f) fs_tables \<times> 'x" where
  "run_fs E root peer (CreateFs ns name) s = snd (create_resource E root ns name s)"
| "run_fs E root peer (ListFs ns) s = snd (list_resources E root ns s)"
| "run_fs E root peer (DeleteFs ns i) s = snd (delete_resource E root ns i s)"
| "run_fs E root peer (TombstoneFs ns i) s = snd (apply_deletion_tombstone E root ns i s)"
| "run_fs E root peer (IsTombstonedFs ns i) s = snd (is_tombstoned E root ns i s)"
| "run_fs E root peer (SelectFs ns i) s = snd (register_selected_resource E root ns i s)"
| "run_fs E root peer (OpenFs ns i) s = snd (open_resource E root peer ns i s)"
| "run_fs E root peer (EvictFs selected) s = snd (remove_unselected_projected_resources E root selected s)"
| "run_fs E root peer (ContainsFs ns resource) s = snd (fs_contains E root ns resource s)"

lemma keeps_fs_calls:
  "keeps (\<lambda>s. scoped E root peer (fst s)) (create_resource E root ns name)"
  "keeps (\<lambda>s. scoped E root peer (fst s)) (list_resources E root ns)"
  "keeps (\<lambda>s. scoped E root peer (fst s)) (delete_resource E root ns i)"
  "keeps (\<lambda>s. scoped E root peer (fst s)) (apply_deletion_tombstone E root ns i)"
  "keeps (\<lambda>s. scoped E root peer (fst s)) (is_tombstoned E root ns i)"
  "keeps (\<lambda>s. scoped E root peer (fst s)) (register_selected_resource E root ns i)"
  "keeps (\<lambda>s. scoped E root peer (fst s)) (fs_contains E root ns resource)"
  "keeps (\<lambda>s. scoped E root peer (fst s)) (subject_catalogs E root user_sub catalogs application)"
  "keeps (\<lambda>s. scoped E root peer (fst s)) (evict_unselected E selected entry i)"
  unfolding create_resource_def list_resources_def delete_resource_def apply_deletion_tombstone_def is_tombstoned_def
    register_selected_resource_def fs_contains_def subject_catalogs_def evict_unselected_def Let_def
  by ((intro keeps_intros | split file_system_error.split, intro conjI allI impI)+)

lemma keeps_evictions:
  "keeps (\<lambda>s. scoped E root peer (fst s)) (catalogs_on_disk E root)"
  "keeps (\<lambda>s. scoped E root peer (fst s)) (remove_unselected_projected_resources E root selected)"
  unfolding catalogs_on_disk_def remove_unselected_projected_resources_def Let_def
  by ((intro keeps_intros keeps_fs_calls | split dir_error.split, intro conjI allI impI)+)

lemma keeps_open_resource: "keeps (\<lambda>s. scoped E root peer (fst s)) (open_resource E root peer scope i)"
  by (rule keeps_wp, rule wp_conseq [OF wp_open_resource]) simp_all

lemma scoped_snd:
  "keeps (\<lambda>s. scoped E root peer (fst s)) m \<Longrightarrow> scoped E root peer (fst s) \<Longrightarrow> scoped E root peer (fst (snd (m s)))"
  by (cases "m s") (metis keepsD snd_conv)

lemma scoped_run_fs: "scoped E root peer (fst s) \<Longrightarrow> scoped E root peer (fst (run_fs E root peer request s))"
  by (cases request) (simp_all add: scoped_snd keeps_fs_calls keeps_evictions keeps_open_resource)

lemma scoped_run_all:
  "scoped E root peer (fst s) \<Longrightarrow> scoped E root peer (fst (fold (run_fs E root peer) requests s))"
  by (induction requests arbitrary: s) (simp_all add: scoped_run_fs)

section \<open>An example\<close>

text \<open>A catalog is its directory, a file system its catalog and its identifier.\<close>

definition plain_file_systems :: "('x, string, string \<times> uuid, unit) file_systems" where
  "plain_file_systems = \<lparr>fsc_open = (\<lambda>path. ok path), fsc_create = (\<lambda>c name. ok \<lparr>fsr_id = 1, fsr_name = name\<rparr>), fsc_list = (\<lambda>c. ok []),
    fsc_delete = (\<lambda>c i. err FsNotFound), fsc_apply_tombstone = (\<lambda>c i. ok ()), fsc_snapshot = (\<lambda>c. ok []),
    fsc_import_snapshot = (\<lambda>c es. ok ()), fsc_mark_projected = (\<lambda>c i. ok ()), fsc_mark_projected_selected = (\<lambda>c i. ok ()),
    fsc_projected_selected = (\<lambda>c. ok []), fsc_evict_projected_copy = (\<lambda>c i. ok ()), fsc_open_filesystem = (\<lambda>c i p. ok (c, i)),
    fs_set_residency = (\<lambda>f p r. ok ()), fs_strong_count = (\<lambda>f x. (1, x)), fs_read_file = (\<lambda>f p. ok []),
    fs_write_file = (\<lambda>f p b. err FsNotFound), fs_append_file = (\<lambda>f p b. ok ()), fs_delete_path = (\<lambda>f p. ok ()),
    fs_create_dir = (\<lambda>f p. err FsNotFound), fs_rename_path = (\<lambda>f a b. ok ()), fs_entry_at = (\<lambda>f p. err FsNotFound),
    fs_list_dir = (\<lambda>f p. ok []), fs_error_text = (\<lambda>e. ''error''), fs_parse_id = (\<lambda>_. None), fs_show_uuid = (\<lambda>i. decimal (unat i)),
    fs_parse_uuid = (\<lambda>_. None), fs_read_dir = (\<lambda>path. ok []), fs_is_file = (\<lambda>path x. (False, x))\<rparr>"

definition ex_file_systems :: "(unit, string, string \<times> uuid, unit) file_systems" where
  "ex_file_systems = plain_file_systems"

lemma ex_fs_simps:
  "fsc_open ex_file_systems = (\<lambda>path. ok path)" "fsc_delete ex_file_systems = (\<lambda>c i. err FsNotFound)"
  "fsc_open_filesystem ex_file_systems = (\<lambda>c i p. ok (c, i))" "fs_set_residency ex_file_systems = (\<lambda>f p r. ok ())"
  by (simp_all add: ex_file_systems_def plain_file_systems_def)

definition no_tables :: "('c, 'f) fs_tables" where
  "no_tables = \<lparr>rt_catalogs = Map.empty, rt_resources = Map.empty\<rparr>"

definition ex_ns :: "string \<Rightarrow> StorageNamespace" where
  "ex_ns user_sub = \<lparr>ns_user_sub = user_sub, ns_application_id = 5\<rparr>"

section \<open>Properties\<close>

text \<open>C22: Whatever requests the runtime of file systems has served, for any users and applications, opening a file system of a
  user and an application returns only a file system that was opened by that identifier from the catalog in the directory of that
  user and application.  The directory is below the root, its name for the user is one plain path component, and no other user
  or application has it.\<close>

theorem file_systems_scoped:
  assumes "names_ids (fs_show_uuid E)"
    and "open_resource E root peer scope i (fold (run_fs E root peer) requests (no_tables, x)) = (Inr f, s')"
  shows "opened_fs E root peer scope i f
    \<and> namespace_root E root scope
        = path_join root ''filesystems'' @ ''/'' @ ns_user_sub scope @ ''/'' @ fs_show_uuid E (ns_application_id scope)
    \<and> CHR ''/'' \<notin> set (ns_user_sub scope) \<and> ns_user_sub scope \<notin> {[], ''.'', ''..''}
    \<and> (\<forall>ns. subject_ok (ns_user_sub ns) \<and> namespace_root E root ns = namespace_root E root scope \<longrightarrow> ns = scope)"
proof -
  have "scoped E root peer (fst (fold (run_fs E root peer) requests (no_tables, x)))"
    by (rule scoped_run_all) (simp add: scoped_def no_tables_def)
  from wp_run [OF wp_open_resource [OF this] assms(2)] have f: "subject_ok (ns_user_sub scope)" "opened_fs E root peer scope i f" by auto
  have "ns = scope" if "subject_ok (ns_user_sub ns)" "namespace_root E root ns = namespace_root E root scope" for ns :: StorageNamespace
    using namespace_child_inj [of "''filesystems''" "fs_show_uuid E" root ns "[]" scope "[]"] that f(1) assms(1)
    by (simp add: namespace_root_def)
  with f assms(1) subject_ok_component [OF f(1)] show ?thesis
    by (auto simp: namespace_root_def namespace_dir_eq)
qed

theorem file_systems_scoped_witness:
  "\<exists>f. fst (open_resource ex_file_systems ''data'' () (ex_ns ''alice'') 7
      (fold (run_fs ex_file_systems ''data'' ()) [OpenFs (ex_ns ''bob'') 7, DeleteFs (ex_ns ''alice'') 7] (no_tables, ()))) = Inr f
    \<and> opened_fs ex_file_systems ''data'' () (ex_ns ''alice'') 7 f
    \<and> (\<forall>ns. subject_ok (ns_user_sub ns) \<and> namespace_root ex_file_systems ''data'' ns = namespace_root ex_file_systems ''data'' (ex_ns ''alice'')
      \<longrightarrow> ns = ex_ns ''alice'')"
proof -
  have laws: "names_ids (fs_show_uuid ex_file_systems)" using names_ids_decimal by (simp add: ex_file_systems_def plain_file_systems_def)
  let ?s = "fold (run_fs ex_file_systems ''data'' ()) [OpenFs (ex_ns ''bob'') 7, DeleteFs (ex_ns ''alice'') 7] (no_tables, ())"
  have ids: "storage_namespace_id (ex_ns ''alice'') = Inr (ex_ns ''alice'')" "storage_namespace_id (ex_ns ''bob'') = Inr (ex_ns ''bob'')"
    by (simp_all add: storage_namespace_id_def ex_ns_def subject_ok_def subject_byte_def)
  note run_simps = await_def lift_def read_tables_def crate_call_def in_crate_def in_tables_def map_err_def attempt_op_def ok_def err_def
    ids catalog_def ex_fs_simps
  define root where "root user_sub = namespace_root ex_file_systems ''data'' (ex_ns user_sub)" for user_sub
  define T1 :: "(string, string \<times> uuid) fs_tables" where "T1 = \<lparr>rt_catalogs = [ex_ns ''bob'' \<mapsto> root ''bob''],
    rt_resources = [(ex_ns ''bob'', 7) \<mapsto> (root ''bob'', 7)]\<rparr>"
  have other: "ex_ns ''alice'' \<noteq> ex_ns ''bob''" by (simp add: ex_ns_def)
  have "run_fs ex_file_systems ''data'' () (OpenFs (ex_ns ''bob'') 7) (no_tables, ()) = (T1, ())"
    by (simp add: open_resource_def run_simps no_tables_def T1_def root_def)
  moreover have "run_fs ex_file_systems ''data'' () (DeleteFs (ex_ns ''alice'') 7) (T1, ())
      = (T1\<lparr>rt_catalogs := (rt_catalogs T1)(ex_ns ''alice'' \<mapsto> root ''alice'')\<rparr>, ())"
    using other by (simp add: delete_resource_def run_simps T1_def root_def)
  moreover have "open_resource ex_file_systems ''data'' () (ex_ns ''alice'') 7
      (T1\<lparr>rt_catalogs := (rt_catalogs T1)(ex_ns ''alice'' \<mapsto> root ''alice'')\<rparr>, ())
      = (Inr (root ''alice'', 7), T1\<lparr>rt_catalogs := (rt_catalogs T1)(ex_ns ''alice'' \<mapsto> root ''alice''),
          rt_resources := (rt_resources T1)((ex_ns ''alice'', 7) \<mapsto> (root ''alice'', 7))\<rparr>, ())"
    using other by (simp add: open_resource_def run_simps T1_def)
  ultimately have "\<exists>f s'. open_resource ex_file_systems ''data'' () (ex_ns ''alice'') 7 ?s = (Inr f, s')" by simp
  then obtain f s' where run: "open_resource ex_file_systems ''data'' () (ex_ns ''alice'') 7 ?s = (Inr f, s')" by blast
  from file_systems_scoped [OF laws run] show ?thesis unfolding run fst_conv by blast
qed

end
