(* ===== verification/Database_Catalog.thy ===== *)
theory Database_Catalog
  imports Storage_Paths
begin

text \<open>
  The databases of the storage service: the catalog of every namespace
  (\<open>crates/storage-service/src/database_catalog.rs\<close>), a file that records which databases there are and
  which were deleted, and the runtime that opens them (\<open>crates/storage-service/src/database_runtime.rs\<close>).
  The file system is part of the state.  Any of its calls may fail, as the state prescribes for the calls
  to come; a failed write may have written a part.  The JSON codec, the database engine and the source of
  identifiers are external: the record \<open>engine\<close> holds the functions the code calls.
\<close>

section \<open>The state\<close>

datatype ErrorKind = NotFoundError | InvalidInputError | InvalidDataError | PermissionDeniedError | OtherError

datatype io_failure = IoError ErrorKind string

type_synonym database_key = "string \<times> uuid \<times> uuid"

datatype lock = CatalogLock | OpenLock | KvLock

text \<open>\<open>outcomes\<close> says of the next calls of the file system whether they work (\<open>None\<close>) or fail, with a message and the
  number of bytes that a failing write has written; calls beyond the list work.  Directories are not represented:
  they are created before a file is.\<close>

record ('x, 'd, 'k) machine =
  files :: "string \<rightharpoonup> byte list"
  outcomes :: "(string \<times> nat) option list"
  poisoned :: "lock \<Rightarrow> bool"
  open_dbs :: "database_key \<rightharpoonup> 'd"
  kv_open :: "database_key \<rightharpoonup> 'k"
  outside :: 'x

type_synonym ('x, 'd, 'k, 'a) call = "(('x, 'd, 'k) machine, io_failure, 'a) op"

definition outcome :: "('x, 'd, 'k) machine \<Rightarrow> (string \<times> nat) option \<times> ('x, 'd, 'k) machine" where
  "outcome M = (case outcomes M of [] \<Rightarrow> (None, M) | r # rs \<Rightarrow> (r, M\<lparr>outcomes := rs\<rparr>))"

definition system_call :: "(nat \<Rightarrow> ('x, 'd, 'k) machine \<Rightarrow> ('x, 'd, 'k) machine) \<Rightarrow> ('x, 'd, 'k, 'a) call \<Rightarrow> ('x, 'd, 'k, 'a) call" where
  "system_call torn act = await (effect outcome) (\<lambda>r. case r of None \<Rightarrow> act
    | Some (message, n) \<Rightarrow> (\<lambda>M. (Inl (IoError OtherError message), torn n M)))"

definition fs_read :: "string \<Rightarrow> ('x, 'd, 'k, byte list) call" where
  "fs_read path = system_call (\<lambda>_ M. M) (\<lambda>M. (ok_or (IoError NotFoundError []) (files M path), M))"

text \<open>\<open>fs::create_dir_all\<close>, \<open>File::open\<close> of a directory and \<open>File::sync_all\<close>.\<close>

definition plain_call :: "('x, 'd, 'k, unit) call" where
  "plain_call = system_call (\<lambda>_ M. M) (ok ())"

definition file_create :: "string \<Rightarrow> ('x, 'd, 'k, unit) call" where
  "file_create path = system_call (\<lambda>_ M. M) (\<lambda>M. (Inr (), M\<lparr>files := (files M)(path \<mapsto> [])\<rparr>))"

definition write_all :: "string \<Rightarrow> byte list \<Rightarrow> ('x, 'd, 'k, unit) call" where
  "write_all path bytes = system_call (\<lambda>n M. M\<lparr>files := (files M)(path \<mapsto> take n bytes)\<rparr>)
    (\<lambda>M. (Inr (), M\<lparr>files := (files M)(path \<mapsto> bytes)\<rparr>))"

definition fs_rename :: "string \<Rightarrow> string \<Rightarrow> ('x, 'd, 'k, unit) call" where
  "fs_rename from to = system_call (\<lambda>_ M. M) (\<lambda>M. case files M from of None \<Rightarrow> (Inl (IoError NotFoundError []), M)
    | Some bytes \<Rightarrow> (Inr (), M\<lparr>files := (files M)(from := None, to \<mapsto> bytes)\<rparr>))"

definition in_outside :: "('x, 'e, 'a) op \<Rightarrow> (('x, 'd, 'k) machine, 'e, 'a) op" where
  "in_outside m M = (case m (outside M) of (r, x) \<Rightarrow> (r, M\<lparr>outside := x\<rparr>))"

definition lock_guard :: "lock \<Rightarrow> string \<Rightarrow> ('x, 'd, 'k, unit) call" where
  "lock_guard l message M = (if poisoned M l then (Inl (IoError OtherError message), M) else (Inr (), M))"

section \<open>The catalog\<close>

record DatabaseResource =
  res_id :: uuid
  res_name :: "string option"

record CatalogRecord =
  cr_resource :: DatabaseResource
  cr_deleted :: bool

record Catalog =
  cat_records :: "(uuid, CatalogRecord) btree_map"

record ('x, 'd, 'r, 'k) engine =
  new_id :: "'x \<Rightarrow> uuid \<times> 'x"
  id_text :: "uuid \<Rightarrow> string"
  parse_id :: "string \<Rightarrow> uuid option"
  catalog_to_json :: "Catalog \<Rightarrow> string + byte list"
  catalog_from_json :: "byte list \<Rightarrow> string + Catalog"
  open_engine :: "string \<Rightarrow> ('x, string, 'd) op"
  redb_exists :: "string \<Rightarrow> 'x \<Rightarrow> bool \<times> 'x"
  redb_create :: "string \<Rightarrow> ('x, string, 'r) op"
  redb_open :: "string \<Rightarrow> ('x, string, 'r) op"
  redb_create_table :: "'r \<Rightarrow> string \<Rightarrow> ('x, string, unit) op"
  kv_store :: "'r \<Rightarrow> string \<Rightarrow> 'k"

definition invalid_namespace :: io_failure where
  "invalid_namespace = IoError InvalidInputError ''invalid storage namespace''"

definition catalog_path :: "('x, 'd, 'r, 'k) engine \<Rightarrow> string \<Rightarrow> StorageNamespace \<Rightarrow> io_failure + string" where
  "catalog_path E root scope = (if \<not> subject_ok (ns_user_sub scope) \<or> ns_application_id scope = 0 then Inl invalid_namespace
    else Inr (path_join (namespace_dir ''databases'' (id_text E) root scope) ''catalog.json''))"

definition read_catalog :: "('x, 'd, 'r, 'k) engine \<Rightarrow> string \<Rightarrow> ('x, 'd, 'k, Catalog) call" where
  "read_catalog E path = await (attempt_op (fs_read path)) (\<lambda>r. case r of
      Inr bytes \<Rightarrow> lift (result_map_err (IoError InvalidDataError) (catalog_from_json E bytes))
    | Inl e \<Rightarrow> (case e of IoError kind _ \<Rightarrow> if kind = NotFoundError then ok \<lparr>cat_records = []\<rparr> else err e))"

definition write_catalog :: "('x, 'd, 'r, 'k) engine \<Rightarrow> string \<Rightarrow> Catalog \<Rightarrow> ('x, 'd, 'k, unit) call" where
  "write_catalog E path catalog =
    await (lift (ok_or (IoError OtherError ''catalog path has no parent'') (parent path))) (\<lambda>_.
    await plain_call (\<lambda>_.
    await (in_outside (effect (new_id E))) (\<lambda>i.
    let temp_path = with_extension path (id_text E i @ ''.tmp'') in
    await (lift (result_map_err (IoError InvalidDataError) (catalog_to_json E catalog))) (\<lambda>bytes.
    await (file_create temp_path) (\<lambda>_.
    await (write_all temp_path bytes) (\<lambda>_.
    await plain_call (\<lambda>_.
    await (fs_rename temp_path path) (\<lambda>_.
    await plain_call (\<lambda>_. plain_call)))))))))"

definition catalog_guard :: "('x, 'd, 'k, unit) call" where
  "catalog_guard = lock_guard CatalogLock ''database catalog lock poisoned''"

definition set_record :: "uuid \<Rightarrow> CatalogRecord \<Rightarrow> Catalog \<Rightarrow> Catalog" where
  "set_record i r catalog = catalog\<lparr>cat_records := bt_insert i r (cat_records catalog)\<rparr>"

definition catalog_create :: "('x, 'd, 'r, 'k) engine \<Rightarrow> string \<Rightarrow> StorageNamespace \<Rightarrow> string option
    \<Rightarrow> ('x, 'd, 'k, DatabaseResource) call" where
  "catalog_create E root scope name =
    await catalog_guard (\<lambda>_.
    await (lift (catalog_path E root scope)) (\<lambda>path.
    await (read_catalog E path) (\<lambda>catalog.
    await (in_outside (effect (new_id E))) (\<lambda>i.
    let resource = \<lparr>res_id = i, res_name = name\<rparr> in
    await (write_catalog E path (set_record i \<lparr>cr_resource = resource, cr_deleted = False\<rparr> catalog)) (\<lambda>_.
    ok resource)))))"

definition catalog_list :: "('x, 'd, 'r, 'k) engine \<Rightarrow> string \<Rightarrow> StorageNamespace \<Rightarrow> ('x, 'd, 'k, DatabaseResource list) call" where
  "catalog_list E root scope =
    await catalog_guard (\<lambda>_.
    await (lift (catalog_path E root scope)) (\<lambda>path.
    await (read_catalog E path) (\<lambda>catalog.
    ok (map cr_resource (filter (\<lambda>record. \<not> cr_deleted record) (map snd (cat_records catalog)))))))"

definition catalog_register_selected :: "('x, 'd, 'r, 'k) engine \<Rightarrow> string \<Rightarrow> StorageNamespace \<Rightarrow> uuid \<Rightarrow> ('x, 'd, 'k, bool) call" where
  "catalog_register_selected E root scope i =
    await catalog_guard (\<lambda>_.
    await (lift (catalog_path E root scope)) (\<lambda>path.
    await (read_catalog E path) (\<lambda>catalog.
    case bt_get (cat_records catalog) i of Some record \<Rightarrow> ok (\<not> cr_deleted record)
    | None \<Rightarrow>
      await (write_catalog E path (set_record i \<lparr>cr_resource = \<lparr>res_id = i, res_name = None\<rparr>, cr_deleted = False\<rparr> catalog)) (\<lambda>_.
      ok True))))"

definition catalog_get :: "('x, 'd, 'r, 'k) engine \<Rightarrow> string \<Rightarrow> StorageNamespace \<Rightarrow> uuid
    \<Rightarrow> ('x, 'd, 'k, DatabaseResource option) call" where
  "catalog_get E root scope i =
    await catalog_guard (\<lambda>_.
    await (lift (catalog_path E root scope)) (\<lambda>path.
    await (read_catalog E path) (\<lambda>catalog.
    ok (case bt_get (cat_records catalog) i of None \<Rightarrow> None
      | Some record \<Rightarrow> if cr_deleted record then None else Some (cr_resource record)))))"

definition catalog_delete :: "('x, 'd, 'r, 'k) engine \<Rightarrow> string \<Rightarrow> StorageNamespace \<Rightarrow> uuid \<Rightarrow> ('x, 'd, 'k, bool) call" where
  "catalog_delete E root scope i =
    await catalog_guard (\<lambda>_.
    await (lift (catalog_path E root scope)) (\<lambda>path.
    await (read_catalog E path) (\<lambda>catalog.
    case bt_get (cat_records catalog) i of None \<Rightarrow> ok False
    | Some record \<Rightarrow> if cr_deleted record then ok False else
      await (write_catalog E path (set_record i (record\<lparr>cr_deleted := True\<rparr>) catalog)) (\<lambda>_.
      ok True))))"

definition catalog_apply_tombstone :: "('x, 'd, 'r, 'k) engine \<Rightarrow> string \<Rightarrow> StorageNamespace \<Rightarrow> uuid \<Rightarrow> ('x, 'd, 'k, unit) call" where
  "catalog_apply_tombstone E root scope i =
    await catalog_guard (\<lambda>_.
    await (lift (catalog_path E root scope)) (\<lambda>path.
    await (read_catalog E path) (\<lambda>catalog.
    if (case bt_get (cat_records catalog) i of None \<Rightarrow> False | Some record \<Rightarrow> cr_deleted record) then ok () else
    let record = (case bt_get (cat_records catalog) i of Some record \<Rightarrow> record
      | None \<Rightarrow> \<lparr>cr_resource = \<lparr>res_id = i, res_name = None\<rparr>, cr_deleted = True\<rparr>) in
    await (write_catalog E path (set_record i (record\<lparr>cr_deleted := True\<rparr>) catalog)) (\<lambda>_. ok ()))))"

definition catalog_is_tombstoned :: "('x, 'd, 'r, 'k) engine \<Rightarrow> string \<Rightarrow> StorageNamespace \<Rightarrow> uuid \<Rightarrow> ('x, 'd, 'k, bool) call" where
  "catalog_is_tombstoned E root scope i =
    await catalog_guard (\<lambda>_.
    await (lift (catalog_path E root scope)) (\<lambda>path.
    await (read_catalog E path) (\<lambda>catalog.
    ok (case bt_get (cat_records catalog) i of None \<Rightarrow> False | Some record \<Rightarrow> cr_deleted record))))"

definition io_error_text :: "io_failure \<Rightarrow> string" where
  "io_error_text e = (case e of IoError _ message \<Rightarrow> message)"

definition catalog_contains :: "('x, 'd, 'r, 'k) engine \<Rightarrow> string \<Rightarrow> StorageNamespace \<Rightarrow> ResourceIdentity
    \<Rightarrow> (('x, 'd, 'k) machine, string, bool) op" where
  "catalog_contains E root scope resource =
    (if ri_kind resource \<noteq> Database then ok False else
     case parse_id E (ri_id resource) of None \<Rightarrow> ok False
     | Some i \<Rightarrow> map_err io_error_text (await (catalog_get E root scope i) (\<lambda>entry. ok (entry \<noteq> None))))"

section \<open>The runtime\<close>

definition database_key :: "StorageNamespace \<Rightarrow> uuid \<Rightarrow> database_key" where
  "database_key scope i = (ns_user_sub scope, ns_application_id scope, i)"

definition database_path :: "('x, 'd, 'r, 'k) engine \<Rightarrow> string \<Rightarrow> StorageNamespace \<Rightarrow> uuid \<Rightarrow> io_failure + string" where
  "database_path E root scope i = (if \<not> subject_ok (ns_user_sub scope) \<or> ns_application_id scope = 0 then Inl invalid_namespace
    else Inr (path_join (namespace_dir ''databases'' (id_text E) root scope) (id_text E i @ ''.redb'')))"

definition open_guard :: "('x, 'd, 'k, unit) call" where
  "open_guard = lock_guard OpenLock ''database runtime lock poisoned''"

definition kv_guard :: "('x, 'd, 'k, unit) call" where
  "kv_guard = lock_guard KvLock ''database KV runtime lock poisoned''"

definition insert_open :: "database_key \<Rightarrow> 'd \<Rightarrow> ('x, 'd, 'k, unit) call" where
  "insert_open key database M = (Inr (), M\<lparr>open_dbs := (open_dbs M)(key \<mapsto> database)\<rparr>)"

definition insert_kv :: "database_key \<Rightarrow> 'k \<Rightarrow> ('x, 'd, 'k, unit) call" where
  "insert_kv key store M = (Inr (), M\<lparr>kv_open := (kv_open M)(key \<mapsto> store)\<rparr>)"

definition evict :: "StorageNamespace \<Rightarrow> uuid \<Rightarrow> ('x, 'd, 'k, unit) call" where
  "evict scope i =
    await (\<lambda>M. (Inr (), M\<lparr>open_dbs := (open_dbs M)(database_key scope i := None)\<rparr>)) (\<lambda>_.
    await kv_guard (\<lambda>_.
    (\<lambda>M. (Inr (), M\<lparr>kv_open := (kv_open M)(database_key scope i := None)\<rparr>))))"

definition runtime_create :: "('x, 'd, 'r, 'k) engine \<Rightarrow> string \<Rightarrow> StorageNamespace \<Rightarrow> string option
    \<Rightarrow> ('x, 'd, 'k, DatabaseResource \<times> 'd) call" where
  "runtime_create E root scope name =
    await open_guard (\<lambda>_.
    await (catalog_create E root scope name) (\<lambda>resource.
    await (lift (database_path E root scope (res_id resource))) (\<lambda>path.
    await (attempt_op (in_outside (open_engine E path))) (\<lambda>result.
    case result of
      Inr database \<Rightarrow> await (insert_open (database_key scope (res_id resource)) database) (\<lambda>_. ok (resource, database))
    | Inl e \<Rightarrow> await (catalog_delete E root scope (res_id resource)) (\<lambda>_. err (IoError OtherError e))))))"

definition runtime_delete :: "('x, 'd, 'r, 'k) engine \<Rightarrow> string \<Rightarrow> StorageNamespace \<Rightarrow> uuid \<Rightarrow> ('x, 'd, 'k, bool) call" where
  "runtime_delete E root scope i =
    await open_guard (\<lambda>_.
    await (catalog_delete E root scope i) (\<lambda>deleted.
    await (if deleted then evict scope i else ok ()) (\<lambda>_.
    ok deleted)))"

definition runtime_apply_tombstone :: "('x, 'd, 'r, 'k) engine \<Rightarrow> string \<Rightarrow> StorageNamespace \<Rightarrow> uuid \<Rightarrow> ('x, 'd, 'k, unit) call" where
  "runtime_apply_tombstone E root scope i =
    await open_guard (\<lambda>_.
    await (catalog_apply_tombstone E root scope i) (\<lambda>_.
    evict scope i))"

definition open_at :: "('x, 'd, 'r, 'k) engine \<Rightarrow> string \<Rightarrow> StorageNamespace \<Rightarrow> uuid \<Rightarrow> ('x, 'd, 'k, 'd option) call" where
  "open_at E root scope i =
    (let key = database_key scope i in
    await (effect (\<lambda>M. (open_dbs M key, M))) (\<lambda>found.
    case found of Some database \<Rightarrow> ok (Some database)
    | None \<Rightarrow>
      await (lift (database_path E root scope i)) (\<lambda>path.
      await (map_err (IoError InvalidDataError) (in_outside (open_engine E path))) (\<lambda>database.
      await (insert_open key database) (\<lambda>_.
      ok (Some database))))))"

definition runtime_open_selected :: "('x, 'd, 'r, 'k) engine \<Rightarrow> string \<Rightarrow> StorageNamespace \<Rightarrow> uuid \<Rightarrow> ('x, 'd, 'k, 'd option) call" where
  "runtime_open_selected E root scope i =
    await open_guard (\<lambda>_.
    await (catalog_register_selected E root scope i) (\<lambda>registered.
    if \<not> registered then ok None else open_at E root scope i))"

definition runtime_open :: "('x, 'd, 'r, 'k) engine \<Rightarrow> string \<Rightarrow> StorageNamespace \<Rightarrow> uuid \<Rightarrow> ('x, 'd, 'k, 'd option) call" where
  "runtime_open E root scope i =
    await open_guard (\<lambda>_.
    await (catalog_get E root scope i) (\<lambda>entry.
    if entry = None then ok None else open_at E root scope i))"

definition runtime_open_kv_selected :: "('x, 'd, 'r, 'k) engine \<Rightarrow> string \<Rightarrow> StorageNamespace \<Rightarrow> uuid \<Rightarrow> ('x, 'd, 'k, 'k option) call" where
  "runtime_open_kv_selected E root scope i =
    await kv_guard (\<lambda>_.
    await (catalog_register_selected E root scope i) (\<lambda>registered.
    if \<not> registered then ok None else
    let key = database_key scope i in
    await (effect (\<lambda>M. (kv_open M key, M))) (\<lambda>found.
    case found of Some store \<Rightarrow> ok (Some store)
    | None \<Rightarrow>
      await (lift (database_path E root scope i)) (\<lambda>path.
      let path = with_extension path ''kv.redb'' in
      await (in_outside (effect (redb_exists E path))) (\<lambda>exists.
      await (map_err (IoError InvalidDataError) (in_outside (if \<not> exists then redb_create E path else redb_open E path))) (\<lambda>database.
      await (if \<not> exists then map_err (IoError OtherError) (in_outside (redb_create_table E database ''kv'')) else ok ()) (\<lambda>_.
      let store = kv_store E database ''kv'' in
      await (insert_kv key store) (\<lambda>_.
      ok (Some store)))))))))"

text \<open>\<open>DatabaseRuntime::new\<close>, in a new process: nothing is open, the files stay.\<close>

definition runtime_new :: "('x, 'd, 'k, unit) call" where
  "runtime_new = await plain_call (\<lambda>_.
    (\<lambda>M. (Inr (), M\<lparr>poisoned := (\<lambda>_. False), open_dbs := Map.empty, kv_open := Map.empty\<rparr>)))"

end
