(* ===== verification/Storage_Server.thy ===== *)
theory Storage_Server
  imports Storage_Clients Storage_Files Database_Catalog
begin

text \<open>
  The storage server (\<open>crates/storage-server/src\<close>): authorization of user tokens, the routes for databases and file
  systems (\<open>router/resources.rs\<close>), the socket for requests on a file system (\<open>router/storage_socket.rs\<close>,
  \<open>router/storage_authorization.rs\<close>), the synchronisation of databases and file systems with peers
  (\<open>database_protocol.rs\<close>, \<open>storage_protocol.rs\<close>, \<open>data_protocol.rs\<close>, \<open>replication_runtime.rs\<close>) and the peers that may
  connect (\<open>network/peer_network.rs\<close>).  The peer-to-peer transport, the synchronisation engines and the web framework are
  external.
\<close>

section \<open>The state\<close>

text \<open>The databases with the rest of the machine, and the tables of the file systems.\<close>

type_synonym ('x, 'd, 'k, 'c, 'f) storage_world = "('x, 'd, 'k) machine \<times> ('c, 'f) fs_tables"

definition in_databases :: "(('x, 'd, 'k) machine, 'e, 'a) op \<Rightarrow> (('x, 'd, 'k, 'c, 'f) storage_world, 'e, 'a) op" where
  "in_databases m s = (case m (fst s) of (r, M) \<Rightarrow> (r, (M, snd s)))"

definition in_file_systems :: "(('c, 'f) fs_tables \<times> 'x, 'e, 'a) op \<Rightarrow> (('x, 'd, 'k, 'c, 'f) storage_world, 'e, 'a) op" where
  "in_file_systems m s = (case m (snd s, outside (fst s)) of (r, (T, x)) \<Rightarrow> (r, ((fst s)\<lparr>outside := x\<rparr>, T)))"

definition in_net :: "('x, 'e, 'a) op \<Rightarrow> (('x, 'd, 'k, 'c, 'f) storage_world, 'e, 'a) op" where
  "in_net m = in_databases (in_outside m)"

record ('x, 'd, 'r, 'k, 'c, 'f, 'p) StorageState =
  sst_web :: "'x storage_web"
  sst_idp_client :: "IdpClient option"
  sst_databases :: "(('x, 'd, 'r, 'k) engine \<times> string) option"
  sst_file_systems :: "(('x, 'c, 'f, 'p) file_systems \<times> string \<times> 'p) option"

section \<open>Authorization\<close>

datatype StorageAuthorizationError = TokenInvalid | IdpUnavailable

record StorageAuthorization =
  sa_subject :: string
  sa_application_id :: string
  sa_resource :: string
  sa_expires_at :: int
  sa_can_read :: bool
  sa_can_write :: bool

text \<open>The clock in whole seconds since the Unix epoch, at most \<open>i64::MAX\<close>.\<close>

definition clock_seconds :: "int \<Rightarrow> int" where
  "clock_seconds t = (if t < 0 then 0 else min (t div 1000000000) (2 ^ 63 - 1))"

definition unix_time_seconds :: "'x storage_web \<Rightarrow> ('x, 'e, int) op" where
  "unix_time_seconds W = await (effect (system_time (sw_web W))) (\<lambda>t. ok (clock_seconds t))"

definition storage_authorization :: "'x storage_web \<Rightarrow> IntrospectionResponse \<Rightarrow> ('x, StorageAuthorizationError, StorageAuthorization) op" where
  "storage_authorization W response =
    (let claims = is_claims response in
    if claim_type claims \<noteq> Bearer \<or> claim_use claims \<noteq> UseAccess \<or> claim_principal_type claims \<noteq> PrincipalUser
    then err TokenInvalid else
    await (unix_time_seconds W) (\<lambda>now.
    if claim_exp claims \<le> now then err TokenInvalid else
    await (lift (ok_or TokenInvalid (case claim_resource claims of None \<Rightarrow> None
      | Some resource \<Rightarrow> if claim_aud claims = resource then Some resource else None))) (\<lambda>resource.
    case claim_authorization_details claims of
      Some [Storage detail] \<Rightarrow>
        let can_read = StorageAuthorizationAction.Read \<in> set (detail_actions detail);
            can_write = StorageAuthorizationAction.Write \<in> set (detail_actions detail) in
        if \<not> can_read \<and> \<not> can_write then err TokenInvalid else
        ok \<lparr>sa_subject = claim_sub claims, sa_application_id = is_application_id response, sa_resource = resource,
          sa_expires_at = claim_exp claims, sa_can_read = can_read, sa_can_write = can_write\<rparr>
    | _ \<Rightarrow> err TokenInvalid)))"

definition introspection_failure :: "IdpIntrospectionError \<Rightarrow> StorageAuthorizationError" where
  "introspection_failure e = (case e of InvalidToken \<Rightarrow> TokenInvalid | ServiceUnavailable \<Rightarrow> IdpUnavailable)"

definition authorize_storage_token :: "'x storage_web \<Rightarrow> IdpClient \<Rightarrow> string \<Rightarrow> ('x, StorageAuthorizationError, StorageAuthorization) op" where
  "authorize_storage_token W C token =
    await (map_err introspection_failure (client_introspect W C token)) (storage_authorization W)"

section \<open>Databases and file systems\<close>

definition UNAUTHORIZED :: nat where "UNAUTHORIZED = 401"
definition FORBIDDEN :: nat where "FORBIDDEN = 403"
definition NOT_FOUND :: nat where "NOT_FOUND = 404"
definition INTERNAL_SERVER_ERROR :: nat where "INTERNAL_SERVER_ERROR = 500"
definition SERVICE_UNAVAILABLE :: nat where "SERVICE_UNAVAILABLE = 503"
definition CREATED :: nat where "CREATED = 201"
definition NO_CONTENT :: nat where "NO_CONTENT = 204"

definition authorization :: "('x, 'd, 'r, 'k, 'c, 'f, 'p) StorageState \<Rightarrow> header_value \<Rightarrow> ('x, nat, StorageAuthorization) op" where
  "authorization S headers =
    await (lift (ok_or UNAUTHORIZED (bearer_token headers))) (\<lambda>token.
    await (lift (ok_or SERVICE_UNAVAILABLE (sst_idp_client S))) (\<lambda>idp_client.
    map_err (\<lambda>e. case e of TokenInvalid \<Rightarrow> UNAUTHORIZED | IdpUnavailable \<Rightarrow> SERVICE_UNAVAILABLE)
      (authorize_storage_token (sst_web S) idp_client token)))"

definition namespace_of :: "('x, 'd, 'r, 'k, 'c, 'f, 'p) StorageState \<Rightarrow> StorageAuthorization \<Rightarrow> nat + (StorageNamespace \<times> bool \<times> bool)" where
  "namespace_of S a = and_then (ok_or UNAUTHORIZED (web_parse_uuid (sw_web (sst_web S)) (sa_application_id a))) (\<lambda>application_id.
    Inr (\<lparr>ns_user_sub = sa_subject a, ns_application_id = application_id\<rparr>, sa_can_read a, sa_can_write a))"

text \<open>The first lines of every handler: the namespace of the token, and what it permits.\<close>

definition token_namespace :: "('x, 'd, 'r, 'k, 'c, 'f, 'p) StorageState \<Rightarrow> header_value
    \<Rightarrow> (('x, 'd, 'k, 'c, 'f) storage_world, nat, StorageNamespace \<times> bool \<times> bool) op" where
  "token_namespace S headers = await (in_net (authorization S headers)) (\<lambda>a. lift (namespace_of S a))"

definition create_database :: "('x, 'd, 'r, 'k, 'c, 'f, 'p) StorageState \<Rightarrow> header_value \<Rightarrow> string option
    \<Rightarrow> (('x, 'd, 'k, 'c, 'f) storage_world, nat, nat \<times> DatabaseResource) op" where
  "create_database S headers name =
    await (token_namespace S headers) (\<lambda>(scope, _, can_write).
    if \<not> can_write then err FORBIDDEN else
    await (lift (ok_or SERVICE_UNAVAILABLE (sst_databases S))) (\<lambda>(E, root).
    await (map_err (\<lambda>_. INTERNAL_SERVER_ERROR) (in_databases (runtime_create E root scope name))) (\<lambda>(resource, _).
    ok (CREATED, resource))))"

definition list_databases :: "('x, 'd, 'r, 'k, 'c, 'f, 'p) StorageState \<Rightarrow> header_value
    \<Rightarrow> (('x, 'd, 'k, 'c, 'f) storage_world, nat, DatabaseResource list) op" where
  "list_databases S headers =
    await (token_namespace S headers) (\<lambda>(scope, can_read, _).
    if \<not> can_read then err FORBIDDEN else
    await (lift (ok_or SERVICE_UNAVAILABLE (sst_databases S))) (\<lambda>(E, root).
    map_err (\<lambda>_. INTERNAL_SERVER_ERROR) (in_databases (catalog_list E root scope))))"

definition get_database :: "('x, 'd, 'r, 'k, 'c, 'f, 'p) StorageState \<Rightarrow> header_value \<Rightarrow> uuid
    \<Rightarrow> (('x, 'd, 'k, 'c, 'f) storage_world, nat, DatabaseResource \<times> string) op" where
  "get_database S headers database_id =
    await (token_namespace S headers) (\<lambda>(scope, can_read, _).
    if \<not> can_read then err FORBIDDEN else
    await (lift (ok_or SERVICE_UNAVAILABLE (sst_databases S))) (\<lambda>(E, root).
    await (map_err (\<lambda>_. INTERNAL_SERVER_ERROR) (in_databases (catalog_get E root scope database_id))) (\<lambda>resource.
    lift (ok_or NOT_FOUND (map_option (\<lambda>resource. (resource, id_text E (ns_application_id scope))) resource)))))"

definition delete_database :: "('x, 'd, 'r, 'k, 'c, 'f, 'p) StorageState \<Rightarrow> header_value \<Rightarrow> uuid
    \<Rightarrow> (('x, 'd, 'k, 'c, 'f) storage_world, nat, nat) op" where
  "delete_database S headers database_id =
    await (token_namespace S headers) (\<lambda>(scope, _, can_write).
    if \<not> can_write then err FORBIDDEN else
    await (lift (ok_or SERVICE_UNAVAILABLE (sst_databases S))) (\<lambda>(E, root).
    await (map_err (\<lambda>_. INTERNAL_SERVER_ERROR) (in_databases (runtime_delete E root scope database_id))) (\<lambda>deleted.
    if deleted then ok NO_CONTENT else err NOT_FOUND)))"

text \<open>The response for a file system: its identifier as text and its name.\<close>

definition file_system_response :: "('x, 'c, 'f, 'p) file_systems \<Rightarrow> FileSystemResource \<Rightarrow> string \<times> string option" where
  "file_system_response E resource = (fs_show_uuid E (fsr_id resource), fsr_name resource)"

definition create_file_system :: "('x, 'd, 'r, 'k, 'c, 'f, 'p) StorageState \<Rightarrow> header_value \<Rightarrow> string option
    \<Rightarrow> (('x, 'd, 'k, 'c, 'f) storage_world, nat, nat \<times> string \<times> string option) op" where
  "create_file_system S headers name =
    await (token_namespace S headers) (\<lambda>(scope, _, can_write).
    if \<not> can_write then err FORBIDDEN else
    await (lift (ok_or SERVICE_UNAVAILABLE (sst_file_systems S))) (\<lambda>(E, root, _).
    await (map_err (\<lambda>_. INTERNAL_SERVER_ERROR) (in_file_systems (create_resource E root scope name))) (\<lambda>resource.
    ok (CREATED, file_system_response E resource))))"

definition list_file_systems :: "('x, 'd, 'r, 'k, 'c, 'f, 'p) StorageState \<Rightarrow> header_value
    \<Rightarrow> (('x, 'd, 'k, 'c, 'f) storage_world, nat, (string \<times> string option) list) op" where
  "list_file_systems S headers =
    await (token_namespace S headers) (\<lambda>(scope, can_read, _).
    if \<not> can_read then err FORBIDDEN else
    await (lift (ok_or SERVICE_UNAVAILABLE (sst_file_systems S))) (\<lambda>(E, root, _).
    await (map_err (\<lambda>_. INTERNAL_SERVER_ERROR) (in_file_systems (list_resources E root scope))) (\<lambda>resources.
    ok (map (file_system_response E) resources))))"

definition get_file_system :: "('x, 'd, 'r, 'k, 'c, 'f, 'p) StorageState \<Rightarrow> header_value \<Rightarrow> string
    \<Rightarrow> (('x, 'd, 'k, 'c, 'f) storage_world, nat, (string \<times> string option) \<times> string) op" where
  "get_file_system S headers i =
    await (token_namespace S headers) (\<lambda>(scope, can_read, _).
    if \<not> can_read then err FORBIDDEN else
    await (lift (ok_or NOT_FOUND (web_parse_uuid (sw_web (sst_web S)) i))) (\<lambda>i.
    await (lift (ok_or SERVICE_UNAVAILABLE (sst_file_systems S))) (\<lambda>(E, root, _).
    await (map_err (\<lambda>_. INTERNAL_SERVER_ERROR) (in_file_systems (list_resources E root scope))) (\<lambda>resources.
    lift (ok_or NOT_FOUND (map_option (\<lambda>resource. (file_system_response E resource, fs_show_uuid E (ns_application_id scope)))
      (List.find (\<lambda>resource. fsr_id resource = i) resources)))))))"

definition delete_file_system :: "('x, 'd, 'r, 'k, 'c, 'f, 'p) StorageState \<Rightarrow> header_value \<Rightarrow> string
    \<Rightarrow> (('x, 'd, 'k, 'c, 'f) storage_world, nat, nat) op" where
  "delete_file_system S headers i =
    await (token_namespace S headers) (\<lambda>(scope, _, can_write).
    if \<not> can_write then err FORBIDDEN else
    await (lift (ok_or NOT_FOUND (web_parse_uuid (sw_web (sst_web S)) i))) (\<lambda>i.
    await (lift (ok_or SERVICE_UNAVAILABLE (sst_file_systems S))) (\<lambda>(E, root, _).
    await (map_err (\<lambda>_. INTERNAL_SERVER_ERROR) (in_file_systems (delete_resource E root scope i))) (\<lambda>deleted.
    if deleted then ok NO_CONTENT else err NOT_FOUND))))"

text \<open>The routes, and what they answer.\<close>

datatype resource_request = CreateDatabase "string option" | ListDatabases | GetDatabase uuid | DeleteDatabase uuid
  | CreateFileSystem "string option" | ListFileSystems | GetFileSystem string | DeleteFileSystem string

datatype resource_response = Status nat | OneDatabase nat DatabaseResource | Databases "DatabaseResource list"
  | DatabaseDetail "DatabaseResource \<times> string" | OneFileSystem nat "string \<times> string option"
  | FileSystems "(string \<times> string option) list" | FileSystemDetail "(string \<times> string option) \<times> string"

fun resource_router :: "('x, 'd, 'r, 'k, 'c, 'f, 'p) StorageState \<Rightarrow> header_value \<Rightarrow> resource_request
    \<Rightarrow> (('x, 'd, 'k, 'c, 'f) storage_world, nat, resource_response) op" where
  "resource_router S headers (CreateDatabase name) = await (create_database S headers name) (\<lambda>(status, r). ok (OneDatabase status r))"
| "resource_router S headers ListDatabases = await (list_databases S headers) (\<lambda>rs. ok (Databases rs))"
| "resource_router S headers (GetDatabase i) = await (get_database S headers i) (\<lambda>r. ok (DatabaseDetail r))"
| "resource_router S headers (DeleteDatabase i) = await (delete_database S headers i) (\<lambda>status. ok (Status status))"
| "resource_router S headers (CreateFileSystem name) = await (create_file_system S headers name) (\<lambda>(status, r). ok (OneFileSystem status r))"
| "resource_router S headers ListFileSystems = await (list_file_systems S headers) (\<lambda>rs. ok (FileSystems rs))"
| "resource_router S headers (GetFileSystem i) = await (get_file_system S headers i) (\<lambda>r. ok (FileSystemDetail r))"
| "resource_router S headers (DeleteFileSystem i) = await (delete_file_system S headers i) (\<lambda>status. ok (Status status))"

section \<open>The socket\<close>

record 'f StorageSocketAccess =
  ssa_read :: bool
  ssa_write :: bool
  ssa_expires_at :: int
  ssa_session :: 'f

record ('x, 'c, 'f, 'p) ScopedFileSystemSocketAuthorizer =
  sfa_web :: "'x storage_web"
  sfa_idp_client :: IdpClient
  sfa_file_systems :: "('x, 'c, 'f, 'p) file_systems"
  sfa_root :: string
  sfa_local_peer :: 'p

definition socket_authorize :: "('x, 'c, 'f, 'p) ScopedFileSystemSocketAuthorizer \<Rightarrow> string \<Rightarrow> string
    \<Rightarrow> (('c, 'f) fs_tables \<times> 'x, StorageAuthorizationError, 'f StorageSocketAccess) op" where
  "socket_authorize A token resource_id =
    (let E = sfa_file_systems A; W = sfa_web A in
    await (lift (ok_or TokenInvalid (fs_parse_id E resource_id))) (\<lambda>resource_id.
    await (in_crate (authorize_storage_token W (sfa_idp_client A) token)) (\<lambda>a.
    await (lift (ok_or TokenInvalid (web_parse_uuid (sw_web W) (sa_application_id a)))) (\<lambda>application_id.
    let scope = \<lparr>ns_user_sub = sa_subject a, ns_application_id = application_id\<rparr> in
    await (map_err (\<lambda>_. TokenInvalid) (open_resource E (sfa_root A) (sfa_local_peer A) scope resource_id)) (\<lambda>session.
    ok \<lparr>ssa_read = sa_can_read a, ssa_write = sa_can_write a, ssa_expires_at = sa_expires_at a, ssa_session = session\<rparr>)))))"

definition allows :: "'f StorageSocketAccess \<Rightarrow> StorageRequest \<Rightarrow> bool" where
  "allows access request = (case request of
      StorageRequest.Read _ \<Rightarrow> ssa_read access | StorageRequest.Entry _ \<Rightarrow> ssa_read access | StorageRequest.List _ \<Rightarrow> ssa_read access
    | _ \<Rightarrow> ssa_write access)"

datatype socket_message = Text string | NotText

record 'x socket =
  so_request_from_json :: "string \<Rightarrow> string + StorageRequest"
  so_response_to_json :: "StorageResponse \<Rightarrow> string + string"
  so_send :: "string \<Rightarrow> ('x, unit, unit) op"

definition send_response :: "'x socket \<Rightarrow> StorageResponse \<Rightarrow> ('x, unit, unit) op" where
  "send_response K response = await (lift (result_map_err (\<lambda>_. ()) (so_response_to_json K response))) (so_send K)"

definition answer :: "('x, 'c, 'f, 'p) ScopedFileSystemSocketAuthorizer \<Rightarrow> 'x socket \<Rightarrow> 'f StorageSocketAccess \<Rightarrow> string
    \<Rightarrow> (('c, 'f) fs_tables \<times> 'x, 'e, StorageResponse) op" where
  "answer A K access message = (case so_request_from_json K message of
      Inl _ \<Rightarrow> ok (StorageError InvalidRequestCode)
    | Inr request \<Rightarrow> if allows access request then in_crate (execute_session (sfa_file_systems A) (ssa_session access) request)
        else ok (StorageError OperationFailed))"

text \<open>The messages are those that arrive until the connection ends.\<close>

fun serve_socket :: "('x, 'c, 'f, 'p) ScopedFileSystemSocketAuthorizer \<Rightarrow> 'x socket \<Rightarrow> string \<Rightarrow> string \<Rightarrow> socket_message list
    \<Rightarrow> 'f StorageSocketAccess \<Rightarrow> (('c, 'f) fs_tables \<times> 'x, 'e, unit) op" where
  "serve_socket A K token resource_id [] access = await (in_crate (unix_time_seconds (sfa_web A))) (\<lambda>_. ok ())"
| "serve_socket A K token resource_id (m # messages) access =
    await (in_crate (unix_time_seconds (sfa_web A))) (\<lambda>now.
    if now \<ge> ssa_expires_at access then ok () else
    case m of NotText \<Rightarrow> ok ()
    | Text message \<Rightarrow>
      await (attempt_op (socket_authorize A token resource_id)) (\<lambda>authorized.
      case authorized of Inl _ \<Rightarrow> ok ()
      | Inr access \<Rightarrow>
        await (in_crate (unix_time_seconds (sfa_web A))) (\<lambda>now.
        if \<not> now < ssa_expires_at access then ok () else
        await (answer A K access message) (\<lambda>response.
        await (attempt_op (in_crate (send_response K response))) (\<lambda>sent.
        case sent of Inl _ \<Rightarrow> ok () | Inr _ \<Rightarrow> serve_socket A K token resource_id messages access)))))"

definition upgrade_socket :: "('x, 'c, 'f, 'p) ScopedFileSystemSocketAuthorizer \<Rightarrow> 'x socket \<Rightarrow> string \<Rightarrow> string \<Rightarrow> socket_message list
    \<Rightarrow> (('c, 'f) fs_tables \<times> 'x, nat, unit) op" where
  "upgrade_socket A K token resource_id messages =
    await (map_err (\<lambda>e. case e of TokenInvalid \<Rightarrow> UNAUTHORIZED | IdpUnavailable \<Rightarrow> SERVICE_UNAVAILABLE)
      (socket_authorize A token resource_id)) (\<lambda>access.
    serve_socket A K token resource_id messages access)"

end
