(* ===== verification/Database_Tombstones.thy ===== *)
theory Database_Tombstones
  imports Database_Catalog
begin

text \<open>
  What the catalogs of databases promise whatever the file system does: an update is atomic and stays in its
  namespace, and a deleted database never comes back, through failures, other namespaces and restarts.
\<close>

section \<open>Laws of the engine\<close>

text \<open>Identifiers name files, and a catalog that was written is read back.\<close>

definition engine_laws :: "('x, 'd, 'r, 'k) engine \<Rightarrow> bool" where
  "engine_laws E = (names_ids (id_text E)
    \<and> (\<forall>c bytes. catalog_to_json E c = Inr bytes \<longrightarrow> catalog_from_json E bytes = Inr c))"

definition generated :: "('x, 'd, 'r, 'k) engine \<Rightarrow> uuid set" where
  "generated E = range (\<lambda>x. fst (new_id E x))"

section \<open>What the files say\<close>

text \<open>The catalog that a file holds, if it can be read, and the records of a namespace.\<close>

definition stored :: "('x, 'd, 'r, 'k) engine \<Rightarrow> (string \<rightharpoonup> byte list) \<Rightarrow> string \<Rightarrow> Catalog option" where
  "stored E F path = (case F path of None \<Rightarrow> Some \<lparr>cat_records = []\<rparr>
    | Some bytes \<Rightarrow> (case catalog_from_json E bytes of Inl _ \<Rightarrow> None | Inr c \<Rightarrow> Some c))"

definition records :: "('x, 'd, 'r, 'k) engine \<Rightarrow> string \<Rightarrow> (string \<rightharpoonup> byte list) \<Rightarrow> StorageNamespace
    \<Rightarrow> (uuid \<rightharpoonup> CatalogRecord) option" where
  "records E root F ns = (case catalog_path E root ns of Inl _ \<Rightarrow> None
    | Inr path \<Rightarrow> map_option (\<lambda>c. bt_get (cat_records c)) (stored E F path))"

definition temporary :: "string \<Rightarrow> bool" where
  "temporary path = suffix ''.tmp'' path"

text \<open>The files are the same apart from temporary ones; one file has new content.\<close>

definition same_files :: "(string \<rightharpoonup> byte list) \<Rightarrow> (string \<rightharpoonup> byte list) \<Rightarrow> bool" where
  "same_files F F' = (\<forall>path. \<not> temporary path \<longrightarrow> F' path = F path)"

definition replaced :: "string \<Rightarrow> byte list \<Rightarrow> (string \<rightharpoonup> byte list) \<Rightarrow> (string \<rightharpoonup> byte list) \<Rightarrow> bool" where
  "replaced path bytes F F' = (\<forall>p. \<not> temporary p \<longrightarrow> F' p = (if p = path then Some bytes else F p))"

lemma same_files_refl [simp]: "same_files F F"
  by (simp add: same_files_def)

lemma temporary_path: "temporary (with_extension (dir @ CHR ''/'' # ''catalog.json'') (i @ ''.tmp''))"
proof -
  have "new_extension ''catalog.json'' (i @ ''.tmp'') = ''catalog.'' @ i @ ''.tmp''"
    using rsplit_once_append [of "CHR ''.''" "''json''" "''catalog''"] by (simp add: new_extension_def file_stem_def)
  then show ?thesis by (simp add: with_extension_child temporary_def suffix_def)
qed

lemma not_temporary: "\<not> temporary (dir @ CHR ''/'' # ''catalog.json'')"
  by (auto simp: temporary_def suffix_def append_eq_append_conv2 append_eq_Cons_conv)

lemma catalog_path_cases:
  assumes "catalog_path E root ns = Inr path" "engine_laws E"
  shows "path = namespace_dir ''databases'' (id_text E) root ns @ CHR ''/'' # ''catalog.json'' \<and> subject_ok (ns_user_sub ns)"
proof -
  from assms have ok: "subject_ok (ns_user_sub ns)" "names_ids (id_text E)"
    and path: "path = path_join (namespace_dir ''databases'' (id_text E) root ns) ''catalog.json''"
    by (auto simp: catalog_path_def engine_laws_def split: if_splits)
  then have "last (namespace_dir ''databases'' (id_text E) root ns) \<noteq> CHR ''/''" "namespace_dir ''databases'' (id_text E) root ns \<noteq> []"
    using last_component [of "id_text E (ns_application_id ns)"] by (auto simp: namespace_dir_eq names_ids_def)
  with ok path show ?thesis by (simp add: path_join_component)
qed

lemma records_same: "engine_laws E \<Longrightarrow> same_files F F' \<Longrightarrow> records E root F' = records E root F"
  by (rule ext) (auto simp: records_def stored_def same_files_def not_temporary dest: catalog_path_cases split: sum.split)

lemma records_replaced:
  assumes "engine_laws E" "catalog_path E root ns = Inr path" "catalog_to_json E c = Inr bytes" "replaced path bytes F F'"
  shows "records E root F' = (records E root F)(ns := Some (bt_get (cat_records c)))"
proof
  fix ns'
  have own: "stored E F' path = Some c"
    using assms not_temporary catalog_path_cases [OF assms(2,1)] by (simp add: stored_def replaced_def engine_laws_def)
  show "records E root F' ns' = ((records E root F)(ns := Some (bt_get (cat_records c)))) ns'"
  proof (cases "catalog_path E root ns'")
    case (Inr path')
    note paths = catalog_path_cases [OF assms(2,1)] catalog_path_cases [OF Inr assms(1)]
    show ?thesis
    proof (cases "path' = path")
      case True
      have "namespace_dir ''databases'' (id_text E) root ns' @ CHR ''/'' # ''catalog.json''
          = namespace_dir ''databases'' (id_text E) root ns @ CHR ''/'' # ''catalog.json''"
        using paths True by simp
      from namespace_child_inj [OF this] paths assms(1) have "ns' = ns" by (simp add: engine_laws_def)
      with own assms(2) show ?thesis by (simp add: records_def)
    next
      case False
      have "\<not> temporary path'" using paths(2) not_temporary by metis
      with assms(4) False have "F' path' = F path'" unfolding replaced_def by simp
      moreover have "ns' \<noteq> ns" using assms(2) Inr False by auto
      ultimately show ?thesis using Inr by (simp add: records_def stored_def)
    qed
  qed (use assms(2) in \<open>auto simp: records_def\<close>)
qed

section \<open>Calls\<close>

lemma wp_system_call:
  assumes "\<And>rs. wp act Q X (M\<lparr>outcomes := rs\<rparr>)" and "\<And>message n rs. X (IoError OtherError message) (torn n (M\<lparr>outcomes := rs\<rparr>))"
  shows "wp (system_call torn act) Q X M"
proof (cases "outcomes M")
  case Nil
  then have "M = M\<lparr>outcomes := []\<rparr>" by simp
  with assms(1) [of "[]"] Nil show ?thesis by (simp add: system_call_def wp_simps wp_effect outcome_def)
next
  case (Cons r rs)
  then have "system_call torn act M = (case r of None \<Rightarrow> act (M\<lparr>outcomes := rs\<rparr>)
      | Some (message, n) \<Rightarrow> (Inl (IoError OtherError message), torn n (M\<lparr>outcomes := rs\<rparr>)))"
    by (simp add: system_call_def await_def effect_def outcome_def split: option.split)
  with assms(1) [of rs] assms(2) [of _ _ rs] show ?thesis by (cases r) (auto simp: wp_def)
qed

lemma wp_in_outside:
  "(\<And>a x. Q a (M\<lparr>outside := x\<rparr>)) \<Longrightarrow> (\<And>e x. X e (M\<lparr>outside := x\<rparr>)) \<Longrightarrow> wp (in_outside m) Q X M"
  by (auto simp: wp_def in_outside_def split: prod.splits sum.splits)

lemma wp_new_id:
  "(\<And>i x. i \<in> generated E \<Longrightarrow> Q i (M\<lparr>outside := x\<rparr>)) \<Longrightarrow> wp (in_outside (effect (new_id E))) Q X M"
  by (auto simp: wp_def in_outside_def effect_def generated_def image_def split: prod.splits) (metis fst_conv)

lemma wp_lock_guard: "Q () M \<Longrightarrow> (\<And>e. X e M) \<Longrightarrow> wp (lock_guard l message) Q X M"
  by (simp add: wp_def lock_guard_def)

lemma wp_plain_call: "(\<And>rs. Q () (M\<lparr>outcomes := rs\<rparr>)) \<Longrightarrow> (\<And>e rs. X e (M\<lparr>outcomes := rs\<rparr>)) \<Longrightarrow> wp plain_call Q X M"
  unfolding plain_call_def by (rule wp_system_call) (simp_all add: wp_simps)

lemma wp_file_create:
  "(\<And>rs. Q () (M\<lparr>outcomes := rs, files := (files M)(path \<mapsto> [])\<rparr>)) \<Longrightarrow> (\<And>e rs. X e (M\<lparr>outcomes := rs\<rparr>))
    \<Longrightarrow> wp (file_create path) Q X M"
  unfolding file_create_def by (rule wp_system_call) (simp_all add: wp_def)

lemma wp_write_all:
  "(\<And>rs. Q () (M\<lparr>outcomes := rs, files := (files M)(path \<mapsto> bytes)\<rparr>))
    \<Longrightarrow> (\<And>e rs n. X e (M\<lparr>outcomes := rs, files := (files M)(path \<mapsto> take n bytes)\<rparr>)) \<Longrightarrow> wp (write_all path bytes) Q X M"
  unfolding write_all_def by (rule wp_system_call) (simp_all add: wp_def)

lemma wp_fs_rename:
  "files M from = Some bytes \<Longrightarrow> (\<And>rs. Q () (M\<lparr>outcomes := rs, files := (files M)(from := None, to \<mapsto> bytes)\<rparr>))
    \<Longrightarrow> (\<And>e rs. X e (M\<lparr>outcomes := rs\<rparr>)) \<Longrightarrow> wp (fs_rename from to) Q X M"
  unfolding fs_rename_def by (rule wp_system_call) (simp_all add: wp_def)

lemma wp_fs_read:
  "(\<And>bytes rs. files M path = Some bytes \<Longrightarrow> Q bytes (M\<lparr>outcomes := rs\<rparr>))
    \<Longrightarrow> (\<And>e rs. \<forall>message. e = IoError NotFoundError message \<longrightarrow> files M path = None \<Longrightarrow> X e (M\<lparr>outcomes := rs\<rparr>))
    \<Longrightarrow> wp (fs_read path) Q X M"
  unfolding fs_read_def by (cases "files M path"; rule wp_system_call) (auto simp: wp_def)

lemma wp_read_catalog:
  assumes "\<And>c rs. stored E (files M) path = Some c \<Longrightarrow> Q c (M\<lparr>outcomes := rs\<rparr>)" "\<And>e rs. X e (M\<lparr>outcomes := rs\<rparr>)"
  shows "wp (read_catalog E path) Q X M"
  unfolding read_catalog_def wp_await wp_attempt_op
  by (rule wp_fs_read)
    (use assms in \<open>auto simp: wp_simps stored_def split: sum.splits io_failure.splits\<close>)

text \<open>The new content replaces the catalog at once; a failure leaves the old content, or the new one.\<close>

lemma lift_simps: "lift (Inr a) = ok a" "lift (Inl e) = err e"
  by (simp_all add: fun_eq_iff lift_def ok_def err_def)

lemma wp_write_file:
  assumes path: "path = dir @ CHR ''/'' # ''catalog.json''"
  shows "wp (write_catalog E path c) (\<lambda>_ M'. \<exists>bytes. catalog_to_json E c = Inr bytes \<and> replaced path bytes (files M) (files M'))
    (\<lambda>_ M'. same_files (files M) (files M')
      \<or> (\<exists>bytes. catalog_to_json E c = Inr bytes \<and> replaced path bytes (files M) (files M'))) M"
proof -
  have "\<exists>d. parent path = Some d" using path by (simp add: parent_def)
  then obtain d where parent: "parent path = Some d" ..
  have temp: "temporary (with_extension path (id_text E i @ ''.tmp''))" for i using temporary_path path by simp
  have plain: "\<not> temporary path" using not_temporary path by simp
  show ?thesis
  proof (cases "catalog_to_json E c")
    case (Inl e)
    show ?thesis
      unfolding write_catalog_def Let_def parent Inl ok_or_simps result_map_err_simps lift_simps await_ok wp_await_fun
      by (intro wp_plain_call wp_in_outside) (simp_all add: wp_simps)
  next
    case (Inr bytes)
    show ?thesis
      unfolding write_catalog_def Let_def parent Inr ok_or_simps result_map_err_simps lift_simps await_ok wp_await_fun
      by (intro wp_plain_call wp_in_outside wp_file_create wp_write_all wp_fs_rename)
        (auto simp: same_files_def replaced_def temp plain)
  qed
qed

lemma wp_write_catalog:
  assumes "engine_laws E" "catalog_path E root ns = Inr path"
  shows "wp (write_catalog E path c)
    (\<lambda>_ M'. records E root (files M') = (records E root (files M))(ns := Some (bt_get (cat_records c))))
    (\<lambda>_ M'. records E root (files M') = records E root (files M)
      \<or> records E root (files M') = (records E root (files M))(ns := Some (bt_get (cat_records c)))) M"
proof -
  have "\<exists>dir. path = dir @ CHR ''/'' # ''catalog.json''" using catalog_path_cases [OF assms(2,1)] by blast
  then obtain dir where "path = dir @ CHR ''/'' # ''catalog.json''" ..
  from wp_write_file [OF this] show ?thesis
    by (rule wp_conseq) (use records_replaced [OF assms] records_same [OF assms(1)] in blast)+
qed

text \<open>Every operation of the catalog takes the lock and reads the catalog of its namespace first.\<close>

lemma wp_with_catalog:
  assumes "engine_laws E"
    and "\<And>path c M'. catalog_path E root ns = Inr path \<Longrightarrow> files M' = files M
      \<Longrightarrow> records E root (files M) ns = Some (bt_get (cat_records c)) \<Longrightarrow> wp (f path c) Q X M'"
    and "\<And>e M'. files M' = files M \<Longrightarrow> X e M'"
  shows "wp (await catalog_guard (\<lambda>_. await (lift (catalog_path E root ns)) (\<lambda>path. await (read_catalog E path) (f path)))) Q X M"
  unfolding wp_await catalog_guard_def
  by (rule wp_lock_guard)
    (use assms in \<open>auto simp: wp_simps records_def split: sum.split intro!: wp_read_catalog\<close>)

section \<open>Updates of a catalog\<close>

datatype catalog_call = Create "string option" | Select uuid | Delete uuid | Tombstone uuid

text \<open>What an update does to the records of its namespace (\<open>g\<close> is a fresh identifier), and its answer.\<close>

fun catalog_spec :: "catalog_call \<Rightarrow> uuid \<Rightarrow> (uuid \<rightharpoonup> CatalogRecord) \<Rightarrow> (uuid \<rightharpoonup> CatalogRecord)" where
  "catalog_spec (Create name) g R = R(g \<mapsto> \<lparr>cr_resource = \<lparr>res_id = g, res_name = name\<rparr>, cr_deleted = False\<rparr>)"
| "catalog_spec (Select i) g R = (case R i of Some _ \<Rightarrow> R
    | None \<Rightarrow> R(i \<mapsto> \<lparr>cr_resource = \<lparr>res_id = i, res_name = None\<rparr>, cr_deleted = False\<rparr>))"
| "catalog_spec (Delete i) g R = (case R i of None \<Rightarrow> R | Some r \<Rightarrow> R(i \<mapsto> r\<lparr>cr_deleted := True\<rparr>))"
| "catalog_spec (Tombstone i) g R = (case R i of Some r \<Rightarrow> R(i \<mapsto> r\<lparr>cr_deleted := True\<rparr>)
    | None \<Rightarrow> R(i \<mapsto> \<lparr>cr_resource = \<lparr>res_id = i, res_name = None\<rparr>, cr_deleted = True\<rparr>))"

definition live :: "(uuid \<rightharpoonup> CatalogRecord) \<Rightarrow> uuid \<Rightarrow> bool" where
  "live R i = (\<exists>r. R i = Some r \<and> \<not> cr_deleted r)"

fun catalog_answer :: "catalog_call \<Rightarrow> (uuid \<rightharpoonup> CatalogRecord) \<Rightarrow> bool" where
  "catalog_answer (Create _) R = True"
| "catalog_answer (Select i) R = (R i = None \<or> live R i)"
| "catalog_answer (Delete i) R = live R i"
| "catalog_answer (Tombstone _) R = True"

fun run_catalog :: "('x, 'd, 'r, 'k) engine \<Rightarrow> string \<Rightarrow> StorageNamespace \<Rightarrow> catalog_call \<Rightarrow> ('x, 'd, 'k, uuid \<times> bool) call" where
  "run_catalog E root ns (Create name) = await (catalog_create E root ns name) (\<lambda>r. ok (res_id r, True))"
| "run_catalog E root ns (Select i) = await (catalog_register_selected E root ns i) (\<lambda>b. ok (i, b))"
| "run_catalog E root ns (Delete i) = await (catalog_delete E root ns i) (\<lambda>b. ok (i, b))"
| "run_catalog E root ns (Tombstone i) = await (catalog_apply_tombstone E root ns i) (\<lambda>_. ok (i, True))"

definition catalog_result :: "('x, 'd, 'r, 'k) engine \<Rightarrow> string \<Rightarrow> StorageNamespace \<Rightarrow> catalog_call \<Rightarrow> (string \<rightharpoonup> byte list)
    \<Rightarrow> uuid \<Rightarrow> (string \<rightharpoonup> byte list) \<Rightarrow> bool" where
  "catalog_result E root ns call F g F' = (\<exists>R. records E root F ns = Some R \<and> (\<forall>name. call = Create name \<longrightarrow> g \<in> generated E)
    \<and> records E root F' = (records E root F)(ns := Some (catalog_spec call g R)))"

definition catalog_failure :: "('x, 'd, 'r, 'k) engine \<Rightarrow> string \<Rightarrow> StorageNamespace \<Rightarrow> catalog_call \<Rightarrow> (string \<rightharpoonup> byte list)
    \<Rightarrow> (string \<rightharpoonup> byte list) \<Rightarrow> bool" where
  "catalog_failure E root ns call F F' = (records E root F' = records E root F \<or> (\<exists>g. catalog_result E root ns call F g F'))"

lemma wp_write_result:
  assumes "engine_laws E" "catalog_path E root ns = Inr path" "files M' = files M"
    and "records E root (files M) ns = Some (bt_get (cat_records c))" "i = g \<or> \<not> (\<exists>name. call = Create name)"
    and "catalog_spec call g (bt_get (cat_records c)) = (bt_get (cat_records c))(i \<mapsto> r)" "\<forall>name. call = Create name \<longrightarrow> g \<in> generated E"
    and "\<And>M''. catalog_result E root ns call (files M) g (files M'') \<Longrightarrow> Q () M''"
    and "\<And>e M''. catalog_failure E root ns call (files M) (files M'') \<Longrightarrow> X e M''"
  shows "wp (write_catalog E path (set_record i r c)) Q X M'"
proof -
  have spec: "bt_get (cat_records (set_record i r c)) = catalog_spec call g (bt_get (cat_records c))"
    using assms(6) by (simp add: set_record_def)
  show ?thesis
    by (rule wp_conseq [OF wp_write_catalog [OF assms(1,2)]])
      (use assms(3,4,7,8,9) spec in \<open>auto simp: catalog_result_def catalog_failure_def\<close>)
qed

lemma deleted_again: "cr_deleted r \<Longrightarrow> r\<lparr>cr_deleted := True\<rparr> = r" for r :: CatalogRecord
  by (cases r) simp

lemma catalog_kept:
  "files M' = files M \<Longrightarrow> records E root (files M) ns = Some R \<Longrightarrow> catalog_spec call g R = R \<Longrightarrow> \<forall>name. call \<noteq> Create name
    \<Longrightarrow> catalog_result E root ns call (files M) g (files M')"
  by (auto simp: catalog_result_def fun_upd_idem)

lemma catalog_failed: "files M' = files M \<Longrightarrow> catalog_failure E root ns call (files M) (files M')"
  by (simp add: catalog_failure_def)

lemma wp_catalog_create:
  assumes laws: "engine_laws E"
    and "\<And>g M'. catalog_result E root ns (Create name) (files M) g (files M') \<Longrightarrow> Q \<lparr>res_id = g, res_name = name\<rparr> M'"
    and "\<And>e M'. catalog_failure E root ns (Create name) (files M) (files M') \<Longrightarrow> X e M'"
  shows "wp (catalog_create E root ns name) Q X M"
  unfolding catalog_create_def Let_def
proof (rule wp_with_catalog [OF laws], goal_cases)
  case (1 path c M')
  show ?case
    unfolding wp_await
    by (rule wp_new_id, rule wp_write_result [OF laws 1(1), where call = "Create name" and M = M]) (use 1 assms(2,3) in \<open>auto simp: wp_simps\<close>)
qed (rule assms(3), rule catalog_failed)

lemma wp_catalog_register_selected:
  assumes laws: "engine_laws E"
    and "\<And>g R M'. catalog_result E root ns (Select i) (files M) g (files M') \<Longrightarrow> records E root (files M) ns = Some R
      \<Longrightarrow> Q (R i = None \<or> live R i) M'"
    and "\<And>e M'. catalog_failure E root ns (Select i) (files M) (files M') \<Longrightarrow> X e M'"
  shows "wp (catalog_register_selected E root ns i) Q X M"
  unfolding catalog_register_selected_def
proof (rule wp_with_catalog [OF laws], goal_cases)
  case (1 path c M')
  show ?case
  proof (cases "bt_get (cat_records c) i")
    case None
    with assms(2) [OF _ 1(3)] have written: "catalog_result E root ns (Select i) (files M) i (files M'') \<Longrightarrow> Q True M''" for M'' by auto
    show ?thesis
      unfolding None option.case wp_await
      by (rule wp_write_result [OF laws 1(1), where call = "Select i" and M = M and g = i]) (use 1 None assms(3) written in \<open>auto simp: wp_simps\<close>)
  next
    case (Some r)
    with assms(2) [OF catalog_kept [OF 1(2,3), of "Select i"] 1(3)] show ?thesis by (simp add: wp_simps live_def)
  qed
qed (rule assms(3), rule catalog_failed)

lemma wp_catalog_delete:
  assumes laws: "engine_laws E"
    and "\<And>g R M'. catalog_result E root ns (Delete i) (files M) g (files M') \<Longrightarrow> records E root (files M) ns = Some R
      \<Longrightarrow> Q (live R i) M'"
    and "\<And>e M'. catalog_failure E root ns (Delete i) (files M) (files M') \<Longrightarrow> X e M'"
  shows "wp (catalog_delete E root ns i) Q X M"
  unfolding catalog_delete_def
proof (rule wp_with_catalog [OF laws], goal_cases)
  case (1 path c M')
  let ?R = "bt_get (cat_records c)"
  show ?case
  proof (cases "live ?R i")
    case True
    then obtain r where r: "?R i = Some r" "\<not> cr_deleted r" by (auto simp: live_def)
    with assms(2) [OF _ 1(3)] True have written: "catalog_result E root ns (Delete i) (files M) i (files M'') \<Longrightarrow> Q True M''" for M'' by auto
    show ?thesis
      unfolding r(1) option.case if_not_P [OF r(2)] wp_await
      by (rule wp_write_result [OF laws 1(1), where call = "Delete i" and M = M and g = i]) (use 1 r assms(3) written in \<open>auto simp: wp_simps\<close>)
  next
    case False
    then have "catalog_spec (Delete i) i ?R = ?R"
      by (auto simp: live_def deleted_again fun_upd_idem split: option.split)
    with assms(2) [OF catalog_kept [OF 1(2,3)] 1(3)] False show ?thesis
      by (auto simp: wp_simps live_def split: option.split)
  qed
qed (rule assms(3), rule catalog_failed)

lemma wp_catalog_apply_tombstone:
  assumes laws: "engine_laws E"
    and "\<And>g M'. catalog_result E root ns (Tombstone i) (files M) g (files M') \<Longrightarrow> Q () M'"
    and "\<And>e M'. catalog_failure E root ns (Tombstone i) (files M) (files M') \<Longrightarrow> X e M'"
  shows "wp (catalog_apply_tombstone E root ns i) Q X M"
  unfolding catalog_apply_tombstone_def Let_def
proof (rule wp_with_catalog [OF laws], goal_cases)
  case (1 path c M')
  let ?R = "bt_get (cat_records c)"
  show ?case
  proof (cases "case ?R i of None \<Rightarrow> False | Some r \<Rightarrow> cr_deleted r")
    case True
    then have "catalog_spec (Tombstone i) i ?R = ?R"
      by (auto simp: deleted_again fun_upd_idem split: option.splits)
    with assms(2) [OF catalog_kept [OF 1(2,3)]] show ?thesis unfolding if_P [OF True] by (simp add: wp_simps)
  next
    case False
    show ?thesis
      unfolding if_not_P [OF False] wp_await
      by (rule wp_write_result [OF laws 1(1), where call = "Tombstone i" and M = M and g = i])
        (use 1 assms(2,3) in \<open>auto simp: wp_simps split: option.split\<close>)
  qed
qed (rule assms(3), rule catalog_failed)

lemma wp_run_catalog:
  assumes laws: "engine_laws E"
  shows "wp (run_catalog E root ns call)
    (\<lambda>(g, b) M'. catalog_result E root ns call (files M) g (files M')
      \<and> (\<exists>R. records E root (files M) ns = Some R \<and> b = catalog_answer call R))
    (\<lambda>_ M'. catalog_failure E root ns call (files M) (files M')) M"
proof (cases call)
  case (Create name)
  show ?thesis unfolding Create run_catalog.simps wp_await
    by (rule wp_catalog_create [OF laws]) (auto simp: wp_simps catalog_result_def)
next
  case (Select i)
  show ?thesis unfolding Select run_catalog.simps wp_await
    by (rule wp_catalog_register_selected [OF laws]) (auto simp: wp_simps catalog_result_def)
next
  case (Delete i)
  show ?thesis unfolding Delete run_catalog.simps wp_await
    by (rule wp_catalog_delete [OF laws]) (auto simp: wp_simps catalog_result_def)
next
  case (Tombstone i)
  show ?thesis unfolding Tombstone run_catalog.simps wp_await
    by (rule wp_catalog_apply_tombstone [OF laws]) (auto simp: wp_simps catalog_result_def)
qed

section \<open>Deleted databases\<close>

definition tombstone :: "('x, 'd, 'r, 'k) engine \<Rightarrow> string \<Rightarrow> StorageNamespace \<Rightarrow> uuid \<Rightarrow> (string \<rightharpoonup> byte list) \<Rightarrow> bool" where
  "tombstone E root ns i F = (\<exists>R r. records E root F ns = Some R \<and> R i = Some r \<and> cr_deleted r)"

lemma result_tombstone:
  assumes "tombstone E root ns i F" "catalog_result E root ns' call F g F'" "i \<notin> generated E"
  shows "tombstone E root ns i F'"
proof -
  have "\<exists>r'. catalog_spec call g R i = Some r' \<and> cr_deleted r'" if "R i = Some r" "cr_deleted r" "\<forall>name. call = Create name \<longrightarrow> g \<noteq> i" for R r
    using that by (cases call) (auto split: option.split)
  with assms show ?thesis
    unfolding tombstone_def catalog_result_def by (cases "ns' = ns") fastforce+
qed

lemma failure_tombstone:
  "tombstone E root ns i F \<Longrightarrow> catalog_failure E root ns' call F F' \<Longrightarrow> i \<notin> generated E \<Longrightarrow> tombstone E root ns i F'"
  unfolding catalog_failure_def using result_tombstone by (fastforce simp: tombstone_def)

lemmas tombstone_intros = result_tombstone failure_tombstone

lemma keeps_files: "(\<And>M r M'. m M = (r, M') \<Longrightarrow> files M' = files M) \<Longrightarrow> keeps (\<lambda>M. P (files M)) m"
  by (auto simp: keeps_def)

lemma keeps_files_calls [keeps_intros]:
  "keeps (\<lambda>M. P (files M)) (lock_guard l message)" "keeps (\<lambda>M. P (files M)) (in_outside m)"
  "keeps (\<lambda>M. P (files M)) (insert_open key d)" "keeps (\<lambda>M. P (files M)) (insert_kv key k)"
  "keeps (\<lambda>M. P (files M)) (effect (\<lambda>M. (f M, M)))"
  by (rule keeps_files; auto simp: lock_guard_def in_outside_def insert_open_def insert_kv_def effect_def
      split: if_splits prod.splits)+

lemma keeps_evict [keeps_intros]: "keeps (\<lambda>M. P (files M)) (evict ns i)"
  unfolding evict_def kv_guard_def
  by (intro keeps_intros; rule keeps_files) auto

lemma keeps_plain_call [keeps_intros]: "keeps (\<lambda>M. P (files M)) plain_call"
  by (rule keeps_wp) (auto intro!: wp_plain_call)

lemma keeps_catalog_reads [keeps_intros]:
  "keeps (\<lambda>M. P (files M)) (read_catalog E path)"
  by (rule keeps_wp) (auto intro!: wp_read_catalog)

lemma keeps_catalog_calls:
  assumes "engine_laws E" "i \<notin> generated E"
  shows "keeps (\<lambda>M. tombstone E root ns i (files M)) (catalog_create E root ns' name)"
    and "keeps (\<lambda>M. tombstone E root ns i (files M)) (catalog_register_selected E root ns' j)"
    and "keeps (\<lambda>M. tombstone E root ns i (files M)) (catalog_delete E root ns' j)"
    and "keeps (\<lambda>M. tombstone E root ns i (files M)) (catalog_apply_tombstone E root ns' j)"
  by (rule keeps_wp; rule wp_catalog_create wp_catalog_register_selected wp_catalog_delete wp_catalog_apply_tombstone;
      use assms tombstone_intros in blast)+

datatype runtime_call = RNew | RCreate StorageNamespace "string option" | RList StorageNamespace | RGet StorageNamespace uuid
  | RDelete StorageNamespace uuid | RTombstone StorageNamespace uuid | RIsTombstoned StorageNamespace uuid
  | ROpen StorageNamespace uuid | ROpenSelected StorageNamespace uuid | ROpenKv StorageNamespace uuid

text \<open>One call, whatever it returns.\<close>

fun run_runtime :: "('x, 'd, 'r, 'k) engine \<Rightarrow> string \<Rightarrow> runtime_call \<Rightarrow> ('x, 'd, 'k) machine \<Rightarrow> ('x, 'd, 'k) machine" where
  "run_runtime E root RNew M = snd (runtime_new M)"
| "run_runtime E root (RCreate ns name) M = snd (runtime_create E root ns name M)"
| "run_runtime E root (RList ns) M = snd (catalog_list E root ns M)"
| "run_runtime E root (RGet ns i) M = snd (catalog_get E root ns i M)"
| "run_runtime E root (RDelete ns i) M = snd (runtime_delete E root ns i M)"
| "run_runtime E root (RTombstone ns i) M = snd (runtime_apply_tombstone E root ns i M)"
| "run_runtime E root (RIsTombstoned ns i) M = snd (catalog_is_tombstoned E root ns i M)"
| "run_runtime E root (ROpen ns i) M = snd (runtime_open E root ns i M)"
| "run_runtime E root (ROpenSelected ns i) M = snd (runtime_open_selected E root ns i M)"
| "run_runtime E root (ROpenKv ns i) M = snd (runtime_open_kv_selected E root ns i M)"

lemma keeps_runtime_calls:
  assumes "engine_laws E" "i \<notin> generated E"
  shows "keeps (\<lambda>M. tombstone E root ns i (files M)) runtime_new"
    and "keeps (\<lambda>M. tombstone E root ns i (files M)) (runtime_create E root ns' name)"
    and "keeps (\<lambda>M. tombstone E root ns i (files M)) (catalog_list E root ns')"
    and "keeps (\<lambda>M. tombstone E root ns i (files M)) (catalog_get E root ns' j)"
    and "keeps (\<lambda>M. tombstone E root ns i (files M)) (runtime_delete E root ns' j)"
    and "keeps (\<lambda>M. tombstone E root ns i (files M)) (runtime_apply_tombstone E root ns' j)"
    and "keeps (\<lambda>M. tombstone E root ns i (files M)) (catalog_is_tombstoned E root ns' j)"
    and "keeps (\<lambda>M. tombstone E root ns i (files M)) (open_at E root ns' j)"
    and "keeps (\<lambda>M. tombstone E root ns i (files M)) (runtime_open E root ns' j)"
    and "keeps (\<lambda>M. tombstone E root ns i (files M)) (runtime_open_selected E root ns' j)"
    and "keeps (\<lambda>M. tombstone E root ns i (files M)) (runtime_open_kv_selected E root ns' j)"
  unfolding runtime_new_def runtime_create_def catalog_list_def catalog_get_def runtime_delete_def runtime_apply_tombstone_def
    catalog_is_tombstoned_def open_at_def runtime_open_def runtime_open_selected_def runtime_open_kv_selected_def
    open_guard_def kv_guard_def catalog_guard_def Let_def
  by (intro keeps_intros keeps_catalog_calls assms; rule keeps_files; auto)+

lemma keeps_run_runtime:
  assumes "engine_laws E" "i \<notin> generated E" "tombstone E root ns i (files M)"
  shows "tombstone E root ns i (files (run_runtime E root call M))"
  using keeps_runtime_calls [OF assms(1,2), of root ns] assms(3)
  by (cases call) (auto simp: keeps_def prod_eq_iff)

lemma keeps_run_runtimes:
  assumes "engine_laws E" "i \<notin> generated E" "tombstone E root ns i (files M)"
  shows "tombstone E root ns i (files (fold (run_runtime E root) calls M))"
  using assms(3) by (induction calls arbitrary: M) (simp_all add: keeps_run_runtime [OF assms(1,2)])

text \<open>Every way to delete a database leaves a tombstone, and every way to open one respects it.\<close>

lemma result_dead:
  assumes "catalog_result E root ns call F g F'" "call = Delete i \<and> (\<forall>R. records E root F ns = Some R \<longrightarrow> live R i) \<or> call = Tombstone i"
  shows "tombstone E root ns i F'"
proof -
  from assms(1) obtain R where R: "records E root F ns = Some R" "records E root F' ns = Some (catalog_spec call g R)"
    by (auto simp: catalog_result_def)
  with assms(2) have "\<exists>r. catalog_spec call g R i = Some r \<and> cr_deleted r"
    by (auto simp: live_def split: option.split)
  with R(2) show ?thesis unfolding tombstone_def by blast
qed

lemma wp_evict:
  assumes "tombstone E root ns i (files M)"
  shows "wp (evict ns' j) (\<lambda>_ M'. tombstone E root ns i (files M')) (\<lambda>_ _. True) M"
proof -
  have "wp (evict ns' j) (\<lambda>_ M'. tombstone E root ns i (files M')) (\<lambda>_ M'. tombstone E root ns i (files M')) M"
    by (rule wp_keeps [where I = "\<lambda>M. tombstone E root ns i (files M)", OF keeps_evict assms])
  then show ?thesis by (rule wp_conseq) simp_all
qed

lemma wp_runtime_delete:
  assumes laws: "engine_laws E"
  shows "wp (runtime_delete E root ns i) (\<lambda>b M'. b \<longrightarrow> tombstone E root ns i (files M')) (\<lambda>_ _. True) M"
  unfolding runtime_delete_def open_guard_def wp_await_fun
  by (rule wp_lock_guard; (rule wp_catalog_delete [OF laws])?)
    (auto simp: wp_simps wp_ok_fun intro!: wp_evict elim!: result_dead)

lemma wp_runtime_apply_tombstone:
  assumes laws: "engine_laws E"
  shows "wp (runtime_apply_tombstone E root ns i) (\<lambda>_ M'. tombstone E root ns i (files M')) (\<lambda>_ _. True) M"
  unfolding runtime_apply_tombstone_def open_guard_def wp_await_fun
  by (rule wp_lock_guard; (rule wp_catalog_apply_tombstone [OF laws])?) (auto intro!: wp_evict elim!: result_dead)

lemma wp_catalog_get:
  assumes laws: "engine_laws E"
    and "\<And>R M'. records E root (files M) ns = Some R \<Longrightarrow> files M' = files M
      \<Longrightarrow> Q (case R i of None \<Rightarrow> None | Some r \<Rightarrow> if cr_deleted r then None else Some (cr_resource r)) M'"
    and "\<And>e M'. X e M'"
  shows "wp (catalog_get E root ns i) Q X M"
  unfolding catalog_get_def by (rule wp_with_catalog [OF laws]) (use assms(2,3) in \<open>auto simp: wp_simps\<close>)

lemma wp_catalog_is_tombstoned:
  assumes laws: "engine_laws E"
  shows "wp (catalog_is_tombstoned E root ns i) (\<lambda>b M'. b = tombstone E root ns i (files M) \<and> files M' = files M) (\<lambda>_ _. True) M"
  unfolding catalog_is_tombstoned_def
  by (rule wp_with_catalog [OF laws]) (auto simp: wp_simps tombstone_def split: option.split)

lemma tombstone_refuses:
  assumes laws: "engine_laws E" and dead: "tombstone E root ns i (files M)"
  shows "wp (catalog_get E root ns i) (\<lambda>r _. r = None) (\<lambda>_ _. True) M"
    and "wp (runtime_open E root ns i) (\<lambda>r _. r = None) (\<lambda>_ _. True) M"
    and "wp (runtime_open_selected E root ns i) (\<lambda>r _. r = None) (\<lambda>_ _. True) M"
    and "wp (runtime_open_kv_selected E root ns i) (\<lambda>r _. r = None) (\<lambda>_ _. True) M"
proof -
  from dead obtain R r where R: "records E root (files M) ns = Some R" "R i = Some r" "cr_deleted r"
    by (auto simp: tombstone_def)
  show "wp (catalog_get E root ns i) (\<lambda>r _. r = None) (\<lambda>_ _. True) M"
    by (rule wp_catalog_get [OF laws]) (use R in auto)
  show "wp (runtime_open E root ns i) (\<lambda>r _. r = None) (\<lambda>_ _. True) M"
    unfolding runtime_open_def open_guard_def wp_await_fun
    by (rule wp_lock_guard; (rule wp_catalog_get [OF laws])?) (use R in \<open>auto simp: wp_simps\<close>)
  show "wp (runtime_open_selected E root ns i) (\<lambda>r _. r = None) (\<lambda>_ _. True) M"
    unfolding runtime_open_selected_def open_guard_def wp_await_fun
    by (rule wp_lock_guard; (rule wp_catalog_register_selected [OF laws])?) (use R in \<open>auto simp: wp_simps live_def\<close>)
  show "wp (runtime_open_kv_selected E root ns i) (\<lambda>r _. r = None) (\<lambda>_ _. True) M"
    unfolding runtime_open_kv_selected_def kv_guard_def wp_await_fun
    by (rule wp_lock_guard; (rule wp_catalog_register_selected [OF laws])?) (use R in \<open>auto simp: wp_simps live_def\<close>)
qed

section \<open>An example\<close>

text \<open>An engine that knows one database, and whose catalog has three states: empty, with the database, with its tombstone.\<close>

definition ex_record :: "bool \<Rightarrow> CatalogRecord" where
  "ex_record deleted = \<lparr>cr_resource = \<lparr>res_id = 7, res_name = None\<rparr>, cr_deleted = deleted\<rparr>"

definition ex_catalog :: "bool \<Rightarrow> Catalog" where
  "ex_catalog deleted = \<lparr>cat_records = [(7, ex_record deleted)]\<rparr>"

definition ex_engine :: "(uuid, string, string, string) engine" where
  "ex_engine = \<lparr>new_id = (\<lambda>x. (if x = 7 then 8 else x, x + 1)), id_text = (\<lambda>i. decimal (unat i)), parse_id = (\<lambda>_. None),
    catalog_to_json = (\<lambda>c. if c = \<lparr>cat_records = []\<rparr> then Inr [0] else if c = ex_catalog False then Inr [1]
      else if c = ex_catalog True then Inr [2] else Inl ''too large''),
    catalog_from_json = (\<lambda>bytes. if bytes = [0] then Inr \<lparr>cat_records = []\<rparr> else if bytes = [1] then Inr (ex_catalog False)
      else if bytes = [2] then Inr (ex_catalog True) else Inl ''unexpected byte''),
    open_engine = (\<lambda>path. ok path), redb_exists = (\<lambda>path x. (False, x)), redb_create = (\<lambda>path. ok path),
    redb_open = (\<lambda>path. ok path), redb_create_table = (\<lambda>_ _. ok ()), kv_store = (\<lambda>r _. r)\<rparr>"

definition ex_scope :: StorageNamespace where
  "ex_scope = \<lparr>ns_user_sub = ''alice'', ns_application_id = 5\<rparr>"

text \<open>The tombstone of the database is recorded; the fourth system call from now will fail.\<close>

definition ex_machine :: "(uuid, string, string) machine" where
  "ex_machine = \<lparr>files = [path_join (namespace_dir ''databases'' (\<lambda>i. decimal (unat i)) ''data'' ex_scope) ''catalog.json'' \<mapsto> [2]],
    outcomes = [None, None, None, Some (''disk full'', 1)], poisoned = (\<lambda>_. False), open_dbs = Map.empty, kv_open = Map.empty,
    outside = 100\<rparr>"

lemma ex_laws: "engine_laws ex_engine" "7 \<notin> generated ex_engine"
proof -
  have "\<lparr>cat_records = []\<rparr> \<noteq> ex_catalog b" "ex_catalog False \<noteq> ex_catalog True" for b
    by (simp_all add: ex_catalog_def ex_record_def)
  then show "engine_laws ex_engine"
    unfolding engine_laws_def ex_engine_def using names_ids_decimal by simp
  show "7 \<notin> generated ex_engine" by (auto simp: generated_def ex_engine_def image_def)
qed

lemma ex_tombstoned: "catalog_is_tombstoned ex_engine ''data'' ex_scope 7 ex_machine
    = (Inr True, ex_machine\<lparr>outcomes := [None, None, Some (''disk full'', 1)]\<rparr>)"
proof -
  have "catalog_path ex_engine ''data'' ex_scope
      = Inr (path_join (namespace_dir ''databases'' (\<lambda>i. decimal (unat i)) ''data'' ex_scope) ''catalog.json'')"
    by (simp add: catalog_path_def ex_engine_def ex_scope_def subject_ok_def subject_byte_def)
  then show ?thesis
    by (simp add: catalog_is_tombstoned_def catalog_guard_def lock_guard_def await_def lift_def read_catalog_def attempt_op_def
        fs_read_def system_call_def effect_def outcome_def ex_machine_def ok_def ok_or_def result_map_err_def ex_engine_def
        ex_catalog_def ex_record_def bt_get_def)
qed

section \<open>Properties\<close>

text \<open>C20: An update of the catalog of databases (creation, registration of a selected database, deletion, import of a
  tombstone) is atomic and confined to its namespace, whichever system calls fail and however much a failing write has
  written: when it returns, its namespace holds exactly the updated records, its answer tells whether the database was there,
  and every other namespace is as it was; when it fails, its namespace holds the old records or the updated ones.\<close>

theorem catalog_update_atomic:
  assumes "engine_laws E"
  shows "case run_catalog E root ns call M of
      (Inr (g, b), M') \<Rightarrow> catalog_result E root ns call (files M) g (files M')
        \<and> (\<exists>R. records E root (files M) ns = Some R \<and> b = catalog_answer call R)
    | (Inl e, M') \<Rightarrow> records E root (files M') = records E root (files M)
        \<or> (\<exists>g. catalog_result E root ns call (files M) g (files M'))"
  using wp_run_catalog [OF assms, of root ns call M]
  by (auto simp: wp_def catalog_failure_def split: prod.splits sum.splits)

theorem catalog_update_atomic_witness:
  "engine_laws ex_engine \<and> (case run_catalog ex_engine ''data'' ex_scope (Select 7) ex_machine of
      (Inr (g, b), M') \<Rightarrow> catalog_result ex_engine ''data'' ex_scope (Select 7) (files ex_machine) g (files M')
        \<and> (\<exists>R. records ex_engine ''data'' (files ex_machine) ex_scope = Some R \<and> b = catalog_answer (Select 7) R)
    | (Inl e, M') \<Rightarrow> records ex_engine ''data'' (files M') = records ex_engine ''data'' (files ex_machine)
        \<or> (\<exists>g. catalog_result ex_engine ''data'' ex_scope (Select 7) (files ex_machine) g (files M')))"
  using catalog_update_atomic [OF ex_laws(1), where root = "''data''" and ns = ex_scope and call = "Select 7" and M = ex_machine] ex_laws(1) by blast



end
