(* ===== verification/Storage_Access.thy ===== *)
theory Storage_Access
  imports Storage_Server Database_Tombstones Token_Codec
begin

text \<open>
  What the storage server lets the bearer of a token do: its routes and its socket act only in the namespace of the user and
  the application of the token, and only as far as the token permits reading or writing.
\<close>

section \<open>What a token grants\<close>

text \<open>In the world \<open>x\<close> the identity provider answers for the token with current claims of an access token of a user, for a
  storage resource, and with one storage authorization: in the namespace \<open>ns\<close>, to read, to write, until \<open>expiry\<close>.\<close>

definition token_grants :: "'x storage_web \<Rightarrow> IdpClient \<Rightarrow> string \<Rightarrow> 'x \<Rightarrow> StorageNamespace \<Rightarrow> bool \<Rightarrow> bool \<Rightarrow> int \<Rightarrow> bool" where
  "token_grants W C token x ns can_read can_write expiry = (\<exists>response detail time x1 x2.
    client_introspect W C token x = (Inr response, x1) \<and> system_time (sw_web W) x1 = (time, x2)
    \<and> claim_type (is_claims response) = Bearer \<and> claim_use (is_claims response) = UseAccess
    \<and> claim_principal_type (is_claims response) = PrincipalUser \<and> clock_seconds time < claim_exp (is_claims response)
    \<and> claim_resource (is_claims response) = Some (claim_aud (is_claims response))
    \<and> claim_authorization_details (is_claims response) = Some [Storage detail]
    \<and> can_read = (StorageAuthorizationAction.Read \<in> set (detail_actions detail))
    \<and> can_write = (StorageAuthorizationAction.Write \<in> set (detail_actions detail))
    \<and> ns_user_sub ns = claim_sub (is_claims response)
    \<and> web_parse_uuid (sw_web W) (is_application_id response) = Some (ns_application_id ns)
    \<and> expiry = claim_exp (is_claims response))"

lemma authorize_storage_token_grants:
  assumes "authorize_storage_token W C token x = (Inr a, x')"
    and "web_parse_uuid (sw_web W) (sa_application_id a) = Some application_id"
  shows "token_grants W C token x \<lparr>ns_user_sub = sa_subject a, ns_application_id = application_id\<rparr>
    (sa_can_read a) (sa_can_write a) (sa_expires_at a)"
proof -
  from assms(1) obtain response x1 where
    introspected: "client_introspect W C token x = (Inr response, x1)" and checked: "storage_authorization W response x1 = (Inr a, x')"
    by (auto simp: authorize_storage_token_def returns)
  from checked obtain time x2 resource detail where
    now: "system_time (sw_web W) x1 = (time, x2)"
    and claims: "claim_type (is_claims response) = Bearer" "claim_use (is_claims response) = UseAccess"
      "claim_principal_type (is_claims response) = PrincipalUser" "clock_seconds time < claim_exp (is_claims response)"
      "claim_resource (is_claims response) = Some (claim_aud (is_claims response))"
      "claim_authorization_details (is_claims response) = Some [Storage detail]"
    and a: "a = \<lparr>sa_subject = claim_sub (is_claims response), sa_application_id = is_application_id response, sa_resource = resource,
      sa_expires_at = claim_exp (is_claims response), sa_can_read = StorageAuthorizationAction.Read \<in> set (detail_actions detail),
      sa_can_write = StorageAuthorizationAction.Write \<in> set (detail_actions detail)\<rparr>"
    by (auto simp: storage_authorization_def unix_time_seconds_def Let_def returns split: if_splits option.splits list.splits AuthorizationDetail.splits)
  from now introspected claims a assms(2) show ?thesis
    unfolding token_grants_def by (intro exI [of _ response] exI [of _ detail] exI [of _ time] exI [of _ x1] exI [of _ x2]) simp
qed

text \<open>The same of the token in the headers of a request that arrives in the state \<open>s\<close>.\<close>

definition header_grants :: "('x, 'd, 'r, 'k, 'c, 'f, 'p) StorageState \<Rightarrow> header_value \<Rightarrow> ('x, 'd, 'k, 'c, 'f) storage_world
    \<Rightarrow> StorageNamespace \<Rightarrow> bool \<Rightarrow> bool \<Rightarrow> bool" where
  "header_grants S headers s ns can_read can_write = (\<exists>token C expiry. bearer_token headers = Some token \<and> sst_idp_client S = Some C
    \<and> token_grants (sst_web S) C token (outside (fst s)) ns can_read can_write expiry)"

lemma in_net_returns: "in_net m s = (Inr a, s') \<Longrightarrow> \<exists>x'. m (outside (fst s)) = (Inr a, x')"
  by (auto simp: in_net_def in_databases_def in_outside_def split: prod.splits)

lemma token_namespace_grants:
  assumes "token_namespace S headers s = (Inr (ns, can_read, can_write), s')"
  shows "header_grants S headers s ns can_read can_write"
proof -
  from assms obtain a s1 where "in_net (authorization S headers) s = (Inr a, s1)"
    and ns: "namespace_of S a = Inr (ns, can_read, can_write)"
    by (auto simp: token_namespace_def returns)
  from in_net_returns [OF this(1)] obtain x' where "authorization S headers (outside (fst s)) = (Inr a, x')" by blast
  then obtain token C x2 where "bearer_token headers = Some token" "sst_idp_client S = Some C"
    and authorized: "authorize_storage_token (sst_web S) C token (outside (fst s)) = (Inr a, x2)"
    by (auto simp: authorization_def returns)
  moreover from ns obtain application_id where "web_parse_uuid (sw_web (sst_web S)) (sa_application_id a) = Some application_id"
    "ns = \<lparr>ns_user_sub = sa_subject a, ns_application_id = application_id\<rparr>" "can_read = sa_can_read a" "can_write = sa_can_write a"
    by (auto simp: namespace_of_def)
  ultimately show ?thesis
    unfolding header_grants_def using authorize_storage_token_grants [OF authorized] by blast
qed

section \<open>The routes\<close>

fun writes :: "resource_request \<Rightarrow> bool" where
  "writes (CreateDatabase _) = True"
| "writes (DeleteDatabase _) = True"
| "writes (CreateFileSystem _) = True"
| "writes (DeleteFileSystem _) = True"
| "writes _ = False"

lemmas resource_routes = create_database_def list_databases_def get_database_def delete_database_def create_file_system_def
  list_file_systems_def get_file_system_def delete_file_system_def

lemma route_granted:
  assumes "resource_router S headers request s = (Inr response, s')"
  shows "\<exists>ns can_read can_write. header_grants S headers s ns can_read can_write \<and> (if writes request then can_write else can_read)"
  using assms
  by (cases request) (auto simp: resource_routes returns split: prod.splits if_splits dest!: token_namespace_grants)

text \<open>An operation in one namespace leaves the records of the others.\<close>

lemma keeps_in_databases: "keeps I m \<Longrightarrow> keeps (\<lambda>s. I (fst s)) (in_databases m)"
  by (fastforce simp: keeps_def in_databases_def split: prod.splits)

lemma keeps_databases_tables [keeps_intros]: "keeps (\<lambda>s. P (snd s)) (in_databases m)"
  by (auto simp: keeps_def in_databases_def split: prod.splits)

lemma keeps_file_systems_files [keeps_intros]: "keeps (\<lambda>s. P (files (fst s))) (in_file_systems m)"
  by (auto simp: keeps_def in_file_systems_def split: prod.splits)

lemma keeps_in_file_systems: "keeps (\<lambda>s. I (fst s)) m \<Longrightarrow> keeps (\<lambda>s. I (snd s)) (in_file_systems m)"
  by (fastforce simp: keeps_def in_file_systems_def split: prod.splits)

lemma keeps_conj: "keeps I m \<Longrightarrow> keeps J m \<Longrightarrow> keeps (\<lambda>s. I s \<and> J s) m"
  by (auto simp: keeps_def)

lemma keeps_others:
  assumes "engine_laws E" "ns' \<noteq> ns"
  shows "keeps (\<lambda>M. records E root (files M) ns' = R) (catalog_create E root ns name)"
    and "keeps (\<lambda>M. records E root (files M) ns' = R) (catalog_delete E root ns i)"
  by (rule keeps_wp; rule wp_catalog_create wp_catalog_delete;
      use assms in \<open>auto simp: catalog_result_def catalog_failure_def\<close>)+

lemma keeps_runtime_others:
  assumes "engine_laws E" "ns' \<noteq> ns"
  shows "keeps (\<lambda>M. records E root (files M) ns' = R) (runtime_create E root ns name)"
    and "keeps (\<lambda>M. records E root (files M) ns' = R) (runtime_delete E root ns i)"
  unfolding runtime_create_def runtime_delete_def open_guard_def
  by (intro keeps_intros keeps_others assms)+

lemma keeps_runtime_reads:
  "keeps (\<lambda>M. P (files M)) (catalog_list E root ns)" "keeps (\<lambda>M. P (files M)) (catalog_get E root ns i)"
  unfolding catalog_list_def catalog_get_def catalog_guard_def by (intro keeps_intros)+

lemma keeps_catalog_resources [keeps_intros]: "keeps (\<lambda>s. P (rt_resources (fst s))) (catalog E root ns)"
  unfolding catalog_def
  by (intro keeps_intros) (auto simp: keeps_def in_tables_def)

lemma keeps_file_systems_others:
  "keeps (\<lambda>s. P (rt_resources (fst s))) (create_resource E root ns name)"
  "keeps (\<lambda>s. P (rt_resources (fst s))) (list_resources E root ns)"
  unfolding create_resource_def list_resources_def by (intro keeps_intros)+

lemma keeps_delete_resource:
  assumes "ns' \<noteq> ns"
  shows "keeps (\<lambda>s. P (\<lambda>i. rt_resources (fst s) (ns', i))) (delete_resource E root ns j)"
proof (cases "storage_namespace_id ns")
  case (Inl e)
  then have "delete_resource E root ns j = err e"
    by (simp add: delete_resource_def fun_eq_iff await_def lift_def err_def)
  then show ?thesis by (simp add: keeps_err)
next
  case (Inr n)
  then have n: "n = ns" by (auto simp: storage_namespace_id_def split: if_splits)
  have "keeps (\<lambda>s. P (\<lambda>i. rt_resources (fst s) (ns', i))) (remove_resource (ns, j))"
    using assms by (auto simp: keeps_def remove_resource_def in_tables_def)
  moreover have "keeps (\<lambda>s. P (\<lambda>i. rt_resources (fst s) (ns', i))) (catalog E root ns)"
    by (rule keeps_catalog_resources [where P = "\<lambda>f. P (\<lambda>i. f (ns', i))"])
  moreover have "keeps (\<lambda>s. P (\<lambda>i. rt_resources (fst s) (ns', i))) (in_crate m)" for m :: "('a, 'e, 'g) op"
    by (rule keeps_tables(1) [where P = "\<lambda>T. P (\<lambda>i. rt_resources T (ns', i))"])
  ultimately show ?thesis
    unfolding delete_resource_def Inr n lift_simps await_ok
    by (intro keeps_intros | split file_system_error.split, intro conjI allI impI)+
qed

text \<open>The state that a namespace has: its records, and its open file systems.\<close>

definition namespace_state :: "('x, 'd, 'r, 'k) engine \<Rightarrow> string \<Rightarrow> StorageNamespace \<Rightarrow> ('x, 'd, 'k, 'c, 'f) storage_world
    \<Rightarrow> (uuid \<rightharpoonup> CatalogRecord) option \<times> (uuid \<rightharpoonup> 'f)" where
  "namespace_state E root ns s = (records E root (files (fst s)) ns, \<lambda>i. rt_resources (snd s) (ns, i))"

lemma keeps_namespace_state:
  assumes "keeps (\<lambda>s. records E root (files (fst s)) ns = R) m" "keeps (\<lambda>s. (\<lambda>i. rt_resources (snd s) (ns, i)) = V) m"
  shows "keeps (\<lambda>s. namespace_state E root ns s = (R, V)) m"
  using keeps_conj [OF assms] by (simp add: namespace_state_def)

lemma keeps_net: "keeps (\<lambda>s. namespace_state E root ns s = v) (in_net m)"
  by (auto simp: keeps_def in_net_def in_databases_def in_outside_def namespace_state_def split: prod.splits)

lemma keeps_token_namespace: "keeps (\<lambda>s. namespace_state E root ns s = v) (token_namespace S headers)"
  unfolding token_namespace_def by (intro keeps_intros keeps_net)

text \<open>What a handler does once it knows the namespace of the token.\<close>

lemma keeps_database_op:
  assumes "keeps (\<lambda>M. records E root (files M) ns = fst v) m"
  shows "keeps (\<lambda>s. namespace_state E root ns s = v) (in_databases m)"
proof -
  have "keeps (\<lambda>s. namespace_state E root ns s = (fst v, snd v)) (in_databases m)"
    by (intro keeps_namespace_state keeps_in_databases [where I = "\<lambda>M. records E root (files M) ns = fst v"]
        keeps_databases_tables [where P = "\<lambda>T. (\<lambda>i. rt_resources T (ns, i)) = snd v"] assms)
  then show ?thesis by simp
qed

lemma keeps_file_system_op:
  assumes "keeps (\<lambda>s. (\<lambda>i. rt_resources (fst s) (ns, i)) = snd v) m"
  shows "keeps (\<lambda>s. namespace_state E root ns s = v) (in_file_systems m)"
proof -
  have "keeps (\<lambda>s. namespace_state E root ns s = (fst v, snd v)) (in_file_systems m)"
    by (intro keeps_namespace_state keeps_in_file_systems [where I = "\<lambda>T. (\<lambda>i. rt_resources T (ns, i)) = snd v"]
        keeps_file_systems_files [where P = "\<lambda>F. records E root F ns = fst v"] assms)
  then show ?thesis by simp
qed

lemma keeps_handlers:
  assumes "engine_laws E" "ns' \<noteq> ns"
  shows "keeps (\<lambda>s. namespace_state E root ns' s = v) (in_databases (runtime_create E root ns name))"
    and "keeps (\<lambda>s. namespace_state E root ns' s = v) (in_databases (runtime_delete E root ns i))"
    and "keeps (\<lambda>s. namespace_state E root ns' s = v) (in_file_systems (delete_resource E' root' ns i))"
  by (intro keeps_database_op keeps_file_system_op keeps_runtime_others assms
      keeps_delete_resource [where P = "\<lambda>f. f = snd v"] assms(2))+

lemma keeps_readers:
  "keeps (\<lambda>s. namespace_state E root ns' s = v) (in_databases (catalog_list E'' root'' ns))"
  "keeps (\<lambda>s. namespace_state E root ns' s = v) (in_databases (catalog_get E'' root'' ns i))"
  "keeps (\<lambda>s. namespace_state E root ns' s = v) (in_file_systems (create_resource E' root' ns name))"
  "keeps (\<lambda>s. namespace_state E root ns' s = v) (in_file_systems (list_resources E' root' ns))"
  by (intro keeps_database_op keeps_file_system_op
      keeps_runtime_reads [where P = "\<lambda>F. records E root F ns' = fst v"]
      keeps_file_systems_others [where P = "\<lambda>f. (\<lambda>i. f (ns', i)) = snd v"])+

definition confined :: "('x, 'd, 'r, 'k) engine \<Rightarrow> string \<Rightarrow> StorageNamespace \<Rightarrow> (('x, 'd, 'k, 'c, 'f) storage_world, 'e, 'a) op
    \<Rightarrow> ('x, 'd, 'k, 'c, 'f) storage_world \<Rightarrow> bool" where
  "confined E root ns m s = (namespace_state E root ns (snd (m s)) = namespace_state E root ns s)"

lemma confined_answer: "confined E root ns m s \<Longrightarrow> (\<And>a s'. snd (f a s') = s') \<Longrightarrow> confined E root ns (await m f) s"
  by (auto simp: confined_def await_def split: prod.splits sum.splits)

lemma confined_guarded:
  assumes "\<And>ns' can_read can_write. header_grants S headers s ns' can_read can_write
    \<Longrightarrow> keeps (\<lambda>s'. namespace_state E root ns s' = namespace_state E root ns s) (f (ns', can_read, can_write))"
  shows "confined E root ns (await (token_namespace S headers) f) s"
proof -
  have "wp (await (token_namespace S headers) f) (\<lambda>_ s'. namespace_state E root ns s' = namespace_state E root ns s)
      (\<lambda>_ s'. namespace_state E root ns s' = namespace_state E root ns s) s"
    unfolding wp_await
  proof (rule wp_keeps_returns [OF keeps_token_namespace [where v = "namespace_state E root ns s"] refl], goal_cases)
    case (1 a s')
    obtain ns' r w where a: "a = (ns', r, w)" by (cases a) auto
    from assms [OF token_namespace_grants [OF 1(1) [unfolded a]]] 1(2) show ?case
      unfolding a by (rule wp_keeps)
  qed
  then show ?thesis by (auto simp: confined_def wp_def split: prod.splits sum.splits)
qed

lemma keeps_unless: "(\<not> b \<Longrightarrow> keeps I m) \<Longrightarrow> keeps I (if b then err e else m)"
  by (simp add: keeps_err)

lemma handlers_confined:
  assumes "engine_laws E" "sst_databases S = Some (E, root)" and "\<And>can_read. \<not> header_grants S headers s ns can_read True"
  shows "confined E root ns (create_database S headers name) s" "confined E root ns (list_databases S headers) s"
    "confined E root ns (get_database S headers i) s" "confined E root ns (delete_database S headers i) s"
    "confined E root ns (create_file_system S headers name) s" "confined E root ns (list_file_systems S headers) s"
    "confined E root ns (get_file_system S headers j) s" "confined E root ns (delete_file_system S headers j) s"
proof -
  have other: "ns \<noteq> ns'" if "header_grants S headers s ns' can_read w" "w" for ns' can_read w
    using that assms(3) by auto
  show "confined E root ns (create_database S headers name) s" "confined E root ns (list_databases S headers) s"
    "confined E root ns (get_database S headers i) s" "confined E root ns (delete_database S headers i) s"
    "confined E root ns (create_file_system S headers name) s" "confined E root ns (list_file_systems S headers) s"
    "confined E root ns (get_file_system S headers j) s" "confined E root ns (delete_file_system S headers j) s"
    unfolding resource_routes assms(2) ok_or_simps lift_simps await_ok
    by (rule confined_guarded, simp only: prod.case, rule keeps_unless,
      intro keeps_intros keeps_handlers keeps_readers assms(1) other, (assumption, simp)?)+
qed

lemma route_confined:
  assumes "engine_laws E" "sst_databases S = Some (E, root)" and "\<And>can_read. \<not> header_grants S headers s ns can_read True"
  shows "confined E root ns (resource_router S headers request) s"
  by (cases request) (simp_all, auto intro!: confined_answer handlers_confined [OF assms] simp: ok_def split: prod.split)

text \<open>What the routes show of a catalog: its live records.\<close>

definition live_resources :: "Catalog \<Rightarrow> DatabaseResource list" where
  "live_resources c = map cr_resource (filter (\<lambda>record. \<not> cr_deleted record) (map snd (cat_records c)))"

fun shows_catalog :: "resource_request \<Rightarrow> resource_response \<Rightarrow> Catalog \<Rightarrow> bool" where
  "shows_catalog ListDatabases response c = (response = Databases (live_resources c))"
| "shows_catalog (GetDatabase i) response c = (\<exists>record application_id. response = DatabaseDetail (cr_resource record, application_id)
    \<and> bt_get (cat_records c) i = Some record \<and> \<not> cr_deleted record)"
| "shows_catalog _ response c = True"

lemma wp_catalog_list:
  assumes "engine_laws E"
  shows "wp (catalog_list E root ns) (\<lambda>rs M'. \<exists>c. records E root (files M) ns = Some (bt_get (cat_records c)) \<and> rs = live_resources c)
    (\<lambda>_ _. True) M"
  unfolding catalog_list_def by (rule wp_with_catalog [OF assms]) (auto simp: wp_simps live_resources_def)

lemma in_databases_returns: "in_databases m s = (Inr a, s') \<Longrightarrow> \<exists>M'. m (fst s) = (Inr a, M')"
  by (auto simp: in_databases_def split: prod.splits)

lemma token_namespace_files: "token_namespace S headers s = (r, s') \<Longrightarrow> files (fst s') = files (fst s)"
  by (auto simp: token_namespace_def in_net_def in_databases_def in_outside_def await_def lift_def split: prod.splits sum.splits)

lemma list_databases_shows:
  assumes "engine_laws E" "sst_databases S = Some (E, root)" "list_databases S headers s = (Inr rs, s')"
  shows "\<exists>ns can_write c. header_grants S headers s ns True can_write
    \<and> records E root (files (fst s)) ns = Some (bt_get (cat_records c)) \<and> rs = live_resources c"
proof -
  from assms(2,3) obtain ns w s1 where t: "token_namespace S headers s = (Inr (ns, True, w), s1)"
    and l: "in_databases (catalog_list E root ns) s1 = (Inr rs, s')"
    by (auto simp: list_databases_def returns split: if_splits)
  from in_databases_returns [OF l] obtain M' where "catalog_list E root ns (fst s1) = (Inr rs, M')" by blast
  from wp_run [OF wp_catalog_list [OF assms(1)] this] token_namespace_grants [OF t] token_namespace_files [OF t]
  show ?thesis by auto
qed

lemma get_database_shows:
  assumes "engine_laws E" "sst_databases S = Some (E, root)" "get_database S headers i s = (Inr (r, t), s')"
  shows "\<exists>ns can_write (c :: Catalog) record. header_grants S headers s ns True can_write
    \<and> records E root (files (fst s)) ns = Some (bt_get (cat_records c))
    \<and> bt_get (cat_records c) i = Some record \<and> r = cr_resource record \<and> \<not> cr_deleted record"
proof -
  from assms(2,3) obtain ns w s1 where t: "token_namespace S headers s = (Inr (ns, True, w), s1)"
    and g: "in_databases (catalog_get E root ns i) s1 = (Inr (Some r), s')"
    by (auto simp: get_database_def returns split: if_splits)
  have "wp (catalog_get E root ns i) (\<lambda>a M'. a = Some r \<longrightarrow> (\<exists>(c :: Catalog) record. records E root (files (fst s1)) ns = Some (bt_get (cat_records c))
      \<and> bt_get (cat_records c) i = Some record \<and> r = cr_resource record \<and> \<not> cr_deleted record)) (\<lambda>_ _. True) (fst s1)"
    unfolding catalog_get_def
  proof (rule wp_with_catalog [OF assms(1)], goal_cases)
    case (1 path c M')
    then show ?case by (cases "bt_get (cat_records c) i") (auto simp: wp_simps intro!: exI [of _ c])
  qed simp
  moreover from in_databases_returns [OF g] obtain M' where "catalog_get E root ns i (fst s1) = (Inr (Some r), M')" by blast
  ultimately show ?thesis
    using wp_run token_namespace_grants [OF t] token_namespace_files [OF t] by fastforce
qed

lemma route_shows:
  assumes "engine_laws E" "sst_databases S = Some (E, root)" "resource_router S headers request s = (Inr response, s')"
  shows "\<exists>ns can_read can_write c. header_grants S headers s ns can_read can_write \<and> (if writes request then can_write else can_read)
    \<and> (request \<in> {ListDatabases} \<union> range GetDatabase \<longrightarrow> records E root (files (fst s)) ns = Some (bt_get (cat_records c)))
    \<and> shows_catalog request response c"
proof (cases request)
  case ListDatabases
  with assms(3) obtain rs where rs: "list_databases S headers s = (Inr rs, s')" "response = Databases rs"
    by (auto simp: returns)
  from list_databases_shows [OF assms(1,2) rs(1)] obtain ns w c where
    "header_grants S headers s ns True w" "records E root (files (fst s)) ns = Some (bt_get (cat_records c))" "rs = live_resources c" by blast
  with ListDatabases rs(2) show ?thesis by - (rule exI [of _ ns], rule exI [of _ True], rule exI [of _ w], rule exI [of _ c], simp)
next
  case (GetDatabase i)
  with assms(3) obtain r t where r: "get_database S headers i s = (Inr (r, t), s')" "response = DatabaseDetail (r, t)"
    by (auto simp: returns)
  from get_database_shows [OF assms(1,2) r(1)] obtain ns w and c :: Catalog and entry where
    "header_grants S headers s ns True w" "records E root (files (fst s)) ns = Some (bt_get (cat_records c))"
    "bt_get (cat_records c) i = Some entry \<and> r = cr_resource entry \<and> \<not> cr_deleted entry" by blast
  with GetDatabase r(2) show ?thesis by - (rule exI [of _ ns], rule exI [of _ True], rule exI [of _ w], rule exI [of _ c], simp)
qed (use route_granted [OF assms(3)] in auto)

section \<open>The socket\<close>

text \<open>What an authorization of the socket that ran in the world \<open>x\<close> gives: the file system of that identifier of the user and
  the application of the token.\<close>

definition socket_access :: "('x, 'c, 'f, 'p) ScopedFileSystemSocketAuthorizer \<Rightarrow> string \<Rightarrow> string \<Rightarrow> 'x \<Rightarrow> 'f StorageSocketAccess \<Rightarrow> bool" where
  "socket_access A token resource_id x access = (\<exists>i ns. fs_parse_id (sfa_file_systems A) resource_id = Some i
    \<and> token_grants (sfa_web A) (sfa_idp_client A) token x ns (ssa_read access) (ssa_write access) (ssa_expires_at access)
    \<and> opened_fs (sfa_file_systems A) (sfa_root A) (sfa_local_peer A) ns i (ssa_session access))"

text \<open>In the world \<open>x\<close> the access has just been given, and the clock just showed that it has not expired.\<close>

definition authorized_now :: "('x, 'c, 'f, 'p) ScopedFileSystemSocketAuthorizer \<Rightarrow> string \<Rightarrow> string \<Rightarrow> 'f StorageSocketAccess \<Rightarrow> 'x \<Rightarrow> bool" where
  "authorized_now A token resource_id access x = (\<exists>T x0 T' x1 time. socket_authorize A token resource_id (T, x0) = (Inr access, (T', x1))
    \<and> socket_access A token resource_id x0 access \<and> system_time (sw_web (sfa_web A)) x1 = (time, x)
    \<and> clock_seconds time < ssa_expires_at access)"

lemma in_crate_returns: "in_crate m s = (Inr a, s') \<Longrightarrow> m (snd s) = (Inr a, snd s') \<and> fst s' = fst s"
  by (auto simp: in_crate_def split: prod.splits)

lemma socket_authorize_access:
  assumes "scoped (sfa_file_systems A) (sfa_root A) (sfa_local_peer A) (fst s)"
    and "socket_authorize A token resource_id s = (Inr access, s')"
  shows "socket_access A token resource_id (snd s) access"
proof -
  let ?E = "sfa_file_systems A"
  from assms(2) obtain i a s1 application_id f where i: "fs_parse_id ?E resource_id = Some i"
    and a: "in_crate (authorize_storage_token (sfa_web A) (sfa_idp_client A) token) s = (Inr a, s1)"
    and app: "web_parse_uuid (sw_web (sfa_web A)) (sa_application_id a) = Some application_id"
    and f: "open_resource ?E (sfa_root A) (sfa_local_peer A) \<lparr>ns_user_sub = sa_subject a, ns_application_id = application_id\<rparr> i s1
      = (Inr f, s')"
    and access: "access = \<lparr>ssa_read = sa_can_read a, ssa_write = sa_can_write a, ssa_expires_at = sa_expires_at a, ssa_session = f\<rparr>"
    by (auto simp: socket_authorize_def Let_def returns)
  from in_crate_returns [OF a] assms(1) authorize_storage_token_grants [OF _ app]
  have granted: "token_grants (sfa_web A) (sfa_idp_client A) token (snd s) \<lparr>ns_user_sub = sa_subject a, ns_application_id = application_id\<rparr>
      (sa_can_read a) (sa_can_write a) (sa_expires_at a)"
    and kept: "scoped ?E (sfa_root A) (sfa_local_peer A) (fst s1)" by auto
  from wp_run [OF wp_open_resource [OF kept] f] granted i access show ?thesis
    unfolding socket_access_def by auto
qed

lemma keeps_scoped_authorize:
  "keeps (\<lambda>s. scoped (sfa_file_systems A) (sfa_root A) (sfa_local_peer A) (fst s)) (socket_authorize A token resource_id)"
  unfolding socket_authorize_def Let_def by (intro keeps_intros keeps_open_resource)

text \<open>An invariant that the permitted requests keep, with the authorizations, the clock and the sending of answers.\<close>

definition permitted_invariant :: "('x, 'c, 'f, 'p) ScopedFileSystemSocketAuthorizer \<Rightarrow> 'x socket \<Rightarrow> string \<Rightarrow> string
    \<Rightarrow> ('x \<Rightarrow> bool) \<Rightarrow> bool" where
  "permitted_invariant A K token resource_id I = (
    keeps (\<lambda>s. I (snd s)) (socket_authorize A token resource_id)
    \<and> (\<forall>x. I x \<longrightarrow> I (snd (system_time (sw_web (sfa_web A)) x)))
    \<and> (\<forall>response. keeps I (send_response K response))
    \<and> (\<forall>access request x. authorized_now A token resource_id access x \<and> allows access request \<and> I x
        \<longrightarrow> I (snd (execute_session (sfa_file_systems A) (ssa_session access) request x :: (nat + StorageResponse) \<times> 'x))))"

definition socket_invariant :: "('x, 'c, 'f, 'p) ScopedFileSystemSocketAuthorizer \<Rightarrow> ('x \<Rightarrow> bool) \<Rightarrow> ('c, 'f) fs_tables \<times> 'x \<Rightarrow> bool" where
  "socket_invariant A I s = (scoped (sfa_file_systems A) (sfa_root A) (sfa_local_peer A) (fst s) \<and> I (snd s))"

lemma keeps_in_crate: "keeps I m \<Longrightarrow> keeps (socket_invariant A I) (in_crate m)"
  by (fastforce simp: keeps_def in_crate_def socket_invariant_def split: prod.splits)

text \<open>An operation keeps the invariant in one state.\<close>

definition safe :: "('s \<Rightarrow> bool) \<Rightarrow> ('s, 'e, 'a) op \<Rightarrow> 's \<Rightarrow> bool" where
  "safe J m s = J (snd (m s))"

lemma keeps_safe: "keeps J m \<Longrightarrow> J s \<Longrightarrow> safe J m s"
  by (cases "m s") (simp add: keeps_def safe_def)

lemma safe_keeps: "(\<And>s. J s \<Longrightarrow> safe J m s) \<Longrightarrow> keeps J m"
  by (force simp: keeps_def safe_def)

lemma safe_ok: "safe J (ok a) s = J s"
  by (simp add: safe_def ok_def)

lemma safe_await: "safe J m s \<Longrightarrow> (\<And>a s'. m s = (Inr a, s') \<Longrightarrow> J s' \<Longrightarrow> safe J (f a) s') \<Longrightarrow> safe J (await m f) s"
  by (auto simp: safe_def await_def split: prod.splits sum.splits)

lemma socket_time_returns: "in_crate (unix_time_seconds W) s = (Inr now, s') \<Longrightarrow>
    \<exists>time. system_time (sw_web W) (snd s) = (time, snd s') \<and> now = clock_seconds time"
  by (auto simp: in_crate_def unix_time_seconds_def returns split: prod.splits)

lemma safe_answer:
  fixes A :: "('x, 'c, 'f, 'p) ScopedFileSystemSocketAuthorizer"
  assumes "permitted_invariant A K token resource_id I" "authorized_now A token resource_id access (snd s)" "socket_invariant A I s"
  shows "safe (socket_invariant A I) (answer A K access message :: (_, nat, _) op) s"
proof -
  have "safe (socket_invariant A I) (in_crate (execute_session (sfa_file_systems A) (ssa_session access) request) :: (_, nat, _) op) s"
    if "allows access request" for request
  proof -
    from assms that have "I (snd (execute_session (sfa_file_systems A) (ssa_session access) request (snd s) :: (nat + StorageResponse) \<times> 'x))"
      by (auto simp: permitted_invariant_def socket_invariant_def)
    with assms(3) show ?thesis by (auto simp: safe_def in_crate_def socket_invariant_def split: prod.splits)
  qed
  with assms(3) show ?thesis by (auto simp: answer_def safe_ok split: sum.split)
qed

lemma keeps_socket_parts:
  fixes A :: "('x, 'c, 'f, 'p) ScopedFileSystemSocketAuthorizer"
  assumes "permitted_invariant A K token resource_id I"
  shows "keeps (socket_invariant A I) (in_crate (unix_time_seconds (sfa_web A)) :: (_, nat, int) op)"
    and "keeps (socket_invariant A I) (socket_authorize A token resource_id)"
    and "keeps (socket_invariant A I) (attempt_op (in_crate (send_response K response)) :: (_, nat, _) op)"
proof -
  show "keeps (socket_invariant A I) (in_crate (unix_time_seconds (sfa_web A)) :: (_, nat, int) op)"
    using assms unfolding unix_time_seconds_def permitted_invariant_def
    by (intro keeps_in_crate keeps_await keeps_ok) (auto simp: keeps_def effect_def split: prod.splits)
  show "keeps (socket_invariant A I) (socket_authorize A token resource_id)"
    using keeps_conj [OF keeps_scoped_authorize [of A token resource_id]] assms
    unfolding permitted_invariant_def socket_invariant_def [abs_def] by blast
  show "keeps (socket_invariant A I) (attempt_op (in_crate (send_response K response)) :: (_, nat, _) op)"
    using assms by (intro keeps_attempt keeps_in_crate) (simp add: permitted_invariant_def)
qed

text \<open>What is done with a message, after the authorization for it.\<close>

lemma safe_message:
  fixes A :: "('x, 'c, 'f, 'p) ScopedFileSystemSocketAuthorizer" and rest :: "(('c, 'f) fs_tables \<times> 'x, nat, unit) op"
  assumes P: "permitted_invariant A K token resource_id I" and rest: "keeps (socket_invariant A I) rest"
    and J: "socket_invariant A I s0" "socket_invariant A I s"
    and authorized: "socket_authorize A token resource_id s0 = (Inr access, s)"
  shows "safe (socket_invariant A I) (await (in_crate (unix_time_seconds (sfa_web A))) (\<lambda>now.
      if \<not> now < ssa_expires_at access then ok () else
      await (answer A K access message) (\<lambda>response.
      await (attempt_op (in_crate (send_response K response))) (\<lambda>sent.
      case sent of Inl _ \<Rightarrow> ok () | Inr _ \<Rightarrow> rest)))) s"
proof (rule safe_await, goal_cases)
  case 1
  from keeps_socket_parts(1) [OF P] J(2) show ?case by (rule keeps_safe)
next
  case (2 now s1)
  have after: "keeps (socket_invariant A I) (await (attempt_op (in_crate (send_response K response))) (\<lambda>sent.
      case sent of Inl _ \<Rightarrow> ok () | Inr _ \<Rightarrow> rest))" for response
    by (intro keeps_await keeps_socket_parts [OF P]) (auto simp: keeps_ok rest split: sum.split)
  from socket_time_returns [OF 2(1)] authorized J(1) socket_authorize_access [of A s0, OF _ authorized]
  have "authorized_now A token resource_id access (snd s1)" if "now < ssa_expires_at access"
    unfolding authorized_now_def socket_invariant_def
    using that by (metis surjective_pairing)
  then have "safe (socket_invariant A I) (await (answer A K access message) (\<lambda>response.
      await (attempt_op (in_crate (send_response K response))) (\<lambda>sent. case sent of Inl _ \<Rightarrow> ok () | Inr _ \<Rightarrow> rest))) s1"
    if "now < ssa_expires_at access"
    using that by - (rule safe_await [OF safe_answer [OF P _ 2(2)]], simp, rule keeps_safe [OF after])
  with 2(2) show ?case by (simp add: safe_ok)
qed

lemma keeps_serve_socket:
  fixes A :: "('x, 'c, 'f, 'p) ScopedFileSystemSocketAuthorizer"
  assumes P: "permitted_invariant A K token resource_id I"
  shows "keeps (socket_invariant A I) (serve_socket A K token resource_id messages access :: (_, nat, unit) op)"
proof (induction messages arbitrary: access)
  case Nil
  show ?case by (simp add: keeps_await keeps_socket_parts [OF P] keeps_ok)
next
  case (Cons m messages)
  let ?message = "\<lambda>message access. await (in_crate (unix_time_seconds (sfa_web A))) (\<lambda>now.
      if \<not> now < ssa_expires_at access then ok () else
      await (answer A K access message) (\<lambda>response.
      await (attempt_op (in_crate (send_response K response))) (\<lambda>sent.
      case sent of Inl _ \<Rightarrow> ok () | Inr _ \<Rightarrow> serve_socket A K token resource_id messages access))) :: (_, nat, unit) op"
  have "safe (socket_invariant A I) (await (attempt_op (socket_authorize A token resource_id)) (\<lambda>authorized.
      case authorized of Inl _ \<Rightarrow> ok () | Inr access \<Rightarrow> ?message message access)) s" if "socket_invariant A I s" for message s
  proof (rule safe_await, goal_cases)
    case 1
    from keeps_attempt [OF keeps_socket_parts(2) [OF P]] that show ?case by (rule keeps_safe)
  next
    case (2 authorized s')
    then show ?case
      using that by (cases authorized) (auto simp: safe_ok attempt_returns intro!: safe_message [OF P Cons.IH that])
  qed
  then have "keeps (socket_invariant A I) (await (attempt_op (socket_authorize A token resource_id)) (\<lambda>authorized.
      case authorized of Inl _ \<Rightarrow> ok () | Inr access \<Rightarrow> ?message message access))" for message
    by (rule safe_keeps)
  then show ?case by (auto intro!: keeps_await keeps_socket_parts [OF P] simp: keeps_ok split: socket_message.split)
qed

section \<open>Examples\<close>

text \<open>An identity provider that answers for every token with a reading authorization of a user for the application 5.\<close>

definition reader_claims :: StandardClaims where
  "reader_claims = \<lparr>claim_type = Bearer, claim_use = UseAccess, claim_exp = 2000, claim_iat = 900, claim_nbf = 900,
    claim_iss = ''https://idp'', claim_aud = ''storage'', claim_client_id = ''app'', claim_sub = ''alice'',
    claim_principal_type = PrincipalUser, claim_resource = Some ''storage'',
    claim_authorization_details = Some [Storage \<lparr>detail_actions = [StorageAuthorizationAction.Read]\<rparr>], claim_scope = [''storage'']\<rparr>"

definition reader_web :: "'w storage_web" where
  "reader_web = \<lparr>sw_web = \<lparr>parse_url = (\<lambda>_. None), join_url = (\<lambda>u p. Inr u),
      push_segment = (\<lambda>u s. Some u), ip_is_loopback = (\<lambda>_. False), build_client = Inr (),
      send = (\<lambda>rq. ok \<lparr>rs_status = 200, rs_chunks = []\<rparr>), status_error = (\<lambda>_. []), token_from_json = (\<lambda>_. Inl []),
      introspection_from_json = (\<lambda>_. Inr \<lparr>is_claims = reader_claims, is_application_id = ''5''\<rparr>),
      endpoint_from_json = (\<lambda>_. Inl []), resource_from_json = (\<lambda>_. Inl []), devices_from_json = (\<lambda>_. Inl []),
      trusted_from_json = (\<lambda>_. Inl []), jwks_from_json = (\<lambda>_. Inl []),
      system_time = Pair 1000000000000, time_checked_add = (\<lambda>_ _. None),
      cached_token = ok (Some \<lparr>ct_value = ''service'', ct_valid_until = 2000000000000\<rparr>), store_token = (\<lambda>_. ok ()),
      web_parse_uuid = (\<lambda>s. if s = ''5'' then Some 5 else None), web_show_uuid = (\<lambda>u. ''5''), web_crypto = mem_crypto\<rparr>,
    sw_show_url = (\<lambda>_. []), sw_push_segments = (\<lambda>u _. Some u), sw_endpoints_from_json = (\<lambda>_. Inl []),
    sw_selected_from_json = (\<lambda>_. Inl []), sw_parse_endpoint = (\<lambda>_. None), sw_show_endpoint = (\<lambda>_. [])\<rparr>"

definition reader_client :: IdpClient where
  "reader_client = \<lparr>ic_base_url = \<lparr>url_scheme = ''https'', url_host = Some ''idp'', url_query = None, url_fragment = None,
      url_username = [], url_password = None, url_path = ''/''\<rparr>,
    ic_client_id = ''storage'', ic_client_secret = ''s'', ic_issuer = ''https://idp'', ic_audience = ''idp''\<rparr>"

lemma reader_simps: "system_time (sw_web reader_web) = Pair 1000000000000"
    "web_parse_uuid (sw_web reader_web) = (\<lambda>s. if s = ''5'' then Some 5 else None)"
  by (simp_all add: reader_web_def)

lemma reader_introspect: "client_introspect reader_web C token x = (Inr \<lparr>is_claims = reader_claims, is_application_id = ''5''\<rparr>, x)"
  by (simp add: client_introspect_def storage_service_token_def reader_web_def fresh_def RENEWAL_MARGIN_def is_success_def
      read_limited_body_def MAX_RESPONSE_SIZE_def op_defs Let_def)

lemma reader_authorized: "authorize_storage_token reader_web C token x = (Inr \<lparr>sa_subject = ''alice'', sa_application_id = ''5'',
    sa_resource = ''storage'', sa_expires_at = 2000, sa_can_read = True, sa_can_write = False\<rparr>, x)"
  by (simp add: authorize_storage_token_def reader_introspect storage_authorization_def unix_time_seconds_def clock_seconds_def
      reader_claims_def reader_simps op_defs Let_def)

definition reader_state :: "(uuid, string, string, string, unit, unit, unit) StorageState" where
  "reader_state = \<lparr>sst_web = reader_web, sst_idp_client = Some reader_client, sst_databases = Some (ex_engine, ''data''),
    sst_file_systems = None\<rparr>"

definition reader_machine :: "(uuid, string, string, unit, unit) storage_world" where
  "reader_machine = (ex_machine\<lparr>files := [path_join (namespace_dir ''databases'' (\<lambda>i. decimal (unat i)) ''data'' ex_scope) ''catalog.json''
      \<mapsto> [1]]\<rparr>, no_tables)"

lemma reader_lists: "fst (resource_router reader_state (Some (Inr ''Bearer t'')) ListDatabases reader_machine)
    = Inr (Databases [\<lparr>res_id = 7, res_name = None\<rparr>])"
proof -
  have t: "token_namespace reader_state (Some (Inr ''Bearer t'')) s = (Inr (ex_scope, True, False), s)" for s
    by (simp add: token_namespace_def in_net_def in_databases_def in_outside_def authorization_def bearer_token_def reader_state_def
        reader_authorized namespace_of_def ex_scope_def reader_simps op_defs)
  have "catalog_path ex_engine ''data'' ex_scope
      = Inr (path_join (namespace_dir ''databases'' (\<lambda>i. decimal (unat i)) ''data'' ex_scope) ''catalog.json'')"
    by (simp add: catalog_path_def ex_engine_def ex_scope_def subject_ok_def subject_byte_def)
  then have "catalog_list ex_engine ''data'' ex_scope (fst reader_machine)
      = (Inr [\<lparr>res_id = 7, res_name = None\<rparr>], (fst reader_machine)\<lparr>outcomes := [None, None, Some (''disk full'', 1)]\<rparr>)"
    by (simp add: catalog_list_def catalog_guard_def lock_guard_def read_catalog_def attempt_op_def reader_machine_def
        fs_read_def system_call_def outcome_def ex_machine_def op_defs ex_engine_def ex_catalog_def ex_record_def)
  moreover have "sst_databases reader_state = Some (ex_engine, ''data'')" by (simp add: reader_state_def)
  ultimately show ?thesis
    by (simp add: list_databases_def t in_databases_def await_def map_err_def lift_def ok_or_def ok_def)
qed

text \<open>A file system that counts its writes, and a socket whose messages all ask for a write.\<close>

definition counting_sockets :: "(nat, string, string \<times> uuid, unit) ScopedFileSystemSocketAuthorizer" where
  "counting_sockets = \<lparr>sfa_web = reader_web, sfa_idp_client = reader_client,
    sfa_file_systems = plain_file_systems\<lparr>fs_parse_id := (\<lambda>_. Some 7), fs_write_file := (\<lambda>f p b x. (Inl FsNotFound, Suc x))\<rparr>,
    sfa_root = ''data'', sfa_local_peer = ()\<rparr>"

definition writing_socket :: "nat socket" where
  "writing_socket = \<lparr>so_request_from_json = (\<lambda>_. Inr (StorageRequest.Write ''f'' [])), so_response_to_json = (\<lambda>_. Inr []), so_send = (\<lambda>_. ok ())\<rparr>"

lemma counting_simps: "sfa_web counting_sockets = reader_web" "sfa_idp_client counting_sockets = reader_client"
    "fs_parse_id (sfa_file_systems counting_sockets) = (\<lambda>_. Some 7)" "fsc_open (sfa_file_systems counting_sockets) = ok"
    "fsc_open_filesystem (sfa_file_systems counting_sockets) = (\<lambda>c i p. ok (c, i))"
    "fs_set_residency (sfa_file_systems counting_sockets) = (\<lambda>f p r. ok ())"
  by (simp_all add: counting_sockets_def plain_file_systems_def fun_eq_iff)

lemma counting_permitted: "permitted_invariant counting_sockets writing_socket ''t'' ''7'' (\<lambda>writes. writes = 0)"
proof -
  have readonly: "\<not> ssa_write access" if "authorized_now counting_sockets ''t'' ''7'' access x" for access x
  proof -
    from that obtain x0 ns where "token_grants (sfa_web counting_sockets) (sfa_idp_client counting_sockets) ''t'' x0 ns
        (ssa_read access) (ssa_write access) (ssa_expires_at access)"
      by (auto simp: authorized_now_def socket_access_def)
    then show ?thesis by (auto simp: token_grants_def counting_simps reader_introspect reader_claims_def)
  qed
  have "keeps (\<lambda>s. snd s = 0) (socket_authorize counting_sockets ''t'' ''7'')"
    unfolding keeps_def
    by (auto simp: socket_authorize_def counting_simps in_crate_def reader_authorized reader_simps op_defs Let_def
        open_resource_def catalog_def in_tables_def read_tables_def crate_call_def attempt_op_def storage_namespace_id_def
        split: prod.splits sum.splits option.splits if_splits)
  moreover have "snd (execute_session (sfa_file_systems counting_sockets) (ssa_session access) request 0 :: (nat + _) \<times> nat) = 0"
    if "authorized_now counting_sockets ''t'' ''7'' access x" "allows access request" for access request x
    using that(2) readonly [OF that(1)]
    by (cases request) (auto simp: allows_def execute_session_def execute_def storage_entry_def counting_sockets_def plain_file_systems_def
        attempt_op_def op_defs Let_def split: prod.splits sum.splits)
  ultimately show ?thesis
    by (auto simp: permitted_invariant_def counting_simps reader_simps send_response_def writing_socket_def keeps_def op_defs)
qed

section \<open>Properties\<close>



text \<open>C10: A message on the socket of a file system is executed only if the token, introspected again for this message, still
  grants that kind of access in its namespace, the session is the file system of the requested identifier in that namespace, and
  the clock, read after the introspection, is before the expiry: any invariant of the outside world that such requests keep, with
  the authorizations themselves, the clock and the sending of answers, holds after any sequence of messages on the socket.\<close>

theorem storage_socket_guarded:
  assumes "permitted_invariant A K token resource_id I"
    and "scoped (sfa_file_systems A) (sfa_root A) (sfa_local_peer A) (fst s)" "I (snd s)"
  shows "case upgrade_socket A K token resource_id messages s of
    (r, s') \<Rightarrow> scoped (sfa_file_systems A) (sfa_root A) (sfa_local_peer A) (fst s') \<and> I (snd s')"
proof -
  have "keeps (socket_invariant A I) (upgrade_socket A K token resource_id messages)"
    unfolding upgrade_socket_def
    by (intro keeps_await keeps_map_err keeps_socket_parts [OF assms(1)] keeps_serve_socket [OF assms(1)])
  from keeps_safe [OF this, of s] assms(2,3) show ?thesis
    by (auto simp: safe_def socket_invariant_def split: prod.splits)
qed

theorem storage_socket_guarded_witness:
  "snd (snd (upgrade_socket counting_sockets writing_socket ''t'' ''7'' [Text ''w'', Text ''w''] (no_tables, 0))) = 0"
  using storage_socket_guarded [OF counting_permitted, of "(no_tables, 0)" "[Text ''w'', Text ''w'']"]
  by (auto simp: scoped_def no_tables_def split: prod.splits)

end
