(* ===== verification/Spec2Isabelle.thy ===== *)
theory Spec2Isabelle
  imports Enrollment Selection_Updates Oauth2_Properties Scopes Key_Vault Code_Single_Use Management_Access Idp_Access
    Storage_Access
begin

text \<open>
  Verification of the local-first identity, management and storage services of this
  repository.

  The program.  A device runs three services over one replicated SQL engine (the
  external crate \<open>ofdb_sql\<close>): an identity provider (\<open>crates/idp-*\<close>), a management
  service (\<open>crates/management-*\<close>: devices, selections, roles, permissions) and a
  storage service (\<open>crates/storage-*\<close>).  Rows replicate between devices, so that a
  column of a row may hold conflicting values until someone resolves them; the
  services refuse to use a row with unresolved conflicts.

  The theories.
  \<^item> \<open>Prelude\<close>: operations (state plus error), weakest preconditions, generic lemmas.
  \<^item> \<open>Rust_String\<close>: the string and byte functions of the Rust standard library.
  \<^item> \<open>Ofdb\<close>: values, rows, queries, the interface of the engine and its laws, and an
    executable engine that satisfies them.
  \<^item> \<open>Schema\<close>: the tables that the migrations create.
  \<^item> \<open>Contract\<close>: the data and errors the components exchange.
\<close>

end
